(* ===== verification/Nano_Prelude.thy ===== *)
theory Nano_Prelude
  imports Main "HOL-Library.AList" "HOL-Library.Char_ord" "HOL-Library.List_Lexorder"
begin

text \<open>
  Shared vocabulary of the NanoIDP development: the Python values the program computes with
  and the standard-library string operations it uses, plus the generic lemmas on them.

  \<^item> \<open>str\<close> is a Python string; a \<open>char\<close> stands for the code point with its number, so the
    strings of the model are those over the code points 0 to 255 (Latin-1).
  \<^item> \<open>dict\<close> is a Python dictionary: an association list in insertion order, updated in place
    by \<open>dset\<close>, as CPython does.
  \<^item> \<open>time\<close> is a clock reading in microseconds (the resolution of \<open>datetime\<close>).
  \<^item> \<open>json\<close> is a value of \<open>json.loads\<close> or of a JWT payload.

  The collection \<open>dict_simps\<close> holds the rules by which the simplifier computes with
  dictionaries.
\<close>

named_theorems dict_simps "lookup and update of Python dictionaries"

type_synonym str = string
type_synonym time = int
type_synonym ('k, 'v) dict = "('k \<times> 'v) list"

subsection \<open>Time\<close>

definition secs :: "int \<Rightarrow> time" where
  "secs n = n * 1000000"

definition to_secs :: "time \<Rightarrow> int" where
  "to_secs t = t div 1000000"

lemma to_secs_secs [simp]: "to_secs (secs n) = n"
  by (simp add: to_secs_def secs_def)

lemma secs_to_secs_le: "secs (to_secs t) \<le> t"
  by (simp add: to_secs_def secs_def)

lemma secs_mono [simp]: "secs a \<le> secs b \<longleftrightarrow> a \<le> b"
  by (simp add: secs_def)

lemma secs_less [simp]: "secs a < secs b \<longleftrightarrow> a < b"
  by (simp add: secs_def)

lemma secs_pos [simp]: "0 < secs n \<longleftrightarrow> 0 < n"
  by (simp add: secs_def)

subsection \<open>Dictionaries\<close>

definition dget :: "('k, 'v) dict \<Rightarrow> 'k \<Rightarrow> 'v option" where
  "dget d k = map_of d k"

definition dset :: "'k \<Rightarrow> 'v \<Rightarrow> ('k, 'v) dict \<Rightarrow> ('k, 'v) dict" where
  "dset k v d = AList.update k v d"

definition ddel :: "'k \<Rightarrow> ('k, 'v) dict \<Rightarrow> ('k, 'v) dict" where
  "ddel k d = AList.delete k d"

definition dhas :: "('k, 'v) dict \<Rightarrow> 'k \<Rightarrow> bool" where
  "dhas d k \<longleftrightarrow> dget d k \<noteq> None"

definition dfilter :: "('k \<Rightarrow> 'v \<Rightarrow> bool) \<Rightarrow> ('k, 'v) dict \<Rightarrow> ('k, 'v) dict" where
  \<comment> \<open>the loop that collects the keys to drop and deletes each\<close>
  "dfilter keep d = fold ddel (map fst (filter (\<lambda>(k, v). \<not> keep k v) d)) d"

fun dupdate :: "('k, 'v) dict \<Rightarrow> ('k, 'v) dict \<Rightarrow> ('k, 'v) dict" where
  \<comment> \<open>\<open>d.update(e)\<close>\<close>
  "dupdate d [] = d"
| "dupdate d ((k, v) # e) = dupdate (dset k v d) e"

definition dict_wf :: "('k, 'v) dict \<Rightarrow> bool" where
  "dict_wf d \<longleftrightarrow> distinct (map fst d)"

lemma dget_Nil [simp, dict_simps]: "dget [] k = None"
  by (simp add: dget_def)

lemma dget_Cons [dict_simps]: "dget ((k', v) # d) k = (if k = k' then Some v else dget d k)"
  by (simp add: dget_def)

lemma dget_dset [simp, dict_simps]: "dget (dset k v d) k' = (if k' = k then Some v else dget d k')"
  by (simp add: dget_def dset_def update_conv')

lemma dget_ddel [simp, dict_simps]: "dget (ddel k d) k' = (if k' = k then None else dget d k')"
  by (simp add: dget_def ddel_def delete_conv')

lemma dset_same: "dget d k = Some v \<Longrightarrow> dset k v d = d"
  by (induction d) (auto simp: dget_def dset_def split: if_splits)

lemma ddel_absent: "dget d k = None \<Longrightarrow> ddel k d = d"
  by (induction d) (auto simp: dget_def ddel_def split: if_splits)

lemma ddel_filter: "ddel k d = filter (\<lambda>(k', v). k' \<noteq> k) d"
  by (induction d) (auto simp: ddel_def)

lemma dhas_dset [simp, dict_simps]: "dhas (dset k v d) k' \<longleftrightarrow> k' = k \<or> dhas d k'"
  by (simp add: dhas_def)

lemma dhas_ddel [simp, dict_simps]: "dhas (ddel k d) k' \<longleftrightarrow> k' \<noteq> k \<and> dhas d k'"
  by (simp add: dhas_def)

lemma dict_wf_Nil [simp]: "dict_wf []"
  by (simp add: dict_wf_def)

lemma dict_wf_dset [simp]: "dict_wf d \<Longrightarrow> dict_wf (dset k v d)"
  by (simp add: dict_wf_def dset_def distinct_update)

lemma dict_wf_ddel [simp]: "dict_wf d \<Longrightarrow> dict_wf (ddel k d)"
  by (simp add: dict_wf_def ddel_def distinct_delete)

lemma dict_wf_fold_ddel: "dict_wf d \<Longrightarrow> dict_wf (fold ddel ks d)"
  by (induction ks arbitrary: d) auto

lemma dict_wf_dfilter [simp]: "dict_wf d \<Longrightarrow> dict_wf (dfilter keep d)"
  by (simp add: dfilter_def dict_wf_fold_ddel)

lemma dget_fold_ddel: "dget (fold ddel ks d) k = (if k \<in> set ks then None else dget d k)"
  by (induction ks arbitrary: d) auto

lemma dget_in_set: "dget d k = Some v \<Longrightarrow> (k, v) \<in> set d"
  by (simp add: dget_def map_of_SomeD)

lemma in_set_dget: "dict_wf d \<Longrightarrow> (k, v) \<in> set d \<Longrightarrow> dget d k = Some v"
  by (simp add: dget_def dict_wf_def)

lemma dget_dfilter [dict_simps]:
  assumes "dict_wf d"
  shows "dget (dfilter keep d) k =
    (case dget d k of None \<Rightarrow> None | Some v \<Rightarrow> if keep k v then Some v else None)"
proof -
  have "k \<in> set (map fst (filter (\<lambda>(k, v). \<not> keep k v) d)) \<longleftrightarrow>
      (\<exists>v. dget d k = Some v \<and> \<not> keep k v)"
    using assms by (force dest: dget_in_set in_set_dget)
  then show ?thesis
    by (auto simp: dfilter_def dget_fold_ddel split: option.splits)
qed

lemma length_dset: "length (dset k v d) = (if dhas d k then length d else Suc (length d))"
  by (induction d) (auto simp: dset_def dhas_def dget_def split: if_splits)

lemma length_ddel_le: "length (ddel k d) \<le> length d"
  by (simp add: ddel_def length_delete_le)

lemma length_fold_ddel_le: "length (fold ddel ks d) \<le> length d"
proof (induction ks arbitrary: d)
  case (Cons k ks)
  have "length (fold ddel ks (ddel k d)) \<le> length (ddel k d)" by (rule Cons.IH)
  also have "\<dots> \<le> length d" by (rule length_ddel_le)
  finally show ?case by simp
qed simp

lemma length_dfilter_le: "length (dfilter keep d) \<le> length d"
  by (simp add: dfilter_def length_fold_ddel_le)

lemma dget_dupdate: "dget (dupdate d e) k =
    (case map_of (rev e) k of None \<Rightarrow> dget d k | Some v \<Rightarrow> Some v)"
  by (induction d e rule: dupdate.induct) (auto simp: map_add_def split: option.splits)

lemma dict_wf_dupdate [simp]: "dict_wf d \<Longrightarrow> dict_wf (dupdate d e)"
  by (induction d e rule: dupdate.induct) auto

lemma dict_wf_map_of_rev: "dict_wf e \<Longrightarrow> map_of (rev e) = map_of e"
  by (subst map_of_inject_set) (simp_all add: dict_wf_def rev_map [symmetric])

lemma dget_dupdate_wf: "dict_wf e \<Longrightarrow> dget (dupdate d e) k =
    (case dget e k of None \<Rightarrow> dget d k | Some v \<Rightarrow> Some v)"
  by (simp add: dget_dupdate dict_wf_map_of_rev) (simp add: dget_def)

subsection \<open>JSON values and truthiness\<close>

datatype json =
    JNull
  | JBool bool
  | JInt int
  | JDec int nat \<comment> \<open>a finite float, as mantissa and number of decimals\<close>
  | JStr str
  | JList "json list"
  | JObj "(str \<times> json) list"

definition truthy :: "'a list \<Rightarrow> bool" where
  \<comment> \<open>Python's truth value of a string, list or dictionary\<close>
  "truthy xs \<longleftrightarrow> xs \<noteq> []"

fun json_true :: "json \<Rightarrow> bool" where
  "json_true JNull = False"
| "json_true (JBool b) = b"
| "json_true (JInt i) = (i \<noteq> 0)"
| "json_true (JDec m e) = (m \<noteq> 0)"
| "json_true (JStr s) = (s \<noteq> [])"
| "json_true (JList xs) = (xs \<noteq> [])"
| "json_true (JObj d) = (d \<noteq> [])"

definition jopt :: "str option \<Rightarrow> json" where
  \<comment> \<open>an optional string as a JSON value\<close>
  "jopt x = (case x of None \<Rightarrow> JNull | Some s \<Rightarrow> JStr s)"

definition jstrs :: "str list \<Rightarrow> json" where
  "jstrs xs = JList (map JStr xs)"

definition or_none :: "'a list \<Rightarrow> 'a list option" where
  \<comment> \<open>\<open>x or None\<close>\<close>
  "or_none xs = (if xs = [] then None else Some xs)"

definition opt_true :: "'a list option \<Rightarrow> bool" where
  \<comment> \<open>truth value of an optional string or list\<close>
  "opt_true x \<longleftrightarrow> x \<noteq> None \<and> x \<noteq> Some []"

lemma opt_true_simps [simp]:
  "\<not> opt_true None" "opt_true (Some xs) \<longleftrightarrow> xs \<noteq> []"
  by (auto simp: opt_true_def)

lemma or_none_eq_None [simp]: "or_none xs = None \<longleftrightarrow> xs = []"
  by (simp add: or_none_def)

lemma or_none_eq_Some [simp]: "or_none xs = Some ys \<longleftrightarrow> xs = ys \<and> ys \<noteq> []"
  by (auto simp: or_none_def)

fun json_is_str :: "json \<Rightarrow> bool" where
  "json_is_str (JStr s) = True"
| "json_is_str _ = False"

fun json_str :: "json \<Rightarrow> str" where
  "json_str (JStr s) = s"
| "json_str _ = []"

subsection \<open>String methods\<close>

definition is_space :: "char \<Rightarrow> bool" where
  \<comment> \<open>\<open>str.isspace\<close> on the code points below 256\<close>
  "is_space c \<longleftrightarrow> c \<in> set [CHR 0x09, CHR 0x0A, CHR 0x0B, CHR 0x0C, CHR 0x0D, CHR 0x1C, CHR 0x1D,
     CHR 0x1E, CHR 0x1F, CHR 0x20, CHR 0x85, CHR 0xA0]"

fun split_go :: "str \<Rightarrow> str \<Rightarrow> str list" where
  "split_go cur [] = (if cur = [] then [] else [rev cur])"
| "split_go cur (c # cs) =
     (if is_space c then (if cur = [] then split_go [] cs else rev cur # split_go [] cs)
      else split_go (c # cur) cs)"

definition py_split :: "str \<Rightarrow> str list" where
  \<comment> \<open>\<open>s.split()\<close>\<close>
  "py_split s = split_go [] s"

definition py_strip :: "str \<Rightarrow> str" where
  \<comment> \<open>\<open>s.strip()\<close>\<close>
  "py_strip s = rev (dropWhile is_space (rev (dropWhile is_space s)))"

fun join :: "str \<Rightarrow> str list \<Rightarrow> str" where
  \<comment> \<open>\<open>sep.join(xs)\<close>\<close>
  "join sep [] = []"
| "join sep [x] = x"
| "join sep (x # y # xs) = x @ sep @ join sep (y # xs)"

definition upper_char :: "char \<Rightarrow> str" where
  "upper_char c = (let n = of_char c :: nat in
     if (97 \<le> n \<and> n \<le> 122) \<or> (224 \<le> n \<and> n \<le> 254 \<and> n \<noteq> 247) then [char_of (n - 32)]
     else if n = 223 then ''SS'' else [c])"

definition py_upper :: "str \<Rightarrow> str" where
  \<comment> \<open>\<open>s.upper()\<close>; the two code points 181 and 255, whose upper case is not Latin-1, are kept\<close>
  "py_upper s = concat (map upper_char s)"

definition starts_with :: "str \<Rightarrow> str \<Rightarrow> bool" where
  \<comment> \<open>\<open>s.startswith(p)\<close>\<close>
  "starts_with s p \<longleftrightarrow> take (length p) s = p"

definition py_rstrip_char :: "char \<Rightarrow> str \<Rightarrow> str" where
  \<comment> \<open>\<open>s.rstrip(c)\<close>\<close>
  "py_rstrip_char c s = rev (dropWhile (\<lambda>x. x = c) (rev s))"

definition sorted_set :: "str list \<Rightarrow> str list" where
  \<comment> \<open>\<open>sorted({...})\<close>\<close>
  "sorted_set xs = sort (remdups xs)"

lemma set_sorted_set [simp]: "set (sorted_set xs) = set xs"
  by (simp add: sorted_set_def)

lemma sorted_set_eq_Nil [simp]: "sorted_set xs = [] \<longleftrightarrow> xs = []"
  using set_sorted_set [of xs] by (metis set_empty)

definition token_ok :: "str \<Rightarrow> bool" where
  \<comment> \<open>a non-empty string without white space\<close>
  "token_ok t \<longleftrightarrow> t \<noteq> [] \<and> (\<forall>c \<in> set t. \<not> is_space c)"

lemma split_go_tokens: "(\<forall>c \<in> set cur. \<not> is_space c) \<Longrightarrow> t \<in> set (split_go cur s) \<Longrightarrow> token_ok t"
proof (induction s arbitrary: cur)
  case Nil
  then show ?case by (auto simp: token_ok_def split: if_splits)
next
  case (Cons c s)
  show ?case
  proof (cases "is_space c")
    case True
    with Cons.prems(2) have "(t = rev cur \<and> cur \<noteq> []) \<or> t \<in> set (split_go [] s)"
      by (auto split: if_splits)
    then show ?thesis
    proof
      assume "t = rev cur \<and> cur \<noteq> []"
      with Cons.prems(1) show ?thesis by (simp add: token_ok_def)
    next
      assume "t \<in> set (split_go [] s)"
      then show ?thesis by (rule Cons.IH [rotated]) simp
    qed
  next
    case False
    with Cons.prems show ?thesis by (intro Cons.IH [of "c # cur"]) auto
  qed
qed

lemma py_split_tokens: "t \<in> set (py_split s) \<Longrightarrow> token_ok t"
  unfolding py_split_def using split_go_tokens [of "[]" t s] by auto

lemma split_go_append:
  "(\<forall>c \<in> set w. \<not> is_space c) \<Longrightarrow> split_go cur (w @ s) = split_go (rev w @ cur) s"
  by (induction w arbitrary: cur) auto

lemma py_split_join: "\<forall>t \<in> set ts. token_ok t \<Longrightarrow> py_split (join '' '' ts) = ts"
proof (induction ts rule: induct_list012)
  case (2 x)
  then show ?case using split_go_append [of x "[]" "[]"] by (auto simp: py_split_def token_ok_def)
next
  case (3 x y zs)
  have "py_split (join '' '' (x # y # zs)) = split_go (rev x) ('' '' @ join '' '' (y # zs))"
    using 3(3) split_go_append [of x "[]"] by (simp add: py_split_def token_ok_def)
  also have "\<dots> = x # py_split (join '' '' (y # zs))"
    using 3(3) by (simp add: py_split_def token_ok_def is_space_def)
  also have "\<dots> = x # y # zs" using 3 by simp
  finally show ?case .
qed (simp add: py_split_def)

lemma py_split_Nil [simp]: "py_split [] = []"
  by (simp add: py_split_def)

subsection \<open>Numbers in strings\<close>

definition is_digit :: "char \<Rightarrow> bool" where
  "is_digit c \<longleftrightarrow> 48 \<le> (of_char c :: nat) \<and> (of_char c :: nat) \<le> 57"

definition digit_val :: "char \<Rightarrow> int" where
  "digit_val c = int (of_char c) - 48"

fun digit_part :: "bool \<Rightarrow> int \<Rightarrow> str \<Rightarrow> int option" where
  \<comment> \<open>digits with single underscores between them; the flag says that the last was a digit\<close>
  "digit_part d acc [] = (if d then Some acc else None)"
| "digit_part d acc (c # cs) =
     (if is_digit c then digit_part True (10 * acc + digit_val c) cs
      else if c = CHR ''_'' \<and> d then digit_part False acc cs
      else None)"

definition num_space :: "char \<Rightarrow> bool" where
  "num_space c \<longleftrightarrow> c \<in> set [CHR 0x09, CHR 0x0A, CHR 0x0B, CHR 0x0C, CHR 0x0D, CHR 0x20, CHR 0x85, CHR 0xA0]"

definition num_strip :: "str \<Rightarrow> str" where
  "num_strip s = rev (dropWhile num_space (rev (dropWhile num_space s)))"

definition py_int :: "str \<Rightarrow> int option" where
  \<comment> \<open>\<open>int(s)\<close>; \<open>None\<close> is \<open>ValueError\<close>, also raised for more than 4300 digits\<close>
  "py_int s =
     (if 4300 < length (filter is_digit s) then None
      else case num_strip s of
        [] \<Rightarrow> None
      | c # cs \<Rightarrow>
          if c = CHR ''-'' then map_option uminus (digit_part False 0 cs)
          else if c = CHR ''+'' then digit_part False 0 cs
          else digit_part False 0 (c # cs))"

definition float_body :: "str \<Rightarrow> (int \<times> int) option" where
  \<comment> \<open>mantissa and decimal exponent of an unsigned decimal literal\<close>
  "float_body s =
     (let is_e = (\<lambda>c. c = CHR ''e'' \<or> c = CHR ''E'');
          mant = takeWhile (\<lambda>c. \<not> is_e c) s; rest = dropWhile (\<lambda>c. \<not> is_e c) s;
          ip = takeWhile (\<lambda>c. c \<noteq> CHR ''.'') mant; fp = drop 1 (dropWhile (\<lambda>c. c \<noteq> CHR ''.'') mant);
          part = (\<lambda>x. if x = [] then Some 0 else digit_part False 0 x);
          fd = int (length (filter is_digit fp));
          ex = (case rest of [] \<Rightarrow> Some 0
                | _ # x \<Rightarrow> (case x of [] \<Rightarrow> None
                    | c # cs \<Rightarrow> if c = CHR ''-'' then map_option uminus (digit_part False 0 cs)
                        else if c = CHR ''+'' then digit_part False 0 cs else digit_part False 0 x))
      in if ip = [] \<and> fp = [] then None
         else case (part ip, part fp, ex) of
           (Some a, Some b, Some e) \<Rightarrow> Some (a * 10 ^ nat fd + b, e - fd)
         | _ \<Rightarrow> None)"

subsection \<open>Letters\<close>

definition lower_char :: "char \<Rightarrow> char" where
  "lower_char c = (let n = of_char c :: nat in
     if (65 \<le> n \<and> n \<le> 90) \<or> (192 \<le> n \<and> n \<le> 222 \<and> n \<noteq> 215) then char_of (n + 32) else c)"

definition py_lower :: "str \<Rightarrow> str" where
  "py_lower s = map lower_char s"

definition is_alpha :: "char \<Rightarrow> bool" where
  "is_alpha c \<longleftrightarrow> (let n = of_char c :: nat in (65 \<le> n \<and> n \<le> 90) \<or> (97 \<le> n \<and> n \<le> 122))"

subsection \<open>Numbers as text\<close>

fun show_nat :: "nat \<Rightarrow> str" where
  "show_nat n = (if n < 10 then [char_of (48 + n)] else show_nat (n div 10) @ [char_of (48 + n mod 10)])"

declare show_nat.simps [simp del]

definition show_int :: "int \<Rightarrow> str" where
  \<comment> \<open>\<open>str(n)\<close>\<close>
  "show_int i = (if i < 0 then ''-'' @ show_nat (nat (- i)) else show_nat (nat i))"

lemma digit_part_digits:
  "\<forall>c \<in> set ds. is_digit c \<Longrightarrow>
    digit_part d acc (ds @ rest) = digit_part (d \<or> ds \<noteq> []) (foldl (\<lambda>a c. 10 * a + digit_val c) acc ds) rest"
  by (induction ds arbitrary: d acc) auto

subsection \<open>Lines\<close>

definition is_line_end :: "char \<Rightarrow> bool" where
  \<comment> \<open>where \<open>str.splitlines\<close> splits, below 256\<close>
  "is_line_end c \<longleftrightarrow> c \<in> set [CHR 0x0A, CHR 0x0B, CHR 0x0C, CHR 0x0D, CHR 0x1C, CHR 0x1D, CHR 0x1E, CHR 0x85]"

fun splitlines :: "str \<Rightarrow> str \<Rightarrow> str list" where
  \<comment> \<open>with the line read so far, in reverse\<close>
  "splitlines acc [] = (if acc = [] then [] else [rev acc])"
| "splitlines acc [c] = (if is_line_end c then [rev acc] else [rev (c # acc)])"
| "splitlines acc (c # d # s) =
     (if c = CHR 0x0D \<and> d = CHR 0x0A then rev acc # splitlines [] s
      else if is_line_end c then rev acc # splitlines [] (d # s)
      else splitlines (c # acc) (d # s))"

end
