(* ===== verification/Store_Contracts.thy ===== *)
theory Store_Contracts
  imports Nano_Prelude
begin

text \<open>
  The contracts the in-memory stores of \<open>services/\<close> share, as locales. Each store interprets
  them on its own operations, in its own theory.

  \<^item> \<open>expiring_store\<close>: a store that sweeps the entries whose time has come.
  \<^item> \<open>blocking\<close>: a store that remembers spent keys and refuses them from then on.
  \<^item> \<open>one_time\<close>: a blocking store whose successful redemption spends the key, so that a key
    is redeemed at most once whatever operations are interleaved (the store's lock makes each
    operation one step).
\<close>

subsection \<open>Runs of operations\<close>

fun run :: "('op \<Rightarrow> 's \<Rightarrow> 'out \<times> 's) \<Rightarrow> 'op list \<Rightarrow> 's \<Rightarrow> 's" where
  "run step [] s = s"
| "run step (x # xs) s = run step xs (snd (step x s))"

fun outs :: "('op \<Rightarrow> 's \<Rightarrow> 'out \<times> 's) \<Rightarrow> 'op list \<Rightarrow> 's \<Rightarrow> ('op \<times> 'out) list" where
  "outs step [] s = []"
| "outs step (x # xs) s = (x, fst (step x s)) # outs step xs (snd (step x s))"

definition wins_in :: "('op \<Rightarrow> 's \<Rightarrow> 'out \<times> 's) \<Rightarrow> ('op \<Rightarrow> 'out \<Rightarrow> bool) \<Rightarrow> 'op list \<Rightarrow> 's \<Rightarrow> nat" where
  "wins_in step win xs s = length (filter (\<lambda>(x, r). win x r) (outs step xs s))"

lemma run_append: "run step (xs @ ys) s = run step ys (run step xs s)"
  by (induction xs arbitrary: s) auto

lemma wins_in_Nil [simp]: "wins_in step win [] s = 0"
  by (simp add: wins_in_def)

lemma wins_in_Cons [simp]:
  "wins_in step win (x # xs) s =
     (if win x (fst (step x s)) then 1 else 0) + wins_in step win xs (snd (step x s))"
  by (simp add: wins_in_def)

subsection \<open>Stores with expiry\<close>

locale expiring_store =
  fixes entry :: "'s \<Rightarrow> 'k \<Rightarrow> 'v option"
    and sweep :: "time \<Rightarrow> 's \<Rightarrow> 's"
    and expired :: "time \<Rightarrow> 'v \<Rightarrow> bool"
    and wf :: "'s \<Rightarrow> bool"
  assumes entry_sweep: "wf s \<Longrightarrow> entry (sweep t s) k =
      (case entry s k of None \<Rightarrow> None | Some v \<Rightarrow> if expired t v then None else Some v)"
    and wf_sweep: "wf s \<Longrightarrow> wf (sweep t s)"
    and expired_mono: "expired t v \<Longrightarrow> t \<le> t' \<Longrightarrow> expired t' v"
begin

lemma sweep_keeps_live:
  "wf s \<Longrightarrow> entry s k = Some v \<Longrightarrow> \<not> expired t v \<Longrightarrow> entry (sweep t s) k = Some v"
  by (simp add: entry_sweep)

lemma sweep_drops_expired:
  "wf s \<Longrightarrow> entry (sweep t s) k = Some v \<Longrightarrow> entry s k = Some v \<and> \<not> expired t v"
  by (auto simp: entry_sweep split: option.splits if_splits)

lemma sweep_absorb:
  assumes "wf s" "t \<le> t'"
  shows "entry (sweep t' (sweep t s)) k = entry (sweep t' s) k"
  using assms by (auto simp: entry_sweep wf_sweep split: option.splits dest: expired_mono)

lemma sweep_idem: "wf s \<Longrightarrow> entry (sweep t (sweep t s)) k = entry (sweep t s) k"
  by (simp add: sweep_absorb)

end

subsection \<open>Blocked keys and one-time redemption\<close>

text \<open>
  \<open>blocking\<close> is what a denial list promises: once a key is spent it stays spent under the
  allowed operations and no allowed operation succeeds for it. \<open>one_time\<close> adds that success
  itself spends the key.
\<close>

locale blocking =
  fixes step :: "'op \<Rightarrow> 's \<Rightarrow> 'out \<times> 's"
    and wf :: "'s \<Rightarrow> bool"
    and allowed :: "'k \<Rightarrow> 'op \<Rightarrow> bool"
    and win :: "'k \<Rightarrow> 'op \<Rightarrow> 'out \<Rightarrow> bool"
    and spent :: "'k \<Rightarrow> 's \<Rightarrow> bool"
  assumes wf_step: "wf s \<Longrightarrow> wf (snd (step x s))"
    and spent_stays: "wf s \<Longrightarrow> allowed k x \<Longrightarrow> spent k s \<Longrightarrow> spent k (snd (step x s))"
    and spent_loses: "wf s \<Longrightarrow> allowed k x \<Longrightarrow> spent k s \<Longrightarrow> \<not> win k x (fst (step x s))"
begin

lemma wf_run: "wf s \<Longrightarrow> wf (run step xs s)"
  by (induction xs arbitrary: s) (auto simp: wf_step)

lemma spent_run: "wf s \<Longrightarrow> \<forall>x \<in> set xs. allowed k x \<Longrightarrow> spent k s \<Longrightarrow> spent k (run step xs s)"
  by (induction xs arbitrary: s) (auto simp: wf_step spent_stays)

lemma spent_no_wins:
  "wf s \<Longrightarrow> \<forall>x \<in> set xs. allowed k x \<Longrightarrow> spent k s \<Longrightarrow> wins_in step (win k) xs s = 0"
  by (induction xs arbitrary: s) (auto simp: wf_step spent_stays spent_loses)

end

locale one_time = blocking step wf allowed win spent
  for step :: "'op \<Rightarrow> 's \<Rightarrow> 'out \<times> 's"
    and wf :: "'s \<Rightarrow> bool"
    and allowed :: "'k \<Rightarrow> 'op \<Rightarrow> bool"
    and win :: "'k \<Rightarrow> 'op \<Rightarrow> 'out \<Rightarrow> bool"
    and spent :: "'k \<Rightarrow> 's \<Rightarrow> bool" +
  assumes win_spends: "wf s \<Longrightarrow> allowed k x \<Longrightarrow> win k x (fst (step x s)) \<Longrightarrow> spent k (snd (step x s))"
begin

lemma at_most_one_win:
  "wf s \<Longrightarrow> \<forall>x \<in> set xs. allowed k x \<Longrightarrow> wins_in step (win k) xs s \<le> 1"
  by (induction xs arbitrary: s) (auto simp: wf_step spent_no_wins win_spends)

end

end
