(* ===== verification/Nano_Models.thy ===== *)
theory Nano_Models
  imports Nano_Prelude
begin

text \<open>
  The configuration model (\<open>models.py\<close>) and the lookups and credential checks of
  \<open>ConfigManager\<close> (\<open>config.py\<close>): users, OAuth clients, the settings
  with their validators and profile-derived properties, and the third-party functions the
  program calls (record \<open>lib\<close>, a parameter of everything that uses it).
\<close>

subsection \<open>Users and clients\<close>

record user =
  u_username :: str
  u_password :: "str option"
  u_description :: str
  u_email :: str
  u_identity_class :: "str option"
  u_entitlements :: "str list"
  u_roles :: "str list"
  u_groups :: "str list"
  u_tenant :: str
  u_source_acl :: "str list"
  u_attributes :: "(str, json) dict"

definition validate_email :: "str \<Rightarrow> bool" where
  "validate_email v \<longleftrightarrow> \<not> (truthy v \<and> CHR ''@'' \<notin> set v)"

datatype auth_method = ClientSecretBasic | ClientSecretPost | AuthNone

record oauth_client =
  cl_client_id :: str
  cl_client_secret :: "str option"
  cl_auth_method :: auth_method
  cl_description :: str
  cl_background_color :: "str option"
  cl_header_color :: "str option"
  cl_footer_color :: "str option"
  cl_show_client_id :: bool
  cl_show_description :: bool
  cl_additional_audiences :: "str list"
  cl_redirect_uris :: "str list"
  cl_allowed_scopes :: "str list"
  cl_allowed_resources :: "str list"
  cl_layout :: str

definition is_public :: "oauth_client \<Rightarrow> bool" where
  "is_public c \<longleftrightarrow> cl_auth_method c = AuthNone"

definition client_has_needed_secret :: "oauth_client \<Rightarrow> bool" where
  "client_has_needed_secret c \<longleftrightarrow>
     \<not> (cl_auth_method c \<noteq> AuthNone \<and> \<not> opt_true (cl_client_secret c))"

subsection \<open>Settings\<close>

record settings =
  s_host :: str
  s_port :: int
  s_debug :: bool
  s_issuer :: str
  s_issuer_from_request :: bool
  s_issuer_allowlist :: "str list"
  s_device_verification_base_url :: "str option"
  s_issuer_from_proxy_headers :: bool
  s_audience :: str
  s_token_expiry_minutes :: int
  s_refresh_token_rotation :: bool
  s_clients :: "oauth_client list"
  s_scopes_supported :: "str list"
  s_scope_enforcement :: bool
  s_logos_dir :: "str option"
  s_saml_entity_id :: "str option"
  s_saml_sso_url :: "str option"
  s_default_acs_url :: str
  s_saml_sign_responses :: bool
  s_saml_export_roles :: bool
  s_saml_export_groups :: bool
  s_saml_roles_attr_name :: str
  s_saml_groups_attr_name :: str
  s_saml_c14n_algorithm :: str
  s_saml_want_authn_requests_signed :: bool
  s_saml_sp_certificates :: "str list"
  s_strict_saml_binding :: bool
  s_jwt_algorithm :: str
  s_keys_dir :: str
  s_authority_prefixes :: "(str, str) dict"
  s_allowed_identity_classes :: "str list"
  s_secret_key :: str
  s_require_ui_login :: bool
  s_enforce_password_check :: bool
  s_management_secret :: "str option"
  s_log_level :: str
  s_log_token_requests :: bool
  s_log_saml_requests :: bool
  s_verbose_logging :: bool
  s_login_mode :: str
  s_auto_login :: bool
  s_two_step :: bool
  s_security_profile :: str
  s_cors_allowed_origins :: "str list"
  s_rate_limit_enabled :: bool
  s_rate_limit_token_endpoint :: str
  s_password_hashing :: bool
  s_require_pkce :: bool
  s_external_private_key :: "str option"
  s_external_public_key :: "str option"
  s_external_key_id :: "str option"
  s_max_previous_keys :: nat

definition security_profiles :: "str list" where
  "security_profiles = [''dev'', ''stricter-dev'', ''oauth21'']"

definition default_scopes_supported :: "str list" where
  "default_scopes_supported = [''openid'', ''profile'', ''email'', ''offline_access'']"

definition validate_security_profile :: "str \<Rightarrow> str option" where
  "validate_security_profile v = (if v \<in> set security_profiles then Some v else None)"

definition validate_login_mode :: "str \<Rightarrow> str option" where
  "validate_login_mode v = (if v \<in> set [''password'', ''persona''] then Some v else None)"

definition printable_ascii :: "char \<Rightarrow> bool" where
  \<comment> \<open>\<open>isascii\<close> and \<open>isprintable\<close> together\<close>
  "printable_ascii c \<longleftrightarrow> 32 \<le> (of_char c :: nat) \<and> (of_char c :: nat) \<le> 126"

definition validate_management_secret :: "str option \<Rightarrow> str option option" where
  "validate_management_secret v =
     (case v of None \<Rightarrow> Some None
      | Some s \<Rightarrow> if list_all printable_ascii s then Some (Some s) else None)"

definition validate_issuer :: "str \<Rightarrow> str option" where
  "validate_issuer v =
     (if \<not> (starts_with v ''http://'' \<or> starts_with v ''https://'') then None
      else Some (py_rstrip_char CHR ''/'' v))"

definition pkce_required :: "settings \<Rightarrow> bool" where
  "pkce_required s \<longleftrightarrow> s_require_pkce s \<or> s_security_profile s = ''oauth21''"

definition pkce_plain_allowed :: "settings \<Rightarrow> bool" where
  "pkce_plain_allowed s \<longleftrightarrow> s_security_profile s \<notin> set [''stricter-dev'', ''oauth21'']"

definition rotation_enabled :: "settings \<Rightarrow> bool" where
  "rotation_enabled s \<longleftrightarrow> s_refresh_token_rotation s \<or> s_security_profile s = ''oauth21''"

definition password_grant_enabled :: "settings \<Rightarrow> bool" where
  "password_grant_enabled s \<longleftrightarrow> s_security_profile s \<noteq> ''oauth21''"

definition persona_mode_enabled :: "settings \<Rightarrow> bool" where
  "persona_mode_enabled s \<longleftrightarrow> s_login_mode s = ''persona''"

definition auto_login_enabled :: "settings \<Rightarrow> bool" where
  "auto_login_enabled s \<longleftrightarrow> persona_mode_enabled s \<and> s_auto_login s"

definition two_step_login_active :: "settings \<Rightarrow> bool" where
  "two_step_login_active s \<longleftrightarrow> s_two_step s \<and> \<not> persona_mode_enabled s"

definition scope_enforcement_active :: "settings \<Rightarrow> bool" where
  "scope_enforcement_active s \<longleftrightarrow> s_scope_enforcement s \<or> s_security_profile s \<noteq> ''dev''"

definition resolve_saml_entity_id :: "settings \<Rightarrow> str \<Rightarrow> str" where
  "resolve_saml_entity_id s issuer =
     (if opt_true (s_saml_entity_id s) then the (s_saml_entity_id s)
      else py_rstrip_char CHR ''/'' issuer @ ''/saml'')"

definition resolve_saml_sso_url :: "settings \<Rightarrow> str \<Rightarrow> str" where
  "resolve_saml_sso_url s issuer =
     (if opt_true (s_saml_sso_url s) then the (s_saml_sso_url s)
      else py_rstrip_char CHR ''/'' issuer @ ''/saml/sso'')"

text \<open>A profile is only as strict as its weakest surface: \<open>oauth21\<close> decides all five.\<close>

lemma oauth21_strict:
  assumes "s_security_profile s = ''oauth21''"
  shows "pkce_required s" "\<not> pkce_plain_allowed s" "rotation_enabled s"
    "\<not> password_grant_enabled s" "scope_enforcement_active s"
  using assms by (simp_all add: pkce_required_def pkce_plain_allowed_def rotation_enabled_def
      password_grant_enabled_def scope_enforcement_active_def)

subsection \<open>Third-party functions\<close>

datatype jwt_error = JwtExpired | JwtInvalid str

type_synonym claims = "(str, json) dict"

record lib =
  lib_checkpw :: "str \<Rightarrow> str \<Rightarrow> bool option" \<comment> \<open>bcrypt; \<open>None\<close>: not a bcrypt hash\<close>
  lib_jwt_encode :: "str \<Rightarrow> str \<Rightarrow> claims \<Rightarrow> str" \<comment> \<open>private key, kid, payload\<close>
  lib_jwt_decode :: "time \<Rightarrow> str \<Rightarrow> str list option \<Rightarrow> str \<Rightarrow> jwt_error + claims"
    \<comment> \<open>clock, public key, accepted audiences, token; requires \<open>exp\<close>\<close>
  lib_jwt_peek :: "str \<Rightarrow> claims option" \<comment> \<open>decoding without verification\<close>
  lib_json_loads :: "str \<Rightarrow> json option"
  lib_new_key :: "nat \<Rightarrow> str \<times> str" \<comment> \<open>RSA generation: private and public PEM\<close>
  lib_urlsafe :: "nat \<Rightarrow> str" \<comment> \<open>\<open>secrets.token_urlsafe(32)\<close>, by draw\<close>
  lib_uuid :: "nat \<Rightarrow> str" \<comment> \<open>\<open>uuid.uuid4()\<close>, by draw\<close>
  lib_user_code :: "nat \<Rightarrow> str" \<comment> \<open>eight draws from the user-code alphabet\<close>

subsection \<open>The configuration manager\<close>

record config =
  c_users :: "(str, user) dict"
  c_default_user :: str
  c_settings :: settings

definition get_user :: "config \<Rightarrow> str \<Rightarrow> user option" where
  "get_user c name = dget (c_users c) name"

definition persona_picker_entries :: "config \<Rightarrow> (str \<times> str) list" where
  "persona_picker_entries c = map (\<lambda>(name, u). (name, u_description u)) (c_users c)"

definition authenticate :: "lib \<Rightarrow> config \<Rightarrow> str \<Rightarrow> str \<Rightarrow> user option" where
  "authenticate L c name pw =
     (case get_user c name of
        None \<Rightarrow> None
      | Some u \<Rightarrow>
          (case u_password u of
             None \<Rightarrow> None
           | Some stored \<Rightarrow>
               if s_password_hashing (c_settings c) then
                 (case lib_checkpw L pw stored of
                    Some ok \<Rightarrow> if ok then Some u else None
                  | None \<Rightarrow>
                      if s_enforce_password_check (c_settings c) then None
                      else if stored = pw then Some u else None)
               else if stored = pw then Some u else None))"

definition interactive_authenticate :: "lib \<Rightarrow> config \<Rightarrow> str \<Rightarrow> str \<Rightarrow> user option" where
  "interactive_authenticate L c name pw =
     (if persona_mode_enabled (c_settings c) then (if truthy name then get_user c name else None)
      else if truthy name \<and> truthy pw then authenticate L c name pw else None)"

fun check_client_in :: "oauth_client list \<Rightarrow> str \<Rightarrow> str \<Rightarrow> bool" where
  "check_client_in [] cid sec = False"
| "check_client_in (c # cs) cid sec =
     (if is_public c \<or> cl_client_secret c = None then check_client_in cs cid sec
      else if cl_client_id c = cid \<and> cl_client_secret c = Some sec then True
      else check_client_in cs cid sec)"

definition check_client :: "config \<Rightarrow> str option \<Rightarrow> str option \<Rightarrow> bool" where
  "check_client c cid sec =
     (case (cid, sec) of
        (Some i, Some p) \<Rightarrow> check_client_in (s_clients (c_settings c)) i p
      | _ \<Rightarrow> False)"

definition get_client :: "config \<Rightarrow> str \<Rightarrow> oauth_client option" where
  "get_client c cid = find (\<lambda>x. cl_client_id x = cid) (s_clients (c_settings c))"

lemma get_client_id: "get_client c cid = Some x \<Longrightarrow> cl_client_id x = cid"
  by (auto simp: get_client_def find_Some_iff)

lemma get_client_in: "get_client c cid = Some x \<Longrightarrow> x \<in> set (s_clients (c_settings c))"
  by (auto simp: get_client_def find_Some_iff)

lemma check_client_in_iff:
  "check_client_in cs cid sec \<longleftrightarrow>
     (\<exists>x \<in> set cs. \<not> is_public x \<and> cl_client_id x = cid \<and> cl_client_secret x = Some sec)"
  by (induction cs) auto

lemma check_client_iff:
  "check_client c cid sec \<longleftrightarrow>
     (\<exists>x \<in> set (s_clients (c_settings c)). \<not> is_public x \<and> cid = Some (cl_client_id x)
        \<and> sec \<noteq> None \<and> cl_client_secret x = sec)"
  by (auto simp: check_client_def check_client_in_iff split: option.splits)

lemma authenticate_user: "authenticate L c name pw = Some u \<Longrightarrow> get_user c name = Some u"
  by (auto simp: authenticate_def split: option.splits if_splits)

lemma interactive_authenticate_user:
  "interactive_authenticate L c name pw = Some u \<Longrightarrow> get_user c name = Some u"
  by (auto simp: interactive_authenticate_def dest: authenticate_user split: if_splits)

lemma authenticate_needs_password:
  "authenticate L c name pw = Some u \<Longrightarrow> u_password u \<noteq> None"
  by (auto simp: authenticate_def split: option.splits if_splits)

end
