(* ===== verification/Device_Code.thy ===== *)
theory Device_Code
  imports Store_Contracts Nano_Models
begin

text \<open>
  \<open>services/device_code.py\<close>: the device authorization store (RFC 8628). The store holds the
  grants by device code and an index from user codes to device codes. Each operation is one
  step, as the store's lock makes it. The status strings of the source are the constructors of
  \<open>device_status\<close>; \<open>StOther\<close> is any other string, which no operation writes.
\<close>

subsection \<open>State\<close>

datatype device_status = StPending | StAuthorized | StDenied | StExpired | StOther str

record device_grant =
  dg_user_code :: str
  dg_client_id :: str
  dg_scope :: str
  dg_expires_at :: time
  dg_interval :: int
  dg_status :: device_status
  dg_username :: "str option"
  dg_auth_time :: "int option"
  dg_resource :: "str list option"

record device_store =
  ds_codes :: "(str, device_grant) dict"
  ds_by_user_code :: "(str, str) dict"

definition empty_device_store :: device_store where
  "empty_device_store = \<lparr>ds_codes = [], ds_by_user_code = []\<rparr>"

datatype poll_outcome = PollNotFound | PollWrongClient | PollExpired | PollPending | PollDenied
  | PollUserNotFound | PollUnknownStatus | PollAuthorized

datatype verify_outcome = VerInvalidCode | VerAlreadyUsed | VerExpired | VerDenied
  | VerMissingCredentials | VerInvalidCredentials | VerAuthorized

definition device_code_expires_in :: int where
  "device_code_expires_in = 600"

definition device_poll_interval :: int where
  "device_poll_interval = 5"

definition max_pending_device_codes :: nat where
  "max_pending_device_codes = 10000"

subsection \<open>Operations\<close>

definition grant_expired :: "time \<Rightarrow> device_grant \<Rightarrow> bool" where
  "grant_expired now g \<longleftrightarrow> dg_expires_at g < now"

fun drop_codes :: "str list \<Rightarrow> device_store \<Rightarrow> device_store" where
  "drop_codes [] st = st"
| "drop_codes (c # cs) st =
     drop_codes cs
       (case dget (ds_codes st) c of
          None \<Rightarrow> st
        | Some g \<Rightarrow> st\<lparr>ds_codes := ddel c (ds_codes st),
                       ds_by_user_code := ddel (dg_user_code g) (ds_by_user_code st)\<rparr>)"

definition expired_codes :: "time \<Rightarrow> device_store \<Rightarrow> str list" where
  "expired_codes now st = map fst (filter (\<lambda>(c, g). grant_expired now g) (ds_codes st))"

definition prune_expired :: "time \<Rightarrow> device_store \<Rightarrow> nat \<times> device_store" where
  "prune_expired now st = (length (expired_codes now st), drop_codes (expired_codes now st) st)"

datatype store_full = DeviceCodeStoreFull

definition device_create :: "time \<Rightarrow> str \<Rightarrow> str \<Rightarrow> str \<Rightarrow> str \<Rightarrow> int \<Rightarrow> int \<Rightarrow> str list option
    \<Rightarrow> device_store \<Rightarrow> (store_full + (str \<times> str)) \<times> device_store" where
  "device_create now device_code user_code client_id scope expires_in interval resource st =
     (let st1 = snd (prune_expired now st) in
      if max_pending_device_codes \<le> length (ds_codes st1) then (Inl DeviceCodeStoreFull, st1)
      else
        let g = \<lparr>dg_user_code = user_code, dg_client_id = client_id, dg_scope = scope,
                 dg_expires_at = now + secs expires_in, dg_interval = interval,
                 dg_status = StPending, dg_username = None, dg_auth_time = None,
                 dg_resource = resource\<rparr>
        in (Inr (device_code, user_code),
            st1\<lparr>ds_codes := dset device_code g (ds_codes st1),
                ds_by_user_code := dset user_code device_code (ds_by_user_code st1)\<rparr>))"

definition set_grant :: "str \<Rightarrow> device_grant \<Rightarrow> device_store \<Rightarrow> device_store" where
  \<comment> \<open>assignment to a field of the grant object held by the store\<close>
  "set_grant c g st = st\<lparr>ds_codes := dset c g (ds_codes st)\<rparr>"

definition poll :: "time \<Rightarrow> str \<Rightarrow> str \<Rightarrow> (str \<Rightarrow> user option) \<Rightarrow> device_store
    \<Rightarrow> (poll_outcome \<times> user option \<times> device_grant option) \<times> device_store" where
  "poll now device_code client_id get_user_fn st =
     (case dget (ds_codes st) device_code of
        None \<Rightarrow> ((PollNotFound, None, None), st)
      | Some g \<Rightarrow>
          if dg_client_id g \<noteq> client_id then ((PollWrongClient, None, None), st)
          else if grant_expired now g then
            ((PollExpired, None, None), set_grant device_code (g\<lparr>dg_status := StExpired\<rparr>) st)
          else (case dg_status g of
             StPending \<Rightarrow> ((PollPending, None, None), st)
           | StDenied \<Rightarrow> ((PollDenied, None, None), st)
           | StExpired \<Rightarrow> ((PollExpired, None, None), st)
           | StAuthorized \<Rightarrow>
               (case (if opt_true (dg_username g) then get_user_fn (the (dg_username g)) else None) of
                  None \<Rightarrow> ((PollUserNotFound, None, None), st)
                | Some u \<Rightarrow> ((PollAuthorized, Some u, Some g),
                     st\<lparr>ds_codes := ddel device_code (ds_codes st),
                        ds_by_user_code := ddel (dg_user_code g) (ds_by_user_code st)\<rparr>))
           | StOther x \<Rightarrow> ((PollUnknownStatus, None, None), st)))"

definition verify :: "time \<Rightarrow> str \<Rightarrow> str \<Rightarrow> str \<Rightarrow> str \<Rightarrow> (str \<Rightarrow> str \<Rightarrow> user option) \<Rightarrow> device_store
    \<Rightarrow> (verify_outcome \<times> user option) \<times> device_store" where
  "verify now user_code action username password authenticate_fn st =
     (case (case dget (ds_by_user_code st) user_code of
              None \<Rightarrow> None
            | Some dc \<Rightarrow> if dc = [] then None else map_option (Pair dc) (dget (ds_codes st) dc)) of
        None \<Rightarrow> ((VerInvalidCode, None), st)
      | Some (dc, g) \<Rightarrow>
          if dg_status g \<noteq> StPending then ((VerAlreadyUsed, None), st)
          else if grant_expired now g then
            ((VerExpired, None), set_grant dc (g\<lparr>dg_status := StExpired\<rparr>) st)
          else if action = ''deny'' then
            ((VerDenied, None), set_grant dc (g\<lparr>dg_status := StDenied\<rparr>) st)
          else if username = [] then ((VerMissingCredentials, None), st)
          else (case authenticate_fn username password of
             None \<Rightarrow> ((VerInvalidCredentials, None), st)
           | Some u \<Rightarrow> ((VerAuthorized, Some u),
               set_grant dc (g\<lparr>dg_status := StAuthorized, dg_username := Some (u_username u),
                 dg_auth_time := Some (to_secs now)\<rparr>) st)))"

definition device_clear :: "device_store \<Rightarrow> device_store" where
  "device_clear st = empty_device_store"

subsection \<open>Pruning\<close>

abbreviation device_wf :: "device_store \<Rightarrow> bool" where
  "device_wf st \<equiv> dict_wf (ds_codes st)"

definition entry :: "device_store \<Rightarrow> str \<Rightarrow> device_grant option" where
  "entry st c = dget (ds_codes st) c"

lemma drop_codes_codes: "ds_codes (drop_codes cs st) = fold ddel cs (ds_codes st)"
proof (induction cs arbitrary: st)
  case (Cons c cs)
  have "ddel c d = d" if "dget d c = None" for d :: "(str, device_grant) dict"
    using that by (simp add: ddel_def dget_def delete_idem map_of_eq_None_iff)
  then show ?case using Cons by (auto split: option.splits)
qed simp

lemma prune_codes: "ds_codes (snd (prune_expired now st)) = dfilter (\<lambda>_ g. \<not> grant_expired now g) (ds_codes st)"
  by (simp add: prune_expired_def drop_codes_codes expired_codes_def dfilter_def)

lemma entry_prune: "device_wf st \<Longrightarrow> entry (snd (prune_expired now st)) c =
    (case entry st c of None \<Rightarrow> None | Some g \<Rightarrow> if grant_expired now g then None else Some g)"
  by (auto simp: entry_def prune_codes dget_dfilter split: option.splits)

lemma prune_wf: "device_wf st \<Longrightarrow> device_wf (snd (prune_expired now st))"
  by (simp add: prune_codes)

lemma set_grant_entry [simp]: "entry (set_grant c g st) c' = (if c' = c then Some g else entry st c')"
  by (simp add: entry_def set_grant_def)

lemma set_grant_wf [simp]: "device_wf st \<Longrightarrow> device_wf (set_grant c g st)"
  by (simp add: set_grant_def)

interpretation devices: expiring_store entry "\<lambda>t st. snd (prune_expired t st)" grant_expired device_wf
  by unfold_locales (auto simp: entry_prune prune_wf grant_expired_def)

subsection \<open>Capacity\<close>

definition within_cap :: "device_store \<Rightarrow> bool" where
  "within_cap st \<longleftrightarrow> length (ds_codes st) \<le> max_pending_device_codes"

lemma prune_shrinks: "length (ds_codes (snd (prune_expired now st))) \<le> length (ds_codes st)"
  by (simp add: prune_codes length_dfilter_le)

lemma set_grant_length: "entry st c \<noteq> None \<Longrightarrow> length (ds_codes (set_grant c g st)) = length (ds_codes st)"
  by (auto simp: set_grant_def entry_def length_dset dhas_def)

lemma create_within_cap:
  assumes "within_cap st"
  shows "within_cap (snd (device_create now dc uc cid sc ex iv res st))"
proof -
  have "length (ds_codes (snd (prune_expired now st))) \<le> max_pending_device_codes"
    using assms prune_shrinks le_trans unfolding within_cap_def by blast
  then show ?thesis
    by (auto simp: device_create_def within_cap_def Let_def length_dset)
qed

lemma poll_within_cap: "within_cap st \<Longrightarrow> within_cap (snd (poll now dc cid gu st))"
  using set_grant_length [of st dc] length_ddel_le [of dc "ds_codes st"]
  by (auto simp: poll_def within_cap_def entry_def split: option.splits device_status.splits)

lemma verify_within_cap: "within_cap st \<Longrightarrow> within_cap (snd (verify now uc act un pw au st))"
  using set_grant_length [of st]
  by (auto simp: verify_def within_cap_def entry_def split: option.splits)

subsection \<open>The store as one step per operation\<close>

datatype device_op =
    DCreate time str str str str int int "str list option"
  | DPoll time str str "str \<Rightarrow> user option"
  | DVerify time str str str str "str \<Rightarrow> str \<Rightarrow> user option"
  | DPrune time

datatype device_out =
    OutCreate "store_full + (str \<times> str)"
  | OutPoll poll_outcome "user option" "device_grant option"
  | OutVerify verify_outcome "user option"
  | OutPrune nat

fun device_step :: "device_op \<Rightarrow> device_store \<Rightarrow> device_out \<times> device_store" where
  "device_step (DCreate now dc uc cid sc ex iv res) st =
     (let (r, st') = device_create now dc uc cid sc ex iv res st in (OutCreate r, st'))"
| "device_step (DPoll now dc cid gu) st =
     (let ((r, u, g), st') = poll now dc cid gu st in (OutPoll r u g, st'))"
| "device_step (DVerify now uc act un pw au) st =
     (let ((r, u), st') = verify now uc act un pw au st in (OutVerify r u, st'))"
| "device_step (DPrune now) st =
     (let (n, st') = prune_expired now st in (OutPrune n, st'))"

fun polls_token :: "str \<Rightarrow> device_op \<Rightarrow> device_out \<Rightarrow> bool" where
  "polls_token c (DPoll now dc cid gu) (OutPoll r u g) \<longleftrightarrow> dc = c \<and> r = PollAuthorized"
| "polls_token c _ _ \<longleftrightarrow> False"

fun no_device_reissue :: "str \<Rightarrow> device_op \<Rightarrow> bool" where
  "no_device_reissue c (DCreate now dc uc cid sc ex iv res) \<longleftrightarrow> dc \<noteq> c"
| "no_device_reissue c _ \<longleftrightarrow> True"

lemma create_wf: "device_wf st \<Longrightarrow> device_wf (snd (device_create now dc uc cid sc ex iv res st))"
  by (simp add: device_create_def Let_def prune_wf)

lemma poll_wf: "device_wf st \<Longrightarrow> device_wf (snd (poll now dc cid gu st))"
  by (auto simp: poll_def set_grant_def split: option.splits device_status.splits)

lemma verify_wf: "device_wf st \<Longrightarrow> device_wf (snd (verify now uc act un pw au st))"
  by (auto simp: verify_def set_grant_def split: option.splits)

lemma device_step_wf: "device_wf st \<Longrightarrow> device_wf (snd (device_step x st))"
  using create_wf poll_wf verify_wf prune_wf by (cases x) (auto simp: case_prod_beta Let_def)

lemma device_step_within_cap: "within_cap st \<Longrightarrow> within_cap (snd (device_step x st))"
proof (cases x)
  case (DPrune now)
  then show ?thesis if "within_cap st"
    using that le_trans [OF prune_shrinks] by (auto simp: within_cap_def case_prod_beta Let_def)
qed (auto simp: case_prod_beta Let_def create_within_cap poll_within_cap verify_within_cap)

subsection \<open>What each operation does to one entry\<close>

lemma entry_create: "device_wf st \<Longrightarrow> dc \<noteq> c \<Longrightarrow>
    entry (snd (device_create now dc uc cid sc ex iv res st)) c = entry (snd (prune_expired now st)) c"
  by (simp add: device_create_def Let_def entry_def)

lemma entry_create_same:
  assumes "fst (device_create now dc uc cid sc ex iv res st) = Inr r"
  shows "\<exists>g. entry (snd (device_create now dc uc cid sc ex iv res st)) dc = Some g
     \<and> dg_status g = StPending \<and> dg_client_id g = cid \<and> dg_expires_at g = now + secs ex"
  using assms by (auto simp: device_create_def Let_def entry_def split: if_splits)

lemma entry_poll: "entry (snd (poll now dc cid gu st)) c =
    (if c = dc then (case entry st c of None \<Rightarrow> None
       | Some g \<Rightarrow> if dg_client_id g \<noteq> cid then Some g
          else if grant_expired now g then Some (g\<lparr>dg_status := StExpired\<rparr>)
          else if fst (fst (poll now dc cid gu st)) = PollAuthorized then None else Some g)
     else entry st c)"
  by (auto simp: poll_def entry_def set_grant_def split: option.splits device_status.splits)

lemma poll_authorized:
  "fst (poll now dc cid gu st) = (PollAuthorized, u, g) \<longleftrightarrow>
     (\<exists>g0 u0 un. entry st dc = Some g0 \<and> dg_client_id g0 = cid \<and> now \<le> dg_expires_at g0
        \<and> dg_status g0 = StAuthorized \<and> dg_username g0 = Some un \<and> un \<noteq> [] \<and> gu un = Some u0
        \<and> u = Some u0 \<and> g = Some g0)"
  by (auto simp: poll_def entry_def grant_expired_def opt_true_def split: option.splits device_status.splits)

lemma entry_verify: "entry (snd (verify now uc act un pw au st)) c = entry st c
   \<or> (\<exists>g. entry st c = Some g \<and> dg_status g = StPending \<and>
       ((fst (verify now uc act un pw au st) = (VerExpired, None) \<and> grant_expired now g
           \<and> entry (snd (verify now uc act un pw au st)) c = Some (g\<lparr>dg_status := StExpired\<rparr>))
      \<or> (fst (verify now uc act un pw au st) = (VerDenied, None) \<and> act = ''deny''
           \<and> entry (snd (verify now uc act un pw au st)) c = Some (g\<lparr>dg_status := StDenied\<rparr>))
      \<or> (\<exists>u. fst (verify now uc act un pw au st) = (VerAuthorized, Some u) \<and> au un pw = Some u
           \<and> act \<noteq> ''deny'' \<and> dget (ds_by_user_code st) uc = Some c \<and> now \<le> dg_expires_at g
           \<and> entry (snd (verify now uc act un pw au st)) c =
               Some (g\<lparr>dg_status := StAuthorized, dg_username := Some (u_username u),
                       dg_auth_time := Some (to_secs now)\<rparr>))))"
  by (auto simp: verify_def entry_def set_grant_def grant_expired_def split: option.splits if_splits)

lemma polls_token_iff:
  "polls_token c x r \<longleftrightarrow> (\<exists>now cid gu u g. x = DPoll now c cid gu \<and> r = OutPoll PollAuthorized u g)"
  by (cases "(c, x, r)" rule: polls_token.cases) auto

lemma absent_stays:
  assumes "device_wf st" "no_device_reissue c x" "entry st c = None"
  shows "entry (snd (device_step x st)) c = None"
  using assms
proof (cases x)
  case (DVerify now uc act un pw au)
  then show ?thesis
    using assms entry_verify [of now uc act un pw au st c] by (auto simp: case_prod_beta Let_def)
qed (auto simp: case_prod_beta Let_def entry_create entry_prune entry_poll)

interpretation device_redemption:
  one_time device_step device_wf no_device_reissue polls_token "\<lambda>c st. entry st c = None"
proof
  fix st c x
  assume wf: "device_wf st"
  then show "device_wf (snd (device_step x st))" by (rule device_step_wf)
  show "entry (snd (device_step x st)) c = None" if "polls_token c x (fst (device_step x st))"
    using that by (auto simp: polls_token_iff case_prod_beta Let_def entry_poll poll_authorized
        grant_expired_def split: option.splits)
       (metis prod.collapse poll_authorized option.inject option.distinct(1) not_le)+
  show "entry (snd (device_step x st)) c = None" if "no_device_reissue c x" "entry st c = None"
    using wf that by (rule absent_stays)
  show "\<not> polls_token c x (fst (device_step x st))" if "entry st c = None"
    using that by (auto simp: polls_token_iff case_prod_beta Let_def poll_def entry_def)
qed

end
