(* ===== verification/Device_Flow.thy ===== *)
theory Device_Flow
  imports Device_Code
begin

text \<open>
  The abstract specification of the device flow (RFC 8628, as the docstrings of
  \<open>services/device_code.py\<close> describe it) for one device code, as a transition system labelled with
  the operations of the store and their answers, and the proof that the store of \<open>Device_Code\<close>
  implements it exactly: the phases of every device code are those of the system and no others.
\<close>

subsection \<open>The abstract flow\<close>

record ticket =
  tk_user_code :: str
  tk_client :: str
  tk_scope :: str
  tk_deadline :: time
  tk_resource :: "str list option"

text \<open>\<open>Approved t u s\<close>: by the user \<open>u\<close>, who authenticated at second \<open>s\<close>.\<close>

datatype phase = Absent | Waiting ticket | Approved ticket str int | Refused ticket | TimedOut ticket

type_synonym label = "device_op \<times> device_out"

fun phase_ticket :: "phase \<Rightarrow> ticket option" where
  "phase_ticket Absent = None"
| "phase_ticket (Waiting t) = Some t"
| "phase_ticket (Approved t u s) = Some t"
| "phase_ticket (Refused t) = Some t"
| "phase_ticket (TimedOut t) = Some t"

definition over :: "time \<Rightarrow> ticket \<Rightarrow> bool" where
  "over now t \<longleftrightarrow> tk_deadline t < now"

definition swept :: "time \<Rightarrow> phase \<Rightarrow> phase" where
  "swept now p = (case phase_ticket p of None \<Rightarrow> p | Some t \<Rightarrow> if over now t then Absent else p)"

text \<open>The tokens are minted from the grant of the answer: it has to say what was asked and approved.\<close>

definition grant_says :: "device_grant \<Rightarrow> ticket \<Rightarrow> str \<Rightarrow> int \<Rightarrow> bool" where
  "grant_says g t u s \<longleftrightarrow> dg_client_id g = tk_client t \<and> dg_scope g = tk_scope t
     \<and> dg_resource g = tk_resource t \<and> dg_username g = Some u \<and> dg_auth_time g = Some s"

inductive flow :: "str \<Rightarrow> phase \<Rightarrow> label \<Rightarrow> phase \<Rightarrow> bool" for c where
  issue: "flow c Absent (DCreate now c uc cid sc ex iv res, OutCreate (Inr (c, uc)))
    (Waiting \<lparr>tk_user_code = uc, tk_client = cid, tk_scope = sc, tk_deadline = now + secs ex, tk_resource = res\<rparr>)"
| issue_none: "flow c p (DCreate now dc uc cid sc ex iv res, OutCreate (Inl DeviceCodeStoreFull)) (swept now p)"
| issue_other: "dc \<noteq> c \<Longrightarrow> flow c p (DCreate now dc uc cid sc ex iv res, OutCreate (Inr (dc, uc))) (swept now p)"
| prune: "flow c p (DPrune now, OutPrune n) (swept now p)"
| poll_other: "dc \<noteq> c \<Longrightarrow> flow c p (DPoll now dc cid gu, r) p"
| poll_unknown: "flow c Absent (DPoll now c cid gu, OutPoll PollNotFound None None) Absent"
| poll_foreign: "phase_ticket p = Some t \<Longrightarrow> tk_client t \<noteq> cid \<Longrightarrow>
    flow c p (DPoll now c cid gu, OutPoll PollWrongClient None None) p"
| poll_late: "phase_ticket p = Some t \<Longrightarrow> tk_client t = cid \<Longrightarrow> over now t \<Longrightarrow>
    flow c p (DPoll now c cid gu, OutPoll PollExpired None None) (TimedOut t)"
| poll_waiting: "tk_client t = cid \<Longrightarrow> \<not> over now t \<Longrightarrow>
    flow c (Waiting t) (DPoll now c cid gu, OutPoll PollPending None None) (Waiting t)"
| poll_refused: "tk_client t = cid \<Longrightarrow> \<not> over now t \<Longrightarrow>
    flow c (Refused t) (DPoll now c cid gu, OutPoll PollDenied None None) (Refused t)"
| poll_timed_out: "tk_client t = cid \<Longrightarrow> \<not> over now t \<Longrightarrow>
    flow c (TimedOut t) (DPoll now c cid gu, OutPoll PollExpired None None) (TimedOut t)"
| poll_nobody: "tk_client t = cid \<Longrightarrow> \<not> over now t \<Longrightarrow> u = [] \<or> gu u = None \<Longrightarrow>
    flow c (Approved t u s) (DPoll now c cid gu, OutPoll PollUserNotFound None None) (Approved t u s)"
| redeem: "tk_client t = cid \<Longrightarrow> \<not> over now t \<Longrightarrow> u \<noteq> [] \<Longrightarrow> gu u = Some usr \<Longrightarrow> grant_says g t u s \<Longrightarrow>
    flow c (Approved t u s) (DPoll now c cid gu, OutPoll PollAuthorized (Some usr) (Some g)) Absent"
| verify_other: "map_option tk_user_code (phase_ticket p) \<noteq> Some uc \<Longrightarrow> flow c p (DVerify now uc act un pw au, r) p"
| verify_used: "phase_ticket p = Some t \<Longrightarrow> tk_user_code t = uc \<Longrightarrow> p \<noteq> Waiting t \<Longrightarrow>
    flow c p (DVerify now uc act un pw au, OutVerify VerAlreadyUsed None) p"
| verify_late: "tk_user_code t = uc \<Longrightarrow> over now t \<Longrightarrow>
    flow c (Waiting t) (DVerify now uc act un pw au, OutVerify VerExpired None) (TimedOut t)"
| deny: "tk_user_code t = uc \<Longrightarrow> \<not> over now t \<Longrightarrow> act = ''deny'' \<Longrightarrow>
    flow c (Waiting t) (DVerify now uc act un pw au, OutVerify VerDenied None) (Refused t)"
| verify_nameless: "tk_user_code t = uc \<Longrightarrow> \<not> over now t \<Longrightarrow> act \<noteq> ''deny'' \<Longrightarrow> un = [] \<Longrightarrow>
    flow c (Waiting t) (DVerify now uc act un pw au, OutVerify VerMissingCredentials None) (Waiting t)"
| verify_wrong: "tk_user_code t = uc \<Longrightarrow> \<not> over now t \<Longrightarrow> act \<noteq> ''deny'' \<Longrightarrow> un \<noteq> [] \<Longrightarrow> au un pw = None \<Longrightarrow>
    flow c (Waiting t) (DVerify now uc act un pw au, OutVerify VerInvalidCredentials None) (Waiting t)"
| approve: "tk_user_code t = uc \<Longrightarrow> \<not> over now t \<Longrightarrow> act \<noteq> ''deny'' \<Longrightarrow> un \<noteq> [] \<Longrightarrow> au un pw = Some usr \<Longrightarrow>
    flow c (Waiting t) (DVerify now uc act un pw au, OutVerify VerAuthorized (Some usr))
      (Approved t (u_username usr) (to_secs now))"

inductive_cases flow_createE: "flow c p (DCreate now dc uc cid sc ex iv res, r) q"
inductive_cases flow_pruneE: "flow c p (DPrune now, r) q"
inductive_cases flow_pollE: "flow c p (DPoll now dc cid gu, r) q"
inductive_cases flow_verifyE: "flow c p (DVerify now uc act un pw au, r) q"
inductive_simps flow_poll_iff: "flow c p (DPoll now c cid gu, r) q"
inductive_simps flow_verify_iff: "flow c p (DVerify now uc act un pw au, r) q"

inductive flow_run :: "str \<Rightarrow> phase \<Rightarrow> label list \<Rightarrow> phase \<Rightarrow> bool" for c where
  stop: "flow_run c p [] p"
| move: "flow c p l q \<Longrightarrow> flow_run c q ls r \<Longrightarrow> flow_run c p (l # ls) r"

inductive_simps flow_run_Nil [simp]: "flow_run c p [] q"
inductive_simps flow_run_Cons [simp]: "flow_run c p (l # ls) q"

lemma flow_run_append: "flow_run c p (ls @ ms) q \<longleftrightarrow> (\<exists>r. flow_run c p ls r \<and> flow_run c r ms q)"
  by (induction ls arbitrary: p) auto

text \<open>An operation and its answer leave no choice of the next phase.\<close>

lemma flow_determined: "flow c p l q \<Longrightarrow> flow c p l q' \<Longrightarrow> q = q'"
  by (cases l; cases "fst l")
     (auto elim!: flow_createE flow_pruneE flow_pollE flow_verifyE)

lemma flow_run_determined: "flow_run c p ls q \<Longrightarrow> flow_run c p ls q' \<Longrightarrow> q = q'"
proof (induction arbitrary: q' rule: flow_run.induct)
  case (move p l q ls r)
  then show ?case using flow_determined by (metis flow_run_Cons)
qed simp

subsection \<open>What the flow says of the past\<close>

fun creates :: "str \<Rightarrow> label \<Rightarrow> bool" where
  "creates c (DCreate now dc uc cid sc ex iv res, OutCreate (Inr p)) \<longleftrightarrow> dc = c"
| "creates c _ \<longleftrightarrow> False"

text \<open>The last label that issued the code, and the labels since.\<close>

definition issued_in :: "str \<Rightarrow> label list \<Rightarrow> ticket \<Rightarrow> label list \<Rightarrow> bool" where
  "issued_in c ls t since \<longleftrightarrow> (\<exists>before now ex iv.
     ls = before @ (DCreate now c (tk_user_code t) (tk_client t) (tk_scope t) ex iv (tk_resource t),
                    OutCreate (Inr (c, tk_user_code t))) # since
     \<and> tk_deadline t = now + secs ex \<and> (\<forall>l \<in> set since. \<not> creates c l))"

text \<open>A label by which a user who authenticated, on the page for its user code, approved the ticket in time.\<close>

definition approval :: "ticket \<Rightarrow> str \<Rightarrow> int \<Rightarrow> label \<Rightarrow> bool" where
  "approval t u s l \<longleftrightarrow> (\<exists>now act un pw au usr.
     l = (DVerify now (tk_user_code t) act un pw au, OutVerify VerAuthorized (Some usr))
     \<and> now \<le> tk_deadline t \<and> act \<noteq> ''deny'' \<and> un \<noteq> [] \<and> au un pw = Some usr \<and> u = u_username usr \<and> s = to_secs now)"

lemma swept_ticket [simp]: "phase_ticket (swept now p) = Some t \<longleftrightarrow> swept now p = p \<and> phase_ticket p = Some t"
  by (auto simp: swept_def split: option.splits)

lemma swept_approved [simp]: "Approved t u s = swept now p \<longleftrightarrow> p = Approved t u s \<and> \<not> over now t"
  by (auto simp: swept_def split: option.splits)

lemma flow_ticket:
  assumes "flow c p l q" "phase_ticket q = Some t"
  shows "issued_in c [l] t [] \<or> (phase_ticket p = Some t \<and> \<not> creates c l)"
  using assms by cases (auto simp: issued_in_def)

lemma flow_approved:
  assumes "flow c p l (Approved t u s)"
  shows "p = Approved t u s \<or> approval t u s l"
  using assms by cases (auto simp: approval_def over_def)

lemma issued_in_snoc: "issued_in c ls t since \<Longrightarrow> \<not> creates c l \<Longrightarrow> issued_in c (ls @ [l]) t (since @ [l])"
  by (fastforce simp: issued_in_def)

lemma run_ticket:
  "flow_run c Absent ls q \<Longrightarrow> phase_ticket q = Some t \<Longrightarrow>
    \<exists>since. issued_in c ls t since \<and> (\<forall>u s. q = Approved t u s \<longrightarrow> (\<exists>l \<in> set since. approval t u s l))"
proof (induction ls arbitrary: q rule: rev_induct)
  case (snoc l ls)
  obtain r where r: "flow_run c Absent ls r" "flow c r l q" using snoc.prems(1) by (auto simp: flow_run_append)
  show ?case
  proof (cases "phase_ticket r = Some t \<and> \<not> creates c l")
    case True
    obtain since where since: "issued_in c ls t since"
      "\<forall>u s. r = Approved t u s \<longrightarrow> (\<exists>l \<in> set since. approval t u s l)"
      using snoc.IH [OF r(1)] True by blast
    show ?thesis
    proof (intro exI conjI allI impI)
      show "issued_in c (ls @ [l]) t (since @ [l])" using issued_in_snoc since(1) True by blast
      show "\<exists>l \<in> set (since @ [l]). approval t u s l" if "q = Approved t u s" for u s
        using flow_approved [of c r l t u s] r(2) that since(2) by auto
    qed
  next
    case False
    then have new: "issued_in c [l] t []" using flow_ticket [OF r(2) snoc.prems(2)] by blast
    then have "\<not> approval t u s l" for u s by (auto simp: issued_in_def approval_def)
    moreover have "phase_ticket r = None" using r(2) new by cases (auto simp: issued_in_def)
    ultimately have "q \<noteq> Approved t u s" for u s using flow_approved [of c r l t u s] r(2) by auto
    moreover have "issued_in c (ls @ [l]) t []" using new by (fastforce simp: issued_in_def)
    ultimately show ?thesis by (intro exI [of _ "[]"]) blast
  qed
qed simp

subsection \<open>The store implements it\<close>

definition ticket_of :: "device_grant \<Rightarrow> ticket" where
  "ticket_of g = \<lparr>tk_user_code = dg_user_code g, tk_client = dg_client_id g, tk_scope = dg_scope g,
     tk_deadline = dg_expires_at g, tk_resource = dg_resource g\<rparr>"

fun phase_of :: "device_grant option \<Rightarrow> phase" where
  "phase_of None = Absent"
| "phase_of (Some g) = (case dg_status g of StPending \<Rightarrow> Waiting (ticket_of g)
     | StAuthorized \<Rightarrow> Approved (ticket_of g) (the (dg_username g)) (the (dg_auth_time g))
     | StDenied \<Rightarrow> Refused (ticket_of g) | StExpired \<Rightarrow> TimedOut (ticket_of g) | StOther x \<Rightarrow> Absent)"

definition phase_at :: "device_store \<Rightarrow> str \<Rightarrow> phase" where
  "phase_at st c = phase_of (entry st c)"

text \<open>
  A store the operations keep: the index is the inverse of the user codes, an approved grant names
  its user and the time, and no grant has a status no operation writes.
\<close>

fun grant_ok :: "device_grant \<Rightarrow> bool" where
  "grant_ok g \<longleftrightarrow> (case dg_status g of StAuthorized \<Rightarrow> dg_username g \<noteq> None \<and> dg_auth_time g \<noteq> None
     | StOther x \<Rightarrow> False | _ \<Rightarrow> True)"

definition indexed :: "device_store \<Rightarrow> bool" where
  "indexed st \<longleftrightarrow> (\<forall>uc c. dget (ds_by_user_code st) uc = Some c \<longleftrightarrow> (\<exists>g. entry st c = Some g \<and> dg_user_code g = uc))"

definition grants_ok :: "device_store \<Rightarrow> bool" where
  "grants_ok st \<longleftrightarrow> (\<forall>c g. entry st c = Some g \<longrightarrow> c \<noteq> [] \<and> grant_ok g)"

definition store_ok :: "device_store \<Rightarrow> bool" where
  "store_ok st \<longleftrightarrow> device_wf st \<and> indexed st \<and> grants_ok st"

text \<open>Codes are drawn fresh: neither code of a new authorization is in the store.\<close>

fun fresh_draw :: "device_op \<Rightarrow> device_store \<Rightarrow> bool" where
  "fresh_draw (DCreate now dc uc cid sc ex iv res) st \<longleftrightarrow> dc \<noteq> [] \<and> entry st dc = None
     \<and> list_all (\<lambda>(c, g). dg_user_code g \<noteq> uc) (ds_codes st)"
| "fresh_draw _ st \<longleftrightarrow> True"

fun fresh_run :: "device_op list \<Rightarrow> device_store \<Rightarrow> bool" where
  "fresh_run [] st \<longleftrightarrow> True"
| "fresh_run (x # xs) st \<longleftrightarrow> fresh_draw x st \<and> fresh_run xs (snd (device_step x st))"

lemma empty_store_ok: "store_ok empty_device_store"
  by (simp add: store_ok_def indexed_def grants_ok_def entry_def empty_device_store_def)

lemma phase_ticket_of: "grant_ok g \<Longrightarrow> phase_ticket (phase_of (Some g)) = Some (ticket_of g)"
  by (auto split: device_status.splits)

lemma over_ticket: "over now (ticket_of g) \<longleftrightarrow> grant_expired now g"
  by (simp add: over_def ticket_of_def grant_expired_def)

lemma indexed_drop_one:
  assumes "indexed st" "dget (ds_codes st) c = Some g"
  shows "indexed (st\<lparr>ds_codes := ddel c (ds_codes st), ds_by_user_code := ddel (dg_user_code g) (ds_by_user_code st)\<rparr>)"
  using assms unfolding indexed_def entry_def by (auto; metis option.inject)

lemma indexed_drop: "indexed st \<Longrightarrow> indexed (drop_codes cs st)"
  by (induction cs arbitrary: st) (auto simp: indexed_drop_one split: option.splits)

lemma store_ok_prune: "store_ok st \<Longrightarrow> store_ok (snd (prune_expired now st))"
  using indexed_drop by (auto simp: store_ok_def prune_wf grants_ok_def entry_prune split: option.splits if_splits)
    (simp add: prune_expired_def)

lemma phase_prune: "store_ok st \<Longrightarrow> phase_at (snd (prune_expired now st)) c = swept now (phase_at st c)"
  by (auto simp: phase_at_def store_ok_def entry_prune swept_def grants_ok_def phase_ticket_of over_ticket
      simp del: phase_of.simps(2) grant_ok.simps split: option.splits)

lemma fresh_user_code:
  assumes "store_ok st" "fresh_draw (DCreate now dc uc cid sc ex iv res) st"
  shows "dc \<noteq> []" "entry st dc = None" "\<not> (entry st c = Some g \<and> dg_user_code g = uc)"
  using assms by (auto simp: store_ok_def entry_def list_all_iff dest: dget_in_set)

lemma create_ok:
  assumes ok: "store_ok st" and fresh: "fresh_draw (DCreate now dc uc cid sc ex iv res) st"
    and st': "device_create now dc uc cid sc ex iv res st = (r, st')"
  shows "store_ok st'" "flow c (phase_at st c) (DCreate now dc uc cid sc ex iv res, OutCreate r) (phase_at st' c)"
proof -
  let ?s = "snd (prune_expired now st)"
  note fr = fresh_user_code [OF ok fresh]
  have s: "store_ok ?s" by (rule store_ok_prune [OF ok])
  have gone: "entry ?s c' = Some g \<Longrightarrow> entry st c' = Some g" for c' g
    using ok by (auto simp: store_ok_def entry_prune split: option.splits if_splits)
  have "store_ok st' \<and> flow c (phase_at st c) (DCreate now dc uc cid sc ex iv res, OutCreate r) (phase_at st' c)"
  proof (cases "max_pending_device_codes \<le> length (ds_codes ?s)")
    case True
    then have "r = Inl DeviceCodeStoreFull" "st' = ?s" using st' by (auto simp: device_create_def Let_def)
    then show ?thesis using s ok by (simp add: phase_prune flow.issue_none)
  next
    case False
    let ?g = "\<lparr>dg_user_code = uc, dg_client_id = cid, dg_scope = sc, dg_expires_at = now + secs ex, dg_interval = iv,
      dg_status = StPending, dg_username = None, dg_auth_time = None, dg_resource = res\<rparr>"
    have r: "r = Inr (dc, uc)" and new: "st' = ?s\<lparr>ds_codes := dset dc ?g (ds_codes ?s),
        ds_by_user_code := dset uc dc (ds_by_user_code ?s)\<rparr>"
      using False st' by (auto simp: device_create_def Let_def)
    have e: "entry st' c' = (if c' = dc then Some ?g else entry ?s c')" for c'
      by (simp add: new entry_def)
    have "entry ?s dc = None" using gone [of dc] fr(2) by (cases "entry ?s dc") auto
    then have "store_ok st'" unfolding store_ok_def indexed_def
      using s e fr gone by (auto simp: store_ok_def new indexed_def grants_ok_def) (metis fr(3) gone)+
    moreover have "phase_at st' c = (if c = dc then Waiting (ticket_of ?g) else swept now (phase_at st c))"
      using phase_prune [OF ok, of now c] by (simp add: phase_at_def e)
    ultimately show ?thesis
      using fr(2) flow.issue [of c now uc cid sc ex iv res] flow.issue_other [of dc c]
      by (auto simp: r phase_at_def ticket_of_def)
  qed
  then show "store_ok st'" "flow c (phase_at st c) (DCreate now dc uc cid sc ex iv res, OutCreate r) (phase_at st' c)"
    by blast+
qed

lemma set_grant_ok:
  assumes "store_ok st" "entry st dc = Some g" "dg_user_code h = dg_user_code g" "grant_ok h"
  shows "store_ok (set_grant dc h st)"
proof -
  have "ds_by_user_code (set_grant dc h st) = ds_by_user_code st" by (simp add: set_grant_def)
  moreover have "(\<exists>g. entry (set_grant dc h st) c = Some g \<and> dg_user_code g = uc)
      \<longleftrightarrow> (\<exists>g. entry st c = Some g \<and> dg_user_code g = uc)" for c uc
    using assms(2,3) by simp
  ultimately have "indexed (set_grant dc h st)"
    using assms(1) unfolding indexed_def store_ok_def by presburger
  then show ?thesis using assms by (simp add: store_ok_def grants_ok_def del: grant_ok.simps)
qed

lemma poll_ok:
  assumes ok: "store_ok st" and st': "poll now dc cid gu st = ((r, u, h), st')"
  shows "store_ok st'" "flow c (phase_at st c) (DPoll now dc cid gu, OutPoll r u h) (phase_at st' c)"
proof -
  have "store_ok st' \<and> flow c (phase_at st c) (DPoll now dc cid gu, OutPoll r u h) (phase_at st' c)"
  proof (cases "entry st dc")
    case None
    then have "r = PollNotFound" "u = None" "h = None" "st' = st" using st' by (auto simp: poll_def entry_def)
    then show ?thesis using ok None
      by (cases "dc = c") (auto simp: phase_at_def intro: flow.poll_unknown flow.poll_other)
  next
    case (Some g)
    have g: "dc \<noteq> []" "grant_ok g" "dget (ds_codes st) dc = Some g"
      using ok Some by (auto simp: store_ok_def grants_ok_def entry_def)
    have t: "phase_ticket (phase_of (Some g)) = Some (ticket_of g)" "tk_client (ticket_of g) = dg_client_id g"
      by (rule phase_ticket_of [OF g(2)], simp add: ticket_of_def)
    have kept: "store_ok (set_grant dc (g\<lparr>dg_status := StExpired\<rparr>) st)"
      by (rule set_grant_ok [OF ok Some]) simp_all
    have dropped: "store_ok (st\<lparr>ds_codes := ddel dc (ds_codes st),
        ds_by_user_code := ddel (dg_user_code g) (ds_by_user_code st)\<rparr>)"
      using ok indexed_drop_one [OF _ g(3)] by (auto simp: store_ok_def grants_ok_def entry_def)
    have "st' \<in> {st, set_grant dc (g\<lparr>dg_status := StExpired\<rparr>) st,
        st\<lparr>ds_codes := ddel dc (ds_codes st), ds_by_user_code := ddel (dg_user_code g) (ds_by_user_code st)\<rparr>}"
      using st' g(3) by (auto simp: poll_def split: if_splits option.splits device_status.splits)
    then have "store_ok st'" using ok kept dropped by blast
    moreover have "flow c (phase_at st c) (DPoll now dc cid gu, OutPoll r u h) (phase_at st' c)"
    proof (cases "dc = c")
      case False
      then have "phase_at st' c = phase_at st c"
        using entry_poll [of now dc cid gu st c] st' by (simp add: phase_at_def)
      then show ?thesis using flow.poll_other [OF False] by simp
    next
      case True
      then show ?thesis
        using st' g t Some unfolding over_ticket [symmetric] poll_def
        by (auto simp: phase_at_def ticket_of_def grant_says_def entry_def set_grant_def opt_true_def over_ticket [symmetric]
              flow_poll_iff split: if_splits option.splits device_status.splits) metis
    qed
    ultimately show ?thesis by blast
  qed
  then show "store_ok st'" "flow c (phase_at st c) (DPoll now dc cid gu, OutPoll r u h) (phase_at st' c)"
    by blast+
qed

lemma verify_target:
  assumes "store_ok st"
  shows "(case dget (ds_by_user_code st) uc of None \<Rightarrow> None
      | Some dc \<Rightarrow> if dc = [] then None else map_option (Pair dc) (dget (ds_codes st) dc)) = Some (dc, g)
    \<longleftrightarrow> entry st dc = Some g \<and> dg_user_code g = uc"
proof -
  have inv: "dget (ds_by_user_code st) uc = Some c \<longleftrightarrow> (\<exists>g. entry st c = Some g \<and> dg_user_code g = uc)" for c
    using assms by (simp add: store_ok_def indexed_def)
  have named: "entry st c = Some g \<Longrightarrow> c \<noteq> []" for c g using assms by (simp add: store_ok_def grants_ok_def)
  show ?thesis
  proof (cases "dget (ds_by_user_code st) uc")
    case None
    then show ?thesis using inv [of dc] by auto
  next
    case (Some a)
    then obtain h where h: "entry st a = Some h" "dg_user_code h = uc" using inv by blast
    moreover have "a \<noteq> []" using h(1) named by blast
    moreover have "dc = a" if "entry st dc = Some g" "dg_user_code g = uc" using that inv [of dc] Some by auto
    ultimately show ?thesis using Some by (auto simp: entry_def)
  qed
qed

lemma phase_user_code:
  "store_ok st \<Longrightarrow> map_option tk_user_code (phase_ticket (phase_at st c)) = map_option dg_user_code (entry st c)"
  using phase_ticket_of
  by (cases "entry st c") (auto simp: phase_at_def store_ok_def grants_ok_def ticket_of_def simp del: phase_of.simps(2) grant_ok.simps)

lemma invalid_user_code:
  assumes ok: "store_ok st"
  shows "fst (verify now uc act un pw au st) = (VerInvalidCode, None) \<longleftrightarrow>
    (\<forall>c. map_option tk_user_code (phase_ticket (phase_at st c)) \<noteq> Some uc)"
proof -
  let ?m = "case dget (ds_by_user_code st) uc of None \<Rightarrow> None
      | Some dc \<Rightarrow> if dc = [] then None else map_option (Pair dc) (dget (ds_codes st) dc)"
  have known: "(\<forall>c. map_option tk_user_code (phase_ticket (phase_at st c)) \<noteq> Some uc) \<longleftrightarrow> ?m = None"
    unfolding phase_user_code [OF ok] using verify_target [OF ok, of uc] by (cases ?m) auto
  show ?thesis
  proof (cases ?m)
    case None
    then have "fst (verify now uc act un pw au st) = (VerInvalidCode, None)" unfolding verify_def by simp
    with None known show ?thesis by simp
  next
    case (Some p)
    obtain dc g where m: "?m = Some (dc, g)" using Some by (cases p) auto
    have "fst (verify now uc act un pw au st) \<noteq> (VerInvalidCode, None)"
      unfolding verify_def m option.case prod.case by (auto split: option.splits)
    with Some known show ?thesis by simp
  qed
qed

lemma verify_ok:
  assumes ok: "store_ok st" and st': "verify now uc act un pw au st = ((r, u), st')"
  shows "store_ok st'" "flow c (phase_at st c) (DVerify now uc act un pw au, OutVerify r u) (phase_at st' c)"
proof -
  let ?m = "case dget (ds_by_user_code st) uc of None \<Rightarrow> None
      | Some dc \<Rightarrow> if dc = [] then None else map_option (Pair dc) (dget (ds_codes st) dc)"
  note code = phase_user_code [OF ok]
  have "store_ok st' \<and> flow c (phase_at st c) (DVerify now uc act un pw au, OutVerify r u) (phase_at st' c)"
  proof (cases ?m)
    case None
    then have "map_option dg_user_code (entry st c) \<noteq> Some uc" using verify_target [OF ok, of uc c] by auto
    moreover have "st' = st" using st' None unfolding verify_def by simp
    ultimately show ?thesis using ok code by (simp add: flow.verify_other)
  next
    case (Some p)
    obtain dc g where m: "?m = Some (dc, g)" using Some by (cases p) auto
    then have g: "entry st dc = Some g" "dg_user_code g = uc" using verify_target [OF ok] by blast+
    have gok: "grant_ok g" using ok g by (auto simp: store_ok_def grants_ok_def)
    have kept: "store_ok (set_grant dc h st)" if "dg_user_code h = uc" "grant_ok h" for h
      by (rule set_grant_ok [OF ok g(1)]) (use that g(2) in simp_all)
    note st'' = st' [unfolded verify_def m option.case prod.case]
    have "store_ok st'" using st'' kept g ok gok by (auto split: if_splits option.splits)
    moreover have "flow c (phase_at st c) (DVerify now uc act un pw au, OutVerify r u) (phase_at st' c)"
    proof (cases "c = dc")
      case False
      then have "map_option dg_user_code (entry st c) \<noteq> Some uc"
        using g ok verify_target [OF ok, of uc c] m by auto
      moreover have "phase_at st' c = phase_at st c"
        using st'' False by (auto simp: phase_at_def split: if_splits option.splits)
      ultimately show ?thesis using code by (simp add: flow.verify_other)
    next
      case True
      then show ?thesis
        using st'' g gok
        by (auto simp: phase_at_def ticket_of_def over_def grant_expired_def flow_verify_iff
            split: if_splits option.splits device_status.splits) metis
    qed
    ultimately show ?thesis by blast
  qed
  then show "store_ok st'" "flow c (phase_at st c) (DVerify now uc act un pw au, OutVerify r u) (phase_at st' c)"
    by blast+
qed

lemma step_flow:
  assumes "store_ok st" "fresh_draw x st"
  shows "store_ok (snd (device_step x st))"
    "flow c (phase_at st c) (x, fst (device_step x st)) (phase_at (snd (device_step x st)) c)"
proof -
  have "store_ok (snd (device_step x st))
    \<and> flow c (phase_at st c) (x, fst (device_step x st)) (phase_at (snd (device_step x st)) c)"
  proof (cases x)
    case (DCreate now dc uc cid sc ex iv res)
    then show ?thesis using create_ok [OF assms(1) assms(2) [unfolded DCreate] surjective_pairing]
      by (simp add: case_prod_beta Let_def)
  next
    case (DPoll now dc cid gu)
    obtain r u h st' where p: "poll now dc cid gu st = ((r, u, h), st')" by (metis prod.exhaust)
    then show ?thesis using poll_ok [OF assms(1) p] by (simp add: DPoll)
  next
    case (DVerify now uc act un pw au)
    obtain r u st' where v: "verify now uc act un pw au st = ((r, u), st')" by (metis prod.exhaust)
    then show ?thesis using verify_ok [OF assms(1) v] by (simp add: DVerify)
  next
    case (DPrune now)
    then show ?thesis using assms(1)
      by (simp add: case_prod_beta Let_def store_ok_prune phase_prune flow.prune)
  qed
  then show "store_ok (snd (device_step x st))"
    "flow c (phase_at st c) (x, fst (device_step x st)) (phase_at (snd (device_step x st)) c)"
    by blast+
qed

lemma run_flow:
  "store_ok st \<Longrightarrow> fresh_run xs st \<Longrightarrow>
    flow_run c (phase_at st c) (outs device_step xs st) (phase_at (run device_step xs st) c)"
  by (induction xs arbitrary: st) (auto intro: step_flow)

lemma run_store_ok: "store_ok st \<Longrightarrow> fresh_run xs st \<Longrightarrow> store_ok (run device_step xs st)"
  by (induction xs arbitrary: st) (auto intro: step_flow)

lemma empty_phase: "phase_at empty_device_store c = Absent"
  by (simp add: phase_at_def entry_def empty_device_store_def)

text \<open>
  C12. The device store implements the abstract device flow exactly: in any run of operations that draws
  fresh codes, the phase a device code is in is the one phase the transition system allows after the
  operations of the run with the answers they gave. Every answer about a code is the one its phase, the
  client, the deadline and the credentials call for, and a code that was redeemed, or swept after its
  deadline, is gone; and a user code is answered as invalid just when no code in the store has it.
\<close>

theorem device_store_refines_the_flow:
  assumes "fresh_run xs empty_device_store"
  shows "(flow_run c Absent (outs device_step xs empty_device_store) p
      \<longleftrightarrow> p = phase_at (run device_step xs empty_device_store) c)
    \<and> (fst (device_step (DVerify now uc act un pw au) (run device_step xs empty_device_store)) = OutVerify VerInvalidCode None
      \<longleftrightarrow> (\<forall>c'. map_option tk_user_code (phase_ticket (phase_at (run device_step xs empty_device_store) c')) \<noteq> Some uc))"
proof -
  let ?st = "run device_step xs empty_device_store"
  have answer: "fst (device_step (DVerify now uc act un pw au) ?st) = OutVerify VerInvalidCode None
      \<longleftrightarrow> fst (verify now uc act un pw au ?st) = (VerInvalidCode, None)"
    by (auto simp: Let_def split: prod.splits)
  show ?thesis
    unfolding answer invalid_user_code [OF run_store_ok [OF empty_store_ok assms]]
    using run_flow [OF empty_store_ok assms, of c] flow_run_determined by (auto simp: empty_phase)
qed

text \<open>A device that is approved by a user of that name.\<close>

definition approving_user :: user where
  "approving_user = \<lparr>u_username = ''alice'', u_password = None, u_description = [],
     u_email = [], u_identity_class = None, u_entitlements = [], u_roles = [], u_groups = [],
     u_tenant = [], u_source_acl = [], u_attributes = []\<rparr>"

definition sample_approval :: "device_op list" where
  "sample_approval = [DCreate 0 ''d'' ''UC'' ''c'' [] 60 5 None,
     DVerify 1 ''UC'' ''approve'' ''alice'' [] (\<lambda>u p. Some approving_user)]"

definition sample_ticket :: ticket where
  "sample_ticket = \<lparr>tk_user_code = ''UC'', tk_client = ''c'', tk_scope = [], tk_deadline = secs 60, tk_resource = None\<rparr>"

theorem device_store_refines_the_flow_witness:
  "flow_run ''d'' Absent (outs device_step sample_approval empty_device_store) (Approved sample_ticket ''alice'' 0)"
proof -
  have "fresh_run sample_approval empty_device_store" by code_simp
  moreover have "Approved sample_ticket ''alice'' 0 = phase_at (run device_step sample_approval empty_device_store) ''d''"
    by code_simp
  ultimately show ?thesis using device_store_refines_the_flow by blast
qed

text \<open>
  C13. A device code yields tokens only if, since it was last issued, a user approved it in time on the
  page for the user code it was issued with, authenticating with a name and a password that the
  authentication accepted; the tokens are for that user and time, asked for before the deadline by the
  client the code was issued to, with the scope and the resources it was issued for.
\<close>

theorem device_token_needs_approval:
  assumes "fresh_run xs empty_device_store"
    and "fst (device_step (DPoll now c cid gu) (run device_step xs empty_device_store)) = OutPoll PollAuthorized u g"
  shows "\<exists>t name s since grant. issued_in c (outs device_step xs empty_device_store) t since
    \<and> (\<exists>l \<in> set since. approval t name s l) \<and> tk_client t = cid \<and> now \<le> tk_deadline t
    \<and> u = gu name \<and> u \<noteq> None \<and> g = Some grant \<and> grant_says grant t name s"
proof -
  let ?st = "run device_step xs empty_device_store"
  have "store_ok ?st" by (rule run_store_ok [OF empty_store_ok assms(1)])
  then have "flow c (phase_at ?st c) (DPoll now c cid gu, OutPoll PollAuthorized u g)
      (phase_at (snd (device_step (DPoll now c cid gu) ?st)) c)"
    using step_flow(2) [of ?st "DPoll now c cid gu" c] assms(2) by simp
  then obtain t name s usr grant where f: "phase_at ?st c = Approved t name s" "tk_client t = cid" "\<not> over now t"
    "gu name = Some usr" "u = Some usr" "g = Some grant" "grant_says grant t name s"
    by (auto simp: flow_poll_iff)
  have "flow_run c Absent (outs device_step xs empty_device_store) (phase_at ?st c)"
    using run_flow [OF empty_store_ok assms(1), of c] by (simp add: empty_phase)
  then obtain since where "issued_in c (outs device_step xs empty_device_store) t since"
    "\<exists>l \<in> set since. approval t name s l"
    using f(1) by (auto dest!: run_ticket)
  then show ?thesis
    by (intro exI [of _ t] exI [of _ name] exI [of _ s] exI [of _ since] exI [of _ grant])
       (use f in \<open>simp add: over_def not_less\<close>)
qed

theorem device_token_needs_approval_witness:
  "\<exists>t name s since. issued_in ''d'' (outs device_step sample_approval empty_device_store) t since
    \<and> (\<exists>l \<in> set since. approval t name s l) \<and> tk_client t = ''c''"
proof -
  have "fresh_run sample_approval empty_device_store" by code_simp
  moreover have "\<exists>g. fst (device_step (DPoll 2 ''d'' ''c'' (\<lambda>u. Some approving_user))
      (run device_step sample_approval empty_device_store)) = OutPoll PollAuthorized (Some approving_user) g"
    by (rule exI) code_simp
  ultimately show ?thesis using device_token_needs_approval by blast
qed

end
