(* ===== verification/Serialization.thy ===== *)
theory Serialization
  imports Nano_Models
begin

text \<open>
  \<open>serialization.py\<close>: how the configuration is written into its YAML documents. A document is
  what \<open>ruamel.yaml\<close> loads: a dictionary of JSON values (comments and quoting are below this
  level). The environment, which placeholders are expanded from, is a parameter. A \<open>TypeError\<close> or
  \<open>AttributeError\<close> on a document of the wrong shape is \<open>None\<close>.
\<close>

type_synonym doc = "(str, json) dict"
type_synonym env = "str \<Rightarrow> str option"

subsection \<open>Equality of values\<close>

fun num_val :: "json \<Rightarrow> (int \<times> nat) option" where
  \<comment> \<open>mantissa and decimals of a number; \<open>True\<close> is 1\<close>
  "num_val (JBool b) = Some (if b then 1 else 0, 0)"
| "num_val (JInt i) = Some (i, 0)"
| "num_val (JDec m e) = Some (m, e)"
| "num_val _ = None"

definition num_eq :: "int \<times> nat \<Rightarrow> int \<times> nat \<Rightarrow> bool" where
  "num_eq a b \<longleftrightarrow> fst a * 10 ^ snd b = fst b * 10 ^ snd a"

fun json_eq :: "json \<Rightarrow> json \<Rightarrow> bool" and jsons_eq :: "json list \<Rightarrow> json list \<Rightarrow> bool"
  and fields_in :: "(str \<times> json) list \<Rightarrow> (str \<times> json) list \<Rightarrow> bool" where
  \<comment> \<open>Python's \<open>==\<close>: numbers by value, dictionaries without order\<close>
  "json_eq (JList xs) (JList ys) = jsons_eq xs ys"
| "json_eq (JObj d) (JObj e) = (length d = length e \<and> fields_in d e)"
| "json_eq (JStr s) (JStr t) = (s = t)"
| "json_eq JNull JNull = True"
| "json_eq v w = (case (num_val v, num_val w) of (Some a, Some b) \<Rightarrow> num_eq a b | _ \<Rightarrow> False)"
| "jsons_eq [] [] = True"
| "jsons_eq (x # xs) (y # ys) = (json_eq x y \<and> jsons_eq xs ys)"
| "jsons_eq _ _ = False"
| "fields_in [] e = True"
| "fields_in ((k, v) # d) e =
     ((case dget e k of None \<Rightarrow> False | Some w \<Rightarrow> json_eq v w) \<and> fields_in d e)"

fun json_wf :: "json \<Rightarrow> bool" where
  \<comment> \<open>the keys of every dictionary are distinct\<close>
  "json_wf (JList xs) = list_all json_wf xs"
| "json_wf (JObj d) = (distinct (map fst d) \<and> list_all (\<lambda>(k, v). json_wf v) d)"
| "json_wf _ = True"

subsection \<open>Placeholders\<close>

definition name_start :: "char \<Rightarrow> bool" where
  "name_start c \<longleftrightarrow> is_alpha c \<or> c = CHR ''_''"

definition name_char :: "char \<Rightarrow> bool" where
  "name_char c \<longleftrightarrow> is_alpha c \<or> is_digit c \<or> c = CHR ''_''"

definition placeholder :: "str \<Rightarrow> ((str \<times> str option) \<times> str) option" where
  \<comment> \<open>a match of \<open>_ENV_VAR_RE\<close> at the start: name, default, and the rest of the text\<close>
  "placeholder s =
     (if \<not> starts_with s ''${'' then None
      else
        let t = drop 2 s; name = takeWhile name_char t; u = dropWhile name_char t in
        if name = [] \<or> \<not> name_start (hd name) \<or> u = [] then None
        else if hd u = CHR ''}'' then Some ((name, None), tl u)
        else if hd u = CHR '':'' then
          (let rest = dropWhile (\<lambda>c. c \<noteq> CHR ''}'') (tl u) in
           if rest = [] then None
           else Some ((name, Some (takeWhile (\<lambda>c. c \<noteq> CHR ''}'') (tl u))), tl rest))
        else None)"

lemma length_dropWhile_tl: "dropWhile P xs \<noteq> [] \<Longrightarrow> length (tl (dropWhile P xs)) < length xs"
  using length_dropWhile_le [of P xs] by (cases "dropWhile P xs") auto

lemma placeholder_shorter: "placeholder s = Some (m, rest) \<Longrightarrow> length rest < length s"
proof -
  assume p: "placeholder s = Some (m, rest)"
  have s: "starts_with s ''${''" using p by (auto simp: placeholder_def split: if_splits)
  then have "length (drop 2 s) < length s" by (cases s) (auto simp: starts_with_def)
  moreover have "length rest \<le> length (drop 2 s)"
  proof -
    have "length (tl (dropWhile name_char (drop 2 s))) \<le> length (drop 2 s)"
      using length_dropWhile_le [of name_char "drop 2 s"] by simp
    moreover have "length (tl (dropWhile (\<lambda>c. c \<noteq> CHR ''}'') (tl (dropWhile name_char (drop 2 s)))))
        \<le> length (drop 2 s)"
      using length_dropWhile_le [of name_char "drop 2 s"]
        length_dropWhile_le [of "\<lambda>c. c \<noteq> CHR ''}''" "tl (dropWhile name_char (drop 2 s))"] by simp
    ultimately show ?thesis
      using p by (auto simp: placeholder_def Let_def simp del: length_tl length_drop split: if_splits)
  qed
  ultimately show ?thesis by simp
qed

function expand_str :: "env \<Rightarrow> str \<Rightarrow> str" where
  \<comment> \<open>\<open>_ENV_VAR_RE.sub(_replace, value)\<close>\<close>
  "expand_str env [] = []"
| "expand_str env (c # cs) =
     (case placeholder (c # cs) of
        None \<Rightarrow> c # expand_str env cs
      | Some ((name, dflt), rest) \<Rightarrow>
          (case env name of Some v \<Rightarrow> v | None \<Rightarrow> (case dflt of None \<Rightarrow> [] | Some d \<Rightarrow> d))
            @ expand_str env rest)"
  by pat_completeness auto
termination
  by (relation "measure (length \<circ> snd)") (auto dest: placeholder_shorter)

fun expand_env_vars :: "env \<Rightarrow> json \<Rightarrow> json" and expand_list :: "env \<Rightarrow> json list \<Rightarrow> json list"
  and expand_fields :: "env \<Rightarrow> (str \<times> json) list \<Rightarrow> (str \<times> json) list" where
  "expand_env_vars env (JStr s) = JStr (expand_str env s)"
| "expand_env_vars env (JObj d) = JObj (expand_fields env d)"
| "expand_env_vars env (JList xs) = JList (expand_list env xs)"
| "expand_env_vars env v = v"
| "expand_list env [] = []"
| "expand_list env (x # xs) = expand_env_vars env x # expand_list env xs"
| "expand_fields env [] = []"
| "expand_fields env ((k, v) # d) = (k, expand_env_vars env v) # expand_fields env d"

subsection \<open>The unchanged check\<close>

definition dval :: "doc \<Rightarrow> str \<Rightarrow> json" where
  \<comment> \<open>\<open>d.get(k)\<close>\<close>
  "dval d k = (case dget d k of None \<Rightarrow> JNull | Some v \<Rightarrow> v)"

definition dval_or :: "doc \<Rightarrow> str \<Rightarrow> json \<Rightarrow> json" where
  \<comment> \<open>\<open>d.get(k, dflt)\<close>\<close>
  "dval_or d k dflt = (case dget d k of None \<Rightarrow> dflt | Some v \<Rightarrow> v)"

definition float_json :: "str \<Rightarrow> json option" where
  \<comment> \<open>\<open>float(s)\<close> when it is finite\<close>
  "float_json s =
     (let t = num_strip s; neg = (take 1 t = ''-'');
          u = (if neg \<or> take 1 t = ''+'' then drop 1 t else t)
      in map_option (\<lambda>(m, e). let m' = (if neg then - m else m) in
           if 0 \<le> e then JInt (m' * 10 ^ nat e) else JDec m' (nat (- e))) (float_body u))"

fun coerce_like :: "json \<Rightarrow> json \<Rightarrow> json" where
  \<comment> \<open>a string read as the type of the value it is compared with\<close>
  "coerce_like (JStr s) (JBool b) = JBool (py_lower (py_strip s) \<in> set [''true'', ''1'', ''yes'', ''on''])"
| "coerce_like (JStr s) (JInt i) = (case py_int s of None \<Rightarrow> JStr s | Some n \<Rightarrow> JInt n)"
| "coerce_like (JStr s) (JDec m e) = (case float_json s of None \<Rightarrow> JStr s | Some v \<Rightarrow> v)"
| "coerce_like v w = v"

definition is_unchanged :: "env \<Rightarrow> json \<Rightarrow> json \<Rightarrow> bool" where
  "is_unchanged env current_raw new_value =
     json_eq (coerce_like (expand_env_vars env current_raw) new_value) new_value"

definition merge_optional_nested_field :: "env \<Rightarrow> doc \<Rightarrow> str \<Rightarrow> str \<Rightarrow> json \<Rightarrow> json \<Rightarrow> doc option" where
  "merge_optional_nested_field env document section_key field_key value dflt =
     (case (if json_true (dval document section_key) then dval document section_key else JObj []) of
        JObj section \<Rightarrow>
          if is_unchanged env (dval_or section field_key dflt) value then Some document
          else if \<not> json_eq value dflt then
            (case dval document section_key of
               JNull \<Rightarrow> Some (dset section_key (JObj [(field_key, value)]) document)
             | JObj d \<Rightarrow> Some (dset section_key (JObj (dset field_key value d)) document)
             | _ \<Rightarrow> None)
          else (case dget document section_key of
               None \<Rightarrow> Some document
             | Some (JObj d) \<Rightarrow>
                 if ddel field_key d = [] then Some (ddel section_key document)
                 else Some (dset section_key (JObj (ddel field_key d)) document)
             | Some _ \<Rightarrow> None)
      | _ \<Rightarrow> None)"

subsection \<open>Clients\<close>

fun auth_method_str :: "auth_method \<Rightarrow> str" where
  "auth_method_str ClientSecretBasic = ''client_secret_basic''"
| "auth_method_str ClientSecretPost = ''client_secret_post''"
| "auth_method_str AuthNone = ''none''"

definition client_id_matches :: "env \<Rightarrow> json \<Rightarrow> str \<Rightarrow> bool" where
  "client_id_matches env raw_entry client_id =
     (case raw_entry of JObj d \<Rightarrow> is_unchanged env (dval d ''client_id'') (JStr client_id) | _ \<Rightarrow> False)"

definition client_to_yaml :: "oauth_client \<Rightarrow> doc" where
  "client_to_yaml c =
     [(''client_id'', JStr (cl_client_id c))]
     @ (if cl_client_secret c \<noteq> None then [(''client_secret'', jopt (cl_client_secret c))] else [])
     @ (if cl_auth_method c \<noteq> ClientSecretBasic
        then [(''token_endpoint_auth_method'', JStr (auth_method_str (cl_auth_method c)))] else [])
     @ (if cl_layout c \<noteq> ''vertical'' then [(''layout'', JStr (cl_layout c))] else [])
     @ [(''description'', JStr (cl_description c))]
     @ (if opt_true (cl_background_color c) then [(''background_color'', jopt (cl_background_color c))] else [])
     @ (if opt_true (cl_header_color c) then [(''header_color'', jopt (cl_header_color c))] else [])
     @ (if opt_true (cl_footer_color c) then [(''footer_color'', jopt (cl_footer_color c))] else [])
     @ (if \<not> cl_show_client_id c then [(''show_client_id'', JBool False)] else [])
     @ (if cl_show_description c then [(''show_description'', JBool True)] else [])
     @ (if cl_additional_audiences c \<noteq> [] then [(''additional_audiences'', jstrs (cl_additional_audiences c))] else [])
     @ (if cl_redirect_uris c \<noteq> [] then [(''redirect_uris'', jstrs (cl_redirect_uris c))] else [])
     @ (if cl_allowed_scopes c \<noteq> [] then [(''allowed_scopes'', jstrs (cl_allowed_scopes c))] else [])
     @ (if cl_allowed_resources c \<noteq> [] then [(''allowed_resources'', jstrs (cl_allowed_resources c))] else [])"

definition put_if_changed :: "env \<Rightarrow> doc \<Rightarrow> str \<Rightarrow> json \<Rightarrow> bool \<Rightarrow> doc \<Rightarrow> doc" where
  \<comment> \<open>the step all fields of \<open>merge_client_entry\<close> share: keep the raw text of an unchanged field, write
      a changed one, drop the key of one that is back at its default\<close>
  "put_if_changed env raw k v keep updated =
     (if is_unchanged env (dval raw k) v then updated
      else if keep then dset k v updated else ddel k updated)"

definition text_fields :: "oauth_client \<Rightarrow> (str \<times> json \<times> bool) list" where
  \<comment> \<open>key, value, and whether a changed value is written\<close>
  "text_fields c =
     [(''client_id'', JStr (cl_client_id c), cl_client_id c \<noteq> []),
      (''client_secret'', jopt (cl_client_secret c), cl_client_secret c \<noteq> None),
      (''description'', JStr (cl_description c), True),
      (''background_color'', jopt (cl_background_color c), opt_true (cl_background_color c)),
      (''header_color'', jopt (cl_header_color c), opt_true (cl_header_color c)),
      (''footer_color'', jopt (cl_footer_color c), opt_true (cl_footer_color c))]"

definition default_fields :: "oauth_client \<Rightarrow> (str \<times> json \<times> bool) list" where
  "default_fields c =
     [(''token_endpoint_auth_method'', JStr (auth_method_str (cl_auth_method c)), cl_auth_method c \<noteq> ClientSecretBasic),
      (''layout'', JStr (cl_layout c), cl_layout c \<noteq> ''vertical''),
      (''show_client_id'', JBool (cl_show_client_id c), \<not> cl_show_client_id c),
      (''show_description'', JBool (cl_show_description c), cl_show_description c)]"

definition list_fields :: "oauth_client \<Rightarrow> (str \<times> json \<times> bool) list" where
  "list_fields c =
     [(''additional_audiences'', jstrs (cl_additional_audiences c), cl_additional_audiences c \<noteq> []),
      (''redirect_uris'', jstrs (cl_redirect_uris c), cl_redirect_uris c \<noteq> []),
      (''allowed_scopes'', jstrs (cl_allowed_scopes c), cl_allowed_scopes c \<noteq> []),
      (''allowed_resources'', jstrs (cl_allowed_resources c), cl_allowed_resources c \<noteq> [])]"

fun merge_fields :: "env \<Rightarrow> doc \<Rightarrow> (str \<times> json \<times> bool) list \<Rightarrow> doc \<Rightarrow> doc" where
  "merge_fields env raw [] updated = updated"
| "merge_fields env raw ((k, v, keep) # fs) updated =
     merge_fields env raw fs (put_if_changed env raw k v keep updated)"

definition merge_client_entry :: "env \<Rightarrow> doc \<Rightarrow> oauth_client \<Rightarrow> doc" where
  "merge_client_entry env raw c = merge_fields env raw (text_fields c @ default_fields c @ list_fields c) raw"

fun raw_client_entries :: "json \<Rightarrow> doc list" where
  "raw_client_entries (JList xs) = concat (map (\<lambda>x. case x of JObj d \<Rightarrow> [d] | _ \<Rightarrow> []) xs)"
| "raw_client_entries _ = []"

definition merge_oauth_clients :: "env \<Rightarrow> json \<Rightarrow> oauth_client list \<Rightarrow> doc list" where
  "merge_oauth_clients env raw_clients clients =
     map (\<lambda>c. case find (\<lambda>r. client_id_matches env (JObj r) (cl_client_id c)) (raw_client_entries raw_clients) of
                 None \<Rightarrow> client_to_yaml c
               | Some raw \<Rightarrow> merge_client_entry env raw c) clients"

subsection \<open>Users\<close>

definition user_to_yaml :: "user \<Rightarrow> doc" where
  "user_to_yaml u =
     (if u_password u \<noteq> None then [(''password'', jopt (u_password u))] else [])
     @ (if u_description u \<noteq> [] then [(''description'', JStr (u_description u))] else [])
     @ [(''email'', JStr (u_email u))]
     @ (if opt_true (u_identity_class u) then [(''identity_class'', jopt (u_identity_class u))] else [])
     @ (if u_entitlements u \<noteq> [] then [(''entitlements'', jstrs (u_entitlements u))] else [])
     @ (if u_roles u \<noteq> [] then [(''roles'', jstrs (u_roles u))] else [])
     @ (if u_groups u \<noteq> [] then [(''groups'', jstrs (u_groups u))] else [])
     @ (if u_tenant u \<noteq> [] \<and> u_tenant u \<noteq> ''default'' then [(''tenant'', JStr (u_tenant u))] else [])
     @ (if u_source_acl u \<noteq> [] then [(''source_acl'', jstrs (u_source_acl u))] else [])
     @ (if u_attributes u \<noteq> [] then [(''attributes'', JObj (u_attributes u))] else [])"

definition apply_users_document :: "doc \<Rightarrow> (str, user) dict \<Rightarrow> str \<Rightarrow> doc" where
  "apply_users_document document users default_user =
     dset ''default_user'' (JStr default_user)
       (dset ''users'' (JObj (map (\<lambda>(n, u). (n, JObj (user_to_yaml u))) users)) document)"

subsection \<open>The settings document\<close>

datatype doc_mode = Plain | OmitWhenFalsy json | OmitWhenNone

record owned_setting =
  os_section :: str \<comment> \<open>empty for a top-level key\<close>
  os_key :: str
  os_attr :: "settings \<Rightarrow> json"
  os_mode :: doc_mode

definition owned :: "str \<Rightarrow> str \<Rightarrow> (settings \<Rightarrow> json) \<Rightarrow> doc_mode \<Rightarrow> owned_setting" where
  "owned section k attr mode = \<lparr>os_section = section, os_key = k, os_attr = attr, os_mode = mode\<rparr>"

definition owned_settings :: "owned_setting list" where
  "owned_settings =
     [owned ''server'' ''host'' (\<lambda>s. JStr (s_host s)) Plain,
      owned ''server'' ''port'' (\<lambda>s. JInt (s_port s)) Plain,
      owned ''server'' ''rate_limit_enabled'' (\<lambda>s. JBool (s_rate_limit_enabled s)) Plain,
      owned ''server'' ''rate_limit_token_endpoint'' (\<lambda>s. JStr (s_rate_limit_token_endpoint s)) Plain,
      owned ''oauth'' ''issuer'' (\<lambda>s. JStr (s_issuer s)) Plain,
      owned ''oauth'' ''issuer_from_request'' (\<lambda>s. JBool (s_issuer_from_request s)) Plain,
      owned ''oauth'' ''issuer_allowlist'' (\<lambda>s. jstrs (s_issuer_allowlist s)) (OmitWhenFalsy (JList [])),
      owned ''oauth'' ''device_verification_base_url'' (\<lambda>s. jopt (s_device_verification_base_url s))
        (OmitWhenFalsy (JStr [])),
      owned ''oauth'' ''issuer_from_proxy_headers'' (\<lambda>s. JBool (s_issuer_from_proxy_headers s)) Plain,
      owned ''oauth'' ''audience'' (\<lambda>s. JStr (s_audience s)) Plain,
      owned ''oauth'' ''token_expiry_minutes'' (\<lambda>s. JInt (s_token_expiry_minutes s)) Plain,
      owned ''oauth'' ''refresh_token_rotation'' (\<lambda>s. JBool (s_refresh_token_rotation s)) Plain,
      owned ''oauth'' ''require_pkce'' (\<lambda>s. JBool (s_require_pkce s)) Plain,
      owned ''oauth'' ''logos_dir'' (\<lambda>s. jopt (s_logos_dir s)) (OmitWhenFalsy (JStr [])),
      owned ''saml'' ''entity_id'' (\<lambda>s. jopt (s_saml_entity_id s)) OmitWhenNone,
      owned ''saml'' ''sso_url'' (\<lambda>s. jopt (s_saml_sso_url s)) OmitWhenNone,
      owned ''saml'' ''default_acs_url'' (\<lambda>s. JStr (s_default_acs_url s)) Plain,
      owned ''saml'' ''sign_responses'' (\<lambda>s. JBool (s_saml_sign_responses s)) Plain,
      owned ''saml'' ''export_roles'' (\<lambda>s. JBool (s_saml_export_roles s)) Plain,
      owned ''saml'' ''export_groups'' (\<lambda>s. JBool (s_saml_export_groups s)) Plain,
      owned ''saml'' ''roles_attr_name'' (\<lambda>s. JStr (s_saml_roles_attr_name s)) (OmitWhenFalsy (JStr [])),
      owned ''saml'' ''groups_attr_name'' (\<lambda>s. JStr (s_saml_groups_attr_name s)) (OmitWhenFalsy (JStr [])),
      owned ''saml'' ''c14n_algorithm'' (\<lambda>s. JStr (s_saml_c14n_algorithm s)) Plain,
      owned ''saml'' ''strict_binding'' (\<lambda>s. JBool (s_strict_saml_binding s)) Plain,
      owned ''saml'' ''want_authn_requests_signed'' (\<lambda>s. JBool (s_saml_want_authn_requests_signed s)) Plain,
      owned ''saml'' ''sp_certificates'' (\<lambda>s. jstrs (s_saml_sp_certificates s)) (OmitWhenFalsy (JList [])),
      owned ''logging'' ''verbose_logging'' (\<lambda>s. JBool (s_verbose_logging s)) Plain,
      owned [] ''authority_prefixes''
        (\<lambda>s. JObj (map (\<lambda>(k, v). (k, JStr v)) (s_authority_prefixes s))) Plain,
      owned [] ''allowed_identity_classes'' (\<lambda>s. jstrs (s_allowed_identity_classes s)) (OmitWhenFalsy (JList []))]"

definition section_target :: "str \<Rightarrow> doc \<Rightarrow> doc option" where
  \<comment> \<open>the document itself, or \<open>document.setdefault(section, {})\<close>; \<open>None\<close>: it is no mapping\<close>
  "section_target section document =
     (if section = [] then Some document
      else (case dget document section of None \<Rightarrow> Some [] | Some (JObj d) \<Rightarrow> Some d | _ \<Rightarrow> None))"

definition put_target :: "str \<Rightarrow> doc \<Rightarrow> doc \<Rightarrow> doc" where
  "put_target section target document =
     (if section = [] then target else dset section (JObj target) document)"

definition row_target :: "env \<Rightarrow> settings \<Rightarrow> owned_setting \<Rightarrow> doc \<Rightarrow> doc" where
  "row_target env s row target =
     (let k = os_key row; value = os_attr row s in
      case os_mode row of
        Plain \<Rightarrow> if is_unchanged env (dval target k) value then target else dset k value target
      | OmitWhenFalsy absent \<Rightarrow>
          if is_unchanged env (dval target k) (if json_true value then value else absent) then target
          else if json_true value then dset k value target else ddel k target
      | OmitWhenNone \<Rightarrow>
          if value = JNull then ddel k target
          else if is_unchanged env (dval target k) value then target else dset k value target)"

definition apply_row :: "env \<Rightarrow> settings \<Rightarrow> owned_setting \<Rightarrow> doc \<Rightarrow> doc option" where
  "apply_row env s row document =
     (case section_target (os_section row) document of
        None \<Rightarrow> None
      | Some target \<Rightarrow> Some (put_target (os_section row) (row_target env s row target) document))"

fun apply_rows :: "env \<Rightarrow> settings \<Rightarrow> owned_setting list \<Rightarrow> doc \<Rightarrow> doc option" where
  "apply_rows env s [] document = Some document"
| "apply_rows env s (row # rows) document =
     (case apply_row env s row document of None \<Rightarrow> None | Some d \<Rightarrow> apply_rows env s rows d)"

definition apply_clients :: "env \<Rightarrow> oauth_client list \<Rightarrow> doc \<Rightarrow> doc option" where
  "apply_clients env clients document =
     (case section_target ''oauth'' document of
        None \<Rightarrow> None
      | Some oauth \<Rightarrow>
          (let current = dval_or oauth ''clients'' (JList []);
               new_clients = merge_oauth_clients env current clients
           in Some (put_target ''oauth''
               (if json_eq (JList (map JObj new_clients)) current then oauth
                else if new_clients \<noteq> [] then dset ''clients'' (JList (map JObj new_clients)) oauth
                else ddel ''clients'' oauth) document)))"

definition fallback_defaults :: doc where
  "fallback_defaults = [(''security_profile'', JStr ''dev''), (''login.mode'', JStr ''password''),
     (''login.auto_login'', JBool False), (''login.two_step'', JBool False)]"

definition apply_security_profile :: "env \<Rightarrow> doc \<Rightarrow> settings \<Rightarrow> doc \<Rightarrow> doc" where
  "apply_security_profile env defaults s document =
     (let dflt = dval defaults ''security_profile''; v = JStr (s_security_profile s) in
      if is_unchanged env (dval_or document ''security_profile'' dflt) v then document
      else if \<not> json_eq v dflt then dset ''security_profile'' v document
      else ddel ''security_profile'' document)"

definition apply_settings_document :: "env \<Rightarrow> doc \<Rightarrow> settings \<Rightarrow> doc \<Rightarrow> doc option" where
  "apply_settings_document env document s defaults =
     Option.bind (apply_rows env s owned_settings document) (\<lambda>d1.
     Option.bind (apply_clients env (s_clients s) d1) (\<lambda>d2.
     Option.bind (merge_optional_nested_field env (apply_security_profile env defaults s d2)
        ''login'' ''mode'' (JStr (s_login_mode s)) (dval defaults ''login.mode'')) (\<lambda>d3.
     Option.bind (merge_optional_nested_field env d3
        ''login'' ''auto_login'' (JBool (s_auto_login s)) (dval defaults ''login.auto_login'')) (\<lambda>d4.
     merge_optional_nested_field env d4
        ''login'' ''two_step'' (JBool (s_two_step s)) (dval defaults ''login.two_step'')))))"

subsection \<open>The contract version\<close>

definition config_version :: int where
  "config_version = 1"

definition implicit_config_version :: int where
  "implicit_config_version = 1"

datatype version_error = NotAPositiveInteger json | NewerThanSupported int

definition check_config_version :: "doc \<Rightarrow> version_error + int" where
  "check_config_version data =
     (case dget data ''config_version'' of
        None \<Rightarrow> Inr implicit_config_version
      | Some (JInt v) \<Rightarrow>
          if v < 1 then Inl (NotAPositiveInteger (JInt v))
          else if config_version < v then Inl (NewerThanSupported v)
          else Inr v
      | Some v \<Rightarrow> Inl (NotAPositiveInteger v))"

subsection \<open>Values that are no placeholders\<close>

fun plain :: "json \<Rightarrow> bool" where
  \<comment> \<open>no string of the value has a dollar sign\<close>
  "plain (JStr s) \<longleftrightarrow> CHR ''$'' \<notin> set s"
| "plain (JList xs) \<longleftrightarrow> list_all plain xs"
| "plain (JObj d) \<longleftrightarrow> list_all (\<lambda>(k, v). plain v) d"
| "plain _ \<longleftrightarrow> True"

lemma placeholder_dollar: "c \<noteq> CHR ''$'' \<Longrightarrow> placeholder (c # cs) = None"
  by (simp add: placeholder_def starts_with_def)

lemma expand_str_plain: "CHR ''$'' \<notin> set s \<Longrightarrow> expand_str env s = s"
  by (induction s) (auto simp: placeholder_dollar)

lemma expand_plain:
  "plain v \<Longrightarrow> expand_env_vars env v = v"
  "list_all plain xs \<Longrightarrow> expand_list env xs = xs"
  "list_all (\<lambda>(k, v). plain v) d \<Longrightarrow> expand_fields env d = d"
  by (induction env v and env xs and env d rule: expand_env_vars_expand_list_expand_fields.induct)
     (auto simp: expand_str_plain)

lemma plain_jstrs [simp]: "plain (jstrs xs) \<longleftrightarrow> (\<forall>x \<in> set xs. CHR ''$'' \<notin> set x)"
  by (auto simp: jstrs_def list_all_iff)

lemma num_eq_refl [simp]: "num_eq a a"
  by (simp add: num_eq_def)

lemma json_eq_refl_step:
  "json_wf v \<Longrightarrow> json_eq v v"
proof (induction v rule: measure_induct_rule [of size])
  case (less v)
  have lists: "jsons_eq xs xs" if "\<And>x. x \<in> set xs \<Longrightarrow> json_eq x x" for xs
    using that by (induction xs) auto
  have fields: "(\<forall>(k, w) \<in> set d. dget e k = Some w \<and> json_eq w w) \<Longrightarrow> fields_in d e" for d e
    by (induction d) (auto split: option.split)
  show ?case
  proof (cases v)
    case (JList xs)
    have "json_eq x x" if "x \<in> set xs" for x
      using less that size_list_estimation' [OF that order_refl, of size] unfolding JList by (auto simp: list_all_iff)
    then show ?thesis by (simp add: JList lists)
  next
    case (JObj d)
    have "dget d k = Some w \<and> json_eq w w" if "(k, w) \<in> set d" for k w
    proof
      show "dget d k = Some w" using less.prems that by (intro in_set_dget) (simp_all add: JObj dict_wf_def)
      have "size w \<le> size_list (size_prod (\<lambda>x. 0) size) d" using that by (induction d) auto
      then have "size w < size v" by (simp add: JObj)
      then show "json_eq w w" using less that by (force simp: JObj list_all_iff)
    qed
    then have "\<forall>(k, w) \<in> set d. dget d k = Some w \<and> json_eq w w" by blast
    then show ?thesis by (simp add: JObj fields)
  qed simp_all
qed

lemma coerce_like_same [simp]: "coerce_like v v = v"
  by (cases v) auto

lemma is_unchanged_same: "plain v \<Longrightarrow> json_wf v \<Longrightarrow> is_unchanged env v v"
  by (simp add: is_unchanged_def expand_plain(1) json_eq_refl_step)

text \<open>In the theories on documents an update that changes nothing is simplified away.\<close>

declare dset_same [simp] ddel_absent [simp]

end
