(* ===== verification/Config_Documents.thy ===== *)
theory Config_Documents
  imports Serialization
begin

text \<open>
  \<open>config_documents.py\<close>: the documents \<open>settings.yaml\<close> and \<open>users.yaml\<close> as models of their
  sections, their validation, and the domain models built from them. A document model is a pair: the
  errors of a mapping, in the order pydantic reports them (the declared fields in their order), and
  the value it stands for when there are none. Unknown keys are errors of their own kind and listed
  apart. What pydantic accepts for numbers and booleans, and the rate-limit grammar, are parameters.
\<close>

subsection \<open>Validation of values\<close>

datatype loc = Key str | Idx nat

type_synonym path = "loc list"

record pydantic =
  pd_int :: "json \<Rightarrow> int option"
  pd_bool :: "json \<Rightarrow> bool option"
  pd_float :: "json \<Rightarrow> (int \<times> nat) option"
  pd_rate :: "str \<Rightarrow> bool" \<comment> \<open>\<open>limits.parse\<close> accepts the string\<close>

type_synonym 'a conv = "json \<Rightarrow> path list + 'a" \<comment> \<open>errors below the value, or the value\<close>

definition of_opt :: "(json \<Rightarrow> 'a option) \<Rightarrow> 'a conv" where
  "of_opt f v = (case f v of None \<Rightarrow> Inl [[]] | Some x \<Rightarrow> Inr x)"

fun as_str :: "str conv" where
  "as_str (JStr s) = Inr s"
| "as_str _ = Inl [[]]"

fun as_opt_str :: "str option conv" where
  "as_opt_str JNull = Inr None"
| "as_opt_str (JStr s) = Inr (Some s)"
| "as_opt_str _ = Inl [[]]"

definition as_literal :: "str list \<Rightarrow> str conv" where
  "as_literal values v = (case v of JStr s \<Rightarrow> if s \<in> set values then Inr s else Inl [[]] | _ \<Rightarrow> Inl [[]])"

fun item_errors :: "'a conv \<Rightarrow> nat \<Rightarrow> json list \<Rightarrow> path list" where
  "item_errors f i [] = []"
| "item_errors f i (x # xs) =
     (case f x of Inl ps \<Rightarrow> map (\<lambda>p. Idx i # p) ps | Inr _ \<Rightarrow> []) @ item_errors f (Suc i) xs"

fun item_values :: "'a conv \<Rightarrow> json list \<Rightarrow> 'a list" where
  "item_values f [] = []"
| "item_values f (x # xs) = (case f x of Inl _ \<Rightarrow> [] | Inr y \<Rightarrow> [y]) @ item_values f xs"

fun as_list :: "'a conv \<Rightarrow> 'a list conv" where
  "as_list f (JList xs) = (if item_errors f 0 xs = [] then Inr (item_values f xs) else Inl (item_errors f 0 xs))"
| "as_list f _ = Inl [[]]"

fun entry_errors :: "'a conv \<Rightarrow> doc \<Rightarrow> path list" where
  "entry_errors f [] = []"
| "entry_errors f ((k, v) # d) =
     (case f v of Inl ps \<Rightarrow> map (\<lambda>p. Key k # p) ps | Inr _ \<Rightarrow> []) @ entry_errors f d"

fun entry_values :: "'a conv \<Rightarrow> doc \<Rightarrow> (str, 'a) dict" where
  "entry_values f [] = []"
| "entry_values f ((k, v) # d) = (case f v of Inl _ \<Rightarrow> [] | Inr y \<Rightarrow> [(k, y)]) @ entry_values f d"

fun as_dict :: "'a conv \<Rightarrow> (str, 'a) dict conv" where
  "as_dict f (JObj d) = (if entry_errors f d = [] then Inr (entry_values f d) else Inl (entry_errors f d))"
| "as_dict f _ = Inl [[]]"

fun as_opt_strs :: "str list option conv" where
  "as_opt_strs JNull = Inr None"
| "as_opt_strs v = (case as_list as_str v of Inl ps \<Rightarrow> Inl ps | Inr xs \<Rightarrow> Inr (Some xs))"

definition as_any :: "json conv" where
  "as_any v = Inr v"

definition field_errors :: "'a conv \<Rightarrow> doc \<Rightarrow> str \<Rightarrow> path list" where
  "field_errors f d k =
     (case dget d k of None \<Rightarrow> []
      | Some v \<Rightarrow> (case f v of Inl ps \<Rightarrow> map (\<lambda>p. Key k # p) ps | Inr _ \<Rightarrow> []))"

definition field_value :: "'a conv \<Rightarrow> 'a \<Rightarrow> doc \<Rightarrow> str \<Rightarrow> 'a" where
  "field_value f dflt d k =
     (case dget d k of None \<Rightarrow> dflt | Some v \<Rightarrow> (case f v of Inl _ \<Rightarrow> dflt | Inr x \<Rightarrow> x))"

fun as_model :: "(doc \<Rightarrow> path list) \<Rightarrow> (doc \<Rightarrow> 'a) \<Rightarrow> 'a conv" where
  \<comment> \<open>\<open>model_validate\<close> of a mapping\<close>
  "as_model errors val (JObj d) = (if errors d = [] then Inr (val d) else Inl (errors d))"
| "as_model errors val _ = Inl [[]]"

definition extras :: "str list \<Rightarrow> doc \<Rightarrow> path list" where
  \<comment> \<open>the keys a model does not declare\<close>
  "extras known d = map (\<lambda>(k, v). [Key k]) (filter (\<lambda>(k, v). k \<notin> set known) d)"

subsection \<open>Sections of the settings\<close>

record server_section =
  sv_host :: str
  sv_port :: int
  sv_debug :: bool
  sv_rate_limit_enabled :: bool
  sv_rate_limit_token_endpoint :: str

definition server_keys :: "str list" where
  "server_keys = [''host'', ''port'', ''debug'', ''rate_limit_enabled'', ''rate_limit_token_endpoint'']"

definition server_errors :: "pydantic \<Rightarrow> doc \<Rightarrow> path list" where
  "server_errors V d =
     field_errors as_str d ''host'' @ field_errors (of_opt (pd_int V)) d ''port''
     @ field_errors (of_opt (pd_bool V)) d ''debug'' @ field_errors (of_opt (pd_bool V)) d ''rate_limit_enabled''
     @ field_errors as_str d ''rate_limit_token_endpoint''"

definition server_value :: "pydantic \<Rightarrow> doc \<Rightarrow> server_section" where
  "server_value V d =
     \<lparr>sv_host = field_value as_str ''127.0.0.1'' d ''host'',
      sv_port = field_value (of_opt (pd_int V)) 8000 d ''port'',
      sv_debug = field_value (of_opt (pd_bool V)) False d ''debug'',
      sv_rate_limit_enabled = field_value (of_opt (pd_bool V)) False d ''rate_limit_enabled'',
      sv_rate_limit_token_endpoint = field_value as_str ''10/minute'' d ''rate_limit_token_endpoint''\<rparr>"

record client_entry =
  ce_client_id :: str
  ce_client_secret :: str
  ce_auth_method :: str
  ce_layout :: str
  ce_description :: str
  ce_background_color :: "str option"
  ce_header_color :: "str option"
  ce_footer_color :: "str option"
  ce_show_client_id :: bool
  ce_show_description :: bool
  ce_additional_audiences :: json
  ce_redirect_uris :: json
  ce_allowed_scopes :: json
  ce_allowed_resources :: json

definition client_keys :: "str list" where
  "client_keys = [''client_id'', ''client_secret'', ''token_endpoint_auth_method'', ''layout'', ''description'',
     ''background_color'', ''header_color'', ''footer_color'', ''show_client_id'', ''show_description'',
     ''additional_audiences'', ''redirect_uris'', ''allowed_scopes'', ''allowed_resources'']"

definition as_auth_method :: "str conv" where
  "as_auth_method = as_literal [''client_secret_basic'', ''client_secret_post'', ''none'']"

definition as_layout :: "str conv" where
  "as_layout = as_literal [''vertical'', ''horizontal'']"

definition client_errors :: "pydantic \<Rightarrow> doc \<Rightarrow> path list" where
  "client_errors V d =
     field_errors as_str d ''client_id'' @ field_errors as_str d ''client_secret''
     @ field_errors as_auth_method d ''token_endpoint_auth_method'' @ field_errors as_layout d ''layout''
     @ field_errors as_str d ''description'' @ field_errors as_opt_str d ''background_color''
     @ field_errors as_opt_str d ''header_color'' @ field_errors as_opt_str d ''footer_color''
     @ field_errors (of_opt (pd_bool V)) d ''show_client_id''
     @ field_errors (of_opt (pd_bool V)) d ''show_description''"

definition client_value :: "pydantic \<Rightarrow> doc \<Rightarrow> client_entry" where
  "client_value V d =
     \<lparr>ce_client_id = field_value as_str [] d ''client_id'',
      ce_client_secret = field_value as_str [] d ''client_secret'',
      ce_auth_method = field_value as_auth_method ''client_secret_basic'' d ''token_endpoint_auth_method'',
      ce_layout = field_value as_layout ''vertical'' d ''layout'',
      ce_description = field_value as_str [] d ''description'',
      ce_background_color = field_value as_opt_str None d ''background_color'',
      ce_header_color = field_value as_opt_str None d ''header_color'',
      ce_footer_color = field_value as_opt_str None d ''footer_color'',
      ce_show_client_id = field_value (of_opt (pd_bool V)) True d ''show_client_id'',
      ce_show_description = field_value (of_opt (pd_bool V)) False d ''show_description'',
      ce_additional_audiences = field_value as_any JNull d ''additional_audiences'',
      ce_redirect_uris = field_value as_any JNull d ''redirect_uris'',
      ce_allowed_scopes = field_value as_any JNull d ''allowed_scopes'',
      ce_allowed_resources = field_value as_any JNull d ''allowed_resources''\<rparr>"

record oauth_section =
  oa_issuer :: str
  oa_issuer_from_request :: bool
  oa_issuer_allowlist :: "str list option"
  oa_device_verification_base_url :: "str option"
  oa_issuer_from_proxy_headers :: bool
  oa_audience :: str
  oa_token_expiry_minutes :: int
  oa_refresh_token_rotation :: bool
  oa_require_pkce :: bool
  oa_clients :: "client_entry list"
  oa_scopes_supported :: "str list option"
  oa_scope_enforcement :: bool
  oa_logos_dir :: "str option"

definition oauth_keys :: "str list" where
  "oauth_keys = [''issuer'', ''issuer_from_request'', ''issuer_allowlist'', ''device_verification_base_url'',
     ''issuer_from_proxy_headers'', ''audience'', ''token_expiry_minutes'', ''refresh_token_rotation'',
     ''require_pkce'', ''clients'', ''scopes_supported'', ''scope_enforcement'', ''logos_dir'',
     ''refresh_token_expiry_minutes'']"

definition oauth_errors :: "pydantic \<Rightarrow> doc \<Rightarrow> path list" where
  "oauth_errors V d =
     field_errors as_str d ''issuer'' @ field_errors (of_opt (pd_bool V)) d ''issuer_from_request''
     @ field_errors as_opt_strs d ''issuer_allowlist'' @ field_errors as_opt_str d ''device_verification_base_url''
     @ field_errors (of_opt (pd_bool V)) d ''issuer_from_proxy_headers'' @ field_errors as_str d ''audience''
     @ field_errors (of_opt (pd_int V)) d ''token_expiry_minutes''
     @ field_errors (of_opt (pd_bool V)) d ''refresh_token_rotation''
     @ field_errors (of_opt (pd_bool V)) d ''require_pkce''
     @ field_errors (as_list (as_model (client_errors V) (client_value V))) d ''clients''
     @ field_errors as_opt_strs d ''scopes_supported''
     @ field_errors (of_opt (pd_bool V)) d ''scope_enforcement'' @ field_errors as_opt_str d ''logos_dir''"

definition oauth_value :: "pydantic \<Rightarrow> doc \<Rightarrow> oauth_section" where
  "oauth_value V d =
     \<lparr>oa_issuer = field_value as_str ''http://localhost:8000'' d ''issuer'',
      oa_issuer_from_request = field_value (of_opt (pd_bool V)) False d ''issuer_from_request'',
      oa_issuer_allowlist = field_value as_opt_strs None d ''issuer_allowlist'',
      oa_device_verification_base_url = field_value as_opt_str None d ''device_verification_base_url'',
      oa_issuer_from_proxy_headers = field_value (of_opt (pd_bool V)) False d ''issuer_from_proxy_headers'',
      oa_audience = field_value as_str ''default'' d ''audience'',
      oa_token_expiry_minutes = field_value (of_opt (pd_int V)) 60 d ''token_expiry_minutes'',
      oa_refresh_token_rotation = field_value (of_opt (pd_bool V)) False d ''refresh_token_rotation'',
      oa_require_pkce = field_value (of_opt (pd_bool V)) False d ''require_pkce'',
      oa_clients = field_value (as_list (as_model (client_errors V) (client_value V))) [] d ''clients'',
      oa_scopes_supported = field_value as_opt_strs None d ''scopes_supported'',
      oa_scope_enforcement = field_value (of_opt (pd_bool V)) True d ''scope_enforcement'',
      oa_logos_dir = field_value as_opt_str None d ''logos_dir''\<rparr>"

record saml_section =
  sa_entity_id :: "str option"
  sa_sso_url :: "str option"
  sa_default_acs_url :: str
  sa_sign_responses :: bool
  sa_export_roles :: bool
  sa_export_groups :: bool
  sa_roles_attr_name :: "str option"
  sa_groups_attr_name :: "str option"
  sa_c14n_algorithm :: str
  sa_want_authn_requests_signed :: bool
  sa_sp_certificates :: "str list option"
  sa_strict_binding :: bool

definition saml_keys :: "str list" where
  "saml_keys = [''entity_id'', ''sso_url'', ''default_acs_url'', ''sign_responses'', ''export_roles'',
     ''export_groups'', ''roles_attr_name'', ''groups_attr_name'', ''c14n_algorithm'',
     ''want_authn_requests_signed'', ''sp_certificates'', ''strict_binding'']"

definition saml_errors :: "pydantic \<Rightarrow> doc \<Rightarrow> path list" where
  "saml_errors V d =
     field_errors as_opt_str d ''entity_id'' @ field_errors as_opt_str d ''sso_url''
     @ field_errors as_str d ''default_acs_url'' @ field_errors (of_opt (pd_bool V)) d ''sign_responses''
     @ field_errors (of_opt (pd_bool V)) d ''export_roles'' @ field_errors (of_opt (pd_bool V)) d ''export_groups''
     @ field_errors as_opt_str d ''roles_attr_name'' @ field_errors as_opt_str d ''groups_attr_name''
     @ field_errors as_str d ''c14n_algorithm'' @ field_errors (of_opt (pd_bool V)) d ''want_authn_requests_signed''
     @ field_errors as_opt_strs d ''sp_certificates'' @ field_errors (of_opt (pd_bool V)) d ''strict_binding''"

definition saml_value :: "pydantic \<Rightarrow> doc \<Rightarrow> saml_section" where
  "saml_value V d =
     \<lparr>sa_entity_id = field_value as_opt_str None d ''entity_id'',
      sa_sso_url = field_value as_opt_str None d ''sso_url'',
      sa_default_acs_url = field_value as_str ''http://localhost:8080/login/saml2/sso/samlIdp'' d ''default_acs_url'',
      sa_sign_responses = field_value (of_opt (pd_bool V)) True d ''sign_responses'',
      sa_export_roles = field_value (of_opt (pd_bool V)) False d ''export_roles'',
      sa_export_groups = field_value (of_opt (pd_bool V)) False d ''export_groups'',
      sa_roles_attr_name = field_value as_opt_str (Some ''roles'') d ''roles_attr_name'',
      sa_groups_attr_name = field_value as_opt_str (Some ''groups'') d ''groups_attr_name'',
      sa_c14n_algorithm = field_value as_str ''exc_c14n'' d ''c14n_algorithm'',
      sa_want_authn_requests_signed = field_value (of_opt (pd_bool V)) False d ''want_authn_requests_signed'',
      sa_sp_certificates = field_value as_opt_strs None d ''sp_certificates'',
      sa_strict_binding = field_value (of_opt (pd_bool V)) False d ''strict_binding''\<rparr>"

record jwt_section =
  jw_algorithm :: str
  jw_keys_dir :: str

definition jwt_keys :: "str list" where
  "jwt_keys = [''algorithm'', ''keys_dir'']"

definition jwt_errors :: "doc \<Rightarrow> path list" where
  "jwt_errors d = field_errors as_str d ''algorithm'' @ field_errors as_str d ''keys_dir''"

definition jwt_value :: "doc \<Rightarrow> jwt_section" where
  "jwt_value d =
     \<lparr>jw_algorithm = field_value as_str ''RS256'' d ''algorithm'',
      jw_keys_dir = field_value as_str ''./keys'' d ''keys_dir''\<rparr>"

record session_section =
  se_secret_key :: str
  se_require_ui_login :: bool
  se_enforce_password_check :: bool
  se_management_secret :: "str option"
  se_management_secret_set :: bool \<comment> \<open>the key is among \<open>model_fields_set\<close>\<close>

definition session_keys :: "str list" where
  "session_keys = [''secret_key'', ''require_ui_login'', ''enforce_password_check'', ''management_secret'', ''permanent'']"

definition session_errors :: "pydantic \<Rightarrow> doc \<Rightarrow> path list" where
  "session_errors V d =
     field_errors as_str d ''secret_key'' @ field_errors (of_opt (pd_bool V)) d ''require_ui_login''
     @ field_errors (of_opt (pd_bool V)) d ''enforce_password_check'' @ field_errors as_opt_str d ''management_secret''"

definition session_value :: "pydantic \<Rightarrow> doc \<Rightarrow> session_section" where
  "session_value V d =
     \<lparr>se_secret_key = field_value as_str ''dev-secret-key-change-in-production'' d ''secret_key'',
      se_require_ui_login = field_value (of_opt (pd_bool V)) False d ''require_ui_login'',
      se_enforce_password_check = field_value (of_opt (pd_bool V)) False d ''enforce_password_check'',
      se_management_secret = field_value as_opt_str None d ''management_secret'',
      se_management_secret_set = dhas d ''management_secret''\<rparr>"

record logging_section =
  lg_level :: str
  lg_log_token_requests :: bool
  lg_log_saml_requests :: bool
  lg_verbose_logging :: bool

definition logging_keys :: "str list" where
  "logging_keys = [''level'', ''log_token_requests'', ''log_saml_requests'', ''verbose_logging'', ''format'']"

definition logging_errors :: "pydantic \<Rightarrow> doc \<Rightarrow> path list" where
  "logging_errors V d =
     field_errors as_str d ''level'' @ field_errors (of_opt (pd_bool V)) d ''log_token_requests''
     @ field_errors (of_opt (pd_bool V)) d ''log_saml_requests'' @ field_errors (of_opt (pd_bool V)) d ''verbose_logging''"

definition logging_value :: "pydantic \<Rightarrow> doc \<Rightarrow> logging_section" where
  "logging_value V d =
     \<lparr>lg_level = field_value as_str ''INFO'' d ''level'',
      lg_log_token_requests = field_value (of_opt (pd_bool V)) True d ''log_token_requests'',
      lg_log_saml_requests = field_value (of_opt (pd_bool V)) True d ''log_saml_requests'',
      lg_verbose_logging = field_value (of_opt (pd_bool V)) True d ''verbose_logging''\<rparr>"

record login_section =
  li_mode :: str
  li_auto_login :: bool
  li_two_step :: bool

definition login_keys :: "str list" where
  "login_keys = [''mode'', ''auto_login'', ''two_step'']"

definition login_errors :: "pydantic \<Rightarrow> doc \<Rightarrow> path list" where
  "login_errors V d =
     field_errors as_str d ''mode'' @ field_errors (of_opt (pd_bool V)) d ''auto_login''
     @ field_errors (of_opt (pd_bool V)) d ''two_step''"

definition login_value :: "pydantic \<Rightarrow> doc \<Rightarrow> login_section" where
  "login_value V d =
     \<lparr>li_mode = field_value as_str ''password'' d ''mode'',
      li_auto_login = field_value (of_opt (pd_bool V)) False d ''auto_login'',
      li_two_step = field_value (of_opt (pd_bool V)) False d ''two_step''\<rparr>"

record hooks_section =
  hk_on_before_load :: "str option"
  hk_on_config_saved :: "str option"
  hk_on_audit_event :: "str option"
  hk_strict :: bool
  hk_timeout_seconds :: "int \<times> nat"
  hk_fields_set :: "str list"

definition hooks_keys :: "str list" where
  "hooks_keys = [''on_before_load'', ''on_config_saved'', ''on_audit_event'', ''strict'', ''timeout_seconds'']"

definition as_positive :: "pydantic \<Rightarrow> (int \<times> nat) conv" where
  "as_positive V v = (case pd_float V v of None \<Rightarrow> Inl [[]] | Some (m, e) \<Rightarrow> if 0 < m then Inr (m, e) else Inl [[]])"

definition hooks_errors :: "pydantic \<Rightarrow> doc \<Rightarrow> path list" where
  "hooks_errors V d =
     field_errors as_opt_str d ''on_before_load'' @ field_errors as_opt_str d ''on_config_saved''
     @ field_errors as_opt_str d ''on_audit_event'' @ field_errors (of_opt (pd_bool V)) d ''strict''
     @ field_errors (as_positive V) d ''timeout_seconds''"

definition hooks_value :: "pydantic \<Rightarrow> doc \<Rightarrow> hooks_section" where
  "hooks_value V d =
     \<lparr>hk_on_before_load = field_value as_opt_str None d ''on_before_load'',
      hk_on_config_saved = field_value as_opt_str None d ''on_config_saved'',
      hk_on_audit_event = field_value as_opt_str None d ''on_audit_event'',
      hk_strict = field_value (of_opt (pd_bool V)) False d ''strict'',
      hk_timeout_seconds = field_value (as_positive V) (100, 1) d ''timeout_seconds'',
      hk_fields_set = filter (dhas d) hooks_keys\<rparr>"

fun validate_plugins_mapping :: "(str, doc) dict conv" where
  "validate_plugins_mapping JNull = Inr []"
| "validate_plugins_mapping (JObj d) =
     (if list_all (\<lambda>(name, v). name \<noteq> [] \<and> (case v of JNull \<Rightarrow> True | JObj _ \<Rightarrow> True | _ \<Rightarrow> False)) d
      then Inr (map (\<lambda>(name, v). (name, case v of JObj e \<Rightarrow> e | _ \<Rightarrow> [])) d)
      else Inl [[]])"
| "validate_plugins_mapping _ = Inl [[]]"

subsection \<open>The settings document\<close>

record settings_document =
  sd_server :: server_section
  sd_oauth :: oauth_section
  sd_saml :: saml_section
  sd_jwt :: jwt_section
  sd_session :: session_section
  sd_logging :: logging_section
  sd_login :: login_section
  sd_security_profile :: str
  sd_config_validation :: str
  sd_authority_prefixes :: "(str, str) dict"
  sd_allowed_identity_classes :: "str list"
  sd_hooks :: hooks_section
  sd_plugins :: "(str, doc) dict"

definition settings_keys :: "str list" where
  "settings_keys = [''config_version'', ''server'', ''oauth'', ''saml'', ''jwt'', ''session'', ''logging'', ''login'',
     ''security_profile'', ''config_validation'', ''authority_prefixes'', ''allowed_identity_classes'',
     ''cors_allowed_origins'', ''device_flow'', ''hooks'', ''plugins'']"

definition validation_modes :: "str list" where
  "validation_modes = [''warn'', ''strict'']"

definition as_opt_int :: "pydantic \<Rightarrow> int option conv" where
  "as_opt_int V v = (if v = JNull then Inr None else case pd_int V v of None \<Rightarrow> Inl [[]] | Some i \<Rightarrow> Inr (Some i))"

definition bare_login :: "json \<Rightarrow> json" where
  \<comment> \<open>\<open>_bare_login_is_empty\<close>\<close>
  "bare_login v = (if v = JNull then JObj [] else v)"

definition settings_errors :: "pydantic \<Rightarrow> doc \<Rightarrow> path list" where
  "settings_errors V d =
     field_errors (as_opt_int V) d ''config_version''
     @ field_errors (as_model (server_errors V) (server_value V)) d ''server''
     @ field_errors (as_model (oauth_errors V) (oauth_value V)) d ''oauth''
     @ field_errors (as_model (saml_errors V) (saml_value V)) d ''saml''
     @ field_errors (as_model jwt_errors jwt_value) d ''jwt''
     @ field_errors (as_model (session_errors V) (session_value V)) d ''session''
     @ field_errors (as_model (logging_errors V) (logging_value V)) d ''logging''
     @ field_errors (\<lambda>v. as_model (login_errors V) (login_value V) (bare_login v)) d ''login''
     @ field_errors as_str d ''security_profile'' @ field_errors (as_literal validation_modes) d ''config_validation''
     @ field_errors (as_dict as_str) d ''authority_prefixes''
     @ field_errors (as_list as_str) d ''allowed_identity_classes''
     @ field_errors (as_model (hooks_errors V) (hooks_value V)) d ''hooks''
     @ field_errors validate_plugins_mapping d ''plugins''"

definition settings_value :: "pydantic \<Rightarrow> doc \<Rightarrow> settings_document" where
  "settings_value V d =
     \<lparr>sd_server = field_value (as_model (server_errors V) (server_value V)) (server_value V []) d ''server'',
      sd_oauth = field_value (as_model (oauth_errors V) (oauth_value V)) (oauth_value V []) d ''oauth'',
      sd_saml = field_value (as_model (saml_errors V) (saml_value V)) (saml_value V []) d ''saml'',
      sd_jwt = field_value (as_model jwt_errors jwt_value) (jwt_value []) d ''jwt'',
      sd_session = field_value (as_model (session_errors V) (session_value V)) (session_value V []) d ''session'',
      sd_logging = field_value (as_model (logging_errors V) (logging_value V)) (logging_value V []) d ''logging'',
      sd_login = field_value (\<lambda>v. as_model (login_errors V) (login_value V) (bare_login v)) (login_value V []) d ''login'',
      sd_security_profile = field_value as_str ''dev'' d ''security_profile'',
      sd_config_validation = field_value (as_literal validation_modes) ''warn'' d ''config_validation'',
      sd_authority_prefixes = field_value (as_dict as_str) [] d ''authority_prefixes'',
      sd_allowed_identity_classes = field_value (as_list as_str) [] d ''allowed_identity_classes'',
      sd_hooks = field_value (as_model (hooks_errors V) (hooks_value V)) (hooks_value V []) d ''hooks'',
      sd_plugins = field_value validate_plugins_mapping [] d ''plugins''\<rparr>"

definition section_extras :: "str \<Rightarrow> str list \<Rightarrow> doc \<Rightarrow> path list" where
  "section_extras k known d =
     (case dget d k of Some (JObj e) \<Rightarrow> map (\<lambda>p. Key k # p) (extras known e) | _ \<Rightarrow> [])"

fun clients_extras :: "nat \<Rightarrow> json list \<Rightarrow> path list" where
  "clients_extras i [] = []"
| "clients_extras i (x # xs) =
     (case x of JObj e \<Rightarrow> map (\<lambda>p. [Key ''oauth'', Key ''clients'', Idx i] @ p) (extras client_keys e) | _ \<Rightarrow> [])
     @ clients_extras (Suc i) xs"

definition settings_unknown :: "doc \<Rightarrow> path list" where
  "settings_unknown d =
     section_extras ''server'' server_keys d
     @ (case dget d ''oauth'' of
          Some (JObj e) \<Rightarrow> (case dget e ''clients'' of Some (JList xs) \<Rightarrow> clients_extras 0 xs | _ \<Rightarrow> [])
        | _ \<Rightarrow> [])
     @ section_extras ''oauth'' oauth_keys d @ section_extras ''saml'' saml_keys d
     @ section_extras ''jwt'' jwt_keys d @ section_extras ''session'' session_keys d
     @ section_extras ''logging'' logging_keys d @ section_extras ''login'' login_keys d
     @ section_extras ''hooks'' hooks_keys d @ extras settings_keys d"

end
