(* ===== verification/Config_Loading.thy ===== *)
theory Config_Loading
  imports Config_Documents
begin

text \<open>
  From documents to the domain models of \<open>models.py\<close>: clients, settings and users with their
  validators, the treatment of unknown keys, and the defaults handed to the writer. The environment
  (\<open>os.getenv\<close>) is a parameter.
\<close>

datatype load_error =
    InvalidValue path
  | UnknownKey path
  | BadClientList str str \<comment> \<open>client label, field\<close>
  | InvalidClient str
  | DuplicateClientId str
  | InvalidSettings "str list" \<comment> \<open>the fields refused\<close>
  | InvalidUser str "str list"
  | BadVersion version_error
  | VersionMismatch int int

definition andthen :: "'e + 'a \<Rightarrow> ('a \<Rightarrow> 'e + 'b) \<Rightarrow> 'e + 'b" where
  "andthen r f = (case r of Inl e \<Rightarrow> Inl e | Inr x \<Rightarrow> f x)"

lemma andthen_simps [simp]: "andthen (Inl e) f = Inl e" "andthen (Inr x) f = f x"
  by (simp_all add: andthen_def)

lemma andthen_Inr: "andthen r f = Inr y \<longleftrightarrow> (\<exists>x. r = Inr x \<and> f x = Inr y)"
  by (cases r) auto

fun each :: "('a \<Rightarrow> 'e + 'b) \<Rightarrow> 'a list \<Rightarrow> 'e + 'b list" where
  "each f [] = Inr []"
| "each f (x # xs) = andthen (f x) (\<lambda>y. andthen (each f xs) (\<lambda>ys. Inr (y # ys)))"

subsection \<open>Clients\<close>

definition coerce_client_str_list :: "json \<Rightarrow> str \<Rightarrow> str \<Rightarrow> load_error + str list" where
  "coerce_client_str_list raw client_id field =
     (let label = (if client_id = [] then ''<missing client_id>'' else client_id) in
      case raw of
        JNull \<Rightarrow> Inr []
      | JStr s \<Rightarrow> Inr (if s = [] then [] else [s])
      | JList xs \<Rightarrow>
          if list_all json_is_str xs then Inr (filter (\<lambda>s. s \<noteq> []) (map json_str xs))
          else Inl (BadClientList label field)
      | _ \<Rightarrow> Inl (BadClientList label field))"

definition is_hex_digit :: "char \<Rightarrow> bool" where
  "is_hex_digit c \<longleftrightarrow> is_digit c \<or> c \<in> set ''abcdefABCDEF''"

definition is_hex_color :: "str \<Rightarrow> bool" where
  "is_hex_color s \<longleftrightarrow> length s = 7 \<and> take 1 s = ''#'' \<and> list_all is_hex_digit (drop 1 s)"

fun auth_method_of :: "str \<Rightarrow> auth_method" where
  "auth_method_of s =
     (if s = ''none'' then AuthNone else if s = ''client_secret_post'' then ClientSecretPost else ClientSecretBasic)"

definition valid_client :: "oauth_client \<Rightarrow> bool" where
  \<comment> \<open>the constraints of \<open>OAuthClient\<close>\<close>
  "valid_client c \<longleftrightarrow>
     cl_client_id c \<noteq> [] \<and> cl_client_secret c \<noteq> Some []
     \<and> pred_option is_hex_color (cl_background_color c) \<and> pred_option is_hex_color (cl_header_color c)
     \<and> pred_option is_hex_color (cl_footer_color c)
     \<and> cl_layout c \<in> set [''vertical'', ''horizontal''] \<and> client_has_needed_secret c"

definition to_client :: "client_entry \<Rightarrow> load_error + oauth_client" where
  "to_client e =
     andthen (coerce_client_str_list (ce_additional_audiences e) (ce_client_id e) ''additional_audiences'') (\<lambda>aud.
     andthen (coerce_client_str_list (ce_redirect_uris e) (ce_client_id e) ''redirect_uris'') (\<lambda>uris.
     andthen (coerce_client_str_list (ce_allowed_scopes e) (ce_client_id e) ''allowed_scopes'') (\<lambda>scopes.
     andthen (coerce_client_str_list (ce_allowed_resources e) (ce_client_id e) ''allowed_resources'') (\<lambda>resources.
       let c = \<lparr>cl_client_id = ce_client_id e, cl_client_secret = or_none (ce_client_secret e),
                cl_auth_method = auth_method_of (ce_auth_method e), cl_description = ce_description e,
                cl_background_color = ce_background_color e, cl_header_color = ce_header_color e,
                cl_footer_color = ce_footer_color e, cl_show_client_id = ce_show_client_id e,
                cl_show_description = ce_show_description e, cl_additional_audiences = aud,
                cl_redirect_uris = uris, cl_allowed_scopes = scopes, cl_allowed_resources = resources,
                cl_layout = ce_layout e\<rparr>
       in if valid_client c then Inr c else Inl (InvalidClient (ce_client_id e))))))"

fun first_duplicate :: "str list \<Rightarrow> str list \<Rightarrow> str option" where
  "first_duplicate seen [] = None"
| "first_duplicate seen (x # xs) = (if x \<in> set seen then Some x else first_duplicate (x # seen) xs)"

subsection \<open>Settings\<close>

definition normalize_saml_attr_name :: "str \<Rightarrow> str option \<Rightarrow> str" where
  "normalize_saml_attr_name dflt v =
     (let name = py_strip (case v of None \<Rightarrow> [] | Some s \<Rightarrow> s) in if name = [] then dflt else name)"

definition log_levels :: "str list" where
  "log_levels = [''DEBUG'', ''INFO'', ''WARNING'', ''ERROR'', ''CRITICAL'']"

definition validate_log_level :: "str \<Rightarrow> str option" where
  "validate_log_level v = (if py_upper v \<in> set log_levels then Some (py_upper v) else None)"

definition settings_problems :: "pydantic \<Rightarrow> settings \<Rightarrow> str list" where
  \<comment> \<open>the fields of \<open>Settings\<close> whose constraint or validator refuses the value\<close>
  "settings_problems V s = map fst (filter (\<lambda>(k, ok). \<not> ok)
     [(''port'', 1 \<le> s_port s \<and> s_port s \<le> 65535),
      (''issuer'', validate_issuer (s_issuer s) \<noteq> None),
      (''audience'', s_audience s \<noteq> []),
      (''token_expiry_minutes'', 0 < s_token_expiry_minutes s \<and> s_token_expiry_minutes s \<le> 1440),
      (''management_secret'', validate_management_secret (s_management_secret s) \<noteq> None),
      (''log_level'', validate_log_level (s_log_level s) \<noteq> None),
      (''login_mode'', validate_login_mode (s_login_mode s) \<noteq> None),
      (''security_profile'', validate_security_profile (s_security_profile s) \<noteq> None),
      (''rate_limit_token_endpoint'', pd_rate V (s_rate_limit_token_endpoint s))])"

definition make_settings :: "pydantic \<Rightarrow> settings \<Rightarrow> load_error + settings" where
  \<comment> \<open>the constructor: refuse, or take the values its validators return\<close>
  "make_settings V s =
     (if settings_problems V s \<noteq> [] then Inl (InvalidSettings (settings_problems V s))
      else Inr (s\<lparr>s_issuer := the (validate_issuer (s_issuer s)),
                  s_log_level := the (validate_log_level (s_log_level s))\<rparr>))"

definition getenv_secret :: "env \<Rightarrow> str option" where
  \<comment> \<open>\<open>os.getenv(A) or os.getenv(B) or None\<close>\<close>
  "getenv_secret env =
     (if opt_true (env ''NANOIDP_MANAGEMENT_SECRET'') then env ''NANOIDP_MANAGEMENT_SECRET''
      else if opt_true (env ''NANOIDP_MCP_ADMIN_SECRET'') then env ''NANOIDP_MCP_ADMIN_SECRET'' else None)"

definition none_if_blank :: "str option \<Rightarrow> str option" where
  \<comment> \<open>\<open>x or None\<close>\<close>
  "none_if_blank x = (if opt_true x then x else None)"

definition settings_of :: "env \<Rightarrow> settings_document \<Rightarrow> oauth_client list \<Rightarrow> settings" where
  \<comment> \<open>the arguments of the constructor; the fields it is not given have their defaults\<close>
  "settings_of env doc clients =
     (let sv = sd_server doc; oa = sd_oauth doc; sa = sd_saml doc; se = sd_session doc; lg = sd_logging doc in
      \<lparr>s_host = sv_host sv, s_port = sv_port sv, s_debug = sv_debug sv,
       s_issuer = oa_issuer oa, s_issuer_from_request = oa_issuer_from_request oa,
       s_issuer_allowlist = (case oa_issuer_allowlist oa of None \<Rightarrow> [] | Some xs \<Rightarrow> xs),
       s_device_verification_base_url = oa_device_verification_base_url oa,
       s_issuer_from_proxy_headers = oa_issuer_from_proxy_headers oa,
       s_audience = oa_audience oa, s_token_expiry_minutes = oa_token_expiry_minutes oa,
       s_refresh_token_rotation = oa_refresh_token_rotation oa, s_clients = clients,
       s_scopes_supported =
         (case oa_scopes_supported oa of None \<Rightarrow> default_scopes_supported | Some xs \<Rightarrow> xs),
       s_scope_enforcement = oa_scope_enforcement oa, s_logos_dir = oa_logos_dir oa,
       s_saml_entity_id = none_if_blank (sa_entity_id sa), s_saml_sso_url = none_if_blank (sa_sso_url sa),
       s_default_acs_url = sa_default_acs_url sa, s_saml_sign_responses = sa_sign_responses sa,
       s_saml_export_roles = sa_export_roles sa, s_saml_export_groups = sa_export_groups sa,
       s_saml_roles_attr_name = normalize_saml_attr_name ''roles'' (sa_roles_attr_name sa),
       s_saml_groups_attr_name = normalize_saml_attr_name ''groups'' (sa_groups_attr_name sa),
       s_saml_c14n_algorithm = sa_c14n_algorithm sa,
       s_saml_want_authn_requests_signed = sa_want_authn_requests_signed sa,
       s_saml_sp_certificates = (case sa_sp_certificates sa of None \<Rightarrow> [] | Some xs \<Rightarrow> xs),
       s_strict_saml_binding = sa_strict_binding sa,
       s_jwt_algorithm = jw_algorithm (sd_jwt doc), s_keys_dir = jw_keys_dir (sd_jwt doc),
       s_authority_prefixes = sd_authority_prefixes doc,
       s_allowed_identity_classes = sd_allowed_identity_classes doc,
       s_secret_key = se_secret_key se, s_require_ui_login = se_require_ui_login se,
       s_enforce_password_check = se_enforce_password_check se,
       s_management_secret =
         (if se_management_secret_set se then none_if_blank (se_management_secret se) else getenv_secret env),
       s_log_level = lg_level lg, s_log_token_requests = lg_log_token_requests lg,
       s_log_saml_requests = lg_log_saml_requests lg, s_verbose_logging = lg_verbose_logging lg,
       s_login_mode = li_mode (sd_login doc), s_auto_login = li_auto_login (sd_login doc),
       s_two_step = li_two_step (sd_login doc),
       s_security_profile = sd_security_profile doc, s_cors_allowed_origins = [''*''],
       s_rate_limit_enabled = sv_rate_limit_enabled sv,
       s_rate_limit_token_endpoint = sv_rate_limit_token_endpoint sv,
       s_password_hashing = False, s_require_pkce = oa_require_pkce oa,
       s_external_private_key = None, s_external_public_key = None, s_external_key_id = None,
       s_max_previous_keys = 2\<rparr>)"

definition to_settings :: "pydantic \<Rightarrow> env \<Rightarrow> settings_document \<Rightarrow> load_error + settings" where
  "to_settings V env doc =
     andthen (each to_client (oa_clients (sd_oauth doc))) (\<lambda>clients.
       case first_duplicate [] (map cl_client_id clients) of
         Some i \<Rightarrow> Inl (DuplicateClientId i)
       | None \<Rightarrow> make_settings V (settings_of env doc clients))"

subsection \<open>Users\<close>

record user_entry =
  ue_password :: "str option"
  ue_description :: str
  ue_email :: "str option"
  ue_email_set :: bool
  ue_identity_class :: "str option"
  ue_entitlements :: "str list"
  ue_roles :: "str list"
  ue_groups :: "str list"
  ue_tenant :: str
  ue_source_acl :: "str list"
  ue_attributes :: doc
  ue_extra :: doc

definition user_known_fields :: "str list" where
  "user_known_fields = [''password'', ''description'', ''email'', ''identity_class'', ''entitlements'', ''roles'',
     ''groups'', ''tenant'', ''source_acl'', ''attributes'']"

definition user_errors :: "doc \<Rightarrow> path list" where
  "user_errors d =
     field_errors as_opt_str d ''password'' @ field_errors as_str d ''description''
     @ field_errors as_opt_str d ''email'' @ field_errors as_opt_str d ''identity_class''
     @ field_errors (as_list as_str) d ''entitlements'' @ field_errors (as_list as_str) d ''roles''
     @ field_errors (as_list as_str) d ''groups'' @ field_errors as_str d ''tenant''
     @ field_errors (as_list as_str) d ''source_acl'' @ field_errors (as_dict as_any) d ''attributes''"

definition user_value :: "doc \<Rightarrow> user_entry" where
  "user_value d =
     \<lparr>ue_password = field_value as_opt_str None d ''password'',
      ue_description = field_value as_str [] d ''description'',
      ue_email = field_value as_opt_str None d ''email'',
      ue_email_set = dhas d ''email'',
      ue_identity_class = field_value as_opt_str None d ''identity_class'',
      ue_entitlements = field_value (as_list as_str) [] d ''entitlements'',
      ue_roles = field_value (as_list as_str) [''USER''] d ''roles'',
      ue_groups = field_value (as_list as_str) [] d ''groups'',
      ue_tenant = field_value as_str ''default'' d ''tenant'',
      ue_source_acl = field_value (as_list as_str) [] d ''source_acl'',
      ue_attributes = field_value (as_dict as_any) [] d ''attributes'',
      ue_extra = filter (\<lambda>(k, v). k \<notin> set user_known_fields) d\<rparr>"

definition user_problems :: "str \<Rightarrow> str option \<Rightarrow> str \<Rightarrow> str option \<Rightarrow> str list" where
  \<comment> \<open>the constraints of \<open>User\<close>: name, password, description, email\<close>
  "user_problems name pw description email = map fst (filter (\<lambda>(k, ok). \<not> ok)
     [(''username'', name \<noteq> []), (''password'', pw \<noteq> Some []), (''description'', length description \<le> 200),
      (''email'', pred_option validate_email email \<and> email \<noteq> None)])"

definition to_user :: "user_entry \<Rightarrow> str \<Rightarrow> load_error + user" where
  "to_user e username =
     (let attributes = fold (\<lambda>(k, v) a. if k \<notin> set user_known_fields \<and> \<not> dhas a k then dset k v a else a)
            (ue_extra e) (ue_attributes e);
          email = (if ue_email_set e then ue_email e else Some (username @ ''@example.org''));
          problems = user_problems username (ue_password e) (ue_description e) email in
      if problems \<noteq> [] then Inl (InvalidUser username problems)
      else Inr \<lparr>u_username = username, u_password = ue_password e, u_description = ue_description e,
             u_email = the email, u_identity_class = ue_identity_class e,
             u_entitlements = ue_entitlements e, u_roles = ue_roles e, u_groups = ue_groups e,
             u_tenant = ue_tenant e, u_source_acl = ue_source_acl e, u_attributes = attributes\<rparr>)"

record users_document =
  ud_default_user :: str
  ud_users :: "(str, user_entry) dict"

definition users_keys :: "str list" where
  "users_keys = [''config_version'', ''default_user'', ''users'']"

definition users_errors :: "pydantic \<Rightarrow> doc \<Rightarrow> path list" where
  "users_errors V d =
     field_errors (as_opt_int V) d ''config_version'' @ field_errors as_str d ''default_user''
     @ field_errors (as_dict (as_model user_errors user_value)) d ''users''"

definition users_value :: "doc \<Rightarrow> users_document" where
  "users_value d =
     \<lparr>ud_default_user = field_value as_str ''admin'' d ''default_user'',
      ud_users = field_value (as_dict (as_model user_errors user_value)) [] d ''users''\<rparr>"

definition to_users :: "users_document \<Rightarrow> load_error + (str, user) dict \<times> str" where
  "to_users doc =
     andthen (each (\<lambda>(name, e). andthen (to_user e name) (\<lambda>u. Inr (name, u))) (ud_users doc))
       (\<lambda>users. Inr (users, ud_default_user doc))"

subsection \<open>Loading a document\<close>

fun drop_path :: "path \<Rightarrow> json \<Rightarrow> json" where
  \<comment> \<open>\<open>_drop_path\<close>\<close>
  "drop_path [Key k] (JObj d) = JObj (ddel k d)"
| "drop_path (Key k # p) (JObj d) =
     (case dget d k of None \<Rightarrow> JObj d | Some v \<Rightarrow> JObj (dset k (drop_path p v) d))"
| "drop_path (Idx i # p) (JList xs) = JList (if i < length xs then xs[i := drop_path p (xs ! i)] else xs)"
| "drop_path p v = v"

fun load_document :: "nat \<Rightarrow> bool \<Rightarrow> (doc \<Rightarrow> path list) \<Rightarrow> (doc \<Rightarrow> path list) \<Rightarrow> (doc \<Rightarrow> 'a) \<Rightarrow> doc \<Rightarrow> load_error + 'a" where
  \<comment> \<open>\<open>_load_document\<close>, with the attempts left: validate, drop the unknown keys, validate again\<close>
  "load_document n strict errors unknown val d =
     (case errors d of
        p # _ \<Rightarrow> Inl (InvalidValue p)
      | [] \<Rightarrow>
          (case unknown d of
             [] \<Rightarrow> Inr (val d)
           | p # ps \<Rightarrow>
               if strict then Inl (UnknownKey p)
               else (case n of
                   0 \<Rightarrow> Inl (UnknownKey p)
                 | Suc m \<Rightarrow>
                     (case fold drop_path (p # ps) (JObj d) of
                        JObj d' \<Rightarrow> load_document m strict errors unknown val d'
                      | _ \<Rightarrow> Inl (UnknownKey p)))))"

definition load_settings_document :: "pydantic \<Rightarrow> bool \<Rightarrow> doc \<Rightarrow> load_error + settings_document" where
  "load_settings_document V strict d =
     load_document 2 strict (settings_errors V) settings_unknown (settings_value V) d"

definition load_users_document :: "pydantic \<Rightarrow> bool \<Rightarrow> doc \<Rightarrow> load_error + users_document" where
  "load_users_document V strict d = load_document 2 strict (users_errors V) (extras users_keys) users_value d"

definition declared_validation_mode :: "doc \<Rightarrow> str" where
  "declared_validation_mode d =
     (case dget d ''config_validation'' of
        Some (JStr s) \<Rightarrow> if s \<in> set validation_modes then s else ''warn''
      | _ \<Rightarrow> ''warn'')"

end
