(* ===== verification/Unknown_Keys.thy ===== *)
theory Unknown_Keys
  imports Config_Loading
begin

text \<open>
  Unknown keys of \<open>settings.yaml\<close>: dropping the keys that validation reports leaves a document
  without unknown keys (so the second validation is the last) that stands for the same settings.
\<close>

subsection \<open>Dropping reported keys\<close>

definition only :: "str list \<Rightarrow> doc \<Rightarrow> doc" where
  "only known d = filter (\<lambda>(k, v). k \<in> set known) d"

lemma dget_only: "dget (only known d) k = (if k \<in> set known then dget d k else None)"
  by (induction d) (auto simp: only_def dget_Cons)

lemma dhas_only: "dhas (only known d) k \<longleftrightarrow> k \<in> set known \<and> dhas d k"
  by (simp add: dhas_def dget_only)

lemma extras_only [simp]: "extras known (only known d) = []"
  by (auto simp: extras_def only_def filter_empty_conv)

lemma fold_ddel_filter: "fold ddel ks d = filter (\<lambda>(k, v). k \<notin> set ks) d"
  by (induction ks arbitrary: d) (auto simp: ddel_filter case_prod_unfold intro: filter_cong)

lemma fold_drop_keys: "fold drop_path (map (\<lambda>k. [Key k]) ks) (JObj d) = JObj (fold ddel ks d)"
  by (induction ks arbitrary: d) simp_all

lemma drop_extras: "fold drop_path (extras known d) (JObj d) = JObj (only known d)"
proof -
  have "extras known d = map (\<lambda>k. [Key k]) (map fst (filter (\<lambda>(k, v). k \<notin> set known) d))"
    by (simp add: extras_def case_prod_unfold)
  moreover have "fold ddel (map fst (filter (\<lambda>(k, v). k \<notin> set known) d)) d = only known d"
    unfolding fold_ddel_filter only_def by (rule filter_cong) force+
  ultimately show ?thesis by (simp only: fold_drop_keys)
qed

lemma drop_under_key:
  "dget d k = Some v \<Longrightarrow> [] \<notin> set ps \<Longrightarrow>
    fold drop_path (map ((#) (Key k)) ps) (JObj d) = JObj (dset k (fold drop_path ps v) d)"
proof (induction ps arbitrary: d v)
  case Nil
  then show ?case by (induction d) (auto simp: dget_def dset_def split: if_splits)
next
  case (Cons p ps)
  then obtain l q where p: "p = l # q" by (cases p) auto
  have "dset k w (dset k w' d) = dset k w d" for w w' by (simp add: dset_def)
  then show ?case using Cons by (simp add: p)
qed

lemma drop_under_index:
  "i < length xs \<Longrightarrow> fold drop_path (map ((#) (Idx i)) ps) (JList xs) = JList (xs[i := fold drop_path ps (xs ! i)])"
  by (induction ps arbitrary: xs) simp_all

fun clean_client :: "json \<Rightarrow> json" where
  "clean_client (JObj e) = JObj (only client_keys e)"
| "clean_client v = v"

fun client_extras :: "json \<Rightarrow> path list" where
  "client_extras (JObj e) = extras client_keys e"
| "client_extras _ = []"

lemma drop_client_extras: "fold drop_path (client_extras x) x = clean_client x"
  by (cases x) (simp_all add: drop_extras)

fun list_extras :: "nat \<Rightarrow> json list \<Rightarrow> path list" where
  "list_extras i [] = []"
| "list_extras i (x # xs) = map ((#) (Idx i)) (client_extras x) @ list_extras (Suc i) xs"

lemma clients_extras_list: "clients_extras i xs = map (\<lambda>p. Key ''oauth'' # Key ''clients'' # p) (list_extras i xs)"
  by (induction i xs rule: list_extras.induct) (auto split: json.splits)

lemma drop_list_extras:
  "fold drop_path (list_extras (length ys) xs) (JList (ys @ xs)) = JList (ys @ map clean_client xs)"
proof (induction xs arbitrary: ys)
  case (Cons x xs)
  have "fold drop_path (list_extras (length ys) (x # xs)) (JList (ys @ x # xs)) =
      fold drop_path (list_extras (length (ys @ [clean_client x])) xs) (JList ((ys @ [clean_client x]) @ xs))"
    by (simp add: drop_under_index drop_client_extras)
  also have "\<dots> = JList ((ys @ [clean_client x]) @ map clean_client xs)" by (rule Cons.IH)
  finally show ?case by simp
qed simp

lemma list_extras_nonempty: "[] \<notin> set (list_extras i xs)"
  by (induction i xs rule: list_extras.induct) auto

definition clean_clients :: "doc \<Rightarrow> doc" where
  "clean_clients e = (case dget e ''clients'' of Some (JList xs) \<Rightarrow> dset ''clients'' (JList (map clean_client xs)) e | _ \<Rightarrow> e)"

lemma drop_clients:
  assumes "dget d ''oauth'' = Some (JObj e)"
  shows "fold drop_path (case dget e ''clients'' of Some (JList xs) \<Rightarrow> clients_extras 0 xs | _ \<Rightarrow> []) (JObj d) =
    JObj (dset ''oauth'' (JObj (clean_clients e)) d)"
proof (cases "\<exists>xs. dget e ''clients'' = Some (JList xs)")
  case True
  then obtain xs where xs: "dget e ''clients'' = Some (JList xs)" by blast
  let ?ps = "list_extras 0 xs"
  have "fold drop_path (map ((#) (Key ''oauth'')) (map ((#) (Key ''clients'')) ?ps)) (JObj d) =
      JObj (dset ''oauth'' (fold drop_path (map ((#) (Key ''clients'')) ?ps) (JObj e)) d)"
    by (rule drop_under_key [OF assms]) auto
  moreover have "fold drop_path (map ((#) (Key ''clients'')) ?ps) (JObj e) = JObj (clean_clients e)"
    using drop_under_key [OF xs list_extras_nonempty] drop_list_extras [of "[]" xs]
    by (simp add: clean_clients_def xs)
  ultimately show ?thesis by (simp add: xs clients_extras_list comp_def)
next
  case False
  then have e: "(case dget e ''clients'' of Some (JList xs) \<Rightarrow> clients_extras 0 xs | _ \<Rightarrow> []) = []"
    "clean_clients e = e"
    by (auto simp: clean_clients_def split: option.split json.split)
  show ?thesis unfolding e using drop_under_key [OF assms, of "[]"] drop_extras [of "map fst e" e] assms
    by (metis (no_types, lifting) empty_iff fold_simps(1) list.set(1) list.simps(8))
qed

subsection \<open>A mapping read by its declared keys\<close>

lemma field_errors_cong: "dget d k = dget d' k \<Longrightarrow> field_errors f d k = field_errors f d' k"
  by (simp add: field_errors_def)

lemma field_value_cong: "dget d k = dget d' k \<Longrightarrow> field_value f dflt d k = field_value f dflt d' k"
  by (simp add: field_value_def)

lemma field_errors_only [simp]: "k \<in> set known \<Longrightarrow> field_errors f (only known d) k = field_errors f d k"
  by (rule field_errors_cong) (simp add: dget_only)

lemma field_value_only [simp]: "k \<in> set known \<Longrightarrow> field_value f dflt (only known d) k = field_value f dflt d k"
  by (rule field_value_cong) (simp add: dget_only)

lemma server_only: "server_errors V (only server_keys d) = server_errors V d" "server_value V (only server_keys d) = server_value V d"
  by (simp_all add: server_errors_def server_value_def server_keys_def)

lemma client_only: "client_errors V (only client_keys d) = client_errors V d" "client_value V (only client_keys d) = client_value V d"
  by (simp_all add: client_errors_def client_value_def client_keys_def)

lemma oauth_only: "oauth_errors V (only oauth_keys d) = oauth_errors V d" "oauth_value V (only oauth_keys d) = oauth_value V d"
  by (simp_all add: oauth_errors_def oauth_value_def oauth_keys_def)

lemma saml_only: "saml_errors V (only saml_keys d) = saml_errors V d" "saml_value V (only saml_keys d) = saml_value V d"
  by (simp_all add: saml_errors_def saml_value_def saml_keys_def)

lemma jwt_only: "jwt_errors (only jwt_keys d) = jwt_errors d" "jwt_value (only jwt_keys d) = jwt_value d"
  by (simp_all add: jwt_errors_def jwt_value_def jwt_keys_def)

lemma session_only:
  "session_errors V (only session_keys d) = session_errors V d" "session_value V (only session_keys d) = session_value V d"
  by (simp_all add: session_errors_def session_value_def session_keys_def dhas_only)

lemma logging_only:
  "logging_errors V (only logging_keys d) = logging_errors V d" "logging_value V (only logging_keys d) = logging_value V d"
  by (simp_all add: logging_errors_def logging_value_def logging_keys_def)

lemma login_only: "login_errors V (only login_keys d) = login_errors V d" "login_value V (only login_keys d) = login_value V d"
  by (simp_all add: login_errors_def login_value_def login_keys_def)

lemma hooks_only: "hooks_errors V (only hooks_keys d) = hooks_errors V d" "hooks_value V (only hooks_keys d) = hooks_value V d"
  by (simp_all add: hooks_errors_def hooks_value_def hooks_keys_def dhas_only)

definition as_client :: "pydantic \<Rightarrow> client_entry conv" where
  "as_client V = as_model (client_errors V) (client_value V)"

lemma as_client_clean: "as_client V (clean_client x) = as_client V x"
  by (cases x) (simp_all add: as_client_def client_only)

lemma items_clean:
  "item_errors (as_client V) i (map clean_client xs) = item_errors (as_client V) i xs"
  "item_values (as_client V) (map clean_client xs) = item_values (as_client V) xs"
  by (induction xs arbitrary: i) (simp_all add: as_client_clean)

lemma oauth_clean_clients:
  "oauth_errors V (clean_clients e) = oauth_errors V e" "oauth_value V (clean_clients e) = oauth_value V e"
proof -
  have other: "dget (clean_clients e) k = dget e k" if "k \<noteq> ''clients''" for k
    using that by (simp add: clean_clients_def split: option.split json.split)
  have err: "field_errors f (clean_clients e) k = field_errors f e k" if "k \<noteq> ''clients''" for k and f :: "'b conv"
    using other [OF that] by (rule field_errors_cong)
  have val: "field_value f dflt (clean_clients e) k = field_value f dflt e k" if "k \<noteq> ''clients''" for k dflt and f :: "'b conv"
    using other [OF that] by (rule field_value_cong)
  have cl: "field_errors (as_list (as_client V)) (clean_clients e) ''clients'' = field_errors (as_list (as_client V)) e ''clients''"
    "field_value (as_list (as_client V)) [] (clean_clients e) ''clients'' = field_value (as_list (as_client V)) [] e ''clients''"
    by (auto simp: clean_clients_def field_errors_def field_value_def items_clean split: option.split json.split)
  show "oauth_errors V (clean_clients e) = oauth_errors V e" "oauth_value V (clean_clients e) = oauth_value V e"
    using cl by (simp_all add: oauth_errors_def oauth_value_def as_client_def [symmetric] err val)
qed

subsection \<open>Every section\<close>

fun clean_object :: "str list \<Rightarrow> json \<Rightarrow> json" where
  "clean_object known (JObj e) = JObj (only known e)"
| "clean_object known v = v"

definition clean_section :: "str \<Rightarrow> str list \<Rightarrow> doc \<Rightarrow> doc" where
  "clean_section k known d = (case dget d k of None \<Rightarrow> d | Some v \<Rightarrow> dset k (clean_object known v) d)"

definition clean_oauth :: "doc \<Rightarrow> doc" where
  "clean_oauth d = (case dget d ''oauth'' of Some (JObj e) \<Rightarrow> dset ''oauth'' (JObj (clean_clients e)) d | _ \<Rightarrow> d)"

definition later_sections :: "(str \<times> str list) list" where
  "later_sections = [(''oauth'', oauth_keys), (''saml'', saml_keys), (''jwt'', jwt_keys),
     (''session'', session_keys), (''logging'', logging_keys), (''login'', login_keys), (''hooks'', hooks_keys)]"

definition clean_sections :: "(str \<times> str list) list \<Rightarrow> doc \<Rightarrow> doc" where
  "clean_sections tab d = fold (\<lambda>(k, known). clean_section k known) tab d"

definition clean_settings :: "doc \<Rightarrow> doc" where
  \<comment> \<open>the document without its unknown keys\<close>
  "clean_settings d =
     only settings_keys (clean_sections later_sections (clean_oauth (clean_section ''server'' server_keys d)))"

lemma dget_clean_section: "dget (clean_section k known d) k' =
    (if k' = k then map_option (clean_object known) (dget d k) else dget d k')"
  by (simp add: clean_section_def split: option.split)

lemma dget_clean_oauth: "k \<noteq> ''oauth'' \<Longrightarrow> dget (clean_oauth d) k = dget d k"
  by (simp add: clean_oauth_def split: option.split json.split)

lemma dget_clean_sections: "distinct (map fst tab) \<Longrightarrow> dget (clean_sections tab d) k =
    (case map_of tab k of None \<Rightarrow> dget d k | Some known \<Rightarrow> map_option (clean_object known) (dget d k))"
proof (induction tab arbitrary: d)
  case (Cons row tab)
  obtain k0 known where row: "row = (k0, known)" by (cases row)
  show ?case
  proof (cases "k = k0")
    case True
    then have "map_of tab k = None" using Cons.prems by (force simp: row map_of_eq_None_iff)
    then show ?thesis using True Cons by (simp add: row clean_sections_def dget_clean_section)
  next
    case False
    then show ?thesis using Cons by (simp add: row clean_sections_def dget_clean_section split: option.split)
  qed
qed (simp add: clean_sections_def)

lemma extras_dset: "k \<in> set known \<Longrightarrow> extras known (dset k v d) = extras known d"
  by (induction d) (auto simp: extras_def dset_def)

lemma extras_clean_section: "k \<in> set known \<Longrightarrow> extras known (clean_section k kn d) = extras known d"
  by (simp add: clean_section_def extras_dset split: option.split)

lemma extras_clean_sections: "fst ` set tab \<subseteq> set known \<Longrightarrow> extras known (clean_sections tab d) = extras known d"
  by (induction tab arbitrary: d) (auto simp: clean_sections_def extras_clean_section)

lemma extras_clean_oauth: "''oauth'' \<in> set known \<Longrightarrow> extras known (clean_oauth d) = extras known d"
  by (simp add: clean_oauth_def extras_dset split: option.split json.split)

lemma extras_clean_clients: "extras oauth_keys (clean_clients e) = extras oauth_keys e"
  by (simp add: clean_clients_def extras_dset oauth_keys_def split: option.split json.split)

lemma section_extras_cong: "dget d k = dget d' k \<Longrightarrow> section_extras k known d = section_extras k known d'"
  by (simp add: section_extras_def)

lemma drop_section: "fold drop_path (section_extras k known d) (JObj d) = JObj (clean_section k known d)"
proof (cases "dget d k")
  case None
  then show ?thesis by (simp add: section_extras_def clean_section_def)
next
  case (Some v)
  show ?thesis
  proof (cases v)
    case (JObj e)
    have "[] \<notin> set (extras known e)" by (auto simp: extras_def)
    from drop_under_key [OF Some this] show ?thesis
      by (simp add: section_extras_def clean_section_def Some JObj drop_extras)
  qed (simp_all add: section_extras_def clean_section_def Some)
qed

lemma drop_sections:
  "distinct (map fst tab) \<Longrightarrow> (\<And>k known. (k, known) \<in> set tab \<Longrightarrow> section_extras k known d' = section_extras k known d) \<Longrightarrow>
    fold drop_path (concat (map (\<lambda>(k, known). section_extras k known d) tab)) (JObj d') = JObj (clean_sections tab d')"
proof (induction tab arbitrary: d')
  case (Cons row tab)
  obtain k0 known0 where row: "row = (k0, known0)" by (cases row)
  have "fold drop_path (section_extras k0 known0 d) (JObj d') = JObj (clean_section k0 known0 d')"
    using Cons.prems(2) [of k0 known0] drop_section [of k0 known0 d'] by (simp add: row)
  moreover have "section_extras k known (clean_section k0 known0 d') = section_extras k known d"
    if "(k, known) \<in> set tab" for k known
  proof -
    have "k \<noteq> k0" using that Cons.prems(1) by (force simp: row)
    then have "section_extras k known (clean_section k0 known0 d') = section_extras k known d'"
      by (intro section_extras_cong) (simp add: dget_clean_section)
    then show ?thesis using Cons.prems(2) that by simp
  qed
  ultimately show ?case using Cons.IH Cons.prems(1) by (simp add: row clean_sections_def)
qed (simp add: clean_sections_def)

lemma drop_oauth:
  "fold drop_path (case dget d ''oauth'' of
      Some (JObj e) \<Rightarrow> (case dget e ''clients'' of Some (JList xs) \<Rightarrow> clients_extras 0 xs | _ \<Rightarrow> []) | _ \<Rightarrow> []) (JObj d) =
    JObj (clean_oauth d)"
proof (cases "\<exists>e. dget d ''oauth'' = Some (JObj e)")
  case True
  then obtain e where e: "dget d ''oauth'' = Some (JObj e)" by blast
  show ?thesis using drop_clients [OF e] by (simp add: e clean_oauth_def)
next
  case False
  then show ?thesis by (auto simp: clean_oauth_def split: option.split json.split)
qed

lemma later_distinct: "distinct (map fst later_sections)"
  by (simp add: later_sections_def)

lemma drop_unknown: "fold drop_path (settings_unknown d) (JObj d) = JObj (clean_settings d)"
proof -
  let ?s = "clean_section ''server'' server_keys d"
  let ?o = "clean_oauth ?s"
  let ?clients = "\<lambda>d. case dget d ''oauth'' of
      Some (JObj e) \<Rightarrow> (case dget e ''clients'' of Some (JList xs) \<Rightarrow> clients_extras 0 xs | _ \<Rightarrow> []) | _ \<Rightarrow> []"
  have shape: "settings_unknown d = section_extras ''server'' server_keys d @ ?clients d
      @ concat (map (\<lambda>(k, known). section_extras k known d) later_sections) @ extras settings_keys d"
    by (simp add: settings_unknown_def later_sections_def)
  have clients: "fold drop_path (?clients d) (JObj ?s) = JObj ?o"
    using drop_oauth [of ?s] by (simp add: dget_clean_section)
  have "section_extras k known ?o = section_extras k known d" if "(k, known) \<in> set later_sections" for k known
  proof (cases "k = ''oauth''")
    case True
    then have "known = oauth_keys" using that by (auto simp: later_sections_def)
    then show ?thesis
      by (auto simp: True section_extras_def clean_oauth_def dget_clean_section extras_clean_clients split: option.split json.split)
  next
    case False
    then have "dget ?o k = dget d k"
      using that by (auto simp: dget_clean_oauth dget_clean_section later_sections_def)
    then show ?thesis by (rule section_extras_cong)
  qed
  then have sections: "fold drop_path (concat (map (\<lambda>(k, known). section_extras k known d) later_sections)) (JObj ?o) =
      JObj (clean_sections later_sections ?o)"
    by (intro drop_sections later_distinct)
  have "extras settings_keys (clean_sections later_sections ?o) = extras settings_keys d"
    by (simp add: extras_clean_sections extras_clean_oauth extras_clean_section settings_keys_def later_sections_def)
  then have top: "fold drop_path (extras settings_keys d) (JObj (clean_sections later_sections ?o)) = JObj (clean_settings d)"
    using drop_extras [of settings_keys "clean_sections later_sections ?o"] by (simp add: clean_settings_def)
  show ?thesis unfolding shape fold_append comp_apply drop_section clients sections top ..
qed

subsection \<open>The cleaned document stands for the same settings\<close>

definition clean_value :: "str \<Rightarrow> json \<Rightarrow> json" where
  \<comment> \<open>what cleaning makes of the value of a top-level key\<close>
  "clean_value k v =
     (if k = ''oauth'' then (case v of JObj e \<Rightarrow> JObj (only oauth_keys (clean_clients e)) | _ \<Rightarrow> v)
      else if k = ''server'' then clean_object server_keys v
      else case map_of later_sections k of None \<Rightarrow> v | Some known \<Rightarrow> clean_object known v)"

lemma dget_clean_settings:
  "dget (clean_settings d) k = (if k \<in> set settings_keys then map_option (clean_value k) (dget d k) else None)"
proof -
  have "dget (clean_sections later_sections (clean_oauth (clean_section ''server'' server_keys d))) k =
      map_option (clean_value k) (dget d k)"
  proof (cases "k = ''oauth''")
    case True
    have "map_of later_sections ''oauth'' = Some oauth_keys" by (simp add: later_sections_def)
    moreover have "dget (clean_section ''server'' server_keys d) ''oauth'' = dget d ''oauth''"
      by (simp add: dget_clean_section)
    ultimately show ?thesis
      by (auto simp: True dget_clean_sections later_distinct clean_value_def clean_oauth_def
          split: option.split json.split)
  next
    case False
    have "map_of later_sections ''server'' = None" by (simp add: later_sections_def)
    with False show ?thesis
      by (cases "k = ''server''"; cases "dget d k"; cases "map_of later_sections k")
         (simp_all add: dget_clean_sections later_distinct clean_value_def dget_clean_oauth dget_clean_section)
  qed
  then show ?thesis by (simp add: clean_settings_def dget_only)
qed

lemma field_clean:
  assumes "k \<in> set settings_keys" "\<And>v. f (clean_value k v) = f v"
  shows "field_errors f (clean_settings d) k = field_errors f d k"
    "field_value f dflt (clean_settings d) k = field_value f dflt d k"
  using assms by (simp_all add: field_errors_def field_value_def dget_clean_settings split: option.split)

lemma clean_value_simps:
  "clean_value ''config_version'' v = v" "clean_value ''server'' v = clean_object server_keys v"
  "clean_value ''saml'' v = clean_object saml_keys v" "clean_value ''jwt'' v = clean_object jwt_keys v"
  "clean_value ''session'' v = clean_object session_keys v" "clean_value ''logging'' v = clean_object logging_keys v"
  "clean_value ''login'' v = clean_object login_keys v" "clean_value ''hooks'' v = clean_object hooks_keys v"
  "clean_value ''security_profile'' v = v" "clean_value ''config_validation'' v = v"
  "clean_value ''authority_prefixes'' v = v" "clean_value ''allowed_identity_classes'' v = v"
  "clean_value ''plugins'' v = v"
  by (simp_all add: clean_value_def later_sections_def)

lemma oauth_clean_value:
  "as_model (oauth_errors V) (oauth_value V) (clean_value ''oauth'' v) = as_model (oauth_errors V) (oauth_value V) v"
  by (cases v) (simp_all add: clean_value_def oauth_only oauth_clean_clients)

lemma section_cleans:
  "as_model (server_errors V) (server_value V) (clean_object server_keys v) = as_model (server_errors V) (server_value V) v"
  "as_model (saml_errors V) (saml_value V) (clean_object saml_keys v) = as_model (saml_errors V) (saml_value V) v"
  "as_model jwt_errors jwt_value (clean_object jwt_keys v) = as_model jwt_errors jwt_value v"
  "as_model (session_errors V) (session_value V) (clean_object session_keys v) = as_model (session_errors V) (session_value V) v"
  "as_model (logging_errors V) (logging_value V) (clean_object logging_keys v) = as_model (logging_errors V) (logging_value V) v"
  "as_model (hooks_errors V) (hooks_value V) (clean_object hooks_keys v) = as_model (hooks_errors V) (hooks_value V) v"
  "as_model (login_errors V) (login_value V) (bare_login (clean_object login_keys v)) =
     as_model (login_errors V) (login_value V) (bare_login v)"
  by (cases v; simp add: server_only saml_only jwt_only session_only logging_only hooks_only login_only bare_login_def)+

lemma clean_settings_errors: "settings_errors V (clean_settings d) = settings_errors V d"
  unfolding settings_errors_def
  by (simp add: field_clean(1) settings_keys_def clean_value_simps oauth_clean_value section_cleans)

lemma clean_settings_value: "settings_value V (clean_settings d) = settings_value V d"
  unfolding settings_value_def
  by (simp add: field_clean(2) settings_keys_def clean_value_simps oauth_clean_value section_cleans)

lemma client_extras_clean: "client_extras (clean_client x) = []"
  by (cases x) simp_all

lemma clients_extras_clean: "clients_extras i (map clean_client xs) = []"
proof -
  have "list_extras i (map clean_client xs) = []"
    by (induction xs arbitrary: i) (simp_all add: client_extras_clean)
  then show ?thesis by (simp add: clients_extras_list)
qed

lemma section_extras_clean:
  assumes "k \<in> set settings_keys" "\<And>e. clean_value k (JObj e) = JObj (only known (g e))"
    "\<And>v. (\<nexists>e. v = JObj e) \<Longrightarrow> clean_value k v = v"
  shows "section_extras k known (clean_settings d) = []"
proof (cases "dget d k")
  case None
  then show ?thesis using assms(1) by (simp add: section_extras_def dget_clean_settings)
next
  case (Some v)
  then show ?thesis
    using assms by (cases v) (simp_all add: section_extras_def dget_clean_settings)
qed

lemma clean_settings_unknown: "settings_unknown (clean_settings d) = []"
proof -
  have "section_extras k known (clean_settings d) = []"
    if "(k, known) \<in> set ((''server'', server_keys) # later_sections)" "k \<noteq> ''oauth''" for k known
  proof (rule section_extras_clean [where g = id])
    have v: "clean_value k v = clean_object known v" for v
      using that by (auto simp: later_sections_def clean_value_simps)
    show "k \<in> set settings_keys" using that by (auto simp: later_sections_def settings_keys_def)
    show "clean_value k (JObj e) = JObj (only known (id e))" for e by (simp add: v)
    show "clean_value k w = w" if "\<nexists>e. w = JObj e" for w using that by (cases w) (simp_all add: v)
  qed
  moreover have "section_extras ''oauth'' oauth_keys (clean_settings d) = []"
    by (rule section_extras_clean [where g = clean_clients])
       (auto simp: clean_value_def settings_keys_def split: json.split)
  moreover have "extras settings_keys (clean_settings d) = []" by (simp add: clean_settings_def)
  moreover have "(case dget (clean_settings d) ''oauth'' of
      Some (JObj e) \<Rightarrow> (case dget e ''clients'' of Some (JList xs) \<Rightarrow> clients_extras 0 xs | _ \<Rightarrow> []) | _ \<Rightarrow> []) = []"
  proof (cases "\<exists>e. dget d ''oauth'' = Some (JObj e)")
    case True
    then obtain e where e: "dget d ''oauth'' = Some (JObj e)" by blast
    have "dget (only oauth_keys (clean_clients e)) ''clients'' = dget (clean_clients e) ''clients''"
      by (simp add: dget_only oauth_keys_def)
    then show ?thesis
      by (auto simp: e dget_clean_settings settings_keys_def clean_value_def clean_clients_def clients_extras_clean
          split: option.split json.split)
  next
    case False
    then show ?thesis
      by (auto simp: dget_clean_settings settings_keys_def clean_value_def split: option.split json.split)
  qed
  ultimately show ?thesis by (simp add: settings_unknown_def later_sections_def)
qed

lemma load_settings_cases:
  "load_settings_document V strict d =
     (case settings_errors V d of
        p # _ \<Rightarrow> Inl (InvalidValue p)
      | [] \<Rightarrow> if strict \<and> settings_unknown d \<noteq> [] then Inl (UnknownKey (hd (settings_unknown d)))
              else Inr (settings_value V d))"
proof (cases "settings_errors V d")
  case Nil
  show ?thesis
  proof (cases "settings_unknown d")
    case Nil
    with \<open>settings_errors V d = []\<close> show ?thesis
      by (simp add: load_settings_document_def numeral_2_eq_2)
  next
    case (Cons p ps)
    have drop: "fold drop_path ps (drop_path p (JObj d)) = JObj (clean_settings d)"
      using drop_unknown [of d] by (simp add: Cons)
    show ?thesis
      using \<open>settings_errors V d = []\<close>
      by (simp add: load_settings_document_def numeral_2_eq_2 Cons drop clean_settings_errors clean_settings_value
          clean_settings_unknown)
  qed
qed (simp add: load_settings_document_def numeral_2_eq_2)

text \<open>One retry is enough: with any number of attempts left, the second validation is the last.\<close>

lemma load_rounds:
  "load_document (Suc n) strict (settings_errors V) settings_unknown (settings_value V) d =
    load_settings_document V strict d"
proof (cases "settings_unknown d")
  case Nil
  then show ?thesis by (simp add: load_settings_cases split: list.split)
next
  case (Cons p ps)
  have drop: "fold drop_path ps (drop_path p (JObj d)) = JObj (clean_settings d)"
    using drop_unknown [of d] by (simp add: Cons)
  show ?thesis unfolding load_settings_cases
    by (cases "settings_errors V d")
      (simp_all add: Cons drop clean_settings_unknown clean_settings_errors clean_settings_value)
qed

end
