(* ===== verification/Serialization_Laws.thy ===== *)
theory Serialization_Laws
  imports Serialization
begin

text \<open>
  What a save does to the documents of \<open>Serialization\<close>: the sequence of in-place updates is, key
  by key, one decision on the raw value of that key, and every other key is left as it was. An entry
  of a client is merged the same way.
\<close>

subsection \<open>Reading a key of a section\<close>

definition read_key :: "doc \<Rightarrow> str \<times> str \<Rightarrow> json option" where
  \<comment> \<open>the raw value at a place: a section (empty for the top level) and a key of it\<close>
  "read_key document place =
     (case section_target (fst place) document of None \<Rightarrow> None | Some t \<Rightarrow> dget t (snd place))"

definition place :: "owned_setting \<Rightarrow> str \<times> str" where
  "place row = (os_section row, os_key row)"

definition apart :: "str \<times> str \<Rightarrow> str \<times> str \<Rightarrow> bool" where
  \<comment> \<open>two places neither of which holds the other\<close>
  "apart p q \<longleftrightarrow> p \<noteq> q \<and> (fst p = [] \<longrightarrow> fst q \<noteq> snd p) \<and> (fst q = [] \<longrightarrow> fst p \<noteq> snd q)"

lemma section_target_put [simp]: "section_target sec (put_target sec t d) = Some t"
  by (simp add: section_target_def put_target_def)

lemma read_put_own: "read_key (put_target sec t d) (sec, k) = dget t k"
  by (simp add: read_key_def)

lemma read_put_other:
  assumes "section_target sec d = Some t0" "\<And>k'. k' \<noteq> k \<Longrightarrow> dget t k' = dget t0 k'" "apart p (sec, k)"
  shows "read_key (put_target sec t d) p = read_key d p"
  using assms
  by (cases p) (auto simp: read_key_def section_target_def put_target_def apart_def split: if_splits option.splits json.splits)

subsection \<open>One row\<close>

definition row_value :: "env \<Rightarrow> settings \<Rightarrow> owned_setting \<Rightarrow> json option \<Rightarrow> json option" where
  \<comment> \<open>what a save makes of the raw value of an owned key\<close>
  "row_value env s row raw =
     (let v = os_attr row s; current = (case raw of None \<Rightarrow> JNull | Some x \<Rightarrow> x) in
      case os_mode row of
        Plain \<Rightarrow> if is_unchanged env current v then raw else Some v
      | OmitWhenFalsy absent \<Rightarrow>
          if is_unchanged env current (if json_true v then v else absent) then raw
          else if json_true v then Some v else None
      | OmitWhenNone \<Rightarrow> if v = JNull then None else if is_unchanged env current v then raw else Some v)"

lemma row_target_get: "dget (row_target env s row t) k =
    (if k = os_key row then row_value env s row (dget t k) else dget t k)"
  unfolding row_target_def row_value_def Let_def dval_def [symmetric] by (cases "os_mode row") auto

lemma apply_row_own:
  assumes "apply_row env s row d = Some d'"
  shows "read_key d' (place row) = row_value env s row (read_key d (place row))"
proof -
  obtain t where t: "section_target (os_section row) d = Some t"
    and d': "d' = put_target (os_section row) (row_target env s row t) d"
    using assms by (auto simp: apply_row_def split: option.splits)
  show ?thesis unfolding d' place_def read_put_own row_target_get by (simp add: read_key_def t)
qed

lemma apply_row_other:
  assumes "apply_row env s row d = Some d'" "apart p (place row)"
  shows "read_key d' p = read_key d p"
proof -
  obtain t where t: "section_target (os_section row) d = Some t"
    and d': "d' = put_target (os_section row) (row_target env s row t) d"
    using assms by (auto simp: apply_row_def split: option.splits)
  show ?thesis unfolding d'
    by (rule read_put_other [OF t _ assms(2) [unfolded place_def]]) (simp add: row_target_get)
qed

lemma apply_rows_other:
  "apply_rows env s rows d = Some d' \<Longrightarrow> \<forall>row \<in> set rows. apart p (place row) \<Longrightarrow> read_key d' p = read_key d p"
proof (induction rows arbitrary: d)
  case (Cons row rows)
  obtain d1 where d1: "apply_row env s row d = Some d1" "apply_rows env s rows d1 = Some d'"
    using Cons.prems(1) by (auto split: option.splits)
  have "read_key d' p = read_key d1 p" using Cons.IH [OF d1(2)] Cons.prems(2) by simp
  with apply_row_other [OF d1(1), of p] Cons.prems(2) show ?case by simp
qed simp

fun table_ok :: "owned_setting list \<Rightarrow> bool" where
  "table_ok [] \<longleftrightarrow> True"
| "table_ok (row # rows) \<longleftrightarrow> list_all (\<lambda>r. apart (place row) (place r)) rows \<and> table_ok rows"

lemma apart_sym: "apart p q \<Longrightarrow> apart q p"
  by (auto simp: apart_def)

lemma apply_rows_own:
  "apply_rows env s rows d = Some d' \<Longrightarrow> table_ok rows \<Longrightarrow> row \<in> set rows \<Longrightarrow>
    read_key d' (place row) = row_value env s row (read_key d (place row))"
proof (induction rows arbitrary: d)
  case (Cons r rows)
  obtain d1 where d1: "apply_row env s r d = Some d1" "apply_rows env s rows d1 = Some d'"
    using Cons.prems(1) by (auto split: option.splits)
  have ap: "\<forall>r' \<in> set rows. apart (place r) (place r')" using Cons.prems(2) by (simp add: list_all_iff)
  show ?case
  proof (cases "row = r")
    case True
    have "read_key d' (place row) = read_key d1 (place row)"
      using apply_rows_other [OF d1(2), of "place row"] ap True by simp
    with apply_row_own [OF d1(1)] True show ?thesis by simp
  next
    case False
    then have row: "row \<in> set rows" using Cons.prems(3) by simp
    have "read_key d' (place row) = row_value env s row (read_key d1 (place row))"
      using Cons.IH [OF d1(2) _ row] Cons.prems(2) by simp
    moreover have "read_key d1 (place row) = read_key d (place row)"
      using apply_row_other [OF d1(1), of "place row"] ap row apart_sym by blast
    ultimately show ?thesis by simp
  qed
qed simp

lemma owned_settings_ok: "table_ok owned_settings"
  by code_simp

subsection \<open>The steps after the rows\<close>

lemma apply_clients_other:
  assumes "apply_clients env cs d = Some d'" "apart p (''oauth'', ''clients'')"
  shows "read_key d' p = read_key d p"
  using assms by (auto simp: apply_clients_def Let_def intro!: read_put_other split: option.splits)

lemma dget_kept_set_or_dropped: "k \<noteq> k0 \<Longrightarrow> dget (if a then d else if b then dset k0 v d else ddel k0 d) k = dget d k"
  by simp

lemma read_top: "read_key d ([], k) = dget d k"
  by (simp add: read_key_def section_target_def)

lemma read_top_other:
  assumes "\<And>k. k \<noteq> k0 \<Longrightarrow> dget t k = dget d k" "apart p ([], k0)"
  shows "read_key t p = read_key d p"
proof -
  have "read_key (put_target [] t d) p = read_key d p"
    by (rule read_put_other [OF _ assms]) (simp_all add: section_target_def)
  then show ?thesis by (simp add: put_target_def)
qed

lemma profile_other:
  assumes "apart p ([], ''security_profile'')"
  shows "read_key (apply_security_profile env defaults s d) p = read_key d p"
  unfolding apply_security_profile_def Let_def
  by (rule read_top_other [OF dget_kept_set_or_dropped assms])

lemma ddel_Nil_get: "ddel k d = [] \<Longrightarrow> k' \<noteq> k \<Longrightarrow> dget d k' = None"
  by (metis dget_Nil dget_ddel)

lemma optional_outcomes:
  assumes "merge_optional_nested_field env d sec f v dflt = Some d'" "sec \<noteq> []"
  obtains (same) "d' = d"
  | (put) t0 t where "section_target sec d = Some t0" "\<And>k. k \<noteq> f \<Longrightarrow> dget t k = dget t0 k" "d' = put_target sec t d"
  | (null) v' where "dget d sec = Some JNull" "d' = dset sec (JObj [(f, v')]) d"
  | (gone) t0 where "section_target sec d = Some t0" "ddel f t0 = []" "d' = ddel sec d"
proof (cases "dget d sec")
  case None
  then have t: "section_target sec d = Some []" using assms(2) by (simp add: section_target_def)
  have "d' = d \<or> d' = put_target sec [(f, v)] d"
    using assms None unfolding merge_optional_nested_field_def put_target_def
    by (auto simp: dval_def split: if_splits)
  then show thesis using same put [OF t, of "[(f, v)]"] by (auto simp: dget_Cons)
next
  case (Some w)
  show thesis
  proof (cases w)
    case (JObj t0)
    then have t: "section_target sec d = Some t0" using Some assms(2) by (simp add: section_target_def)
    have "d' = d \<or> d' = put_target sec (dset f v t0) d \<or> d' = put_target sec (ddel f t0) d \<or> (ddel f t0 = [] \<and> d' = ddel sec d)"
      using assms Some JObj unfolding merge_optional_nested_field_def put_target_def
      by (auto simp: dval_def split: if_splits json.splits)
    then show thesis using same put [OF t, of "dset f v t0"] put [OF t, of "ddel f t0"] gone [OF t]
      by (auto simp: put_target_def)
  next
    case JNull
    then have "d' = d \<or> d' = dset sec (JObj [(f, v)]) d"
      using assms Some unfolding merge_optional_nested_field_def by (auto simp: dval_def split: if_splits)
    then show thesis using same null Some JNull by blast
  qed (use assms Some same in \<open>auto simp: merge_optional_nested_field_def dval_def split: if_splits\<close>)
qed

lemma optional_other:
  assumes "merge_optional_nested_field env d sec f v dflt = Some d'" "apart p (sec, f)" "sec \<noteq> []"
    and "\<not> (fst p = [] \<and> snd p = sec)"
  shows "read_key d' p = read_key d p"
  using assms(1,3)
proof (cases rule: optional_outcomes)
  case (put t0 t)
  then show ?thesis using read_put_other assms(2) by blast
qed (use assms in \<open>auto simp: read_key_def section_target_def apart_def ddel_Nil_get dget_Cons prod_eq_iff split: option.splits\<close>)

text \<open>The keys a save does not own.\<close>

definition special_places :: "(str \<times> str) list" where
  "special_places = [(''oauth'', ''clients''), ([], ''security_profile''), (''login'', ''mode''),
     (''login'', ''auto_login''), (''login'', ''two_step'')]"

definition unowned :: "str \<times> str \<Rightarrow> bool" where
  "unowned p \<longleftrightarrow> list_all (apart p) (map place owned_settings @ special_places)"

lemma rows_apart_special: "list_all (\<lambda>row. list_all (apart (place row)) special_places) owned_settings"
  by code_simp

lemma login_not_row: "list_all (\<lambda>row. place row \<noteq> ([], ''login'')) owned_settings"
  by code_simp

abbreviation save_login :: "env \<Rightarrow> str \<Rightarrow> json \<Rightarrow> json \<Rightarrow> doc \<Rightarrow> doc option" where
  "save_login env f v dflt d \<equiv> merge_optional_nested_field env d ''login'' f v dflt"

lemma apply_settings_steps:
  assumes "apply_settings_document env d s defaults = Some d'"
  obtains d1 d2 d3 d4 where "apply_rows env s owned_settings d = Some d1"
    "apply_clients env (s_clients s) d1 = Some d2"
    "save_login env ''mode'' (JStr (s_login_mode s)) (dval defaults ''login.mode'')
        (apply_security_profile env defaults s d2) = Some d3"
    "save_login env ''auto_login'' (JBool (s_auto_login s)) (dval defaults ''login.auto_login'') d3 = Some d4"
    "save_login env ''two_step'' (JBool (s_two_step s)) (dval defaults ''login.two_step'') d4 = Some d'"
  using assms by (auto simp: apply_settings_document_def bind_eq_Some_conv)

lemma apply_settings_after_rows:
  assumes "apply_settings_document env d s defaults = Some d'" "list_all (apart p) special_places"
  obtains d1 where "apply_rows env s owned_settings d = Some d1" "read_key d' p = read_key d1 p"
proof -
  obtain d1 d2 d3 d4 where st: "apply_rows env s owned_settings d = Some d1"
    "apply_clients env (s_clients s) d1 = Some d2"
    "save_login env ''mode'' (JStr (s_login_mode s)) (dval defaults ''login.mode'')
        (apply_security_profile env defaults s d2) = Some d3"
    "save_login env ''auto_login'' (JBool (s_auto_login s)) (dval defaults ''login.auto_login'') d3 = Some d4"
    "save_login env ''two_step'' (JBool (s_two_step s)) (dval defaults ''login.two_step'') d4 = Some d'"
    by (rule apply_settings_steps [OF assms(1)])
  have ap: "apart p (''oauth'', ''clients'')" "apart p ([], ''security_profile'')" "apart p (''login'', ''mode'')"
    "apart p (''login'', ''auto_login'')" "apart p (''login'', ''two_step'')"
    using assms(2) by (simp_all add: special_places_def)
  then have nl: "\<not> (fst p = [] \<and> snd p = ''login'')" by (auto simp: apart_def)
  have "read_key d' p = read_key d1 p"
    using optional_other [OF st(5) ap(5) _ nl] optional_other [OF st(4) ap(4) _ nl]
      optional_other [OF st(3) ap(3) _ nl] profile_other [OF ap(2), of env defaults s d2]
      apply_clients_other [OF st(2) ap(1)] by simp
  with st(1) show thesis by (rule that)
qed

lemma apply_settings_own:
  assumes "apply_settings_document env d s defaults = Some d'" "row \<in> set owned_settings"
  shows "read_key d' (place row) = row_value env s row (read_key d (place row))"
proof -
  have "list_all (apart (place row)) special_places"
    using rows_apart_special assms(2) by (simp add: list_all_iff)
  with assms(1) obtain d1 where "apply_rows env s owned_settings d = Some d1"
    "read_key d' (place row) = read_key d1 (place row)"
    by (rule apply_settings_after_rows)
  then show ?thesis using apply_rows_own [OF _ owned_settings_ok assms(2)] by simp
qed

lemma apply_settings_unowned:
  assumes "apply_settings_document env d s defaults = Some d'" "unowned p"
  shows "read_key d' p = read_key d p"
proof -
  have "list_all (apart p) special_places" using assms(2) by (simp add: unowned_def)
  with assms(1) obtain d1 where "apply_rows env s owned_settings d = Some d1" "read_key d' p = read_key d1 p"
    by (rule apply_settings_after_rows)
  then show ?thesis using apply_rows_other [of env s owned_settings d d1 p] assms(2)
    by (simp add: unowned_def list_all_iff)
qed

end
