(* ===== verification/Save_Again.thy ===== *)
theory Save_Again
  imports Serialization_Laws
begin

text \<open>
  A save leaves a document that the same save does not touch. Each step of
  \<open>apply_settings_document\<close> settles the keys it owns: a settled key is one whose raw value the step
  keeps. Later steps do not unsettle it, and a document with every key settled is returned as it is.
\<close>

subsection \<open>Dictionaries that an update leaves alone\<close>

lemma dval_dset [simp]: "dval (dset k v d) k' = (if k' = k then v else dval d k')"
  by (simp add: dval_def)

lemma dval_ddel [simp]: "dval (ddel k d) k' = (if k' = k then JNull else dval d k')"
  by (simp add: dval_def)

subsection \<open>Settled rows\<close>

definition raw_or :: "json \<Rightarrow> json option \<Rightarrow> json" where
  "raw_or dflt raw = (case raw of None \<Rightarrow> dflt | Some x \<Rightarrow> x)"

definition row_settled :: "env \<Rightarrow> settings \<Rightarrow> owned_setting \<Rightarrow> json option \<Rightarrow> bool" where
  "row_settled env s row raw =
     (let v = os_attr row s; unchanged = is_unchanged env (raw_or JNull raw) in
      case os_mode row of
        Plain \<Rightarrow> unchanged v
      | OmitWhenFalsy absent \<Rightarrow> unchanged (if json_true v then v else absent) \<or> (\<not> json_true v \<and> raw = None)
      | OmitWhenNone \<Rightarrow> if v = JNull then raw = None else unchanged v)"

lemma raw_or_simps [simp]: "raw_or dflt None = dflt" "raw_or dflt (Some x) = x"
  by (simp_all add: raw_or_def)

lemma dval_raw_or: "dval d k = raw_or JNull (dget d k)"
  by (simp add: dval_def raw_or_def)

lemma row_value_settled:
  assumes "plain (os_attr row s)" "json_wf (os_attr row s)"
  shows "row_settled env s row (row_value env s row raw)"
  unfolding row_settled_def row_value_def Let_def raw_or_def [symmetric]
  using is_unchanged_same [OF assms, of env] by (cases "os_mode row") auto

lemma row_target_settled:
  assumes "row_settled env s row (dget t (os_key row))"
  shows "row_target env s row t = t"
  using assms unfolding row_settled_def row_target_def Let_def dval_raw_or
  by (cases "os_mode row") (auto split: if_splits)

definition has_section :: "str \<Rightarrow> doc \<Rightarrow> bool" where
  "has_section sec d \<longleftrightarrow> sec = [] \<or> (\<exists>t. dget d sec = Some (JObj t))"

lemma has_section_target: "has_section sec d \<longleftrightarrow> (\<exists>t. section_target sec d = Some t \<and> put_target sec t d = d)"
proof
  assume "has_section sec d"
  then show "\<exists>t. section_target sec d = Some t \<and> put_target sec t d = d"
    by (cases "sec = []") (auto simp: has_section_def section_target_def put_target_def)
next
  assume "\<exists>t. section_target sec d = Some t \<and> put_target sec t d = d"
  then obtain t where "put_target sec t d = d" by blast
  then have "sec \<noteq> [] \<Longrightarrow> dget d sec = Some (JObj t)"
    by (metis dget_dset put_target_def)
  then show "has_section sec d" by (auto simp: has_section_def)
qed

lemma apply_row_settled:
  assumes "has_section (os_section row) d" "row_settled env s row (read_key d (place row))"
  shows "apply_row env s row d = Some d"
proof -
  obtain t where t: "section_target (os_section row) d = Some t" "put_target (os_section row) t d = d"
    using assms(1) by (auto simp: has_section_target)
  then have "row_target env s row t = t"
    using assms(2) by (intro row_target_settled) (simp add: read_key_def place_def)
  with t show ?thesis by (simp add: apply_row_def)
qed

lemma apply_rows_settled:
  "(\<And>row. row \<in> set rows \<Longrightarrow> has_section (os_section row) d \<and> row_settled env s row (read_key d (place row))) \<Longrightarrow>
    apply_rows env s rows d = Some d"
  by (induction rows) (auto simp: apply_row_settled)

subsection \<open>Sections stay\<close>

lemma has_section_put_own: "has_section sec (put_target sec t d)"
  by (simp add: has_section_def put_target_def)

lemma has_section_dset:
  "has_section sec d \<Longrightarrow> k \<noteq> sec \<or> (\<exists>t. v = JObj t) \<Longrightarrow> has_section sec (dset k v d)"
  by (auto simp: has_section_def)

lemma has_section_ddel: "has_section sec d \<Longrightarrow> k \<noteq> sec \<Longrightarrow> has_section sec (ddel k d)"
  by (auto simp: has_section_def)

lemma apply_row_section:
  assumes "apply_row env s row d = Some d'" "os_section row = [] \<Longrightarrow> os_key row \<noteq> sec"
  shows "has_section (os_section row) d'" "has_section sec d \<Longrightarrow> has_section sec d'"
proof -
  obtain t where t: "section_target (os_section row) d = Some t"
    and d': "d' = put_target (os_section row) (row_target env s row t) d"
    using assms(1) by (auto simp: apply_row_def split: option.splits)
  show "has_section (os_section row) d'" unfolding d' by (rule has_section_put_own)
  assume sec: "has_section sec d"
  show "has_section sec d'"
  proof (cases "os_section row = []")
    case True
    then have "t = d" using t by (simp add: section_target_def)
    with sec True assms(2) show ?thesis
      unfolding d' by (auto simp: put_target_def has_section_def row_target_get)
  next
    case False
    with sec show ?thesis unfolding d' by (auto simp: put_target_def intro: has_section_dset)
  qed
qed

lemma apply_rows_section:
  "apply_rows env s rows d = Some d' \<Longrightarrow> \<forall>row \<in> set rows. os_section row = [] \<longrightarrow> os_key row \<noteq> sec \<Longrightarrow>
    has_section sec d \<or> (\<exists>row \<in> set rows. os_section row = sec) \<Longrightarrow> has_section sec d'"
proof (induction rows arbitrary: d)
  case (Cons row rows)
  obtain d1 where d1: "apply_row env s row d = Some d1" "apply_rows env s rows d1 = Some d'"
    using Cons.prems(1) by (auto split: option.splits)
  have "has_section sec d1 \<or> (\<exists>row \<in> set rows. os_section row = sec)"
    using Cons.prems(2,3) apply_row_section [OF d1(1), of sec] by auto
  then show ?case using Cons.IH [OF d1(2)] Cons.prems(2) by auto
qed auto

subsection \<open>The client list\<close>

definition field_settled :: "env \<Rightarrow> doc \<Rightarrow> str \<times> json \<times> bool \<Rightarrow> bool" where
  "field_settled env raw f = (case f of (k, v, keep) \<Rightarrow>
     is_unchanged env (dval raw k) v \<or> (\<not> keep \<and> dget raw k = None))"

lemma merge_fields_settled:
  "(\<And>f. f \<in> set fs \<Longrightarrow> field_settled env raw f) \<Longrightarrow> merge_fields env raw fs raw = raw"
proof (induction fs)
  case (Cons f fs)
  obtain k v keep where f: "f = (k, v, keep)" by (cases f)
  have "put_if_changed env raw k v keep raw = raw"
    using Cons.prems [of f] by (auto simp: f field_settled_def put_if_changed_def)
  with Cons show ?case by (simp add: f)
qed simp

lemma merge_fields_get:
  "distinct (map fst fs) \<Longrightarrow> dget (merge_fields env raw fs updated) k =
    (case map_of fs k of None \<Rightarrow> dget updated k
     | Some (v, keep) \<Rightarrow> if is_unchanged env (dval raw k) v then dget updated k else if keep then Some v else None)"
proof (induction fs arbitrary: updated)
  case (Cons f fs)
  obtain k' v keep where f: "f = (k', v, keep)" by (cases f)
  show ?case
  proof (cases "k = k'")
    case True
    then have "map_of fs k = None" using Cons.prems by (force simp: f map_of_eq_None_iff)
    with True Cons show ?thesis by (simp add: f put_if_changed_def)
  next
    case False
    then have "dget (put_if_changed env raw k' v keep updated) k = dget updated k"
      by (simp add: put_if_changed_def)
    with False Cons show ?thesis by (simp add: f split: option.split)
  qed
qed simp

definition client_fields :: "oauth_client \<Rightarrow> (str \<times> json \<times> bool) list" where
  "client_fields c = text_fields c @ default_fields c @ list_fields c"

lemma client_fields_distinct: "distinct (map fst (client_fields c))"
  by (simp add: client_fields_def text_fields_def default_fields_def list_fields_def)

definition plain_client :: "oauth_client \<Rightarrow> bool" where
  "plain_client c \<longleftrightarrow> list_all (\<lambda>(k, v, keep). plain v) (client_fields c)"

lemma client_fields_wf: "(k, v, keep) \<in> set (client_fields c) \<Longrightarrow> json_wf v"
  by (auto simp: client_fields_def text_fields_def default_fields_def list_fields_def jopt_def jstrs_def
      list_all_iff split: option.splits)

lemma merge_client_entry_get:
  assumes "(k, v, keep) \<in> set (client_fields c)"
  shows "dget (merge_client_entry env raw c) k =
    (if is_unchanged env (dval raw k) v then dget raw k else if keep then Some v else None)"
proof -
  have "map_of (client_fields c) k = Some (v, keep)"
    using assms client_fields_distinct by simp
  then show ?thesis
    unfolding merge_client_entry_def client_fields_def [symmetric]
    by (simp add: merge_fields_get client_fields_distinct)
qed

lemma merge_client_entry_other:
  assumes "k \<notin> fst ` set (client_fields c)"
  shows "dget (merge_client_entry env raw c) k = dget raw k"
proof -
  have "map_of (client_fields c) k = None" using assms by (simp add: map_of_eq_None_iff)
  then show ?thesis
    unfolding merge_client_entry_def client_fields_def [symmetric]
    by (simp add: merge_fields_get client_fields_distinct)
qed

lemma merged_entry_settled:
  assumes "plain_client c" "f \<in> set (client_fields c)"
  shows "field_settled env (merge_client_entry env raw c) f"
proof -
  obtain k v keep where f: "f = (k, v, keep)" by (cases f)
  have "is_unchanged env v v"
    using assms client_fields_wf by (intro is_unchanged_same) (auto simp: f plain_client_def list_all_iff)
  then show ?thesis
    using merge_client_entry_get [of k v keep c env raw] assms(2) by (auto simp: f field_settled_def dval_raw_or)
qed

lemma entry_settled_id:
  assumes "\<And>f. f \<in> set (client_fields c) \<Longrightarrow> field_settled env raw f"
  shows "merge_client_entry env raw c = raw"
  unfolding merge_client_entry_def client_fields_def [symmetric] using assms by (rule merge_fields_settled)

lemma dget_append: "dget (d @ e) k = (case dget d k of None \<Rightarrow> dget e k | Some v \<Rightarrow> Some v)"
  by (simp add: dget_def map_add_def split: option.splits)

lemma dget_opt: "dget (if b then [(k', v)] else []) k = (if b \<and> k = k' then Some v else None)"
  by (simp add: dget_Cons)

lemma dget_one: "dget [(k', v)] k = (if k = k' then Some v else None)"
  by (simp add: dget_Cons)

lemma client_to_yaml_get:
  "list_all (\<lambda>(k, v, keep). dget (client_to_yaml c) k =
     (if keep \<or> k = ''client_id'' then Some v else None)) (client_fields c)"
  unfolding client_fields_def text_fields_def default_fields_def list_fields_def client_to_yaml_def
    dget_append dget_opt dget_one
  by simp

lemma new_entry_settled:
  assumes "plain_client c" "f \<in> set (client_fields c)"
  shows "field_settled env (client_to_yaml c) f"
proof -
  obtain k v keep where f: "f = (k, v, keep)" by (cases f)
  have "is_unchanged env v v"
    using assms client_fields_wf by (intro is_unchanged_same) (auto simp: f plain_client_def list_all_iff)
  moreover have "dget (client_to_yaml c) k = (if keep \<or> k = ''client_id'' then Some v else None)"
    using client_to_yaml_get [of c] assms(2) by (auto simp: f list_all_iff)
  ultimately show ?thesis by (simp add: f field_settled_def dval_raw_or)
qed

definition entry_of :: "env \<Rightarrow> json \<Rightarrow> oauth_client \<Rightarrow> doc" where
  \<comment> \<open>the entry a save writes for a client\<close>
  "entry_of env raw_clients c =
     (case find (\<lambda>r. client_id_matches env (JObj r) (cl_client_id c)) (raw_client_entries raw_clients) of
        None \<Rightarrow> client_to_yaml c
      | Some raw \<Rightarrow> merge_client_entry env raw c)"

lemma entry_of_found:
  "find (\<lambda>r. client_id_matches env (JObj r) (cl_client_id c)) (raw_client_entries raw) = Some r \<Longrightarrow>
    entry_of env raw c = merge_client_entry env r c"
  by (simp add: entry_of_def)

lemma merge_oauth_clients_entries: "merge_oauth_clients env raw cs = map (entry_of env raw) cs"
  by (simp add: merge_oauth_clients_def entry_of_def)

lemma entry_of_settled:
  assumes "plain_client c" "f \<in> set (client_fields c)"
  shows "field_settled env (entry_of env raw c) f"
  using merged_entry_settled [OF assms] new_entry_settled [OF assms] by (simp add: entry_of_def split: option.split)

lemma id_field: "(''client_id'', JStr (cl_client_id c), cl_client_id c \<noteq> []) \<in> set (client_fields c)"
  by (simp add: client_fields_def text_fields_def)

lemma id_matches_expand:
  "client_id_matches env (JObj r) i \<longleftrightarrow> expand_env_vars env (dval r ''client_id'') = JStr i"
proof -
  have "json_eq (coerce_like v (JStr i)) (JStr i) \<longleftrightarrow> v = JStr i" for v
    by (cases v) auto
  then show ?thesis by (simp add: client_id_matches_def is_unchanged_def)
qed

lemma entry_of_id:
  assumes "plain_client c"
  shows "client_id_matches env (JObj (entry_of env raw c)) i \<longleftrightarrow> i = cl_client_id c"
proof -
  have "client_id_matches env (JObj (entry_of env raw c)) (cl_client_id c)"
  proof (cases "find (\<lambda>r. client_id_matches env (JObj r) (cl_client_id c)) (raw_client_entries raw)")
    case None
    have "plain (JStr (cl_client_id c))" using assms id_field [of c] by (auto simp: plain_client_def list_all_iff)
    then have "is_unchanged env (JStr (cl_client_id c)) (JStr (cl_client_id c))" by (rule is_unchanged_same) simp
    then show ?thesis
      using client_to_yaml_get [of c] id_field [of c] None
      by (force simp: list_all_iff entry_of_def client_id_matches_def dval_def)
  next
    case (Some r)
    then have "client_id_matches env (JObj r) (cl_client_id c)" by (auto simp: find_Some_iff)
    then show ?thesis
      using merge_client_entry_get [OF id_field, of env r c] Some
      by (simp add: entry_of_def client_id_matches_def dval_def)
  qed
  then show ?thesis by (auto simp: id_matches_expand)
qed

lemma find_entry:
  assumes "list_all plain_client cs" "distinct (map cl_client_id cs)" "c \<in> set cs"
  shows "find (\<lambda>r. client_id_matches env (JObj r) (cl_client_id c)) (map (entry_of env raw) cs) = Some (entry_of env raw c)"
  using assms
proof (induction cs)
  case (Cons d cs)
  then show ?case by (cases "cl_client_id d = cl_client_id c") (auto simp: entry_of_id)
qed simp

lemma raw_entries_map [simp]: "raw_client_entries (JList (map JObj ds)) = ds"
  by (induction ds) simp_all

lemma merge_oauth_clients_again:
  fixes env :: env and raw :: json
  assumes "list_all plain_client cs" "distinct (map cl_client_id cs)"
  defines "new \<equiv> JList (map JObj (merge_oauth_clients env raw cs))"
  shows "merge_oauth_clients env new cs = merge_oauth_clients env raw cs"
proof -
  have "entry_of env new c = entry_of env raw c" if c: "c \<in> set cs" for c
  proof -
    have "entry_of env new c = merge_client_entry env (entry_of env raw c) c"
      using find_entry [OF assms(1,2) c, of env raw]
      by (intro entry_of_found) (unfold new_def raw_entries_map merge_oauth_clients_entries)
    also have "\<dots> = entry_of env raw c"
      using c assms(1) by (intro entry_settled_id entry_of_settled) (auto simp: list_all_iff)
    finally show ?thesis .
  qed
  then show ?thesis by (simp add: merge_oauth_clients_entries)
qed

subsection \<open>Well-formed entries\<close>

lemma wf_dset: "json_wf (JObj d) \<Longrightarrow> json_wf v \<Longrightarrow> json_wf (JObj (dset k v d))"
  by (induction d) (auto simp: dset_def dom_update [unfolded dom_map_of_conv_image_fst] split: if_splits)

lemma wf_ddel: "json_wf (JObj d) \<Longrightarrow> json_wf (JObj (ddel k d))"
  by (induction d) (auto simp: ddel_def delete_keys split: if_splits)

lemma wf_dget: "json_wf (JObj d) \<Longrightarrow> dget d k = Some v \<Longrightarrow> json_wf v"
  by (auto simp: list_all_iff dest!: dget_in_set)

lemma wf_read_key:
  assumes "json_wf (JObj d)"
  shows "pred_option json_wf (read_key d p)"
proof -
  have "json_wf (JObj [])" by simp
  then have "json_wf (JObj t)" if "section_target (fst p) d = Some t" for t
    using that assms wf_dget [OF assms, of "fst p"]
    by (auto simp: section_target_def simp del: json_wf.simps split: if_splits option.splits json.splits)
  then show ?thesis
    using wf_dget [of _ "snd p"] unfolding read_key_def
    by (cases "section_target (fst p) d") (auto simp: pred_option_def simp del: json_wf.simps)
qed

lemma wf_merge_fields:
  "\<forall>(k, v, keep) \<in> set fs. json_wf v \<Longrightarrow> json_wf (JObj updated) \<Longrightarrow> json_wf (JObj (merge_fields env raw fs updated))"
proof (induction fs arbitrary: updated)
  case (Cons f fs)
  obtain k v keep where f: "f = (k, v, keep)" by (cases f)
  have "json_wf (JObj (put_if_changed env raw k v keep updated))"
    using Cons.prems wf_dset wf_ddel by (simp add: f put_if_changed_def del: json_wf.simps)
  with Cons show ?case by (simp add: f del: json_wf.simps)
qed simp

lemma opt_field_map: "map fst (if b then [(k, v)] else []) = (if b then [k] else [])"
  by simp

lemma opt_field_set: "set (if b then [x] else []) = (if b then {x} else {})"
  by (cases b) (simp_all only: if_True if_False list.set)

lemma opt_field_distinct: "distinct (if b then [x] else [])"
  by simp

lemmas opt_field_keys = opt_field_map opt_field_set opt_field_distinct

lemma wf_values: "json_wf (jopt x)" "json_wf (jstrs xs)"
  by (simp_all add: jopt_def jstrs_def list_all_iff split: option.split)

lemma wf_client_to_yaml: "json_wf (JObj (client_to_yaml c))"
  unfolding json_wf.simps
proof
  show "distinct (map fst (client_to_yaml c))"
    unfolding client_to_yaml_def map_append distinct_append set_append opt_field_keys by auto
  show "list_all (\<lambda>(k, v). json_wf v) (client_to_yaml c)"
    unfolding client_to_yaml_def list_all_append by (simp add: wf_values)
qed

lemma wf_entry_of:
  assumes "json_wf raw"
  shows "json_wf (JObj (entry_of env raw c))"
proof (cases "find (\<lambda>r. client_id_matches env (JObj r) (cl_client_id c)) (raw_client_entries raw)")
  case None
  then show ?thesis using wf_client_to_yaml by (simp add: entry_of_def del: json_wf.simps)
next
  case (Some r)
  then have "r \<in> set (raw_client_entries raw)" by (auto simp: find_Some_iff)
  then have "json_wf (JObj r)"
    using assms by (cases raw) (auto simp: list_all_iff simp del: json_wf.simps(2) split: json.splits)
  then have "json_wf (JObj (merge_client_entry env r c))"
    unfolding merge_client_entry_def client_fields_def [symmetric]
    using client_fields_wf by (intro wf_merge_fields) auto
  with Some show ?thesis by (simp add: entry_of_def del: json_wf.simps)
qed

definition clients_value :: "env \<Rightarrow> oauth_client list \<Rightarrow> json option \<Rightarrow> json option" where
  \<comment> \<open>what a save makes of the raw client list\<close>
  "clients_value env cs raw =
     (let new = merge_oauth_clients env (raw_or (JList []) raw) cs in
      if json_eq (JList (map JObj new)) (raw_or (JList []) raw) then raw
      else if new \<noteq> [] then Some (JList (map JObj new)) else None)"

lemma clients_value_settled:
  assumes "list_all plain_client cs" "distinct (map cl_client_id cs)" "pred_option json_wf raw"
  shows "clients_value env cs (clients_value env cs raw) = clients_value env cs raw"
proof -
  define cur where "cur = raw_or (JList []) raw"
  define new where "new = merge_oauth_clients env cur cs"
  have wf: "json_wf cur" using assms(3) by (cases raw) (simp_all add: cur_def)
  have "json_wf (JObj r)" if "r \<in> set new" for r
    using that wf_entry_of [OF wf] by (auto simp: new_def merge_oauth_clients_entries simp del: json_wf.simps)
  then have "json_wf (JList (map JObj new))" by (auto simp: list_all_iff)
  then have refl: "json_eq (JList (map JObj new)) (JList (map JObj new))" by (rule json_eq_refl_step)
  have again: "merge_oauth_clients env (JList (map JObj new)) cs = new"
    unfolding new_def by (rule merge_oauth_clients_again [OF assms(1,2)])
  have empty: "json_eq (JList (map JObj (merge_oauth_clients env (JList []) cs))) (JList [])" if "new = []"
    using that by (simp add: new_def merge_oauth_clients_entries)
  show ?thesis
    using refl again empty
    by (simp add: clients_value_def [of env cs raw] cur_def [symmetric] new_def [symmetric] Let_def clients_value_def [of env cs "Some _"] clients_value_def [of env cs None])
qed

lemma apply_clients_own:
  assumes "apply_clients env cs d = Some d'"
  shows "read_key d' (''oauth'', ''clients'') = clients_value env cs (read_key d (''oauth'', ''clients''))"
    and "has_section ''oauth'' d'"
    and "sec \<noteq> ''oauth'' \<Longrightarrow> has_section sec d \<Longrightarrow> has_section sec d'"
proof -
  obtain t where t: "section_target ''oauth'' d = Some t"
    using assms by (auto simp: apply_clients_def split: option.splits)
  have "dval_or t k dflt = raw_or dflt (dget t k)" for k dflt
    by (simp add: dval_or_def raw_or_def)
  then have d': "d' = put_target ''oauth'' (let new = merge_oauth_clients env (raw_or (JList []) (dget t ''clients'')) cs in
      if json_eq (JList (map JObj new)) (raw_or (JList []) (dget t ''clients'')) then t
      else if new \<noteq> [] then dset ''clients'' (JList (map JObj new)) t else ddel ''clients'' t) d"
    using assms by (simp add: apply_clients_def t Let_def del: json_eq.simps)
  show "read_key d' (''oauth'', ''clients'') = clients_value env cs (read_key d (''oauth'', ''clients''))"
    unfolding d' read_put_own clients_value_def Let_def by (simp add: read_key_def t del: json_eq.simps)
  show "has_section ''oauth'' d'" unfolding d' by (rule has_section_put_own)
  show "sec \<noteq> ''oauth'' \<Longrightarrow> has_section sec d \<Longrightarrow> has_section sec d'"
    unfolding d' put_target_def by (auto intro: has_section_dset simp del: json_eq.simps)
qed

lemma apply_clients_settled:
  assumes "has_section ''oauth'' d"
    and "clients_value env cs (read_key d (''oauth'', ''clients'')) = read_key d (''oauth'', ''clients'')"
  shows "apply_clients env cs d = Some d"
proof -
  obtain t where t: "section_target ''oauth'' d = Some t" "put_target ''oauth'' t d = d"
    using assms(1) by (auto simp: has_section_target)
  define raw where "raw = dget t ''clients''"
  have raw: "read_key d (''oauth'', ''clients'') = raw" by (simp add: read_key_def t raw_def)
  have same: "dval_or t ''clients'' (JList []) = raw_or (JList []) raw"
    by (simp add: dval_or_def raw_or_def raw_def)
  define new where "new = merge_oauth_clients env (raw_or (JList []) raw) cs"
  have v: "(if json_eq (JList (map JObj new)) (raw_or (JList []) raw) then raw
      else if new \<noteq> [] then Some (JList (map JObj new)) else None) = raw"
    using assms(2) unfolding raw clients_value_def Let_def new_def .
  have keep: "(if json_eq (JList (map JObj new)) (raw_or (JList []) raw) then t
      else if new \<noteq> [] then dset ''clients'' (JList (map JObj new)) t else ddel ''clients'' t) = t"
    using v by (auto simp: raw_def simp del: json_eq.simps split: if_splits)
  show ?thesis
    unfolding apply_clients_def t(1) option.case same Let_def new_def [symmetric] keep t(2) ..
qed

subsection \<open>The profile and the login section\<close>

lemma json_eq_str: "json_eq v (JStr s) \<longleftrightarrow> v = JStr s" "json_eq (JStr s) v \<longleftrightarrow> JStr s = v"
  by (cases v; auto)+

definition optional_settled :: "env \<Rightarrow> json \<Rightarrow> json \<Rightarrow> json option \<Rightarrow> bool" where
  "optional_settled env v dflt raw \<longleftrightarrow> is_unchanged env (raw_or dflt raw) v"

definition optional_ok :: "json \<Rightarrow> json \<Rightarrow> bool" where
  \<comment> \<open>a value and the default it is compared with\<close>
  "optional_ok v dflt \<longleftrightarrow> plain v \<and> json_wf v \<and> (json_eq v dflt \<longrightarrow> v = dflt)"

lemma optional_ok_same: "optional_ok v dflt \<Longrightarrow> is_unchanged env v v"
  by (simp add: optional_ok_def is_unchanged_same)

lemma profile_own:
  "read_key (apply_security_profile env defaults s d) ([], ''security_profile'') =
    (if is_unchanged env (raw_or (dval defaults ''security_profile'') (dget d ''security_profile''))
        (JStr (s_security_profile s)) then dget d ''security_profile''
     else if \<not> json_eq (JStr (s_security_profile s)) (dval defaults ''security_profile'')
       then Some (JStr (s_security_profile s)) else None)"
  unfolding apply_security_profile_def Let_def read_top dval_or_def raw_or_def by simp

lemma profile_own_settled:
  assumes "optional_ok (JStr (s_security_profile s)) (dval defaults ''security_profile'')"
  shows "optional_settled env (JStr (s_security_profile s)) (dval defaults ''security_profile'')
    (read_key (apply_security_profile env defaults s d) ([], ''security_profile''))"
  using assms optional_ok_same [OF assms, of env] unfolding profile_own
  by (auto simp: optional_settled_def optional_ok_def)

lemma profile_settled:
  assumes "optional_settled env (JStr (s_security_profile s)) (dval defaults ''security_profile'')
    (read_key d ([], ''security_profile''))"
  shows "apply_security_profile env defaults s d = d"
  using assms unfolding apply_security_profile_def Let_def optional_settled_def read_top dval_or_def raw_or_def
  by simp

lemma profile_section:
  "has_section sec d \<Longrightarrow> sec \<noteq> ''security_profile'' \<Longrightarrow> has_section sec (apply_security_profile env defaults s d)"
  unfolding apply_security_profile_def Let_def
  using has_section_dset [of sec d "''security_profile''"] has_section_ddel [of sec d "''security_profile''"] by auto

definition section_shape :: "str \<Rightarrow> doc \<Rightarrow> bool" where
  "section_shape sec d \<longleftrightarrow> (json_true (dval d sec) \<longrightarrow> (\<exists>t. dval d sec = JObj t))"

lemma optional_kept:
  assumes "section_shape sec d" "sec \<noteq> []" "optional_settled env v dflt (read_key d (sec, f))"
  shows "merge_optional_nested_field env d sec f v dflt = Some d"
proof -
  obtain t where t: "(if json_true (dval d sec) then dval d sec else JObj []) = JObj t"
    using assms(1) by (cases "json_true (dval d sec)") (auto simp: section_shape_def)
  have "read_key d (sec, f) = dget t f"
    using t assms(2) by (auto simp: read_key_def section_target_def dval_def split: option.splits json.splits if_splits)
  then have "is_unchanged env (dval_or t f dflt) v"
    using assms(3) by (simp add: optional_settled_def dval_or_def raw_or_def)
  with t show ?thesis by (simp add: merge_optional_nested_field_def)
qed

lemma optional_shape:
  assumes "merge_optional_nested_field env d sec f v dflt = Some d'" "sec \<noteq> []"
  shows "section_shape sec d'"
proof -
  have "section_shape sec d"
    using assms(1) by (auto simp: section_shape_def merge_optional_nested_field_def split: json.splits if_splits)
  with assms(1,2) show ?thesis
    by (cases rule: optional_outcomes) (auto simp: section_shape_def put_target_def assms(2))
qed

definition optional_value :: "env \<Rightarrow> json \<Rightarrow> json \<Rightarrow> json option \<Rightarrow> json option" where
  \<comment> \<open>what a save makes of the raw value of an optional field\<close>
  "optional_value env v dflt raw =
     (if is_unchanged env (raw_or dflt raw) v then raw else if json_eq v dflt then None else Some v)"

lemma optional_own_value:
  assumes "merge_optional_nested_field env d sec f v dflt = Some d'" "sec \<noteq> []"
  shows "read_key d' (sec, f) = optional_value env v dflt (read_key d (sec, f))"
proof -
  obtain t where t: "(if json_true (dval d sec) then dval d sec else JObj []) = JObj t"
    using assms(1) by (auto simp: merge_optional_nested_field_def split: json.splits)
  have rk: "read_key d (sec, f) = dget t f"
    using t assms(2) by (auto simp: read_key_def section_target_def dval_def split: option.splits json.splits if_splits)
  have raw: "dval_or t f dflt = raw_or dflt (dget t f)" by (simp add: dval_or_def raw_or_def)
  show ?thesis
  proof (cases "is_unchanged env (raw_or dflt (dget t f)) v")
    case True
    then have "d' = d" using assms(1) t by (simp add: merge_optional_nested_field_def raw)
    with True rk show ?thesis by (simp add: optional_value_def)
  next
    case False
    have "read_key d' (sec, f) = (if json_eq v dflt then None else Some v)"
      using assms(1,2) t False
      by (auto simp: merge_optional_nested_field_def raw read_key_def section_target_def dval_def dget_Cons
          split: if_splits option.splits json.splits)
    then show ?thesis using False rk by (simp add: optional_value_def)
  qed
qed

lemma optional_value_settled: "optional_ok v dflt \<Longrightarrow> optional_settled env v dflt (optional_value env v dflt raw)"
  using optional_ok_same [of v dflt env] by (auto simp: optional_settled_def optional_value_def optional_ok_def)

lemma optional_own_settled:
  assumes "merge_optional_nested_field env d sec f v dflt = Some d'" "sec \<noteq> []" "optional_ok v dflt"
  shows "optional_settled env v dflt (read_key d' (sec, f))"
  unfolding optional_own_value [OF assms(1,2)] by (rule optional_value_settled [OF assms(3)])

lemma optional_section:
  assumes "merge_optional_nested_field env d sec f v dflt = Some d'" "sec \<noteq> []" "sec' \<noteq> sec" "has_section sec' d"
  shows "has_section sec' d'"
  using assms(1,2) by (cases rule: optional_outcomes)
    (use assms(2-4) in \<open>auto simp: put_target_def intro!: has_section_dset has_section_ddel\<close>)

subsection \<open>The whole document\<close>

definition plain_settings :: "settings \<Rightarrow> bool" where
  \<comment> \<open>no dollar sign in a saved value, one entry for a client id\<close>
  "plain_settings s \<longleftrightarrow>
     list_all (\<lambda>row. plain (os_attr row s) \<and> json_wf (os_attr row s)) owned_settings
     \<and> list_all plain_client (s_clients s) \<and> distinct (map cl_client_id (s_clients s))
     \<and> plain (JStr (s_security_profile s)) \<and> plain (JStr (s_login_mode s))"

definition document_settled :: "env \<Rightarrow> doc \<Rightarrow> settings \<Rightarrow> doc \<Rightarrow> bool" where
  "document_settled env defaults s d \<longleftrightarrow>
     list_all (\<lambda>row. has_section (os_section row) d \<and> row_settled env s row (read_key d (place row))) owned_settings
     \<and> has_section ''oauth'' d
     \<and> clients_value env (s_clients s) (read_key d (''oauth'', ''clients'')) = read_key d (''oauth'', ''clients'')
     \<and> optional_settled env (JStr (s_security_profile s)) (dval defaults ''security_profile'')
         (read_key d ([], ''security_profile''))
     \<and> section_shape ''login'' d
     \<and> optional_settled env (JStr (s_login_mode s)) (dval defaults ''login.mode'') (read_key d (''login'', ''mode''))
     \<and> optional_settled env (JBool (s_auto_login s)) (dval defaults ''login.auto_login'')
         (read_key d (''login'', ''auto_login''))
     \<and> optional_settled env (JBool (s_two_step s)) (dval defaults ''login.two_step'')
         (read_key d (''login'', ''two_step''))"

lemma document_settled_kept:
  assumes "document_settled env defaults s d"
  shows "apply_settings_document env d s defaults = Some d"
proof -
  have login: "''login'' \<noteq> []" by simp
  have "apply_rows env s owned_settings d = Some d"
    using assms by (intro apply_rows_settled) (auto simp: document_settled_def list_all_iff)
  moreover have "apply_clients env (s_clients s) d = Some d"
    using assms by (intro apply_clients_settled) (auto simp: document_settled_def)
  moreover have "apply_security_profile env defaults s d = d"
    using assms by (intro profile_settled) (auto simp: document_settled_def)
  moreover have "merge_optional_nested_field env d ''login'' ''mode''
      (JStr (s_login_mode s)) (dval defaults ''login.mode'') = Some d"
    using assms by (intro optional_kept [OF _ login]) (auto simp: document_settled_def)
  moreover have "merge_optional_nested_field env d ''login'' ''auto_login''
      (JBool (s_auto_login s)) (dval defaults ''login.auto_login'') = Some d"
    using assms by (intro optional_kept [OF _ login]) (auto simp: document_settled_def)
  moreover have "merge_optional_nested_field env d ''login'' ''two_step''
      (JBool (s_two_step s)) (dval defaults ''login.two_step'') = Some d"
    using assms by (intro optional_kept [OF _ login]) (auto simp: document_settled_def)
  ultimately show ?thesis by (simp add: apply_settings_document_def)
qed

lemma fallback_ok:
  assumes "plain_settings s"
  shows "optional_ok (JStr (s_security_profile s)) (dval fallback_defaults ''security_profile'')"
    "optional_ok (JStr (s_login_mode s)) (dval fallback_defaults ''login.mode'')"
    "optional_ok (JBool b) (dval fallback_defaults ''login.auto_login'')"
    "optional_ok (JBool b) (dval fallback_defaults ''login.two_step'')"
  using assms
  by (auto simp: optional_ok_def plain_settings_def fallback_defaults_def dval_def dget_Cons num_eq_def split: if_splits)

lemma row_sections:
  "list_all (\<lambda>row. os_section row \<in> set [[], ''server'', ''oauth'', ''saml'', ''logging'']) owned_settings"
  by code_simp

lemma no_row_is_a_section:
  "list_all (\<lambda>row. os_section row = [] \<longrightarrow> os_key row \<notin> set [''server'', ''oauth'', ''saml'', ''logging'']) owned_settings"
  by code_simp

lemma some_row_has_section:
  "list_all (\<lambda>sec. list_ex (\<lambda>row. os_section row = sec) owned_settings) [''server'', ''oauth'', ''saml'', ''logging'']"
  by code_simp

lemma saved_clients_key:
  assumes "apply_settings_document env d s defaults = Some d'"
  shows "read_key d' (''oauth'', ''clients'') = clients_value env (s_clients s) (read_key d (''oauth'', ''clients''))"
proof -
  let ?login = "''login''" and ?p = "(''oauth'', ''clients'')"
  obtain d1 d2 d3 d4 where st: "apply_rows env s owned_settings d = Some d1"
    "apply_clients env (s_clients s) d1 = Some d2"
    "save_login env ''mode'' (JStr (s_login_mode s)) (dval defaults ''login.mode'')
        (apply_security_profile env defaults s d2) = Some d3"
    "save_login env ''auto_login'' (JBool (s_auto_login s)) (dval defaults ''login.auto_login'') d3 = Some d4"
    "save_login env ''two_step'' (JBool (s_two_step s)) (dval defaults ''login.two_step'') d4 = Some d'"
    by (rule apply_settings_steps [OF assms])
  have login: "?login \<noteq> []" by simp
  have "read_key d1 ?p = read_key d ?p"
    using rows_apart_special by (intro apply_rows_other [OF st(1)]) (auto simp: list_all_iff special_places_def intro: apart_sym)
  moreover have "read_key d' ?p = read_key d2 ?p"
    using optional_other [OF st(5) _ login, of ?p] optional_other [OF st(4) _ login, of ?p]
      optional_other [OF st(3) _ login, of ?p] profile_other [of ?p env defaults s d2]
    by (simp add: apart_def)
  ultimately show ?thesis using apply_clients_own(1) [OF st(2)] by simp
qed

lemma saved_special_keys:
  assumes "apply_settings_document env d s defaults = Some d'"
  shows "read_key d' ([], ''security_profile'') = optional_value env (JStr (s_security_profile s))
      (dval defaults ''security_profile'') (read_key d ([], ''security_profile''))"
    and "read_key d' (''login'', ''mode'') = optional_value env (JStr (s_login_mode s))
      (dval defaults ''login.mode'') (read_key d (''login'', ''mode''))"
    and "read_key d' (''login'', ''auto_login'') = optional_value env (JBool (s_auto_login s))
      (dval defaults ''login.auto_login'') (read_key d (''login'', ''auto_login''))"
    and "read_key d' (''login'', ''two_step'') = optional_value env (JBool (s_two_step s))
      (dval defaults ''login.two_step'') (read_key d (''login'', ''two_step''))"
proof -
  have login: "''login'' \<noteq> []" by simp
  obtain d1 d2 d3 d4 where st: "apply_rows env s owned_settings d = Some d1"
    "apply_clients env (s_clients s) d1 = Some d2"
    "save_login env ''mode'' (JStr (s_login_mode s)) (dval defaults ''login.mode'')
        (apply_security_profile env defaults s d2) = Some d3"
    "save_login env ''auto_login'' (JBool (s_auto_login s)) (dval defaults ''login.auto_login'') d3 = Some d4"
    "save_login env ''two_step'' (JBool (s_two_step s)) (dval defaults ''login.two_step'') d4 = Some d'"
    by (rule apply_settings_steps [OF assms])
  have before: "read_key d2 p = read_key d p" if "p \<in> set (tl special_places)" for p
  proof -
    have "apart p (place row)" if "row \<in> set owned_settings" for row
      using rows_apart_special that \<open>p \<in> set (tl special_places)\<close>
      by (auto simp: list_all_iff special_places_def intro: apart_sym)
    then have "read_key d1 p = read_key d p" by (intro apply_rows_other [OF st(1)]) blast
    moreover have "apart p (''oauth'', ''clients'')"
      using that by (auto simp: special_places_def apart_def)
    ultimately show ?thesis using apply_clients_other [OF st(2)] by simp
  qed
  note other3 = optional_other [OF st(3) _ login] and other4 = optional_other [OF st(4) _ login]
    and other5 = optional_other [OF st(5) _ login]
  have profile: "read_key (apply_security_profile env defaults s d2) (''login'', f) = read_key d2 (''login'', f)" for f
    by (rule profile_other) (simp add: apart_def)
  show "read_key d' ([], ''security_profile'') = optional_value env (JStr (s_security_profile s))
      (dval defaults ''security_profile'') (read_key d ([], ''security_profile''))"
  proof -
    have own: "dget (apply_security_profile env defaults s d2) ''security_profile'' = optional_value env
        (JStr (s_security_profile s)) (dval defaults ''security_profile'') (dget d2 ''security_profile'')"
      using profile_own [of env defaults s d2] unfolding optional_value_def read_top by simp
    show ?thesis
      using other3 [of "([], ''security_profile'')"] other4 [of "([], ''security_profile'')"]
        other5 [of "([], ''security_profile'')"] before [of "([], ''security_profile'')"]
      by (simp add: apart_def special_places_def own read_top)
  qed
  show "read_key d' (''login'', ''mode'') = optional_value env (JStr (s_login_mode s))
      (dval defaults ''login.mode'') (read_key d (''login'', ''mode''))"
    using optional_own_value [OF st(3) login] other4 [of "(''login'', ''mode'')"] other5 [of "(''login'', ''mode'')"]
      before [of "(''login'', ''mode'')"] by (simp add: apart_def special_places_def profile)
  show "read_key d' (''login'', ''auto_login'') = optional_value env (JBool (s_auto_login s))
      (dval defaults ''login.auto_login'') (read_key d (''login'', ''auto_login''))"
    using optional_own_value [OF st(4) login] other3 [of "(''login'', ''auto_login'')"] other5 [of "(''login'', ''auto_login'')"]
      before [of "(''login'', ''auto_login'')"] by (simp add: apart_def special_places_def profile)
  show "read_key d' (''login'', ''two_step'') = optional_value env (JBool (s_two_step s))
      (dval defaults ''login.two_step'') (read_key d (''login'', ''two_step''))"
    using optional_own_value [OF st(5) login] other3 [of "(''login'', ''two_step'')"] other4 [of "(''login'', ''two_step'')"]
      before [of "(''login'', ''two_step'')"] by (simp add: apart_def special_places_def profile)
qed

lemma saved_document_settled:
  assumes "apply_settings_document env d s fallback_defaults = Some d'" "plain_settings s" "json_wf (JObj d)"
  shows "document_settled env fallback_defaults s d'"
proof -
  let ?D = fallback_defaults and ?login = "''login''"
  obtain d1 d2 d3 d4 where st: "apply_rows env s owned_settings d = Some d1"
    "apply_clients env (s_clients s) d1 = Some d2"
    "save_login env ''mode'' (JStr (s_login_mode s)) (dval ?D ''login.mode'')
        (apply_security_profile env ?D s d2) = Some d3"
    "save_login env ''auto_login'' (JBool (s_auto_login s)) (dval ?D ''login.auto_login'') d3 = Some d4"
    "save_login env ''two_step'' (JBool (s_two_step s)) (dval ?D ''login.two_step'') d4 = Some d'"
    by (rule apply_settings_steps [OF assms(1)])
  have login: "?login \<noteq> []" by simp
  have rows: "row_settled env s row (read_key d' (place row))" if row: "row \<in> set owned_settings" for row
    unfolding apply_settings_own [OF assms(1) row] using assms(2) row
    by (intro row_value_settled) (auto simp: plain_settings_def list_all_iff)
  have sections: "has_section sec d'" if sec: "sec \<in> set [[], ''server'', ''oauth'', ''saml'', ''logging'']" for sec
  proof (cases "sec = []")
    case True
    then show ?thesis by (simp add: has_section_def)
  next
    case False
    then have mem: "sec \<in> set [''server'', ''oauth'', ''saml'', ''logging'']" using sec by simp
    have ex: "\<exists>row \<in> set owned_settings. os_section row = sec"
      using some_row_has_section mem unfolding list_all_iff list_ex_iff by blast
    have "\<forall>row \<in> set owned_settings. os_section row = [] \<longrightarrow> os_key row \<noteq> sec"
      using no_row_is_a_section mem unfolding list_all_iff by blast
    then have h1: "has_section sec d1" by (rule apply_rows_section [OF st(1) _ disjI2 [OF ex]])
    have h2: "has_section sec d2"
      using apply_clients_own(2,3) [OF st(2)] h1 by (cases "sec = ''oauth''") auto
    have "sec \<noteq> ''security_profile''" "sec \<noteq> ?login" using mem by auto
    then show ?thesis
      by (intro optional_section [OF st(5) login] optional_section [OF st(4) login] optional_section [OF st(3) login]
        profile_section [OF h2])
  qed
  have clients: "clients_value env (s_clients s) (read_key d' (''oauth'', ''clients'')) = read_key d' (''oauth'', ''clients'')"
  proof -
    have "pred_option json_wf (read_key d (''oauth'', ''clients''))" by (rule wf_read_key [OF assms(3)])
    then show ?thesis unfolding saved_clients_key [OF assms(1)]
      using assms(2) by (intro clients_value_settled) (auto simp: plain_settings_def)
  qed
  note special = saved_special_keys [OF assms(1)] and ok = fallback_ok [OF assms(2)]
  show ?thesis
    unfolding document_settled_def
    using rows sections row_sections clients optional_shape [OF st(5) login]
    by (simp add: list_all_iff special optional_value_settled ok)
qed

end
