(* ===== verification/Config_Round_Trip.thy ===== *)
theory Config_Round_Trip
  imports Unknown_Keys Save_Again
begin

text \<open>
  What is saved is what is loaded: users, clients and settings written by \<open>Serialization\<close> and read
  back by \<open>Config_Loading\<close>, with the placeholders expanded in between.
\<close>

subsection \<open>Values of fields\<close>

lemma item_strs:
  "item_errors as_str i (map JStr xs) = []" "item_values as_str (map JStr xs) = xs"
  by (induction xs arbitrary: i) simp_all

lemma as_strs_jstrs [simp]: "as_list as_str (jstrs xs) = Inr xs"
  by (simp add: jstrs_def item_strs)

lemma as_opt_strs_jstrs [simp]: "as_opt_strs (jstrs xs) = Inr (Some xs)"
  by (simp add: jstrs_def item_strs)

lemma as_opt_str_jopt [simp]: "as_opt_str (jopt x) = Inr x"
  by (simp add: jopt_def split: option.split)

lemma entry_any [simp]: "entry_errors as_any d = []" "entry_values as_any d = d"
  by (induction d) (auto simp: as_any_def)

lemma as_dict_any [simp]: "as_dict as_any (JObj d) = Inr d"
  by (simp add: entry_any)

lemma entry_strs:
  "entry_errors as_str (map (\<lambda>(k, v). (k, JStr v)) d) = []"
  "entry_values as_str (map (\<lambda>(k, v). (k, JStr v)) d) = d"
  by (induction d) auto

subsection \<open>Users\<close>

definition user_reloaded :: "user \<Rightarrow> user" where
  \<comment> \<open>the user a saved entry stands for: the loader's defaults fill in what the entry leaves out\<close>
  "user_reloaded u = u\<lparr>u_roles := (if u_roles u = [] then [''USER''] else u_roles u),
     u_tenant := (if u_tenant u = [] then ''default'' else u_tenant u),
     u_identity_class := none_if_blank (u_identity_class u)\<rparr>"

definition valid_user :: "user \<Rightarrow> bool" where
  "valid_user u \<longleftrightarrow> user_problems (u_username u) (u_password u) (u_description u) (Some (u_email u)) = []"

definition as_user_entry :: "user_entry conv" where
  "as_user_entry = as_model user_errors user_value"

lemma user_to_yaml_get:
  "dget (user_to_yaml u) ''password'' = (if u_password u \<noteq> None then Some (jopt (u_password u)) else None)"
  "dget (user_to_yaml u) ''description'' = (if u_description u \<noteq> [] then Some (JStr (u_description u)) else None)"
  "dget (user_to_yaml u) ''email'' = Some (JStr (u_email u))"
  "dget (user_to_yaml u) ''identity_class'' =
     (if opt_true (u_identity_class u) then Some (jopt (u_identity_class u)) else None)"
  "dget (user_to_yaml u) ''entitlements'' = (if u_entitlements u \<noteq> [] then Some (jstrs (u_entitlements u)) else None)"
  "dget (user_to_yaml u) ''roles'' = (if u_roles u \<noteq> [] then Some (jstrs (u_roles u)) else None)"
  "dget (user_to_yaml u) ''groups'' = (if u_groups u \<noteq> [] then Some (jstrs (u_groups u)) else None)"
  "dget (user_to_yaml u) ''tenant'' =
     (if u_tenant u \<noteq> [] \<and> u_tenant u \<noteq> ''default'' then Some (JStr (u_tenant u)) else None)"
  "dget (user_to_yaml u) ''source_acl'' = (if u_source_acl u \<noteq> [] then Some (jstrs (u_source_acl u)) else None)"
  "dget (user_to_yaml u) ''attributes'' = (if u_attributes u \<noteq> [] then Some (JObj (u_attributes u)) else None)"
  unfolding user_to_yaml_def dget_append dget_opt dget_one by simp_all

lemma user_to_yaml_known: "filter (\<lambda>(k, v). k \<notin> set user_known_fields) (user_to_yaml u) = []"
proof -
  have "filter (\<lambda>(k, v). k \<notin> set user_known_fields) (if b then [(k, v)] else []) = []"
    if "k \<in> set user_known_fields" for b k and v :: json using that by simp
  then show ?thesis unfolding user_to_yaml_def filter_append by (simp add: user_known_fields_def)
qed

lemma user_entry_loads_back:
  assumes "valid_user u"
  shows "as_user_entry (JObj (user_to_yaml u)) = Inr (user_value (user_to_yaml u))"
    and "to_user (user_value (user_to_yaml u)) (u_username u) = Inr (user_reloaded u)"
proof -
  have "user_errors (user_to_yaml u) = []"
    unfolding user_errors_def field_errors_def user_to_yaml_get by simp
  then show "as_user_entry (JObj (user_to_yaml u)) = Inr (user_value (user_to_yaml u))"
    by (simp add: as_user_entry_def)
  have v: "user_value (user_to_yaml u) =
    \<lparr>ue_password = u_password u, ue_description = u_description u, ue_email = Some (u_email u), ue_email_set = True,
     ue_identity_class = none_if_blank (u_identity_class u), ue_entitlements = u_entitlements u,
     ue_roles = (if u_roles u = [] then [''USER''] else u_roles u), ue_groups = u_groups u,
     ue_tenant = (if u_tenant u = [] then ''default'' else u_tenant u), ue_source_acl = u_source_acl u,
     ue_attributes = u_attributes u, ue_extra = []\<rparr>"
    unfolding user_value_def field_value_def dhas_def user_to_yaml_get user_to_yaml_known
    by (simp add: none_if_blank_def)
  show "to_user (user_value (user_to_yaml u)) (u_username u) = Inr (user_reloaded u)"
    using assms unfolding v valid_user_def to_user_def Let_def
    by (simp add: user_reloaded_def)
qed

definition load_users :: "pydantic \<Rightarrow> env \<Rightarrow> bool \<Rightarrow> doc \<Rightarrow> load_error + (str, user) dict \<times> str" where
  \<comment> \<open>the lines of \<open>_stage_directory\<close> that read the parsed \<open>users.yaml\<close>\<close>
  "load_users V env strict data = andthen (load_users_document V strict (expand_fields env data)) to_users"

lemma load_users_cases:
  "load_users_document V strict d =
     (case users_errors V d of
        p # _ \<Rightarrow> Inl (InvalidValue p)
      | [] \<Rightarrow> if strict \<and> extras users_keys d \<noteq> [] then Inl (UnknownKey (hd (extras users_keys d)))
              else Inr (users_value d))"
proof (cases "users_errors V d")
  case Nil
  have only: "users_errors V (only users_keys d) = users_errors V d" "users_value (only users_keys d) = users_value d"
    by (simp_all add: users_errors_def users_value_def users_keys_def)
  show ?thesis
  proof (cases "extras users_keys d")
    case Nil
    with \<open>users_errors V d = []\<close> show ?thesis by (simp add: load_users_document_def numeral_2_eq_2)
  next
    case (Cons p ps)
    have drop: "fold drop_path ps (drop_path p (JObj d)) = JObj (only users_keys d)"
      using drop_extras [of users_keys d] by (simp add: Cons)
    show ?thesis
      using \<open>users_errors V d = []\<close>
      by (simp add: load_users_document_def numeral_2_eq_2 Cons drop only)
  qed
qed (simp add: load_users_document_def numeral_2_eq_2)

lemma saved_users_entries:
  assumes "\<forall>(n, u) \<in> set users. n = u_username u \<and> valid_user u"
  shows "entry_errors as_user_entry (map (\<lambda>(n, u). (n, JObj (user_to_yaml u))) users) = []"
    and "each (\<lambda>(name, e). andthen (to_user e name) (\<lambda>u. Inr (name, u)))
      (entry_values as_user_entry (map (\<lambda>(n, u). (n, JObj (user_to_yaml u))) users)) =
      (Inr (map (\<lambda>(n, u). (n, user_reloaded u)) users) :: load_error + (str, user) dict)"
  using assms by (induction users) (auto simp: user_entry_loads_back)

lemma plain_users_expand:
  "list_all (\<lambda>(n, u). plain (JObj (user_to_yaml u))) users \<Longrightarrow>
    expand_env_vars env (JObj (map (\<lambda>(n, u). (n, JObj (user_to_yaml u))) users)) =
    JObj (map (\<lambda>(n, u). (n, JObj (user_to_yaml u))) users)"
  by (rule expand_plain(1)) (auto simp: list_all_iff)

subsection \<open>Clients\<close>

lemma dget_expand: "dget (expand_fields env d) k = map_option (expand_env_vars env) (dget d k)"
  by (induction d) (auto simp: dget_Cons)

definition written :: "doc \<Rightarrow> doc \<Rightarrow> str \<times> json \<times> bool \<Rightarrow> bool" where
  \<comment> \<open>how a field of a client stands in the expanded entry: left out, kept as it was, or written\<close>
  "written old e f = (case f of (k, v, keep) \<Rightarrow>
     (case dget e k of
        None \<Rightarrow> v = JNull \<or> \<not> keep
      | Some w \<Rightarrow> (w = v \<and> (keep \<or> v \<noteq> JNull)) \<or> (dget old k = Some w \<and> json_eq (coerce_like w v) v)))"

lemma merged_written:
  assumes "(k, v, keep) \<in> set (client_fields c)" "plain_client c"
  shows "written (expand_fields env raw) (expand_fields env (merge_client_entry env raw c)) (k, v, keep)"
proof -
  have v: "expand_env_vars env v = v"
    using assms by (intro expand_plain(1)) (auto simp: plain_client_def list_all_iff)
  show ?thesis
  proof (cases "is_unchanged env (dval raw k) v")
    case True
    then have "json_eq (coerce_like (expand_env_vars env (dval raw k)) v) v" by (simp add: is_unchanged_def)
    moreover have "json_eq (coerce_like JNull v) v \<Longrightarrow> v = JNull" by (cases v) auto
    ultimately show ?thesis
      using merge_client_entry_get [OF assms(1), of env raw] True
      by (auto simp: written_def dget_expand dval_def split: option.split)
  next
    case False
    then show ?thesis
      using merge_client_entry_get [OF assms(1), of env raw] v
      by (simp add: written_def dget_expand)
  qed
qed

lemma new_written:
  assumes "(k, v, keep) \<in> set (client_fields c)" "plain_client c"
  shows "written old (expand_fields env (client_to_yaml c)) (k, v, keep)"
proof -
  have "expand_env_vars env v = v"
    using assms by (intro expand_plain(1)) (auto simp: plain_client_def list_all_iff)
  moreover have "dget (client_to_yaml c) k = (if keep \<or> k = ''client_id'' then Some v else None)"
    using client_to_yaml_get [of c] assms(1) by (auto simp: list_all_iff)
  moreover have "k = ''client_id'' \<Longrightarrow> v \<noteq> JNull"
    using assms(1) by (auto simp: client_fields_def text_fields_def default_fields_def list_fields_def)
  ultimately show ?thesis by (auto simp: written_def dget_expand)
qed

lemma json_eq_JNull: "json_eq w JNull \<longleftrightarrow> w = JNull"
  by (cases w) auto

lemma coerce_strs: "json_eq (coerce_like w (jstrs xs)) (jstrs xs) \<longleftrightarrow> w = jstrs xs"
proof -
  have "jsons_eq ws (map JStr xs) \<longleftrightarrow> ws = map JStr xs" for ws
  proof (induction xs arbitrary: ws)
    case Nil
    then show ?case by (cases ws) auto
  next
    case (Cons x xs)
    then show ?case by (cases ws) (auto simp: json_eq_str)
  qed
  then show ?thesis by (cases w) (auto simp: jstrs_def)
qed

lemma written_str:
  "written old e (k, JStr s, keep) \<Longrightarrow> field_errors as_str e k = []"
  "written old e (k, JStr s, keep) \<Longrightarrow> field_value as_str dflt e k = (if dget e k = None then dflt else s)"
  "written old e (k, JStr s, keep) \<Longrightarrow> dget e k = None \<Longrightarrow> \<not> keep"
  by (auto simp: written_def json_eq_str field_errors_def field_value_def split: option.splits)

lemma written_literal:
  "written old e (k, JStr s, keep) \<Longrightarrow> s \<in> set values \<Longrightarrow> field_errors (as_literal values) e k = []"
  "written old e (k, JStr s, keep) \<Longrightarrow> s \<in> set values \<Longrightarrow>
    field_value (as_literal values) dflt e k = (if dget e k = None then dflt else s)"
  by (auto simp: written_def json_eq_str field_errors_def field_value_def as_literal_def split: option.splits)

lemma written_opt_str:
  "written old e (k, jopt x, keep) \<Longrightarrow> field_errors as_opt_str e k = []"
  "written old e (k, jopt x, keep) \<Longrightarrow> keep = opt_true x \<Longrightarrow> x \<noteq> Some [] \<Longrightarrow> field_value as_opt_str None e k = x"
  by (auto simp: written_def jopt_def json_eq_str json_eq_JNull field_errors_def field_value_def split: option.splits)

lemma jstrs_not_null: "jstrs xs \<noteq> JNull"
  by (simp add: jstrs_def)

lemma written_strs:
  assumes "written old e (k, jstrs xs, xs \<noteq> [])" "[] \<notin> set xs"
  shows "coerce_client_str_list (field_value as_any JNull e k) i f = Inr xs"
proof -
  have "(dget e k = None \<and> xs = []) \<or> dget e k = Some (jstrs xs)"
    using assms(1) unfolding written_def by (auto simp: coerce_strs jstrs_not_null split: option.splits)
  moreover have "coerce_client_str_list (jstrs xs) i f = Inr xs"
    using assms(2) by (auto simp: coerce_client_str_list_def jstrs_def Let_def list_all_iff comp_def filter_id_conv)
  moreover have "coerce_client_str_list JNull i f = Inr []"
    by (simp add: coerce_client_str_list_def Let_def)
  ultimately show ?thesis by (auto simp: field_value_def as_any_def)
qed

subsubsection \<open>Booleans as pydantic reads them\<close>

definition writer_true :: "str \<Rightarrow> bool" where
  "writer_true s \<longleftrightarrow> py_lower (py_strip s) \<in> set [''true'', ''1'', ''yes'', ''on'']"

definition bool_word :: "json \<Rightarrow> bool \<Rightarrow> bool" where
  \<comment> \<open>the values pydantic documents as booleans: 0 and 1, and words; of these only \<open>t\<close> and \<open>y\<close> are
      unknown to the writer\<close>
  "bool_word w b \<longleftrightarrow>
     (case w of JBool c \<Rightarrow> b = c | JInt i \<Rightarrow> i = (if b then 1 else 0)
      | JDec m e \<Rightarrow> num_eq (m, e) (if b then 1 else 0, 0)
      | JStr s \<Rightarrow> py_lower s \<in> set [''t'', ''y''] \<or> b = writer_true s
      | _ \<Rightarrow> False)"

definition pydantic_bools :: "pydantic \<Rightarrow> bool" where
  "pydantic_bools V \<longleftrightarrow>
     (\<forall>b. pd_bool V (JBool b) = Some b) \<and> (\<forall>w b. pd_bool V w = Some b \<longrightarrow> bool_word w b)"

definition clear_bool :: "json \<Rightarrow> bool" where
  \<comment> \<open>not one of the two words on which the loader and the writer differ\<close>
  "clear_bool w \<longleftrightarrow> (case w of JStr s \<Rightarrow> py_lower s \<notin> set [''t'', ''y''] | _ \<Rightarrow> True)"

lemma bool_word_agrees:
  assumes "bool_word w c" "clear_bool w" "json_eq (coerce_like w (JBool b)) (JBool b)"
  shows "c = b"
  using assms
  by (cases w; cases b; cases c) (auto simp: bool_word_def clear_bool_def writer_true_def num_eq_def)

lemma written_bool:
  assumes "written old e (k, JBool b, keep)" "pydantic_bools V" "pred_option clear_bool (dget old k)"
    "field_errors (of_opt (pd_bool V)) old k = []" "dget e k = None \<Longrightarrow> dflt = b"
  shows "field_errors (of_opt (pd_bool V)) e k = []" "field_value (of_opt (pd_bool V)) dflt e k = b"
proof -
  have "dget e k = None \<or> (\<exists>w. dget e k = Some w \<and> pd_bool V w = Some b)"
  proof (cases "dget e k")
    case (Some w)
    have "pd_bool V w = Some b" if w: "dget old k = Some w" "json_eq (coerce_like w (JBool b)) (JBool b)"
    proof -
      obtain c where c: "pd_bool V w = Some c"
        using assms(4) w(1) by (cases "pd_bool V w") (auto simp: field_errors_def of_opt_def)
      have "bool_word w c" "clear_bool w" using assms(2,3) c w(1) by (auto simp: pydantic_bools_def)
      then have "c = b" using w(2) by (rule bool_word_agrees)
      with c show ?thesis by simp
    qed
    then show ?thesis
      using assms(1,2) Some by (auto simp: written_def pydantic_bools_def)
  qed simp
  then show "field_errors (of_opt (pd_bool V)) e k = []" "field_value (of_opt (pd_bool V)) dflt e k = b"
    using assms(5) by (auto simp: field_errors_def field_value_def of_opt_def)
qed

subsubsection \<open>An entry\<close>

definition savable_client :: "oauth_client \<Rightarrow> bool" where
  \<comment> \<open>a valid client, with no dollar sign and no blank list items\<close>
  "savable_client c \<longleftrightarrow> valid_client c \<and> plain_client c \<and>
     [] \<notin> set (cl_additional_audiences c) \<and> [] \<notin> set (cl_redirect_uris c)
     \<and> [] \<notin> set (cl_allowed_scopes c) \<and> [] \<notin> set (cl_allowed_resources c)"

definition client_bools_clear :: "doc \<Rightarrow> bool" where
  "client_bools_clear d \<longleftrightarrow>
     pred_option clear_bool (dget d ''show_client_id'') \<and> pred_option clear_bool (dget d ''show_description'')"

lemma auth_method_str_of [simp]: "auth_method_of (auth_method_str m) = m"
  by (cases m) simp_all

lemma client_errors_bools:
  "client_errors V d = [] \<Longrightarrow> field_errors (of_opt (pd_bool V)) d ''show_client_id'' = []"
  "client_errors V d = [] \<Longrightarrow> field_errors (of_opt (pd_bool V)) d ''show_description'' = []"
  by (simp_all add: client_errors_def)

lemma written_client:
  assumes "\<And>f. f \<in> set (client_fields c) \<Longrightarrow> written old e f" "savable_client c" "pydantic_bools V"
    "client_errors V old = []" "client_bools_clear old"
  shows "client_errors V e = []" "to_client (client_value V e) = Inr c"
proof -
  note cl = assms(2) [unfolded savable_client_def valid_client_def]
  have vert: "cl_layout c \<in> set [''vertical'', ''horizontal'']" using cl by simp
  have meth: "auth_method_str (cl_auth_method c) \<in> set [''client_secret_basic'', ''client_secret_post'', ''none'']"
    by (cases "cl_auth_method c") simp_all
  have id: "written old e (''client_id'', JStr (cl_client_id c), cl_client_id c \<noteq> [])"
    and sec: "written old e (''client_secret'', jopt (cl_client_secret c), cl_client_secret c \<noteq> None)"
    and desc: "written old e (''description'', JStr (cl_description c), True)"
    and bg: "written old e (''background_color'', jopt (cl_background_color c), opt_true (cl_background_color c))"
    and hd: "written old e (''header_color'', jopt (cl_header_color c), opt_true (cl_header_color c))"
    and ft: "written old e (''footer_color'', jopt (cl_footer_color c), opt_true (cl_footer_color c))"
    and am: "written old e (''token_endpoint_auth_method'', JStr (auth_method_str (cl_auth_method c)),
      cl_auth_method c \<noteq> ClientSecretBasic)"
    and lay: "written old e (''layout'', JStr (cl_layout c), cl_layout c \<noteq> ''vertical'')"
    and sid: "written old e (''show_client_id'', JBool (cl_show_client_id c), \<not> cl_show_client_id c)"
    and sd: "written old e (''show_description'', JBool (cl_show_description c), cl_show_description c)"
    and aud: "written old e (''additional_audiences'', jstrs (cl_additional_audiences c), cl_additional_audiences c \<noteq> [])"
    and uris: "written old e (''redirect_uris'', jstrs (cl_redirect_uris c), cl_redirect_uris c \<noteq> [])"
    and sc: "written old e (''allowed_scopes'', jstrs (cl_allowed_scopes c), cl_allowed_scopes c \<noteq> [])"
    and res: "written old e (''allowed_resources'', jstrs (cl_allowed_resources c), cl_allowed_resources c \<noteq> [])"
    by (rule assms(1); simp add: client_fields_def text_fields_def default_fields_def list_fields_def)+
  have secret: "field_errors as_str e ''client_secret'' = []"
    "or_none (field_value as_str [] e ''client_secret'') = cl_client_secret c"
  proof -
    have old: "dget old ''client_secret'' \<noteq> Some JNull"
      using assms(4) by (auto simp: client_errors_def field_errors_def)
    show "field_errors as_str e ''client_secret'' = []"
      "or_none (field_value as_str [] e ''client_secret'') = cl_client_secret c"
      using sec cl old unfolding written_def
      by (auto simp: jopt_def json_eq_str json_eq_JNull field_errors_def field_value_def or_none_def split: option.splits)
  qed
  have bools: "field_errors (of_opt (pd_bool V)) e ''show_client_id'' = []"
    "field_value (of_opt (pd_bool V)) True e ''show_client_id'' = cl_show_client_id c"
    "field_errors (of_opt (pd_bool V)) e ''show_description'' = []"
    "field_value (of_opt (pd_bool V)) False e ''show_description'' = cl_show_description c"
    using written_bool [OF sid assms(3) _ client_errors_bools(1) [OF assms(4)], of True]
      written_bool [OF sd assms(3) _ client_errors_bools(2) [OF assms(4)], of False] assms(5) sid sd
    by (auto simp: client_bools_clear_def written_def split: option.splits)
  show "client_errors V e = []"
    unfolding client_errors_def as_auth_method_def as_layout_def
    using written_str(1) [OF id] secret written_literal(1) [OF am meth] written_literal(1) [OF lay vert]
      written_str(1) [OF desc] written_opt_str(1) [OF bg] written_opt_str(1) [OF hd] written_opt_str(1) [OF ft] bools
    by simp
  have opt: "cl_background_color c \<noteq> Some []" "cl_header_color c \<noteq> Some []" "cl_footer_color c \<noteq> Some []"
    using cl by (auto simp: is_hex_color_def)
  have texts: "field_value as_str [] e ''client_id'' = cl_client_id c"
    "field_value as_str [] e ''description'' = cl_description c"
    "field_value as_auth_method ''client_secret_basic'' e ''token_endpoint_auth_method'' = auth_method_str (cl_auth_method c)"
    "field_value as_layout ''vertical'' e ''layout'' = cl_layout c"
    using written_str(2) [OF id, of "[]"] written_str(3) [OF id] written_str(2) [OF desc, of "[]"] written_str(3) [OF desc]
      written_literal(2) [OF am meth, of "''client_secret_basic''"] written_str(3) [OF am]
      written_literal(2) [OF lay vert, of "''vertical''"] written_str(3) [OF lay]
    by (auto simp: as_auth_method_def as_layout_def)
  have "to_client (client_value V e) = (if valid_client c then Inr c else Inl (InvalidClient (cl_client_id c)))"
    unfolding to_client_def client_value_def client_entry.simps texts secret bools
      written_opt_str(2) [OF bg refl opt(1)] written_opt_str(2) [OF hd refl opt(2)] written_opt_str(2) [OF ft refl opt(3)]
    using written_strs [OF aud] written_strs [OF uris] written_strs [OF sc] written_strs [OF res] cl
    by (cases c) (simp add: Let_def del: auth_method_of.simps)
  then show "to_client (client_value V e) = Inr c" using assms(2) by (simp add: savable_client_def)
qed

end
