(* ===== verification/Saved_Clients.thy ===== *)
theory Saved_Clients
  imports Config_Round_Trip
begin

text \<open>
  The client list of a save, loaded again: every client comes back as it was, whether its entry is
  new, merged into an entry of the file, or the list of the file is kept because it is equal.
\<close>

subsection \<open>The client list\<close>

definition entries_ok :: "pydantic \<Rightarrow> env \<Rightarrow> json \<Rightarrow> bool" where
  \<comment> \<open>a raw client list that the loader accepts, with clear booleans\<close>
  "entries_ok V env raw \<longleftrightarrow> (case raw of
     JList xs \<Rightarrow> list_all (\<lambda>x. case x of
         JObj d \<Rightarrow> client_errors V (expand_fields env d) = [] \<and> client_bools_clear (expand_fields env d)
       | _ \<Rightarrow> False) xs
   | _ \<Rightarrow> False)"

lemma entry_of_written:
  assumes "savable_client c" "entries_ok V env raw"
  obtains old where "\<And>f. f \<in> set (client_fields c) \<Longrightarrow> written old (expand_fields env (entry_of env raw c)) f"
    "client_errors V old = []" "client_bools_clear old"
proof (cases "find (\<lambda>r. client_id_matches env (JObj r) (cl_client_id c)) (raw_client_entries raw)")
  case None
  have "client_errors V [] = []" "client_bools_clear []"
    by (simp_all add: client_errors_def field_errors_def client_bools_clear_def)
  moreover have "entry_of env raw c = client_to_yaml c" using None by (simp add: entry_of_def)
  ultimately show thesis
    using new_written [of _ _ _ c "[]" env] assms(1) that [of "[]"] by (auto simp: savable_client_def)
next
  case (Some r)
  then have "r \<in> set (raw_client_entries raw)" by (auto simp: find_Some_iff)
  then have "client_errors V (expand_fields env r) = [] \<and> client_bools_clear (expand_fields env r)"
    using assms(2) by (cases raw) (auto simp: entries_ok_def list_all_iff split: json.splits)
  moreover have "entry_of env raw c = merge_client_entry env r c" using Some by (rule entry_of_found)
  ultimately show thesis
    using merged_written [of _ _ _ c env r] assms(1) that [of "expand_fields env r"] by (auto simp: savable_client_def)
qed

lemma expand_object: "expand_env_vars env (JObj d) = JObj (expand_fields env d)"
  by simp

lemma loaded_entries:
  assumes "list_all2 (\<lambda>c x. \<exists>d. x = JObj d \<and> client_errors V (expand_fields env d) = []
      \<and> to_client (client_value V (expand_fields env d)) = Inr c) cs xs"
  shows "item_errors (as_client V) i (expand_list env xs) = []"
    and "each to_client (item_values (as_client V) (expand_list env xs)) = Inr cs"
  using assms by (induction arbitrary: i rule: list_all2_induct) (auto simp: as_client_def)

lemma new_entries_load:
  assumes "list_all savable_client cs" "entries_ok V env raw" "pydantic_bools V"
  shows "list_all2 (\<lambda>c x. \<exists>d. x = JObj d \<and> client_errors V (expand_fields env d) = []
      \<and> to_client (client_value V (expand_fields env d)) = Inr c) cs (map (\<lambda>c. JObj (entry_of env raw c)) cs)"
proof -
  have "client_errors V (expand_fields env (entry_of env raw c)) = []
      \<and> to_client (client_value V (expand_fields env (entry_of env raw c))) = Inr c" if "c \<in> set cs" for c
  proof -
    have c: "savable_client c" using that assms(1) by (simp add: list_all_iff)
    obtain old where "\<And>f. f \<in> set (client_fields c) \<Longrightarrow> written old (expand_fields env (entry_of env raw c)) f"
      "client_errors V old = []" "client_bools_clear old"
      using entry_of_written [OF c assms(2)] by blast
    then show ?thesis using written_client [OF _ c assms(3)] by blast
  qed
  then show ?thesis by (auto simp: list_all2_conv_all_nth)
qed

subsection \<open>A list that is equal but not rewritten\<close>

lemma num_eq_trans: "num_eq a b \<Longrightarrow> num_eq b c \<Longrightarrow> num_eq a c"
proof -
  assume a: "num_eq a b" "num_eq b c"
  have "(fst a * 10 ^ snd c) * 10 ^ snd b = (fst c * 10 ^ snd a) * 10 ^ snd b"
    using a unfolding num_eq_def by (metis mult.assoc mult.commute)
  then show ?thesis by (simp add: num_eq_def)
qed

lemma num_eq_sym: "num_eq a b \<Longrightarrow> num_eq b a"
  by (simp add: num_eq_def)

lemma jsons_eq_strs: "jsons_eq xs ys \<Longrightarrow> expand_list env xs = map JStr zs \<Longrightarrow> ys = xs"
proof (induction xs arbitrary: ys zs)
  case (Cons x xs)
  obtain z zs' where z: "zs = z # zs'" "expand_env_vars env x = JStr z" "expand_list env xs = map JStr zs'"
    using Cons.prems(2) by (cases zs) auto
  then obtain t where x: "x = JStr t" by (cases x) auto
  obtain y ys' where y: "ys = y # ys'" "json_eq x y" "jsons_eq xs ys'"
    using Cons.prems(1) by (cases ys) auto
  then show ?case using Cons.IH [OF y(3) z(3)] by (simp add: x json_eq_str)
next
  case Nil
  then show ?case by (cases ys) auto
qed

lemma num_val_bool: "json_eq x (JBool b) \<longleftrightarrow> (\<exists>n. num_val x = Some n \<and> num_eq n (if b then 1 else 0, 0))"
  by (cases x) auto

lemma num_val_eq: "num_val x = Some n \<Longrightarrow> json_eq x w \<Longrightarrow> \<exists>m. num_val w = Some m \<and> num_eq n m"
  by (cases x; cases w) auto

lemma num_val_expand: "num_val x = Some n \<Longrightarrow> expand_env_vars env x = x \<and> coerce_like x v = x"
  by (cases x) auto

definition field_kind :: "json \<Rightarrow> bool" where
  \<comment> \<open>the kinds of value a client field is saved as\<close>
  "field_kind v \<longleftrightarrow> (\<exists>t. v = JStr t) \<or> v = JNull \<or> (\<exists>b. v = JBool b) \<or> (\<exists>zs. v = jstrs zs)"

lemma field_kind_simps [simp]:
  "field_kind (JStr t)" "field_kind (jopt x)" "field_kind (JBool b)" "field_kind (jstrs zs)"
  by (auto simp: field_kind_def jopt_def split: option.split)

lemma client_field_kinds: "(k, v, keep) \<in> set (client_fields c) \<Longrightarrow> field_kind v"
  by (auto simp: client_fields_def text_fields_def default_fields_def list_fields_def)

lemma equal_value_kept:
  assumes "json_eq x w" "(k, v, keep) \<in> set (client_fields c)"
    "json_eq (coerce_like (expand_env_vars env x) v) v"
  shows "json_eq (coerce_like (expand_env_vars env w) v) v"
proof -
  consider (str) t where "v = JStr t" | (null) "v = JNull" | (bool) b where "v = JBool b" | (strs) zs where "v = jstrs zs"
    using client_field_kinds [OF assms(2)] unfolding field_kind_def by blast
  then show ?thesis
  proof cases
    case str
    then obtain t' where "x = JStr t'" using assms(3) by (cases x) (auto simp: json_eq_str)
    then show ?thesis using assms(1,3) by (simp add: json_eq_str)
  next
    case null
    then have "x = JNull" using assms(3) by (cases x) (auto simp: json_eq_JNull)
    moreover then have "w = JNull" using assms(1) by (cases w) auto
    ultimately show ?thesis using assms(3) by simp
  next
    case bool
    show ?thesis
    proof (cases "\<exists>t. x = JStr t")
      case True
      then show ?thesis using assms(1,3) by (auto simp: json_eq_str)
    next
      case False
      then have "json_eq x (JBool b)" using assms(3) bool by (cases x) auto
      then obtain n where n: "num_val x = Some n" "num_eq n (if b then 1 else 0, 0)" unfolding num_val_bool by blast
      obtain m where m: "num_val w = Some m" "num_eq n m" using num_val_eq [OF n(1) assms(1)] by blast
      have "num_eq m (if b then 1 else 0, 0)" using num_eq_trans [OF num_eq_sym [OF m(2)] n(2)] .
      then have "json_eq w (JBool b)" using m(1) by (auto simp: num_val_bool)
      then show ?thesis using num_val_expand [OF m(1), of env v] bool by simp
    qed
  next
    case strs
    have "expand_env_vars env x = jstrs zs" using assms(3) unfolding strs coerce_strs .
    then obtain xs where x: "x = JList xs" "expand_list env xs = map JStr zs" by (cases x) (auto simp: jstrs_def)
    obtain ys where w: "w = JList ys" "jsons_eq xs ys" using assms(1) by (cases w) (auto simp: x(1))
    have "ys = xs" using jsons_eq_strs [OF w(2) x(2)] .
    with w(1) x(1) assms(3) show ?thesis by simp
  qed
qed

lemma fields_in_get: "fields_in d e \<Longrightarrow> dict_wf d \<Longrightarrow> dget d k = Some v \<Longrightarrow> \<exists>w. dget e k = Some w \<and> json_eq v w"
proof (induction d)
  case (Cons f d)
  obtain k' v' where f: "f = (k', v')" by (cases f)
  show ?case
  proof (cases "k = k'")
    case True
    then show ?thesis using Cons.prems by (auto simp: f dget_Cons split: option.splits)
  next
    case False
    then show ?thesis using Cons by (auto simp: f dget_Cons dict_wf_def)
  qed
qed simp

lemma dget_dom: "dget d k \<noteq> None \<longleftrightarrow> k \<in> fst ` set d"
  unfolding dget_def map_of_eq_None_iff by simp

lemma equal_objects:
  assumes "json_eq (JObj d) (JObj e)" "json_wf (JObj d)"
  shows "rel_option json_eq (dget d k) (dget e k)"
proof -
  have len: "length d = length e" and sub: "fields_in d e" and wf: "dict_wf d"
    using assms by (simp_all add: dict_wf_def)
  have "fst ` set d \<subseteq> fst ` set e"
    using fields_in_get [OF sub wf] dget_dom [of d] dget_dom [of e] by (metis option.distinct(1) option.exhaust subsetI)
  moreover have "card (fst ` set e) \<le> length e"
    by (metis card_length length_map list.set_map)
  moreover have "card (fst ` set d) = length d"
    using wf by (metis dict_wf_def distinct_card length_map list.set_map)
  ultimately have "fst ` set d = fst ` set e"
    using len by (intro card_seteq) auto
  then show ?thesis
    using fields_in_get [OF sub wf, of k] dget_dom [of d k] dget_dom [of e k]
    by (cases "dget d k"; cases "dget e k") auto
qed

lemma equal_entry_written:
  assumes "json_eq (JObj d) (JObj r)" "json_wf (JObj d)" "f \<in> set (client_fields c)" "field_settled env d f"
    "written old (expand_fields env d) f"
  shows "written (expand_fields env r) (expand_fields env r) f"
proof -
  obtain k v keep where f: "f = (k, v, keep)" by (cases f)
  have eq: "rel_option json_eq (dget d k) (dget r k)" using assms(1,2) by (rule equal_objects)
  show ?thesis
  proof (cases "dget r k")
    case None
    then have "dget d k = None" using eq by (cases "dget d k") auto
    then show ?thesis using assms(5) None by (simp add: f written_def dget_expand)
  next
    case (Some w)
    then obtain x where x: "dget d k = Some x" "json_eq x w" using eq by (cases "dget d k") auto
    have "json_eq (coerce_like (expand_env_vars env x) v) v"
      using assms(4) x(1) by (simp add: f field_settled_def dval_def is_unchanged_def)
    then have kept: "json_eq (coerce_like (expand_env_vars env w) v) v"
      by (rule equal_value_kept [OF x(2) assms(3) [unfolded f]])
    show ?thesis unfolding f written_def prod.case dget_expand Some option.map option.case
      by (intro disjI2 conjI refl kept)
  qed
qed

lemma kept_entries_load:
  assumes "list_all savable_client cs" "entries_ok V env raw" "pydantic_bools V" "json_wf raw"
    "raw = JList ys" "jsons_eq (map (\<lambda>c. JObj (entry_of env raw c)) cs) ys"
  shows "list_all2 (\<lambda>c x. \<exists>d. x = JObj d \<and> client_errors V (expand_fields env d) = []
      \<and> to_client (client_value V (expand_fields env d)) = Inr c) cs ys"
proof -
  have one: "\<exists>d. y = JObj d \<and> client_errors V (expand_fields env d) = []
      \<and> to_client (client_value V (expand_fields env d)) = Inr c"
    if c: "savable_client c" and y: "y \<in> set ys" and eq: "json_eq (JObj (entry_of env raw c)) y" for c y
  proof -
    obtain r where r: "y = JObj r" using eq by (cases y) auto
    have ok: "client_errors V (expand_fields env r) = []" "client_bools_clear (expand_fields env r)"
      using assms(2,5) y by (auto simp: entries_ok_def list_all_iff r)
    obtain old where "\<And>f. f \<in> set (client_fields c) \<Longrightarrow> written old (expand_fields env (entry_of env raw c)) f"
      using entry_of_written [OF c assms(2)] by blast
    then have "written (expand_fields env r) (expand_fields env r) f" if f: "f \<in> set (client_fields c)" for f
      using entry_of_settled [OF _ f, of env raw] c f
      by (intro equal_entry_written [OF eq [unfolded r] wf_entry_of [OF assms(4)] f, of env old])
         (auto simp: savable_client_def)
    then show ?thesis using written_client [OF _ c assms(3) ok] r by blast
  qed
  have "jsons_eq (map (\<lambda>c. JObj (entry_of env raw c)) cs') zs \<Longrightarrow> list_all savable_client cs' \<Longrightarrow> set zs \<subseteq> set ys \<Longrightarrow>
      list_all2 (\<lambda>c x. \<exists>d. x = JObj d \<and> client_errors V (expand_fields env d) = []
        \<and> to_client (client_value V (expand_fields env d)) = Inr c) cs' zs" for cs' zs
  proof (induction cs' arbitrary: zs)
    case Nil
    then show ?case by (cases zs) auto
  next
    case (Cons c cs')
    obtain z zs' where z: "zs = z # zs'" "json_eq (JObj (entry_of env raw c)) z"
      "jsons_eq (map (\<lambda>c. JObj (entry_of env raw c)) cs') zs'"
      using Cons.prems(1) by (cases zs) auto
    then show ?case using Cons one [of c z] by simp
  qed
  then show ?thesis using assms(1,6) by blast
qed

lemma saved_clients_load:
  assumes "list_all savable_client cs" "pred_option (entries_ok V env) raw" "pydantic_bools V" "pred_option json_wf raw"
  shows "case clients_value env cs raw of
      None \<Rightarrow> cs = []
    | Some v \<Rightarrow> \<exists>xs. v = JList xs \<and> item_errors (as_client V) 0 (expand_list env xs) = []
        \<and> each to_client (item_values (as_client V) (expand_list env xs)) = Inr cs"
proof -
  define cur where "cur = raw_or (JList []) raw"
  have ok: "entries_ok V env cur" "json_wf cur"
    using assms(2,4) by (cases raw; simp add: cur_def entries_ok_def)+
  obtain ys where ys: "cur = JList ys" using ok(1) by (auto simp: entries_ok_def split: json.splits)
  have new: "map JObj (merge_oauth_clients env cur cs) = map (\<lambda>c. JObj (entry_of env cur c)) cs"
    by (simp add: merge_oauth_clients_entries)
  note loaded = loaded_entries [OF new_entries_load [OF assms(1) ok(1) assms(3)]]
  have eq: "json_eq (JList (map JObj (merge_oauth_clients env cur cs))) cur \<longleftrightarrow>
      jsons_eq (map (\<lambda>c. JObj (entry_of env cur c)) cs) ys"
    unfolding new by (simp add: ys)
  show ?thesis
  proof (cases "jsons_eq (map (\<lambda>c. JObj (entry_of env cur c)) cs) ys")
    case True
    have kept: "clients_value env cs raw = raw"
      using True unfolding clients_value_def Let_def cur_def [symmetric] eq by simp
    show ?thesis
    proof (cases raw)
      case None
      then have "ys = []" using ys by (simp add: cur_def)
      then show ?thesis using True kept None by (cases cs) auto
    next
      case (Some v)
      then have v: "v = JList ys" using ys by (simp add: cur_def)
      show ?thesis
        using loaded_entries [OF kept_entries_load [OF assms(1) ok(1) assms(3) ok(2) ys True]] kept Some v by simp
    qed
  next
    case False
    then have "clients_value env cs raw =
        (if merge_oauth_clients env cur cs \<noteq> [] then Some (JList (map (\<lambda>c. JObj (entry_of env cur c)) cs)) else None)"
      unfolding clients_value_def Let_def cur_def [symmetric] eq by (simp add: new)
    then show ?thesis using loaded by (auto simp: merge_oauth_clients_entries)
  qed
qed

end
