(* ===== verification/Settings_Round_Trip.thy ===== *)
theory Settings_Round_Trip
  imports Saved_Clients
begin

text \<open>
  The settings document after a save, loaded again: the settings the save owns come back as they
  were saved, every other setting as the file had it.
\<close>

definition load_settings :: "pydantic \<Rightarrow> env \<Rightarrow> bool \<Rightarrow> doc \<Rightarrow> load_error + settings" where
  \<comment> \<open>the lines of \<open>_stage_directory\<close> that turn the parsed \<open>settings.yaml\<close> into settings\<close>
  "load_settings V env strict data =
     andthen (load_settings_document V strict (expand_fields env data)) (to_settings V env)"

subsection \<open>Sections of an expanded document\<close>

lemma section_target_expand:
  "section_target sec (expand_fields env d) = map_option (expand_fields env) (section_target sec d)"
proof -
  have "(case expand_env_vars env v of JObj e \<Rightarrow> Some e | _ \<Rightarrow> None) =
      map_option (expand_fields env) (case v of JObj e \<Rightarrow> Some e | _ \<Rightarrow> None)" for v
    by (cases v) simp_all
  then show ?thesis
    by (simp add: section_target_def dget_expand split: option.split)
qed

lemma read_key_expand: "read_key (expand_fields env d) p = map_option (expand_env_vars env) (read_key d p)"
  by (simp add: read_key_def section_target_expand dget_expand split: option.split)

lemma model_field:
  assumes "section_target k D = Some e" "k \<noteq> []" "E [] = []"
  shows "field_errors (as_model E W) D k = map ((#) (Key k)) (E e)"
    and "E e = [] \<Longrightarrow> field_value (as_model E W) (W []) D k = W e"
  using assms by (auto simp: section_target_def field_errors_def field_value_def split: option.splits json.splits)

lemma model_field_ok:
  assumes "field_errors (as_model E W) D k = []" "k \<noteq> []" "E [] = []"
  obtains e where "section_target k D = Some e" "E e = []"
proof (cases "dget D k")
  case None
  then show thesis using that [of "[]"] assms by (simp add: section_target_def)
next
  case (Some v)
  then obtain e where "v = JObj e" "E e = []"
    using assms(1) by (cases v) (auto simp: field_errors_def split: if_splits)
  with Some show thesis using that [of e] assms(2) by (simp add: section_target_def)
qed

lemma no_errors_empty:
  "server_errors V [] = []" "oauth_errors V [] = []" "saml_errors V [] = []" "jwt_errors [] = []"
  "session_errors V [] = []" "logging_errors V [] = []" "login_errors V [] = []" "hooks_errors V [] = []"
  by (simp_all add: server_errors_def oauth_errors_def saml_errors_def jwt_errors_def session_errors_def
      logging_errors_def login_errors_def hooks_errors_def field_errors_def)

subsection \<open>A row in the saved document\<close>

lemma row_written:
  assumes "apply_settings_document env d s defaults = Some d'" "row \<in> set owned_settings" "plain (os_attr row s)"
    "section_target (os_section row) d = Some e" "section_target (os_section row) d' = Some e'"
  shows "os_mode row = Plain \<or> (\<exists>a. os_mode row = OmitWhenFalsy a \<and> json_true (os_attr row s))
      \<or> (os_mode row = OmitWhenNone \<and> os_attr row s \<noteq> JNull) \<Longrightarrow>
      written (expand_fields env e) (expand_fields env e') (os_key row, os_attr row s, True)"
    and "os_mode row = OmitWhenFalsy a \<Longrightarrow> \<not> json_true (os_attr row s) \<Longrightarrow>
      dget (expand_fields env e') (os_key row) = None
      \<or> (\<exists>w. dget (expand_fields env e') (os_key row) = Some w \<and> json_eq (coerce_like w a) a)
      \<or> (a = JNull)"
    and "os_mode row = OmitWhenNone \<Longrightarrow> os_attr row s = JNull \<Longrightarrow>
      dget (expand_fields env e') (os_key row) = None"
proof -
  have own: "dget e' (os_key row) = row_value env s row (dget e (os_key row))"
    using apply_settings_own [OF assms(1,2)] assms(4,5) by (simp add: read_key_def place_def)
  have v: "expand_env_vars env (os_attr row s) = os_attr row s" using assms(3) by (rule expand_plain(1))
  have null: "json_eq (coerce_like JNull x) x \<Longrightarrow> x = JNull" for x by (cases x) auto
  have set: "written (expand_fields env e) (expand_fields env e') (os_key row, os_attr row s, True)"
    if "dget e' (os_key row) = (if is_unchanged env (raw_or JNull (dget e (os_key row))) (os_attr row s)
        then dget e (os_key row) else Some (os_attr row s))"
    using that v null [of "os_attr row s"]
    by (cases "dget e (os_key row)") (auto simp: written_def dget_expand is_unchanged_def split: if_splits)
  show "os_mode row = Plain \<or> (\<exists>a. os_mode row = OmitWhenFalsy a \<and> json_true (os_attr row s))
      \<or> (os_mode row = OmitWhenNone \<and> os_attr row s \<noteq> JNull) \<Longrightarrow>
      written (expand_fields env e) (expand_fields env e') (os_key row, os_attr row s, True)"
    by (rule set) (auto simp: own row_value_def Let_def raw_or_def)
  show "os_mode row = OmitWhenFalsy a \<Longrightarrow> \<not> json_true (os_attr row s) \<Longrightarrow>
      dget (expand_fields env e') (os_key row) = None
      \<or> (\<exists>w. dget (expand_fields env e') (os_key row) = Some w \<and> json_eq (coerce_like w a) a) \<or> a = JNull"
    using null [of a]
    by (cases "dget e (os_key row)")
       (auto simp: own row_value_def Let_def dget_expand is_unchanged_def)
  show "os_mode row = OmitWhenNone \<Longrightarrow> os_attr row s = JNull \<Longrightarrow>
      dget (expand_fields env e') (os_key row) = None"
    by (simp add: own row_value_def Let_def dget_expand)
qed

subsection \<open>Fields as the loader reads them\<close>

lemma set_str:
  assumes "written old e (k, JStr x, True)"
  shows "field_errors as_str e k = []" "field_value as_str dflt e k = x"
    "field_errors as_opt_str e k = []" "field_value as_opt_str odflt e k = Some x"
  using assms by (auto simp: written_def json_eq_str field_errors_def field_value_def split: option.splits)

lemma set_strs:
  assumes "written old e (k, jstrs xs, True)"
  shows "field_errors as_opt_strs e k = []" "field_value as_opt_strs dflt e k = Some xs"
    "field_errors (as_list as_str) e k = []" "field_value (as_list as_str) ldflt e k = xs"
proof -
  have "dget e k = Some (jstrs xs)"
    using assms unfolding written_def by (auto simp: coerce_strs jstrs_not_null split: option.splits)
  then show "field_errors as_opt_strs e k = []" "field_value as_opt_strs dflt e k = Some xs"
    "field_errors (as_list as_str) e k = []" "field_value (as_list as_str) ldflt e k = xs"
    by (simp_all add: field_errors_def field_value_def)
qed

lemma omitted_strs:
  assumes "dget e k = None \<or> (\<exists>w. dget e k = Some w \<and> json_eq (coerce_like w (JList [])) (JList [])) \<or> JList [] = JNull"
  shows "field_errors as_opt_strs e k = []" "field_value as_opt_strs None e k \<in> {None, Some []}"
    "field_errors (as_list as_str) e k = []" "field_value (as_list as_str) [] e k = []"
proof -
  have "dget e k = None \<or> dget e k = Some (jstrs [])"
    using assms coerce_strs [of _ "[]"] by (auto simp: jstrs_def)
  then show "field_errors as_opt_strs e k = []" "field_value as_opt_strs None e k \<in> {None, Some []}"
    "field_errors (as_list as_str) e k = []" "field_value (as_list as_str) [] e k = []"
    by (auto simp: field_errors_def field_value_def)
qed

lemma omitted_str:
  assumes "dget e k = None \<or> (\<exists>w. dget e k = Some w \<and> json_eq (coerce_like w (JStr [])) (JStr [])) \<or> JStr [] = JNull"
  shows "field_errors as_opt_str e k = []" "field_value as_opt_str None e k \<in> {None, Some []}"
  using assms by (auto simp: field_errors_def field_value_def json_eq_str)

definition int_word :: "json \<Rightarrow> int \<Rightarrow> bool" where
  \<comment> \<open>the values pydantic documents as integers; of a string only that it means what \<open>int\<close> reads\<close>
  "int_word w i \<longleftrightarrow>
     (case w of JInt j \<Rightarrow> i = j | JBool b \<Rightarrow> i = (if b then 1 else 0) | JDec m e \<Rightarrow> num_eq (m, e) (i, 0)
      | JStr s \<Rightarrow> py_int s \<in> {None, Some i} | _ \<Rightarrow> False)"

definition pydantic_ints :: "pydantic \<Rightarrow> bool" where
  "pydantic_ints V \<longleftrightarrow> (\<forall>i. pd_int V (JInt i) = Some i) \<and> (\<forall>w i. pd_int V w = Some i \<longrightarrow> int_word w i)"

lemma int_word_agrees:
  assumes "int_word w j" "json_eq (coerce_like w (JInt i)) (JInt i)"
  shows "j = i"
proof (cases w)
  case (JDec m e)
  then have "num_eq (m, e) (j, 0)" "num_eq (m, e) (i, 0)" using assms by (auto simp: int_word_def)
  then show ?thesis by (simp add: num_eq_def)
qed (use assms in \<open>auto simp: int_word_def num_eq_def split: option.splits\<close>)

lemma set_int:
  assumes "written old e (k, JInt i, True)" "pydantic_ints V" "field_errors (of_opt (pd_int V)) old k = []"
  shows "field_errors (of_opt (pd_int V)) e k = []" "field_value (of_opt (pd_int V)) dflt e k = i"
proof -
  have "\<exists>w. dget e k = Some w \<and> pd_int V w = Some i"
  proof (cases "dget e k")
    case None
    then show ?thesis using assms(1) by (simp add: written_def)
  next
    case (Some w)
    have "pd_int V w = Some i" if w: "dget old k = Some w" "json_eq (coerce_like w (JInt i)) (JInt i)"
    proof -
      obtain j where j: "pd_int V w = Some j"
        using assms(3) w(1) by (cases "pd_int V w") (auto simp: field_errors_def of_opt_def)
      then have "int_word w j" using assms(2) by (simp add: pydantic_ints_def)
      then have "j = i" using w(2) by (rule int_word_agrees)
      with j show ?thesis by simp
    qed
    then show ?thesis using assms(1,2) Some by (auto simp: written_def pydantic_ints_def)
  qed
  then show "field_errors (of_opt (pd_int V)) e k = []" "field_value (of_opt (pd_int V)) dflt e k = i"
    by (auto simp: field_errors_def field_value_def of_opt_def)
qed

lemma set_bool:
  assumes "written old e (k, JBool b, True)" "pydantic_bools V" "pred_option clear_bool (dget old k)"
    "field_errors (of_opt (pd_bool V)) old k = []"
  shows "field_errors (of_opt (pd_bool V)) e k = []" "field_value (of_opt (pd_bool V)) dflt e k = b"
proof -
  have "dget e k \<noteq> None" using assms(1) by (cases "dget e k") (simp_all add: written_def)
  then show "field_errors (of_opt (pd_bool V)) e k = []" "field_value (of_opt (pd_bool V)) dflt e k = b"
    using written_bool [OF assms, of dflt] by auto
qed

subsection \<open>A save of a loaded document\<close>

definition bool_places :: "(str \<times> str) list" where
  "bool_places =
     [(''server'', ''rate_limit_enabled''), (''oauth'', ''issuer_from_request''), (''oauth'', ''issuer_from_proxy_headers''),
      (''oauth'', ''refresh_token_rotation''), (''oauth'', ''require_pkce''), (''saml'', ''sign_responses''),
      (''saml'', ''export_roles''), (''saml'', ''export_groups''), (''saml'', ''strict_binding''),
      (''saml'', ''want_authn_requests_signed''), (''logging'', ''verbose_logging''), (''login'', ''auto_login''),
      (''login'', ''two_step'')]"

definition bools_clear :: "doc \<Rightarrow> bool" where
  \<comment> \<open>no boolean of the document is one of the words that only the loader knows\<close>
  "bools_clear D \<longleftrightarrow> list_all (\<lambda>p. pred_option clear_bool (read_key D p)) bool_places
     \<and> (case read_key D (''oauth'', ''clients'') of
          Some (JList xs) \<Rightarrow> list_all (\<lambda>x. case x of JObj e \<Rightarrow> client_bools_clear e | _ \<Rightarrow> True) xs
        | _ \<Rightarrow> True)"

definition savable_settings :: "pydantic \<Rightarrow> settings \<Rightarrow> bool" where
  \<comment> \<open>valid settings in the normal form of their validators, without placeholders\<close>
  "savable_settings V s \<longleftrightarrow>
     plain_settings s \<and> list_all savable_client (s_clients s) \<and> settings_problems V s = []
     \<and> validate_issuer (s_issuer s) = Some (s_issuer s)
     \<and> s_saml_roles_attr_name s \<noteq> [] \<and> py_strip (s_saml_roles_attr_name s) = s_saml_roles_attr_name s
     \<and> s_saml_groups_attr_name s \<noteq> [] \<and> py_strip (s_saml_groups_attr_name s) = s_saml_groups_attr_name s"

definition saved_from :: "pydantic \<Rightarrow> env \<Rightarrow> doc \<Rightarrow> settings \<Rightarrow> doc \<Rightarrow> bool" where
  \<comment> \<open>settings without placeholders are saved over a document that the loader accepts\<close>
  "saved_from V env d s d' \<longleftrightarrow>
     apply_settings_document env d s fallback_defaults = Some d' \<and> savable_settings V s
     \<and> pydantic_bools V \<and> pydantic_ints V \<and> json_wf (JObj d)
     \<and> settings_errors V (expand_fields env d) = [] \<and> bools_clear (expand_fields env d)"

lemma saved_fromD:
  assumes "saved_from V env d s d'"
  shows "apply_settings_document env d s fallback_defaults = Some d'" "plain_settings s" "pydantic_bools V"
    "pydantic_ints V" "settings_errors V (expand_fields env d) = []" "bools_clear (expand_fields env d)"
    "json_wf (JObj d)" "savable_settings V s"
  using assms by (simp_all add: saved_from_def savable_settings_def del: json_wf.simps)

lemma owned_sel [simp]:
  "os_section (owned sec k f m) = sec" "os_key (owned sec k f m) = k" "os_attr (owned sec k f m) = f"
  "os_mode (owned sec k f m) = m"
  by (simp_all add: owned_def)

lemma plain_row_value: "plain_settings s \<Longrightarrow> row \<in> set owned_settings \<Longrightarrow> plain (os_attr row s)"
  by (auto simp: plain_settings_def list_all_iff)

lemma plain_row:
  assumes "saved_from V env d s d'" "section_target sec d = Some e" "section_target sec d' = Some e'"
    "owned sec k f Plain \<in> set owned_settings"
  shows "written (expand_fields env e) (expand_fields env e') (k, f s, True)"
  using row_written(1) [OF saved_fromD(1) [OF assms(1)] assms(4) plain_row_value [OF saved_fromD(2) [OF assms(1)] assms(4)],
    of e e'] assms(2,3) by simp

lemma falsy_row:
  assumes "saved_from V env d s d'" "section_target sec d = Some e" "section_target sec d' = Some e'"
    "owned sec k f (OmitWhenFalsy a) \<in> set owned_settings"
  shows "json_true (f s) \<Longrightarrow> written (expand_fields env e) (expand_fields env e') (k, f s, True)"
    and "\<not> json_true (f s) \<Longrightarrow> dget (expand_fields env e') k = None
      \<or> (\<exists>w. dget (expand_fields env e') k = Some w \<and> json_eq (coerce_like w a) a) \<or> a = JNull"
  using row_written(1,2) [OF saved_fromD(1) [OF assms(1)] assms(4) plain_row_value [OF saved_fromD(2) [OF assms(1)] assms(4)],
    of e e'] assms(2,3) by simp_all

lemma none_row:
  assumes "saved_from V env d s d'" "section_target sec d = Some e" "section_target sec d' = Some e'"
    "owned sec k f OmitWhenNone \<in> set owned_settings"
  shows "f s \<noteq> JNull \<Longrightarrow> written (expand_fields env e) (expand_fields env e') (k, f s, True)"
    and "f s = JNull \<Longrightarrow> dget (expand_fields env e') k = None"
  using row_written(1,3) [OF saved_fromD(1) [OF assms(1)] assms(4) plain_row_value [OF saved_fromD(2) [OF assms(1)] assms(4)],
    of e e'] assms(2,3) by simp_all

lemma bool_row:
  assumes "saved_from V env d s d'" "section_target sec d = Some e" "section_target sec d' = Some e'"
    "owned sec k (\<lambda>s. JBool (f s)) Plain \<in> set owned_settings" "(sec, k) \<in> set bool_places"
    "field_errors (of_opt (pd_bool V)) (expand_fields env e) k = []"
  shows "field_errors (of_opt (pd_bool V)) (expand_fields env e') k = []
    \<and> field_value (of_opt (pd_bool V)) dflt (expand_fields env e') k = f s"
proof -
  have "pred_option clear_bool (read_key (expand_fields env d) (sec, k))"
    using saved_fromD(6) [OF assms(1)] assms(5) by (auto simp: bools_clear_def list_all_iff)
  then have "pred_option clear_bool (dget (expand_fields env e) k)"
    using assms(2) by (simp add: read_key_def section_target_expand)
  with set_bool [OF plain_row [OF assms(1-4)] saved_fromD(3) [OF assms(1)] _ assms(6)] show ?thesis by blast
qed

lemma strs_row:
  assumes "saved_from V env d s d'" "section_target sec d = Some e" "section_target sec d' = Some e'"
    "owned sec k (\<lambda>s. jstrs (f s)) (OmitWhenFalsy (JList [])) \<in> set owned_settings"
  shows "field_errors as_opt_strs (expand_fields env e') k = []
    \<and> (case field_value as_opt_strs None (expand_fields env e') k of None \<Rightarrow> [] | Some xs \<Rightarrow> xs) = f s
    \<and> field_errors (as_list as_str) (expand_fields env e') k = []
    \<and> field_value (as_list as_str) [] (expand_fields env e') k = f s"
proof (cases "f s = []")
  case True
  then show ?thesis
    using omitted_strs [OF falsy_row(2) [OF assms]] by (auto simp: jstrs_def)
next
  case False
  then show ?thesis
    using set_strs [OF falsy_row(1) [OF assms]] by (simp add: jstrs_def)
qed

lemma opt_str_row:
  assumes "saved_from V env d s d'" "section_target sec d = Some e" "section_target sec d' = Some e'"
    "owned sec k (\<lambda>s. jopt (f s)) (OmitWhenFalsy (JStr [])) \<in> set owned_settings"
  shows "field_errors as_opt_str (expand_fields env e') k = []
    \<and> none_if_blank (field_value as_opt_str None (expand_fields env e') k) = none_if_blank (f s)"
proof (cases "opt_true (f s)")
  case True
  then obtain x where x: "f s = Some x" "x \<noteq> []" by (auto simp: opt_true_def)
  then show ?thesis
    using set_str(3,4) [of _ _ k x] falsy_row(1) [OF assms] by (auto simp: jopt_def none_if_blank_def)
next
  case False
  then have "\<not> json_true (jopt (f s))" by (auto simp: opt_true_def jopt_def split: option.splits)
  then show ?thesis
    using omitted_str [OF falsy_row(2) [OF assms]] False by (auto simp: none_if_blank_def)
qed

lemma omit_none_row:
  assumes "saved_from V env d s d'" "section_target sec d = Some e" "section_target sec d' = Some e'"
    "owned sec k (\<lambda>s. jopt (f s)) OmitWhenNone \<in> set owned_settings"
  shows "field_errors as_opt_str (expand_fields env e') k = []
    \<and> none_if_blank (field_value as_opt_str None (expand_fields env e') k) = none_if_blank (f s)"
proof (cases "f s")
  case None
  then show ?thesis
    using none_row(2) [OF assms] by (simp add: jopt_def field_errors_def field_value_def)
next
  case (Some x)
  then show ?thesis
    using set_str(3,4) [of _ _ k x] none_row(1) [OF assms] by (simp add: jopt_def)
qed

lemma str_falsy_row:
  assumes "saved_from V env d s d'" "section_target sec d = Some e" "section_target sec d' = Some e'"
    "owned sec k (\<lambda>s. JStr (f s)) (OmitWhenFalsy (JStr [])) \<in> set owned_settings"
  shows "field_errors as_opt_str (expand_fields env e') k = []
    \<and> (f s \<noteq> [] \<longrightarrow> field_value as_opt_str dflt (expand_fields env e') k = Some (f s))"
proof (cases "f s = []")
  case True
  then show ?thesis using omitted_str(1) [OF falsy_row(2) [OF assms]] by simp
next
  case False
  then show ?thesis using set_str(3,4) [OF falsy_row(1) [OF assms]] by simp
qed

lemma untouched:
  assumes "saved_from V env d s d'" "section_target sec d = Some e" "section_target sec d' = Some e'" "unowned (sec, k)"
  shows "dget (expand_fields env e') k = dget (expand_fields env e) k"
proof -
  have "read_key d' (sec, k) = read_key d (sec, k)"
    by (rule apply_settings_unowned [OF saved_fromD(1) [OF assms(1)] assms(4)])
  then show ?thesis using assms(2,3) by (simp add: read_key_def dget_expand)
qed

subsection \<open>The sections of the saved document\<close>

lemma saved_section:
  assumes "saved_from V env d s d'" "sec \<in> set [''server'', ''oauth'', ''saml'', ''logging'']"
  obtains e' where "section_target sec d' = Some e'"
proof -
  have "document_settled env fallback_defaults s d'"
    using saved_document_settled [OF saved_fromD(1,2,7) [OF assms(1)]] .
  then have "\<forall>row \<in> set owned_settings. has_section (os_section row) d'"
    by (simp add: document_settled_def list_all_iff)
  moreover have "\<exists>row \<in> set owned_settings. os_section row = sec"
    using some_row_has_section assms(2) unfolding list_all_iff list_ex_iff by blast
  ultimately have "has_section sec d'" by blast
  then show thesis using that by (auto simp: has_section_target)
qed

lemma server_loads:
  assumes "saved_from V env d s d'" "section_target ''server'' d = Some e" "server_errors V (expand_fields env e) = []"
    "section_target ''server'' d' = Some e'"
  shows "server_errors V (expand_fields env e') = []
    \<and> server_value V (expand_fields env e') =
      \<lparr>sv_host = s_host s, sv_port = s_port s, sv_debug = sv_debug (server_value V (expand_fields env e)),
       sv_rate_limit_enabled = s_rate_limit_enabled s, sv_rate_limit_token_endpoint = s_rate_limit_token_endpoint s\<rparr>"
proof -
  note row = assms(1,2,4)
  have old: "field_errors (of_opt (pd_int V)) (expand_fields env e) ''port'' = []"
    "field_errors (of_opt (pd_bool V)) (expand_fields env e) ''debug'' = []"
    "field_errors (of_opt (pd_bool V)) (expand_fields env e) ''rate_limit_enabled'' = []"
    using assms(3) by (simp_all add: server_errors_def)
  note host = set_str [OF plain_row [OF row, of "''host''" "\<lambda>s. JStr (s_host s)"]]
  note port = set_int [OF plain_row [OF row, of "''port''" "\<lambda>s. JInt (s_port s)"] saved_fromD(4) [OF assms(1)] old(1)]
  note limit = bool_row [OF row, where k = "''rate_limit_enabled''" and f = s_rate_limit_enabled, OF _ _ old(3)]
  note rate = set_str [OF plain_row [OF row, of "''rate_limit_token_endpoint''" "\<lambda>s. JStr (s_rate_limit_token_endpoint s)"]]
  have "unowned (''server'', ''debug'')" by code_simp
  note debug = untouched [OF row this]
  show ?thesis
    unfolding server_errors_def server_value_def
    using host port limit rate old(2)
    by (simp add: owned_settings_def bool_places_def field_errors_cong [OF debug] field_value_cong [OF debug])
qed

lemma saml_loads:
  assumes "saved_from V env d s d'" "section_target ''saml'' d = Some e" "saml_errors V (expand_fields env e) = []"
    "section_target ''saml'' d' = Some e'"
  shows "saml_errors V (expand_fields env e') = []
    \<and> none_if_blank (sa_entity_id (saml_value V (expand_fields env e'))) = none_if_blank (s_saml_entity_id s)
    \<and> none_if_blank (sa_sso_url (saml_value V (expand_fields env e'))) = none_if_blank (s_saml_sso_url s)
    \<and> sa_default_acs_url (saml_value V (expand_fields env e')) = s_default_acs_url s
    \<and> sa_sign_responses (saml_value V (expand_fields env e')) = s_saml_sign_responses s
    \<and> sa_export_roles (saml_value V (expand_fields env e')) = s_saml_export_roles s
    \<and> sa_export_groups (saml_value V (expand_fields env e')) = s_saml_export_groups s
    \<and> (s_saml_roles_attr_name s \<noteq> [] \<longrightarrow>
        sa_roles_attr_name (saml_value V (expand_fields env e')) = Some (s_saml_roles_attr_name s))
    \<and> (s_saml_groups_attr_name s \<noteq> [] \<longrightarrow>
        sa_groups_attr_name (saml_value V (expand_fields env e')) = Some (s_saml_groups_attr_name s))
    \<and> sa_c14n_algorithm (saml_value V (expand_fields env e')) = s_saml_c14n_algorithm s
    \<and> sa_want_authn_requests_signed (saml_value V (expand_fields env e')) = s_saml_want_authn_requests_signed s
    \<and> (case sa_sp_certificates (saml_value V (expand_fields env e')) of None \<Rightarrow> [] | Some xs \<Rightarrow> xs) = s_saml_sp_certificates s
    \<and> sa_strict_binding (saml_value V (expand_fields env e')) = s_strict_saml_binding s"
proof -
  note row = assms(1,2,4)
  have old: "field_errors (of_opt (pd_bool V)) (expand_fields env e) ''sign_responses'' = []"
    "field_errors (of_opt (pd_bool V)) (expand_fields env e) ''export_roles'' = []"
    "field_errors (of_opt (pd_bool V)) (expand_fields env e) ''export_groups'' = []"
    "field_errors (of_opt (pd_bool V)) (expand_fields env e) ''want_authn_requests_signed'' = []"
    "field_errors (of_opt (pd_bool V)) (expand_fields env e) ''strict_binding'' = []"
    using assms(3) by (simp_all add: saml_errors_def)
  have id: "field_errors as_opt_str (expand_fields env e') ''entity_id'' = []
      \<and> none_if_blank (field_value as_opt_str None (expand_fields env e') ''entity_id'') = none_if_blank (s_saml_entity_id s)"
    by (rule omit_none_row [OF row]) (simp add: owned_settings_def)
  have url: "field_errors as_opt_str (expand_fields env e') ''sso_url'' = []
      \<and> none_if_blank (field_value as_opt_str None (expand_fields env e') ''sso_url'') = none_if_blank (s_saml_sso_url s)"
    by (rule omit_none_row [OF row]) (simp add: owned_settings_def)
  have roles: "field_errors as_opt_str (expand_fields env e') ''roles_attr_name'' = []
      \<and> (s_saml_roles_attr_name s \<noteq> [] \<longrightarrow>
          field_value as_opt_str (Some ''roles'') (expand_fields env e') ''roles_attr_name'' = Some (s_saml_roles_attr_name s))"
    by (rule str_falsy_row [OF row]) (simp add: owned_settings_def)
  have groups: "field_errors as_opt_str (expand_fields env e') ''groups_attr_name'' = []
      \<and> (s_saml_groups_attr_name s \<noteq> [] \<longrightarrow>
          field_value as_opt_str (Some ''groups'') (expand_fields env e') ''groups_attr_name'' = Some (s_saml_groups_attr_name s))"
    by (rule str_falsy_row [OF row]) (simp add: owned_settings_def)
  note acs = set_str [OF plain_row [OF row, of "''default_acs_url''" "\<lambda>s. JStr (s_default_acs_url s)"]]
  note c14n = set_str [OF plain_row [OF row, of "''c14n_algorithm''" "\<lambda>s. JStr (s_saml_c14n_algorithm s)"]]
  note bools = bool_row [OF row, where k = "''sign_responses''" and f = s_saml_sign_responses, OF _ _ old(1)]
    bool_row [OF row, where k = "''export_roles''" and f = s_saml_export_roles, OF _ _ old(2)]
    bool_row [OF row, where k = "''export_groups''" and f = s_saml_export_groups, OF _ _ old(3)]
    bool_row [OF row, where k = "''want_authn_requests_signed''" and f = s_saml_want_authn_requests_signed, OF _ _ old(4)]
    bool_row [OF row, where k = "''strict_binding''" and f = s_strict_saml_binding, OF _ _ old(5)]
  note certs = strs_row [OF row, where k = "''sp_certificates''" and f = s_saml_sp_certificates]
  show ?thesis
    unfolding saml_errors_def saml_value_def saml_section.simps
    using id url roles groups acs c14n bools certs
    by (simp add: owned_settings_def bool_places_def)
qed

lemma logging_loads:
  assumes "saved_from V env d s d'" "section_target ''logging'' d = Some e" "logging_errors V (expand_fields env e) = []"
    "section_target ''logging'' d' = Some e'"
  shows "logging_errors V (expand_fields env e') = []
    \<and> logging_value V (expand_fields env e') = (logging_value V (expand_fields env e))\<lparr>lg_verbose_logging := s_verbose_logging s\<rparr>"
proof -
  note row = assms(1,2,4)
  have old: "field_errors (of_opt (pd_bool V)) (expand_fields env e) ''verbose_logging'' = []"
    using assms(3) by (simp add: logging_errors_def)
  note verbose = bool_row [OF row, where k = "''verbose_logging''" and f = s_verbose_logging, OF _ _ old]
  have "unowned (''logging'', ''level'')" "unowned (''logging'', ''log_token_requests'')" "unowned (''logging'', ''log_saml_requests'')"
    by code_simp+
  note same = untouched [OF row this(1)] untouched [OF row this(2)] untouched [OF row this(3)]
  show ?thesis
    using assms(3) verbose unfolding logging_errors_def logging_value_def
    by (simp add: owned_settings_def bool_places_def field_errors_cong [OF same(1)] field_errors_cong [OF same(2)]
        field_errors_cong [OF same(3)] field_value_cong [OF same(1)] field_value_cong [OF same(2)] field_value_cong [OF same(3)])
qed

lemma raw_entries_ok:
  assumes "field_errors (as_list (as_client V)) (expand_fields env e) ''clients'' = []"
    "case dget (expand_fields env e) ''clients'' of
       Some (JList xs) \<Rightarrow> list_all (\<lambda>x. case x of JObj e \<Rightarrow> client_bools_clear e | _ \<Rightarrow> True) xs | _ \<Rightarrow> True"
  shows "pred_option (entries_ok V env) (dget e ''clients'')"
proof (cases "dget e ''clients''")
  case (Some raw)
  have clients: "dget (expand_fields env e) ''clients'' = Some (expand_env_vars env raw)"
    by (simp add: dget_expand Some)
  then have "\<exists>ys. expand_env_vars env raw = JList ys"
    using assms(1) by (cases "expand_env_vars env raw") (auto simp: field_errors_def)
  then obtain xs where raw: "raw = JList xs" by (cases raw) auto
  have errs: "item_errors (as_client V) 0 (expand_list env xs) = []"
    using assms(1) clients raw by (auto simp: field_errors_def split: if_splits)
  have bools: "list_all (\<lambda>x. case x of JObj e \<Rightarrow> client_bools_clear e | _ \<Rightarrow> True) (expand_list env xs)"
    using assms(2) clients raw by simp
  have "list_all (\<lambda>x. case x of
         JObj d \<Rightarrow> client_errors V (expand_fields env d) = [] \<and> client_bools_clear (expand_fields env d)
       | _ \<Rightarrow> False) zs" if "item_errors (as_client V) i (expand_list env zs) = []"
      "list_all (\<lambda>x. case x of JObj e \<Rightarrow> client_bools_clear e | _ \<Rightarrow> True) (expand_list env zs)" for i zs
    using that
  proof (induction zs arbitrary: i)
    case (Cons z zs)
    then show ?case by (cases z) (auto simp: as_client_def split: if_splits)
  qed simp
  from this [OF errs bools] show ?thesis by (simp add: Some raw entries_ok_def)
qed simp

lemma clients_load:
  assumes "saved_from V env d s d'" "section_target ''oauth'' d = Some e" "section_target ''oauth'' d' = Some e'"
    "field_errors (as_list (as_client V)) (expand_fields env e) ''clients'' = []"
  shows "field_errors (as_list (as_client V)) (expand_fields env e') ''clients'' = []
    \<and> each to_client (field_value (as_list (as_client V)) [] (expand_fields env e') ''clients'') = Inr (s_clients s)"
proof -
  have "case dget (expand_fields env e) ''clients'' of
      Some (JList xs) \<Rightarrow> list_all (\<lambda>x. case x of JObj e \<Rightarrow> client_bools_clear e | _ \<Rightarrow> True) xs | _ \<Rightarrow> True"
    using saved_fromD(6) [OF assms(1)] assms(2) by (simp add: bools_clear_def read_key_def section_target_expand)
  then have ok: "pred_option (entries_ok V env) (dget e ''clients'')" by (rule raw_entries_ok [OF assms(4)])
  have wf: "pred_option json_wf (dget e ''clients'')"
    using wf_read_key [OF saved_fromD(7) [OF assms(1)], of "(''oauth'', ''clients'')"] assms(2) by (simp add: read_key_def)
  have savable: "list_all savable_client (s_clients s)"
    using saved_fromD(8) [OF assms(1)] by (simp add: savable_settings_def)
  have "read_key d' (''oauth'', ''clients'') = clients_value env (s_clients s) (read_key d (''oauth'', ''clients''))"
    by (rule saved_clients_key [OF saved_fromD(1) [OF assms(1)]])
  then have "dget e' ''clients'' = clients_value env (s_clients s) (dget e ''clients'')"
    using assms(2,3) by (simp add: read_key_def)
  then show ?thesis
    using saved_clients_load [OF savable ok saved_fromD(3) [OF assms(1)] wf]
    by (auto simp: field_errors_def field_value_def dget_expand split: option.splits)
qed

lemma oauth_loads:
  assumes "saved_from V env d s d'" "section_target ''oauth'' d = Some e" "oauth_errors V (expand_fields env e) = []"
    "section_target ''oauth'' d' = Some e'"
  shows "oauth_errors V (expand_fields env e') = []
    \<and> oa_issuer (oauth_value V (expand_fields env e')) = s_issuer s
    \<and> oa_issuer_from_request (oauth_value V (expand_fields env e')) = s_issuer_from_request s
    \<and> (case oa_issuer_allowlist (oauth_value V (expand_fields env e')) of None \<Rightarrow> [] | Some xs \<Rightarrow> xs) = s_issuer_allowlist s
    \<and> none_if_blank (oa_device_verification_base_url (oauth_value V (expand_fields env e'))) =
        none_if_blank (s_device_verification_base_url s)
    \<and> oa_issuer_from_proxy_headers (oauth_value V (expand_fields env e')) = s_issuer_from_proxy_headers s
    \<and> oa_audience (oauth_value V (expand_fields env e')) = s_audience s
    \<and> oa_token_expiry_minutes (oauth_value V (expand_fields env e')) = s_token_expiry_minutes s
    \<and> oa_refresh_token_rotation (oauth_value V (expand_fields env e')) = s_refresh_token_rotation s
    \<and> oa_require_pkce (oauth_value V (expand_fields env e')) = s_require_pkce s
    \<and> each to_client (oa_clients (oauth_value V (expand_fields env e'))) = Inr (s_clients s)
    \<and> oa_scopes_supported (oauth_value V (expand_fields env e')) = oa_scopes_supported (oauth_value V (expand_fields env e))
    \<and> oa_scope_enforcement (oauth_value V (expand_fields env e')) = oa_scope_enforcement (oauth_value V (expand_fields env e))
    \<and> none_if_blank (oa_logos_dir (oauth_value V (expand_fields env e'))) = none_if_blank (s_logos_dir s)"
proof -
  note row = assms(1,2,4)
  have old: "field_errors (of_opt (pd_bool V)) (expand_fields env e) ''issuer_from_request'' = []"
    "field_errors (of_opt (pd_bool V)) (expand_fields env e) ''issuer_from_proxy_headers'' = []"
    "field_errors (of_opt (pd_int V)) (expand_fields env e) ''token_expiry_minutes'' = []"
    "field_errors (of_opt (pd_bool V)) (expand_fields env e) ''refresh_token_rotation'' = []"
    "field_errors (of_opt (pd_bool V)) (expand_fields env e) ''require_pkce'' = []"
    "field_errors (as_list (as_client V)) (expand_fields env e) ''clients'' = []"
    "field_errors as_opt_strs (expand_fields env e) ''scopes_supported'' = []"
    "field_errors (of_opt (pd_bool V)) (expand_fields env e) ''scope_enforcement'' = []"
    using assms(3) by (simp_all add: oauth_errors_def as_client_def)
  note issuer = set_str [OF plain_row [OF row, of "''issuer''" "\<lambda>s. JStr (s_issuer s)"]]
  note aud = set_str [OF plain_row [OF row, of "''audience''" "\<lambda>s. JStr (s_audience s)"]]
  note expiry = set_int [OF plain_row [OF row, of "''token_expiry_minutes''" "\<lambda>s. JInt (s_token_expiry_minutes s)"]
      saved_fromD(4) [OF assms(1)] old(3)]
  note bools = bool_row [OF row, where k = "''issuer_from_request''" and f = s_issuer_from_request, OF _ _ old(1)]
    bool_row [OF row, where k = "''issuer_from_proxy_headers''" and f = s_issuer_from_proxy_headers, OF _ _ old(2)]
    bool_row [OF row, where k = "''refresh_token_rotation''" and f = s_refresh_token_rotation, OF _ _ old(4)]
    bool_row [OF row, where k = "''require_pkce''" and f = s_require_pkce, OF _ _ old(5)]
  note allow = strs_row [OF row, where k = "''issuer_allowlist''" and f = s_issuer_allowlist]
  have base: "field_errors as_opt_str (expand_fields env e') ''device_verification_base_url'' = []
      \<and> none_if_blank (field_value as_opt_str None (expand_fields env e') ''device_verification_base_url'') =
        none_if_blank (s_device_verification_base_url s)"
    by (rule opt_str_row [OF row]) (simp add: owned_settings_def)
  have logos: "field_errors as_opt_str (expand_fields env e') ''logos_dir'' = []
      \<and> none_if_blank (field_value as_opt_str None (expand_fields env e') ''logos_dir'') = none_if_blank (s_logos_dir s)"
    by (rule opt_str_row [OF row]) (simp add: owned_settings_def)
  note clients = clients_load [OF assms(1,2,4) old(6)]
  have "unowned (''oauth'', ''scopes_supported'')" "unowned (''oauth'', ''scope_enforcement'')" by code_simp+
  note same = untouched [OF row this(1)] untouched [OF row this(2)]
  show ?thesis
    unfolding oauth_errors_def oauth_value_def oauth_section.simps as_client_def [symmetric]
    using old(7,8) issuer aud expiry bools allow base logos clients
    by (simp add: owned_settings_def bool_places_def field_errors_cong [OF same(1)] field_errors_cong [OF same(2)]
        field_value_cong [OF same(1)] field_value_cong [OF same(2)])
qed

end
