(* ===== verification/Settings_Reload.thy ===== *)
theory Settings_Reload
  imports Settings_Round_Trip
begin

text \<open>
  The whole settings document after a save, loaded again: the login section, the keys at the top
  level, and the settings the loader builds.
\<close>

subsection \<open>Sections the loader accepts\<close>

lemma model_field_loaded:
  assumes "field_errors (as_model E W) (expand_fields env d) k = []" "k \<noteq> []" "E [] = []"
  obtains e where "section_target k d = Some e" "E (expand_fields env e) = []"
    "field_value (as_model E W) (W []) (expand_fields env d) k = W (expand_fields env e)"
proof -
  obtain e0 where e0: "section_target k (expand_fields env d) = Some e0" "E e0 = []"
    using assms by (rule model_field_ok)
  then obtain e where e: "section_target k d = Some e" "e0 = expand_fields env e"
    by (auto simp: section_target_expand)
  have "field_value (as_model E W) (W []) (expand_fields env d) k = W e0"
    by (rule model_field(2) [of k "expand_fields env d" e0 E W, OF e0(1) assms(2,3) e0(2)])
  with e0 e show thesis using that by simp
qed

lemma model_field_reloads:
  assumes "section_target k d' = Some e'" "E (expand_fields env e') = []" "k \<noteq> []" "E [] = []"
  shows "field_errors (as_model E W) (expand_fields env d') k = []"
    "field_value (as_model E W) (W []) (expand_fields env d') k = W (expand_fields env e')"
proof -
  have t: "section_target k (expand_fields env d') = Some (expand_fields env e')"
    using assms(1) by (simp add: section_target_expand)
  show "field_errors (as_model E W) (expand_fields env d') k = []"
    using model_field(1) [of k "expand_fields env d'" "expand_fields env e'" E W, OF t assms(3,4)] assms(2) by simp
  show "field_value (as_model E W) (W []) (expand_fields env d') k = W (expand_fields env e')"
    by (rule model_field(2) [of k "expand_fields env d'" "expand_fields env e'" E W, OF t assms(3,4,2)])
qed

subsection \<open>The login section\<close>

definition login_fields :: "doc \<Rightarrow> doc" where
  \<comment> \<open>the section, an empty one where the key is missing or bare\<close>
  "login_fields d = (case dget d ''login'' of Some (JObj e) \<Rightarrow> e | _ \<Rightarrow> [])"

definition login_shape :: "doc \<Rightarrow> bool" where
  "login_shape d \<longleftrightarrow> dget d ''login'' \<in> {None, Some JNull} \<or> (\<exists>e. dget d ''login'' = Some (JObj e))"

lemma login_field:
  assumes "login_shape d"
  shows "field_errors (\<lambda>v. as_model (login_errors V) (login_value V) (bare_login v)) (expand_fields env d) ''login'' =
      map ((#) (Key ''login'')) (login_errors V (expand_fields env (login_fields d)))"
    "login_errors V (expand_fields env (login_fields d)) = [] \<Longrightarrow>
      field_value (\<lambda>v. as_model (login_errors V) (login_value V) (bare_login v)) (login_value V [])
        (expand_fields env d) ''login'' = login_value V (expand_fields env (login_fields d))"
  using assms no_errors_empty(7)
  by (auto simp: login_shape_def login_fields_def field_errors_def field_value_def bare_login_def dget_expand)

lemma login_loaded:
  assumes "field_errors (\<lambda>v. as_model (login_errors V) (login_value V) (bare_login v)) (expand_fields env d) ''login'' = []"
  shows "login_shape d"
proof (cases "dget d ''login''")
  case (Some v)
  then show ?thesis
    using assms by (cases v) (auto simp: login_shape_def field_errors_def bare_login_def dget_expand)
qed (simp add: login_shape_def)

lemma read_login: "login_shape d \<Longrightarrow> read_key d (''login'', f) = dget (login_fields d) f"
  by (auto simp: login_shape_def login_fields_def read_key_def section_target_def)

lemma save_login_shape:
  assumes "save_login env f v dflt d = Some d'" "login_shape d"
  shows "login_shape d'"
  using assms(1) by (cases rule: optional_outcomes) (use assms(2) in \<open>auto simp: login_shape_def put_target_def\<close>)

lemma saved_login_shape:
  assumes "apply_settings_document env d s defaults = Some d'" "login_shape d"
  shows "login_shape d'"
proof -
  obtain d1 d2 d3 d4 where st: "apply_rows env s owned_settings d = Some d1"
    "apply_clients env (s_clients s) d1 = Some d2"
    "save_login env ''mode'' (JStr (s_login_mode s)) (dval defaults ''login.mode'')
        (apply_security_profile env defaults s d2) = Some d3"
    "save_login env ''auto_login'' (JBool (s_auto_login s)) (dval defaults ''login.auto_login'') d3 = Some d4"
    "save_login env ''two_step'' (JBool (s_two_step s)) (dval defaults ''login.two_step'') d4 = Some d'"
    by (rule apply_settings_steps [OF assms(1)])
  let ?p = "([], ''login'')"
  have "list_all (\<lambda>row. apart ?p (place row)) owned_settings" by code_simp
  then have "read_key d1 ?p = read_key d ?p"
    by (intro apply_rows_other [OF st(1)]) (simp add: list_all_iff)
  moreover have "read_key d2 ?p = read_key d1 ?p"
    by (rule apply_clients_other [OF st(2)]) (simp add: apart_def)
  moreover have "read_key (apply_security_profile env defaults s d2) ?p = read_key d2 ?p"
    by (rule profile_other) (simp add: apart_def)
  ultimately have "login_shape (apply_security_profile env defaults s d2)"
    using assms(2) by (simp add: read_top login_shape_def)
  then show ?thesis by (intro save_login_shape [OF st(5)] save_login_shape [OF st(4)] save_login_shape [OF st(3)])
qed

lemma optional_written:
  assumes "dget e' f = optional_value env v dflt (dget e f)" "plain v"
    "json_eq (coerce_like (expand_env_vars env dflt) v) v \<Longrightarrow> json_eq v dflt"
  shows "written (expand_fields env e) (expand_fields env e') (f, v, \<not> json_eq v dflt)
    \<and> (dget (expand_fields env e') f = None \<longrightarrow> json_eq v dflt)"
proof (cases "is_unchanged env (raw_or dflt (dget e f)) v")
  case True
  then show ?thesis
    using assms(1,3) by (cases "dget e f") (auto simp: optional_value_def written_def is_unchanged_def raw_or_def dget_expand)
next
  case False
  have v: "expand_env_vars env v = v" using assms(2) by (rule expand_plain(1))
  show ?thesis
  proof (cases "json_eq v dflt")
    case True
    then show ?thesis using False assms(1) by (simp add: optional_value_def written_def dget_expand)
  next
    case False
    then show ?thesis using \<open>\<not> is_unchanged _ _ _\<close> assms(1) v
      by (simp add: optional_value_def written_def dget_expand)
  qed
qed

lemma login_loads:
  assumes "saved_from V env d s d'"
    "field_errors (\<lambda>v. as_model (login_errors V) (login_value V) (bare_login v)) (expand_fields env d) ''login'' = []"
  shows "field_errors (\<lambda>v. as_model (login_errors V) (login_value V) (bare_login v)) (expand_fields env d') ''login'' = []
    \<and> field_value (\<lambda>v. as_model (login_errors V) (login_value V) (bare_login v)) (login_value V []) (expand_fields env d') ''login''
      = \<lparr>li_mode = s_login_mode s, li_auto_login = s_auto_login s, li_two_step = s_two_step s\<rparr>"
proof -
  note saved = saved_fromD(1) [OF assms(1)]
  have shape: "login_shape d" by (rule login_loaded [OF assms(2)])
  have shape': "login_shape d'" by (rule saved_login_shape [OF saved shape])
  let ?e = "login_fields d" and ?e' = "login_fields d'"
  let ?E = "expand_fields env ?e" and ?E' = "expand_fields env ?e'"
  have old: "field_errors (of_opt (pd_bool V)) ?E ''auto_login'' = []" "field_errors (of_opt (pd_bool V)) ?E ''two_step'' = []"
    using assms(2) unfolding login_field(1) [OF shape] by (simp_all add: login_errors_def)
  have clear: "pred_option clear_bool (dget ?E f)" if "f \<in> set [''auto_login'', ''two_step'']" for f
  proof -
    have "pred_option clear_bool (read_key (expand_fields env d) (''login'', f))"
      using saved_fromD(6) [OF assms(1)] that by (auto simp: bools_clear_def bool_places_def)
    then show ?thesis by (simp add: read_key_expand read_login [OF shape] dget_expand)
  qed
  note keys = saved_special_keys(2-4) [OF saved, unfolded read_login [OF shape] read_login [OF shape']]
  have defaults: "dval fallback_defaults ''login.mode'' = JStr ''password''"
    "dval fallback_defaults ''login.auto_login'' = JBool False" "dval fallback_defaults ''login.two_step'' = JBool False"
    by code_simp+
  have pl: "plain (JStr (s_login_mode s))" using saved_fromD(2) [OF assms(1)] by (simp add: plain_settings_def)
  have pw: "expand_env_vars env (JStr ''password'') = JStr ''password''" by (rule expand_plain(1)) simp
  have mode: "written ?E ?E' (''mode'', JStr (s_login_mode s), s_login_mode s \<noteq> ''password'')
      \<and> (dget ?E' ''mode'' = None \<longrightarrow> s_login_mode s = ''password'')"
    using optional_written [OF keys(1) pl] by (simp add: defaults pw del: expand_env_vars.simps(1))
  have auto: "written ?E ?E' (''auto_login'', JBool (s_auto_login s), s_auto_login s)
      \<and> (dget ?E' ''auto_login'' = None \<longrightarrow> \<not> s_auto_login s)"
    using optional_written [OF keys(2)] by (cases "s_auto_login s") (simp_all add: defaults num_eq_def)
  have two: "written ?E ?E' (''two_step'', JBool (s_two_step s), s_two_step s)
      \<and> (dget ?E' ''two_step'' = None \<longrightarrow> \<not> s_two_step s)"
    using optional_written [OF keys(3)] by (cases "s_two_step s") (simp_all add: defaults num_eq_def)
  have m: "field_errors as_str ?E' ''mode'' = []" "field_value as_str ''password'' ?E' ''mode'' = s_login_mode s"
    using mode by (auto simp: written_def json_eq_str field_errors_def field_value_def split: option.splits)
  have a: "field_errors (of_opt (pd_bool V)) ?E' ''auto_login'' = []"
    "field_value (of_opt (pd_bool V)) False ?E' ''auto_login'' = s_auto_login s"
    using written_bool [OF conjunct1 [OF auto] saved_fromD(3) [OF assms(1)] clear old(1), of False] auto by auto
  have b: "field_errors (of_opt (pd_bool V)) ?E' ''two_step'' = []"
    "field_value (of_opt (pd_bool V)) False ?E' ''two_step'' = s_two_step s"
    using written_bool [OF conjunct1 [OF two] saved_fromD(3) [OF assms(1)] clear old(2), of False] two by auto
  have "login_errors V ?E' = []" using m(1) a(1) b(1) by (simp add: login_errors_def)
  then show ?thesis
    using login_field [OF shape', of V env] m(2) a(2) b(2) by (simp add: login_value_def)
qed

subsection \<open>The keys at the top level\<close>

lemma top_untouched:
  assumes "saved_from V env d s d'" "unowned ([], k)"
  shows "dget (expand_fields env d') k = dget (expand_fields env d) k"
  by (rule untouched [OF assms(1) _ _ assms(2)]) (simp_all add: section_target_def)

lemma top_unowned:
  "list_all (\<lambda>k. unowned ([], k)) [''config_version'', ''jwt'', ''session'', ''config_validation'', ''hooks'', ''plugins'']"
  by code_simp

lemma profile_loads:
  assumes "saved_from V env d s d'"
  shows "field_errors as_str (expand_fields env d') ''security_profile'' = []
    \<and> field_value as_str ''dev'' (expand_fields env d') ''security_profile'' = s_security_profile s"
proof -
  have def_eq: "dval fallback_defaults ''security_profile'' = JStr ''dev''" by code_simp
  have pl: "plain (JStr (s_security_profile s))" using saved_fromD(2) [OF assms(1)] by (simp add: plain_settings_def)
  have dev: "expand_env_vars env (JStr ''dev'') = JStr ''dev''" by (rule expand_plain(1)) simp
  have "written (expand_fields env d) (expand_fields env d')
      (''security_profile'', JStr (s_security_profile s), s_security_profile s \<noteq> ''dev'')
    \<and> (dget (expand_fields env d') ''security_profile'' = None \<longrightarrow> s_security_profile s = ''dev'')"
    using optional_written [OF saved_special_keys(1) [OF saved_fromD(1) [OF assms], unfolded read_top] pl]
    by (simp add: def_eq dev del: expand_env_vars.simps(1))
  then show ?thesis
    by (auto simp: written_def json_eq_str field_errors_def field_value_def split: option.splits)
qed

lemma classes_load:
  assumes "saved_from V env d s d'"
  shows "field_errors (as_list as_str) (expand_fields env d') ''allowed_identity_classes'' = []
    \<and> field_value (as_list as_str) [] (expand_fields env d') ''allowed_identity_classes'' = s_allowed_identity_classes s"
  using strs_row [OF assms, of "[]" d d' "''allowed_identity_classes''" s_allowed_identity_classes]
  by (simp add: section_target_def owned_settings_def)

lemma wf_expand:
  "json_wf v \<Longrightarrow> json_wf (expand_env_vars env v)"
  "list_all json_wf xs \<Longrightarrow> list_all json_wf (expand_list env xs)"
  "list_all (\<lambda>(k, v). json_wf v) d \<Longrightarrow>
    list_all (\<lambda>(k, v). json_wf v) (expand_fields env d) \<and> map fst (expand_fields env d) = map fst d"
  by (induction env v and env xs and env d rule: expand_env_vars_expand_list_expand_fields.induct) auto

lemma as_str_Inr: "as_str v = Inr x \<longleftrightarrow> v = JStr x"
  by (cases v) auto

lemma as_str_Inl: "as_str v = Inl ps \<Longrightarrow> ps \<noteq> []"
  by (cases v) auto

lemma entry_values_strs:
  "entry_errors as_str d = [] \<Longrightarrow>
    dget (entry_values as_str d) k = (case dget d k of Some (JStr x) \<Rightarrow> Some x | _ \<Rightarrow> None)"
  by (induction d) (auto simp: dget_Cons as_str_Inr dest: as_str_Inl split: sum.splits)

lemma equal_strs:
  "json_eq v w \<Longrightarrow> (case v of JStr x \<Rightarrow> Some x | _ \<Rightarrow> None) = (case w of JStr x \<Rightarrow> Some x | _ \<Rightarrow> None)"
  by (cases v; cases w) simp_all

lemma equal_strs_found:
  assumes "rel_option json_eq a b"
  shows "(case a of Some (JStr x) \<Rightarrow> Some x | _ \<Rightarrow> None) = (case b of Some (JStr x) \<Rightarrow> Some x | _ \<Rightarrow> None)"
  using assms
proof (cases rule: option.rel_cases)
  case (Some v w)
  then show ?thesis using equal_strs [of v w] by simp
qed simp

lemma coerce_object: "coerce_like v (JObj m) = v"
  by (cases v) simp_all

lemma equal_object: "json_eq v (JObj m) \<Longrightarrow> (\<And>m'. v = JObj m' \<Longrightarrow> thesis) \<Longrightarrow> thesis"
  by (cases v) simp_all

lemma strs_dict:
  "entry_errors as_str (map (\<lambda>(k, v). (k, JStr v)) d) = [] \<and> entry_values as_str (map (\<lambda>(k, v). (k, JStr v)) d) = d"
  by (induction d) auto

lemma prefixes_load:
  assumes "saved_from V env d s d'" "field_errors (as_dict as_str) (expand_fields env d) ''authority_prefixes'' = []"
  shows "field_errors (as_dict as_str) (expand_fields env d') ''authority_prefixes'' = []
    \<and> dget (field_value (as_dict as_str) [] (expand_fields env d') ''authority_prefixes'') k = dget (s_authority_prefixes s) k"
proof -
  let ?m = "map (\<lambda>(k, v). (k, JStr v)) (s_authority_prefixes s)"
  have w: "written (expand_fields env d) (expand_fields env d') (''authority_prefixes'', JObj ?m, True)"
    using plain_row [OF assms(1), of "[]" d d' "''authority_prefixes''"
        "\<lambda>s. JObj (map (\<lambda>(k, v). (k, JStr v)) (s_authority_prefixes s))"]
    by (simp add: section_target_def owned_settings_def)
  have m: "entry_errors as_str ?m = []" "entry_values as_str ?m = s_authority_prefixes s"
    by (simp_all add: strs_dict)
  have "json_wf (JObj (expand_fields env d))"
    using wf_expand(1) [OF saved_fromD(7) [OF assms(1)], of env] by simp
  then have wf: "json_wf v" if "dget (expand_fields env d) ''authority_prefixes'' = Some v" for v
    using that by (rule wf_dget)
  have "\<exists>m'. dget (expand_fields env d') ''authority_prefixes'' = Some (JObj m') \<and> entry_errors as_str m' = []
      \<and> dget (entry_values as_str m') k = dget (s_authority_prefixes s) k"
  proof -
    obtain v where v: "dget (expand_fields env d') ''authority_prefixes'' = Some v"
      and "v = JObj ?m \<or> dget (expand_fields env d) ''authority_prefixes'' = Some v \<and> json_eq v (JObj ?m)"
      using w unfolding written_def coerce_object prod.case
      by (cases "dget (expand_fields env d') ''authority_prefixes''") (simp_all del: json_eq.simps, blast?)
    from this(2) show ?thesis
    proof
      assume "v = JObj ?m"
      then show ?thesis using v by (intro exI [of _ ?m] conjI) (simp_all only: m)
    next
      assume old: "dget (expand_fields env d) ''authority_prefixes'' = Some v \<and> json_eq v (JObj ?m)"
      then obtain m' where v': "v = JObj m'" using equal_object by blast
      with assms(2) old have m': "v = JObj m'" "entry_errors as_str m' = []"
        by (simp_all only: field_errors_def) (auto split: if_splits simp del: json_eq.simps)
      have "rel_option json_eq (dget m' k) (dget ?m k)"
        using old wf m'(1) by (intro equal_objects) (simp_all only: simp_thms)
      then have "dget (entry_values as_str m') k = dget (entry_values as_str ?m) k"
        unfolding entry_values_strs [OF m(1)] entry_values_strs [OF m'(2)] by (rule equal_strs_found)
      with v m' m(2) show ?thesis by simp
    qed
  qed
  then show ?thesis by (auto simp: field_errors_def field_value_def)
qed

subsection \<open>The document\<close>

lemma section_reloads:
  assumes "saved_from V env d s d'" "sec \<in> set [''server'', ''oauth'', ''saml'', ''logging'']"
    "field_errors (as_model E W) (expand_fields env d) sec = []" "E [] = []"
    "\<And>e e'. section_target sec d = Some e \<Longrightarrow> E (expand_fields env e) = [] \<Longrightarrow> section_target sec d' = Some e' \<Longrightarrow>
      E (expand_fields env e') = [] \<and> P (W (expand_fields env e)) (W (expand_fields env e'))"
  shows "field_errors (as_model E W) (expand_fields env d') sec = []
    \<and> P (field_value (as_model E W) (W []) (expand_fields env d) sec)
        (field_value (as_model E W) (W []) (expand_fields env d') sec)"
proof -
  have sec: "sec \<noteq> []" using assms(2) by auto
  obtain e where e: "section_target sec d = Some e" "E (expand_fields env e) = []"
    "field_value (as_model E W) (W []) (expand_fields env d) sec = W (expand_fields env e)"
    by (rule model_field_loaded [OF assms(3) sec assms(4)])
  obtain e' where e': "section_target sec d' = Some e'" by (rule saved_section [OF assms(1,2)])
  have law: "E (expand_fields env e') = []" "P (W (expand_fields env e)) (W (expand_fields env e'))"
    using assms(5) [OF e(1,2) e'] by simp_all
  show ?thesis
    using model_field_reloads [of sec d' e' E env W, OF e' law(1) sec assms(4)] law(2) e(3) by simp
qed

abbreviation loaded :: "pydantic \<Rightarrow> env \<Rightarrow> doc \<Rightarrow> settings_document" where
  "loaded V env d \<equiv> settings_value V (expand_fields env d)"

lemma accepted:
  assumes "saved_from V env d s d'"
  shows "field_errors (as_opt_int V) (expand_fields env d) ''config_version'' = []"
    "field_errors (as_model (server_errors V) (server_value V)) (expand_fields env d) ''server'' = []"
    "field_errors (as_model (oauth_errors V) (oauth_value V)) (expand_fields env d) ''oauth'' = []"
    "field_errors (as_model (saml_errors V) (saml_value V)) (expand_fields env d) ''saml'' = []"
    "field_errors (as_model jwt_errors jwt_value) (expand_fields env d) ''jwt'' = []"
    "field_errors (as_model (session_errors V) (session_value V)) (expand_fields env d) ''session'' = []"
    "field_errors (as_model (logging_errors V) (logging_value V)) (expand_fields env d) ''logging'' = []"
    "field_errors (\<lambda>v. as_model (login_errors V) (login_value V) (bare_login v)) (expand_fields env d) ''login'' = []"
    "field_errors (as_literal validation_modes) (expand_fields env d) ''config_validation'' = []"
    "field_errors (as_dict as_str) (expand_fields env d) ''authority_prefixes'' = []"
    "field_errors (as_model (hooks_errors V) (hooks_value V)) (expand_fields env d) ''hooks'' = []"
    "field_errors validate_plugins_mapping (expand_fields env d) ''plugins'' = []"
  using saved_fromD(5) [OF assms] by (simp_all add: settings_errors_def)

lemma server_reloads:
  assumes "saved_from V env d s d'"
  shows "field_errors (as_model (server_errors V) (server_value V)) (expand_fields env d') ''server'' = []
    \<and> sd_server (loaded V env d') = \<lparr>sv_host = s_host s, sv_port = s_port s, sv_debug = sv_debug (sd_server (loaded V env d)),
       sv_rate_limit_enabled = s_rate_limit_enabled s, sv_rate_limit_token_endpoint = s_rate_limit_token_endpoint s\<rparr>"
  unfolding settings_value_def settings_document.simps
  by (rule section_reloads [OF assms _ accepted(2) [OF assms] no_errors_empty(1)])
     (simp, rule server_loads [OF assms])

lemma logging_reloads:
  assumes "saved_from V env d s d'"
  shows "field_errors (as_model (logging_errors V) (logging_value V)) (expand_fields env d') ''logging'' = []
    \<and> sd_logging (loaded V env d') = (sd_logging (loaded V env d))\<lparr>lg_verbose_logging := s_verbose_logging s\<rparr>"
  unfolding settings_value_def settings_document.simps
  by (rule section_reloads [OF assms _ accepted(7) [OF assms] no_errors_empty(6)])
     (simp, rule logging_loads [OF assms])

lemma saml_reloads:
  assumes "saved_from V env d s d'"
  defines "sa \<equiv> sd_saml (loaded V env d')"
  shows "field_errors (as_model (saml_errors V) (saml_value V)) (expand_fields env d') ''saml'' = []
    \<and> (none_if_blank (sa_entity_id sa) = none_if_blank (s_saml_entity_id s)
    \<and> none_if_blank (sa_sso_url sa) = none_if_blank (s_saml_sso_url s)
    \<and> sa_default_acs_url sa = s_default_acs_url s
    \<and> sa_sign_responses sa = s_saml_sign_responses s
    \<and> sa_export_roles sa = s_saml_export_roles s
    \<and> sa_export_groups sa = s_saml_export_groups s
    \<and> (s_saml_roles_attr_name s \<noteq> [] \<longrightarrow> sa_roles_attr_name sa = Some (s_saml_roles_attr_name s))
    \<and> (s_saml_groups_attr_name s \<noteq> [] \<longrightarrow> sa_groups_attr_name sa = Some (s_saml_groups_attr_name s))
    \<and> sa_c14n_algorithm sa = s_saml_c14n_algorithm s
    \<and> sa_want_authn_requests_signed sa = s_saml_want_authn_requests_signed s
    \<and> (case sa_sp_certificates sa of None \<Rightarrow> [] | Some xs \<Rightarrow> xs) = s_saml_sp_certificates s
    \<and> sa_strict_binding sa = s_strict_saml_binding s)"
  unfolding sa_def settings_value_def settings_document.simps
  by (rule section_reloads [OF assms(1) _ accepted(4) [OF assms(1)] no_errors_empty(3)])
     (simp, rule saml_loads [OF assms(1)])

lemma oauth_reloads:
  assumes "saved_from V env d s d'"
  defines "oa \<equiv> sd_oauth (loaded V env d')"
  shows "field_errors (as_model (oauth_errors V) (oauth_value V)) (expand_fields env d') ''oauth'' = []
    \<and> (oa_issuer oa = s_issuer s
    \<and> oa_issuer_from_request oa = s_issuer_from_request s
    \<and> (case oa_issuer_allowlist oa of None \<Rightarrow> [] | Some xs \<Rightarrow> xs) = s_issuer_allowlist s
    \<and> none_if_blank (oa_device_verification_base_url oa) = none_if_blank (s_device_verification_base_url s)
    \<and> oa_issuer_from_proxy_headers oa = s_issuer_from_proxy_headers s
    \<and> oa_audience oa = s_audience s
    \<and> oa_token_expiry_minutes oa = s_token_expiry_minutes s
    \<and> oa_refresh_token_rotation oa = s_refresh_token_rotation s
    \<and> oa_require_pkce oa = s_require_pkce s
    \<and> each to_client (oa_clients oa) = Inr (s_clients s)
    \<and> oa_scopes_supported oa = oa_scopes_supported (sd_oauth (loaded V env d))
    \<and> oa_scope_enforcement oa = oa_scope_enforcement (sd_oauth (loaded V env d))
    \<and> none_if_blank (oa_logos_dir oa) = none_if_blank (s_logos_dir s))"
  unfolding oa_def settings_value_def settings_document.simps
  by (rule section_reloads [OF assms(1) _ accepted(3) [OF assms(1)] no_errors_empty(2)])
     (simp, rule oauth_loads [OF assms(1)])

lemma top_reloads:
  assumes "saved_from V env d s d'"
    "k \<in> set [''config_version'', ''jwt'', ''session'', ''config_validation'', ''hooks'', ''plugins'']"
  shows "field_errors f (expand_fields env d') k = field_errors f (expand_fields env d) k"
    "field_value f dflt (expand_fields env d') k = field_value f dflt (expand_fields env d) k"
proof -
  have "dget (expand_fields env d') k = dget (expand_fields env d) k"
    using top_unowned assms(2) by (intro top_untouched [OF assms(1)]) (auto simp: list_all_iff)
  then show "field_errors f (expand_fields env d') k = field_errors f (expand_fields env d) k"
    "field_value f dflt (expand_fields env d') k = field_value f dflt (expand_fields env d) k"
    by (simp_all add: field_errors_def field_value_def)
qed

lemma saved_settings_accepted:
  assumes "saved_from V env d s d'"
  shows "settings_errors V (expand_fields env d') = []"
  using accepted [OF assms] server_reloads [OF assms] oauth_reloads [OF assms] saml_reloads [OF assms]
    logging_reloads [OF assms] login_loads [OF assms accepted(8) [OF assms]] profile_loads [OF assms] classes_load [OF assms]
    prefixes_load [OF assms accepted(10) [OF assms]]
  by (simp add: settings_errors_def top_reloads(1) [OF assms])

subsection \<open>The settings\<close>

definition blank_free :: "settings \<Rightarrow> settings" where
  \<comment> \<open>an empty optional text is the same as none to every reader\<close>
  "blank_free s = s\<lparr>s_device_verification_base_url := none_if_blank (s_device_verification_base_url s),
     s_logos_dir := none_if_blank (s_logos_dir s), s_saml_entity_id := none_if_blank (s_saml_entity_id s),
     s_saml_sso_url := none_if_blank (s_saml_sso_url s)\<rparr>"

definition settings_alike :: "settings \<Rightarrow> settings \<Rightarrow> bool" where
  \<comment> \<open>equal settings, the authority prefixes as a dictionary\<close>
  "settings_alike a b \<longleftrightarrow>
     blank_free a = blank_free (b\<lparr>s_authority_prefixes := s_authority_prefixes a\<rparr>)
     \<and> (\<forall>k. dget (s_authority_prefixes a) k = dget (s_authority_prefixes b) k)"

definition with_unsaved :: "settings \<Rightarrow> settings \<Rightarrow> settings" where
  \<comment> \<open>the settings \<open>s\<close> with the fields that no save writes taken from \<open>s0\<close>\<close>
  "with_unsaved s0 s = s\<lparr>s_debug := s_debug s0, s_scopes_supported := s_scopes_supported s0,
     s_scope_enforcement := s_scope_enforcement s0, s_jwt_algorithm := s_jwt_algorithm s0,
     s_keys_dir := s_keys_dir s0, s_secret_key := s_secret_key s0, s_require_ui_login := s_require_ui_login s0,
     s_enforce_password_check := s_enforce_password_check s0, s_management_secret := s_management_secret s0,
     s_log_level := s_log_level s0, s_log_token_requests := s_log_token_requests s0,
     s_log_saml_requests := s_log_saml_requests s0, s_cors_allowed_origins := s_cors_allowed_origins s0,
     s_password_hashing := s_password_hashing s0, s_external_private_key := s_external_private_key s0,
     s_external_public_key := s_external_public_key s0, s_external_key_id := s_external_key_id s0,
     s_max_previous_keys := s_max_previous_keys s0\<rparr>"

lemma no_problems:
  "settings_problems V s = [] \<longleftrightarrow>
     1 \<le> s_port s \<and> s_port s \<le> 65535 \<and> validate_issuer (s_issuer s) \<noteq> None \<and> s_audience s \<noteq> []
     \<and> 0 < s_token_expiry_minutes s \<and> s_token_expiry_minutes s \<le> 1440
     \<and> validate_management_secret (s_management_secret s) \<noteq> None \<and> validate_log_level (s_log_level s) \<noteq> None
     \<and> validate_login_mode (s_login_mode s) \<noteq> None \<and> validate_security_profile (s_security_profile s) \<noteq> None
     \<and> pd_rate V (s_rate_limit_token_endpoint s)"
  by (auto simp: settings_problems_def filter_empty_conv)

lemma no_duplicate: "distinct xs \<Longrightarrow> set xs \<inter> set seen = {} \<Longrightarrow> first_duplicate seen xs = None"
  by (induction xs arbitrary: seen) auto

lemma load_settings_warn:
  "load_settings V env False d = Inr s \<longleftrightarrow>
     settings_errors V (expand_fields env d) = [] \<and> to_settings V env (loaded V env d) = Inr s"
  by (auto simp: load_settings_def load_settings_cases split: list.splits)

lemma none_if_blank_idem: "none_if_blank (none_if_blank x) = none_if_blank x"
  by (simp add: none_if_blank_def opt_true_def)

lemma saved_settings_reload:
  assumes "saved_from V env d s d'" "load_settings V env False d = Inr s0"
  shows "\<exists>s1. load_settings V env False d' = Inr s1 \<and> settings_alike s1 (with_unsaved s0 s)"
proof -
  let ?v = "loaded V env d" and ?v' = "loaded V env d'"
  have savable: "savable_settings V s" by (rule saved_fromD(8) [OF assms(1)])
  obtain cs where cs: "settings_problems V (settings_of env ?v cs) = []"
    "s0 = (settings_of env ?v cs)\<lparr>s_issuer := the (validate_issuer (s_issuer (settings_of env ?v cs))),
       s_log_level := the (validate_log_level (s_log_level (settings_of env ?v cs)))\<rparr>"
    using assms(2) by (auto simp: load_settings_warn to_settings_def make_settings_def andthen_Inr split: option.splits if_splits)
  let ?s = "settings_of env ?v' (s_clients s)"
  let ?s1 = "?s\<lparr>s_issuer := the (validate_issuer (s_issuer ?s)), s_log_level := the (validate_log_level (s_log_level ?s))\<rparr>"
  note laws = server_reloads [OF assms(1)] oauth_reloads [OF assms(1)] saml_reloads [OF assms(1)] logging_reloads [OF assms(1)]
    login_loads [OF assms(1) accepted(8) [OF assms(1)]] profile_loads [OF assms(1)] classes_load [OF assms(1)]
    prefixes_load [OF assms(1) accepted(10) [OF assms(1)]]
  have same: "sd_jwt ?v' = sd_jwt ?v" "sd_session ?v' = sd_session ?v"
    by (simp_all add: settings_value_def top_reloads(2) [OF assms(1)])
  have top: "sd_login ?v' = \<lparr>li_mode = s_login_mode s, li_auto_login = s_auto_login s, li_two_step = s_two_step s\<rparr>"
    "sd_security_profile ?v' = s_security_profile s" "sd_allowed_identity_classes ?v' = s_allowed_identity_classes s"
    "dget (sd_authority_prefixes ?v') k = dget (s_authority_prefixes s) k" for k
    using laws by (simp_all add: settings_value_def)
  have sections: "sd_server ?v' = \<lparr>sv_host = s_host s, sv_port = s_port s, sv_debug = sv_debug (sd_server ?v),
       sv_rate_limit_enabled = s_rate_limit_enabled s, sv_rate_limit_token_endpoint = s_rate_limit_token_endpoint s\<rparr>"
    "sd_logging ?v' = (sd_logging ?v)\<lparr>lg_verbose_logging := s_verbose_logging s\<rparr>"
    using laws by simp_all
  note oauth = conjunct2 [OF oauth_reloads [OF assms(1)]] and saml = conjunct2 [OF saml_reloads [OF assms(1)]]
  have ok: "settings_problems V ?s = []"
    using savable cs(1) oauth
    by (simp add: savable_settings_def no_problems settings_of_def Let_def top sections same)
  have "to_settings V env ?v' = Inr ?s1"
    using oauth ok no_duplicate [of "map cl_client_id (s_clients s)" "[]"] savable
    by (simp add: to_settings_def make_settings_def savable_settings_def plain_settings_def)
  moreover have "settings_alike ?s1 (with_unsaved s0 s)"
  proof -
    have names: "normalize_saml_attr_name ''roles'' (Some (s_saml_roles_attr_name s)) = s_saml_roles_attr_name s"
      "normalize_saml_attr_name ''groups'' (Some (s_saml_groups_attr_name s)) = s_saml_groups_attr_name s"
      using savable by (simp_all add: normalize_saml_attr_name_def savable_settings_def)
    have "blank_free ?s1 = blank_free ((with_unsaved s0 s)\<lparr>s_authority_prefixes := s_authority_prefixes ?s1\<rparr>)"
      by (rule settings.equality)
         (use oauth saml savable in \<open>simp_all add: blank_free_def with_unsaved_def settings_of_def Let_def cs(2) top sections
            same names savable_settings_def none_if_blank_idem\<close>)
    moreover have "dget (s_authority_prefixes ?s1) k = dget (s_authority_prefixes (with_unsaved s0 s)) k" for k
      by (simp add: with_unsaved_def settings_of_def Let_def top)
    ultimately show ?thesis by (simp add: settings_alike_def)
  qed
  ultimately show ?thesis using saved_settings_accepted [OF assms(1)] load_settings_warn by blast
qed

end
