(* ===== verification/Sha256.thy ===== *)
theory Sha256
  imports Nano_Prelude "HOL-Library.Word"
begin

text \<open>
  The byte-level standard-library code the program relies on: \<open>hashlib.sha256\<close>,
  \<open>base64.urlsafe_b64encode\<close> with the padding stripped, \<open>str.encode\<close> and \<open>hmac\<close>.
  PKCE (\<open>services/auth_code.py\<close>), \<open>at_hash\<close> (\<open>services/token.py\<close>) and the management marker
  (\<open>routes/_auth.py\<close>) are built on them. Bytes are integers from 0 to 255.
\<close>

unbundle bit_operations_syntax

type_synonym u32 = "32 word"
type_synonym bytes = "int list"

subsection \<open>SHA-256\<close>

definition sha_k :: "u32 list" where
  \<comment> \<open>the first 32 bits of the fractional parts of the cube roots of the first 64 primes\<close>
  "sha_k = [
    1116352408, 1899447441, 3049323471, 3921009573, 961987163, 1508970993,
    2453635748, 2870763221, 3624381080, 310598401, 607225278, 1426881987,
    1925078388, 2162078206, 2614888103, 3248222580, 3835390401, 4022224774,
    264347078, 604807628, 770255983, 1249150122, 1555081692, 1996064986,
    2554220882, 2821834349, 2952996808, 3210313671, 3336571891, 3584528711,
    113926993, 338241895, 666307205, 773529912, 1294757372, 1396182291,
    1695183700, 1986661051, 2177026350, 2456956037, 2730485921, 2820302411,
    3259730800, 3345764771, 3516065817, 3600352804, 4094571909, 275423344,
    430227734, 506948616, 659060556, 883997877, 958139571, 1322822218,
    1537002063, 1747873779, 1955562222, 2024104815, 2227730452, 2361852424,
    2428436474, 2756734187, 3204031479, 3329325298]"

definition sha_h0 :: "u32 list" where
  "sha_h0 = [1779033703, 3144134277, 1013904242, 2773480762, 1359893119, 2600822924, 528734635,
    1541459225]"

definition rotr :: "nat \<Rightarrow> u32 \<Rightarrow> u32" where
  "rotr n x = (drop_bit n x) OR (push_bit (32 - n) x)"

definition big_sigma0 :: "u32 \<Rightarrow> u32" where
  "big_sigma0 x = rotr 2 x XOR rotr 13 x XOR rotr 22 x"

definition big_sigma1 :: "u32 \<Rightarrow> u32" where
  "big_sigma1 x = rotr 6 x XOR rotr 11 x XOR rotr 25 x"

definition small_sigma0 :: "u32 \<Rightarrow> u32" where
  "small_sigma0 x = rotr 7 x XOR rotr 18 x XOR drop_bit 3 x"

definition small_sigma1 :: "u32 \<Rightarrow> u32" where
  "small_sigma1 x = rotr 17 x XOR rotr 19 x XOR drop_bit 10 x"

fun be_word :: "bytes \<Rightarrow> u32" where
  "be_word bs = word_of_int (foldl (\<lambda>a b. 256 * a + b) 0 bs)"

definition word_be :: "u32 \<Rightarrow> bytes" where
  "word_be w = (let n = uint w in
     [n div 16777216 mod 256, n div 65536 mod 256, n div 256 mod 256, n mod 256])"

fun chunks :: "nat \<Rightarrow> nat \<Rightarrow> 'a list \<Rightarrow> 'a list list" where
  \<comment> \<open>the first \<open>k\<close> chunks of \<open>n\<close> elements\<close>
  "chunks 0 n xs = []"
| "chunks (Suc k) n xs = take n xs # chunks k n (drop n xs)"

definition int_be8 :: "int \<Rightarrow> bytes" where
  "int_be8 n = map (\<lambda>i. n div 256 ^ i mod 256) [7, 6, 5, 4, 3, 2, 1, 0]"

definition sha_pad :: "bytes \<Rightarrow> bytes" where
  "sha_pad m = m @ [128] @ replicate ((119 - length m mod 64) mod 64) 0 @ int_be8 (8 * int (length m))"

fun sha_expand :: "nat \<Rightarrow> u32 list \<Rightarrow> u32 list" where
  \<comment> \<open>the message schedule, newest word first\<close>
  "sha_expand 0 ws = ws"
| "sha_expand (Suc n) ws =
     sha_expand n ((small_sigma1 (ws ! 1) + ws ! 6 + small_sigma0 (ws ! 14) + ws ! 15) # ws)"

fun sha_rounds :: "u32 list \<Rightarrow> u32 list \<Rightarrow> u32 list \<Rightarrow> u32 list" where
  "sha_rounds (k # ks) (w # ws) [a, b, c, d, e, f, g, h] =
     (let t1 = h + big_sigma1 e + ((e AND f) XOR ((NOT e) AND g)) + k + w;
          t2 = big_sigma0 a + ((a AND b) XOR (a AND c) XOR (b AND c))
      in sha_rounds ks ws [t1 + t2, a, b, c, d + t1, e, f, g])"
| "sha_rounds _ _ st = st"

definition sha_block :: "u32 list \<Rightarrow> bytes \<Rightarrow> u32 list" where
  "sha_block hs blk =
     map2 (+) hs (sha_rounds sha_k (rev (sha_expand 48 (rev (map be_word (chunks 16 4 blk))))) hs)"

definition sha256 :: "bytes \<Rightarrow> bytes" where
  "sha256 m = (let p = sha_pad m in
     concat (map word_be (foldl sha_block sha_h0 (chunks (length p div 64) 64 p))))"

subsection \<open>Encodings\<close>

definition b64_char :: "int \<Rightarrow> char" where
  "b64_char n = (if n < 26 then char_of (65 + n) else if n < 52 then char_of (71 + n)
     else if n < 62 then char_of (n - 4) else if n = 62 then CHR ''-'' else CHR ''_'')"

fun b64url :: "bytes \<Rightarrow> str" where
  \<comment> \<open>\<open>base64.urlsafe_b64encode(b).rstrip(b"=")\<close>\<close>
  "b64url [] = []"
| "b64url [a] = [b64_char (a div 4), b64_char (a mod 4 * 16)]"
| "b64url [a, b] = [b64_char (a div 4), b64_char (a mod 4 * 16 + b div 16), b64_char (b mod 16 * 4)]"
| "b64url (a # b # c # bs) =
     b64_char (a div 4) # b64_char (a mod 4 * 16 + b div 16) # b64_char (b mod 16 * 4 + c div 64)
       # b64_char (c mod 64) # b64url bs"

definition encode_ascii :: "str \<Rightarrow> bytes option" where
  \<comment> \<open>\<open>s.encode("ascii")\<close>; \<open>None\<close> is \<open>UnicodeEncodeError\<close>\<close>
  "encode_ascii s = (if list_all (\<lambda>c. (of_char c :: int) < 128) s then Some (map of_char s) else None)"

definition encode_utf8 :: "str \<Rightarrow> bytes" where
  \<comment> \<open>\<open>s.encode("utf-8")\<close> on the code points below 256\<close>
  "encode_utf8 s = concat (map (\<lambda>c. let n = of_char c :: int in
     if n < 128 then [n] else [192 + n div 64, 128 + n mod 64]) s)"

definition hex_digit :: "int \<Rightarrow> char" where
  "hex_digit n = (if n < 10 then char_of (48 + n) else char_of (87 + n))"

definition hexdigest :: "bytes \<Rightarrow> str" where
  "hexdigest bs = concat (map (\<lambda>b. [hex_digit (b div 16), hex_digit (b mod 16)]) bs)"

definition byte_xor :: "int \<Rightarrow> int \<Rightarrow> int" where
  "byte_xor a b = a XOR b"

definition hmac_sha256 :: "bytes \<Rightarrow> bytes \<Rightarrow> bytes" where
  \<comment> \<open>\<open>hmac.new(key, msg, hashlib.sha256).digest()\<close>\<close>
  "hmac_sha256 key msg =
     (let k0 = (if 64 < length key then sha256 key else key);
          k = k0 @ replicate (64 - length k0) 0
      in sha256 (map (byte_xor 92) k @ sha256 (map (byte_xor 54) k @ msg)))"

end
