(* ===== verification/Auth_Code.thy ===== *)
theory Auth_Code
  imports Store_Contracts Sha256
begin

text \<open>
  \<open>services/auth_code.py\<close>: the authorization-code store with PKCE. A redemption is refused
  (\<open>Inr None\<close>), granted (\<open>Inr (Some c)\<close>) or raises (\<open>Inl\<close>: the S256 branch encodes the
  verifier as ASCII and lets \<open>UnicodeEncodeError\<close> escape).
\<close>

subsection \<open>State\<close>

record authorization_code =
  ac_code :: str
  ac_client_id :: str
  ac_redirect_uri :: str
  ac_scope :: str
  ac_username :: str
  ac_code_challenge :: "str option"
  ac_code_challenge_method :: "str option"
  ac_nonce :: "str option"
  ac_state :: "str option"
  ac_resource :: "str list option"
  ac_claims :: "(str, str list) dict option"
  ac_created_at :: time
  ac_expires_at :: time
  ac_used :: bool

type_synonym auth_code_store = "(str, authorization_code) dict"

datatype encode_error = UnicodeEncodeError

definition code_lifetime :: time where
  "code_lifetime = secs (10 * 60)"

definition new_code :: "time \<Rightarrow> str \<Rightarrow> str \<Rightarrow> str \<Rightarrow> str \<Rightarrow> str \<Rightarrow> str option \<Rightarrow> str option \<Rightarrow> str option
    \<Rightarrow> str option \<Rightarrow> (str, str list) dict option \<Rightarrow> str list option \<Rightarrow> authorization_code" where
  "new_code now code client_id redirect_uri username scope challenge method nonce state claims resource =
     \<lparr>ac_code = code, ac_client_id = client_id, ac_redirect_uri = redirect_uri, ac_scope = scope,
      ac_username = username, ac_code_challenge = challenge, ac_code_challenge_method = method,
      ac_nonce = nonce, ac_state = state, ac_resource = resource, ac_claims = claims,
      ac_created_at = now, ac_expires_at = now + code_lifetime, ac_used = False\<rparr>"

subsection \<open>Operations\<close>

definition code_expired :: "time \<Rightarrow> authorization_code \<Rightarrow> bool" where
  "code_expired now a \<longleftrightarrow> ac_expires_at a < now"

definition cleanup_expired :: "time \<Rightarrow> auth_code_store \<Rightarrow> auth_code_store" where
  "cleanup_expired now st = dfilter (\<lambda>_ a. \<not> code_expired now a) st"

definition create_code :: "time \<Rightarrow> authorization_code \<Rightarrow> auth_code_store \<Rightarrow> str \<times> auth_code_store" where
  \<comment> \<open>the second argument is the record built from the caller's arguments\<close>
  "create_code now a st = (ac_code a, dset (ac_code a) a (cleanup_expired now st))"

definition pkce_s256 :: "bytes \<Rightarrow> str" where
  "pkce_s256 b = b64url (sha256 b)"

definition verify_pkce :: "str \<Rightarrow> str \<Rightarrow> str option \<Rightarrow> encode_error + bool" where
  "verify_pkce verifier challenge method =
     (if method = Some ''plain'' \<or> method = None then Inr (verifier = challenge)
      else if method = Some ''S256'' then
        (case encode_ascii verifier of
           None \<Rightarrow> Inl UnicodeEncodeError
         | Some b \<Rightarrow> Inr (pkce_s256 b = challenge))
      else Inr False)"

definition pkce_check :: "authorization_code \<Rightarrow> str option \<Rightarrow> encode_error + bool" where
  "pkce_check a verifier =
     (if opt_true (ac_code_challenge a) then
        (if \<not> opt_true verifier then Inr False
         else verify_pkce (the verifier) (the (ac_code_challenge a)) (ac_code_challenge_method a))
      else Inr True)"

definition consume_code :: "time \<Rightarrow> str \<Rightarrow> str \<Rightarrow> str \<Rightarrow> str option \<Rightarrow> auth_code_store
    \<Rightarrow> (encode_error + authorization_code option) \<times> auth_code_store" where
  "consume_code now code client_id redirect_uri verifier st =
     (case dget st code of
        None \<Rightarrow> (Inr None, st)
      | Some a \<Rightarrow>
          if code_expired now a then (Inr None, ddel code st)
          else if ac_used a then (Inr None, ddel code st)
          else if ac_client_id a \<noteq> client_id then (Inr None, st)
          else if ac_redirect_uri a \<noteq> redirect_uri then (Inr None, st)
          else (case pkce_check a verifier of
             Inl e \<Rightarrow> (Inl e, st)
           | Inr ok \<Rightarrow>
               if \<not> ok then (Inr None, st)
               else (let a' = a\<lparr>ac_used := True\<rparr> in (Inr (Some a'), dset code a' st))))"

definition get_code_info :: "str \<Rightarrow> auth_code_store \<Rightarrow> authorization_code option" where
  "get_code_info code st = dget st code"

subsection \<open>Redemption, branch by branch\<close>

lemma verify_pkce_s256:
  "encode_ascii v = Some b \<Longrightarrow> verify_pkce v (pkce_s256 b) (Some ''S256'') = Inr True"
  by (simp add: verify_pkce_def)

lemma consume_code_success:
  "fst (consume_code now code cid uri v st) = Inr (Some a) \<longleftrightarrow>
     (\<exists>a0. dget st code = Some a0 \<and> now \<le> ac_expires_at a0 \<and> \<not> ac_used a0
        \<and> ac_client_id a0 = cid \<and> ac_redirect_uri a0 = uri \<and> pkce_check a0 v = Inr True
        \<and> a = a0\<lparr>ac_used := True\<rparr>)"
  by (auto simp: consume_code_def code_expired_def Let_def split: option.splits sum.splits)

lemma consume_code_wf: "dict_wf st \<Longrightarrow> dict_wf (snd (consume_code now code cid uri v st))"
  by (auto simp: consume_code_def Let_def split: option.splits sum.splits)

lemma consume_code_other:
  "code' \<noteq> code \<Longrightarrow> dget (snd (consume_code now code cid uri v st)) code' = dget st code'"
  by (auto simp: consume_code_def Let_def split: option.splits sum.splits)

lemma dhas_consume: "dhas (snd (consume_code now code cid uri v st)) c \<Longrightarrow> dhas st c"
  by (auto simp: consume_code_def dhas_def Let_def split: option.splits sum.splits if_splits)

lemma consume_code_raises:
  assumes "fst (consume_code now code cid uri v st) = Inl e"
  shows "snd (consume_code now code cid uri v st) = st"
  using assms by (auto simp: consume_code_def Let_def split: option.splits sum.splits if_splits)

lemma pkce_check_no_challenge: "\<not> opt_true (ac_code_challenge a) \<Longrightarrow> pkce_check a v = Inr True"
  by (simp add: pkce_check_def)

lemma pkce_check_needs_verifier:
  "opt_true (ac_code_challenge a) \<Longrightarrow> pkce_check a v = Inr True \<Longrightarrow> opt_true v"
  by (auto simp: pkce_check_def split: if_splits)

subsection \<open>The store keeps its contracts\<close>

datatype code_op =
    CreateCode time authorization_code
  | ConsumeCode time str str str "str option"
  | CleanupCodes time

fun code_step :: "code_op \<Rightarrow> auth_code_store
    \<Rightarrow> (encode_error + authorization_code option) option \<times> auth_code_store" where
  "code_step (CreateCode now a) st = (None, snd (create_code now a st))"
| "code_step (ConsumeCode now code cid uri v) st =
     (let (r, st') = consume_code now code cid uri v st in (Some r, st'))"
| "code_step (CleanupCodes now) st = (None, cleanup_expired now st)"

fun redeems :: "str \<Rightarrow> code_op \<Rightarrow> (encode_error + authorization_code option) option \<Rightarrow> bool" where
  "redeems code (ConsumeCode now c cid uri v) (Some (Inr (Some a))) = (c = code)"
| "redeems code _ _ = False"

fun no_reissue :: "str \<Rightarrow> code_op \<Rightarrow> bool" where
  \<comment> \<open>no later draw yields the same code again\<close>
  "no_reissue code (CreateCode now a) = (ac_code a \<noteq> code)"
| "no_reissue code _ = True"

definition code_spent :: "str \<Rightarrow> auth_code_store \<Rightarrow> bool" where
  "code_spent code st \<longleftrightarrow> (\<forall>a. dget st code = Some a \<longrightarrow> ac_used a)"

lemma dget_cleanup: "dict_wf st \<Longrightarrow> dget (cleanup_expired now st) c =
    (case dget st c of None \<Rightarrow> None | Some a \<Rightarrow> if code_expired now a then None else Some a)"
  by (auto simp: cleanup_expired_def dget_dfilter split: option.splits)

lemma cleanup_wf: "dict_wf st \<Longrightarrow> dict_wf (cleanup_expired now st)"
  by (simp add: cleanup_expired_def)

lemma code_step_wf: "dict_wf st \<Longrightarrow> dict_wf (snd (code_step x st))"
  by (cases x) (auto simp: create_code_def cleanup_wf consume_code_wf case_prod_beta Let_def)

lemma redeems_iff:
  "redeems code x r \<longleftrightarrow> (\<exists>now cid uri v a. x = ConsumeCode now code cid uri v \<and> r = Some (Inr (Some a)))"
  by (cases "(code, x, r)" rule: redeems.cases) auto

lemma consume_spends:
  assumes "fst (consume_code now code cid uri v st) = Inr (Some a)"
  shows "code_spent code (snd (consume_code now code cid uri v st))"
  using assms by (auto simp: consume_code_def code_spent_def Let_def split: option.splits sum.splits if_splits)

lemma consume_spent_stays:
  "code_spent code st \<Longrightarrow> code_spent code (snd (consume_code now c cid uri v st))"
  by (auto simp: consume_code_def code_spent_def Let_def split: option.splits sum.splits if_splits)

lemma cleanup_spent_stays:
  "dict_wf st \<Longrightarrow> code_spent code st \<Longrightarrow> code_spent code (cleanup_expired now st)"
  by (auto simp: code_spent_def dget_cleanup split: option.splits)

lemma create_spent_stays:
  "dict_wf st \<Longrightarrow> ac_code a \<noteq> code \<Longrightarrow> code_spent code st \<Longrightarrow> code_spent code (snd (create_code now a st))"
  using cleanup_spent_stays [of st code now] by (simp add: create_code_def code_spent_def)

lemma spent_code_refused:
  "code_spent code st \<Longrightarrow> fst (consume_code now code cid uri v st) \<noteq> Inr (Some a)"
  by (auto simp: consume_code_success code_spent_def)

interpretation codes: expiring_store dget cleanup_expired code_expired dict_wf
  by unfold_locales (auto simp: dget_cleanup cleanup_wf code_expired_def)

interpretation code_redemption: one_time code_step dict_wf no_reissue redeems code_spent
proof
  fix st :: auth_code_store and code x
  assume wf: "dict_wf st"
  then show "dict_wf (snd (code_step x st))" by (rule code_step_wf)
  show "code_spent code (snd (code_step x st))" if "redeems code x (fst (code_step x st))"
    using that by (auto simp: redeems_iff case_prod_beta Let_def dest: consume_spends)
  show "code_spent code (snd (code_step x st))" if "no_reissue code x" "code_spent code st"
    using that wf by (cases x)
      (auto simp: case_prod_beta Let_def
        intro: create_spent_stays consume_spent_stays cleanup_spent_stays)
  show "\<not> redeems code x (fst (code_step x st))" if "code_spent code st"
    using that by (auto simp: redeems_iff case_prod_beta Let_def dest: spent_code_refused)
qed

subsection \<open>PKCE\<close>

text \<open>
  PKCE lets a redemption through exactly when the code carries no challenge, or a verifier is sent
  that equals the challenge (method plain or none) or whose SHA-256 digest in base64url is the
  challenge (method S256).
\<close>

theorem pkce_decision:
  "pkce_check a v = Inr True \<longleftrightarrow>
     (if opt_true (ac_code_challenge a) then
        opt_true v \<and>
        (if ac_code_challenge_method a \<in> {None, Some ''plain''} then v = ac_code_challenge a
         else ac_code_challenge_method a = Some ''S256'' \<and>
           (\<exists>b. encode_ascii (the v) = Some b \<and> Some (b64url (sha256 b)) = ac_code_challenge a))
      else True)"
  by (auto simp: pkce_check_def verify_pkce_def pkce_s256_def opt_true_def split: option.splits)

end
