(* ===== verification/Revocation.thy ===== *)
theory Revocation
  imports Store_Contracts
begin

text \<open>
  \<open>services/revocation.py\<close>: revoked token ids and revoked rotation families, each remembered
  until its expiry, with the three-state trust contract on \<open>expires_at\<close>. \<open>float("inf")\<close> is
  \<open>Never\<close>. Token ids and families are strings, as PyJWT requires of \<open>jti\<close> and as every token
  minted here carries in \<open>rt_family\<close>.
\<close>

subsection \<open>Expiries\<close>

datatype expiry = At time | Never

instantiation expiry :: linorder
begin

fun less_eq_expiry :: "expiry \<Rightarrow> expiry \<Rightarrow> bool" where
  "less_eq_expiry (At a) (At b) \<longleftrightarrow> a \<le> b"
| "less_eq_expiry _ Never \<longleftrightarrow> True"
| "less_eq_expiry Never (At b) \<longleftrightarrow> False"

definition less_expiry :: "expiry \<Rightarrow> expiry \<Rightarrow> bool" where
  "less_expiry a b \<longleftrightarrow> a \<le> b \<and> \<not> b \<le> a"

instance
proof
  fix x y z :: expiry
  show "x < y \<longleftrightarrow> x \<le> y \<and> \<not> y \<le> x" by (simp add: less_expiry_def)
  show "x \<le> x" by (cases x) simp_all
  show "x \<le> y \<Longrightarrow> y \<le> z \<Longrightarrow> x \<le> z" by (cases x; cases y; cases z) simp_all
  show "x \<le> y \<Longrightarrow> y \<le> x \<Longrightarrow> x = y" by (cases x; cases y) simp_all
  show "x \<le> y \<or> y \<le> x" by (cases x; cases y) auto
qed

end

lemma less_expiry_simps [simp]:
  "At a < At b \<longleftrightarrow> a < b" "At a < Never" "Never \<le> At a \<longleftrightarrow> False"
  by (auto simp: less_expiry_def)

lemma expiry_le_Never [simp]: "e \<le> Never"
  by (cases e) simp_all

lemma expiry_between: "At a \<le> e \<Longrightarrow> e \<le> At b \<Longrightarrow> a \<le> b"
  by (cases e) simp_all

datatype expires_at = Unset | NoExp | ExpVal json

definition payload_exp :: "(str, json) dict \<Rightarrow> expires_at" where
  \<comment> \<open>\<open>expires_at=payload.get("exp")\<close>\<close>
  "payload_exp p = (case dget p ''exp'' of None \<Rightarrow> NoExp | Some JNull \<Rightarrow> NoExp | Some v \<Rightarrow> ExpVal v)"

definition default_retention_seconds :: int where
  "default_retention_seconds = 8 * 24 * 3600"

fun scale_us :: "int \<Rightarrow> int \<Rightarrow> time" where
  \<comment> \<open>the number \<open>m * 10 ^ e\<close> of seconds in microseconds\<close>
  "scale_us m e = (if 0 \<le> e + 6 then m * 10 ^ nat (e + 6) else m div 10 ^ nat (- (e + 6)))"

definition py_float :: "str \<Rightarrow> expiry option" where
  \<comment> \<open>\<open>float(s)\<close> as an expiry; a NaN is never swept and counts as \<open>Never\<close>, negative infinity is
      below every clock reading\<close>
  "py_float s =
     (let t = num_strip s; neg = (take 1 t = ''-'');
          u = (if neg \<or> take 1 t = ''+'' then drop 1 t else t); w = py_upper u
      in if w = ''INF'' \<or> w = ''INFINITY'' then Some (if neg then At 0 else Never)
         else if w = ''NAN'' then Some Never
         else map_option (\<lambda>(m, e). At (scale_us (if neg then - m else m) e)) (float_body u))"

fun exp_value :: "json \<Rightarrow> expiry" where
  \<comment> \<open>\<open>float(expires_at)\<close>, failing towards infinity\<close>
  "exp_value (JInt i) = At (secs i)"
| "exp_value (JDec m e) = At (scale_us m (- int e))"
| "exp_value (JBool b) = At (secs (if b then 1 else 0))"
| "exp_value (JStr s) = (case py_float s of Some e \<Rightarrow> e | None \<Rightarrow> Never)"
| "exp_value _ = Never"

fun effective_expiry :: "time \<Rightarrow> expires_at \<Rightarrow> expiry" where
  "effective_expiry now Unset = At (now + secs default_retention_seconds)"
| "effective_expiry now NoExp = Never"
| "effective_expiry now (ExpVal v) =
     (case exp_value v of Never \<Rightarrow> Never | At t \<Rightarrow> max (At t) (At (now + secs 60)))"

subsection \<open>The store\<close>

record revocation_store =
  rv_tokens :: "(str, expiry) dict"
  rv_families :: "(str, expiry) dict"

definition empty_revocation_store :: revocation_store where
  "empty_revocation_store = \<lparr>rv_tokens = [], rv_families = []\<rparr>"

definition entry_over :: "time \<Rightarrow> expiry \<Rightarrow> bool" where
  "entry_over now e \<longleftrightarrow> e \<le> At now"

definition rv_sweep :: "time \<Rightarrow> revocation_store \<Rightarrow> revocation_store" where
  "rv_sweep now st = \<lparr>rv_tokens = dfilter (\<lambda>_ e. \<not> entry_over now e) (rv_tokens st),
                      rv_families = dfilter (\<lambda>_ e. \<not> entry_over now e) (rv_families st)\<rparr>"

definition revoke :: "time \<Rightarrow> str \<Rightarrow> expires_at \<Rightarrow> revocation_store \<Rightarrow> revocation_store" where
  "revoke now token_id arg st =
     (let st1 = rv_sweep now st;
          old = (case dget (rv_tokens st1) token_id of None \<Rightarrow> At 0 | Some e \<Rightarrow> e)
      in st1\<lparr>rv_tokens := dset token_id (max old (effective_expiry now arg)) (rv_tokens st1)\<rparr>)"

definition is_revoked :: "str option \<Rightarrow> revocation_store \<Rightarrow> bool" where
  "is_revoked token_id st \<longleftrightarrow> (case token_id of None \<Rightarrow> False | Some t \<Rightarrow> dhas (rv_tokens st) t)"

definition check_and_claim_refresh :: "time \<Rightarrow> str option \<Rightarrow> str option \<Rightarrow> bool \<Rightarrow> expires_at
    \<Rightarrow> revocation_store \<Rightarrow> bool \<times> revocation_store" where
  "check_and_claim_refresh now jti family rotating arg st =
     (let st1 = rv_sweep now st;
          family_revoked = (opt_true family \<and> dhas (rv_families st1) (the family));
          token_revoked = (jti \<noteq> None \<and> dhas (rv_tokens st1) (the jti))
      in if token_revoked \<or> family_revoked then
           (if rotating \<and> opt_true family \<and> \<not> family_revoked then
              (True, st1\<lparr>rv_families := dset (the family)
                 (effective_expiry now (if arg = NoExp then NoExp else Unset)) (rv_families st1)\<rparr>)
            else (True, st1))
         else if rotating \<and> opt_true jti then
           (False, st1\<lparr>rv_tokens := dset (the jti) (effective_expiry now arg) (rv_tokens st1)\<rparr>)
         else (False, st1))"

definition rv_clear :: "revocation_store \<Rightarrow> revocation_store" where
  "rv_clear st = empty_revocation_store"

subsection \<open>Sweeping\<close>

definition rv_wf :: "revocation_store \<Rightarrow> bool" where
  "rv_wf st \<longleftrightarrow> dict_wf (rv_tokens st) \<and> dict_wf (rv_families st)"

definition token_entry :: "revocation_store \<Rightarrow> str \<Rightarrow> expiry option" where
  "token_entry st = dget (rv_tokens st)"

definition family_entry :: "revocation_store \<Rightarrow> str \<Rightarrow> expiry option" where
  "family_entry st = dget (rv_families st)"

lemma sweep_token_entry: "rv_wf st \<Longrightarrow> token_entry (rv_sweep now st) k =
    (case token_entry st k of None \<Rightarrow> None | Some e \<Rightarrow> if entry_over now e then None else Some e)"
  by (auto simp: token_entry_def rv_sweep_def rv_wf_def dget_dfilter split: option.splits)

lemma sweep_family_entry: "rv_wf st \<Longrightarrow> family_entry (rv_sweep now st) k =
    (case family_entry st k of None \<Rightarrow> None | Some e \<Rightarrow> if entry_over now e then None else Some e)"
  by (auto simp: family_entry_def rv_sweep_def rv_wf_def dget_dfilter split: option.splits)

lemma sweep_wf: "rv_wf st \<Longrightarrow> rv_wf (rv_sweep now st)"
  by (simp add: rv_wf_def rv_sweep_def)

lemma entry_over_mono: "entry_over t e \<Longrightarrow> t \<le> t' \<Longrightarrow> entry_over t' e"
  by (cases e) (simp_all add: entry_over_def)

interpretation revoked_tokens: expiring_store token_entry rv_sweep entry_over rv_wf
  by unfold_locales (auto simp: sweep_token_entry sweep_wf dest: entry_over_mono)

interpretation revoked_families: expiring_store family_entry rv_sweep entry_over rv_wf
  by unfold_locales (auto simp: sweep_family_entry sweep_wf dest: entry_over_mono)

subsection \<open>What the mutating operations do to an entry\<close>

lemma revoke_wf: "rv_wf st \<Longrightarrow> rv_wf (revoke now t arg st)"
  using sweep_wf [of st now] by (simp add: revoke_def Let_def rv_wf_def)

lemma claim_wf: "rv_wf st \<Longrightarrow> rv_wf (snd (check_and_claim_refresh now jti fam rot arg st))"
  using sweep_wf [of st now] by (auto simp: check_and_claim_refresh_def Let_def rv_wf_def)

lemma revoke_token_entry: "token_entry (revoke now t arg st) k =
    (if k = t then Some (max (case token_entry (rv_sweep now st) t of None \<Rightarrow> At 0 | Some e \<Rightarrow> e)
       (effective_expiry now arg))
     else token_entry (rv_sweep now st) k)"
  by (simp add: revoke_def Let_def token_entry_def)

lemma revoke_family_entry: "family_entry (revoke now t arg st) k = family_entry (rv_sweep now st) k"
  by (simp add: revoke_def Let_def family_entry_def)

definition token_seen :: "time \<Rightarrow> str option \<Rightarrow> revocation_store \<Rightarrow> bool" where
  "token_seen now jti st \<longleftrightarrow> jti \<noteq> None \<and> token_entry (rv_sweep now st) (the jti) \<noteq> None"

definition family_seen :: "time \<Rightarrow> str option \<Rightarrow> revocation_store \<Rightarrow> bool" where
  "family_seen now fam st \<longleftrightarrow> opt_true fam \<and> family_entry (rv_sweep now st) (the fam) \<noteq> None"

lemma claim_reuse: "fst (check_and_claim_refresh now jti fam rot arg st) \<longleftrightarrow>
    token_seen now jti st \<or> family_seen now fam st"
  by (auto simp: check_and_claim_refresh_def Let_def token_seen_def family_seen_def token_entry_def
      family_entry_def dhas_def)

lemma claim_token_entry: "token_entry (snd (check_and_claim_refresh now jti fam rot arg st)) k =
    (if \<not> fst (check_and_claim_refresh now jti fam rot arg st) \<and> rot \<and> opt_true jti \<and> k = the jti
     then Some (effective_expiry now arg) else token_entry (rv_sweep now st) k)"
  by (simp add: check_and_claim_refresh_def Let_def token_entry_def)

lemma claim_family_entry: "family_entry (snd (check_and_claim_refresh now jti fam rot arg st)) k =
    (if fst (check_and_claim_refresh now jti fam rot arg st) \<and> rot \<and> opt_true fam
        \<and> \<not> family_seen now fam st \<and> k = the fam
     then Some (effective_expiry now (if arg = NoExp then NoExp else Unset))
     else family_entry (rv_sweep now st) k)"
  by (simp add: check_and_claim_refresh_def Let_def family_entry_def family_seen_def dhas_def)

lemma effective_expiry_later: "At now < effective_expiry now arg"
  by (cases "(now, arg)" rule: effective_expiry.cases)
     (auto simp: default_retention_seconds_def max_def secs_def split: expiry.splits)

lemma effective_expiry_honours: "exp_value v = At t \<Longrightarrow> At t \<le> effective_expiry now (ExpVal v)"
  by (simp add: max_def)

subsection \<open>The store keeps its contracts\<close>

datatype rv_op =
    Revoke time str expires_at
  | Claim time "str option" "str option" bool expires_at

fun rv_time :: "rv_op \<Rightarrow> time" where
  "rv_time (Revoke now t arg) = now"
| "rv_time (Claim now jti fam rot arg) = now"

fun rv_step :: "rv_op \<Rightarrow> revocation_store \<Rightarrow> bool option \<times> revocation_store" where
  "rv_step (Revoke now t arg) st = (None, revoke now t arg st)"
| "rv_step (Claim now jti fam rot arg) st =
     (let (r, st') = check_and_claim_refresh now jti fam rot arg st in (Some r, st'))"

text \<open>A claim of token \<open>j\<close> that rotates and finds no reuse is what mints new tokens.\<close>

fun rotates :: "str \<times> time \<Rightarrow> rv_op \<Rightarrow> bool option \<Rightarrow> bool" where
  "rotates (j, E) (Claim now jti fam rot arg) (Some r) \<longleftrightarrow> jti = Some j \<and> rot \<and> \<not> r"
| "rotates _ _ _ \<longleftrightarrow> False"

text \<open>
  The operations during the life of token \<open>j\<close>, which expires at \<open>E\<close>: the clock is before \<open>E\<close>
  and a claim of \<open>j\<close> passes an \<open>exp\<close> that reaches \<open>E\<close> (the claim of its own payload).
\<close>

fun in_lifetime :: "str \<times> time \<Rightarrow> rv_op \<Rightarrow> bool" where
  "in_lifetime (j, E) x \<longleftrightarrow> rv_time x < E \<and>
     (case x of Claim now jti fam rot arg \<Rightarrow> jti = Some j \<longrightarrow> At E \<le> effective_expiry now arg
      | Revoke now t arg \<Rightarrow> True)"

fun token_spent :: "str \<times> time \<Rightarrow> revocation_store \<Rightarrow> bool" where
  "token_spent (j, E) st \<longleftrightarrow> (\<exists>e. token_entry st j = Some e \<and> At E \<le> e)"

fun family_spent :: "str \<times> time \<Rightarrow> revocation_store \<Rightarrow> bool" where
  "family_spent (f, E) st \<longleftrightarrow> (\<exists>e. family_entry st f = Some e \<and> At E \<le> e)"

fun clock_before :: "str \<times> time \<Rightarrow> rv_op \<Rightarrow> bool" where
  "clock_before (f, E) x \<longleftrightarrow> rv_time x < E"

fun passes_family :: "str \<times> time \<Rightarrow> rv_op \<Rightarrow> bool option \<Rightarrow> bool" where
  "passes_family (f, E) (Claim now jti fam rot arg) (Some r) \<longleftrightarrow> fam = Some f \<and> f \<noteq> [] \<and> \<not> r"
| "passes_family _ _ _ \<longleftrightarrow> False"

lemma rv_step_wf: "rv_wf st \<Longrightarrow> rv_wf (snd (rv_step x st))"
  by (cases x) (auto simp: revoke_wf claim_wf case_prod_beta Let_def)

lemma sweep_keeps_token: "rv_wf st \<Longrightarrow> now < E \<Longrightarrow> token_spent (j, E) st \<Longrightarrow> token_spent (j, E) (rv_sweep now st)"
  by (auto simp: sweep_token_entry entry_over_def not_le [symmetric] dest: expiry_between)

lemma sweep_keeps_family: "rv_wf st \<Longrightarrow> now < E \<Longrightarrow> family_spent (f, E) st \<Longrightarrow> family_spent (f, E) (rv_sweep now st)"
  by (auto simp: sweep_family_entry entry_over_def not_le [symmetric] dest: expiry_between)

lemma claim_spent_token:
  assumes "rv_wf st" "now < E" "token_spent (j, E) st"
  shows "fst (check_and_claim_refresh now (Some j) fam rot arg st)"
  using sweep_keeps_token [OF assms] by (auto simp: claim_reuse token_seen_def)

lemma claim_spent_family:
  assumes "rv_wf st" "now < E" "family_spent (f, E) st" "f \<noteq> []"
  shows "fst (check_and_claim_refresh now jti (Some f) rot arg st)"
  using sweep_keeps_family [OF assms(1-3)] assms(4) by (auto simp: claim_reuse family_seen_def)

lemma step_keeps_token:
  assumes "rv_wf st" "in_lifetime (j, E) x" "token_spent (j, E) st"
  shows "token_spent (j, E) (snd (rv_step x st))"
proof (cases x)
  case (Revoke now t arg)
  with assms sweep_keeps_token [of st now E j] show ?thesis
    by (auto simp: revoke_token_entry le_max_iff_disj)
next
  case (Claim now jti fam rot arg)
  with assms sweep_keeps_token [of st now E j] claim_spent_token [of st now E j fam rot arg]
  show ?thesis by (cases jti) (auto simp: case_prod_beta Let_def claim_token_entry)
qed

lemma step_keeps_family:
  assumes "rv_wf st" "clock_before (f, E) x" "family_spent (f, E) st"
  shows "family_spent (f, E) (snd (rv_step x st))"
proof (cases x)
  case (Revoke now t arg)
  with assms sweep_keeps_family [of st now E f] show ?thesis by (auto simp: revoke_family_entry)
next
  case (Claim now jti fam rot arg)
  with assms sweep_keeps_family [of st now E f] show ?thesis
    by (auto simp: case_prod_beta Let_def claim_family_entry family_seen_def)
qed

lemma rotates_iff: "rotates (j, E) x r \<longleftrightarrow> (\<exists>now fam arg. x = Claim now (Some j) fam True arg \<and> r = Some False)"
  by (cases "((j, E), x, r)" rule: rotates.cases) auto

lemma passes_family_iff: "passes_family (f, E) x r \<longleftrightarrow>
    (\<exists>now jti rot arg. x = Claim now jti (Some f) rot arg \<and> f \<noteq> [] \<and> r = Some False)"
  by (cases "((f, E), x, r)" rule: passes_family.cases) auto

interpretation rotation: one_time rv_step rv_wf "\<lambda>k x. fst k \<noteq> [] \<and> in_lifetime k x" rotates token_spent
proof
  fix st :: revocation_store and k :: "str \<times> time" and x :: rv_op
  assume wf: "rv_wf st"
  obtain j E where k: "k = (j, E)" by (cases k)
  show "rv_wf (snd (rv_step x st))" using wf by (rule rv_step_wf)
  assume ok: "fst k \<noteq> [] \<and> in_lifetime k x"
  show "token_spent k (snd (rv_step x st))" if "token_spent k st"
    using that wf ok k step_keeps_token by blast
  show "\<not> rotates k x (fst (rv_step x st))" if "token_spent k st"
    using that wf ok claim_spent_token [of st _ E j] unfolding k
    by (auto simp: rotates_iff case_prod_beta Let_def)
  show "token_spent k (snd (rv_step x st))" if "rotates k x (fst (rv_step x st))"
    using that ok unfolding k
    by (auto simp: rotates_iff case_prod_beta Let_def claim_token_entry)
qed

interpretation families: blocking rv_step rv_wf clock_before passes_family family_spent
proof
  fix st :: revocation_store and k :: "str \<times> time" and x :: rv_op
  assume wf: "rv_wf st"
  obtain f E where k: "k = (f, E)" by (cases k)
  show "rv_wf (snd (rv_step x st))" using wf by (rule rv_step_wf)
  assume ok: "clock_before k x"
  show "family_spent k (snd (rv_step x st))" if "family_spent k st"
    using that wf ok k step_keeps_family by blast
  show "\<not> passes_family k x (fst (rv_step x st))" if "family_spent k st"
    using that wf ok claim_spent_family [of st _ E f] unfolding k
    by (auto simp: passes_family_iff case_prod_beta Let_def)
qed

subsection \<open>Reuse\<close>

text \<open>
  C36. When a rotated refresh token comes back, its family is revoked: until the retention period is
  over, no token of that family is redeemed, whatever operations follow.
\<close>

theorem reuse_kills_the_family:
  assumes "rv_wf st" "fst (check_and_claim_refresh now jti (Some f) True arg st)" "f \<noteq> []"
    and "\<not> family_seen now (Some f) st"
    and "\<forall>x \<in> set xs. rv_time x < now + secs default_retention_seconds"
  shows "wins_in rv_step (passes_family (f, now + secs default_retention_seconds)) xs
    (snd (check_and_claim_refresh now jti (Some f) True arg st)) = 0"
proof (rule families.spent_no_wins)
  show "rv_wf (snd (check_and_claim_refresh now jti (Some f) True arg st))" by (rule claim_wf [OF assms(1)])
  show "\<forall>x \<in> set xs. clock_before (f, now + secs default_retention_seconds) x" using assms(5) by simp
  show "family_spent (f, now + secs default_retention_seconds)
      (snd (check_and_claim_refresh now jti (Some f) True arg st))"
    using assms(2-4) by (cases "arg = NoExp") (auto simp: claim_family_entry opt_true_def)
qed

theorem reuse_kills_the_family_witness:
  "wins_in rv_step (passes_family (''f'', 5 + secs default_retention_seconds))
     [Claim 6 (Some ''other'') (Some ''f'') True Unset]
     (snd (check_and_claim_refresh 5 (Some ''j'') (Some ''f'') True Unset
        (revoke 4 ''j'' Unset empty_revocation_store))) = 0"
  by (rule reuse_kills_the_family) code_simp+

end
