(* ===== verification/Urls.thy ===== *)
theory Urls
  imports Nano_Prelude
begin

text \<open>
  \<open>urllib.parse\<close> and \<open>ipaddress\<close>, as far as \<open>services/redirect_uri.py\<close>,
  \<open>services/resource.py\<close> and \<open>services/discovery.py\<close> use them (CPython 3.11): splitting a URL,
  host name and port of the authority, IPv6 literals, and form encoding of a query.
  \<open>None\<close> stands for a raised \<open>ValueError\<close>.
\<close>

subsection \<open>Cutting strings\<close>

definition cut_before :: "char \<Rightarrow> str \<Rightarrow> str" where
  \<comment> \<open>\<open>s.partition(c)[0]\<close>\<close>
  "cut_before c s = takeWhile (\<lambda>x. x \<noteq> c) s"

definition cut_after :: "char \<Rightarrow> str \<Rightarrow> str" where
  \<comment> \<open>\<open>s.partition(c)[2]\<close>\<close>
  "cut_after c s = drop 1 (dropWhile (\<lambda>x. x \<noteq> c) s)"

definition rafter :: "char \<Rightarrow> str \<Rightarrow> str" where
  \<comment> \<open>\<open>s.rpartition(c)[2]\<close>\<close>
  "rafter c s = rev (takeWhile (\<lambda>x. x \<noteq> c) (rev s))"

definition rbefore :: "char \<Rightarrow> str \<Rightarrow> str" where
  \<comment> \<open>\<open>s.rpartition(c)[0]\<close>\<close>
  "rbefore c s = rev (drop 1 (dropWhile (\<lambda>x. x \<noteq> c) (rev s)))"

fun split_on :: "char \<Rightarrow> str \<Rightarrow> str list" where
  \<comment> \<open>\<open>s.split(c)\<close>\<close>
  "split_on c [] = [[]]"
| "split_on c (x # xs) =
     (if x = c then [] # split_on c xs
      else case split_on c xs of [] \<Rightarrow> [[x]] | w # ws \<Rightarrow> (x # w) # ws)"

fun find_sub :: "str \<Rightarrow> str \<Rightarrow> nat option" where
  \<comment> \<open>\<open>s.find(p)\<close>, \<open>None\<close> for -1\<close>
  "find_sub p [] = (if p = [] then Some 0 else None)"
| "find_sub p (x # xs) = (if starts_with (x # xs) p then Some 0 else map_option Suc (find_sub p xs))"

definition ends_with :: "str \<Rightarrow> str \<Rightarrow> bool" where
  "ends_with s p \<longleftrightarrow> starts_with (rev s) (rev p)"

definition is_hex :: "char \<Rightarrow> bool" where
  "is_hex c \<longleftrightarrow> is_digit c \<or> (let n = of_char c :: nat in (65 \<le> n \<and> n \<le> 70) \<or> (97 \<le> n \<and> n \<le> 102))"

lemma cut_before_after: "c \<in> set s \<Longrightarrow> s = cut_before c s @ c # cut_after c s"
  by (induction s) (auto simp: cut_before_def cut_after_def)

lemma cut_before_notin: "c \<notin> set (cut_before c s)"
  by (auto simp: cut_before_def dest: set_takeWhileD)

lemma cut_after_Nil: "c \<notin> set s \<Longrightarrow> cut_after c s = []"
  by (induction s) (auto simp: cut_after_def)

lemma rbefore_rafter: "c \<in> set s \<Longrightarrow> s = rbefore c s @ c # rafter c s"
proof -
  assume "c \<in> set s"
  then have "rev s = cut_before c (rev s) @ c # cut_after c (rev s)" by (intro cut_before_after) simp
  then have "rev (rev s) = rev (cut_before c (rev s) @ c # cut_after c (rev s))" by (rule arg_cong)
  then show ?thesis by (simp add: cut_before_def cut_after_def rbefore_def rafter_def)
qed

lemma takeWhile_upto: "c \<notin> set p \<Longrightarrow> takeWhile (\<lambda>x. x \<noteq> c) (p @ q) = p @ takeWhile (\<lambda>x. x \<noteq> c) q"
  by (induction p) auto

lemma rafter_self: "c \<notin> set s \<Longrightarrow> rafter c s = s"
  using takeWhile_upto [of c "rev s" "[]"] by (simp add: rafter_def del: takeWhile_eq_all_conv)

lemma rafter_append: "c \<notin> set p \<Longrightarrow> rafter c (x @ c # p) = p"
  using takeWhile_upto [of c "rev p" "c # rev x"] by (simp add: rafter_def)

lemma cut_before_append: "c \<notin> set p \<Longrightarrow> cut_before c (p @ c # x) = p"
  using takeWhile_upto [of c p "c # x"] by (simp add: cut_before_def)

lemma cut_after_append: "c \<notin> set p \<Longrightarrow> cut_after c (p @ c # x) = x"
  by (induction p) (auto simp: cut_after_def)

subsection \<open>IP literals\<close>

definition ipv4_octet_ok :: "str \<Rightarrow> bool" where
  "ipv4_octet_ok o4 \<longleftrightarrow> o4 \<noteq> [] \<and> list_all is_digit o4 \<and> length o4 \<le> 3
     \<and> \<not> (o4 \<noteq> ''0'' \<and> take 1 o4 = ''0'') \<and> foldl (\<lambda>a c. 10 * a + digit_val c) 0 o4 \<le> 255"

definition ipv4_ok :: "str \<Rightarrow> bool" where
  "ipv4_ok s \<longleftrightarrow> length (split_on CHR ''.'' s) = 4 \<and> list_all ipv4_octet_ok (split_on CHR ''.'' s)"

definition hextet_ok :: "str \<Rightarrow> bool" where
  "hextet_ok h \<longleftrightarrow> h \<noteq> [] \<and> list_all is_hex h \<and> length h \<le> 4"

definition ipv6_parts_ok :: "str list \<Rightarrow> bool" where
  \<comment> \<open>\<open>IPv6Address._ip_int_from_string\<close> after the dotted quad is replaced by two hextets\<close>
  "ipv6_parts_ok parts \<longleftrightarrow>
     (let n = length parts;
          gaps = filter (\<lambda>i. parts ! i = []) [1..<n - 1]
      in n \<le> 9 \<and>
         (case gaps of
            [] \<Rightarrow> n = 8 \<and> list_all hextet_ok parts
          | [k] \<Rightarrow>
              (let hi = (if parts ! 0 = [] then k - 1 else k);
                   lo = (if last parts = [] then n - k - 2 else n - k - 1)
               in (parts ! 0 = [] \<longrightarrow> hi = 0) \<and> (last parts = [] \<longrightarrow> lo = 0) \<and> hi + lo \<le> 7
                  \<and> list_all hextet_ok (take hi parts) \<and> list_all hextet_ok (drop (n - lo) parts))
          | _ \<Rightarrow> False))"

definition ipv6_ok :: "str \<Rightarrow> bool" where
  \<comment> \<open>\<open>ipaddress.IPv6Address(s)\<close> does not raise\<close>
  "ipv6_ok s \<longleftrightarrow>
     CHR ''/'' \<notin> set s \<and>
     (let a = cut_before CHR ''%'' s; scope = cut_after CHR ''%'' s in
      \<not> (CHR ''%'' \<in> set s \<and> (scope = [] \<or> CHR ''%'' \<in> set scope)) \<and> a \<noteq> [] \<and>
      (let parts = split_on CHR '':'' a in
       3 \<le> length parts \<and>
       (if CHR ''.'' \<in> set (last parts) then
          ipv4_ok (last parts) \<and> ipv6_parts_ok (butlast parts @ [''0'', ''0''])
        else ipv6_parts_ok parts)))"

subsection \<open>Splitting a URL\<close>

record split_url =
  sp_scheme :: str
  sp_netloc :: str
  sp_path :: str
  sp_query :: str
  sp_fragment :: str

definition c0_or_space :: "char \<Rightarrow> bool" where
  "c0_or_space c \<longleftrightarrow> (of_char c :: nat) \<le> 32"

definition tab_or_newline :: "char \<Rightarrow> bool" where
  "tab_or_newline c \<longleftrightarrow> c \<in> set [CHR 0x09, CHR 0x0D, CHR 0x0A]"

definition scheme_char :: "char \<Rightarrow> bool" where
  "scheme_char c \<longleftrightarrow> is_alpha c \<or> is_digit c \<or> c \<in> set ''+-.''"

definition url_clean :: "str \<Rightarrow> str" where
  "url_clean u = filter (\<lambda>c. \<not> tab_or_newline c) (dropWhile c0_or_space u)"

definition cut_scheme :: "str \<Rightarrow> str \<times> str" where
  "cut_scheme u =
     (let s = cut_before CHR '':'' u in
      if CHR '':'' \<in> set u \<and> s \<noteq> [] \<and> is_alpha (hd s) \<and> list_all scheme_char s
      then (py_lower s, cut_after CHR '':'' u) else ([], u))"

definition bracket_host_ok :: "str \<Rightarrow> bool" where
  \<comment> \<open>\<open>_check_bracketed_host\<close> does not raise\<close>
  "bracket_host_ok h \<longleftrightarrow>
     (if take 1 h = ''v'' then
        (let r = drop 1 h; d = takeWhile is_hex r; t = dropWhile is_hex r in
         d \<noteq> [] \<and> take 1 t = ''.'' \<and> drop 1 t \<noteq> [] \<and> CHR 0x0A \<notin> set (drop 1 t))
      else ipv6_ok h)"

definition netloc_ok :: "str \<Rightarrow> bool" where
  "netloc_ok n \<longleftrightarrow>
     (CHR ''['' \<in> set n \<longleftrightarrow> CHR '']'' \<in> set n) \<and>
     (CHR ''['' \<in> set n \<longrightarrow> bracket_host_ok (cut_before CHR '']'' (cut_after CHR ''['' n)))"

definition netloc_char :: "char \<Rightarrow> bool" where
  "netloc_char c \<longleftrightarrow> c \<notin> set ''/?#''"

definition urlsplit :: "str \<Rightarrow> split_url option" where
  "urlsplit url =
     (let (scheme, u) = cut_scheme (url_clean url);
          has_net = (take 2 u = ''//'');
          netloc = (if has_net then takeWhile netloc_char (drop 2 u) else []);
          rest = (if has_net then dropWhile netloc_char (drop 2 u) else u)
      in if \<not> netloc_ok netloc then None
         else
           let nofrag = cut_before CHR ''#'' rest in
           Some \<lparr>sp_scheme = scheme, sp_netloc = netloc, sp_path = cut_before CHR ''?'' nofrag,
                 sp_query = cut_after CHR ''?'' nofrag, sp_fragment = cut_after CHR ''#'' rest\<rparr>)"

definition uses_params :: "str list" where
  "uses_params = [[], ''ftp'', ''hdl'', ''prospero'', ''http'', ''https'', ''shttp'', ''rtsp'', ''rtsps'',
     ''rtspu'', ''sip'', ''sips'', ''mms'', ''sftp'', ''tel'']"

definition cut_params :: "str \<Rightarrow> str" where
  \<comment> \<open>the path of \<open>_splitparams\<close>: the part before the first semicolon of the last segment\<close>
  "cut_params p =
     (if CHR ''/'' \<in> set p then rbefore CHR ''/'' p @ ''/'' @ cut_before CHR '';'' (rafter CHR ''/'' p)
      else cut_before CHR '';'' p)"

definition urlparse :: "str \<Rightarrow> split_url option" where
  "urlparse url = map_option (\<lambda>p. if sp_scheme p \<in> set uses_params \<and> CHR '';'' \<in> set (sp_path p)
     then p\<lparr>sp_path := cut_params (sp_path p)\<rparr> else p) (urlsplit url)"

definition host_port :: "str \<Rightarrow> str \<times> str" where
  \<comment> \<open>\<open>_hostinfo\<close>, the missing port as the empty string\<close>
  "host_port netloc =
     (let info = rafter CHR ''@'' netloc in
      if CHR ''['' \<in> set info then
        (cut_before CHR '']'' (cut_after CHR ''['' info), cut_after CHR '':'' (cut_after CHR '']'' (cut_after CHR ''['' info)))
      else (cut_before CHR '':'' info, cut_after CHR '':'' info))"

definition url_hostname :: "split_url \<Rightarrow> str option" where
  "url_hostname p =
     (let h = fst (host_port (sp_netloc p)) in
      if h = [] then None
      else Some (py_lower (cut_before CHR ''%'' h) @ dropWhile (\<lambda>c. c \<noteq> CHR ''%'') h))"

definition url_port :: "split_url \<Rightarrow> int option option" where
  \<comment> \<open>\<open>None\<close>: \<open>ValueError\<close>; \<open>Some None\<close>: no port\<close>
  "url_port p =
     (let s = snd (host_port (sp_netloc p)) in
      if s = [] then Some None
      else if list_all is_digit s \<and> foldl (\<lambda>a c. 10 * a + digit_val c) 0 s \<le> 65535
        then Some (Some (foldl (\<lambda>a c. 10 * a + digit_val c) 0 s))
      else None)"

lemma urlparse_netloc: "urlparse u = Some p \<Longrightarrow> \<exists>q. urlsplit u = Some q \<and> sp_netloc p = sp_netloc q
    \<and> sp_scheme p = sp_scheme q"
  by (auto simp: urlparse_def)

text \<open>A port in the authority is its text after the last colon.\<close>

lemma host_port_suffix:
  assumes "snd (host_port n) = p" "p \<noteq> []" "CHR '':'' \<notin> set p"
  shows "\<exists>a. n = a @ CHR '':'' # p"
proof -
  have cut: "\<exists>b. s = b @ CHR '':'' # cut_after CHR '':'' s" if "cut_after CHR '':'' s \<noteq> []" for s
    using that cut_before_after [of "CHR '':''" s] cut_after_Nil by blast
  have suf: "\<exists>b. s = b @ cut_after c s" for c s
    by (cases "c \<in> set s") (metis append.assoc append_Cons append_Nil cut_before_after, auto simp: cut_after_Nil)
  have rsuf: "\<exists>b. s = b @ rafter c s" for c s
    by (cases "c \<in> set s") (metis append.assoc append_Cons append_Nil rbefore_rafter, auto simp: rafter_self)
  show ?thesis
  proof (cases "CHR ''['' \<in> set (rafter CHR ''@'' n)")
    case True
    with assms have "cut_after CHR '':'' (cut_after CHR '']'' (cut_after CHR ''['' (rafter CHR ''@'' n))) = p"
      by (simp add: host_port_def Let_def)
    with assms(2) cut suf rsuf show ?thesis by (metis append.assoc)
  next
    case False
    with assms have "cut_after CHR '':'' (rafter CHR ''@'' n) = p" by (simp add: host_port_def Let_def)
    with assms(2) cut rsuf show ?thesis by (metis append.assoc)
  qed
qed

subsection \<open>Form encoding\<close>

definition quote_safe :: "char \<Rightarrow> bool" where
  "quote_safe c \<longleftrightarrow> is_alpha c \<or> is_digit c \<or> c \<in> set ''_.-~''"

definition hex_upper :: "nat \<Rightarrow> char" where
  "hex_upper n = (if n < 10 then char_of (48 + n) else char_of (55 + n))"

definition pct_byte :: "nat \<Rightarrow> str" where
  "pct_byte b = [CHR ''%'', hex_upper (b div 16), hex_upper (b mod 16)]"

definition quote_char :: "char \<Rightarrow> str" where
  \<comment> \<open>\<open>quote_plus\<close> of one code point, over its UTF-8 bytes\<close>
  "quote_char c = (let n = of_char c :: nat in
     if quote_safe c then [c] else if c = CHR '' '' then ''+''
     else if n < 128 then pct_byte n else pct_byte (192 + n div 64) @ pct_byte (128 + n mod 64))"

definition quote_plus :: "str \<Rightarrow> str" where
  "quote_plus s = concat (map quote_char s)"

definition urlencode :: "(str, str) dict \<Rightarrow> str" where
  "urlencode params = join ''&'' (map (\<lambda>(k, v). quote_plus k @ ''='' @ quote_plus v) params)"

end
