(* ===== verification/Redirect_Uri.thy ===== *)
theory Redirect_Uri
  imports Urls
begin

text \<open>
  \<open>services/redirect_uri.py\<close>: the syntactic gate on a \<open>redirect_uri\<close>, its comparison with the
  registered values (simple string comparison, except for the port of a registered loopback
  URI, RFC 8252 section 7.3) and the construction of an authorization response URI.
\<close>

definition append_authorization_params :: "str \<Rightarrow> (str, str) dict \<Rightarrow> str" where
  "append_authorization_params uri params =
     uri @ (if CHR ''?'' \<in> set uri then ''&'' else ''?'') @ urlencode params"

definition loopback_hosts :: "str list" where
  "loopback_hosts = [''127.0.0.1'', ''::1'']"

definition is_absolute_redirect_uri :: "str \<Rightarrow> bool" where
  "is_absolute_redirect_uri uri =
     (case urlparse uri of
        None \<Rightarrow> False
      | Some p \<Rightarrow>
          if sp_scheme p = [] then False
          else if sp_netloc p = [] \<and> sp_path p = [] then False
          else if sp_fragment p \<noteq> [] \<or> ends_with uri ''#'' then False
          else True)"

definition web_schemes :: "str list" where
  "web_schemes = [''http'', ''https'']"

definition private_scheme_reason :: str where
  "private_scheme_reason =
     ''Invalid redirect_uri: private-use scheme must be reverse-domain based, e.g. com.example.app:/callback (RFC 8252 section 7.1)''"

definition has_acceptable_scheme :: "str \<Rightarrow> bool" where
  "has_acceptable_scheme uri =
     (case urlparse uri of
        None \<Rightarrow> False
      | Some p \<Rightarrow> sp_scheme p \<in> set web_schemes \<or> CHR ''.'' \<in> set (sp_scheme p))"

definition redirect_uri_rejection_reason :: "str \<Rightarrow> str option" where
  "redirect_uri_rejection_reason uri =
     (if \<not> is_absolute_redirect_uri uri then Some ''Invalid redirect_uri''
      else if \<not> has_acceptable_scheme uri then Some private_scheme_reason
      else None)"

definition is_loopback_redirect_uri :: "str \<Rightarrow> bool" where
  "is_loopback_redirect_uri uri =
     (case urlparse uri of
        None \<Rightarrow> False
      | Some p \<Rightarrow> sp_scheme p = ''http'' \<and> (\<exists>h \<in> set loopback_hosts. url_hostname p = Some h))"

definition strip_loopback_port :: "str \<Rightarrow> str option" where
  "strip_loopback_port uri =
     (case urlparse uri of
        None \<Rightarrow> None
      | Some p \<Rightarrow>
          (case url_port p of
             None \<Rightarrow> None
           | Some port \<Rightarrow>
               if sp_netloc p = [] then None
               else (case find_sub ''//'' uri of
                  None \<Rightarrow> None
                | Some i \<Rightarrow>
                    (let start = i + 2; fin = start + length (sp_netloc p) in
                     if take (length (sp_netloc p)) (drop start uri) \<noteq> sp_netloc p then None
                     else if port = None then Some uri
                     else
                       (let suffix = '':'' @ rafter CHR '':'' (sp_netloc p) in
                        Some (take (fin - length suffix) uri @ drop fin uri))))))"

definition redirect_uri_matches :: "str \<Rightarrow> str \<Rightarrow> bool" where
  "redirect_uri_matches requested registered =
     (if requested = registered then True
      else if \<not> is_loopback_redirect_uri registered then False
      else if \<not> is_loopback_redirect_uri requested then False
      else (case (strip_loopback_port requested, strip_loopback_port registered) of
              (Some a, Some b) \<Rightarrow> a = b
            | _ \<Rightarrow> False))"

definition redirect_uri_is_registered :: "str \<Rightarrow> str list \<Rightarrow> bool" where
  "redirect_uri_is_registered requested registered_uris =
     (\<exists>r \<in> set registered_uris. redirect_uri_matches requested r)"

subsection \<open>Only the port is variable\<close>

text \<open>The same URI with a port component \<open>":" *DIGIT\<close> deleted somewhere, or nothing.\<close>

definition port_deleted :: "str \<Rightarrow> str \<Rightarrow> bool" where
  "port_deleted uri r \<longleftrightarrow> r = uri \<or>
     (\<exists>a ds b. uri = a @ '':'' @ ds @ b \<and> r = a @ b \<and> list_all is_digit ds)"

lemma digits_no_colon: "list_all is_digit ds \<Longrightarrow> CHR '':'' \<notin> set ds"
  by (auto simp: list_all_iff is_digit_def)

lemma url_port_text:
  assumes "url_port p = Some (Some n)"
  shows "\<exists>a. sp_netloc p = a @ '':'' @ rafter CHR '':'' (sp_netloc p)
    \<and> list_all is_digit (rafter CHR '':'' (sp_netloc p))"
proof -
  define s where "s = snd (host_port (sp_netloc p))"
  have s: "s \<noteq> []" "list_all is_digit s"
    using assms by (auto simp: url_port_def s_def Let_def split: if_splits)
  then obtain a where a: "sp_netloc p = a @ CHR '':'' # s"
    using host_port_suffix [of "sp_netloc p" s] s_def digits_no_colon by blast
  then have "rafter CHR '':'' (sp_netloc p) = s" using s(2) by (simp add: rafter_append digits_no_colon)
  then show ?thesis using a s(2) by auto
qed

lemma find_sub_bound: "find_sub p u = Some i \<Longrightarrow> i + length p \<le> length u"
proof (induction u arbitrary: i)
  case (Cons x xs)
  show ?case
  proof (cases "starts_with (x # xs) p")
    case True
    then have "length p \<le> length (x # xs)" by (metis length_take min.cobounded1 starts_with_def)
    then show ?thesis using True Cons.prems by simp
  next
    case False
    then show ?thesis using Cons by auto
  qed
qed (auto split: if_splits)

lemma cut_out:
  assumes "take (length n) (drop k u) = n" "n = a @ x" "k \<le> length u"
  shows "u = (take k u @ a) @ x @ drop (k + length n) u"
    "take (k + length n - length x) u @ drop (k + length n) u = (take k u @ a) @ drop (k + length n) u"
proof -
  have "u = take k u @ take (length n) (drop k u) @ drop (k + length n) u"
    by (metis append_take_drop_id drop_drop add.commute)
  then show u: "u = (take k u @ a) @ x @ drop (k + length n) u" using assms by simp
  have "length (take k u @ a) = k + length n - length x" using assms(2,3) by simp
  then show "take (k + length n - length x) u @ drop (k + length n) u = (take k u @ a) @ drop (k + length n) u"
    using u by (metis append_eq_conv_conj)
qed

lemma strip_loopback_port_deletes:
  assumes "strip_loopback_port uri = Some r"
  shows "port_deleted uri r"
proof -
  obtain p where p1: "urlparse uri = Some p"
    using assms by (cases "urlparse uri") (simp_all add: strip_loopback_port_def)
  obtain port where p2: "url_port p = Some port"
    using assms p1 by (cases "url_port p") (simp_all add: strip_loopback_port_def)
  have ne: "sp_netloc p \<noteq> []"
    using assms p1 p2 by (cases "sp_netloc p = []") (simp_all add: strip_loopback_port_def)
  obtain i where i: "find_sub ''//'' uri = Some i"
    using assms p1 p2 ne by (cases "find_sub ''//'' uri") (simp_all add: strip_loopback_port_def)
  have at: "take (length (sp_netloc p)) (drop (i + 2) uri) = sp_netloc p"
    using assms p1 p2 ne i by (rule_tac ccontr) (simp add: strip_loopback_port_def Let_def)
  then have r: "r = (if port = None then uri
       else take (i + 2 + length (sp_netloc p) - length ('':'' @ rafter CHR '':'' (sp_netloc p))) uri
         @ drop (i + 2 + length (sp_netloc p)) uri)"
    using assms p1 p2 ne i by (cases port) (simp_all add: strip_loopback_port_def Let_def)
  show ?thesis
  proof (cases port)
    case None
    then show ?thesis using r by (simp add: port_deleted_def)
  next
    case (Some n)
    then obtain a where a: "sp_netloc p = a @ '':'' @ rafter CHR '':'' (sp_netloc p)"
      and ds: "list_all is_digit (rafter CHR '':'' (sp_netloc p))"
      using url_port_text p2 by blast
    have "i + 2 \<le> length uri" using find_sub_bound [OF i] by simp
    note cut = cut_out [OF at a this]
    have "r = (take (i + 2) uri @ a) @ drop (i + 2 + length (sp_netloc p)) uri"
      using r Some cut(2) by simp
    moreover have "uri = (take (i + 2) uri @ a) @ '':'' @ rafter CHR '':'' (sp_netloc p)
        @ drop (i + 2 + length (sp_netloc p)) uri"
      using cut(1) by simp
    ultimately show ?thesis using ds unfolding port_deleted_def by blast
  qed
qed

lemma matches_cases:
  assumes "redirect_uri_matches req reg"
  shows "req = reg \<or> (is_loopback_redirect_uri reg \<and> is_loopback_redirect_uri req
    \<and> (\<exists>r. strip_loopback_port req = Some r \<and> strip_loopback_port reg = Some r))"
  using assms by (auto simp: redirect_uri_matches_def split: if_splits option.splits)

subsection \<open>The match\<close>

text \<open>
  A requested redirect URI that matches a registered one is that URI, or both are loopback URIs
  that become the same text once a port is deleted from each: nothing else of the URI may vary.
\<close>

theorem redirect_matches_up_to_the_port:
  assumes "redirect_uri_matches requested registered"
  shows "requested = registered \<or>
    (is_loopback_redirect_uri requested \<and> is_loopback_redirect_uri registered
      \<and> (\<exists>r. port_deleted requested r \<and> port_deleted registered r))"
  using matches_cases [OF assms] strip_loopback_port_deletes by blast

lemma redirect_sample: "redirect_uri_matches ''http://127.0.0.1:5/cb'' ''http://127.0.0.1/cb''"
  by code_simp

theorem redirect_matches_up_to_the_port_witness:
  "redirect_uri_matches ''http://127.0.0.1:5/cb'' ''http://127.0.0.1/cb'' \<and>
   (\<exists>r. port_deleted ''http://127.0.0.1:5/cb'' r \<and> port_deleted ''http://127.0.0.1/cb'' r)"
  using redirect_sample redirect_matches_up_to_the_port [OF redirect_sample] by simp

end
