(* ===== verification/Audit_Log.thy ===== *)
theory Audit_Log
  imports Nano_Prelude
begin

text \<open>
  \<open>services/audit.py\<close>: the in-memory audit log with its size limit and counters. The deque with
  \<open>maxlen\<close> is a list whose oldest entry comes first.
\<close>

record audit_entry =
  ae_timestamp :: time
  ae_event_type :: str
  ae_username :: "str option"
  ae_client_id :: "str option"
  ae_ip_address :: str
  ae_user_agent :: str
  ae_endpoint :: str
  ae_method :: str
  ae_status :: str
  ae_details :: "(str, json) dict"

record audit_log =
  al_max_entries :: nat
  al_entries :: "audit_entry list"
  al_stats :: "(str, int) dict"

definition zero_stats :: "(str, int) dict" where
  "zero_stats = [(''total_requests'', 0), (''token_requests'', 0), (''saml_sso_requests'', 0),
     (''saml_attribute_queries'', 0), (''login_attempts'', 0), (''successful_logins'', 0),
     (''failed_logins'', 0)]"

definition new_audit_log :: "nat \<Rightarrow> audit_log" where
  "new_audit_log n = \<lparr>al_max_entries = n, al_entries = [], al_stats = zero_stats\<rparr>"

definition bump :: "str \<Rightarrow> (str, int) dict \<Rightarrow> (str, int) dict" where
  \<comment> \<open>\<open>self._stats[k] += 1\<close>; every key is there from the start\<close>
  "bump k d = dset k ((case dget d k of None \<Rightarrow> 0 | Some n \<Rightarrow> n) + 1) d"

definition update_stats :: "str \<Rightarrow> str \<Rightarrow> (str, int) dict \<Rightarrow> (str, int) dict" where
  "update_stats event_type st d0 =
     (let d = bump ''total_requests'' d0 in
      if event_type = ''token_request'' then bump ''token_requests'' d
      else if event_type = ''saml_request'' then bump ''saml_sso_requests'' d
      else if event_type = ''saml_attribute_query'' then bump ''saml_attribute_queries'' d
      else if event_type = ''login'' then
        (let d' = bump ''login_attempts'' d in
         if st = ''success'' then bump ''successful_logins'' d' else bump ''failed_logins'' d')
      else d)"

definition push_bounded :: "nat \<Rightarrow> 'a \<Rightarrow> 'a list \<Rightarrow> 'a list" where
  \<comment> \<open>\<open>deque(maxlen=n).append(x)\<close>\<close>
  "push_bounded n x xs = drop (Suc (length xs) - n) (xs @ [x])"

definition log_entry :: "audit_entry \<Rightarrow> audit_log \<Rightarrow> audit_log" where
  "log_entry e al = al\<lparr>al_entries := push_bounded (al_max_entries al) e (al_entries al),
     al_stats := update_stats (ae_event_type e) (ae_status e) (al_stats al)\<rparr>"

definition py_take :: "int \<Rightarrow> 'a list \<Rightarrow> 'a list" where
  \<comment> \<open>\<open>xs[:n]\<close>, a negative bound counting from the end\<close>
  "py_take n xs = (if 0 \<le> n then take (nat n) xs else take (length xs - nat (- n)) xs)"

definition get_entries :: "int \<Rightarrow> str option \<Rightarrow> str option \<Rightarrow> str option \<Rightarrow> audit_log \<Rightarrow> audit_entry list" where
  "get_entries limit event_type username client_id al =
     (let es = al_entries al;
          es = (if opt_true event_type then filter (\<lambda>e. ae_event_type e = the event_type) es else es);
          es = (if opt_true username then filter (\<lambda>e. ae_username e = username) es else es);
          es = (if opt_true client_id then filter (\<lambda>e. ae_client_id e = client_id) es else es)
      in py_take limit (sort_key (\<lambda>e. - ae_timestamp e) es))"

definition get_unique_client_ids :: "audit_log \<Rightarrow> str list" where
  "get_unique_client_ids al =
     sorted_set (map (\<lambda>e. the (ae_client_id e)) (filter (\<lambda>e. opt_true (ae_client_id e)) (al_entries al)))"

definition audit_clear :: "audit_log \<Rightarrow> audit_log" where
  "audit_clear al = al\<lparr>al_entries := [], al_stats := zero_stats\<rparr>"

subsection \<open>Size and order\<close>

definition audit_bounded :: "audit_log \<Rightarrow> bool" where
  "audit_bounded al \<longleftrightarrow> length (al_entries al) \<le> al_max_entries al"

lemma log_entry_bounded: "audit_bounded al \<Longrightarrow> audit_bounded (log_entry e al)"
  by (auto simp: audit_bounded_def log_entry_def push_bounded_def)

lemma log_entry_recorded: "0 < al_max_entries al \<Longrightarrow> audit_bounded al \<Longrightarrow> last (al_entries (log_entry e al)) = e"
  by (simp add: audit_bounded_def log_entry_def push_bounded_def)

lemma log_entry_max [simp]: "al_max_entries (log_entry e al) = al_max_entries al"
  by (simp add: log_entry_def)

fun log_all :: "audit_entry list \<Rightarrow> audit_log \<Rightarrow> audit_log" where
  "log_all [] al = al"
| "log_all (e # es) al = log_all es (log_entry e al)"

definition last_n :: "nat \<Rightarrow> 'a list \<Rightarrow> 'a list" where
  "last_n n xs = drop (length xs - n) xs"

lemma push_bounded_last_n: "push_bounded n x (last_n n xs) = last_n n (xs @ [x])"
proof (cases "length xs < n")
  case True
  then show ?thesis by (simp add: push_bounded_def last_n_def)
next
  case False
  then have "Suc (length xs) - n = Suc (length xs - n)" by simp
  with False show ?thesis by (cases n) (simp_all add: push_bounded_def last_n_def)
qed

text \<open>The log holds the most recent \<open>maxlen\<close> of all entries ever logged, in order.\<close>

lemma log_all_window:
  "al_entries al = last_n (al_max_entries al) past \<Longrightarrow>
     al_entries (log_all es al) = last_n (al_max_entries al) (past @ es)"
proof (induction es arbitrary: al past)
  case (Cons e es)
  have "al_entries (log_entry e al) = last_n (al_max_entries al) (past @ [e])"
    using Cons.prems by (simp add: log_entry_def push_bounded_last_n)
  then show ?case using Cons.IH [of "log_entry e al" "past @ [e]"] by simp
qed simp

lemma get_entries_sound:
  "e \<in> set (get_entries limit et un cl al) \<Longrightarrow> e \<in> set (al_entries al)
     \<and> (opt_true et \<longrightarrow> ae_event_type e = the et) \<and> (opt_true un \<longrightarrow> ae_username e = un)
     \<and> (opt_true cl \<longrightarrow> ae_client_id e = cl)"
  by (auto simp: get_entries_def py_take_def Let_def dest!: in_set_takeD split: if_splits)

subsection \<open>The counters\<close>

lemma bump_get: "dget (bump k d) k' = (if k' = k then Some ((case dget d k of None \<Rightarrow> 0 | Some n \<Rightarrow> n) + 1) else dget d k')"
  by (simp add: bump_def)

lemma update_stats_get:
  "dget (update_stats et st d) ''total_requests'' = Some ((case dget d ''total_requests'' of None \<Rightarrow> 0 | Some n \<Rightarrow> n) + 1)"
  "dget (update_stats et st d) ''token_requests'' = (if et = ''token_request''
     then Some ((case dget d ''token_requests'' of None \<Rightarrow> 0 | Some n \<Rightarrow> n) + 1) else dget d ''token_requests'')"
  "dget (update_stats et st d) ''failed_logins'' = (if et = ''login'' \<and> st \<noteq> ''success''
     then Some ((case dget d ''failed_logins'' of None \<Rightarrow> 0 | Some n \<Rightarrow> n) + 1) else dget d ''failed_logins'')"
  by (simp_all add: update_stats_def bump_get Let_def)

lemma log_all_count:
  assumes step: "\<And>et st d. dget (update_stats et st d) k = (if P et st
     then Some ((case dget d k of None \<Rightarrow> 0 | Some n \<Rightarrow> n) + 1) else dget d k)"
    and start: "dget (al_stats al) k = Some n"
  shows "dget (al_stats (log_all es al)) k = Some (n + int (length (filter (\<lambda>e. P (ae_event_type e) (ae_status e)) es)))"
  using start by (induction es arbitrary: al n) (simp_all add: log_entry_def step)

text \<open>
  After any sequence of events the audit log holds the most recent ones up to its limit, in order,
  and its counters count all of them: every event, the token requests, and the failed logins.
\<close>

theorem audit_window_and_counters:
  "al_entries (log_all es (new_audit_log n)) = last_n n es
   \<and> dget (al_stats (log_all es (new_audit_log n))) ''total_requests'' = Some (int (length es))
   \<and> dget (al_stats (log_all es (new_audit_log n))) ''token_requests'' =
       Some (int (length (filter (\<lambda>e. ae_event_type e = ''token_request'') es)))
   \<and> dget (al_stats (log_all es (new_audit_log n))) ''failed_logins'' =
       Some (int (length (filter (\<lambda>e. ae_event_type e = ''login'' \<and> ae_status e \<noteq> ''success'') es)))"
proof (intro conjI)
  show "al_entries (log_all es (new_audit_log n)) = last_n n es"
    using log_all_window [of "new_audit_log n" "[]" es] by (simp add: new_audit_log_def last_n_def)
  have z: "dget (al_stats (new_audit_log n)) k = Some 0" if "k \<in> {''total_requests'', ''token_requests'', ''failed_logins''}" for k
    using that by (elim insertE emptyE) (simp_all add: new_audit_log_def zero_stats_def dget_Cons)
  show "dget (al_stats (log_all es (new_audit_log n))) ''total_requests'' = Some (int (length es))"
    using log_all_count [of "''total_requests''" "\<lambda>_ _. True", OF _ z] by (simp add: update_stats_get)
  show "dget (al_stats (log_all es (new_audit_log n))) ''token_requests'' =
       Some (int (length (filter (\<lambda>e. ae_event_type e = ''token_request'') es)))"
    using log_all_count [of "''token_requests''" "\<lambda>et _. et = ''token_request''", OF _ z]
    by (simp add: update_stats_get)
  show "dget (al_stats (log_all es (new_audit_log n))) ''failed_logins'' =
       Some (int (length (filter (\<lambda>e. ae_event_type e = ''login'' \<and> ae_status e \<noteq> ''success'') es)))"
    using log_all_count [of "''failed_logins''" "\<lambda>et st. et = ''login'' \<and> st \<noteq> ''success''", OF _ z]
    by (simp add: update_stats_get)
qed

end
