(* ===== verification/Crypto.thy ===== *)
theory Crypto
  imports Nano_Models
begin

text \<open>
  \<open>services/crypto.py\<close>: the key ring of the signing service (active key, previous keys, the
  files that persist them) and the construction and verification of JWTs. RSA, PEM and the JWS
  encoding are third-party (\<open>lib\<close>); the self-signed certificate, which only SAML reads, is left
  out.
\<close>

subsection \<open>State\<close>

record key_info =
  ki_kid :: str
  ki_pub_pem :: str
  ki_created_at :: time

record key_files =
  kf_active :: "(str \<times> str \<times> str) option" \<comment> \<open>rsa_private.pem, rsa_public.pem, kid.txt\<close>
  kf_previous :: "(str, str) dict" \<comment> \<open>previous/<kid>_public.pem\<close>
  kf_metadata :: "(str \<times> time) list option" \<comment> \<open>keys.json: previous_keys\<close>

record crypto =
  cr_priv_pem :: str
  cr_pub_pem :: str
  cr_kid :: str
  cr_previous_keys :: "key_info list"
  cr_max_previous_keys :: nat
  cr_files :: key_files

subsection \<open>Loading\<close>

definition load_previous_keys :: "key_files \<Rightarrow> key_info list" where
  "load_previous_keys f =
     (case kf_metadata f of
        None \<Rightarrow> []
      | Some meta \<Rightarrow>
          concat (map (\<lambda>(kid, created). case dget (kf_previous f) kid of
              None \<Rightarrow> []
            | Some pem \<Rightarrow> [\<lparr>ki_kid = kid, ki_pub_pem = pem, ki_created_at = created\<rparr>]) meta))"

definition load_crypto :: "lib \<Rightarrow> nat \<Rightarrow> nat \<Rightarrow> key_files \<Rightarrow> crypto" where
  \<comment> \<open>\<open>CryptoService(keys_dir)\<close> without external keys; \<open>n\<close> indexes the key generator\<close>
  "load_crypto L n max_prev f =
     (let f' = (if kf_active f = None
                then f\<lparr>kf_active := Some (fst (lib_new_key L n), snd (lib_new_key L n), lib_uuid L n)\<rparr>
                else f);
          (priv, pub, kid) = the (kf_active f')
      in \<lparr>cr_priv_pem = priv, cr_pub_pem = pub, cr_kid = kid,
          cr_previous_keys = load_previous_keys f', cr_max_previous_keys = max_prev, cr_files = f'\<rparr>)"

subsection \<open>Rotation\<close>

fun prune_keys :: "nat \<Rightarrow> key_info list \<Rightarrow> (str, str) dict \<Rightarrow> key_info list \<times> (str, str) dict" where
  \<comment> \<open>the while loop that pops the oldest key and unlinks its file; \<open>n\<close> counts the surplus\<close>
  "prune_keys 0 ks files = (ks, files)"
| "prune_keys (Suc n) ks files = prune_keys n (butlast ks) (ddel (ki_kid (last ks)) files)"

definition rotate_keys :: "lib \<Rightarrow> time \<Rightarrow> nat \<Rightarrow> crypto \<Rightarrow> crypto" where
  "rotate_keys L now n c =
     (let files0 = dset (cr_kid c) (cr_pub_pem c) (kf_previous (cr_files c));
          ks0 = \<lparr>ki_kid = cr_kid c, ki_pub_pem = cr_pub_pem c, ki_created_at = now\<rparr>
                  # cr_previous_keys c;
          (ks, files) = prune_keys (length ks0 - cr_max_previous_keys c) ks0 files0;
          (priv, pub) = lib_new_key L n;
          kid = lib_uuid L n
      in c\<lparr>cr_priv_pem := priv, cr_pub_pem := pub, cr_kid := kid, cr_previous_keys := ks,
           cr_files := \<lparr>kf_active = Some (priv, pub, kid), kf_previous = files,
             kf_metadata = Some (map (\<lambda>k. (ki_kid k, ki_created_at k)) ks)\<rparr>\<rparr>)"

definition jwks_keys :: "crypto \<Rightarrow> (str \<times> str) list" where
  \<comment> \<open>\<open>get_jwks\<close>: the published keys, as key id and public key\<close>
  "jwks_keys c = (cr_kid c, cr_pub_pem c) # map (\<lambda>k. (ki_kid k, ki_pub_pem k)) (cr_previous_keys c)"

subsection \<open>Tokens\<close>

definition jwt_base :: "time \<Rightarrow> str \<Rightarrow> str \<Rightarrow> str \<Rightarrow> json \<Rightarrow> str list \<Rightarrow> str \<Rightarrow> int \<Rightarrow> claims" where
  \<comment> \<open>the registered claims, \<open>roles\<close> and \<open>tenant\<close>\<close>
  "jwt_base now jti sub issuer audience roles tenant exp_minutes =
     (let p = [(''jti'', JStr jti), (''iss'', JStr issuer), (''sub'', JStr sub), (''aud'', audience),
               (''iat'', JInt (to_secs now)), (''nbf'', JInt (to_secs now)),
               (''exp'', JInt (to_secs (now + secs (60 * exp_minutes))))];
          p = (if roles \<noteq> [] then dset ''roles'' (jstrs roles) p else p)
      in if tenant \<noteq> [] then dset ''tenant'' (JStr tenant) p else p)"

definition jwt_payload :: "time \<Rightarrow> str \<Rightarrow> str \<Rightarrow> str \<Rightarrow> json \<Rightarrow> str list \<Rightarrow> str \<Rightarrow> claims \<Rightarrow> int
    \<Rightarrow> str option \<Rightarrow> claims" where
  "jwt_payload now jti sub issuer audience roles tenant extra exp_minutes nonce =
     (let p = dupdate (jwt_base now jti sub issuer audience roles tenant exp_minutes) extra
      in case nonce of None \<Rightarrow> p | Some x \<Rightarrow> dset ''nonce'' (JStr x) p)"

definition sign_jwt :: "lib \<Rightarrow> crypto \<Rightarrow> claims \<Rightarrow> str" where
  "sign_jwt L c p = lib_jwt_encode L (cr_priv_pem c) (cr_kid c) p"

definition verify_jwt :: "lib \<Rightarrow> time \<Rightarrow> crypto \<Rightarrow> str \<Rightarrow> str list option \<Rightarrow> str + claims" where
  \<comment> \<open>\<open>Inl\<close> is the message of the \<open>ValueError\<close> raised\<close>
  "verify_jwt L now c token audience =
     (case lib_jwt_decode L now (cr_pub_pem c) audience token of
        Inr p \<Rightarrow> Inr p
      | Inl JwtExpired \<Rightarrow> Inl ''Token has expired''
      | Inl (JwtInvalid e) \<Rightarrow> Inl (''Invalid token: '' @ e))"

subsection \<open>The ring keeps its bound and its files\<close>

definition ring_bounded :: "crypto \<Rightarrow> bool" where
  "ring_bounded c \<longleftrightarrow> length (cr_previous_keys c) \<le> cr_max_previous_keys c"

text \<open>Every previous key has its file, and the metadata lists exactly them.\<close>

definition ring_stored :: "crypto \<Rightarrow> bool" where
  "ring_stored c \<longleftrightarrow>
     kf_active (cr_files c) = Some (cr_priv_pem c, cr_pub_pem c, cr_kid c) \<and>
     kf_metadata (cr_files c) \<in> {None, Some (map (\<lambda>k. (ki_kid k, ki_created_at k)) (cr_previous_keys c))} \<and>
     (kf_metadata (cr_files c) = None \<longrightarrow> cr_previous_keys c = []) \<and>
     distinct (map ki_kid (cr_previous_keys c)) \<and> cr_kid c \<notin> set (map ki_kid (cr_previous_keys c)) \<and>
     (\<forall>k \<in> set (cr_previous_keys c). dget (kf_previous (cr_files c)) (ki_kid k) = Some (ki_pub_pem k))"

lemma prune_keys_eq:
  "n \<le> length ks \<Longrightarrow> prune_keys n ks files =
     (take (length ks - n) ks, fold ddel (map ki_kid (rev (drop (length ks - n) ks))) files)"
proof (induction n arbitrary: ks files)
  case (Suc n)
  then obtain xs x where ks: "ks = xs @ [x]" by (cases ks rule: rev_cases) auto
  with Suc.prems have "length xs - n = length ks - Suc n" "length ks - Suc n \<le> length xs" by auto
  with Suc ks show ?case by simp
qed simp

definition ring_after :: "time \<Rightarrow> crypto \<Rightarrow> key_info list" where
  "ring_after now c =
     \<lparr>ki_kid = cr_kid c, ki_pub_pem = cr_pub_pem c, ki_created_at = now\<rparr> # cr_previous_keys c"

lemma rotate_keys_eq:
  "rotate_keys L now n c =
     (let ks = take (cr_max_previous_keys c) (ring_after now c);
          files = fold ddel (map ki_kid (rev (drop (cr_max_previous_keys c) (ring_after now c))))
            (dset (cr_kid c) (cr_pub_pem c) (kf_previous (cr_files c)))
      in c\<lparr>cr_priv_pem := fst (lib_new_key L n), cr_pub_pem := snd (lib_new_key L n),
           cr_kid := lib_uuid L n, cr_previous_keys := ks,
           cr_files := \<lparr>kf_active = Some (fst (lib_new_key L n), snd (lib_new_key L n), lib_uuid L n),
             kf_previous = files, kf_metadata = Some (map (\<lambda>k. (ki_kid k, ki_created_at k)) ks)\<rparr>\<rparr>)"
proof -
  define m where "m = cr_max_previous_keys c"
  define ks0 where "ks0 = ring_after now c"
  have "take (length ks0 - (length ks0 - m)) ks0 = take m ks0"
    "drop (length ks0 - (length ks0 - m)) ks0 = drop m ks0"
    by (cases "m \<le> length ks0"; simp)+
  then have "prune_keys (length ks0 - m) ks0 files =
      (take m ks0, fold ddel (map ki_kid (rev (drop m ks0))) files)" for files
    by (subst prune_keys_eq) auto
  then show ?thesis
    unfolding rotate_keys_def ring_after_def [symmetric] m_def [symmetric] ks0_def [symmetric] Let_def
    by (simp add: case_prod_beta)
qed

lemma rotate_previous: "cr_previous_keys (rotate_keys L now n c) = take (cr_max_previous_keys c) (ring_after now c)"
  by (simp add: rotate_keys_eq Let_def)

lemma rotate_bounded: "ring_bounded (rotate_keys L now n c)"
  by (simp add: ring_bounded_def rotate_keys_eq Let_def)

lemma rotate_active: "cr_pub_pem (rotate_keys L now n c) = snd (lib_new_key L n)"
    "cr_priv_pem (rotate_keys L now n c) = fst (lib_new_key L n)"
    "cr_kid (rotate_keys L now n c) = lib_uuid L n"
  by (simp_all add: rotate_keys_eq Let_def)

lemma rotate_stored:
  assumes "ring_stored c" and fresh: "lib_uuid L n \<notin> set (map fst (jwks_keys c))"
  shows "ring_stored (rotate_keys L now n c)"
proof -
  define m where "m = cr_max_previous_keys c"
  define ks where "ks = ring_after now c"
  define files where "files = fold ddel (map ki_kid (rev (drop m ks)))
     (dset (cr_kid c) (cr_pub_pem c) (kf_previous (cr_files c)))"
  have dist: "distinct (map ki_kid ks)" using assms(1) by (auto simp: ring_stored_def ks_def ring_after_def)
  have kids: "set (map fst (jwks_keys c)) = set (map ki_kid ks)"
    by (simp add: ks_def ring_after_def jwks_keys_def image_image)
  have sub: "set (take m ks) \<subseteq> set ks" by (rule set_take_subset)
  have files: "dget files (ki_kid k) = Some (ki_pub_pem k)" if k: "k \<in> set (take m ks)" for k
  proof -
    have "distinct (map ki_kid (take m ks @ drop m ks))" using dist by simp
    then have "ki_kid k \<notin> set (map ki_kid (drop m ks))" using k by (auto simp del: append_take_drop_id)
    moreover from k sub have "k \<in> set ks" by blast
    then have "dget (dset (cr_kid c) (cr_pub_pem c) (kf_previous (cr_files c))) (ki_kid k) = Some (ki_pub_pem k)"
      using assms(1) by (auto simp: ring_stored_def ks_def ring_after_def image_iff)
    ultimately show ?thesis by (simp add: files_def dget_fold_ddel)
  qed
  have "distinct (map ki_kid (take m ks))" using dist by (simp add: take_map [symmetric])
  moreover have "lib_uuid L n \<notin> set (map ki_kid (take m ks))"
    using fresh sub unfolding kids by auto
  ultimately show ?thesis
    using files by (simp add: ring_stored_def rotate_keys_eq Let_def m_def ks_def files_def)
qed

lemma load_previous_stored:
  assumes "ring_stored c"
  shows "load_previous_keys (cr_files c) = cr_previous_keys c"
proof -
  have "concat (map (\<lambda>(kid, created). case dget (kf_previous (cr_files c)) kid of None \<Rightarrow> []
      | Some pem \<Rightarrow> [\<lparr>ki_kid = kid, ki_pub_pem = pem, ki_created_at = created\<rparr>])
      (map (\<lambda>k. (ki_kid k, ki_created_at k)) ks)) = ks"
    if "\<forall>k \<in> set ks. dget (kf_previous (cr_files c)) (ki_kid k) = Some (ki_pub_pem k)" for ks
    using that by (induction ks) auto
  with assms show ?thesis by (auto simp: load_previous_keys_def ring_stored_def)
qed

lemma reload_stored:
  assumes "ring_stored c"
  shows "load_crypto L k (cr_max_previous_keys c) (cr_files c) = c"
  using assms load_previous_stored [OF assms]
  by (simp add: load_crypto_def ring_stored_def Let_def)

lemma old_key_published:
  assumes "0 < cr_max_previous_keys c"
  shows "(cr_kid c, cr_pub_pem c) \<in> set (jwks_keys (rotate_keys L now n c))"
  using assms by (cases "cr_max_previous_keys c") (auto simp: jwks_keys_def rotate_previous ring_after_def)

text \<open>Several rotations, each with its time and its draw of the key generator.\<close>

definition rotations :: "lib \<Rightarrow> (time \<times> nat) list \<Rightarrow> crypto \<Rightarrow> crypto" where
  "rotations L rs c = fold (\<lambda>(t, n). rotate_keys L t n) rs c"

lemma rotations_snoc: "rotations L (rs @ [(t, n)]) c = rotate_keys L t n (rotations L rs c)"
  by (simp add: rotations_def)

lemma rotations_keep:
  "cr_max_previous_keys (rotations L rs c) = cr_max_previous_keys c
    \<and> (length rs \<le> cr_max_previous_keys c \<longrightarrow> (\<exists>ks ms. cr_previous_keys (rotations L rs c) = ks @ ms
        \<and> length ks = length rs \<and> (if rs = [] then cr_kid (rotations L rs c) = cr_kid c \<and> cr_pub_pem (rotations L rs c) = cr_pub_pem c
           else (ki_kid (last ks), ki_pub_pem (last ks)) = (cr_kid c, cr_pub_pem c))))"
proof (induction rs rule: rev_induct)
  case Nil
  then show ?case by (auto simp: rotations_def)
next
  case (snoc x rs)
  obtain t n where x: "x = (t, n)" by (cases x)
  let ?c = "rotations L rs c" and ?m = "cr_max_previous_keys c"
  have m: "cr_max_previous_keys (rotate_keys L t n ?c) = ?m" using snoc by (simp add: rotate_keys_eq Let_def)
  show ?case
  proof (cases "length (rs @ [x]) \<le> ?m")
    case True
    then obtain ks ms where k: "cr_previous_keys ?c = ks @ ms" "length ks = length rs"
      "if rs = [] then cr_kid ?c = cr_kid c \<and> cr_pub_pem ?c = cr_pub_pem c
       else (ki_kid (last ks), ki_pub_pem (last ks)) = (cr_kid c, cr_pub_pem c)"
      using snoc by auto
    let ?k = "\<lparr>ki_kid = cr_kid ?c, ki_pub_pem = cr_pub_pem ?c, ki_created_at = t\<rparr>"
    have "cr_previous_keys (rotate_keys L t n ?c) = (?k # ks) @ take (?m - length (?k # ks)) ms"
      using True k(1,2) snoc by (simp add: rotate_previous ring_after_def take_Cons' Suc_le_eq)
    moreover have "length (?k # ks) = length (rs @ [x])" using k(2) by simp
    moreover have "(ki_kid (last (?k # ks)), ki_pub_pem (last (?k # ks))) = (cr_kid c, cr_pub_pem c)"
      using k(2,3) by (cases "rs = []") auto
    ultimately show ?thesis using m unfolding x rotations_snoc by (metis append_is_Nil_conv not_Cons_self2)
  next
    case False
    with m show ?thesis unfolding x rotations_snoc by simp
  qed
qed

lemma rotations_publish:
  assumes "length rs \<le> cr_max_previous_keys c"
  shows "(cr_kid c, cr_pub_pem c) \<in> set (jwks_keys (rotations L rs c))"
proof -
  obtain ks ms where k: "cr_previous_keys (rotations L rs c) = ks @ ms" "length ks = length rs"
    "if rs = [] then cr_kid (rotations L rs c) = cr_kid c \<and> cr_pub_pem (rotations L rs c) = cr_pub_pem c
     else (ki_kid (last ks), ki_pub_pem (last ks)) = (cr_kid c, cr_pub_pem c)"
    using rotations_keep [of L rs c] assms by blast
  show ?thesis
  proof (cases "rs = []")
    case False
    then have "ks \<noteq> []" using k(2) by auto
    then have "last ks \<in> set (cr_previous_keys (rotations L rs c))" by (simp add: k(1))
    moreover have "(cr_kid c, cr_pub_pem c) = (ki_kid (last ks), ki_pub_pem (last ks))" using False k(3) by simp
    ultimately show ?thesis unfolding jwks_keys_def by fastforce
  qed (use k in \<open>simp add: jwks_keys_def\<close>)
qed

text \<open>Verification reads the active public key and nothing else of the ring.\<close>

lemma verify_jwt_active_key:
  "cr_pub_pem c = cr_pub_pem c' \<Longrightarrow> verify_jwt L now c t aud = verify_jwt L now c' t aud"
  by (simp add: verify_jwt_def)

text \<open>A claim of the token is the one in \<open>extra\<close>, else the one set from the arguments.\<close>

lemma jwt_payload_get:
  assumes "dict_wf extra"
  shows "dget (jwt_payload now jti sub iss aud roles tenant extra mins nonce) k =
    (if k = ''nonce'' \<and> nonce \<noteq> None then map_option JStr nonce
     else case dget extra k of Some v \<Rightarrow> Some v
       | None \<Rightarrow> dget (jwt_base now jti sub iss aud roles tenant mins) k)"
  using assms by (auto simp: jwt_payload_def Let_def dget_dupdate_wf split: option.split)

lemma jwt_base_get:
  "dget (jwt_base now jti sub iss aud roles tenant mins) ''jti'' = Some (JStr jti)"
  "dget (jwt_base now jti sub iss aud roles tenant mins) ''iss'' = Some (JStr iss)"
  "dget (jwt_base now jti sub iss aud roles tenant mins) ''sub'' = Some (JStr sub)"
  "dget (jwt_base now jti sub iss aud roles tenant mins) ''aud'' = Some aud"
  "dget (jwt_base now jti sub iss aud roles tenant mins) ''iat'' = Some (JInt (to_secs now))"
  "dget (jwt_base now jti sub iss aud roles tenant mins) ''nbf'' = Some (JInt (to_secs now))"
  "dget (jwt_base now jti sub iss aud roles tenant mins) ''exp'' =
     Some (JInt (to_secs (now + secs (60 * mins))))"
  by (simp_all add: jwt_base_def Let_def dget_Cons)

lemma jwt_base_other:
  "k \<notin> {''jti'', ''iss'', ''sub'', ''aud'', ''iat'', ''nbf'', ''exp'', ''roles'', ''tenant''} \<Longrightarrow>
    dget (jwt_base now jti sub iss aud roles tenant mins) k = None"
  by (simp add: jwt_base_def Let_def dget_Cons)

end
