(* ===== verification/Resource_Indicator.thy ===== *)
theory Resource_Indicator
  imports Urls Nano_Models
begin

text \<open>
  \<open>services/resource.py\<close>: RFC 8707 resource indicators. The regular expressions of the source
  are recursive recognisers over characters; \<open>resolve_resources\<close> is the validation every
  endpoint shares.
\<close>

subsection \<open>The RFC 3986 grammar\<close>

definition rfc3986_char :: "char \<Rightarrow> bool" where
  "rfc3986_char c \<longleftrightarrow> is_alpha c \<or> is_digit c \<or>
     c \<in> set (''-._~:/?#[]@!$&'' @ [CHR 0x27] @ ''()*+,;=%'')"

definition unreserved :: "char \<Rightarrow> bool" where
  "unreserved c \<longleftrightarrow> is_alpha c \<or> is_digit c \<or> c \<in> set ''-._~''"

definition sub_delim :: "char \<Rightarrow> bool" where
  "sub_delim c \<longleftrightarrow> c \<in> set (''!$&'' @ [CHR 0x27] @ ''()*+,;='')"

fun pct_match :: "(char \<Rightarrow> bool) \<Rightarrow> str \<Rightarrow> bool" where
  \<comment> \<open>\<open>(?:[allowed]|%HH)*\<close>, anchored at both ends\<close>
  "pct_match allowed [] = True"
| "pct_match allowed (c # cs) =
     (if c = CHR ''%'' then
        (case cs of h1 # h2 # rest \<Rightarrow> is_hex h1 \<and> is_hex h2 \<and> pct_match allowed rest | _ \<Rightarrow> False)
      else allowed c \<and> pct_match allowed cs)"

definition scheme_re :: "str \<Rightarrow> bool" where
  "scheme_re s \<longleftrightarrow> s \<noteq> [] \<and> is_alpha (hd s) \<and>
     list_all (\<lambda>c. is_alpha c \<or> is_digit c \<or> c \<in> set ''+-.'') (tl s)"

definition userinfo_re :: "str \<Rightarrow> bool" where
  "userinfo_re = pct_match (\<lambda>c. unreserved c \<or> sub_delim c \<or> c = CHR '':'')"

definition reg_name_re :: "str \<Rightarrow> bool" where
  "reg_name_re = pct_match (\<lambda>c. unreserved c \<or> sub_delim c)"

definition port_re :: "str \<Rightarrow> bool" where
  "port_re = list_all is_digit"

definition pchar :: "char \<Rightarrow> bool" where
  "pchar c \<longleftrightarrow> unreserved c \<or> sub_delim c \<or> c \<in> set '':@''"

definition path_re :: "str \<Rightarrow> bool" where
  "path_re = pct_match (\<lambda>c. pchar c \<or> c = CHR ''/'')"

definition query_re :: "str \<Rightarrow> bool" where
  "query_re = pct_match (\<lambda>c. pchar c \<or> c \<in> set ''/?'')"

definition ipvfuture_re :: "str \<Rightarrow> bool" where
  "ipvfuture_re s \<longleftrightarrow> take 1 s \<in> set [''v'', ''V''] \<and>
     (let d = takeWhile is_hex (drop 1 s); t = dropWhile is_hex (drop 1 s) in
      d \<noteq> [] \<and> take 1 t = ''.'' \<and> drop 1 t \<noteq> []
      \<and> list_all (\<lambda>c. unreserved c \<or> sub_delim c \<or> c = CHR '':'') (drop 1 t))"

definition is_valid_host :: "str \<Rightarrow> bool" where
  "is_valid_host host =
     (if starts_with host ''['' \<and> ends_with host '']'' then
        (let inner = butlast (drop 1 host) in
         if take 1 inner \<in> set [''v'', ''V''] then ipvfuture_re inner
         else if CHR ''%'' \<in> set inner then False
         else ipv6_ok inner)
      else reg_name_re host)"

definition is_valid_authority :: "str \<Rightarrow> bool" where
  "is_valid_authority authority =
     (if CHR ''@'' \<in> set authority \<and> \<not> userinfo_re (rbefore CHR ''@'' authority) then False
      else
        let rest = rafter CHR ''@'' authority in
        if starts_with rest ''['' then
          (if CHR '']'' \<notin> set rest then False
           else
             let host = cut_before CHR '']'' rest @ '']''; tail = cut_after CHR '']'' rest in
             if tail = [] then port_re [] \<and> is_valid_host host
             else if starts_with tail '':'' then port_re (drop 1 tail) \<and> is_valid_host host
             else False)
        else if CHR '':'' \<in> set rest then
          port_re (rafter CHR '':'' rest) \<and> is_valid_host (rbefore CHR '':'' rest)
        else port_re [] \<and> is_valid_host rest)"

definition is_valid_resource_indicator :: "str \<Rightarrow> bool" where
  "is_valid_resource_indicator v =
     (if v = [] then False
      else if \<not> list_all rfc3986_char v then False
      else if CHR ''#'' \<in> set v then False
      else (case urlsplit v of
         None \<Rightarrow> False
       | Some p \<Rightarrow>
           if \<not> scheme_re (sp_scheme p) then False
           else if sp_query p \<noteq> [] \<and> \<not> query_re (sp_query p) then False
           else if sp_netloc p \<noteq> [] \<and> \<not> is_valid_authority (sp_netloc p) then False
           else if sp_netloc p \<noteq> [] \<and> sp_path p \<noteq> [] \<and> \<not> starts_with (sp_path p) ''/'' then False
           else if sp_path p \<noteq> [] \<and> \<not> path_re (sp_path p) then False
           else True))"

subsection \<open>Resolving a request\<close>

record resource_result =
  rr_granted :: "str list option"
  rr_error_description :: "str option"

definition resource_ok :: "resource_result \<Rightarrow> bool" where
  "resource_ok r \<longleftrightarrow> rr_error_description r = None"

definition repr_char :: "char \<Rightarrow> char \<Rightarrow> str" where
  "repr_char q c = (let n = of_char c :: nat in
     if c = q \<or> c = CHR 0x5C then [CHR 0x5C, c]
     else if n = 9 then [CHR 0x5C, CHR ''t''] else if n = 10 then [CHR 0x5C, CHR ''n'']
     else if n = 13 then [CHR 0x5C, CHR ''r'']
     else if n < 32 \<or> (127 \<le> n \<and> n \<le> 160) \<or> n = 173
       then [CHR 0x5C, CHR ''x'', if n div 16 < 10 then char_of (48 + n div 16) else char_of (87 + n div 16),
             if n mod 16 < 10 then char_of (48 + n mod 16) else char_of (87 + n mod 16)]
     else [c])"

definition py_repr :: "str \<Rightarrow> str" where
  \<comment> \<open>\<open>repr(s)\<close>\<close>
  "py_repr s = (let q = (if CHR 0x27 \<in> set s \<and> CHR 0x22 \<notin> set s then CHR 0x22 else CHR 0x27)
     in [q] @ concat (map (repr_char q) s) @ [q])"

definition resource_refusal :: "str \<Rightarrow> oauth_client \<Rightarrow> str list option \<Rightarrow> str option" where
  \<comment> \<open>the three checks on one requested value, in their order\<close>
  "resource_refusal v client allowed_subset =
     (if \<not> is_valid_resource_indicator v then
        Some (''resource '' @ py_repr v
              @ '' is not a valid resource indicator (RFC 8707: an absolute URI without a fragment)'')
      else if cl_allowed_resources client \<noteq> [] \<and> v \<notin> set (cl_allowed_resources client) then
        Some (''resource '' @ py_repr v @ '' is not allowed for this client'')
      else if allowed_subset \<noteq> None \<and> v \<notin> set (the allowed_subset) then
        Some (''resource '' @ py_repr v
              @ '' was not part of the original grant and cannot be added on refresh'')
      else None)"

fun resolve_loop :: "str list \<Rightarrow> str list \<Rightarrow> oauth_client \<Rightarrow> str list option \<Rightarrow> resource_result" where
  "resolve_loop granted [] client sub = \<lparr>rr_granted = Some granted, rr_error_description = None\<rparr>"
| "resolve_loop granted (v # vs) client sub =
     (case resource_refusal v client sub of
        Some d \<Rightarrow> \<lparr>rr_granted = None, rr_error_description = Some d\<rparr>
      | None \<Rightarrow> resolve_loop (if v \<in> set granted then granted else granted @ [v]) vs client sub)"

definition resolve_resources :: "str list \<Rightarrow> oauth_client \<Rightarrow> str list option \<Rightarrow> resource_result" where
  "resolve_resources requested client allowed_subset = resolve_loop [] requested client allowed_subset"

subsection \<open>What is granted\<close>

definition resource_permitted :: "oauth_client \<Rightarrow> str list option \<Rightarrow> str \<Rightarrow> bool" where
  "resource_permitted client sub v \<longleftrightarrow> is_valid_resource_indicator v
     \<and> (cl_allowed_resources client = [] \<or> v \<in> set (cl_allowed_resources client))
     \<and> (case sub of None \<Rightarrow> True | Some xs \<Rightarrow> v \<in> set xs)"

lemma resource_refusal_None: "resource_refusal v client sub = None \<longleftrightarrow> resource_permitted client sub v"
  by (auto simp: resource_refusal_def resource_permitted_def split: option.splits)

definition first_seen :: "'a list \<Rightarrow> 'a list" where
  \<comment> \<open>without repetitions, each value at its first appearance\<close>
  "first_seen xs = rev (remdups (rev xs))"

lemma first_seen_snoc: "first_seen (xs @ [x]) = (if x \<in> set xs then first_seen xs else first_seen xs @ [x])"
  by (simp add: first_seen_def)

lemma set_first_seen [simp]: "set (first_seen xs) = set xs"
  by (simp add: first_seen_def)

lemma distinct_first_seen [simp]: "distinct (first_seen xs)"
  by (simp add: first_seen_def)

lemma resource_refusal_Some: "\<not> resource_permitted client sub v \<Longrightarrow> \<exists>d. resource_refusal v client sub = Some d"
  using resource_refusal_None by blast

lemma resolve_loop_eq:
  "resolve_loop (first_seen pre) vs client sub =
     (case find (\<lambda>v. \<not> resource_permitted client sub v) vs of
        None \<Rightarrow> \<lparr>rr_granted = Some (first_seen (pre @ vs)), rr_error_description = None\<rparr>
      | Some v \<Rightarrow> \<lparr>rr_granted = None, rr_error_description = resource_refusal v client sub\<rparr>)"
proof (induction vs arbitrary: pre)
  case (Cons v vs)
  show ?case
  proof (cases "resource_permitted client sub v")
    case True
    then show ?thesis using Cons [of "pre @ [v]"] resource_refusal_None [of v client sub]
      by (auto simp: first_seen_snoc split: option.split)
  next
    case False
    then show ?thesis using resource_refusal_Some by fastforce
  qed
qed simp

lemma resolve_resources_eq:
  "resolve_resources vs client sub =
     (case find (\<lambda>v. \<not> resource_permitted client sub v) vs of
        None \<Rightarrow> \<lparr>rr_granted = Some (first_seen vs), rr_error_description = None\<rparr>
      | Some v \<Rightarrow> \<lparr>rr_granted = None, rr_error_description = resource_refusal v client sub\<rparr>)"
  using resolve_loop_eq [of "[]" vs] unfolding resolve_resources_def
  by (simp only: append.simps first_seen_def rev.simps remdups.simps)

lemma resolve_resources_ok_iff:
  "resource_ok (resolve_resources vs client sub) \<longleftrightarrow> (\<forall>v \<in> set vs. resource_permitted client sub v)"
proof (cases "find (\<lambda>v. \<not> resource_permitted client sub v) vs")
  case None
  then have "\<forall>v \<in> set vs. resource_permitted client sub v" by (auto simp: find_None_iff)
  with None show ?thesis by (simp add: resolve_resources_eq resource_ok_def)
next
  case (Some v)
  then have v: "v \<in> set vs" "\<not> resource_permitted client sub v"
    by (auto simp: find_Some_iff)
  with Some resource_refusal_Some [of client sub v] show ?thesis
    by (auto simp: resolve_resources_eq resource_ok_def)
qed

lemma resolve_resources_granted:
  assumes "resource_ok (resolve_resources vs client sub)"
  shows "rr_granted (resolve_resources vs client sub) = Some (first_seen vs)"
proof -
  have "find (\<lambda>v. \<not> resource_permitted client sub v) vs = None"
    using assms by (simp add: resolve_resources_ok_iff find_None_iff)
  then show ?thesis by (simp add: resolve_resources_eq)
qed

subsection \<open>The decision\<close>

text \<open>
  Resolving resource indicators in one pass is the same as looking for the first value that is not
  permitted: it is refused with that value's reason, else the values are granted in the order they
  first appear, without repetitions.
\<close>

theorem resources_decision:
  "resolve_resources vs client sub =
     (case find (\<lambda>v. \<not> resource_permitted client sub v) vs of
        None \<Rightarrow> \<lparr>rr_granted = Some (first_seen vs), rr_error_description = None\<rparr>
      | Some v \<Rightarrow> \<lparr>rr_granted = None, rr_error_description = resource_refusal v client sub\<rparr>)"
  by (rule resolve_resources_eq)

end
