(* ===== verification/Token.thy ===== *)
theory Token
  imports Crypto Sha256 Resource_Indicator
begin

text \<open>
  \<open>services/token.py\<close>: the claims of the access, ID and refresh tokens and the one function that
  mints them. Each token is described by its payload; signing is \<open>sign_jwt\<close>. Token ids are drawn
  from the generator at consecutive indices, in the order the code draws them.
\<close>

subsection \<open>Python's \<open>str\<close> of an attribute value\<close>

definition float_repr :: "int \<Rightarrow> nat \<Rightarrow> str" where
  \<comment> \<open>\<open>repr\<close> of the float \<open>m / 10 ^ e\<close>: positional for decimal points in \<open>-3 .. 16\<close>\<close>
  "float_repr m e =
     (if m = 0 then ''0.0'' else
      let ds0 = show_nat (nat \<bar>m\<bar>); point = int (length ds0) - int e;
          ds = py_rstrip_char CHR ''0'' ds0; n = int (length ds);
          body = (if -4 < point \<and> point \<le> 16 then
                    (if point \<le> 0 then ''0.'' @ replicate (nat (- point)) CHR ''0'' @ ds
                     else if n \<le> point then ds @ replicate (nat (point - n)) CHR ''0'' @ ''.0''
                     else take (nat point) ds @ ''.'' @ drop (nat point) ds)
                  else let x = point - 1; a = show_nat (nat \<bar>x\<bar>) in
                    take 1 ds @ (if n = 1 then [] else ''.'' @ drop 1 ds) @ ''e''
                      @ (if x < 0 then ''-'' else ''+'') @ (if length a < 2 then ''0'' @ a else a))
      in (if m < 0 then ''-'' @ body else body))"

fun json_repr :: "json \<Rightarrow> str" and json_items :: "json list \<Rightarrow> str list"
  and json_fields :: "(str \<times> json) list \<Rightarrow> str list" where
  "json_repr JNull = ''None''"
| "json_repr (JBool b) = (if b then ''True'' else ''False'')"
| "json_repr (JInt i) = show_int i"
| "json_repr (JDec m e) = float_repr m e"
| "json_repr (JStr s) = py_repr s"
| "json_repr (JList xs) = ''['' @ join '', '' (json_items xs) @ '']''"
| "json_repr (JObj d) = ''{'' @ join '', '' (json_fields d) @ ''}''"
| "json_items [] = []"
| "json_items (x # xs) = json_repr x # json_items xs"
| "json_fields [] = []"
| "json_fields ((k, v) # d) = (py_repr k @ '': '' @ json_repr v) # json_fields d"

fun json_fmt :: "json \<Rightarrow> str" where
  \<comment> \<open>the value inside an f-string\<close>
  "json_fmt (JStr s) = s"
| "json_fmt v = json_repr v"

subsection \<open>Requested claims\<close>

definition authoritative_claims :: "str list" where
  "authoritative_claims = [''scope'', ''req_userinfo_claims'', ''req_id_token_claims'']"

definition reserved_claims :: "str list" where
  "reserved_claims =
     [''iss'', ''sub'', ''aud'', ''exp'', ''iat'', ''nbf'', ''jti'',
      ''token_use'', ''auth_time'', ''at_hash'', ''azp'', ''nonce''] @ authoritative_claims"

definition sanitize_claim_names :: "json option \<Rightarrow> str list option" where
  "sanitize_claim_names value =
     (case value of
        Some (JList xs) \<Rightarrow> or_none (map json_str (filter json_is_str xs))
      | _ \<Rightarrow> None)"

definition resolve_user_claim :: "user \<Rightarrow> str \<Rightarrow> json option" where
  \<comment> \<open>\<open>None\<close> is the pair \<open>(False, None)\<close>\<close>
  "resolve_user_claim u name =
     (if name \<in> set reserved_claims then None
      else if name = ''email'' then Some (JStr (u_email u))
      else if name = ''email_verified'' then Some (JBool True)
      else if name = ''preferred_username'' then Some (JStr (u_username u))
      else if name = ''roles'' then Some (jstrs (u_roles u))
      else if name = ''groups'' then (if u_groups u \<noteq> [] then Some (jstrs (u_groups u)) else None)
      else if name = ''tenant'' then Some (JStr (u_tenant u))
      else if name = ''identity_class'' then
        (if opt_true (u_identity_class u) then Some (jopt (u_identity_class u)) else None)
      else if name = ''entitlements'' then
        (if u_entitlements u \<noteq> [] then Some (jstrs (u_entitlements u)) else None)
      else dget (u_attributes u) name)"

definition prefix_of :: "settings \<Rightarrow> str \<Rightarrow> str \<Rightarrow> str" where
  \<comment> \<open>\<open>prefixes.get(k, default)\<close>\<close>
  "prefix_of s k dflt = (case dget (s_authority_prefixes s) k of None \<Rightarrow> dflt | Some p \<Rightarrow> p)"

definition attribute_authorities :: "settings \<Rightarrow> str \<times> json \<Rightarrow> str list" where
  "attribute_authorities s = (\<lambda>(k, v).
     case dget (s_authority_prefixes s) k of
       None \<Rightarrow> []
     | Some p \<Rightarrow> if \<not> json_true v then []
         else (case v of JList xs \<Rightarrow> map (\<lambda>x. p @ json_fmt x) xs | _ \<Rightarrow> [p @ json_fmt v]))"

definition build_authorities :: "settings \<Rightarrow> user \<Rightarrow> str list" where
  "build_authorities s u =
     map (\<lambda>r. prefix_of s ''roles'' ''ROLE_'' @ py_upper r) (u_roles u)
     @ map (\<lambda>g. prefix_of s ''groups'' ''GROUP_'' @ py_upper g) (u_groups u)
     @ (if opt_true (u_identity_class u)
        then [prefix_of s ''identity_class'' ''IDENTITY_'' @ the (u_identity_class u)] else [])
     @ map (\<lambda>e. prefix_of s ''entitlements'' ''ENT_'' @ e) (u_entitlements u)
     @ u_source_acl u
     @ concat (map (attribute_authorities s) (u_attributes u))"

subsection \<open>Audience and access-token hash of the ID token\<close>

fun extend_aud :: "str \<Rightarrow> str \<Rightarrow> str list \<Rightarrow> str list \<Rightarrow> str list" where
  \<comment> \<open>the loop over \<open>additional_audiences\<close>\<close>
  "extend_aud resource_aud client_id aud [] = aud"
| "extend_aud resource_aud client_id aud (x # xs) =
     extend_aud resource_aud client_id
       (if x = resource_aud \<and> x \<noteq> client_id then aud
        else if x \<noteq> [] \<and> x \<notin> set aud then aud @ [x] else aud) xs"

definition resolve_id_token_audience :: "config \<Rightarrow> str option \<Rightarrow> str list \<times> str option" where
  \<comment> \<open>the audience as a list, of which one element stands for the plain string, and \<open>azp\<close>\<close>
  "resolve_id_token_audience c client_id =
     (if \<not> opt_true client_id then ([s_audience (c_settings c)], None)
      else
        let cid = the client_id;
            extras = (case get_client c cid of None \<Rightarrow> [] | Some x \<Rightarrow> cl_additional_audiences x);
            aud = extend_aud (s_audience (c_settings c)) cid [cid] extras
        in if length aud = 1 then (aud, None) else (aud, client_id))"

definition aud_json :: "str list \<Rightarrow> json" where
  "aud_json aud = (case aud of [x] \<Rightarrow> JStr x | _ \<Rightarrow> jstrs aud)"

definition compute_at_hash :: "str \<Rightarrow> str option" where
  \<comment> \<open>\<open>None\<close>: the token is not ASCII (it always is, as base64url text)\<close>
  "compute_at_hash access_token =
     (case encode_ascii access_token of None \<Rightarrow> None
      | Some b \<Rightarrow> (let d = sha256 b in Some (b64url (take (length d div 2) d))))"

subsection \<open>Minting\<close>

datatype exn = RaiseUnicode | RaiseValue | RaiseType | RaiseAttribute | RaiseOs
  \<comment> \<open>an exception that escapes: \<open>UnicodeEncodeError\<close>, \<open>ValueError\<close>, \<open>TypeError\<close>, \<open>AttributeError\<close>,
      \<open>OSError\<close>\<close>

record token_args =
  ta_user :: user
  ta_exp_minutes :: "int option"
  ta_extra_claims :: claims
  ta_nonce :: "str option"
  ta_scope :: "str option"
  ta_client_id :: "str option"
  ta_auth_time :: "json option"
  ta_refresh_family :: "str option"
  ta_id_token_claims :: "json option"
  ta_userinfo_claims :: "json option"
  ta_issuer :: "str option"
  ta_issue_refresh_token :: "bool option"
  ta_resource :: "str list option"
  ta_refresh_resource :: "str list option"

definition exp_minutes_of :: "settings \<Rightarrow> token_args \<Rightarrow> int" where
  "exp_minutes_of s ta = (case ta_exp_minutes ta of None \<Rightarrow> s_token_expiry_minutes s | Some m \<Rightarrow> m)"

definition issuer_of :: "settings \<Rightarrow> token_args \<Rightarrow> str" where
  "issuer_of s ta = (if opt_true (ta_issuer ta) then the (ta_issuer ta) else s_issuer s)"

definition dset_if :: "bool \<Rightarrow> str \<Rightarrow> json \<Rightarrow> claims \<Rightarrow> claims" where
  "dset_if b k v d = (if b then dset k v d else d)"

definition user_claims :: "settings \<Rightarrow> user \<Rightarrow> claims" where
  "user_claims s u =
     dset_if (build_authorities s u \<noteq> []) ''authorities'' (jstrs (build_authorities s u))
       (dset_if (u_attributes u \<noteq> []) ''attributes'' (JObj (u_attributes u))
         (dset_if (u_source_acl u \<noteq> []) ''source_acl'' (jstrs (u_source_acl u))
           (dset_if (u_groups u \<noteq> []) ''groups'' (jstrs (u_groups u))
             (dset_if (u_entitlements u \<noteq> []) ''entitlements'' (jstrs (u_entitlements u))
               (dset_if (opt_true (u_identity_class u)) ''identity_class'' (jopt (u_identity_class u)) [])))))"

definition access_extra :: "settings \<Rightarrow> token_args \<Rightarrow> claims" where
  "access_extra s ta =
     (let e = fold ddel authoritative_claims (dupdate (user_claims s (ta_user ta)) (ta_extra_claims ta));
          e = dset_if (opt_true (ta_scope ta)) ''scope'' (jopt (ta_scope ta)) e;
          e = (case sanitize_claim_names (ta_userinfo_claims ta) of None \<Rightarrow> e
               | Some ns \<Rightarrow> dset ''req_userinfo_claims'' (jstrs ns) e);
          e = dset_if (opt_true (ta_client_id ta)) ''client_id'' (jopt (ta_client_id ta)) e
      in dset ''token_use'' (JStr ''access'') e)"

definition access_audience :: "settings \<Rightarrow> token_args \<Rightarrow> json" where
  "access_audience s ta =
     (if opt_true (ta_resource ta) then aud_json (the (ta_resource ta)) else JStr (s_audience s))"

definition access_payload :: "settings \<Rightarrow> time \<Rightarrow> str \<Rightarrow> token_args \<Rightarrow> claims" where
  "access_payload s now jti ta =
     jwt_payload now jti (u_username (ta_user ta)) (issuer_of s ta) (access_audience s ta)
       (u_roles (ta_user ta)) (u_tenant (ta_user ta)) (access_extra s ta) (exp_minutes_of s ta) None"

definition wants_id_token :: "token_args \<Rightarrow> bool" where
  "wants_id_token ta \<longleftrightarrow> opt_true (ta_scope ta) \<and> ''openid'' \<in> set (py_split (the (ta_scope ta)))"

definition effective_auth_time :: "time \<Rightarrow> token_args \<Rightarrow> json" where
  "effective_auth_time now ta = (case ta_auth_time ta of None \<Rightarrow> JInt (to_secs now) | Some v \<Rightarrow> v)"

fun add_requested :: "user \<Rightarrow> str list \<Rightarrow> claims \<Rightarrow> claims" where
  \<comment> \<open>the \<open>setdefault\<close> loop over the requested names\<close>
  "add_requested u [] e = e"
| "add_requested u (n # ns) e =
     add_requested u ns
       (case resolve_user_claim u n of None \<Rightarrow> e | Some v \<Rightarrow> if dhas e n then e else dset n v e)"

definition id_extra :: "config \<Rightarrow> time \<Rightarrow> str \<Rightarrow> token_args \<Rightarrow> claims" where
  "id_extra c now at_hash ta =
     (let azp = snd (resolve_id_token_audience c (ta_client_id ta));
          e = [(''token_use'', JStr ''id''), (''auth_time'', effective_auth_time now ta),
               (''at_hash'', JStr at_hash)];
          e = dset_if (opt_true azp) ''azp'' (jopt azp) e;
          names = (case sanitize_claim_names (ta_id_token_claims ta) of None \<Rightarrow> [] | Some ns \<Rightarrow> ns)
      in add_requested (ta_user ta) names e)"

definition id_payload :: "config \<Rightarrow> time \<Rightarrow> str \<Rightarrow> str \<Rightarrow> token_args \<Rightarrow> claims" where
  "id_payload c now jti at_hash ta =
     jwt_payload now jti (u_username (ta_user ta)) (issuer_of (c_settings c) ta)
       (aud_json (fst (resolve_id_token_audience c (ta_client_id ta)))) [] []
       (id_extra c now at_hash ta) (exp_minutes_of (c_settings c) ta) (ta_nonce ta)"

definition refresh_resources :: "token_args \<Rightarrow> str list option" where
  "refresh_resources ta =
     (if ta_refresh_resource ta = None then ta_resource ta else ta_refresh_resource ta)"

definition refresh_extra :: "time \<Rightarrow> str \<Rightarrow> token_args \<Rightarrow> claims" where
  "refresh_extra now family ta =
     (let e = [(''token_type'', JStr ''refresh''), (''token_use'', JStr ''refresh'')];
          e = dset_if (opt_true (ta_scope ta)) ''scope'' (jopt (ta_scope ta)) e;
          e = dset_if (wants_id_token ta) ''auth_time'' (effective_auth_time now ta) e;
          e = dset_if (opt_true (ta_client_id ta)) ''client_id'' (jopt (ta_client_id ta)) e;
          e = (case sanitize_claim_names (ta_id_token_claims ta) of None \<Rightarrow> e
               | Some ns \<Rightarrow> dset ''req_id_token_claims'' (jstrs ns) e);
          e = (case sanitize_claim_names (ta_userinfo_claims ta) of None \<Rightarrow> e
               | Some ns \<Rightarrow> dset ''req_userinfo_claims'' (jstrs ns) e);
          e = dset_if (opt_true (refresh_resources ta)) ''resource''
                (jstrs (the (refresh_resources ta))) e
      in dset ''rt_family'' (JStr family) e)"

definition refresh_payload :: "settings \<Rightarrow> time \<Rightarrow> str \<Rightarrow> str \<Rightarrow> token_args \<Rightarrow> claims" where
  "refresh_payload s now jti family ta =
     jwt_payload now jti (u_username (ta_user ta)) (issuer_of s ta) (JStr (s_audience s))
       (u_roles (ta_user ta)) (u_tenant (ta_user ta)) (refresh_extra now family ta) (7 * 24 * 60) None"

definition issues_refresh :: "token_args \<Rightarrow> bool" where
  "issues_refresh ta =
     (case ta_issue_refresh_token ta of None \<Rightarrow> ta_client_id ta \<noteq> None | Some b \<Rightarrow> b)"

definition mint_id_token :: "lib \<Rightarrow> time \<Rightarrow> config \<Rightarrow> crypto \<Rightarrow> nat \<Rightarrow> token_args \<Rightarrow> str
    \<Rightarrow> exn + str option \<times> nat" where
  \<comment> \<open>\<open>n\<close> is the next draw of the generator; every result carries the one after\<close>
  "mint_id_token L now c cr n ta access =
     (if wants_id_token ta then
        (case compute_at_hash access of
           None \<Rightarrow> Inl RaiseUnicode
         | Some h \<Rightarrow> Inr (Some (sign_jwt L cr (id_payload c now (lib_uuid L n) h ta)), Suc n))
      else Inr (None, n))"

definition mint_refresh_token :: "lib \<Rightarrow> time \<Rightarrow> config \<Rightarrow> crypto \<Rightarrow> nat \<Rightarrow> token_args \<Rightarrow> str option \<times> nat" where
  "mint_refresh_token L now c cr n ta =
     (if issues_refresh ta then
        let (family, n') = (if opt_true (ta_refresh_family ta) then (the (ta_refresh_family ta), n)
                            else (lib_uuid L n, Suc n))
        in (Some (sign_jwt L cr (refresh_payload (c_settings c) now (lib_uuid L n') family ta)), Suc n')
      else (None, n))"

definition token_response :: "settings \<Rightarrow> token_args \<Rightarrow> str \<Rightarrow> str option \<Rightarrow> str option \<Rightarrow> claims" where
  "token_response s ta access refresh id_token =
     (let r = [(''access_token'', JStr access), (''token_type'', JStr ''Bearer''),
               (''expires_in'', JInt (exp_minutes_of s ta * 60))];
          r = dset_if (refresh \<noteq> None) ''refresh_token'' (jopt refresh) r;
          r = dset_if (opt_true (ta_scope ta)) ''scope'' (jopt (ta_scope ta)) r
      in dset_if (id_token \<noteq> None) ''id_token'' (jopt id_token) r)"

definition create_token :: "lib \<Rightarrow> time \<Rightarrow> config \<Rightarrow> crypto \<Rightarrow> nat \<Rightarrow> token_args \<Rightarrow> exn + claims \<times> nat" where
  "create_token L now c cr n ta =
     (if ta_issue_refresh_token ta = Some True \<and> \<not> opt_true (ta_client_id ta) then Inl RaiseValue
      else
        let access = sign_jwt L cr (access_payload (c_settings c) now (lib_uuid L n) ta) in
        case mint_id_token L now c cr (Suc n) ta access of
          Inl e \<Rightarrow> Inl e
        | Inr (id_token, n2) \<Rightarrow>
            let (refresh, n3) = mint_refresh_token L now c cr n2 ta
            in Inr (token_response (c_settings c) ta access refresh id_token, n3))"

subsection \<open>The access token\<close>

lemma dset_if_get [simp, dict_simps]:
  "dget (dset_if b k v d) k' = (if b \<and> k' = k then Some v else dget d k')"
  by (simp add: dset_if_def)

lemma dset_if_wf [simp]: "dict_wf d \<Longrightarrow> dict_wf (dset_if b k v d)"
  by (simp add: dset_if_def)

lemma access_extra_wf: "dict_wf (access_extra s ta)"
  by (simp add: access_extra_def user_claims_def Let_def dict_wf_fold_ddel split: option.split)

lemma access_extra_get:
  "dget (access_extra s ta) ''token_use'' = Some (JStr ''access'')"
  "dget (access_extra s ta) ''scope'' = (if opt_true (ta_scope ta) then Some (jopt (ta_scope ta)) else None)"
  "dget (access_extra s ta) ''req_userinfo_claims'' = map_option jstrs (sanitize_claim_names (ta_userinfo_claims ta))"
  "dget (access_extra s ta) ''req_id_token_claims'' = None"
  "opt_true (ta_client_id ta) \<Longrightarrow> dget (access_extra s ta) ''client_id'' = Some (jopt (ta_client_id ta))"
  by (simp_all add: access_extra_def Let_def dget_fold_ddel authoritative_claims_def split: option.split)

lemma access_extra_passes:
  assumes "k \<notin> set (''token_use'' # ''client_id'' # authoritative_claims)"
  shows "dget (access_extra s ta) k =
    (case map_of (rev (ta_extra_claims ta)) k of Some v \<Rightarrow> Some v
     | None \<Rightarrow> dget (user_claims s (ta_user ta)) k)"
  using assms
  by (simp add: access_extra_def Let_def dget_fold_ddel dget_dupdate authoritative_claims_def split: option.split)

text \<open>The claims the endpoints trust never come from the caller's \<open>extra\<close>.\<close>

lemma access_payload_authoritative:
  "dget (access_payload s now jti ta) ''token_use'' = Some (JStr ''access'')"
  "dget (access_payload s now jti ta) ''scope'' =
     (if opt_true (ta_scope ta) then Some (jopt (ta_scope ta)) else None)"
  "dget (access_payload s now jti ta) ''req_userinfo_claims'' =
     map_option jstrs (sanitize_claim_names (ta_userinfo_claims ta))"
  "dget (access_payload s now jti ta) ''req_id_token_claims'' = None"
  "opt_true (ta_client_id ta) \<Longrightarrow> dget (access_payload s now jti ta) ''client_id'' = Some (jopt (ta_client_id ta))"
  unfolding access_payload_def jwt_payload_get [OF access_extra_wf]
  by (simp_all add: access_extra_get jwt_base_other split: option.split)

lemma user_claims_unregistered:
  "k \<in> {''jti'', ''iss'', ''sub'', ''aud'', ''iat'', ''nbf'', ''exp''} \<Longrightarrow> dget (user_claims s u) k = None"
  unfolding user_claims_def by (elim insertE emptyE) simp_all

lemma access_extra_registered:
  assumes "k \<in> {''jti'', ''iss'', ''sub'', ''aud'', ''iat'', ''nbf'', ''exp''}"
    and "k \<notin> fst ` set (ta_extra_claims ta)"
  shows "dget (access_extra s ta) k = None"
proof -
  have none: "map_of (rev (ta_extra_claims ta)) k = None" using assms(2) by (simp add: map_of_eq_None_iff)
  have nin: "k \<notin> set (''token_use'' # ''client_id'' # authoritative_claims)"
    using assms(1) unfolding authoritative_claims_def by (elim insertE emptyE) simp_all
  show ?thesis
    unfolding access_extra_passes [OF nin] none user_claims_unregistered [OF assms(1)] by simp
qed

lemma access_payload_registered:
  assumes "k \<in> {''jti'', ''iss'', ''sub'', ''aud'', ''iat'', ''nbf'', ''exp''}"
    and "k \<notin> fst ` set (ta_extra_claims ta)"
  shows "dget (access_payload s now jti ta) k =
    dget (jwt_base now jti (u_username (ta_user ta)) (issuer_of s ta) (access_audience s ta)
       (u_roles (ta_user ta)) (u_tenant (ta_user ta)) (exp_minutes_of s ta)) k"
  by (simp only: access_payload_def jwt_payload_get [OF access_extra_wf]
      access_extra_registered [OF assms] option.case simp_thms if_False)

subsection \<open>The ID token\<close>

lemma add_requested_wf: "dict_wf e \<Longrightarrow> dict_wf (add_requested u ns e)"
  by (induction u ns e rule: add_requested.induct) (auto split: option.split)

lemma resolve_user_claim_reserved: "k \<in> set reserved_claims \<Longrightarrow> resolve_user_claim u k = None"
  by (simp add: resolve_user_claim_def)

lemma add_requested_reserved: "k \<in> set reserved_claims \<Longrightarrow> dget (add_requested u ns e) k = dget e k"
proof (induction u ns e rule: add_requested.induct)
  case (2 u n ns e)
  then show ?case
    using resolve_user_claim_reserved [of k u] by (cases "k = n") (simp_all split: option.split)
qed simp

lemma add_requested_keeps: "dget e k = Some v \<Longrightarrow> dget (add_requested u ns e) k = Some v"
proof (induction u ns e rule: add_requested.induct)
  case (2 u n ns e)
  then show ?case by (cases "k = n") (simp_all add: dhas_def split: option.split)
qed simp

lemma add_requested_get:
  "dget e k = None \<Longrightarrow> dget (add_requested u ns e) k = (if k \<in> set ns then resolve_user_claim u k else None)"
proof (induction u ns e rule: add_requested.induct)
  case (2 u n ns e)
  show ?case
  proof (cases "k = n")
    case True
    then show ?thesis using 2 add_requested_keeps [of "dset n _ e" n]
      by (auto simp: dhas_def split: option.split)
  next
    case False
    then show ?thesis using 2 by (auto split: option.split)
  qed
qed simp

lemma id_extra_wf: "dict_wf (id_extra c now h ta)"
  unfolding id_extra_def Let_def
  by (rule add_requested_wf, rule dset_if_wf) (simp add: dict_wf_def)

lemma id_extra_get:
  "dget (id_extra c now h ta) ''token_use'' = Some (JStr ''id'')"
  "dget (id_extra c now h ta) ''auth_time'' = Some (effective_auth_time now ta)"
  "dget (id_extra c now h ta) ''at_hash'' = Some (JStr h)"
  "dget (id_extra c now h ta) ''azp'' =
     (let azp = snd (resolve_id_token_audience c (ta_client_id ta)) in
      if opt_true azp then Some (jopt azp) else None)"
  by (simp_all add: id_extra_def Let_def add_requested_reserved reserved_claims_def dget_Cons)

lemma id_extra_unset:
  assumes "k \<in> {''iss'', ''sub'', ''aud'', ''exp'', ''iat'', ''nbf'', ''jti'', ''nonce''}"
  shows "dget (id_extra c now h ta) k = None"
proof -
  have "k \<in> set reserved_claims"
    using assms unfolding reserved_claims_def by (elim insertE emptyE) simp_all
  then have "dget (id_extra c now h ta) k =
      dget (dset_if (opt_true (snd (resolve_id_token_audience c (ta_client_id ta)))) ''azp''
        (jopt (snd (resolve_id_token_audience c (ta_client_id ta))))
        [(''token_use'', JStr ''id''), (''auth_time'', effective_auth_time now ta), (''at_hash'', JStr h)]) k"
    by (simp only: id_extra_def Let_def add_requested_reserved)
  also have "\<dots> = None" using assms by (elim insertE emptyE) (simp_all add: dget_Cons)
  finally show ?thesis .
qed

lemma id_payload_get:
  "dget (id_payload c now jti h ta) ''token_use'' = Some (JStr ''id'')"
  "dget (id_payload c now jti h ta) ''auth_time'' = Some (effective_auth_time now ta)"
  "dget (id_payload c now jti h ta) ''at_hash'' = Some (JStr h)"
  "dget (id_payload c now jti h ta) ''nonce'' = map_option JStr (ta_nonce ta)"
  "dget (id_payload c now jti h ta) ''jti'' = Some (JStr jti)"
  "dget (id_payload c now jti h ta) ''iss'' = Some (JStr (issuer_of (c_settings c) ta))"
  "dget (id_payload c now jti h ta) ''sub'' = Some (JStr (u_username (ta_user ta)))"
  "dget (id_payload c now jti h ta) ''aud'' =
     Some (aud_json (fst (resolve_id_token_audience c (ta_client_id ta))))"
  "dget (id_payload c now jti h ta) ''iat'' = Some (JInt (to_secs now))"
  "dget (id_payload c now jti h ta) ''exp'' =
     Some (JInt (to_secs (now + secs (60 * exp_minutes_of (c_settings c) ta))))"
  unfolding id_payload_def jwt_payload_get [OF id_extra_wf]
  by (simp_all add: id_extra_get id_extra_unset jwt_base_get jwt_base_other)

lemma extend_aud_keeps: "set aud \<subseteq> set (extend_aud ra cid aud xs)"
proof (induction ra cid aud xs rule: extend_aud.induct)
  case (2 ra cid aud x xs)
  have "set aud \<subseteq> set (if x = ra \<and> x \<noteq> cid then aud else if x \<noteq> [] \<and> x \<notin> set aud then aud @ [x] else aud)"
    by auto
  with 2 show ?case by (simp only: extend_aud.simps)
qed simp

lemma extend_aud_no_resource: "ra \<noteq> cid \<Longrightarrow> ra \<notin> set aud \<Longrightarrow> ra \<notin> set (extend_aud ra cid aud xs)"
  by (induction ra cid aud xs rule: extend_aud.induct) auto

lemma extend_aud_distinct: "distinct aud \<Longrightarrow> distinct (extend_aud ra cid aud xs)"
  by (induction ra cid aud xs rule: extend_aud.induct) auto

lemma id_audience:
  assumes "cid \<noteq> []"
  shows "cid \<in> set (fst (resolve_id_token_audience c (Some cid)))"
    "distinct (fst (resolve_id_token_audience c (Some cid)))"
    "cid \<noteq> s_audience (c_settings c) \<Longrightarrow>
       s_audience (c_settings c) \<notin> set (fst (resolve_id_token_audience c (Some cid)))"
    "snd (resolve_id_token_audience c (Some cid)) =
       (if length (fst (resolve_id_token_audience c (Some cid))) = 1 then None else Some cid)"
  using assms extend_aud_keeps [of "[cid]" "s_audience (c_settings c)" cid]
  by (auto simp: resolve_id_token_audience_def Let_def extend_aud_no_resource extend_aud_distinct)

subsection \<open>The refresh token\<close>

lemma refresh_extra_wf: "dict_wf (refresh_extra now fam ta)"
  by (simp add: refresh_extra_def Let_def dict_wf_def [of "[_, _]"] split: option.split)

lemma refresh_extra_get:
  "dget (refresh_extra now fam ta) ''token_type'' = Some (JStr ''refresh'')"
  "dget (refresh_extra now fam ta) ''token_use'' = Some (JStr ''refresh'')"
  "dget (refresh_extra now fam ta) ''scope'' = (if opt_true (ta_scope ta) then Some (jopt (ta_scope ta)) else None)"
  "dget (refresh_extra now fam ta) ''auth_time'' = (if wants_id_token ta then Some (effective_auth_time now ta) else None)"
  "dget (refresh_extra now fam ta) ''client_id'' =
     (if opt_true (ta_client_id ta) then Some (jopt (ta_client_id ta)) else None)"
  "dget (refresh_extra now fam ta) ''req_id_token_claims'' =
     map_option jstrs (sanitize_claim_names (ta_id_token_claims ta))"
  "dget (refresh_extra now fam ta) ''req_userinfo_claims'' =
     map_option jstrs (sanitize_claim_names (ta_userinfo_claims ta))"
  "dget (refresh_extra now fam ta) ''resource'' =
     (if opt_true (refresh_resources ta) then Some (jstrs (the (refresh_resources ta))) else None)"
  "dget (refresh_extra now fam ta) ''rt_family'' = Some (JStr fam)"
  by (simp_all add: refresh_extra_def Let_def dget_Cons split: option.split)

lemma refresh_extra_unset:
  "k \<in> {''jti'', ''iss'', ''sub'', ''aud'', ''iat'', ''nbf'', ''exp''} \<Longrightarrow> dget (refresh_extra now fam ta) k = None"
  by (elim insertE emptyE) (simp_all add: refresh_extra_def Let_def dget_Cons split: option.split)

lemma refresh_payload_get:
  "dget (refresh_payload s now jti fam ta) ''token_type'' = Some (JStr ''refresh'')"
  "dget (refresh_payload s now jti fam ta) ''token_use'' = Some (JStr ''refresh'')"
  "dget (refresh_payload s now jti fam ta) ''scope'' =
     (if opt_true (ta_scope ta) then Some (jopt (ta_scope ta)) else None)"
  "dget (refresh_payload s now jti fam ta) ''auth_time'' =
     (if wants_id_token ta then Some (effective_auth_time now ta) else None)"
  "dget (refresh_payload s now jti fam ta) ''client_id'' =
     (if opt_true (ta_client_id ta) then Some (jopt (ta_client_id ta)) else None)"
  "dget (refresh_payload s now jti fam ta) ''req_id_token_claims'' =
     map_option jstrs (sanitize_claim_names (ta_id_token_claims ta))"
  "dget (refresh_payload s now jti fam ta) ''req_userinfo_claims'' =
     map_option jstrs (sanitize_claim_names (ta_userinfo_claims ta))"
  "dget (refresh_payload s now jti fam ta) ''resource'' =
     (if opt_true (refresh_resources ta) then Some (jstrs (the (refresh_resources ta))) else None)"
  "dget (refresh_payload s now jti fam ta) ''rt_family'' = Some (JStr fam)"
  "dget (refresh_payload s now jti fam ta) ''jti'' = Some (JStr jti)"
  "dget (refresh_payload s now jti fam ta) ''sub'' = Some (JStr (u_username (ta_user ta)))"
  "dget (refresh_payload s now jti fam ta) ''exp'' = Some (JInt (to_secs (now + secs (60 * (7 * 24 * 60)))))"
  unfolding refresh_payload_def jwt_payload_get [OF refresh_extra_wf]
  by (simp_all add: refresh_extra_get refresh_extra_unset jwt_base_get jwt_base_other split: option.split)

lemma sanitize_jstrs: "ns \<noteq> [] \<Longrightarrow> sanitize_claim_names (Some (jstrs ns)) = Some ns"
  by (simp add: sanitize_claim_names_def jstrs_def filter_map o_def)

lemma sanitize_idem:
  "sanitize_claim_names (map_option jstrs (sanitize_claim_names v)) = sanitize_claim_names v"
proof (cases "sanitize_claim_names v")
  case (Some ns)
  moreover from this have "ns \<noteq> []"
    by (auto simp: sanitize_claim_names_def or_none_def split: option.splits json.splits if_splits)
  ultimately show ?thesis by (simp add: sanitize_jstrs)
qed (simp add: sanitize_claim_names_def)

subsection \<open>The response\<close>

definition access_token_at :: "lib \<Rightarrow> time \<Rightarrow> config \<Rightarrow> crypto \<Rightarrow> nat \<Rightarrow> token_args \<Rightarrow> str" where
  "access_token_at L now c cr n ta = sign_jwt L cr (access_payload (c_settings c) now (lib_uuid L n) ta)"

lemma token_response_get:
  "dget (token_response s ta a r i) ''access_token'' = Some (JStr a)"
  "dget (token_response s ta a r i) ''token_type'' = Some (JStr ''Bearer'')"
  "dget (token_response s ta a r i) ''expires_in'' = Some (JInt (exp_minutes_of s ta * 60))"
  "dget (token_response s ta a r i) ''scope'' = (if opt_true (ta_scope ta) then Some (jopt (ta_scope ta)) else None)"
  "dget (token_response s ta a r i) ''refresh_token'' = map_option JStr r"
  "dget (token_response s ta a r i) ''id_token'' = map_option JStr i"
  by (simp_all add: token_response_def Let_def dget_Cons) (auto simp: jopt_def)

lemma mint_id_token_Inr:
  "mint_id_token L now c cr n ta a = Inr (i, n') \<longleftrightarrow>
     (if wants_id_token ta then (\<exists>h. compute_at_hash a = Some h \<and> n' = Suc n
         \<and> i = Some (sign_jwt L cr (id_payload c now (lib_uuid L n) h ta)))
      else i = None \<and> n' = n)"
  by (auto simp: mint_id_token_def split: option.split)

lemma mint_refresh_token_Some:
  "fst (mint_refresh_token L now c cr n ta) = Some t \<longleftrightarrow> issues_refresh ta \<and>
     t = sign_jwt L cr (if opt_true (ta_refresh_family ta)
       then refresh_payload (c_settings c) now (lib_uuid L n) (the (ta_refresh_family ta)) ta
       else refresh_payload (c_settings c) now (lib_uuid L (Suc n)) (lib_uuid L n) ta)"
  by (auto simp: mint_refresh_token_def)

lemma create_token_Inr:
  "create_token L now c cr n ta = Inr (r, n') \<longleftrightarrow>
     (ta_issue_refresh_token ta = Some True \<longrightarrow> opt_true (ta_client_id ta)) \<and>
     (\<exists>i n2 f. mint_id_token L now c cr (Suc n) ta (access_token_at L now c cr n ta) = Inr (i, n2)
        \<and> mint_refresh_token L now c cr n2 ta = (f, n')
        \<and> r = token_response (c_settings c) ta (access_token_at L now c cr n ta) f i)"
  by (auto simp: create_token_def Let_def access_token_at_def split: sum.splits prod.splits)

text \<open>Minting raises only when asked for a refresh token without a client, or for a non-ASCII
  access token; otherwise the response holds exactly the tokens the arguments call for.\<close>

lemma create_token_total:
  assumes "ta_issue_refresh_token ta = Some True \<Longrightarrow> opt_true (ta_client_id ta)"
    and "wants_id_token ta \<Longrightarrow> compute_at_hash (access_token_at L now c cr n ta) \<noteq> None"
  shows "\<exists>r n'. create_token L now c cr n ta = Inr (r, n')"
  using assms
  by (cases "wants_id_token ta")
     (auto simp: create_token_def mint_id_token_def Let_def access_token_at_def split: prod.split)

lemma create_token_refresh:
  assumes "create_token L now c cr n ta = Inr (r, n')"
  shows "(\<exists>t. dget r ''refresh_token'' = Some t) \<longleftrightarrow> issues_refresh ta"
    and "dget r ''refresh_token'' = Some (JStr t) \<Longrightarrow> \<exists>jti fam.
      t = sign_jwt L cr (refresh_payload (c_settings c) now jti fam ta)
      \<and> (opt_true (ta_refresh_family ta) \<longrightarrow> Some fam = ta_refresh_family ta)"
proof -
  from assms obtain i n2 f where f: "mint_refresh_token L now c cr n2 ta = (f, n')"
    and r: "r = token_response (c_settings c) ta (access_token_at L now c cr n ta) f i"
    by (auto simp: create_token_Inr)
  from f have f': "fst (mint_refresh_token L now c cr n2 ta) = f" by simp
  show "(\<exists>t. dget r ''refresh_token'' = Some t) \<longleftrightarrow> issues_refresh ta"
    using f' mint_refresh_token_Some [of L now c cr n2 ta] by (cases f) (auto simp: r token_response_get)
  assume "dget r ''refresh_token'' = Some (JStr t)"
  with f' have "fst (mint_refresh_token L now c cr n2 ta) = Some t" by (simp add: r token_response_get)
  then show "\<exists>jti fam. t = sign_jwt L cr (refresh_payload (c_settings c) now jti fam ta)
      \<and> (opt_true (ta_refresh_family ta) \<longrightarrow> Some fam = ta_refresh_family ta)"
    by (auto simp: mint_refresh_token_Some opt_true_def split: if_splits)
qed

lemma create_token_id:
  assumes "create_token L now c cr n ta = Inr (r, n')"
  shows "(\<exists>t. dget r ''id_token'' = Some t) \<longleftrightarrow> wants_id_token ta"
    and "dget r ''id_token'' = Some (JStr t) \<Longrightarrow> \<exists>jti h. t = sign_jwt L cr (id_payload c now jti h ta)
      \<and> compute_at_hash (access_token_at L now c cr n ta) = Some h"
  using assms by (auto simp: create_token_Inr mint_id_token_Inr token_response_get split: if_splits)

lemma create_token_draws: "create_token L now c cr n ta = Inr (r, n') \<Longrightarrow> n \<le> n'"
  by (auto simp: create_token_Inr mint_id_token_Inr mint_refresh_token_def Let_def split: if_splits prod.splits)

text \<open>
  The claims of an access token that carry authority come from the grant, whatever the user's
  attributes and the extra claims of the request say: token use, scope, requested claims, client.
\<close>

theorem access_token_claims_are_authoritative:
  "dget (access_payload s now jti ta) ''token_use'' = Some (JStr ''access'')
   \<and> dget (access_payload s now jti ta) ''scope'' =
       (if opt_true (ta_scope ta) then Some (jopt (ta_scope ta)) else None)
   \<and> dget (access_payload s now jti ta) ''req_userinfo_claims'' =
       map_option jstrs (sanitize_claim_names (ta_userinfo_claims ta))
   \<and> dget (access_payload s now jti (ta\<lparr>ta_client_id := Some (c # cs)\<rparr>)) ''client_id'' = Some (JStr (c # cs))"
  using access_payload_authoritative(5) [of "ta\<lparr>ta_client_id := Some (c # cs)\<rparr>" s now jti]
  by (simp add: access_payload_authoritative(1-3) opt_true_def jopt_def)

text \<open>
  The protocol claims of an ID token come from the grant, whatever claims the client requested by
  name: subject, issuer, audience, expiry, nonce, token use, authentication time and token hash.
\<close>

theorem id_token_claims_are_protected:
  "dget (id_payload c now jti h ta) ''sub'' = Some (JStr (u_username (ta_user ta)))
   \<and> dget (id_payload c now jti h ta) ''iss'' = Some (JStr (issuer_of (c_settings c) ta))
   \<and> dget (id_payload c now jti h ta) ''aud'' = Some (aud_json (fst (resolve_id_token_audience c (ta_client_id ta))))
   \<and> dget (id_payload c now jti h ta) ''exp'' =
       Some (JInt (to_secs (now + secs (60 * exp_minutes_of (c_settings c) ta))))
   \<and> dget (id_payload c now jti h ta) ''nonce'' = map_option JStr (ta_nonce ta)
   \<and> dget (id_payload c now jti h ta) ''token_use'' = Some (JStr ''id'')
   \<and> dget (id_payload c now jti h ta) ''auth_time'' = Some (effective_auth_time now ta)
   \<and> dget (id_payload c now jti h ta) ''at_hash'' = Some (JStr h)"
  by (simp add: id_payload_get)

end
