(* ===== verification/Discovery.thy ===== *)
theory Discovery
  imports Nano_Models Urls
begin

text \<open>
  \<open>services/discovery.py\<close>: the predicate on issuers that gates the RFC 9207 \<open>iss\<close> parameter, and
  the discovery document.
\<close>

definition issuer_qualifies_for_iss_parameter :: "str \<Rightarrow> bool" where
  "issuer_qualifies_for_iss_parameter issuer =
     (if CHR ''?'' \<in> set issuer \<or> CHR ''#'' \<in> set issuer then False
      else case urlparse issuer of
        None \<Rightarrow> False
      | Some p \<Rightarrow>
          (case url_port p of
             None \<Rightarrow> False
           | Some _ \<Rightarrow> sp_scheme p = ''https'' \<and> opt_true (url_hostname p)))"

definition grant_types_supported :: "settings \<Rightarrow> str list" where
  "grant_types_supported s = filter (\<lambda>g. g \<noteq> ''password'' \<or> password_grant_enabled s)
     [''authorization_code'', ''client_credentials'', ''password'', ''refresh_token'',
      ''urn:ietf:params:oauth:grant-type:device_code'']"

definition code_challenge_methods_supported :: "settings \<Rightarrow> str list" where
  "code_challenge_methods_supported s = (if pkce_plain_allowed s then [''plain'', ''S256''] else [''S256''])"

definition build_discovery_document :: "settings \<Rightarrow> str option \<Rightarrow> claims" where
  "build_discovery_document s issuer_arg =
     (let issuer = (if opt_true issuer_arg then the issuer_arg else s_issuer s);
          url = (\<lambda>path. JStr (issuer @ path)) in
      [(''issuer'', JStr issuer),
       (''authorization_endpoint'', url ''/authorize''),
       (''token_endpoint'', url ''/token''),
       (''userinfo_endpoint'', url ''/userinfo''),
       (''introspection_endpoint'', url ''/introspect''),
       (''revocation_endpoint'', url ''/revoke''),
       (''end_session_endpoint'', url ''/logout''),
       (''device_authorization_endpoint'', url ''/device_authorization''),
       (''jwks_uri'', url ''/.well-known/jwks.json''),
       (''token_endpoint_auth_methods_supported'',
          jstrs [''client_secret_basic'', ''client_secret_post'', ''none'']),
       (''introspection_endpoint_auth_methods_supported'',
          jstrs [''client_secret_basic'', ''client_secret_post'']),
       (''revocation_endpoint_auth_methods_supported'',
          jstrs [''client_secret_basic'', ''client_secret_post'', ''none'']),
       (''response_types_supported'', jstrs [''code'']),
       (''id_token_signing_alg_values_supported'', jstrs [''RS256'']),
       (''scopes_supported'', jstrs (s_scopes_supported s)),
       (''claims_supported'', jstrs
          [''sub'', ''iss'', ''aud'', ''azp'', ''exp'', ''iat'', ''nbf'',
           ''auth_time'', ''nonce'', ''at_hash'',
           ''email'', ''email_verified'', ''preferred_username'',
           ''roles'', ''groups'', ''tenant'', ''identity_class'', ''entitlements'',
           ''source_acl'', ''attributes'', ''authorities'']),
       (''claims_parameter_supported'', JBool True),
       (''grant_types_supported'', jstrs (grant_types_supported s)),
       (''code_challenge_methods_supported'', jstrs (code_challenge_methods_supported s)),
       (''authorization_response_iss_parameter_supported'',
          JBool (issuer_qualifies_for_iss_parameter issuer))])"

lemma grant_types_password: "''password'' \<in> set (grant_types_supported s) \<longleftrightarrow> password_grant_enabled s"
  by (simp add: grant_types_supported_def)

lemma discovery_get:
  "dget (build_discovery_document s i) ''issuer'' = Some (JStr (if opt_true i then the i else s_issuer s))"
  "dget (build_discovery_document s i) ''grant_types_supported'' = Some (jstrs (grant_types_supported s))"
  "dget (build_discovery_document s i) ''code_challenge_methods_supported'' =
     Some (jstrs (code_challenge_methods_supported s))"
  "dget (build_discovery_document s i) ''authorization_response_iss_parameter_supported'' =
     Some (JBool (issuer_qualifies_for_iss_parameter (if opt_true i then the i else s_issuer s)))"
  by (simp_all add: build_discovery_document_def Let_def dget_Cons)

end
