(* ===== verification/Scope.thy ===== *)
theory Scope
  imports Nano_Models
begin

text \<open>
  \<open>services/scope.py\<close>: the one validation of a requested scope string that every endpoint
  shares. The result is the scope to grant, or the description of an \<open>invalid_scope\<close>.
\<close>

record scope_result =
  sr_granted :: "str option"
  sr_error_description :: "str option"

definition scope_ok :: "scope_result \<Rightarrow> bool" where
  "scope_ok r \<longleftrightarrow> sr_error_description r = None"

definition or_else :: "str option \<Rightarrow> str option \<Rightarrow> str option" where
  \<comment> \<open>\<open>a or b\<close> on optional strings\<close>
  "or_else a b = (if opt_true a then a else b)"

definition scope_effective ::
  "str option \<Rightarrow> oauth_client \<Rightarrow> str option \<Rightarrow> bool \<Rightarrow> str option" where
  "scope_effective requested client dflt validate_only =
     (if validate_only then requested
      else or_else requested
        (if cl_allowed_scopes client \<noteq> [] then Some (join '' '' (cl_allowed_scopes client)) else dflt))"

definition resolve_scope ::
  "str option \<Rightarrow> oauth_client \<Rightarrow> str list \<Rightarrow> bool \<Rightarrow> str option \<Rightarrow> bool \<Rightarrow> scope_result" where
  "resolve_scope requested client vocabulary enforcement_active dflt validate_only =
     (if \<not> enforcement_active then
        \<lparr>sr_granted = (if validate_only then requested else or_else requested dflt),
         sr_error_description = None\<rparr>
      else
        let effective = scope_effective requested client dflt validate_only in
        if \<not> opt_true effective then \<lparr>sr_granted = effective, sr_error_description = None\<rparr>
        else
          let tokens = py_split (the effective);
              outside_vocabulary = sorted_set (filter (\<lambda>t. t \<notin> set vocabulary) tokens)
          in
          if outside_vocabulary \<noteq> [] then
            \<lparr>sr_granted = None, sr_error_description = Some
               (''Requested scope contains values outside the supported vocabulary: ''
                @ join '', '' outside_vocabulary)\<rparr>
          else
            let disallowed = sorted_set (filter (\<lambda>t. t \<notin> set (cl_allowed_scopes client)) tokens) in
            if cl_allowed_scopes client \<noteq> [] \<and> disallowed \<noteq> [] then
              \<lparr>sr_granted = None, sr_error_description = Some
                 (''Requested scope is not allowed for client '' @ [CHR 0x27] @ cl_client_id client
                  @ [CHR 0x27] @ '': '' @ join '', '' disallowed)\<rparr>
            else \<lparr>sr_granted = effective, sr_error_description = None\<rparr>)"

text \<open>What a client may have: a token of the vocabulary and, when restricted, of its own list.\<close>

definition scope_permitted :: "oauth_client \<Rightarrow> str list \<Rightarrow> str option \<Rightarrow> bool" where
  "scope_permitted client vocabulary granted \<longleftrightarrow>
     (case granted of None \<Rightarrow> True
      | Some g \<Rightarrow> \<forall>t \<in> set (py_split g). t \<in> set vocabulary \<and>
           (cl_allowed_scopes client \<noteq> [] \<longrightarrow> t \<in> set (cl_allowed_scopes client)))"

lemma scope_permitted_empty [simp]:
  "\<not> opt_true g \<Longrightarrow> scope_permitted client vocabulary g"
  by (auto simp: scope_permitted_def opt_true_def split: option.splits)

text \<open>The whole function under enforcement, as one decision on the effective request.\<close>

lemma resolve_scope_decides:
  "scope_ok (resolve_scope req client voc True dflt vo) \<longleftrightarrow>
     scope_permitted client voc (scope_effective req client dflt vo)"
  by (auto simp: resolve_scope_def scope_ok_def scope_permitted_def Let_def opt_true_def
      filter_empty_conv split: option.splits)

lemma resolve_scope_grants_effective:
  "scope_ok (resolve_scope req client voc True dflt vo) \<Longrightarrow>
     sr_granted (resolve_scope req client voc True dflt vo) = scope_effective req client dflt vo"
  by (auto simp: resolve_scope_def scope_ok_def Let_def split: if_splits)

lemma resolve_scope_refusal:
  "\<not> scope_ok (resolve_scope req client voc enf dflt vo) \<Longrightarrow>
     sr_granted (resolve_scope req client voc enf dflt vo) = None \<and> enf"
  by (auto simp: resolve_scope_def scope_ok_def Let_def split: if_splits)

lemma resolve_scope_sound:
  assumes "scope_ok (resolve_scope req client voc True dflt vo)"
  shows "scope_permitted client voc (sr_granted (resolve_scope req client voc True dflt vo))"
  using assms resolve_scope_decides resolve_scope_grants_effective by simp

lemma resolve_scope_validate_only:
  assumes "scope_ok (resolve_scope req client voc enf dflt True)"
  shows "sr_granted (resolve_scope req client voc enf dflt True) = req"
  using assms by (auto simp: resolve_scope_def scope_ok_def scope_effective_def Let_def split: if_splits)

lemma resolve_scope_off:
  "scope_ok (resolve_scope req client voc False dflt vo)"
  by (simp add: resolve_scope_def scope_ok_def)

subsection \<open>The decision\<close>

text \<open>
  The scope decision of every endpoint. With enforcement, the request (or the default taken for
  an empty one) is granted exactly as it is when each of its tokens is in the vocabulary and in the
  list of the client, and refused otherwise; without, it is granted as it is.
\<close>

theorem scope_decision:
  "scope_ok (resolve_scope req client voc enf dflt vo) =
     (if enf then scope_permitted client voc (scope_effective req client dflt vo) else True)
   \<and> sr_granted (resolve_scope req client voc enf dflt vo) =
     (if enf then if scope_permitted client voc (scope_effective req client dflt vo)
        then scope_effective req client dflt vo else None
      else if vo then req else or_else req dflt)"
proof (cases enf)
  case True
  then show ?thesis
    using resolve_scope_decides [of req client voc dflt vo]
      resolve_scope_grants_effective [of req client voc dflt vo]
      resolve_scope_refusal [of req client voc True dflt vo] by auto
qed (simp add: resolve_scope_def scope_ok_def)

end
