(* ===== verification/Server.thy ===== *)
theory Server
  imports Auth_Code Device_Code Revocation Redirect_Uri Audit_Log Token Discovery Scope
begin

text \<open>
  What the route modules share: the request and the reply, the state of the server (one field per
  service singleton), the audit helper (\<open>routes/_audit.py\<close>), the effective issuer
  (\<open>routes/_issuer.py\<close>), the OAuth error bodies (\<open>routes/_oauth_error.py\<close>), and the client
  identity and authentication rules of \<open>routes/oauth.py\<close> that four endpoints use.

  A handler is a function from the clock reading, the request and the world to a reply and the
  next world. A reply \<open>Inl e\<close> is an exception that escapes the view (HTTP 500).
\<close>

subsection \<open>Requests, replies and the state of the server\<close>

record request =
  rq_method :: str
  rq_args :: "(str \<times> str) list" \<comment> \<open>the query string, in order, repetitions kept\<close>
  rq_form :: "(str \<times> str) list"
  rq_authorization :: str \<comment> \<open>the raw header, empty when absent\<close>
  rq_auth :: "(str option \<times> str option) option"
    \<comment> \<open>\<open>request.authorization\<close> as parsed by Werkzeug: user name and password\<close>
  rq_remote_addr :: "str option"
  rq_user_agent :: "str option"
  rq_host_url :: str
  rq_management_secret :: "str option" \<comment> \<open>the \<open>X-Management-Secret\<close> header\<close>
  rq_endpoint :: str

definition param :: "(str \<times> str) list \<Rightarrow> str \<Rightarrow> str option" where
  \<comment> \<open>\<open>MultiDict.get\<close>: the first value\<close>
  "param d k = map_of d k"

definition param_or :: "(str \<times> str) list \<Rightarrow> str \<Rightarrow> str \<Rightarrow> str" where
  "param_or d k dflt = (case map_of d k of None \<Rightarrow> dflt | Some v \<Rightarrow> v)"

definition getlist :: "(str \<times> str) list \<Rightarrow> str \<Rightarrow> str list" where
  "getlist d k = map snd (filter (\<lambda>(k', v). k' = k) d)"

datatype body = Json claims | Page str claims | NoBody

record response =
  rs_status :: int
  rs_headers :: "(str, str) dict"
  rs_body :: body

type_synonym reply = "exn + response"

definition json_reply :: "int \<Rightarrow> claims \<Rightarrow> reply" where
  "json_reply status d = Inr \<lparr>rs_status = status, rs_headers = [], rs_body = Json d\<rparr>"

definition redirect_reply :: "str \<Rightarrow> reply" where
  "redirect_reply url = Inr \<lparr>rs_status = 302, rs_headers = [(''Location'', url)], rs_body = NoBody\<rparr>"

definition page_reply :: "str \<Rightarrow> claims \<Rightarrow> reply" where
  \<comment> \<open>a rendered template with its arguments\<close>
  "page_reply template d = Inr \<lparr>rs_status = 200, rs_headers = [], rs_body = Page template d\<rparr>"

definition empty_reply :: reply where
  "empty_reply = Inr \<lparr>rs_status = 200, rs_headers = [], rs_body = NoBody\<rparr>"

record world =
  w_config :: config
  w_codes :: auth_code_store
  w_devices :: device_store
  w_revoked :: revocation_store
  w_audit :: audit_log
  w_crypto :: crypto
  w_session :: claims \<comment> \<open>the session of the browser that sends the request\<close>
  w_draws :: nat \<comment> \<open>draws made from the random generators\<close>

abbreviation w_settings :: "world \<Rightarrow> settings" where
  "w_settings w \<equiv> c_settings (w_config w)"

subsection \<open>Audit events\<close>

definition audit_event :: "time \<Rightarrow> request \<Rightarrow> str \<Rightarrow> str \<Rightarrow> str \<Rightarrow> str option \<Rightarrow> str option \<Rightarrow> claims
    \<Rightarrow> world \<Rightarrow> world" where
  "audit_event now rq event_type status endpoint username client_id details w =
     w\<lparr>w_audit := log_entry
         \<lparr>ae_timestamp = now, ae_event_type = event_type, ae_username = username,
          ae_client_id = client_id,
          ae_ip_address = (if opt_true (rq_remote_addr rq) then the (rq_remote_addr rq) else ''unknown''),
          ae_user_agent = (case rq_user_agent rq of None \<Rightarrow> ''unknown'' | Some a \<Rightarrow> a),
          ae_endpoint = endpoint, ae_method = rq_method rq, ae_status = status,
          ae_details = details\<rparr> (w_audit w)\<rparr>"

subsection \<open>The effective issuer\<close>

definition effective_issuer :: "request \<Rightarrow> settings \<Rightarrow> str" where
  "effective_issuer rq s =
     (if \<not> s_issuer_from_request s then s_issuer s
      else let candidate = py_rstrip_char CHR ''/'' (rq_host_url rq) in
        if s_issuer_allowlist s \<noteq> [] \<and> candidate \<notin> set (s_issuer_allowlist s) then s_issuer s
        else candidate)"

definition effective_saml_entity_id :: "request \<Rightarrow> settings \<Rightarrow> str" where
  "effective_saml_entity_id rq s = resolve_saml_entity_id s (effective_issuer rq s)"

definition effective_saml_sso_url :: "request \<Rightarrow> settings \<Rightarrow> str" where
  "effective_saml_sso_url rq s = resolve_saml_sso_url s (effective_issuer rq s)"

subsection \<open>Error bodies\<close>

definition oauth_error :: "str \<Rightarrow> str \<Rightarrow> int \<Rightarrow> reply" where
  "oauth_error err description status =
     json_reply status [(''error'', JStr err), (''error_description'', JStr description)]"

definition invalid_client_error :: "str \<Rightarrow> bool \<Rightarrow> reply" where
  "invalid_client_error description basic_attempted =
     (if basic_attempted then
        Inr \<lparr>rs_status = 401,
             rs_headers = [(''WWW-Authenticate'', ''Basic realm='' @ [CHR 0x22] @ ''nanoidp'' @ [CHR 0x22])],
             rs_body = Json [(''error'', JStr ''invalid_client''), (''error_description'', JStr description)]\<rparr>
      else oauth_error ''invalid_client'' description 400)"

subsection \<open>Client identity and authentication\<close>

definition basic_attempted :: "request \<Rightarrow> bool" where
  "basic_attempted rq =
     (let raw = dropWhile is_space (rq_authorization rq) in
      if raw = [] then False else py_lower (takeWhile (\<lambda>c. \<not> is_space c) raw) = ''basic'')"

record client_identity =
  ci_auth :: "(str option \<times> str option) option"
  ci_client_id :: "str option"
  ci_body_client_secret :: "str option"
  ci_mismatch :: bool

definition request_client_identity :: "request \<Rightarrow> client_identity" where
  "request_client_identity rq =
     (let auth = rq_auth rq;
          body_client_id = param (rq_form rq) ''client_id'';
          secret = param (rq_form rq) ''client_secret'';
          body_client_secret = (if opt_true secret then secret else None)
      in \<lparr>ci_auth = auth,
          ci_client_id = (if opt_true body_client_id then body_client_id
                          else case auth of None \<Rightarrow> None | Some (u, p) \<Rightarrow> u),
          ci_body_client_secret = body_client_secret,
          ci_mismatch = (case auth of None \<Rightarrow> False
             | Some (u, p) \<Rightarrow> opt_true body_client_id \<and> u \<noteq> body_client_id)\<rparr>)"

definition lookup_client :: "config \<Rightarrow> str option \<Rightarrow> oauth_client option" where
  \<comment> \<open>\<open>config.get_client(client_id) if client_id else None\<close>\<close>
  "lookup_client c client_id = (if opt_true client_id then get_client c (the client_id) else None)"

definition enforce_registered_client_auth :: "config \<Rightarrow> str option \<Rightarrow> (str option \<times> str option) option
    \<Rightarrow> str option \<Rightarrow> str option" where
  "enforce_registered_client_auth c client_id auth body_client_secret =
     (let client = lookup_client c client_id;
          auth_method = (case client of None \<Rightarrow> ClientSecretBasic | Some x \<Rightarrow> cl_auth_method x)
      in if auth_method = ClientSecretPost then
           (if auth \<noteq> None then
              Some (''This client'' @ [CHR 0x27] @ ''s token_endpoint_auth_method is '' @ [CHR 0x27]
                    @ ''client_secret_post'' @ [CHR 0x27] @ ''; use client_id and client_secret in the ''
                    @ ''request body, not HTTP Basic'')
            else if \<not> opt_true body_client_secret \<or> \<not> check_client c client_id body_client_secret then
              Some ''Invalid client credentials''
            else None)
         else if body_client_secret \<noteq> None then
           Some (''This client authenticates with HTTP Basic; a client_secret in ''
                 @ ''the request body is not accepted, and must not be combined with ''
                 @ ''HTTP Basic (RFC 6749 '' @ [CHR 0xA7] @ ''2.3)'')
         else (case auth of
             None \<Rightarrow> Some ''Client authentication required''
           | Some (u, p) \<Rightarrow>
               if \<not> check_client c u p then Some ''Invalid client credentials'' else None))"

text \<open>
  Who a request has proved to be: a confidential client that presented its own secret through the
  channel it is registered for, or some confidential client over HTTP Basic when the name is not
  that of a client with another method.
\<close>

definition proves_client :: "config \<Rightarrow> client_identity \<Rightarrow> oauth_client \<Rightarrow> bool" where
  "proves_client c ident x \<longleftrightarrow> x \<in> set (s_clients (c_settings c)) \<and> \<not> is_public x
     \<and> (case ci_auth ident of
          Some (u, p) \<Rightarrow> u = Some (cl_client_id x) \<and> p \<noteq> None \<and> cl_client_secret x = p
        | None \<Rightarrow> ci_client_id ident = Some (cl_client_id x) \<and> ci_body_client_secret ident \<noteq> None
            \<and> cl_client_secret x = ci_body_client_secret ident)"

lemma enforce_ok_proves:
  assumes "enforce_registered_client_auth c (ci_client_id i) (ci_auth i) (ci_body_client_secret i) = None"
  shows "\<exists>x. proves_client c i x"
  using assms
  by (auto simp: enforce_registered_client_auth_def Let_def proves_client_def check_client_iff
      split: if_splits option.splits) blast+

text \<open>Without a mismatch the client it proves is the one it names.\<close>

lemma enforce_ok_identity:
  assumes "enforce_registered_client_auth c (ci_client_id i) (ci_auth i) (ci_body_client_secret i) = None"
    and "i = request_client_identity rq" and "\<not> ci_mismatch i" and "opt_true (ci_client_id i)"
  shows "\<exists>x. proves_client c i x \<and> ci_client_id i = Some (cl_client_id x)"
proof -
  obtain x where x: "proves_client c i x" using enforce_ok_proves [OF assms(1)] by blast
  moreover have "ci_client_id i = Some (cl_client_id x)"
  proof (cases "rq_auth rq")
    case None
    then show ?thesis using x by (simp add: assms(2) proves_client_def request_client_identity_def Let_def)
  next
    case (Some up)
    then obtain u p where up: "rq_auth rq = Some (u, p)" by (cases up) auto
    then have "u = Some (cl_client_id x)"
      using x by (simp add: assms(2) proves_client_def request_client_identity_def Let_def)
    then show ?thesis using assms(3) up
      by (auto simp: assms(2) request_client_identity_def Let_def split: if_splits)
  qed
  ultimately show ?thesis by blast
qed

text \<open>
  The channel a client is registered for: its secret in the body and no HTTP Basic for
  \<open>client_secret_post\<close>, HTTP Basic and no secret in the body for every other method.
\<close>

definition registered_channel :: "client_identity \<Rightarrow> oauth_client \<Rightarrow> bool" where
  "registered_channel ident x \<longleftrightarrow>
     (if cl_auth_method x = ClientSecretPost then ci_auth ident = None \<and> ci_body_client_secret ident \<noteq> None
      else ci_auth ident \<noteq> None \<and> ci_body_client_secret ident = None)"

lemma enforce_ok_channel:
  "enforce_registered_client_auth c (Some cid) (ci_auth i) (ci_body_client_secret i) = None \<Longrightarrow> cid \<noteq> [] \<Longrightarrow>
    get_client c cid = Some x \<Longrightarrow> registered_channel i x"
  by (cases "ci_auth i") (auto simp: enforce_registered_client_auth_def Let_def lookup_client_def
      registered_channel_def opt_true_def split: if_splits option.splits)

end
