(* ===== verification/Ui_Auth.thy ===== *)
theory Ui_Auth
  imports Server
begin

text \<open>
  \<open>security.py\<close>, \<open>routes/_auth.py\<close> and the session views of \<open>routes/ui.py\<close>: the two-step login
  phase, the login gate, the management secret with its session marker, and the two
  \<open>before_request\<close> hooks that guard the mutating requests of the dashboard and of the API. The
  hooks share one contract, the locale \<open>write_guard\<close>.
\<close>

subsection \<open>Secrets\<close>

definition verify_secret :: "str option \<Rightarrow> str option \<Rightarrow> bool" where
  "verify_secret candidate secret =
     (if \<not> opt_true secret \<or> \<not> opt_true candidate then False
      else encode_utf8 (the candidate) = encode_utf8 (the secret))"

lemma encode_utf8_Cons: "encode_utf8 (c # s) =
    (if (of_char c :: int) < 128 then [of_char c]
     else [192 + of_char c div 64, 128 + of_char c mod 64]) @ encode_utf8 s"
  by (simp add: encode_utf8_def Let_def)

lemma of_char_int_bounds: "0 \<le> (of_char c :: int)" "(of_char c :: int) < 256"
  by (metis of_char_mod_256 pos_mod_sign zero_less_numeral,
      metis of_char_mod_256 pos_mod_bound zero_less_numeral)

lemma encode_utf8_inj: "encode_utf8 s = encode_utf8 t \<Longrightarrow> s = t"
proof (induction s arbitrary: t)
  case Nil
  then show ?case by (cases t) (auto simp: encode_utf8_def Let_def split: if_splits)
next
  case (Cons c s)
  show ?case
  proof (cases t)
    case Nil
    with Cons.prems show ?thesis by (simp add: encode_utf8_def Let_def split: if_splits)
  next
    case (Cons d t')
    note eq = Cons.prems [unfolded Cons encode_utf8_Cons]
    obtain a b where ab: "a = (of_char c :: int)" "b = (of_char d :: int)" by blast
    have "a = b"
      using eq of_char_int_bounds [of c] of_char_int_bounds [of d]
      unfolding ab [symmetric] by (auto split: if_splits) (metis div_mult_mod_eq)
    then have "(of_char c :: int) = of_char d" by (simp only: ab)
    moreover from this eq have "encode_utf8 s = encode_utf8 t'" by (auto split: if_splits)
    ultimately show ?thesis using Cons.IH Cons by (simp add: of_char_eq_iff)
  qed
qed

text \<open>Comparing the UTF-8 bytes decides equality of the strings.\<close>

lemma verify_secret_iff: "verify_secret candidate secret \<longleftrightarrow> opt_true secret \<and> candidate = secret"
  using encode_utf8_inj by (auto simp: verify_secret_def opt_true_def)

subsection \<open>The two-step login phase\<close>

datatype two_step_phase = Attempt | UsernameRequired | PasswordRequired | UsernameStep

definition two_step_phase :: "bool \<Rightarrow> str \<Rightarrow> str \<Rightarrow> bool \<Rightarrow> bool \<Rightarrow> two_step_phase" where
  "two_step_phase two_step_active username password password_submitted username_submitted =
     (if \<not> two_step_active then Attempt
      else if username_submitted \<and> username = [] then UsernameRequired
      else if password \<noteq> [] then Attempt
      else if password_submitted then PasswordRequired
      else UsernameStep)"

subsection \<open>The gates\<close>

definition safe_methods :: "str list" where
  "safe_methods = [''GET'', ''HEAD'', ''OPTIONS'']"

definition ui_management_exempt_endpoints :: "str list" where
  "ui_management_exempt_endpoints = [''ui.login'', ''ui.management_unlock'']"

definition is_ui_authenticated :: "world \<Rightarrow> bool" where
  "is_ui_authenticated w \<longleftrightarrow> (case dget (w_session w) ''user'' of None \<Rightarrow> False | Some v \<Rightarrow> json_true v)"

definition ui_login_required :: "request \<Rightarrow> world \<Rightarrow> reply option" where
  "ui_login_required rq w =
     (if \<not> s_require_ui_login (w_settings w) then None
      else if rq_endpoint rq \<in> set [''ui.login'', ''ui.management_unlock''] then None
      else if is_ui_authenticated w then None
      else Some (redirect_reply ''/login''))"

definition verify_management_secret :: "str option \<Rightarrow> world \<Rightarrow> bool" where
  "verify_management_secret candidate w = verify_secret candidate (s_management_secret (w_settings w))"

definition management_verified_marker :: "world \<Rightarrow> str \<Rightarrow> str" where
  "management_verified_marker w secret =
     hexdigest (hmac_sha256 (encode_utf8 (s_secret_key (w_settings w))) (encode_utf8 secret))"

definition mark_management_verified :: "world \<Rightarrow> world" where
  "mark_management_verified w =
     (case s_management_secret (w_settings w) of
        None \<Rightarrow> w
      | Some secret \<Rightarrow>
          if secret = [] then w
          else w\<lparr>w_session := dset ''management_verified''
                   (JStr (management_verified_marker w secret)) (w_session w)\<rparr>)"

definition unlocked_in_session :: "world \<Rightarrow> bool" where
  "unlocked_in_session w =
     (if \<not> opt_true (s_management_secret (w_settings w)) then False
      else (case dget (w_session w) ''management_verified'' of
          Some (JStr marker) \<Rightarrow>
            marker = management_verified_marker w (the (s_management_secret (w_settings w)))
        | _ \<Rightarrow> False))"

definition management_secret_required_for_api :: "request \<Rightarrow> world \<Rightarrow> reply option" where
  "management_secret_required_for_api rq w =
     (if \<not> opt_true (s_management_secret (w_settings w)) then None
      else if rq_method rq \<in> set safe_methods then None
      else if unlocked_in_session w then None
      else if verify_management_secret (rq_management_secret rq) w then None
      else Some (json_reply 401 [(''error'', JStr ''X-Management-Secret header required or invalid'')]))"

definition management_secret_required_for_ui :: "request \<Rightarrow> world \<Rightarrow> reply option" where
  "management_secret_required_for_ui rq w =
     (if \<not> opt_true (s_management_secret (w_settings w)) then None
      else if rq_method rq \<in> set safe_methods then None
      else if rq_endpoint rq \<in> set ui_management_exempt_endpoints then None
      else if unlocked_in_session w then None
      else Some (redirect_reply ''/login?error=Enter+the+management+secret+to+perform+this+action.''))"

definition guarded :: "(request \<Rightarrow> world \<Rightarrow> reply option) \<Rightarrow> (request \<Rightarrow> world \<Rightarrow> reply \<times> world)
    \<Rightarrow> request \<Rightarrow> world \<Rightarrow> reply \<times> world" where
  \<comment> \<open>a view behind a \<open>before_request\<close> hook\<close>
  "guarded gate view rq w = (case gate rq w of None \<Rightarrow> view rq w | Some r \<Rightarrow> (r, w))"

subsection \<open>The contract of a write guard\<close>

locale write_guard =
  fixes gate :: "request \<Rightarrow> world \<Rightarrow> reply option"
    and passes :: "request \<Rightarrow> world \<Rightarrow> bool" \<comment> \<open>exempt, or proves the secret itself\<close>
  assumes gate_open: "gate rq w = None \<longleftrightarrow> \<not> opt_true (s_management_secret (w_settings w))
      \<or> rq_method rq \<in> set safe_methods \<or> unlocked_in_session w \<or> passes rq w"
begin

lemma off: "\<not> opt_true (s_management_secret (w_settings w)) \<Longrightarrow> guarded gate view rq w = view rq w"
  using gate_open [of rq w] by (simp add: guarded_def)

lemma reads_pass: "rq_method rq \<in> set safe_methods \<Longrightarrow> guarded gate view rq w = view rq w"
  using gate_open [of rq w] by (simp add: guarded_def)

lemma mutation_blocked:
  assumes "opt_true (s_management_secret (w_settings w))" "rq_method rq \<notin> set safe_methods"
    and "\<not> unlocked_in_session w" "\<not> passes rq w"
  shows "snd (guarded gate view rq w) = w"
  using assms gate_open [of rq w] by (auto simp: guarded_def split: option.splits)

lemma unlocked_passes: "unlocked_in_session w \<Longrightarrow> guarded gate view rq w = view rq w"
  using gate_open [of rq w] by (simp add: guarded_def)

end

interpretation api_guard: write_guard management_secret_required_for_api
    "\<lambda>rq w. verify_management_secret (rq_management_secret rq) w"
  by unfold_locales (simp add: management_secret_required_for_api_def)

interpretation ui_guard: write_guard management_secret_required_for_ui
    "\<lambda>rq w. rq_endpoint rq \<in> set ui_management_exempt_endpoints"
  by unfold_locales (simp add: management_secret_required_for_ui_def)

lemma mark_unlocks:
  assumes "opt_true (s_management_secret (w_settings w))"
  shows "unlocked_in_session (mark_management_verified w)"
  using assms
  by (auto simp: unlocked_in_session_def mark_management_verified_def management_verified_marker_def
      opt_true_def split: option.splits)

subsection \<open>The session views\<close>

definition flash :: "str \<Rightarrow> str \<Rightarrow> world \<Rightarrow> world" where
  "flash message category w =
     w\<lparr>w_session := dset ''_flashes''
        (JList ((case dget (w_session w) ''_flashes'' of Some (JList xs) \<Rightarrow> xs | _ \<Rightarrow> [])
                @ [JList [JStr category, JStr message]])) (w_session w)\<rparr>"

definition picker_json :: "config \<Rightarrow> json" where
  "picker_json c = JList (map (\<lambda>(n, d). JList [JStr n, JStr d]) (persona_picker_entries c))"

definition render_login :: "world \<Rightarrow> str option \<Rightarrow> str \<Rightarrow> reply" where
  "render_login w err login_username =
     page_reply ''login.html''
       [(''error'', jopt err), (''users'', picker_json (w_config w)),
        (''persona_mode'', JBool (persona_mode_enabled (w_settings w))),
        (''two_step_login'', JBool (two_step_login_active (w_settings w))),
        (''login_username'', JStr login_username),
        (''management_secret_configured'', JBool (opt_true (s_management_secret (w_settings w))))]"

definition login_error :: "str \<Rightarrow> reply" where
  \<comment> \<open>\<open>redirect(url_for("ui.login", error=...))\<close>\<close>
  "login_error message = redirect_reply (''/login?error='' @ quote_plus message)"

definition ui_login :: "lib \<Rightarrow> time \<Rightarrow> request \<Rightarrow> world \<Rightarrow> reply \<times> world" where
  "ui_login L now rq w =
     (let persona_mode = persona_mode_enabled (w_settings w);
          two_step = two_step_login_active (w_settings w)
      in if rq_method rq = ''GET'' then (render_login w (param (rq_args rq) ''error'') [], w)
         else
           let username = py_strip (param_or (rq_form rq) ''username'' []);
               password = param_or (rq_form rq) ''password'' [];
               phase = two_step_phase two_step username password (param (rq_form rq) ''password'' \<noteq> None) True
           in if phase = UsernameRequired then (render_login w (Some ''Username is required'') [], w)
              else if phase = PasswordRequired then (render_login w (Some ''Password is required'') username, w)
              else if phase = UsernameStep then (render_login w None username, w)
              else if \<not> two_step \<and> ((persona_mode \<and> username = [])
                       \<or> (\<not> persona_mode \<and> (username = [] \<or> password = []))) then
                (login_error (if persona_mode then ''Select a user'' else ''Username and password required''), w)
              else (case interactive_authenticate L (w_config w) username password of
                 None \<Rightarrow>
                   (let w1 = audit_event now rq ''login'' ''failed'' ''/login'' (Some username) None
                               [(''reason'', JStr ''Invalid credentials'')] w
                    in if two_step then (render_login w1 (Some ''Invalid credentials'') username, w1)
                       else (login_error ''Invalid credentials'', w1))
               | Some user \<Rightarrow>
                   (let w1 = w\<lparr>w_session := dset ''_permanent'' (JBool True)
                          (dset ''auth_method'' (JStr (if persona_mode then ''persona'' else ''password''))
                            (dset ''user'' (JStr username) (w_session w)))\<rparr>
                    in (redirect_reply ''/'',
                        audit_event now rq ''login'' ''success'' ''/login'' (Some username) None [] w1))))"

definition ui_logout :: "time \<Rightarrow> request \<Rightarrow> world \<Rightarrow> reply \<times> world" where
  "ui_logout now rq w =
     (let w1 = w\<lparr>w_session := []\<rparr> in
      (redirect_reply ''/'',
       (case dget (w_session w) ''user'' of
          None \<Rightarrow> w1
        | Some v \<Rightarrow> if json_true v
            then audit_event now rq ''logout'' ''success'' ''/ui/logout'' (Some (json_str v)) None [] w1
            else w1)))"

definition management_unlock :: "request \<Rightarrow> world \<Rightarrow> reply \<times> world" where
  "management_unlock rq w =
     (if \<not> verify_management_secret (Some (param_or (rq_form rq) ''management_secret'' [])) w
      then (login_error ''Invalid management secret.'', w)
      else (redirect_reply ''/'',
            flash ''Management secret accepted - mutating actions unlocked for this session.'' ''success''
              (mark_management_verified w)))"

lemma unlocked_flash: "unlocked_in_session (flash m c w) \<longleftrightarrow> unlocked_in_session w"
  by (simp add: flash_def unlocked_in_session_def management_verified_marker_def
      split: option.split json.split)

text \<open>The unlock form opens the guard exactly for the configured secret.\<close>

lemma unlock_iff:
  assumes "\<not> unlocked_in_session w"
  shows "unlocked_in_session (snd (management_unlock rq w)) \<longleftrightarrow>
    opt_true (s_management_secret (w_settings w))
      \<and> s_management_secret (w_settings w) = Some (param_or (rq_form rq) ''management_secret'' [])"
proof (cases "verify_management_secret (Some (param_or (rq_form rq) ''management_secret'' [])) w")
  case True
  then have s: "opt_true (s_management_secret (w_settings w))"
    "s_management_secret (w_settings w) = Some (param_or (rq_form rq) ''management_secret'' [])"
    by (auto simp: verify_management_secret_def verify_secret_iff)
  have "unlocked_in_session (flash m c (mark_management_verified w))" for m c
    using mark_unlocks [OF s(1)] by (simp add: unlocked_flash)
  with True s show ?thesis by (simp add: management_unlock_def)
next
  case False
  with assms show ?thesis
    by (auto simp: management_unlock_def verify_management_secret_def verify_secret_iff)
qed

end
