(* ===== verification/Grants.thy ===== *)
theory Grants
  imports Server
begin

text \<open>
  \<open>routes/oauth_grants.py\<close>: one handler per grant type of \<open>/token\<close>. A handler gives a finished
  reply (\<open>Inl\<close>) or the parameters of the tokens to mint (\<open>Inr\<close>), and the next world: the audit
  events it logs and the code, device code or refresh token it spends.

  Claims of a presented refresh token are JSON values. PyJWT refuses a token whose \<open>sub\<close> or \<open>jti\<close>
  is not a string; \<open>rt_family\<close> is read as a string, and a \<open>resource\<close> list as a list of strings.
\<close>

record grant_outcome =
  go_user :: user
  go_username :: str
  go_nonce :: "str option"
  go_scope :: "str option"
  go_auth_time :: "json option"
  go_refresh_family :: "str option"
  go_id_token_claims :: "json option"
  go_userinfo_claims :: "json option"
  go_issue_refresh_token :: bool
  go_resource :: "str list option"
  go_refresh_resource :: "str list option"

definition outcome :: "user \<Rightarrow> str \<Rightarrow> grant_outcome" where
  \<comment> \<open>the dataclass with its defaults\<close>
  "outcome u name = \<lparr>go_user = u, go_username = name, go_nonce = None, go_scope = None,
     go_auth_time = None, go_refresh_family = None, go_id_token_claims = None,
     go_userinfo_claims = None, go_issue_refresh_token = True, go_resource = None,
     go_refresh_resource = None\<rparr>"

record grant_context =
  gc_client_id :: str
  gc_grant_type :: str

type_synonym 'a step = "(reply + 'a) \<times> world"

definition seq :: "'a step \<Rightarrow> ('a \<Rightarrow> world \<Rightarrow> 'b step) \<Rightarrow> 'b step" where
  \<comment> \<open>go on unless a reply is already there\<close>
  "seq m f = (case m of (Inl r, w) \<Rightarrow> (Inl r, w) | (Inr x, w) \<Rightarrow> f x w)"

subsection \<open>Shared by the handlers\<close>

definition why :: "grant_context \<Rightarrow> str \<Rightarrow> claims" where
  "why ctx reason = [(''reason'', JStr reason), (''grant_type'', JStr (gc_grant_type ctx))]"

definition refuse :: "time \<Rightarrow> request \<Rightarrow> grant_context \<Rightarrow> str option \<Rightarrow> claims \<Rightarrow> reply \<Rightarrow> world \<Rightarrow> 'a step" where
  \<comment> \<open>log the failed token request, then answer\<close>
  "refuse now rq ctx username details rep w =
     (Inl rep, audit_event now rq ''token_request'' ''failed'' ''/token'' username
        (Some (gc_client_id ctx)) details w)"

definition opt_list :: "'a list option \<Rightarrow> 'a list option" where
  \<comment> \<open>\<open>x or None\<close>\<close>
  "opt_list x = (if opt_true x then x else None)"

definition resolve_token_resource :: "time \<Rightarrow> request \<Rightarrow> grant_context \<Rightarrow> oauth_client option
    \<Rightarrow> str list option \<Rightarrow> world \<Rightarrow> str list option step" where
  "resolve_token_resource now rq ctx client original w =
     (let requested = getlist (rq_form rq) ''resource'';
          reject = (\<lambda>r. let d = the (rr_error_description r) in
            refuse now rq ctx None (why ctx d) (oauth_error ''invalid_target'' d 400) w)
      in if requested = [] then
           (if \<not> opt_true original then (Inr None, w)
            else (case client of
               None \<Rightarrow> (Inr original, w)
             | Some c \<Rightarrow>
                 (let r = resolve_resources (the original) c None in
                  if \<not> resource_ok r then reject r else (Inr (opt_list (rr_granted r)), w))))
         else (case client of
             None \<Rightarrow> (Inl (oauth_error ''invalid_target'' ''Unknown client'' 400), w)
           | Some c \<Rightarrow>
               (let r = resolve_resources requested c original in
                if \<not> resource_ok r then reject r else (Inr (opt_list (rr_granted r)), w))))"

definition grant_scope :: "time \<Rightarrow> request \<Rightarrow> grant_context \<Rightarrow> str option \<Rightarrow> str option \<Rightarrow> bool \<Rightarrow> world
    \<Rightarrow> str option step" where
  \<comment> \<open>the scope check every handler makes on the named client\<close>
  "grant_scope now rq ctx username scope validate_only w =
     (case get_client (w_config w) (gc_client_id ctx) of
        None \<Rightarrow> (Inr scope, w)
      | Some client \<Rightarrow>
          (let r = resolve_scope scope client (s_scopes_supported (w_settings w))
                     (scope_enforcement_active (w_settings w)) None validate_only
           in if \<not> scope_ok r then
                (let d = the (sr_error_description r) in
                 refuse now rq ctx username (why ctx d) (oauth_error ''invalid_scope'' d 400) w)
              else (Inr (sr_granted r), w)))"

definition finish_grant :: "time \<Rightarrow> request \<Rightarrow> grant_context \<Rightarrow> str option \<Rightarrow> str option \<Rightarrow> bool
    \<Rightarrow> str list option \<Rightarrow> (str option \<Rightarrow> str list option \<Rightarrow> grant_outcome) \<Rightarrow> world \<Rightarrow> grant_outcome step" where
  \<comment> \<open>the end all grants but the refresh have in common: scope, resources, outcome\<close>
  "finish_grant now rq ctx username scope validate_only original mk w =
     seq (grant_scope now rq ctx username scope validate_only w) (\<lambda>granted w1.
       seq (resolve_token_resource now rq ctx (get_client (w_config w1) (gc_client_id ctx)) original w1)
         (\<lambda>resource w2. (Inr (mk granted resource), w2)))"

subsection \<open>refresh_token\<close>

definition jget :: "claims \<Rightarrow> str \<Rightarrow> json option" where
  \<comment> \<open>\<open>payload.get(k)\<close>\<close>
  "jget p k = (case dget p k of Some JNull \<Rightarrow> None | x \<Rightarrow> x)"

definition claim_str :: "claims \<Rightarrow> str \<Rightarrow> str option" where
  "claim_str p k = (case dget p k of Some (JStr s) \<Rightarrow> Some s | _ \<Rightarrow> None)"

fun iter_strs :: "json \<Rightarrow> str list option" where
  \<comment> \<open>what iterating over the value yields; \<open>None\<close> is \<open>TypeError\<close>\<close>
  "iter_strs (JStr s) = Some (map (\<lambda>c. [c]) s)"
| "iter_strs (JList xs) = (if list_all json_is_str xs then Some (map json_str xs) else None)"
| "iter_strs (JObj d) = Some (map fst d)"
| "iter_strs _ = None"

definition claim_strs :: "claims \<Rightarrow> str \<Rightarrow> str list option" where
  \<comment> \<open>\<open>payload.get(k) or []\<close>\<close>
  "claim_strs p k = (case jget p k of None \<Rightarrow> Some []
     | Some v \<Rightarrow> if json_true v then iter_strs v else Some [])"

definition refresh_payload_of :: "lib \<Rightarrow> time \<Rightarrow> request \<Rightarrow> grant_context \<Rightarrow> world \<Rightarrow> (claims \<times> user) step" where
  \<comment> \<open>from the parameter to the user the token names\<close>
  "refresh_payload_of L now rq ctx w =
     (let refresh_token = param_or (rq_form rq) ''refresh_token'' [] in
      if refresh_token = [] then
        refuse now rq ctx None (why ctx ''Missing refresh_token'')
          (oauth_error ''invalid_request'' ''refresh_token is required'' 400) w
      else (case verify_jwt L now (w_crypto w) refresh_token (Some [s_audience (w_settings w)]) of
         Inl e \<Rightarrow>
           refuse now rq ctx None (why ctx (''Invalid refresh token: '' @ e))
             (oauth_error ''invalid_grant''
               (''Refresh token is invalid: bad signature, expired, ''
                @ ''or not acceptable under the nanoidp token profile'') 400) w
       | Inr payload \<Rightarrow>
           if dget payload ''token_type'' \<noteq> Some (JStr ''refresh'') then
             refuse now rq ctx None (why ctx ''Not a refresh token'')
               (oauth_error ''invalid_grant'' ''The presented token is not a refresh token'' 400) w
           else (case jget payload ''client_id'' of
              None \<Rightarrow> refuse now rq ctx None (why ctx ''Refresh token has no client_id binding claim'')
                (oauth_error ''invalid_grant'' (''This refresh token predates client binding and is no ''
                   @ ''longer accepted; obtain a new one'') 400) w
            | Some bound_client \<Rightarrow>
                if \<not> json_true bound_client then
                  refuse now rq ctx None (why ctx ''Refresh token has no client_id binding claim'')
                    (oauth_error ''invalid_grant'' (''This refresh token predates client binding and is no ''
                       @ ''longer accepted; obtain a new one'') 400) w
                else if bound_client \<noteq> JStr (gc_client_id ctx) then
                  refuse now rq ctx None
                    (why ctx ''Refresh token was issued to a different client''
                     @ [(''bound_client'', bound_client)])
                    (oauth_error ''invalid_grant'' ''Refresh token was not issued to this client'' 400) w
                else if \<not> opt_true (claim_str payload ''sub'') then
                  (Inl (oauth_error ''invalid_grant'' ''Refresh token carries no subject'' 400), w)
                else
                  let username = the (claim_str payload ''sub'') in
                  (case get_user (w_config w) username of
                     None \<Rightarrow> refuse now rq ctx (Some username) (why ctx ''User not found'')
                       (oauth_error ''invalid_grant''
                          ''The user this grant was issued for no longer exists'' 400) w
                   | Some user \<Rightarrow> (Inr (payload, user), w)))))"

definition refresh_scope :: "time \<Rightarrow> request \<Rightarrow> grant_context \<Rightarrow> str \<Rightarrow> claims \<Rightarrow> world
    \<Rightarrow> (str option \<times> bool) step" where
  \<comment> \<open>the flag says that the token carries a scope that is no string, on which the code raises as
      soon as it splits it\<close>
  "refresh_scope now rq ctx username payload w =
     (let claim = (case jget payload ''scope'' of None \<Rightarrow> JStr []
                   | Some v \<Rightarrow> if json_true v then v else JStr []);
          requested = param (rq_form rq) ''scope'';
          original = json_str claim
      in if opt_true requested then
           (if \<not> json_is_str claim then (Inl (Inl RaiseAttribute), w)
            else
              let rejected = filter (\<lambda>s. s \<notin> set (py_split original)) (py_split (the requested)) in
              if rejected \<noteq> [] then
                refuse now rq ctx (Some username)
                  (why ctx ''Requested scope exceeds originally granted scope''
                   @ [(''rejected_scopes'', jstrs rejected)])
                  (oauth_error ''invalid_scope'' ''Requested scope exceeds originally granted scope'' 400) w
              else seq (grant_scope now rq ctx (Some username) requested True w)
                (\<lambda>scope w'. (Inr (scope, False), w')))
         else if \<not> json_is_str claim then
           (if get_client (w_config w) (gc_client_id ctx) \<noteq> None
               \<and> scope_enforcement_active (w_settings w)
            then (Inl (Inl RaiseAttribute), w) else (Inr (None, True), w))
         else seq (grant_scope now rq ctx (Some username) (or_none original) True w)
           (\<lambda>scope w'. (Inr (scope, False), w')))"

definition rotates_for :: "settings \<Rightarrow> oauth_client option \<Rightarrow> bool" where
  "rotates_for s client \<longleftrightarrow> rotation_enabled s \<or> (case client of None \<Rightarrow> False | Some c \<Rightarrow> is_public c)"

definition claim_refresh :: "time \<Rightarrow> claims \<Rightarrow> oauth_client option \<Rightarrow> world \<Rightarrow> bool \<times> world" where
  \<comment> \<open>the check-and-claim of the presented token; the flag says that reuse was detected\<close>
  "claim_refresh now payload client w =
     (let (reuse, st) = check_and_claim_refresh now (claim_str payload ''jti'')
            (claim_str payload ''rt_family'') (rotates_for (w_settings w) client)
            (payload_exp payload) (w_revoked w)
      in (reuse, w\<lparr>w_revoked := st\<rparr>))"

definition spend_refresh :: "time \<Rightarrow> request \<Rightarrow> grant_context \<Rightarrow> oauth_client option \<Rightarrow> claims \<Rightarrow> user
    \<Rightarrow> str option \<Rightarrow> bool \<Rightarrow> world \<Rightarrow> grant_outcome step" where
  \<comment> \<open>from the claim of the presented token to the outcome\<close>
  "spend_refresh now rq ctx client payload user scope unusable w =
     (let username = the (claim_str payload ''sub'');
          (reuse_detected, w1) = claim_refresh now payload client w
      in if reuse_detected then
           refuse now rq ctx (Some username)
             (why ctx ''Refresh token revoked (rotated, reused, or family revoked)'')
             (oauth_error ''invalid_grant'' ''Refresh token has been revoked'' 400) w1
         else (case claim_strs payload ''resource'' of
            None \<Rightarrow> (Inl (Inl RaiseType), w1)
          | Some original \<Rightarrow>
              seq (resolve_token_resource now rq ctx client (Some original) w1) (\<lambda>resource w2.
                if unusable then (Inl (Inl RaiseAttribute), w2)
                else
                  (Inr ((outcome user username)\<lparr>
                     go_scope := scope, go_auth_time := jget payload ''auth_time'',
                     go_refresh_family := claim_str payload ''rt_family'',
                     go_id_token_claims := jget payload ''req_id_token_claims'',
                     go_userinfo_claims := jget payload ''req_userinfo_claims'',
                     go_resource := resource,
                     go_refresh_resource := or_none original\<rparr>), w2))))"

definition grant_refresh_token :: "lib \<Rightarrow> time \<Rightarrow> request \<Rightarrow> grant_context \<Rightarrow> world \<Rightarrow> grant_outcome step" where
  "grant_refresh_token L now rq ctx w =
     seq (refresh_payload_of L now rq ctx w) (\<lambda>(payload, user) w1.
       seq (refresh_scope now rq ctx (the (claim_str payload ''sub'')) payload w1)
         (\<lambda>(scope, unusable) w2.
           spend_refresh now rq ctx (get_client (w_config w2) (gc_client_id ctx)) payload user
             scope unusable w2))"

subsection \<open>password\<close>

definition grant_password :: "lib \<Rightarrow> time \<Rightarrow> request \<Rightarrow> grant_context \<Rightarrow> world \<Rightarrow> grant_outcome step" where
  "grant_password L now rq ctx w =
     (if \<not> password_grant_enabled (w_settings w) then
        refuse now rq ctx None (why ctx ''password grant disabled by the oauth21 profile'')
          (oauth_error ''unsupported_grant_type'' ''The password grant is disabled by the oauth21 profile'' 400) w
      else
        let username = py_strip (param_or (rq_form rq) ''username'' []);
            password = param_or (rq_form rq) ''password'' []
        in if username = [] \<or> password = [] then
             refuse now rq ctx None (why ctx ''Missing username or password'')
               (oauth_error ''invalid_request''
                  ''username and password are required for the password grant'' 400) w
           else (case authenticate L (w_config w) username password of
              None \<Rightarrow> refuse now rq ctx (Some username) (why ctx ''Invalid credentials'')
                (oauth_error ''invalid_grant'' ''Invalid resource owner credentials'' 400) w
            | Some user \<Rightarrow>
                finish_grant now rq ctx (Some username) (param (rq_form rq) ''scope'') False None
                  (\<lambda>scope resource. (outcome user username)\<lparr>
                     go_nonce := opt_list (param (rq_form rq) ''nonce''), go_scope := scope,
                     go_resource := resource\<rparr>) w))"

subsection \<open>authorization_code\<close>

definition redeem_code :: "time \<Rightarrow> request \<Rightarrow> grant_context \<Rightarrow> world
    \<Rightarrow> (authorization_code \<times> user) step" where
  \<comment> \<open>from the parameters to the consumed code and its user\<close>
  "redeem_code now rq ctx w =
     (let code = param_or (rq_form rq) ''code'' [];
          redirect_uri = param_or (rq_form rq) ''redirect_uri'' [];
          code_verifier = param (rq_form rq) ''code_verifier''
      in if code = [] then
           refuse now rq ctx None (why ctx ''Missing authorization code'')
             (oauth_error ''invalid_request'' ''code is required'' 400) w
         else if redirect_uri = [] then
           refuse now rq ctx None (why ctx ''Missing redirect_uri'')
             (oauth_error ''invalid_request'' ''redirect_uri is required'' 400) w
         else
           let (r, codes) = consume_code now code (gc_client_id ctx) redirect_uri code_verifier (w_codes w);
               w1 = w\<lparr>w_codes := codes\<rparr>
           in (case r of
              Inl e \<Rightarrow> (Inl (Inl RaiseUnicode), w1)
            | Inr None \<Rightarrow> refuse now rq ctx None (why ctx ''Invalid or expired authorization code'')
                (oauth_error ''invalid_grant'' ''Invalid or expired authorization code'' 400) w1
            | Inr (Some auth_code) \<Rightarrow>
                (case get_user (w_config w) (ac_username auth_code) of
                   None \<Rightarrow> refuse now rq ctx (Some (ac_username auth_code)) (why ctx ''User not found'')
                     (oauth_error ''invalid_grant''
                        ''The user this grant was issued for no longer exists'' 400) w1
                 | Some user \<Rightarrow> (Inr (auth_code, user), w1))))"

definition requested_names :: "authorization_code \<Rightarrow> str \<Rightarrow> json option" where
  \<comment> \<open>\<open>(auth_code.claims or {}).get(member)\<close>\<close>
  "requested_names a member =
     (case ac_claims a of None \<Rightarrow> None | Some d \<Rightarrow> map_option jstrs (dget d member))"

definition opt_or_nil :: "'a list option \<Rightarrow> 'a list" where
  \<comment> \<open>\<open>x or []\<close>\<close>
  "opt_or_nil x = (case x of None \<Rightarrow> [] | Some y \<Rightarrow> y)"

definition grant_authorization_code :: "time \<Rightarrow> request \<Rightarrow> grant_context \<Rightarrow> world \<Rightarrow> grant_outcome step" where
  "grant_authorization_code now rq ctx w =
     seq (redeem_code now rq ctx w) (\<lambda>(auth_code, user) w1.
       finish_grant now rq ctx (Some (ac_username auth_code)) (Some (ac_scope auth_code)) True
         (Some (opt_or_nil (ac_resource auth_code)))
         (\<lambda>scope resource. (outcome user (ac_username auth_code))\<lparr>
            go_nonce := ac_nonce auth_code, go_scope := scope,
            go_auth_time := Some (JInt (to_secs (ac_created_at auth_code))),
            go_id_token_claims := requested_names auth_code ''id_token'',
            go_userinfo_claims := requested_names auth_code ''userinfo'',
            go_resource := resource,
            go_refresh_resource := opt_list (ac_resource auth_code)\<rparr>) w1)"

subsection \<open>client_credentials\<close>

definition drop_openid :: "str option \<Rightarrow> str option" where
  "drop_openid scope =
     (if opt_true scope
      then or_none (join '' '' (filter (\<lambda>t. t \<noteq> ''openid'') (py_split (the scope)))) else scope)"

definition service_account :: user where
  "service_account = \<lparr>u_username = ''service-account'', u_password = None, u_description = [],
     u_email = [], u_identity_class = None, u_entitlements = [], u_roles = [''user''], u_groups = [],
     u_tenant = ''default'', u_source_acl = [], u_attributes = []\<rparr>"

definition grant_client_credentials :: "time \<Rightarrow> request \<Rightarrow> grant_context \<Rightarrow> world \<Rightarrow> grant_outcome step" where
  "grant_client_credentials now rq ctx w =
     (let client = get_client (w_config w) (gc_client_id ctx);
          user = (case get_user (w_config w) (c_default_user (w_config w)) of
                    None \<Rightarrow> service_account | Some u \<Rightarrow> u)
      in finish_grant now rq ctx None (param (rq_form rq) ''scope'') False None
           (\<lambda>scope resource. (outcome user (u_username user))\<lparr>
              go_scope := (if client = None then scope else drop_openid scope),
              go_issue_refresh_token := False, go_resource := resource\<rparr>) w)"

subsection \<open>urn:ietf:params:oauth:grant-type:device_code\<close>

definition device_refusal :: "poll_outcome \<Rightarrow> reply" where
  "device_refusal o' =
     (case o' of
        PollWrongClient \<Rightarrow> oauth_error ''invalid_grant'' ''Device code was not issued to this client'' 400
      | PollExpired \<Rightarrow> oauth_error ''expired_token'' ''Device code has expired'' 400
      | PollPending \<Rightarrow> oauth_error ''authorization_pending'' ''User has not yet authorized the device'' 400
      | PollDenied \<Rightarrow> oauth_error ''access_denied'' ''User denied the authorization request'' 400
      | PollUserNotFound \<Rightarrow> oauth_error ''server_error'' ''User not found'' 500
      | _ \<Rightarrow> oauth_error ''server_error'' ''Unknown device code status'' 500)"

definition grant_device_code :: "time \<Rightarrow> request \<Rightarrow> grant_context \<Rightarrow> world \<Rightarrow> grant_outcome step" where
  "grant_device_code now rq ctx w =
     (let device_code = param_or (rq_form rq) ''device_code'' [] in
      if device_code = [] then
        refuse now rq ctx None (why ctx ''Missing device_code'')
          (oauth_error ''invalid_request'' ''device_code is required'' 400) w
      else
        let ((result, user, grant), devices) =
              poll now device_code (gc_client_id ctx) (get_user (w_config w)) (w_devices w);
            w1 = w\<lparr>w_devices := devices\<rparr>
        in if result = PollNotFound then
             refuse now rq ctx None (why ctx ''Invalid device_code'')
               (oauth_error ''invalid_grant'' ''Invalid device code'' 400) w1
           else (case (result, user, grant) of
              (PollAuthorized, Some u, Some g) \<Rightarrow>
                finish_grant now rq ctx (Some (u_username u)) (Some (dg_scope g)) True
                  (Some (opt_or_nil (dg_resource g)))
                  (\<lambda>scope resource. (outcome u (u_username u))\<lparr>go_scope := scope,
                     go_auth_time := map_option JInt (dg_auth_time g), go_resource := resource,
                     go_refresh_resource := opt_list (dg_resource g)\<rparr>) w1
            | _ \<Rightarrow> (Inl (device_refusal result), w1)))"

subsection \<open>Dispatch\<close>

definition device_grant_type :: str where
  "device_grant_type = ''urn:ietf:params:oauth:grant-type:device_code''"

definition grant_handler :: "lib \<Rightarrow> str \<Rightarrow> (time \<Rightarrow> request \<Rightarrow> grant_context \<Rightarrow> world \<Rightarrow> grant_outcome step) option" where
  \<comment> \<open>\<open>_GRANT_HANDLERS.get(grant_type)\<close>\<close>
  "grant_handler L grant_type =
     (if grant_type = ''refresh_token'' then Some (grant_refresh_token L)
      else if grant_type = ''password'' then Some (grant_password L)
      else if grant_type = ''authorization_code'' then Some grant_authorization_code
      else if grant_type = ''client_credentials'' then Some grant_client_credentials
      else if grant_type = device_grant_type then Some grant_device_code
      else None)"

subsection \<open>What the shared steps keep and grant\<close>

lemma audit_event_keeps [simp]:
  "w_config (audit_event now rq e st ep u c d w) = w_config w"
  "w_codes (audit_event now rq e st ep u c d w) = w_codes w"
  "w_devices (audit_event now rq e st ep u c d w) = w_devices w"
  "w_revoked (audit_event now rq e st ep u c d w) = w_revoked w"
  "w_crypto (audit_event now rq e st ep u c d w) = w_crypto w"
  "w_session (audit_event now rq e st ep u c d w) = w_session w"
  "w_draws (audit_event now rq e st ep u c d w) = w_draws w"
  by (simp_all add: audit_event_def)

text \<open>A refusal answers and changes nothing but the audit log.\<close>

lemma refuse_fst [simp]: "fst (refuse now rq ctx u d r w) = Inl r"
  by (simp add: refuse_def)

lemma refuse_snd: "snd (refuse now rq ctx u d r w) = audit_event now rq ''token_request'' ''failed'' ''/token'' u
    (Some (gc_client_id ctx)) d w"
  by (simp add: refuse_def)

lemma refuse_not_Inr [simp]: "refuse now rq ctx u d r w \<noteq> (Inr x, w')"
  by (simp add: refuse_def)

definition same_state :: "world \<Rightarrow> world \<Rightarrow> bool" where
  \<comment> \<open>equal up to the audit log\<close>
  "same_state w w' \<longleftrightarrow> w\<lparr>w_audit := w_audit w'\<rparr> = w'"

lemma same_state_refl [simp]: "same_state w w"
  by (simp add: same_state_def)

lemma same_state_refuse [simp]: "same_state w (snd (refuse now rq ctx u d r w))"
  by (simp add: same_state_def refuse_def audit_event_def)

lemma same_state_fields:
  "same_state w w' \<Longrightarrow> w_config w' = w_config w \<and> w_codes w' = w_codes w \<and> w_devices w' = w_devices w
     \<and> w_revoked w' = w_revoked w \<and> w_crypto w' = w_crypto w \<and> w_session w' = w_session w
     \<and> w_draws w' = w_draws w"
  by (cases w; cases w') (simp add: same_state_def)

lemma same_state_trans: "same_state a b \<Longrightarrow> same_state b c \<Longrightarrow> same_state a c"
  by (cases a; cases b; cases c) (simp add: same_state_def)

lemma grant_scope_same: "same_state w (snd (grant_scope now rq ctx u scope v w))"
  by (simp add: grant_scope_def Let_def split: option.split)

lemma grant_scope_Inr: "grant_scope now rq ctx u scope v w = (Inr s, w') \<longleftrightarrow> w' = w \<and>
    (case get_client (w_config w) (gc_client_id ctx) of
       None \<Rightarrow> s = scope
     | Some client \<Rightarrow>
         (let r = resolve_scope scope client (s_scopes_supported (w_settings w))
                    (scope_enforcement_active (w_settings w)) None v
          in scope_ok r \<and> s = sr_granted r))"
  by (auto simp: grant_scope_def Let_def split: option.split)

lemma resolve_token_resource_same: "same_state w (snd (resolve_token_resource now rq ctx client original w))"
  by (simp add: resolve_token_resource_def Let_def split: option.split)

lemma resolve_token_resource_Inr:
  "resolve_token_resource now rq ctx client original w = (Inr res, w') \<Longrightarrow> w' = w"
  by (auto simp: resolve_token_resource_def Let_def split: option.splits if_splits)

subsection \<open>Sequencing\<close>

lemma seq_Inr: "seq m f = (Inr y, w') \<longleftrightarrow> (\<exists>x w1. m = (Inr x, w1) \<and> f x w1 = (Inr y, w'))"
  by (auto simp: seq_def split: prod.splits sum.splits)

lemma seq_InrE:
  assumes "seq m f = (Inr y, w')"
  obtains x w1 where "m = (Inr x, w1)" "f x w1 = (Inr y, w')"
  using assms by (auto simp: seq_Inr)

lemma step_granted: "\<not> isl (fst m) \<Longrightarrow> \<exists>x w'. m = (Inr x, w')"
  by (cases m rule: prod.exhaust; cases "fst m") auto

lemma seq_snd: "P (snd m) \<Longrightarrow> (\<And>x w. P w \<Longrightarrow> P (snd (f x w))) \<Longrightarrow> P (snd (seq m f))"
  by (auto simp: seq_def split: prod.splits sum.splits)

subsection \<open>Refusals\<close>

definition refused :: "reply \<Rightarrow> bool" where
  \<comment> \<open>an error status, or an escaped exception\<close>
  "refused r = (case r of Inl _ \<Rightarrow> True | Inr x \<Rightarrow> 400 \<le> rs_status x)"

lemma refused_simps [simp]:
  "refused (Inl e)"
  "refused (oauth_error err descr st) \<longleftrightarrow> 400 \<le> st"
  "refused (invalid_client_error descr b)"
  "refused (json_reply st d) \<longleftrightarrow> 400 \<le> st"
  by (simp_all add: refused_def oauth_error_def json_reply_def invalid_client_error_def)

definition refuses :: "'a step \<Rightarrow> bool" where
  \<comment> \<open>a step that answers, answers with a refusal\<close>
  "refuses m = (case fst m of Inl r \<Rightarrow> refused r | Inr _ \<Rightarrow> True)"

lemma refuses_simps [simp]:
  "refuses (Inl r, w) \<longleftrightarrow> refused r"
  "refuses (Inr x, w)"
  "refuses (refuse now rq ctx u d r w) \<longleftrightarrow> refused r"
  by (simp_all add: refuses_def)

lemma refuses_seq [intro!]: "refuses m \<Longrightarrow> (\<And>x w. refuses (f x w)) \<Longrightarrow> refuses (seq m f)"
  by (auto simp: seq_def refuses_def [of m] split: prod.splits sum.splits)

lemma grant_scope_refuses: "refuses (grant_scope now rq ctx u scope v w)"
  by (simp add: grant_scope_def Let_def split: option.split)

lemma resolve_token_resource_refuses: "refuses (resolve_token_resource now rq ctx c orig w)"
  by (simp add: resolve_token_resource_def Let_def split: option.split)

lemma finish_grant_refuses: "refuses (finish_grant now rq ctx u scope v orig mk w)"
  unfolding finish_grant_def by (auto intro: grant_scope_refuses resolve_token_resource_refuses)

lemma refresh_payload_of_refuses: "refuses (refresh_payload_of L now rq ctx w)"
  by (simp add: refresh_payload_of_def Let_def split: option.split sum.split)

lemma refresh_scope_refuses: "refuses (refresh_scope now rq ctx name p w)"
  unfolding refresh_scope_def Let_def
  by (auto simp del: split_paired_All intro: grant_scope_refuses)

lemma redeem_code_refuses: "refuses (redeem_code now rq ctx w)"
  by (simp add: redeem_code_def Let_def split: option.split sum.split prod.split)

lemma device_refusal_refused [simp]: "refused (device_refusal x)"
  by (cases x) (simp_all add: device_refusal_def)

lemmas step_refuses = grant_scope_refuses finish_grant_refuses resolve_token_resource_refuses refresh_payload_of_refuses
  refresh_scope_refuses redeem_code_refuses

lemma spend_refresh_refuses: "refuses (spend_refresh now rq ctx client p u sc b w)"
  unfolding spend_refresh_def Let_def
  by (auto intro: step_refuses split: prod.split option.split)

lemma grant_refresh_token_refuses: "refuses (grant_refresh_token L now rq ctx w)"
  unfolding grant_refresh_token_def
  by (auto intro: step_refuses spend_refresh_refuses split: prod.split)

lemma grant_password_refuses: "refuses (grant_password L now rq ctx w)"
  unfolding grant_password_def Let_def
  by (auto intro: step_refuses split: option.split)

lemma grant_authorization_code_refuses: "refuses (grant_authorization_code now rq ctx w)"
  unfolding grant_authorization_code_def Let_def
  by (auto intro: step_refuses split: prod.split option.split)

lemma grant_client_credentials_refuses: "refuses (grant_client_credentials now rq ctx w)"
  unfolding grant_client_credentials_def Let_def
  by (auto intro: step_refuses)

lemma grant_device_code_refuses: "refuses (grant_device_code now rq ctx w)"
  unfolding grant_device_code_def Let_def
  by (auto intro: step_refuses split: prod.split option.split poll_outcome.split)

lemma handler_refuses: "grant_handler L gt = Some h \<Longrightarrow> refuses (h now rq ctx w)"
  by (auto simp: grant_handler_def grant_refresh_token_refuses grant_password_refuses
      grant_authorization_code_refuses grant_client_credentials_refuses grant_device_code_refuses
      split: if_splits)

subsection \<open>What the shared steps grant\<close>

definition scope_tokens :: "str option \<Rightarrow> str set" where
  "scope_tokens g = (case g of None \<Rightarrow> {} | Some s \<Rightarrow> set (py_split s))"

lemma scope_tokens_simps [simp]:
  "scope_tokens None = {}" "scope_tokens (Some s) = set (py_split s)" "scope_tokens (or_none s) = set (py_split s)"
  by (simp_all add: scope_tokens_def or_none_def)

lemma scope_permitted_iff: "scope_permitted client voc g \<longleftrightarrow> scope_tokens g \<subseteq> set voc
    \<and> (cl_allowed_scopes client \<noteq> [] \<longrightarrow> scope_tokens g \<subseteq> set (cl_allowed_scopes client))"
  by (auto simp: scope_permitted_def scope_tokens_def split: option.split)

text \<open>Under enforcement every granted token is in the vocabulary and allowed to the client.\<close>

definition scope_allowed :: "config \<Rightarrow> str \<Rightarrow> str option \<Rightarrow> bool" where
  "scope_allowed c client_id g \<longleftrightarrow>
     (\<forall>client. scope_enforcement_active (c_settings c) \<longrightarrow> get_client c client_id = Some client
        \<longrightarrow> scope_permitted client (s_scopes_supported (c_settings c)) g)"

lemma grant_scope_allowed:
  "grant_scope now rq ctx u scope v w = (Inr s, w') \<Longrightarrow> scope_allowed (w_config w) (gc_client_id ctx) s"
  by (auto simp: grant_scope_Inr scope_allowed_def Let_def resolve_scope_sound split: option.splits)

lemma grant_scope_validate_only:
  "grant_scope now rq ctx u scope True w = (Inr s, w') \<Longrightarrow> s = scope"
  by (auto simp: grant_scope_Inr Let_def resolve_scope_validate_only split: option.splits)

lemma grant_scope_world: "grant_scope now rq ctx u scope v w = (Inr s, w') \<Longrightarrow> w' = w"
  by (simp add: grant_scope_Inr)

text \<open>Every resource bound to a token is valid, allowed to the client and part of the grant.\<close>

definition resources_allowed :: "config \<Rightarrow> str \<Rightarrow> str list option \<Rightarrow> str list option \<Rightarrow> bool" where
  "resources_allowed c client_id original res \<longleftrightarrow>
     (\<forall>client. get_client c client_id = Some client \<longrightarrow>
        distinct (opt_or_nil res) \<and> (\<forall>v \<in> set (opt_or_nil res). resource_permitted client original v))"

lemma opt_list_simps [simp]: "opt_list None = None" "opt_list (Some xs) = or_none xs"
  by (simp_all add: opt_list_def or_none_def)

lemma opt_or_nil_simps [simp]: "opt_or_nil None = []" "opt_or_nil (Some xs) = xs" "opt_or_nil (or_none xs) = xs"
    "opt_or_nil (opt_list x) = opt_or_nil x"
  by (auto simp: opt_or_nil_def or_none_def opt_list_def split: option.split)

lemma resource_permitted_subset:
  "resource_permitted c None v \<Longrightarrow> v \<in> set xs \<Longrightarrow> resource_permitted c (Some xs) v"
  by (simp add: resource_permitted_def)

lemma resolve_token_resource_allowed:
  assumes "resolve_token_resource now rq ctx (get_client (w_config w) (gc_client_id ctx)) original w = (Inr res, w')"
  shows "resources_allowed (w_config w) (gc_client_id ctx) original res"
proof -
  have ok: "distinct (opt_or_nil (rr_granted (resolve_resources vs c sub)))
      \<and> (\<forall>v \<in> set (opt_or_nil (rr_granted (resolve_resources vs c sub))). v \<in> set vs \<and> resource_permitted c sub v)"
    if "resource_ok (resolve_resources vs c sub)" for vs c sub
    using that resolve_resources_ok_iff [of vs c sub] by (simp add: resolve_resources_granted [OF that])
  show ?thesis
  proof (cases "get_client (w_config w) (gc_client_id ctx)")
    case (Some c)
    show ?thesis
    proof (cases "getlist (rq_form rq) ''resource'' = []")
      case True
      with assms Some show ?thesis using ok [of "the original" c None]
        by (auto simp: resolve_token_resource_def resources_allowed_def Let_def opt_true_def
            intro: resource_permitted_subset split: if_splits)
    next
      case False
      with assms Some show ?thesis using ok [of "getlist (rq_form rq) ''resource''" c original]
        by (auto simp: resolve_token_resource_def resources_allowed_def Let_def split: if_splits)
    qed
  qed (simp add: resources_allowed_def)
qed

subsection \<open>What a refresh redeems\<close>

lemma refresh_payload_of_Inr:
  assumes "refresh_payload_of L now rq ctx w = (Inr (payload, user), w')"
  shows "w' = w" "verify_jwt L now (w_crypto w) (param_or (rq_form rq) ''refresh_token'' [])
      (Some [s_audience (w_settings w)]) = Inr payload"
    "dget payload ''token_type'' = Some (JStr ''refresh'')"
    "dget payload ''client_id'' = Some (JStr (gc_client_id ctx))"
    "\<exists>name. claim_str payload ''sub'' = Some name \<and> get_user (w_config w) name = Some user"
  using assms
  by (auto simp: refresh_payload_of_def jget_def Let_def opt_true_def
      split: if_splits sum.splits option.splits json.splits)

lemma json_is_strE: "json_is_str v \<Longrightarrow> (\<And>s. v = JStr s \<Longrightarrow> P) \<Longrightarrow> P"
  by (cases v) auto

lemma refresh_scope_Inr:
  assumes "refresh_scope now rq ctx name payload w = (Inr (scope, bad), w')"
  shows "w' = w"
    and "\<not> bad \<Longrightarrow> scope_tokens scope \<subseteq> scope_tokens (claim_str payload ''scope'')"
    and "\<not> bad \<Longrightarrow> scope_allowed (w_config w) (gc_client_id ctx) scope"
proof -
  define v where "v = (case jget payload ''scope'' of None \<Rightarrow> JStr []
                   | Some v \<Rightarrow> if json_true v then v else JStr [])"
  have v: "json_is_str v \<Longrightarrow> set (py_split (json_str v)) = scope_tokens (claim_str payload ''scope'')"
    by (auto simp: v_def jget_def claim_str_def scope_tokens_def split: option.splits json.splits)
  have *: "w' = w \<and> (\<not> bad \<longrightarrow> json_is_str v \<and> (\<exists>s. scope_tokens s \<subseteq> set (py_split (json_str v)) \<and>
      grant_scope now rq ctx (Some name) s True w = (Inr scope, w')))"
  proof (cases "opt_true (param (rq_form rq) ''scope'')")
    case True
    then show ?thesis
      using assms unfolding refresh_scope_def Let_def v_def [symmetric]
      by (auto simp: seq_Inr opt_true_def filter_empty_conv grant_scope_world split: if_splits
          intro!: exI [of _ "param (rq_form rq) ''scope''"])
  next
    case False
    then show ?thesis
      using assms unfolding refresh_scope_def Let_def v_def [symmetric]
      by (auto simp: seq_Inr grant_scope_world split: if_splits
          intro!: exI [of _ "or_none (json_str v)"])
  qed
  then show "w' = w" by simp
  show "scope_tokens scope \<subseteq> scope_tokens (claim_str payload ''scope'')" if "\<not> bad"
    using * that v by (auto dest: grant_scope_validate_only)
  show "scope_allowed (w_config w) (gc_client_id ctx) scope" if "\<not> bad"
    using * that by (auto dest: grant_scope_allowed)
qed

lemma resolve_token_resource_subset:
  assumes "resolve_token_resource now rq ctx client (Some original) w = (Inr res, w')"
  shows "set (opt_or_nil res) \<subseteq> set original"
proof -
  have *: "set (opt_or_nil (rr_granted (resolve_resources vs c sub))) \<subseteq> set vs
      \<and> (\<forall>v \<in> set vs. resource_permitted c sub v)"
    if "resource_ok (resolve_resources vs c sub)" for vs c sub
    using that resolve_resources_ok_iff [of vs c sub] by (simp add: resolve_resources_granted [OF that])
  show ?thesis
    using assms *
    by (fastforce simp: resolve_token_resource_def Let_def opt_true_def resource_permitted_def
        split: if_splits option.splits)
qed

end
