(* ===== verification/Authorize.thy ===== *)
theory Authorize
  imports Ui_Auth Grants
begin

text \<open>
  The \<open>/authorize\<close> endpoint of \<open>routes/oauth.py\<close>: the parameters and their session fallback, the
  validators in their order, the persona auto-login, the login leg and the issue of the code.
  A validator gives a finished reply (\<open>Inl\<close>) or the parameters to go on with.
\<close>

subsection \<open>Parameters\<close>

record authorize_params =
  ap_response_type :: str
  ap_client_id :: str
  ap_redirect_uri :: str
  ap_scope :: str
  ap_state :: str
  ap_code_challenge :: str
  ap_code_challenge_method :: str
  ap_nonce :: str
  ap_claims_param :: str
  ap_resources :: "str list"
  ap_login_hint :: str

definition parse_claims_parameter :: "lib \<Rightarrow> str \<Rightarrow> (str, str list) dict option" where
  "parse_claims_parameter L raw =
     (if raw = [] then None
      else case lib_json_loads L raw of
        Some (JObj parsed) \<Rightarrow>
          or_none (concat (map (\<lambda>member. case dget parsed member of
              Some (JObj spec) \<Rightarrow> (if spec = [] then [] else [(member, map fst spec)])
            | _ \<Rightarrow> []) [''id_token'', ''userinfo'']))
      | _ \<Rightarrow> None)"

definition session_str :: "world \<Rightarrow> str \<Rightarrow> str" where
  \<comment> \<open>\<open>session.get(k, "")\<close>\<close>
  "session_str w k = (case dget (w_session w) k of Some (JStr s) \<Rightarrow> s | _ \<Rightarrow> [])"

definition session_strs :: "world \<Rightarrow> str \<Rightarrow> str list" where
  "session_strs w k = (case dget (w_session w) k of Some (JList xs) \<Rightarrow> map json_str xs | _ \<Rightarrow> [])"

definition resolve_params :: "request \<Rightarrow> world \<Rightarrow> authorize_params" where
  "resolve_params rq w =
     (let get = (\<lambda>k sk. param_or (rq_args rq) k (session_str w sk)) in
      \<lparr>ap_response_type = get ''response_type'' ''oauth_response_type'',
       ap_client_id = get ''client_id'' ''oauth_client_id'',
       ap_redirect_uri = get ''redirect_uri'' ''oauth_redirect_uri'',
       ap_scope = get ''scope'' ''oauth_scope'',
       ap_state = get ''state'' ''oauth_state'',
       ap_code_challenge = get ''code_challenge'' ''oauth_code_challenge'',
       ap_code_challenge_method = get ''code_challenge_method'' ''oauth_code_challenge_method'',
       ap_nonce = get ''nonce'' ''oauth_nonce'',
       ap_claims_param = get ''claims'' ''oauth_claims'',
       ap_resources = (if getlist (rq_args rq) ''resource'' \<noteq> [] then getlist (rq_args rq) ''resource''
                       else session_strs w ''oauth_resources''),
       ap_login_hint = (if rq_method rq = ''GET'' then param_or (rq_args rq) ''login_hint'' [] else [])\<rparr>)"

definition store_params :: "authorize_params \<Rightarrow> claims \<Rightarrow> claims" where
  "store_params p s =
     dset ''oauth_resources'' (jstrs (ap_resources p))
      (dset ''oauth_claims'' (JStr (ap_claims_param p))
       (dset ''oauth_nonce'' (JStr (ap_nonce p))
        (dset ''oauth_code_challenge_method'' (JStr (ap_code_challenge_method p))
         (dset ''oauth_code_challenge'' (JStr (ap_code_challenge p))
          (dset ''oauth_state'' (JStr (ap_state p))
           (dset ''oauth_scope'' (JStr (ap_scope p))
            (dset ''oauth_redirect_uri'' (JStr (ap_redirect_uri p))
             (dset ''oauth_client_id'' (JStr (ap_client_id p))
              (dset ''oauth_response_type'' (JStr (ap_response_type p)) s)))))))))"

definition read_authorize_params :: "request \<Rightarrow> world \<Rightarrow> authorize_params \<times> world" where
  "read_authorize_params rq w =
     (let p = resolve_params rq w in (p, w\<lparr>w_session := store_params p (w_session w)\<rparr>))"

definition forgeable_post_oauth_fields :: "str list" where
  "forgeable_post_oauth_fields =
     [''client_id'', ''redirect_uri'', ''scope'', ''state'', ''code_challenge'',
      ''code_challenge_method'', ''nonce'', ''claims'', ''resource'']"

definition audit_suspicious_authorize_post :: "time \<Rightarrow> request \<Rightarrow> authorize_params \<Rightarrow> world \<Rightarrow> world" where
  "audit_suspicious_authorize_post now rq p w =
     (let forged = filter (\<lambda>f. opt_true (param (rq_form rq) f)) forgeable_post_oauth_fields in
      if forged = [] \<and> ap_client_id p \<noteq> [] then w
      else audit_event now rq ''authorization_request'' ''failed'' ''/authorize'' None
             (if opt_true (param (rq_form rq) ''client_id'') then param (rq_form rq) ''client_id''
              else or_none (ap_client_id p))
             (if forged \<noteq> []
              then [(''reason'', JStr ''OAuth parameters in POST body are ignored''), (''fields'', jstrs forged)]
              else [(''reason'', JStr ''POST with no pending /authorize request'')]) w)"

subsection \<open>Rejections\<close>

definition authorize_reject :: "time \<Rightarrow> request \<Rightarrow> str \<Rightarrow> str \<Rightarrow> str \<Rightarrow> str \<Rightarrow> world \<Rightarrow> reply \<times> world" where
  "authorize_reject now rq client_id reason err description w =
     (oauth_error err description 400,
      audit_event now rq ''authorization_request'' ''failed'' ''/authorize'' None (Some client_id)
        [(''reason'', JStr reason)] w)"

definition with_state_and_iss :: "request \<Rightarrow> settings \<Rightarrow> authorize_params \<Rightarrow> (str, str) dict \<Rightarrow> (str, str) dict" where
  \<comment> \<open>the optional \<open>state\<close> and \<open>iss\<close> parameters of an authorization response\<close>
  "with_state_and_iss rq s p params =
     (let params = (if ap_state p \<noteq> [] then dset ''state'' (ap_state p) params else params);
          issuer = effective_issuer rq s
      in if issuer_qualifies_for_iss_parameter issuer then dset ''iss'' issuer params else params)"

definition authorize_error_redirect :: "time \<Rightarrow> request \<Rightarrow> authorize_params \<Rightarrow> str \<Rightarrow> str \<Rightarrow> str \<Rightarrow> str option
    \<Rightarrow> world \<Rightarrow> reply \<times> world" where
  "authorize_error_redirect now rq p err description reason username w =
     (redirect_reply (append_authorization_params (ap_redirect_uri p)
        (with_state_and_iss rq (w_settings w) p
           [(''error'', err), (''error_description'', description)])),
      audit_event now rq ''authorization_request'' ''failed'' ''/authorize'' username
        (Some (ap_client_id p)) [(''reason'', JStr reason)] w)"

definition halt :: "reply \<times> world \<Rightarrow> 'a step" where
  \<comment> \<open>an early return\<close>
  "halt x = (Inl (fst x), snd x)"

subsection \<open>Validators\<close>

definition validate_authorize_client :: "time \<Rightarrow> request \<Rightarrow> authorize_params \<Rightarrow> world \<Rightarrow> oauth_client step" where
  "validate_authorize_client now rq p w =
     (if ap_client_id p = [] then (Inl (oauth_error ''invalid_request'' ''client_id is required'' 400), w)
      else if ap_redirect_uri p = [] then
        (Inl (oauth_error ''invalid_request'' ''redirect_uri is required'' 400), w)
      else (case get_client (w_config w) (ap_client_id p) of
         None \<Rightarrow> halt (authorize_reject now rq (ap_client_id p) ''Unknown client'' ''invalid_client''
                        ''Unknown client_id'' w)
       | Some client \<Rightarrow> (Inr client, w)))"

definition validate_authorize_redirect_uri :: "time \<Rightarrow> request \<Rightarrow> authorize_params \<Rightarrow> oauth_client \<Rightarrow> world
    \<Rightarrow> unit step" where
  "validate_authorize_redirect_uri now rq p client w =
     (case redirect_uri_rejection_reason (ap_redirect_uri p) of
        Some rejection \<Rightarrow> (Inl (oauth_error ''invalid_request'' rejection 400), w)
      | None \<Rightarrow>
          if cl_redirect_uris client \<noteq> []
             \<and> \<not> redirect_uri_is_registered (ap_redirect_uri p) (cl_redirect_uris client) then
            halt (authorize_reject now rq (ap_client_id p) ''redirect_uri not registered for client''
              ''invalid_request'' ''redirect_uri is not registered for this client'' w)
          else if s_security_profile (w_settings w) = ''oauth21'' \<and> cl_redirect_uris client = [] then
            halt (authorize_reject now rq (ap_client_id p) ''oauth21 profile requires registered redirect_uris''
              ''invalid_request'' ''the oauth21 profile requires this client to have registered redirect_uris'' w)
          else (Inr (), w))"

definition validate_authorize_response_type :: "time \<Rightarrow> request \<Rightarrow> authorize_params \<Rightarrow> world \<Rightarrow> unit step" where
  "validate_authorize_response_type now rq p w =
     (if ap_response_type p \<noteq> ''code'' then
        halt (authorize_error_redirect now rq p ''unsupported_response_type''
          (''Only '' @ [CHR 0x27] @ ''code'' @ [CHR 0x27] @ '' response_type is supported'')
          (''unsupported response_type '' @ py_repr (ap_response_type p)) None w)
      else (Inr (), w))"

definition or_text :: "str option \<Rightarrow> str \<Rightarrow> str" where
  "or_text x dflt = (if opt_true x then the x else dflt)"

definition validate_authorize_scope :: "time \<Rightarrow> request \<Rightarrow> authorize_params \<Rightarrow> oauth_client \<Rightarrow> world
    \<Rightarrow> authorize_params step" where
  "validate_authorize_scope now rq p client w =
     (let r = resolve_scope (Some (ap_scope p)) client (s_scopes_supported (w_settings w))
                (scope_enforcement_active (w_settings w)) (Some ''openid'') False
      in if \<not> scope_ok r then
           halt (authorize_error_redirect now rq p ''invalid_scope''
             (or_text (sr_error_description r) ''invalid scope'')
             (or_text (sr_error_description r) ''invalid scope'') None w)
         else (Inr (p\<lparr>ap_scope := opt_or_nil (sr_granted r)\<rparr>), w))"

definition validate_authorize_pkce :: "time \<Rightarrow> request \<Rightarrow> authorize_params \<Rightarrow> oauth_client \<Rightarrow> world \<Rightarrow> unit step" where
  "validate_authorize_pkce now rq p client w =
     (let q = [CHR 0x27];
          deny = (\<lambda>description reason.
            halt (authorize_error_redirect now rq p ''invalid_request'' description reason None w));
          effective_method = (if ap_code_challenge_method p = [] then ''plain''
                              else ap_code_challenge_method p);
          profile = s_security_profile (w_settings w)
      in if is_public client \<and> ap_code_challenge p = [] then
           deny (''This client'' @ q @ ''s token_endpoint_auth_method is '' @ q @ ''none'' @ q
                 @ '': PKCE with code_challenge_method S256 is required'')
             ''Public client without PKCE''
         else if is_public client \<and> effective_method \<noteq> ''S256'' then
           deny (''This client'' @ q @ ''s token_endpoint_auth_method is '' @ q @ ''none'' @ q
                 @ '': code_challenge_method must be S256'')
             ''Public client with non-S256 PKCE''
         else if pkce_required (w_settings w) \<and> ap_code_challenge p = [] then
           deny ''PKCE code_challenge is required (require_pkce setting or oauth21 profile)''
             ''PKCE code_challenge required (require_pkce or oauth21)''
         else if ap_code_challenge p = [] then (Inr (), w)
         else if effective_method \<notin> set [''plain'', ''S256''] then
           deny (''Unsupported code_challenge_method '' @ q @ effective_method @ q @ ''; use S256 or plain'')
             (''Unsupported code_challenge_method: '' @ effective_method)
         else if effective_method = ''plain'' \<and> \<not> pkce_plain_allowed (w_settings w) then
           deny (''code_challenge_method '' @ q @ ''plain'' @ q @ '' (including the ''
                 @ ''implicit default when the parameter is omitted) is not allowed by the ''
                 @ profile @ '' profile; use S256'')
             (''PKCE method '' @ q @ ''plain'' @ q @ '' rejected by '' @ profile @ '' profile'')
         else (Inr (), w))"

definition validate_authorize_resources :: "time \<Rightarrow> request \<Rightarrow> authorize_params \<Rightarrow> oauth_client \<Rightarrow> world
    \<Rightarrow> authorize_params step" where
  "validate_authorize_resources now rq p client w =
     (if ap_resources p = [] then (Inr p, w)
      else
        let r = resolve_resources (ap_resources p) client None in
        if \<not> resource_ok r then
          halt (authorize_error_redirect now rq p ''invalid_target''
            (or_text (rr_error_description r) ''invalid resource'')
            (or_text (rr_error_description r) ''invalid_target'') None w)
        else (Inr (p\<lparr>ap_resources := opt_or_nil (rr_granted r)\<rparr>), w))"

subsection \<open>Issuing the code\<close>

definition clear_oauth_session :: "claims \<Rightarrow> claims" where
  "clear_oauth_session s = dfilter (\<lambda>k _. \<not> starts_with k ''oauth_'') s"

definition code_of_params :: "lib \<Rightarrow> time \<Rightarrow> authorize_params \<Rightarrow> str \<Rightarrow> str \<Rightarrow> authorization_code" where
  "code_of_params L now p username code =
     new_code now code (ap_client_id p) (ap_redirect_uri p) username (ap_scope p)
       (or_none (ap_code_challenge p)) (or_none (ap_code_challenge_method p)) (or_none (ap_nonce p))
       (or_none (ap_state p)) (parse_claims_parameter L (ap_claims_param p)) (or_none (ap_resources p))"

definition issue_authorization_code :: "lib \<Rightarrow> time \<Rightarrow> request \<Rightarrow> authorize_params \<Rightarrow> str \<Rightarrow> bool \<Rightarrow> world
    \<Rightarrow> reply \<times> world" where
  "issue_authorization_code L now rq p username auto_login w =
     (let (code, codes) = create_code now (code_of_params L now p username (lib_urlsafe L (w_draws w)))
                            (w_codes w);
          w1 = w\<lparr>w_codes := codes, w_draws := Suc (w_draws w),
                 w_session := clear_oauth_session (w_session w)\<rparr>;
          params = with_state_and_iss rq (w_settings w) p [(''code'', code)]
      in (redirect_reply (append_authorization_params (ap_redirect_uri p) params),
          audit_event now rq ''authorization_request'' ''success'' ''/authorize'' (Some username)
            (Some (ap_client_id p))
            ([(''scope'', JStr (ap_scope p)), (''pkce'', JBool (ap_code_challenge p \<noteq> []))]
             @ (if auto_login then [(''auto_login'', JBool True)] else [])) w1))"

definition auto_login_hint_prefix :: str where
  "auto_login_hint_prefix = ''persona-auto-login:''"

definition try_persona_auto_login :: "lib \<Rightarrow> time \<Rightarrow> request \<Rightarrow> authorize_params \<Rightarrow> world \<Rightarrow> (reply \<times> world) option" where
  "try_persona_auto_login L now rq p w =
     (if \<not> auto_login_enabled (w_settings w) then None
      else if \<not> starts_with (ap_login_hint p) auto_login_hint_prefix then None
      else
        let username = drop (length auto_login_hint_prefix) (ap_login_hint p) in
        Some (case interactive_authenticate L (w_config w) username [] of
            None \<Rightarrow> authorize_error_redirect now rq p ''invalid_request'' ''Unknown persona for auto-login''
              (''auto-login: unknown persona '' @ py_repr username) (Some username) w
          | Some user \<Rightarrow> issue_authorization_code L now rq p (u_username user) True w))"

definition handle_authorize_login :: "lib \<Rightarrow> time \<Rightarrow> request \<Rightarrow> authorize_params \<Rightarrow> world
    \<Rightarrow> (str option + reply) \<times> world" where
  \<comment> \<open>\<open>Inl\<close>: the error message for the login page; \<open>Inr\<close>: the finished reply\<close>
  "handle_authorize_login L now rq p w =
     (let username = py_strip (param_or (rq_form rq) ''username'' []);
          password = param_or (rq_form rq) ''password'' [];
          persona_mode = persona_mode_enabled (w_settings w);
          phase = two_step_phase (two_step_login_active (w_settings w)) username password
                    (param (rq_form rq) ''password'' \<noteq> None) True
      in if phase = UsernameRequired then (Inl (Some ''Username is required''), w)
         else if phase = PasswordRequired then (Inl (Some ''Password is required''), w)
         else if phase = UsernameStep then (Inl None, w)
         else (case interactive_authenticate L (w_config w) username password of
            Some user \<Rightarrow>
              (let (r, w') = issue_authorization_code L now rq p (u_username user) False w in (Inr r, w'))
          | None \<Rightarrow>
              if (persona_mode \<and> username \<noteq> []) \<or> (username \<noteq> [] \<and> password \<noteq> []) then
                (Inl (Some ''Invalid username or password''),
                 audit_event now rq ''authorization_request'' ''failed'' ''/authorize'' (Some username)
                   (Some (ap_client_id p)) [(''reason'', JStr ''Invalid credentials'')] w)
              else if persona_mode then (Inl (Some ''Select a user''), w)
              else (Inl (Some ''Username and password are required''), w)))"

definition authorize_query_params :: "authorize_params \<Rightarrow> claims" where
  "authorize_query_params p =
     map (\<lambda>(k, v). (k, JStr v)) (filter (\<lambda>(k, v). v \<noteq> [])
       [(''response_type'', ap_response_type p), (''client_id'', ap_client_id p),
        (''redirect_uri'', ap_redirect_uri p), (''scope'', ap_scope p), (''state'', ap_state p),
        (''code_challenge'', ap_code_challenge p),
        (''code_challenge_method'', ap_code_challenge_method p),
        (''nonce'', ap_nonce p), (''claims'', ap_claims_param p)])
     @ (if ap_resources p \<noteq> [] then [(''resource'', jstrs (ap_resources p))] else [])"

definition render_authorize_login :: "authorize_params \<Rightarrow> str option \<Rightarrow> str \<Rightarrow> world \<Rightarrow> reply" where
  \<comment> \<open>the logo of the client, which is read from the file system, is left out\<close>
  "render_authorize_login p error_msg login_username w =
     page_reply ''authorize.html''
       [(''client_id'', JStr (ap_client_id p)), (''scope'', JStr (ap_scope p)), (''error'', jopt error_msg),
        (''persona_mode'', JBool (persona_mode_enabled (w_settings w))),
        (''two_step_login'', JBool (two_step_login_active (w_settings w))),
        (''login_username'', JStr login_username),
        (''change_username_params'', JObj (authorize_query_params p)),
        (''users'', picker_json (w_config w))]"

subsection \<open>The endpoint\<close>

definition authorize_validated :: "time \<Rightarrow> request \<Rightarrow> authorize_params \<Rightarrow> world
    \<Rightarrow> (oauth_client \<times> authorize_params) step" where
  \<comment> \<open>the validators in their order\<close>
  "authorize_validated now rq p w =
     seq (validate_authorize_client now rq p w) (\<lambda>client w.
     seq (validate_authorize_redirect_uri now rq p client w) (\<lambda>_ w.
     seq (validate_authorize_response_type now rq p w) (\<lambda>_ w.
     seq (validate_authorize_scope now rq p client w) (\<lambda>p1 w.
     seq (validate_authorize_pkce now rq p1 client w) (\<lambda>_ w.
     seq (validate_authorize_resources now rq p1 client w) (\<lambda>p2 w.
       (Inr (client, p2), w)))))))"

definition authorize_request :: "time \<Rightarrow> request \<Rightarrow> world \<Rightarrow> (oauth_client \<times> authorize_params) step" where
  \<comment> \<open>the parameters read, a forged POST audited, everything validated\<close>
  "authorize_request now rq w =
     (let (p, w1) = read_authorize_params rq w;
          w2 = (if rq_method rq = ''POST'' then audit_suspicious_authorize_post now rq p w1 else w1)
      in authorize_validated now rq p w2)"

definition authorize :: "lib \<Rightarrow> time \<Rightarrow> request \<Rightarrow> world \<Rightarrow> reply \<times> world" where
  "authorize L now rq w =
     (case authorize_request now rq w of
        (Inl r, w') \<Rightarrow> (r, w')
      | (Inr (client, p), w') \<Rightarrow>
          (case try_persona_auto_login L now rq p w' of
             Some result \<Rightarrow> result
           | None \<Rightarrow>
               if rq_method rq = ''POST'' then
                 (case handle_authorize_login L now rq p w' of
                    (Inr r, w'') \<Rightarrow> (r, w'')
                  | (Inl error_msg, w'') \<Rightarrow>
                      (render_authorize_login p error_msg
                         (py_strip (param_or (rq_form rq) ''username'' [])) w'', w''))
               else (render_authorize_login p None [] w', w')))"

end
