(* ===== verification/Grant_Laws.thy ===== *)
theory Grant_Laws
  imports Grants
begin

text \<open>
  What the grant handlers of \<open>Grants\<close> do to the stores, and the contract \<open>/token\<close> relies on: the
  locale \<open>grant_contract\<close>, which every one of the five handlers interprets.
\<close>

subsection \<open>Stepping\<close>

lemma step_cases [case_names stop go]:
  fixes m :: "'a step"
  obtains r w' where "m = (Inl r, w')" | x w' where "m = (Inr x, w')"
  by (cases m; cases "fst m") auto

subsection \<open>What the handlers leave alone\<close>

lemma same_state_audit [simp]: "same_state w (audit_event now rq e st ep u c d w)"
  by (simp add: same_state_def audit_event_def)

lemma same_state_seq:
  assumes "same_state w0 (snd m)" "\<And>x w. same_state w0 w \<Longrightarrow> same_state w0 (snd (f x w))"
  shows "same_state w0 (snd (seq m f))"
  using assms by (rule seq_snd)

lemma same_state_step: "same_state w0 w \<Longrightarrow> same_state w (snd m) \<Longrightarrow> same_state w0 (snd m)"
  by (rule same_state_trans)

lemma finish_grant_same: "same_state w (snd (finish_grant now rq ctx u scope v orig mk w))"
  unfolding finish_grant_def
  by (auto intro!: same_state_seq grant_scope_same) (auto intro: same_state_step resolve_token_resource_same)

lemma grant_password_same: "same_state w (snd (grant_password L now rq ctx w))"
  unfolding grant_password_def Let_def by (auto intro: finish_grant_same split: option.split)

lemma grant_client_credentials_same: "same_state w (snd (grant_client_credentials now rq ctx w))"
  unfolding grant_client_credentials_def Let_def by (rule finish_grant_same)

lemma refresh_payload_of_same: "same_state w (snd (refresh_payload_of L now rq ctx w))"
  by (simp add: refresh_payload_of_def Let_def split: option.split sum.split)

lemma refresh_scope_same: "same_state w (snd (refresh_scope now rq ctx name p w))"
  unfolding refresh_scope_def Let_def
  by (auto intro!: same_state_seq grant_scope_same)

text \<open>The refresh grant changes the revocation store, by one check-and-claim at most.\<close>

lemma claim_refresh_fields:
  "w_revoked (snd (claim_refresh now payload client w)) =
     snd (check_and_claim_refresh now (claim_str payload ''jti'') (claim_str payload ''rt_family'')
       (rotates_for (w_settings w) client) (payload_exp payload) (w_revoked w))"
  "fst (claim_refresh now payload client w) =
     fst (check_and_claim_refresh now (claim_str payload ''jti'') (claim_str payload ''rt_family'')
       (rotates_for (w_settings w) client) (payload_exp payload) (w_revoked w))"
  "w_config (snd (claim_refresh now payload client w)) = w_config w"
  "w_codes (snd (claim_refresh now payload client w)) = w_codes w"
  "w_devices (snd (claim_refresh now payload client w)) = w_devices w"
  "w_crypto (snd (claim_refresh now payload client w)) = w_crypto w"
  "w_session (snd (claim_refresh now payload client w)) = w_session w"
  "w_draws (snd (claim_refresh now payload client w)) = w_draws w"
  by (simp_all add: claim_refresh_def case_prod_beta Let_def)

lemma claim_refresh_same_state:
  "same_state w w1 \<Longrightarrow> same_state (snd (claim_refresh now payload client w)) (snd (claim_refresh now payload client w1))
     \<and> fst (claim_refresh now payload client w1) = fst (claim_refresh now payload client w)"
  by (cases w; cases w1) (simp add: same_state_def claim_refresh_def case_prod_beta Let_def)

lemma refresh_payload_of_world: "refresh_payload_of L now rq ctx w = (Inr (payload, user), w') \<Longrightarrow> w' = w"
  by (rule refresh_payload_of_Inr(1))

lemma grant_refresh_token_Inr:
  assumes "grant_refresh_token L now rq ctx w = (Inr o', w')"
  obtains payload user name client original scope resource where
    "refresh_payload_of L now rq ctx w = (Inr (payload, user), w)"
    "claim_str payload ''sub'' = Some name" "get_user (w_config w) name = Some user"
    "client = get_client (w_config w) (gc_client_id ctx)"
    "refresh_scope now rq ctx name payload w = (Inr (scope, False), w)"
    "claim_refresh now payload client w = (False, w')"
    "claim_strs payload ''resource'' = Some original"
    "resolve_token_resource now rq ctx client (Some original) w' = (Inr resource, w')"
    "o' = (outcome user name)\<lparr>go_scope := scope, go_auth_time := jget payload ''auth_time'',
       go_refresh_family := claim_str payload ''rt_family'',
       go_id_token_claims := jget payload ''req_id_token_claims'',
       go_userinfo_claims := jget payload ''req_userinfo_claims'',
       go_resource := resource, go_refresh_resource := or_none original\<rparr>"
proof -
  from assms obtain payload user w1 where p: "refresh_payload_of L now rq ctx w = (Inr (payload, user), w1)"
    unfolding grant_refresh_token_def by (elim seq_InrE) auto
  note w1 = refresh_payload_of_Inr(1) [OF p]
  obtain name where name: "claim_str payload ''sub'' = Some name" "get_user (w_config w) name = Some user"
    using refresh_payload_of_Inr(5) [OF p] by blast
  from assms p w1 obtain scope bad w2 where sc: "refresh_scope now rq ctx name payload w = (Inr (scope, bad), w2)"
    unfolding grant_refresh_token_def by (auto simp: seq_Inr name)
  note w2 = refresh_scope_Inr(1) [OF sc]
  define client where "client = get_client (w_config w) (gc_client_id ctx)"
  have "spend_refresh now rq ctx client payload user scope bad w = (Inr o', w')"
    using assms p w1 sc w2 unfolding grant_refresh_token_def by (auto simp: seq_Inr name client_def)
  then show thesis
    using p sc name unfolding w1 w2 spend_refresh_def Let_def
    by (auto simp: seq_Inr client_def split: prod.splits if_splits option.splits
        dest: resolve_token_resource_Inr intro!: that [OF _ _ _ refl])
qed

lemma spend_refresh_effect:
  "same_state (snd (claim_refresh now payload client w)) (snd (spend_refresh now rq ctx client payload u sc b w))"
  unfolding spend_refresh_def Let_def
  by (auto simp: case_prod_beta split: option.split intro!: same_state_seq resolve_token_resource_same)

lemma seq_snd_cases:
  "(\<And>r w. m = (Inl r, w) \<Longrightarrow> P w) \<Longrightarrow> (\<And>x w. m = (Inr x, w) \<Longrightarrow> P (snd (f x w))) \<Longrightarrow> P (snd (seq m f))"
  by (cases m rule: step_cases) (auto simp: seq_def)

lemma grant_refresh_token_effect:
  "same_state w (snd (grant_refresh_token L now rq ctx w))
   \<or> (\<exists>payload client. same_state (snd (claim_refresh now payload client w))
        (snd (grant_refresh_token L now rq ctx w)))"
  unfolding grant_refresh_token_def
proof (rule seq_snd_cases, goal_cases)
  case (1 r w1)
  then show ?case using refresh_payload_of_same [of w L now rq ctx] by simp
next
  case (2 x w1)
  then obtain payload user where x: "x = (payload, user)" and w1: "w1 = w"
    by (cases x) (auto dest: refresh_payload_of_Inr(1))
  show ?case unfolding x w1 prod.case
  proof (rule seq_snd_cases, goal_cases)
    case (1 r w2)
    then show ?case using refresh_scope_same [of w now rq ctx _ payload] by (metis snd_conv)
  next
    case (2 y w2)
    then have "w2 = w" by (cases y) (auto dest: refresh_scope_Inr(1))
    then show ?case by (cases y) (simp, intro disjI2 exI, rule spend_refresh_effect)
  qed
qed

text \<open>The code grant consumes the presented code, the device grant polls the presented one.\<close>

definition consumed :: "time \<Rightarrow> request \<Rightarrow> grant_context \<Rightarrow> world \<Rightarrow> world" where
  "consumed now rq ctx w =
     w\<lparr>w_codes := snd (consume_code now (param_or (rq_form rq) ''code'' []) (gc_client_id ctx)
        (param_or (rq_form rq) ''redirect_uri'' []) (param (rq_form rq) ''code_verifier'') (w_codes w))\<rparr>"

definition polled :: "time \<Rightarrow> request \<Rightarrow> grant_context \<Rightarrow> world \<Rightarrow> world" where
  "polled now rq ctx w =
     w\<lparr>w_devices := snd (poll now (param_or (rq_form rq) ''device_code'' []) (gc_client_id ctx)
        (get_user (w_config w)) (w_devices w))\<rparr>"

lemma redeem_code_effect:
  "same_state w (snd (redeem_code now rq ctx w)) \<or> same_state (consumed now rq ctx w) (snd (redeem_code now rq ctx w))"
  by (auto simp: redeem_code_def consumed_def Let_def case_prod_beta split: option.split sum.split)

lemma redeem_code_Inr:
  assumes "redeem_code now rq ctx w = (Inr (a, user), w')"
  shows "w' = consumed now rq ctx w" "get_user (w_config w) (ac_username a) = Some user"
    "fst (consume_code now (param_or (rq_form rq) ''code'' []) (gc_client_id ctx)
        (param_or (rq_form rq) ''redirect_uri'' []) (param (rq_form rq) ''code_verifier'') (w_codes w)) = Inr (Some a)"
  using assms
  by (auto simp: redeem_code_def consumed_def Let_def case_prod_beta split: option.splits sum.splits if_splits)

lemma grant_authorization_code_effect:
  "same_state w (snd (grant_authorization_code now rq ctx w))
   \<or> same_state (consumed now rq ctx w) (snd (grant_authorization_code now rq ctx w))"
  unfolding grant_authorization_code_def
proof (rule seq_snd_cases, goal_cases)
  case (1 r w1)
  then show ?case using redeem_code_effect [of w now rq ctx] by simp
next
  case (2 x w1)
  then have "w1 = consumed now rq ctx w" by (cases x) (auto dest: redeem_code_Inr(1))
  then show ?case using finish_grant_same by (cases x) auto
qed

lemma grant_device_code_effect:
  "same_state w (snd (grant_device_code now rq ctx w))
   \<or> same_state (polled now rq ctx w) (snd (grant_device_code now rq ctx w))"
  unfolding grant_device_code_def Let_def polled_def
  by (auto simp: case_prod_beta split: option.split poll_outcome.split intro: finish_grant_same)

lemma finish_grant_Inr:
  assumes "finish_grant now rq ctx u scope v orig mk w = (Inr o', w')"
  obtains sc res where "o' = mk sc res" "w' = w" "grant_scope now rq ctx u scope v w = (Inr sc, w)"
    "scope_allowed (w_config w) (gc_client_id ctx) sc"
    "resources_allowed (w_config w) (gc_client_id ctx) orig res"
proof -
  from assms obtain sc res w1 w2 where a: "grant_scope now rq ctx u scope v w = (Inr sc, w1)"
    and b: "resolve_token_resource now rq ctx (get_client (w_config w1) (gc_client_id ctx)) orig w1 = (Inr res, w2)"
    and c: "o' = mk sc res" "w' = w2"
    by (auto simp: finish_grant_def seq_Inr)
  note w1 = grant_scope_world [OF a]
  note w2 = resolve_token_resource_Inr [OF b]
  show thesis
    using a b c grant_scope_allowed [OF a] resolve_token_resource_allowed [OF b] unfolding w1 w2 by (rule_tac that)
qed
subsection \<open>The contract of a handler\<close>

definition same_server :: "world \<Rightarrow> world \<Rightarrow> bool" where
  \<comment> \<open>configuration, keys, session and draws are untouched\<close>
  "same_server w w' \<longleftrightarrow> w_config w' = w_config w \<and> w_crypto w' = w_crypto w
     \<and> w_session w' = w_session w \<and> w_draws w' = w_draws w"

lemma same_state_server: "same_state w1 w' \<Longrightarrow> same_server w w1 \<Longrightarrow> same_server w w'"
  by (auto simp: same_server_def dest: same_state_fields)

lemma same_server_refl [simp]: "same_server w w"
  by (simp add: same_server_def)

lemma resources_allowed_None: "resources_allowed c cid orig res \<Longrightarrow> resources_allowed c cid None res"
  by (auto simp: resources_allowed_def resource_permitted_def)

lemma scope_allowed_mono: "scope_allowed c cid g \<Longrightarrow> scope_tokens g' \<subseteq> scope_tokens g \<Longrightarrow> scope_allowed c cid g'"
  by (auto simp: scope_allowed_def scope_permitted_iff)

lemma drop_openid_tokens: "scope_tokens (drop_openid g) = scope_tokens g - {''openid''}"
proof (cases g)
  case (Some s)
  have "py_split (join '' '' (filter (\<lambda>t. t \<noteq> ''openid'') (py_split s))) = filter (\<lambda>t. t \<noteq> ''openid'') (py_split s)"
    by (rule py_split_join) (auto dest: py_split_tokens)
  with Some show ?thesis by (auto simp: drop_openid_def)
qed (simp add: drop_openid_def)

lemma scope_allowed_drop_openid: "scope_allowed c cid g \<Longrightarrow> scope_allowed c cid (drop_openid g)"
  by (rule scope_allowed_mono) (auto simp: drop_openid_tokens)

lemma claim_refresh_config: "claim_refresh now p c w = (b, w') \<Longrightarrow> w_config w' = w_config w"
  using claim_refresh_fields(3) [of now p c w] by simp

locale grant_contract =
  fixes handler :: "time \<Rightarrow> request \<Rightarrow> grant_context \<Rightarrow> world \<Rightarrow> grant_outcome step"
  assumes answers_refuse: "refuses (handler now rq ctx w)"
    and outcome_scope: "handler now rq ctx w = (Inr o', w') \<Longrightarrow>
      scope_allowed (w_config w) (gc_client_id ctx) (go_scope o')"
    and outcome_resources: "handler now rq ctx w = (Inr o', w') \<Longrightarrow>
      resources_allowed (w_config w) (gc_client_id ctx) None (go_resource o')"
    and server_kept: "same_server w (snd (handler now rq ctx w))"
begin

lemma no_answer_is_success: "handler now rq ctx w = (Inl r, w') \<Longrightarrow> refused r"
  using answers_refuse [of now rq ctx w] by (simp add: refuses_def)

lemma config_kept: "handler now rq ctx w = (x, w') \<Longrightarrow> w_config w' = w_config w \<and> w_crypto w' = w_crypto w"
  using server_kept [of w now rq ctx] by (simp add: same_server_def)

lemma scope_in_vocabulary:
  assumes "handler now rq ctx w = (Inr o', w')" "get_client (w_config w) (gc_client_id ctx) = Some c"
    and "scope_enforcement_active (w_settings w)"
  shows "scope_tokens (go_scope o') \<subseteq> set (s_scopes_supported (w_settings w))"
  using outcome_scope [OF assms(1)] assms(2,3) by (auto simp: scope_allowed_def scope_permitted_iff)

end

interpretation refresh_grant: grant_contract "grant_refresh_token L" for L
proof
  fix now rq ctx w o' w'
  show "refuses (grant_refresh_token L now rq ctx w)" by (rule grant_refresh_token_refuses)
  have "same_server w (snd (claim_refresh now p c w))" for p c
    by (simp add: same_server_def claim_refresh_fields)
  then show "same_server w (snd (grant_refresh_token L now rq ctx w))"
    using grant_refresh_token_effect [of w L now rq ctx] by (auto intro: same_state_server)
  assume "grant_refresh_token L now rq ctx w = (Inr o', w')"
  then show "scope_allowed (w_config w) (gc_client_id ctx) (go_scope o')"
    and "resources_allowed (w_config w) (gc_client_id ctx) None (go_resource o')"
    by (rule grant_refresh_token_Inr; simp; use claim_refresh_config resolve_token_resource_allowed
          refresh_scope_Inr(3) resources_allowed_None in metis)+
qed

interpretation password_grant: grant_contract "grant_password L" for L
proof
  fix now rq ctx w o' w'
  show "refuses (grant_password L now rq ctx w)" by (rule grant_password_refuses)
  show "same_server w (snd (grant_password L now rq ctx w))"
    by (rule same_state_server [OF grant_password_same]) simp
  assume "grant_password L now rq ctx w = (Inr o', w')"
  then show "scope_allowed (w_config w) (gc_client_id ctx) (go_scope o')"
    and "resources_allowed (w_config w) (gc_client_id ctx) None (go_resource o')"
    by (auto simp: grant_password_def Let_def elim!: finish_grant_Inr intro: resources_allowed_None
        split: if_splits option.splits)
qed

interpretation code_grant: grant_contract grant_authorization_code
proof
  fix now rq ctx w o' w'
  have c: "w_config (consumed now rq ctx w) = w_config w" by (simp add: consumed_def)
  have "same_server w (consumed now rq ctx w)" by (simp add: same_server_def consumed_def)
  then show "same_server w (snd (grant_authorization_code now rq ctx w))"
    using grant_authorization_code_effect [of w now rq ctx] by (auto intro: same_state_server)
  show "refuses (grant_authorization_code now rq ctx w)" by (rule grant_authorization_code_refuses)
  assume "grant_authorization_code now rq ctx w = (Inr o', w')"
  then show "scope_allowed (w_config w) (gc_client_id ctx) (go_scope o')"
    and "resources_allowed (w_config w) (gc_client_id ctx) None (go_resource o')"
    unfolding grant_authorization_code_def
    by (auto simp: seq_Inr c dest!: redeem_code_Inr(1) elim!: finish_grant_Inr intro: resources_allowed_None)
qed

interpretation client_grant: grant_contract grant_client_credentials
proof
  fix now rq ctx w o' w'
  show "refuses (grant_client_credentials now rq ctx w)" by (rule grant_client_credentials_refuses)
  show "same_server w (snd (grant_client_credentials now rq ctx w))"
    by (rule same_state_server [OF grant_client_credentials_same]) simp
  assume "grant_client_credentials now rq ctx w = (Inr o', w')"
  then show "scope_allowed (w_config w) (gc_client_id ctx) (go_scope o')"
    and "resources_allowed (w_config w) (gc_client_id ctx) None (go_resource o')"
    unfolding grant_client_credentials_def Let_def
    by (auto elim!: finish_grant_Inr intro: resources_allowed_None scope_allowed_drop_openid)
qed

interpretation device_flow_grant: grant_contract grant_device_code
proof
  fix now rq ctx w o' w'
  have "same_server w (polled now rq ctx w)" by (simp add: same_server_def polled_def)
  then show "same_server w (snd (grant_device_code now rq ctx w))"
    using grant_device_code_effect [of w now rq ctx] by (auto intro: same_state_server)
  show "refuses (grant_device_code now rq ctx w)" by (rule grant_device_code_refuses)
  assume "grant_device_code now rq ctx w = (Inr o', w')"
  then show "scope_allowed (w_config w) (gc_client_id ctx) (go_scope o')"
    and "resources_allowed (w_config w) (gc_client_id ctx) None (go_resource o')"
    unfolding grant_device_code_def Let_def
    by (auto simp: case_prod_beta split: if_splits option.splits poll_outcome.splits
        elim!: finish_grant_Inr intro: resources_allowed_None)
qed

text \<open>Every handler that \<open>/token\<close> dispatches to keeps the contract.\<close>

lemma handler_contract: "grant_handler L gt = Some h \<Longrightarrow> grant_contract h"
  by (auto simp: grant_handler_def refresh_grant.grant_contract_axioms
      password_grant.grant_contract_axioms code_grant.grant_contract_axioms
      client_grant.grant_contract_axioms device_flow_grant.grant_contract_axioms split: if_splits)

subsection \<open>A minted refresh token read back\<close>

lemma iter_strs_jstrs: "iter_strs (jstrs xs) = Some xs"
  by (simp add: jstrs_def list_all_iff o_def)

lemma minted_resources: "claim_strs (refresh_payload s now jti fam ta) ''resource'' = Some (opt_or_nil (refresh_resources ta))"
proof (cases "opt_true (refresh_resources ta)")
  case True
  then obtain xs where "refresh_resources ta = Some xs" "xs \<noteq> []"
    by (cases "refresh_resources ta") (auto simp: opt_true_def)
  then show ?thesis using iter_strs_jstrs [of xs]
    by (simp add: claim_strs_def jget_def refresh_payload_get opt_true_def) (simp add: jstrs_def)
next
  case False
  then show ?thesis
    by (cases "refresh_resources ta") (auto simp: claim_strs_def jget_def refresh_payload_get opt_true_def)
qed

lemma minted_scope:
  assumes "param (rq_form rq) ''scope'' = None"
    and "scope_allowed (w_config w) (gc_client_id ctx) (opt_list (ta_scope ta))"
  shows "refresh_scope now rq ctx name (refresh_payload s now0 jti fam ta) w = (Inr (opt_list (ta_scope ta), False), w)"
proof -
  have g: "grant_scope now rq ctx u (opt_list (ta_scope ta)) True w = (Inr (opt_list (ta_scope ta)), w)" for u
    using assms(2) resolve_scope_decides [of "opt_list (ta_scope ta)" _ _ None True]
      resolve_scope_validate_only resolve_scope_off
    by (auto simp: grant_scope_def Let_def scope_allowed_def scope_effective_def split: option.split)
       (metis scope_ok_def)+
  show ?thesis
  proof (cases "ta_scope ta")
    case None
    then show ?thesis using assms(1) g
      by (simp add: refresh_scope_def Let_def jget_def refresh_payload_get opt_true_def opt_list_def seq_def or_none_def)
  next
    case (Some sc)
    then show ?thesis using assms(1) g
      by (cases sc) (simp_all add: refresh_scope_def Let_def jget_def refresh_payload_get opt_true_def jopt_def
          opt_list_def seq_def or_none_def)
  qed
qed

end
