(* ===== verification/Token_Endpoint.thy ===== *)
theory Token_Endpoint
  imports Grant_Laws
begin

text \<open>
  The \<open>/token\<close> endpoint of \<open>routes/oauth.py\<close>: the client-authentication boundary, the parameters
  that are validated before the dispatch, the dispatch to a grant handler and the minting.
\<close>

definition token_auth_failed :: "time \<Rightarrow> request \<Rightarrow> str option \<Rightarrow> str \<Rightarrow> bool \<Rightarrow> world \<Rightarrow> reply \<times> world" where
  "token_auth_failed now rq client_id reason attempted w =
     (invalid_client_error reason attempted,
      audit_event now rq ''token_request'' ''failed'' ''/token'' None client_id
        [(''reason'', JStr reason)] w)"

definition names_public :: "config \<Rightarrow> str \<Rightarrow> bool" where
  \<comment> \<open>\<open>client is not None and client.is_public\<close>\<close>
  "names_public c client_id = (case get_client c client_id of None \<Rightarrow> False | Some x \<Rightarrow> is_public x)"

definition enforce_token_endpoint_auth :: "time \<Rightarrow> request \<Rightarrow> str \<Rightarrow> client_identity \<Rightarrow> str \<Rightarrow> world
    \<Rightarrow> unit step" where
  "enforce_token_endpoint_auth now rq grant_type ident client_id w =
     (if names_public (w_config w) client_id then
        (if grant_type = ''client_credentials'' then
           (Inl (oauth_error ''unauthorized_client''
              (''The client_credentials grant requires client ''
               @ ''authentication; this client'' @ [CHR 0x27] @ ''s ''
               @ ''token_endpoint_auth_method is '' @ [CHR 0x27] @ ''none'' @ [CHR 0x27]) 400),
            audit_event now rq ''token_request'' ''failed'' ''/token'' None (Some client_id)
              [(''reason'', JStr ''client_credentials refused for a public client''),
               (''grant_type'', JStr grant_type)] w)
         else (Inr (), w))
      else (case enforce_registered_client_auth (w_config w) (Some client_id) (ci_auth ident)
              (ci_body_client_secret ident) of
         None \<Rightarrow> (Inr (), w)
       | Some reason \<Rightarrow>
           (let (r, w') = token_auth_failed now rq (Some client_id) reason (basic_attempted rq) w
            in (Inl r, w'))))"

definition token_client :: "time \<Rightarrow> request \<Rightarrow> str \<Rightarrow> world \<Rightarrow> str step" where
  \<comment> \<open>the client the request may act as\<close>
  "token_client now rq grant_type w =
     (let ident = request_client_identity rq in
      if \<not> opt_true (ci_client_id ident) then
        (Inl (invalid_client_error ''Client authentication required'' (basic_attempted rq)),
         audit_event now rq ''token_request'' ''failed'' ''/token'' None None
           [(''reason'', JStr ''Client authentication required''), (''grant_type'', JStr grant_type)] w)
      else if ci_mismatch ident then
        (Inl (invalid_client_error
                ''client_id in request body does not match authenticated client'' True),
         audit_event now rq ''token_request'' ''failed'' ''/token'' None
           (case ci_auth ident of None \<Rightarrow> None | Some (u, p) \<Rightarrow> u)
           [(''reason'', JStr ''client_id mismatch''), (''body_client_id'', jopt (ci_client_id ident))] w)
      else
        let client_id = the (ci_client_id ident) in
        seq (enforce_token_endpoint_auth now rq grant_type ident client_id w)
          (\<lambda>_ w'. (Inr client_id, w')))"

definition token_params :: "lib \<Rightarrow> time \<Rightarrow> request \<Rightarrow> grant_context \<Rightarrow> world \<Rightarrow> (int \<times> claims) step" where
  \<comment> \<open>\<open>exp\<close> and \<open>extra\<close>, validated before a grant can be spent\<close>
  "token_params L now rq ctx w =
     (case (case param (rq_form rq) ''exp'' of
              None \<Rightarrow> Some (s_token_expiry_minutes (w_settings w)) | Some s \<Rightarrow> py_int s) of
        None \<Rightarrow> refuse now rq ctx None (why ctx (''Invalid '' @ [CHR 0x27] @ ''exp'' @ [CHR 0x27] @ '' parameter''))
          (oauth_error ''invalid_request''
             ([CHR 0x27] @ ''exp'' @ [CHR 0x27] @ '' must be an integer number of minutes'') 400) w
      | Some exp_minutes \<Rightarrow>
          if \<not> (1 \<le> exp_minutes \<and> exp_minutes \<le> 1440) then
            refuse now rq ctx None (why ctx ([CHR 0x27] @ ''exp'' @ [CHR 0x27] @ '' out of range''))
              (oauth_error ''invalid_request''
                 ([CHR 0x27] @ ''exp'' @ [CHR 0x27] @ '' must be between 1 and 1440 minutes'') 400) w
          else
            let extra_raw = param_or (rq_form rq) ''extra'' [] in
            if extra_raw = [] then (Inr (exp_minutes, []), w)
            else (case lib_json_loads L extra_raw of
               None \<Rightarrow> refuse now rq ctx None (why ctx (''Invalid JSON in '' @ [CHR 0x27] @ ''extra'' @ [CHR 0x27]))
                 (oauth_error ''invalid_request'' (''Invalid JSON in '' @ [CHR 0x27] @ ''extra'' @ [CHR 0x27]) 400) w
             | Some (JObj d) \<Rightarrow> (Inr (exp_minutes, d), w)
             | Some _ \<Rightarrow>
                 refuse now rq ctx None
                   (why ctx ([CHR 0x27] @ ''extra'' @ [CHR 0x27] @ '' is not a JSON object''))
                   (oauth_error ''invalid_request''
                      ([CHR 0x27] @ ''extra'' @ [CHR 0x27] @ '' must be a JSON object'') 400) w))"

definition token_args_of :: "request \<Rightarrow> settings \<Rightarrow> grant_context \<Rightarrow> int \<Rightarrow> claims \<Rightarrow> grant_outcome \<Rightarrow> token_args" where
  "token_args_of rq s ctx exp_minutes extra o' =
     \<lparr>ta_user = go_user o', ta_exp_minutes = Some exp_minutes, ta_extra_claims = extra,
      ta_nonce = go_nonce o', ta_scope = go_scope o', ta_client_id = Some (gc_client_id ctx),
      ta_auth_time = go_auth_time o', ta_refresh_family = go_refresh_family o',
      ta_id_token_claims = go_id_token_claims o', ta_userinfo_claims = go_userinfo_claims o',
      ta_issuer = Some (effective_issuer rq s),
      ta_issue_refresh_token = Some (go_issue_refresh_token o'),
      ta_resource = go_resource o', ta_refresh_resource = go_refresh_resource o'\<rparr>"

definition issue_tokens :: "lib \<Rightarrow> time \<Rightarrow> request \<Rightarrow> grant_context \<Rightarrow> int \<Rightarrow> claims \<Rightarrow> grant_outcome
    \<Rightarrow> world \<Rightarrow> reply \<times> world" where
  "issue_tokens L now rq ctx exp_minutes extra o' w =
     (case create_token L now (w_config w) (w_crypto w) (w_draws w)
             (token_args_of rq (w_settings w) ctx exp_minutes extra o') of
        Inl e \<Rightarrow> (Inl e, w)
      | Inr (response, n) \<Rightarrow>
          (json_reply 200 response,
           audit_event now rq ''token_request'' ''success'' ''/token'' (Some (go_username o'))
             (Some (gc_client_id ctx))
             [(''grant_type'', JStr (gc_grant_type ctx)),
              (''authorities_count'', JInt (int (length (build_authorities (w_settings w) (go_user o')))))]
             (w\<lparr>w_draws := n\<rparr>)))"

definition token_grant :: "lib \<Rightarrow> time \<Rightarrow> request \<Rightarrow> world \<Rightarrow> (grant_context \<times> int \<times> claims \<times> grant_outcome) step" where
  \<comment> \<open>everything before the minting\<close>
  "token_grant L now rq w =
     (let grant_type = param_or (rq_form rq) ''grant_type'' ''client_credentials'' in
      seq (token_client now rq grant_type w) (\<lambda>client_id w1.
        let ctx = \<lparr>gc_client_id = client_id, gc_grant_type = grant_type\<rparr> in
        seq (token_params L now rq ctx w1) (\<lambda>(exp_minutes, extra) w2.
          case grant_handler L grant_type of
            None \<Rightarrow> refuse now rq ctx None (why ctx (''Unsupported grant type: '' @ grant_type))
              (oauth_error ''unsupported_grant_type'' ''The requested grant_type is not supported'' 400) w2
          | Some handler \<Rightarrow>
              seq (handler now rq ctx w2) (\<lambda>o' w3. (Inr (ctx, exp_minutes, extra, o'), w3)))))"

definition token_endpoint :: "lib \<Rightarrow> time \<Rightarrow> request \<Rightarrow> world \<Rightarrow> reply \<times> world" where
  "token_endpoint L now rq w =
     (case token_grant L now rq w of
        (Inl r, w') \<Rightarrow> (r, w')
      | (Inr (ctx, exp_minutes, extra, o'), w') \<Rightarrow> issue_tokens L now rq ctx exp_minutes extra o' w')"

subsection \<open>Refusals\<close>

lemma enforce_token_endpoint_auth_refuses: "refuses (enforce_token_endpoint_auth now rq gt i cid w)"
  by (simp add: enforce_token_endpoint_auth_def token_auth_failed_def split: option.split)

lemma token_client_refuses: "refuses (token_client now rq gt w)"
  unfolding token_client_def Let_def by (auto intro: enforce_token_endpoint_auth_refuses)

lemma token_params_refuses: "refuses (token_params L now rq ctx w)"
  by (simp add: token_params_def Let_def split: option.split json.split)

lemma token_grant_refuses: "refuses (token_grant L now rq w)"
  unfolding token_grant_def Let_def
  by (auto intro: token_client_refuses token_params_refuses handler_refuses split: option.split)

text \<open>A request is answered with tokens exactly when it gets through to the minting.\<close>

lemma token_endpoint_ok:
  assumes "token_endpoint L now rq w = (r, w')" "\<not> refused r"
  obtains ctx mins extra o' w1 where "token_grant L now rq w = (Inr (ctx, mins, extra, o'), w1)"
    "issue_tokens L now rq ctx mins extra o' w1 = (r, w')"
  using assms token_grant_refuses [of L now rq w]
  by (auto simp: token_endpoint_def refuses_def split: prod.splits sum.splits)

lemma token_endpoint_granted:
  assumes "\<not> refused (fst (token_endpoint L now rq w))"
  shows "\<exists>ctx mins extra o' w1. token_grant L now rq w = (Inr (ctx, mins, extra, o'), w1)"
  by (rule token_endpoint_ok [OF surjective_pairing assms]) iprover

subsection \<open>Who may get to a handler\<close>

text \<open>
  The client a request acts as: it exists, it is the only one the request names, and unless it is
  public the request proves it with its secret, through the channel its registered
  \<open>token_endpoint_auth_method\<close> names and no other. A public client never uses \<open>client_credentials\<close>.
\<close>

definition acts_as :: "config \<Rightarrow> request \<Rightarrow> str \<Rightarrow> str \<Rightarrow> bool" where
  "acts_as c rq grant_type client_id \<longleftrightarrow>
     (let i = request_client_identity rq in
      client_id \<noteq> [] \<and> ci_client_id i = Some client_id \<and> \<not> ci_mismatch i \<and>
      (if names_public c client_id then grant_type \<noteq> ''client_credentials''
       else (\<exists>x. proves_client c i x \<and> cl_client_id x = client_id)
         \<and> (\<exists>x. get_client c client_id = Some x \<and> registered_channel i x)))"

lemma enforce_token_endpoint_auth_Inr:
  "enforce_token_endpoint_auth now rq gt i cid w = (Inr u, w') \<longleftrightarrow> w' = w \<and>
    (if names_public (w_config w) cid then gt \<noteq> ''client_credentials''
     else enforce_registered_client_auth (w_config w) (Some cid) (ci_auth i) (ci_body_client_secret i) = None)"
  by (auto simp: enforce_token_endpoint_auth_def token_auth_failed_def split: option.splits)

lemma token_client_Inr:
  assumes "token_client now rq gt w = (Inr cid, w')"
  shows "w' = w" "acts_as (w_config w) rq gt cid"
proof -
  let ?i = "request_client_identity rq"
  from assms have i: "opt_true (ci_client_id ?i)" "\<not> ci_mismatch ?i"
    by (auto simp: token_client_def Let_def split: if_splits)
  with assms have a: "enforce_token_endpoint_auth now rq gt ?i (the (ci_client_id ?i)) w = (Inr (), w')"
    and cid: "cid = the (ci_client_id ?i)"
    by (auto simp: token_client_def Let_def seq_Inr)
  from a show "w' = w" by (simp add: enforce_token_endpoint_auth_Inr)
  from i(1) cid have id: "ci_client_id ?i = Some cid" "cid \<noteq> []" by (auto simp: opt_true_def)
  have "\<exists>x. proves_client (w_config w) ?i x \<and> cl_client_id x = cid" if "\<not> names_public (w_config w) cid"
  proof -
    from a that cid have "enforce_registered_client_auth (w_config w) (Some cid) (ci_auth ?i)
        (ci_body_client_secret ?i) = None"
      by (simp add: enforce_token_endpoint_auth_Inr)
    from enforce_ok_identity [of "w_config w" ?i rq, unfolded id(1), OF this refl i(2)] id
    show ?thesis by auto
  qed
  moreover have "\<exists>x. get_client (w_config w) cid = Some x \<and> registered_channel ?i x"
    if n: "\<not> names_public (w_config w) cid" and k: "\<exists>x. proves_client (w_config w) ?i x \<and> cl_client_id x = cid"
  proof -
    from a n cid have e: "enforce_registered_client_auth (w_config w) (Some cid) (ci_auth ?i)
        (ci_body_client_secret ?i) = None"
      by (simp add: enforce_token_endpoint_auth_Inr)
    obtain x where "get_client (w_config w) cid = Some x"
      using k by (cases "get_client (w_config w) cid") (auto simp: get_client_def find_None_iff proves_client_def)
    with enforce_ok_channel [OF e id(2)] show ?thesis by blast
  qed
  moreover have "gt \<noteq> ''client_credentials''" if "names_public (w_config w) cid"
    using a that cid by (simp add: enforce_token_endpoint_auth_Inr)
  ultimately show "acts_as (w_config w) rq gt cid"
    using id i(2) by (auto simp: acts_as_def Let_def)
qed

lemma token_client_InrD: "token_client now rq gt w = (Inr cid, w') \<Longrightarrow> w' = w \<and> acts_as (w_config w) rq gt cid"
  using token_client_Inr by blast

lemma acts_as_client: "acts_as c rq gt cid \<Longrightarrow> \<exists>x. get_client c cid = Some x"
proof (cases "names_public c cid")
  case True
  then show ?thesis by (auto simp: names_public_def split: option.splits)
next
  case False
  assume "acts_as c rq gt cid"
  with False obtain x where "x \<in> set (s_clients (c_settings c))" "cl_client_id x = cid"
    by (auto simp: acts_as_def Let_def proves_client_def)
  then have "get_client c cid \<noteq> None" by (auto simp: get_client_def find_None_iff)
  then show ?thesis by simp
qed

lemma acts_as_channel: "acts_as c rq gt cid \<Longrightarrow> get_client c cid = Some x \<Longrightarrow>
    is_public x \<or> registered_channel (request_client_identity rq) x"
  by (cases "is_public x") (auto simp: acts_as_def Let_def names_public_def)

lemma token_params_Inr:
  "token_params L now rq ctx w = (Inr (mins, extra), w') \<Longrightarrow> w' = w \<and> 1 \<le> mins \<and> mins \<le> 1440"
  by (auto simp: token_params_def Let_def split: option.splits if_splits json.splits)

lemma token_grant_Inr:
  assumes "token_grant L now rq w = (Inr (ctx, mins, extra, o'), w')"
  obtains h where "grant_handler L (gc_grant_type ctx) = Some h"
    "gc_grant_type ctx = param_or (rq_form rq) ''grant_type'' ''client_credentials''"
    "acts_as (w_config w) rq (gc_grant_type ctx) (gc_client_id ctx)"
    "1 \<le> mins" "mins \<le> 1440" "h now rq ctx w = (Inr o', w')"
  using assms unfolding token_grant_def Let_def
  by (elim seq_InrE)
     (auto simp: seq_Inr dest!: token_client_InrD token_params_Inr split: option.splits)

end
