(* ===== verification/Endpoints.thy ===== *)
theory Endpoints
  imports Authorize Token_Endpoint
begin

text \<open>
  The other endpoints of \<open>routes/oauth.py\<close>: discovery and JWKS, UserInfo, introspection,
  revocation, end of session, and the two device-flow endpoints.
\<close>

subsection \<open>Metadata\<close>

definition oidc_config :: "request \<Rightarrow> world \<Rightarrow> reply \<times> world" where
  "oidc_config rq w =
     (json_reply 200 (build_discovery_document (w_settings w) (Some (effective_issuer rq (w_settings w)))), w)"

definition jwks :: "world \<Rightarrow> reply \<times> world" where
  \<comment> \<open>each key as its id and its public half\<close>
  "jwks w = (json_reply 200 [(''keys'',
     JList (map (\<lambda>(kid, pem). JObj [(''kid'', JStr kid), (''pem'', JStr pem)]) (jwks_keys (w_crypto w))))], w)"

subsection \<open>UserInfo\<close>

definition extract_bearer_token :: "request \<Rightarrow> str option" where
  "extract_bearer_token rq =
     (if starts_with (rq_authorization rq) ''Bearer '' then Some (drop 7 (rq_authorization rq)) else None)"

definition put_claim :: "user \<Rightarrow> str \<Rightarrow> claims \<Rightarrow> claims" where
  "put_claim u name response =
     (case resolve_user_claim u name of None \<Rightarrow> response | Some v \<Rightarrow> dset name v response)"

fun put_missing :: "user \<Rightarrow> str list \<Rightarrow> claims \<Rightarrow> claims" where
  \<comment> \<open>the loop over the names requested for UserInfo\<close>
  "put_missing u [] response = response"
| "put_missing u (n # ns) response =
     put_missing u ns (if dhas response n then response else put_claim u n response)"

definition userinfo_response :: "settings \<Rightarrow> claims \<Rightarrow> user \<Rightarrow> str list \<Rightarrow> claims" where
  \<comment> \<open>the last argument is the granted scope, split\<close>
  "userinfo_response s payload u granted =
     (let strict = s_security_profile s \<in> set [''stricter-dev'', ''oauth21''];
          r = [(''sub'', jopt (claim_str payload ''sub''))];
          r = (if \<not> strict \<or> ''email'' \<in> set granted
               then put_claim u ''email_verified'' (put_claim u ''email'' r) else r);
          r = (if \<not> strict \<or> ''profile'' \<in> set granted then put_claim u ''preferred_username'' r else r);
          r = put_claim u ''identity_class'' (put_claim u ''tenant'' (put_claim u ''groups''
                (put_claim u ''roles'' r)));
          r = dset_if (u_attributes u \<noteq> []) ''attributes'' (JObj (u_attributes u)) r
      in put_missing u
           (case sanitize_claim_names (jget payload ''req_userinfo_claims'') of None \<Rightarrow> [] | Some ns \<Rightarrow> ns) r)"

definition userinfo :: "lib \<Rightarrow> time \<Rightarrow> request \<Rightarrow> world \<Rightarrow> reply \<times> world" where
  "userinfo L now rq w =
     (if \<not> opt_true (extract_bearer_token rq) then
        (oauth_error ''invalid_token'' ''Missing Bearer token'' 401, w)
      else (case verify_jwt L now (w_crypto w) (the (extract_bearer_token rq))
                   (Some [s_audience (w_settings w)]) of
         Inl e \<Rightarrow> (oauth_error ''invalid_token'' ''Token validation failed'' 401,
                  audit_event now rq ''userinfo_request'' ''failed'' ''/userinfo'' None None
                    [(''reason'', JStr e)] w)
       | Inr payload \<Rightarrow>
           if dget payload ''token_use'' \<in> {Some (JStr ''id''), Some (JStr ''refresh'')} then
             (oauth_error ''invalid_token'' ''An access token is required'' 401,
              audit_event now rq ''userinfo_request'' ''failed'' ''/userinfo'' None None
                [(''reason'', JStr ''Not an access token''), (''token_use'', the (dget payload ''token_use''))] w)
           else if is_revoked (claim_str payload ''jti'') (w_revoked w) then
             (oauth_error ''invalid_token'' ''Token has been revoked'' 401, w)
           else
             let username = claim_str payload ''sub'';
                 user = (if opt_true username then get_user (w_config w) (the username) else None);
                 scope = (case jget payload ''scope'' of None \<Rightarrow> JStr []
                          | Some v \<Rightarrow> if json_true v then v else JStr []);
                 done = (\<lambda>response. (json_reply 200 response,
                   audit_event now rq ''userinfo_request'' ''success'' ''/userinfo'' username None [] w))
             in (case user of
                None \<Rightarrow> done [(''sub'', jopt username)]
              | Some u \<Rightarrow>
                  if \<not> json_is_str scope then (Inl RaiseAttribute, w)
                  else done (userinfo_response (w_settings w) payload u (py_split (json_str scope))))))"

subsection \<open>Introspection\<close>

definition mismatch_reason :: str where
  "mismatch_reason = ''client_id in request body does not match Basic username''"

definition names_public_opt :: "config \<Rightarrow> str option \<Rightarrow> bool" where
  "names_public_opt c client_id = (case lookup_client c client_id of None \<Rightarrow> False | Some x \<Rightarrow> is_public x)"

definition introspect_auth_error :: "config \<Rightarrow> client_identity \<Rightarrow> str option" where
  "introspect_auth_error c i =
     (if ci_mismatch i then Some mismatch_reason
      else if names_public_opt c (ci_client_id i) then
        Some (''public clients cannot authenticate to the introspection endpoint ''
              @ ''(RFC 7662 '' @ [CHR 0xA7] @ ''2.1)'')
      else enforce_registered_client_auth c (ci_client_id i) (ci_auth i) (ci_body_client_secret i))"

definition jval :: "claims \<Rightarrow> str \<Rightarrow> json" where
  \<comment> \<open>\<open>payload.get(k)\<close> as a JSON value\<close>
  "jval p k = (case dget p k of None \<Rightarrow> JNull | Some v \<Rightarrow> v)"

definition introspection_response :: "claims \<Rightarrow> str option \<Rightarrow> claims" where
  "introspection_response payload caller =
     [(''active'', JBool True), (''token_type'', JStr ''Bearer''),
      (''client_id'', (case dget payload ''client_id'' of None \<Rightarrow> jopt caller | Some v \<Rightarrow> v)),
      (''username'', jval payload ''sub''), (''sub'', jval payload ''sub''), (''aud'', jval payload ''aud''),
      (''iss'', jval payload ''iss''), (''exp'', jval payload ''exp''), (''iat'', jval payload ''iat''),
      (''nbf'', jval payload ''nbf''),
      (''scope'', (case dget payload ''scope'' of None \<Rightarrow> JStr ''openid'' | Some v \<Rightarrow> v))]"

definition introspect :: "lib \<Rightarrow> time \<Rightarrow> request \<Rightarrow> world \<Rightarrow> reply \<times> world" where
  "introspect L now rq w =
     (let i = request_client_identity rq;
          inactive = json_reply 200 [(''active'', JBool False)];
          event = audit_event now rq ''introspection_request'';
          token = param (rq_form rq) ''token''
      in case introspect_auth_error (w_config w) i of
        Some e \<Rightarrow> (json_reply 401 [(''error'', JStr ''invalid_client'')],
                   event ''failed'' ''/introspect'' None (ci_client_id i) [(''reason'', JStr e)] w)
      | None \<Rightarrow>
          if \<not> opt_true token then (inactive, w)
          else (case verify_jwt L now (w_crypto w) (the token) None of
             Inl _ \<Rightarrow> (inactive, event ''success'' ''/introspect'' None (ci_client_id i)
               [(''active'', JBool False), (''reason'', JStr ''Invalid or expired token'')] w)
           | Inr payload \<Rightarrow>
               if dget payload ''token_use'' = Some (JStr ''id'') then
                 (inactive, event ''success'' ''/introspect'' None (ci_client_id i)
                   [(''active'', JBool False), (''reason'', JStr ''ID Token is not introspectable'')] w)
               else if is_revoked (claim_str payload ''jti'') (w_revoked w) then (inactive, w)
               else (json_reply 200 (introspection_response payload (ci_client_id i)),
                     event ''success'' ''/introspect'' (claim_str payload ''sub'') (ci_client_id i)
                       [(''active'', JBool True)] w)))"

subsection \<open>Revocation\<close>

definition revoke_auth_error :: "config \<Rightarrow> client_identity \<Rightarrow> str option" where
  "revoke_auth_error c i =
     (if ci_mismatch i then Some mismatch_reason
      else if names_public_opt c (ci_client_id i) then None
      else enforce_registered_client_auth c (ci_client_id i) (ci_auth i) (ci_body_client_secret i))"

definition revoke_endpoint :: "lib \<Rightarrow> time \<Rightarrow> request \<Rightarrow> world \<Rightarrow> reply \<times> world" where
  "revoke_endpoint L now rq w =
     (let i = request_client_identity rq;
          is_public = names_public_opt (w_config w) (ci_client_id i);
          event = audit_event now rq ''revocation_request'';
          token = param (rq_form rq) ''token''
      in case revoke_auth_error (w_config w) i of
        Some e \<Rightarrow> (json_reply 401 [(''error'', JStr ''invalid_client'')],
                   event ''failed'' ''/revoke'' None (ci_client_id i) [(''reason'', JStr e)] w)
      | None \<Rightarrow>
          if \<not> opt_true token then (empty_reply, w)
          else (case verify_jwt L now (w_crypto w) (the token) None of
             Inl _ \<Rightarrow> (empty_reply, w)
           | Inr payload \<Rightarrow>
               if is_public \<and> jget payload ''client_id'' \<noteq> map_option JStr (ci_client_id i) then
                 (empty_reply, event ''failed'' ''/revoke'' None (ci_client_id i)
                    [(''reason'', JStr ''Public client presented a token it does not own'')] w)
               else if opt_true (claim_str payload ''jti'') then
                 (empty_reply, event ''success'' ''/revoke'' (claim_str payload ''sub'') (ci_client_id i)
                    [(''revoked'', JBool True)]
                    (w\<lparr>w_revoked := revoke now (the (claim_str payload ''jti'')) (payload_exp payload)
                        (w_revoked w)\<rparr>))
               else (empty_reply, w)))"

subsection \<open>End of session\<close>

definition end_session :: "lib \<Rightarrow> time \<Rightarrow> request \<Rightarrow> world \<Rightarrow> reply \<times> world" where
  "end_session L now rq w =
     (let params = (if rq_method rq = ''GET'' then rq_args rq else rq_form rq);
          id_token_hint = param params ''id_token_hint'';
          post_logout_redirect_uri = param params ''post_logout_redirect_uri'';
          state = param params ''state'';
          payload = (if opt_true id_token_hint then lib_jwt_peek L (the id_token_hint) else None);
          username = (case payload of None \<Rightarrow> None | Some p \<Rightarrow> claim_str p ''sub'');
          jti = (case payload of None \<Rightarrow> None | Some p \<Rightarrow> claim_str p ''jti'');
          w1 = (if opt_true jti then w\<lparr>w_revoked := revoke now (the jti) Unset (w_revoked w)\<rparr> else w);
          w2 = w1\<lparr>w_session := []\<rparr>;
          w3 = audit_event now rq ''logout_request'' ''success'' ''/logout'' username
                 (param params ''client_id'') [(''has_redirect'', JBool (opt_true post_logout_redirect_uri))] w2
      in if opt_true post_logout_redirect_uri then
           (let url = the post_logout_redirect_uri in
            (redirect_reply (if opt_true state
               then url @ (if CHR ''?'' \<in> set url then ''&'' else ''?'') @ ''state='' @ the state
               else url), w3))
         else (page_reply ''logout.html''
                 [(''message'', JStr ''You have been logged out successfully.'')], w3))"

subsection \<open>Device authorization\<close>

definition device_auth_error :: "config \<Rightarrow> client_identity \<Rightarrow> str option" where
  "device_auth_error c i =
     (if ci_mismatch i then Some mismatch_reason
      else if names_public_opt c (ci_client_id i) then
        (if ci_auth i \<noteq> None \<or> ci_body_client_secret i \<noteq> None then
           Some (''a public client presents its client_id as a parameter, without ''
                 @ ''HTTP Basic or a client_secret (RFC 8628 '' @ [CHR 0xA7] @ ''3.1)'')
         else None)
      else enforce_registered_client_auth c (ci_client_id i) (ci_auth i) (ci_body_client_secret i))"

definition device_request :: "time \<Rightarrow> request \<Rightarrow> world \<Rightarrow> (str \<times> str \<times> str list option) step" where
  \<comment> \<open>the authenticated client, the scope and the resources of the new grant\<close>
  "device_request now rq w =
     (let i = request_client_identity rq;
          event = audit_event now rq ''device_authorization_request'' ''failed'' ''/device_authorization'' None
      in case device_auth_error (w_config w) i of
        Some e \<Rightarrow> (Inl (json_reply 401 [(''error'', JStr ''invalid_client'')]),
                   event (ci_client_id i) [(''reason'', JStr e)] w)
      | None \<Rightarrow>
          let client_id = opt_or_nil (ci_client_id i);
              requested = param_or (rq_form rq) ''scope'' [];
              resources = getlist (rq_form rq) ''resource''
          in (case get_client (w_config w) client_id of
             None \<Rightarrow> (Inr (client_id, requested, None), w)
           | Some client \<Rightarrow>
               (let r = resolve_scope (Some requested) client (s_scopes_supported (w_settings w))
                          (scope_enforcement_active (w_settings w)) (Some ''openid'') False;
                    scope = opt_or_nil (sr_granted r)
                in if \<not> scope_ok r then
                     (Inl (oauth_error ''invalid_scope'' (the (sr_error_description r)) 400),
                      event (Some client_id) [(''reason'', JStr (the (sr_error_description r)))] w)
                   else if resources = [] then (Inr (client_id, scope, None), w)
                   else
                     let rr = resolve_resources resources client None in
                     if \<not> resource_ok rr then
                       (Inl (oauth_error ''invalid_target'' (the (rr_error_description rr)) 400),
                        event (Some client_id) [(''reason'', JStr (the (rr_error_description rr)))] w)
                     else (Inr (client_id, scope, opt_list (rr_granted rr)), w))))"

definition verification_base :: "request \<Rightarrow> settings \<Rightarrow> str" where
  "verification_base rq s =
     (if s_issuer_from_request s
      then or_text (s_device_verification_base_url s) (effective_issuer rq s) else s_issuer s)"

definition device_authorization :: "lib \<Rightarrow> time \<Rightarrow> request \<Rightarrow> world \<Rightarrow> reply \<times> world" where
  "device_authorization L now rq w =
     (case device_request now rq w of
        (Inl r, w') \<Rightarrow> (r, w')
      | (Inr (client_id, scope, resources), w') \<Rightarrow>
          (let (result, devices) = device_create now (lib_urlsafe L (w_draws w'))
                  (lib_user_code L (Suc (w_draws w'))) client_id scope device_code_expires_in
                  device_poll_interval resources (w_devices w');
               w1 = w'\<lparr>w_devices := devices, w_draws := Suc (Suc (w_draws w'))\<rparr>;
               event = (\<lambda>st. audit_event now rq ''device_authorization_request'' st
                          ''/device_authorization'' None (Some client_id))
           in case result of
             Inl DeviceCodeStoreFull \<Rightarrow>
               (Inr \<lparr>rs_status = 503, rs_headers = [(''Retry-After'', show_int device_poll_interval)],
                     rs_body = Json [(''message'',
                       JStr ''Too many pending device authorizations; retry later'')]\<rparr>,
                event ''failed'' [(''reason'', JStr ''device code store at capacity'')] w1)
           | Inr (device_code, user_code) \<Rightarrow>
               (let uri = verification_base rq (w_settings w) @ ''/device'' in
                (json_reply 200
                   [(''device_code'', JStr device_code), (''user_code'', JStr user_code),
                    (''verification_uri'', JStr uri),
                    (''verification_uri_complete'', JStr (uri @ ''?user_code='' @ user_code)),
                    (''expires_in'', JInt device_code_expires_in),
                    (''interval'', JInt device_poll_interval)],
                 event ''success'' [(''user_code'', JStr user_code), (''scope'', JStr scope)] w1))))"

subsection \<open>Device verification\<close>

definition device_page :: "world \<Rightarrow> str \<Rightarrow> str option \<Rightarrow> str option \<Rightarrow> str \<Rightarrow> reply" where
  "device_page w user_code err success login_username =
     page_reply ''device.html''
       [(''user_code'', JStr user_code), (''error'', jopt err), (''success'', jopt success),
        (''persona_mode'', JBool (persona_mode_enabled (w_settings w))),
        (''two_step_login'', JBool (two_step_login_active (w_settings w))),
        (''login_username'', JStr login_username), (''users'', picker_json (w_config w))]"

definition device_decide :: "lib \<Rightarrow> time \<Rightarrow> request \<Rightarrow> str \<Rightarrow> str \<Rightarrow> str \<Rightarrow> str \<Rightarrow> world
    \<Rightarrow> (str option \<times> str option) \<times> world" where
  \<comment> \<open>the store's transition and what the page says of it: error and success message\<close>
  "device_decide L now rq user_code action username password w =
     (let persona_mode = persona_mode_enabled (w_settings w);
          missing_input = (action \<noteq> ''deny'' \<and> ((persona_mode \<and> username = [])
             \<or> (\<not> persona_mode \<and> (username = [] \<or> password = []))));
          ((result0, user), devices) = verify now user_code action username password
             (interactive_authenticate L (w_config w)) (w_devices w);
          w1 = w\<lparr>w_devices := devices\<rparr>;
          result = (if result0 = VerInvalidCredentials \<and> missing_input then VerMissingCredentials else result0);
          event = (\<lambda>st name d. audit_event now rq ''device_verification'' st ''/device'' (Some name) None d w1)
      in case result of
        VerInvalidCode \<Rightarrow> ((Some ''Invalid or expired user code'', None), w1)
      | VerAlreadyUsed \<Rightarrow> ((Some ''This code has already been used'', None), w1)
      | VerExpired \<Rightarrow> ((Some ''This code has expired'', None), w1)
      | VerDenied \<Rightarrow> ((None, Some ''Device authorization denied''),
          event ''denied'' username [(''user_code'', JStr user_code)])
      | VerMissingCredentials \<Rightarrow>
          ((Some (if persona_mode then ''Select a user'' else ''Username and password are required''), None), w1)
      | VerInvalidCredentials \<Rightarrow> ((Some ''Invalid username or password'', None),
          event ''failed'' username
            [(''user_code'', JStr user_code), (''reason'', JStr ''Invalid credentials'')])
      | VerAuthorized \<Rightarrow>
          (case user of
             None \<Rightarrow> ((None, None), w1)
           | Some u \<Rightarrow> ((None, Some ''Device authorized successfully! You can close this window.''),
               event ''success'' (u_username u) [(''user_code'', JStr user_code)])))"

definition device_verify :: "lib \<Rightarrow> time \<Rightarrow> request \<Rightarrow> world \<Rightarrow> reply \<times> world" where
  "device_verify L now rq w =
     (if rq_method rq \<noteq> ''POST'' then
        (device_page w (param_or (rq_args rq) ''user_code'' []) None None [], w)
      else
        let user_code = py_strip (py_upper (param_or (rq_form rq) ''user_code'' []));
            username = py_strip (param_or (rq_form rq) ''username'' []);
            password = param_or (rq_form rq) ''password'' [];
            action = param_or (rq_form rq) ''action'' ''authorize'';
            phase = two_step_phase (two_step_login_active (w_settings w) \<and> action \<noteq> ''deny'') username
                      password (param (rq_form rq) ''password'' \<noteq> None) True
        in if phase \<noteq> Attempt then
             (device_page w user_code
                (if phase = UsernameRequired then Some ''Username is required''
                 else if phase = PasswordRequired then Some ''Password is required'' else None)
                None username, w)
           else
             let ((err, success), w') = device_decide L now rq user_code action username password w
             in (device_page w' user_code err success username, w'))"

subsection \<open>The claims of a userinfo response\<close>

lemma put_claim_get: "dget (put_claim u n r) k = (if k = n \<and> resolve_user_claim u n \<noteq> None
    then resolve_user_claim u n else dget r k)"
  by (auto simp: put_claim_def split: option.split)

lemma put_missing_other: "k \<notin> set ns \<Longrightarrow> dget (put_missing u ns r) k = dget r k"
  by (induction u ns r rule: put_missing.induct) (auto simp: put_claim_get)

end
