(* ===== verification/Api.thy ===== *)
theory Api
  imports Ui_Auth Token
begin

text \<open>
  \<open>routes/api.py\<close>: the management and monitoring API, except for the dump of the configuration
  and its reload. Every view runs behind the write guard of \<open>Ui_Auth\<close>.
\<close>

definition health :: "world \<Rightarrow> reply \<times> world" where
  "health w = (json_reply 200 [(''status'', JStr ''ok'')], w)"

definition user_summary :: "str \<Rightarrow> user \<Rightarrow> json" where
  "user_summary name u = JObj
     [(''username'', JStr name), (''description'', JStr (u_description u)), (''email'', JStr (u_email u)),
      (''identity_class'', jopt (u_identity_class u)), (''roles'', jstrs (u_roles u)),
      (''groups'', jstrs (u_groups u)), (''tenant'', JStr (u_tenant u)),
      (''has_acl'', JBool (u_source_acl u \<noteq> [])), (''has_entitlements'', JBool (u_entitlements u \<noteq> []))]"

definition list_users :: "world \<Rightarrow> reply \<times> world" where
  "list_users w =
     (json_reply 200
        [(''users'', JList (map (\<lambda>(n, u). user_summary n u) (c_users (w_config w)))),
         (''count'', JInt (int (length (c_users (w_config w)))))], w)"

definition user_not_found :: reply where
  "user_not_found = json_reply 404 [(''error'', JStr ''User not found'')]"

definition api_get_user :: "str \<Rightarrow> world \<Rightarrow> reply \<times> world" where
  "api_get_user username w =
     (case get_user (w_config w) username of
        None \<Rightarrow> (user_not_found, w)
      | Some u \<Rightarrow> (json_reply 200
          [(''username'', JStr (u_username u)), (''description'', JStr (u_description u)),
           (''email'', JStr (u_email u)), (''identity_class'', jopt (u_identity_class u)),
           (''entitlements'', jstrs (u_entitlements u)), (''roles'', jstrs (u_roles u)),
           (''groups'', jstrs (u_groups u)), (''tenant'', JStr (u_tenant u)),
           (''source_acl'', jstrs (u_source_acl u)), (''attributes'', JObj (u_attributes u)),
           (''authorities'', jstrs (build_authorities (w_settings w) u))], w))"

definition plain_token_args :: "user \<Rightarrow> token_args" where
  \<comment> \<open>\<open>create_token(user)\<close> with every other argument at its default\<close>
  "plain_token_args u = \<lparr>ta_user = u, ta_exp_minutes = None, ta_extra_claims = [], ta_nonce = None,
     ta_scope = None, ta_client_id = None, ta_auth_time = None, ta_refresh_family = None,
     ta_id_token_claims = None, ta_userinfo_claims = None, ta_issuer = None,
     ta_issue_refresh_token = None, ta_resource = None, ta_refresh_resource = None\<rparr>"

definition generate_token :: "lib \<Rightarrow> time \<Rightarrow> request \<Rightarrow> str \<Rightarrow> int option \<Rightarrow> str option \<Rightarrow> world
    \<Rightarrow> reply \<times> world" where
  \<comment> \<open>\<open>exp_minutes\<close> and \<open>client_id\<close> are the members of the JSON body\<close>
  "generate_token L now rq username exp_minutes client_id w =
     (case get_user (w_config w) username of
        None \<Rightarrow> (user_not_found, w)
      | Some u \<Rightarrow>
          if client_id \<noteq> None \<and> get_client (w_config w) (the client_id) = None then
            (json_reply 400 [(''error'', JStr (''Client '' @ [CHR 0x27] @ the client_id @ [CHR 0x27]
               @ '' not found''))], w)
          else (case create_token L now (w_config w) (w_crypto w) (w_draws w)
                  ((plain_token_args u)\<lparr>ta_exp_minutes := exp_minutes, ta_client_id := client_id,
                     ta_issuer := Some (effective_issuer rq (w_settings w))\<rparr>) of
             Inl e \<Rightarrow> (Inl e, w)
           | Inr (response, n) \<Rightarrow> (json_reply 200 response, w\<lparr>w_draws := n\<rparr>)))"

definition entry_json :: "audit_entry \<Rightarrow> json" where
  \<comment> \<open>the time stamp in microseconds, where the code renders it as ISO 8601 text\<close>
  "entry_json e = JObj
     [(''timestamp'', JInt (ae_timestamp e)), (''event_type'', JStr (ae_event_type e)),
      (''username'', jopt (ae_username e)), (''client_id'', jopt (ae_client_id e)),
      (''ip_address'', JStr (ae_ip_address e)), (''user_agent'', JStr (ae_user_agent e)),
      (''endpoint'', JStr (ae_endpoint e)), (''method'', JStr (ae_method e)),
      (''status'', JStr (ae_status e)), (''details'', JObj (ae_details e))]"

definition int_arg :: "request \<Rightarrow> str \<Rightarrow> int \<Rightarrow> int" where
  \<comment> \<open>\<open>request.args.get(k, default, type=int)\<close>: the default also when the value is no number\<close>
  "int_arg rq k dflt = (case param (rq_args rq) k of None \<Rightarrow> dflt
     | Some s \<Rightarrow> (case py_int s of None \<Rightarrow> dflt | Some i \<Rightarrow> i))"

definition get_audit :: "request \<Rightarrow> world \<Rightarrow> reply \<times> world" where
  "get_audit rq w =
     (let es = get_entries (int_arg rq ''limit'' 100) (param (rq_args rq) ''event_type'')
                 (param (rq_args rq) ''username'') None (w_audit w)
      in (json_reply 200 [(''entries'', JList (map entry_json es)), (''count'', JInt (int (length es)))], w))"

definition get_audit_stats :: "world \<Rightarrow> reply \<times> world" where
  "get_audit_stats w = (json_reply 200 (map (\<lambda>(k, n). (k, JInt n)) (al_stats (w_audit w))), w)"

definition clear_audit :: "world \<Rightarrow> reply \<times> world" where
  "clear_audit w = (json_reply 200 [(''status'', JStr ''cleared'')], w\<lparr>w_audit := audit_clear (w_audit w)\<rparr>)"

definition rotate_keys_view :: "lib \<Rightarrow> time \<Rightarrow> world \<Rightarrow> reply \<times> world" where
  "rotate_keys_view L now w =
     (let old_kid = cr_kid (w_crypto w);
          cr = rotate_keys L now (w_draws w) (w_crypto w);
          event = \<lparr>ae_timestamp = now, ae_event_type = ''key_rotation'', ae_username = Some ''api'',
            ae_client_id = None, ae_ip_address = ''unknown'', ae_user_agent = ''unknown'',
            ae_endpoint = ''/api/keys/rotate'', ae_method = ''POST'', ae_status = ''success'',
            ae_details = [(''old_kid'', JStr old_kid), (''new_kid'', JStr (cr_kid cr))]\<rparr>
      in (json_reply 200
            [(''success'', JBool True), (''old_kid'', JStr old_kid), (''new_kid'', JStr (cr_kid cr)),
             (''previous_keys_count'', JInt (int (length (cr_previous_keys cr)))),
             (''rotated_at'', JInt now)],
          w\<lparr>w_crypto := cr, w_draws := Suc (w_draws w), w_audit := log_entry event (w_audit w)\<rparr>))"

definition keys_info :: "world \<Rightarrow> reply \<times> world" where
  "keys_info w = (let cr = w_crypto w in
     (json_reply 200
        [(''active_kid'', JStr (cr_kid cr)),
         (''previous_keys_count'', JInt (int (length (cr_previous_keys cr)))),
         (''previous_kids'', jstrs (map ki_kid (cr_previous_keys cr))),
         (''max_previous_keys'', JInt (int (cr_max_previous_keys cr)))], w))"

end
