(* ===== verification/Authorize_Laws.thy ===== *)
theory Authorize_Laws
  imports Authorize Grant_Laws
begin

text \<open>
  What a request to \<open>/authorize\<close> must have passed before the browser is sent anywhere and before
  a code is issued: the laws of the validators, of their sequence, and of the login leg.
\<close>

lemma seq_Inl: "seq m f = (Inl r, w') \<longleftrightarrow>
    m = (Inl r, w') \<or> (\<exists>x w1. m = (Inr x, w1) \<and> f x w1 = (Inl r, w'))"
  by (auto simp: seq_def split: prod.splits sum.splits)

lemma halt_simps [simp]: "fst (halt x) = Inl (fst x)" "snd (halt x) = snd x" "halt x \<noteq> (Inr y, w)"
    "halt x = (Inl r, w) \<longleftrightarrow> x = (r, w)"
  by (auto simp: halt_def prod_eq_iff)

subsection \<open>What each validator lets through\<close>

definition redirect_allowed :: "settings \<Rightarrow> oauth_client \<Rightarrow> str \<Rightarrow> bool" where
  "redirect_allowed s client uri \<longleftrightarrow> redirect_uri_rejection_reason uri = None
     \<and> (cl_redirect_uris client \<noteq> [] \<longrightarrow> redirect_uri_is_registered uri (cl_redirect_uris client))
     \<and> (s_security_profile s = ''oauth21'' \<longrightarrow> cl_redirect_uris client \<noteq> [])"

definition pkce_acceptable :: "settings \<Rightarrow> oauth_client \<Rightarrow> str \<Rightarrow> str \<Rightarrow> bool" where
  \<comment> \<open>on a challenge and its method, both empty when absent\<close>
  "pkce_acceptable s client challenge meth \<longleftrightarrow>
     (is_public client \<longrightarrow> challenge \<noteq> [] \<and> meth = ''S256'')
     \<and> (pkce_required s \<longrightarrow> challenge \<noteq> [])
     \<and> (challenge \<noteq> [] \<longrightarrow> meth \<in> {[], ''plain'', ''S256''} \<and> (meth \<noteq> ''S256'' \<longrightarrow> pkce_plain_allowed s))"

lemma validate_client_Inr:
  "validate_authorize_client now rq p w = (Inr client, w') \<Longrightarrow>
     w' = w \<and> get_client (w_config w) (ap_client_id p) = Some client"
  by (auto simp: validate_authorize_client_def split: if_splits option.splits)

lemma validate_redirect_Inr:
  "validate_authorize_redirect_uri now rq p client w = (Inr u, w') \<Longrightarrow>
     w' = w \<and> redirect_allowed (w_settings w) client (ap_redirect_uri p)"
  by (auto simp: validate_authorize_redirect_uri_def redirect_allowed_def split: if_splits option.splits)

lemma validate_response_type_Inr:
  "validate_authorize_response_type now rq p w = (Inr u, w') \<Longrightarrow> w' = w \<and> ap_response_type p = ''code''"
  by (auto simp: validate_authorize_response_type_def split: if_splits)

lemma validate_scope_Inr:
  assumes "validate_authorize_scope now rq p client w = (Inr p', w')"
  shows "w' = w \<and> (\<exists>g. p' = p\<lparr>ap_scope := g\<rparr>
    \<and> (scope_enforcement_active (w_settings w) \<longrightarrow>
        scope_permitted client (s_scopes_supported (w_settings w)) (Some g)))"
proof -
  let ?r = "resolve_scope (Some (ap_scope p)) client (s_scopes_supported (w_settings w))
                (scope_enforcement_active (w_settings w)) (Some ''openid'') False"
  from assms have ok: "scope_ok ?r" and p': "p' = p\<lparr>ap_scope := opt_or_nil (sr_granted ?r)\<rparr>" and w': "w' = w"
    by (auto simp: validate_authorize_scope_def Let_def split: if_splits)
  have "scope_permitted client voc (Some (opt_or_nil g))" if "scope_permitted client voc g" for voc g
    using that by (auto simp: scope_permitted_def split: option.splits)
  then show ?thesis
    using w' ok p' resolve_scope_sound [of "Some (ap_scope p)" client] by fastforce
qed

lemma validate_pkce_Inr:
  "validate_authorize_pkce now rq p client w = (Inr u, w') \<Longrightarrow>
     w' = w \<and> pkce_acceptable (w_settings w) client (ap_code_challenge p) (ap_code_challenge_method p)"
  by (auto simp: validate_authorize_pkce_def pkce_acceptable_def Let_def split: if_splits)

lemma validate_resources_Inr:
  assumes "validate_authorize_resources now rq p client w = (Inr p', w')"
  shows "w' = w \<and> (\<exists>rs. p' = p\<lparr>ap_resources := rs\<rparr> \<and> distinct rs
    \<and> (\<forall>v \<in> set rs. resource_permitted client None v))"
proof (cases "ap_resources p = []")
  case True
  with assms show ?thesis
    by (intro conjI exI [of _ "[]"]) (auto simp: validate_authorize_resources_def)
next
  case False
  let ?r = "resolve_resources (ap_resources p) client None"
  from assms False have "resource_ok ?r" "p' = p\<lparr>ap_resources := opt_or_nil (rr_granted ?r)\<rparr>" "w' = w"
    by (auto simp: validate_authorize_resources_def Let_def split: if_splits)
  with resolve_resources_ok_iff [of "ap_resources p" client None] show ?thesis
    by (intro conjI exI [of _ "first_seen (ap_resources p)"]) (simp_all add: resolve_resources_granted)
qed

subsection \<open>The validated request\<close>

text \<open>The parameters \<open>p\<close> after every validator has passed, for the client they name.\<close>

definition request_validated :: "config \<Rightarrow> oauth_client \<Rightarrow> authorize_params \<Rightarrow> bool" where
  "request_validated c client p \<longleftrightarrow> get_client c (ap_client_id p) = Some client
     \<and> redirect_allowed (c_settings c) client (ap_redirect_uri p) \<and> ap_response_type p = ''code''
     \<and> (scope_enforcement_active (c_settings c) \<longrightarrow>
          scope_permitted client (s_scopes_supported (c_settings c)) (Some (ap_scope p)))
     \<and> pkce_acceptable (c_settings c) client (ap_code_challenge p) (ap_code_challenge_method p)
     \<and> (\<forall>v \<in> set (ap_resources p). resource_permitted client None v)"

lemma authorize_validated_Inr:
  assumes "authorize_validated now rq p w = (Inr (client, p'), w')"
  shows "w' = w" "request_validated (w_config w) client p'"
    "ap_redirect_uri p' = ap_redirect_uri p" "ap_login_hint p' = ap_login_hint p"
    "ap_client_id p' = ap_client_id p"
  using assms unfolding authorize_validated_def
  by (auto simp: seq_Inr request_validated_def dest!: validate_client_Inr validate_redirect_Inr
      validate_response_type_Inr validate_pkce_Inr
      validate_scope_Inr validate_resources_Inr)

subsection \<open>Where the browser is sent\<close>

definition sends_to :: "reply \<Rightarrow> str \<Rightarrow> bool" where
  "sends_to r url \<longleftrightarrow> (case r of Inl _ \<Rightarrow> False | Inr x \<Rightarrow> dget (rs_headers x) ''Location'' = Some url)"

lemma sends_to_simps [simp]:
  "\<not> sends_to (Inl e) url" "\<not> sends_to (json_reply st d) url" "\<not> sends_to (oauth_error er descr st) url"
  "\<not> sends_to (page_reply t a) url" "sends_to (redirect_reply url') url \<longleftrightarrow> url = url'"
  by (auto simp: sends_to_def json_reply_def oauth_error_def page_reply_def redirect_reply_def dget_Cons)

text \<open>The URI a reply sends the browser to extends a redirect URI allowed for the client named.\<close>

definition lands_on_client :: "config \<Rightarrow> authorize_params \<Rightarrow> str \<Rightarrow> bool" where
  "lands_on_client c p url \<longleftrightarrow> (\<exists>client q. get_client c (ap_client_id p) = Some client
     \<and> redirect_allowed (c_settings c) client (ap_redirect_uri p)
     \<and> url = append_authorization_params (ap_redirect_uri p) q)"

lemma error_redirect_sends:
  "authorize_error_redirect now rq p e d cause u w = (r, w') \<Longrightarrow> sends_to r url \<Longrightarrow>
     \<exists>q. url = append_authorization_params (ap_redirect_uri p) q"
  by (auto simp: authorize_error_redirect_def)

lemma reject_sends: "authorize_reject now rq cid cause e d w = (r, w') \<Longrightarrow> \<not> sends_to r url"
  by (auto simp: authorize_reject_def)

lemma validators_send_error:
  "validate_authorize_response_type now rq p w = (Inl r, w') \<Longrightarrow> sends_to r url \<Longrightarrow>
     \<exists>q. url = append_authorization_params (ap_redirect_uri p) q"
  "validate_authorize_scope now rq p client w = (Inl r, w') \<Longrightarrow> sends_to r url \<Longrightarrow>
     \<exists>q. url = append_authorization_params (ap_redirect_uri p) q"
  "validate_authorize_pkce now rq p client w = (Inl r, w') \<Longrightarrow> sends_to r url \<Longrightarrow>
     \<exists>q. url = append_authorization_params (ap_redirect_uri p) q"
  "validate_authorize_resources now rq p client w = (Inl r, w') \<Longrightarrow> sends_to r url \<Longrightarrow>
     \<exists>q. url = append_authorization_params (ap_redirect_uri p) q"
  by (auto simp: validate_authorize_response_type_def validate_authorize_scope_def
      validate_authorize_pkce_def validate_authorize_resources_def Let_def
      dest: error_redirect_sends split: if_splits)

lemma early_validators_send_nothing:
  "validate_authorize_client now rq p w = (Inl r, w') \<Longrightarrow> \<not> sends_to r url"
  "validate_authorize_redirect_uri now rq p client w = (Inl r, w') \<Longrightarrow> \<not> sends_to r url"
  by (auto simp: validate_authorize_client_def validate_authorize_redirect_uri_def
      dest: reject_sends split: if_splits option.splits)

lemma authorize_validated_Inl:
  assumes "authorize_validated now rq p w = (Inl r, w')" "sends_to r url"
  shows "lands_on_client (w_config w) p url"
  using assms unfolding authorize_validated_def lands_on_client_def
  by (auto simp: seq_Inl dest!: validate_client_Inr validate_redirect_Inr validate_response_type_Inr
      validate_pkce_Inr validate_scope_Inr
      validators_send_error dest: early_validators_send_nothing)

lemma audit_post_config [simp]: "w_config (audit_suspicious_authorize_post now rq p w) = w_config w"
  by (simp add: audit_suspicious_authorize_post_def Let_def)

lemma authorize_request_eq: "authorize_request now rq w = authorize_validated now rq (resolve_params rq w)
    (if rq_method rq = ''POST''
     then audit_suspicious_authorize_post now rq (resolve_params rq w) (snd (read_authorize_params rq w))
     else snd (read_authorize_params rq w))"
  by (simp add: authorize_request_def read_authorize_params_def Let_def)

lemma read_params_config [simp]: "w_config (snd (read_authorize_params rq w)) = w_config w"
  by (simp add: read_authorize_params_def Let_def)

lemma authorize_request_Inl:
  "authorize_request now rq w = (Inl r, w') \<Longrightarrow> sends_to r url \<Longrightarrow>
     lands_on_client (w_config w) (resolve_params rq w) url"
  unfolding authorize_request_eq by (drule authorize_validated_Inl) (auto split: if_splits)

lemma authorize_request_Inr:
  assumes "authorize_request now rq w = (Inr (client, p), w')"
  shows "request_validated (w_config w) client p" "w_config w' = w_config w"
    "ap_redirect_uri p = ap_redirect_uri (resolve_params rq w)"
    "ap_client_id p = ap_client_id (resolve_params rq w)"
    "ap_login_hint p = ap_login_hint (resolve_params rq w)"
proof -
  note v = assms [unfolded authorize_request_eq]
  show "request_validated (w_config w) client p"
    using authorize_validated_Inr(2) [OF v] by (auto split: if_splits)
  show "w_config w' = w_config w" using authorize_validated_Inr(1) [OF v] by (auto split: if_splits)
qed (rule authorize_validated_Inr [OF assms [unfolded authorize_request_eq]])+

lemma issue_sends:
  "issue_authorization_code L now rq p u auto w = (r, w') \<Longrightarrow> sends_to r url \<Longrightarrow>
     \<exists>q. url = append_authorization_params (ap_redirect_uri p) q"
  by (auto simp: issue_authorization_code_def Let_def case_prod_beta)

lemma auto_login_sends:
  "try_persona_auto_login L now rq p w = Some (r, w') \<Longrightarrow> sends_to r url \<Longrightarrow>
     \<exists>q. url = append_authorization_params (ap_redirect_uri p) q"
  by (auto simp: try_persona_auto_login_def Let_def dest: issue_sends error_redirect_sends
      split: if_splits option.splits)

lemma handle_login_sends:
  "handle_authorize_login L now rq p w = (Inr r, w') \<Longrightarrow> sends_to r url \<Longrightarrow>
     \<exists>q. url = append_authorization_params (ap_redirect_uri p) q"
  by (auto simp: handle_authorize_login_def Let_def case_prod_beta prod_eq_iff
      dest: issue_sends [OF surjective_pairing] split: if_splits option.splits)

lemma authorize_sends:
  assumes "sends_to (fst (authorize L now rq w)) url"
  shows "lands_on_client (w_config w) (resolve_params rq w) url"
proof (cases "authorize_request now rq w" rule: step_cases)
  case (stop r w1)
  with assms have "sends_to r url" by (simp add: authorize_def)
  with stop show ?thesis by (rule authorize_request_Inl)
next
  case (go x w1)
  obtain client p where x: "x = (client, p)" by (cases x)
  note go = go [unfolded x]
  have "\<exists>q. url = append_authorization_params (ap_redirect_uri p) q"
  proof (cases "try_persona_auto_login L now rq p w1")
    case None
    then show ?thesis using assms go
      by (auto simp: authorize_def render_authorize_login_def dest: handle_login_sends
          split: if_splits prod.splits sum.splits)
  next
    case (Some res)
    then show ?thesis using assms go auto_login_sends [of L now rq p w1 "fst res" "snd res" url]
      by (simp add: authorize_def)
  qed
  then show ?thesis
    using authorize_request_Inr [OF go] by (auto simp: lands_on_client_def request_validated_def)
qed

subsection \<open>What the endpoint leaves alone\<close>

lemma same_state_redirect [simp]: "same_state w (snd (authorize_error_redirect now rq p e d r u w))"
  by (simp add: authorize_error_redirect_def)

lemma same_state_reject [simp]: "same_state w (snd (authorize_reject now rq c r e d w))"
  by (simp add: authorize_reject_def)

lemma authorize_validated_same: "same_state w (snd (authorize_validated now rq p w))"
  unfolding authorize_validated_def
  by (intro same_state_seq)
     (auto simp: validate_authorize_client_def validate_authorize_redirect_uri_def
        validate_authorize_response_type_def validate_authorize_scope_def validate_authorize_pkce_def
        validate_authorize_resources_def Let_def split: option.split
        intro: same_state_trans)

text \<open>The endpoint touches the session and, when it issues a code, the code store and the draws.\<close>

definition same_but_session :: "world \<Rightarrow> world \<Rightarrow> bool" where
  "same_but_session w w' \<longleftrightarrow> w_config w' = w_config w \<and> w_codes w' = w_codes w
     \<and> w_devices w' = w_devices w \<and> w_revoked w' = w_revoked w \<and> w_crypto w' = w_crypto w
     \<and> w_draws w' = w_draws w"

lemma same_but_session_refl [simp]: "same_but_session w w"
  by (simp add: same_but_session_def)

lemma same_state_but_session: "same_state w1 w' \<Longrightarrow> same_but_session w w1 \<Longrightarrow> same_but_session w w'"
  by (auto simp: same_but_session_def dest: same_state_fields)

lemma authorize_request_same: "same_but_session w (snd (authorize_request now rq w))"
proof -
  define w1 where "w1 = snd (read_authorize_params rq w)"
  define w2 where "w2 = (if rq_method rq = ''POST''
    then audit_suspicious_authorize_post now rq (fst (read_authorize_params rq w)) w1 else w1)"
  have "same_but_session w w1" by (simp add: w1_def same_but_session_def read_authorize_params_def Let_def)
  moreover have "same_state w1 w2"
    by (simp add: w2_def audit_suspicious_authorize_post_def Let_def)
  moreover have "authorize_request now rq w = authorize_validated now rq (fst (read_authorize_params rq w)) w2"
    by (simp add: authorize_request_def case_prod_beta Let_def w1_def w2_def)
  ultimately show ?thesis using authorize_validated_same by (metis same_state_but_session)
qed

text \<open>
  The user that a request logs in: by the posted credentials, which \<open>interactive_authenticate\<close>
  accepts, or by the reserved \<open>login_hint\<close> when auto-login is enabled.
\<close>

definition logged_in :: "lib \<Rightarrow> config \<Rightarrow> request \<Rightarrow> authorize_params \<Rightarrow> user \<Rightarrow> bool" where
  "logged_in L c rq p user \<longleftrightarrow>
     (rq_method rq = ''POST'' \<and>
        interactive_authenticate L c (py_strip (param_or (rq_form rq) ''username'' []))
          (param_or (rq_form rq) ''password'' []) = Some user)
     \<or> (auto_login_enabled (c_settings c) \<and> starts_with (ap_login_hint p) auto_login_hint_prefix
        \<and> interactive_authenticate L c (drop (length auto_login_hint_prefix) (ap_login_hint p)) [] = Some user)"

definition code_issued :: "lib \<Rightarrow> time \<Rightarrow> request \<Rightarrow> world \<Rightarrow> world \<Rightarrow> bool" where
  \<comment> \<open>one code is created, for a validated request and the user it logs in\<close>
  "code_issued L now rq w w' \<longleftrightarrow> (\<exists>client p user.
     request_validated (w_config w) client p \<and> logged_in L (w_config w) rq p user
     \<and> w_codes w' = snd (create_code now
         (code_of_params L now p (u_username user) (lib_urlsafe L (w_draws w))) (w_codes w))
     \<and> w_draws w' = Suc (w_draws w) \<and> w_config w' = w_config w \<and> w_devices w' = w_devices w
     \<and> w_revoked w' = w_revoked w \<and> w_crypto w' = w_crypto w)"

lemma issue_code_issued:
  assumes "same_but_session w w1" "request_validated (w_config w) client p"
    "logged_in L (w_config w) rq p user"
  shows "code_issued L now rq w (snd (issue_authorization_code L now rq p (u_username user) auto w1))"
  unfolding code_issued_def
  by (rule exI [of _ client], rule exI [of _ p], rule exI [of _ user])
     (use assms in \<open>simp add: issue_authorization_code_def case_prod_beta Let_def same_but_session_def\<close>)

lemma same_but_session_state: "same_but_session w w1 \<Longrightarrow> same_state w1 w' \<Longrightarrow> same_but_session w w'"
  by (rule same_state_but_session)

lemma auto_login_cases:
  assumes "try_persona_auto_login L now rq p w = Some res"
  shows "same_state w (snd res) \<or> (\<exists>user. logged_in L (w_config w) rq p user
      \<and> res = issue_authorization_code L now rq p (u_username user) True w)"
  using assms by (auto simp: try_persona_auto_login_def logged_in_def Let_def split: if_splits option.splits)

lemma handle_login_cases:
  assumes "rq_method rq = ''POST''"
  shows "same_state w (snd (handle_authorize_login L now rq p w)) \<or> (\<exists>user. logged_in L (w_config w) rq p user
      \<and> snd (handle_authorize_login L now rq p w) =
          snd (issue_authorization_code L now rq p (u_username user) False w))"
  using assms by (auto simp: handle_authorize_login_def logged_in_def Let_def case_prod_beta split: option.splits)

lemma authorize_effect:
  "same_but_session w (snd (authorize L now rq w)) \<or> code_issued L now rq w (snd (authorize L now rq w))"
proof (cases "authorize_request now rq w" rule: step_cases)
  case (stop r w1)
  then show ?thesis using authorize_request_same [of w now rq] by (simp add: authorize_def)
next
  case (go x w1)
  obtain client p where x: "x = (client, p)" by (cases x)
  note go = go [unfolded x]
  have w1: "same_but_session w w1" using go authorize_request_same [of w now rq] by simp
  note valid = authorize_request_Inr(1,2) [OF go]
  show ?thesis
  proof (cases "try_persona_auto_login L now rq p w1")
    case (Some res)
    then have r: "authorize L now rq w = res" using go by (simp add: authorize_def)
    from auto_login_cases [OF Some] show ?thesis
      using r w1 valid by (auto intro: same_but_session_state issue_code_issued)
  next
    case None
    show ?thesis
    proof (cases "rq_method rq = ''POST''")
      case True
      then have r: "snd (authorize L now rq w) = snd (handle_authorize_login L now rq p w1)"
        using go None by (simp add: authorize_def case_prod_beta Let_def split: sum.split)
      from handle_login_cases [OF True, of w1 L now p] show ?thesis
        using r w1 valid by (auto intro: same_but_session_state issue_code_issued)
    next
      case False
      then show ?thesis using go None w1 by (simp add: authorize_def)
    qed
  qed
qed

subsection \<open>The request kept in the session\<close>

lemma session_str_store:
  "session_str (w\<lparr>w_session := store_params p s\<rparr>) ''oauth_response_type'' = ap_response_type p"
  "session_str (w\<lparr>w_session := store_params p s\<rparr>) ''oauth_client_id'' = ap_client_id p"
  "session_str (w\<lparr>w_session := store_params p s\<rparr>) ''oauth_redirect_uri'' = ap_redirect_uri p"
  "session_str (w\<lparr>w_session := store_params p s\<rparr>) ''oauth_scope'' = ap_scope p"
  "session_str (w\<lparr>w_session := store_params p s\<rparr>) ''oauth_state'' = ap_state p"
  "session_str (w\<lparr>w_session := store_params p s\<rparr>) ''oauth_code_challenge'' = ap_code_challenge p"
  "session_str (w\<lparr>w_session := store_params p s\<rparr>) ''oauth_code_challenge_method'' = ap_code_challenge_method p"
  "session_str (w\<lparr>w_session := store_params p s\<rparr>) ''oauth_nonce'' = ap_nonce p"
  "session_str (w\<lparr>w_session := store_params p s\<rparr>) ''oauth_claims'' = ap_claims_param p"
  "session_strs (w\<lparr>w_session := store_params p s\<rparr>) ''oauth_resources'' = ap_resources p"
  by (simp_all add: session_str_def session_strs_def store_params_def jstrs_def o_def)

end
