(* ===== verification/Server_Runs.thy ===== *)
theory Server_Runs
  imports Endpoints Api Authorize_Laws
begin

text \<open>
  The server as one transition system: every modelled endpoint is one step on the state of the
  server, in any order and from any browser. The stores are touched only through their own
  operations, so what the locales of \<open>Store_Contracts\<close> promise of a store holds of every run of
  requests.
\<close>

subsection \<open>What each endpoint leaves alone\<close>

lemma token_endpoint_effect:
  assumes "token_endpoint L now rq w = (r, w')"
  obtains w1 where "token_grant L now rq w = (fst (token_grant L now rq w), w1)"
    "w_codes w' = w_codes w1" "w_devices w' = w_devices w1" "w_revoked w' = w_revoked w1"
    "w_config w' = w_config w1" "w_crypto w' = w_crypto w1" "w_session w' = w_session w1"
    "w_draws w1 \<le> w_draws w'"
proof (cases "token_grant L now rq w" rule: step_cases)
  case (stop r w1)
  then show ?thesis using assms that [of w1] by (simp add: token_endpoint_def)
next
  case (go x w1)
  obtain ctx mins extra o' where x: "x = (ctx, mins, extra, o')" by (cases x)
  have "n \<le> n'" if "create_token L now c cr n ta = Inr (resp, n')" for c cr n ta resp n'
    using create_token_draws [OF that] .
  then show ?thesis using assms go x that [of w1]
    by (auto simp: token_endpoint_def issue_tokens_def split: sum.splits prod.splits)
qed

subsection \<open>The server as one step function\<close>

datatype server_op =
    SToken time request
  | SAuthorize time request
  | SUserinfo time request
  | SIntrospect time request
  | SRevoke time request
  | SEndSession time request
  | SDeviceAuthorization time request
  | SDevice time request
  | SDiscovery request
  | SJwks
  | SLogin time request
  | SLogout time request
  | SUnlock request
  | SRotateKeys time request
  | SClearAudit request
  | SApiToken time request str "int option" "str option"
  | SBrowser claims \<comment> \<open>the next request comes with this session\<close>

definition ui_view :: "(request \<Rightarrow> world \<Rightarrow> reply \<times> world) \<Rightarrow> request \<Rightarrow> world \<Rightarrow> reply \<times> world" where
  \<comment> \<open>a dashboard view behind its two hooks\<close>
  "ui_view view = guarded ui_login_required (guarded management_secret_required_for_ui view)"

definition api_view :: "(request \<Rightarrow> world \<Rightarrow> reply \<times> world) \<Rightarrow> request \<Rightarrow> world \<Rightarrow> reply \<times> world" where
  "api_view view = guarded management_secret_required_for_api view"

fun server_step :: "lib \<Rightarrow> server_op \<Rightarrow> world \<Rightarrow> reply \<times> world" where
  "server_step L (SToken now rq) w = token_endpoint L now rq w"
| "server_step L (SAuthorize now rq) w = authorize L now rq w"
| "server_step L (SUserinfo now rq) w = userinfo L now rq w"
| "server_step L (SIntrospect now rq) w = introspect L now rq w"
| "server_step L (SRevoke now rq) w = revoke_endpoint L now rq w"
| "server_step L (SEndSession now rq) w = end_session L now rq w"
| "server_step L (SDeviceAuthorization now rq) w = device_authorization L now rq w"
| "server_step L (SDevice now rq) w = device_verify L now rq w"
| "server_step L (SDiscovery rq) w = oidc_config rq w"
| "server_step L SJwks w = jwks w"
| "server_step L (SLogin now rq) w = ui_view (ui_login L now) rq w"
| "server_step L (SLogout now rq) w = ui_view (ui_logout now) rq w"
| "server_step L (SUnlock rq) w = ui_view management_unlock rq w"
| "server_step L (SRotateKeys now rq) w = api_view (\<lambda>rq. rotate_keys_view L now) rq w"
| "server_step L (SClearAudit rq) w = api_view (\<lambda>rq. clear_audit) rq w"
| "server_step L (SApiToken now rq name mins cid) w =
     api_view (\<lambda>rq. generate_token L now rq name mins cid) rq w"
| "server_step L (SBrowser s) w = (empty_reply, w\<lparr>w_session := s\<rparr>)"

subsection \<open>Frames\<close>

lemma guarded_cases: "snd (guarded gate view rq w) = w \<or> guarded gate view rq w = view rq w"
  by (auto simp: guarded_def split: option.splits)

lemma ui_view_cases: "snd (ui_view view rq w) = w \<or> ui_view view rq w = view rq w"
  unfolding ui_view_def using guarded_cases by metis

lemma api_view_cases: "snd (api_view view rq w) = w \<or> api_view view rq w = view rq w"
  unfolding api_view_def by (rule guarded_cases)

text \<open>The stores of codes, devices and revocations, with the configuration.\<close>

definition same_stores :: "world \<Rightarrow> world \<Rightarrow> bool" where
  "same_stores w w' \<longleftrightarrow> w_config w' = w_config w \<and> w_codes w' = w_codes w
     \<and> w_devices w' = w_devices w \<and> w_revoked w' = w_revoked w \<and> w_draws w \<le> w_draws w'"

lemma same_stores_refl [simp]: "same_stores w w"
  by (simp add: same_stores_def)

lemma same_stores_audit [simp]: "same_stores w (audit_event now rq e st ep u c d w1) \<longleftrightarrow> same_stores w w1"
  by (simp add: same_stores_def)

lemma same_stores_session [simp]: "same_stores w (w1\<lparr>w_session := s\<rparr>) \<longleftrightarrow> same_stores w w1"
  by (simp add: same_stores_def)

lemma userinfo_same: "same_stores w (snd (userinfo L now rq w))"
  by (auto simp: userinfo_def Let_def split: sum.split option.split)

lemma introspect_same: "same_stores w (snd (introspect L now rq w))"
  by (auto simp: introspect_def Let_def split: sum.split option.split)

lemma ui_login_same: "same_stores w (snd (ui_login L now rq w))"
  by (auto simp: ui_login_def Let_def split: option.split)

lemma ui_logout_same: "same_stores w (snd (ui_logout now rq w))"
  by (auto simp: ui_logout_def Let_def split: option.split)

lemma unlock_same: "same_stores w (snd (management_unlock rq w))"
  by (auto simp: management_unlock_def flash_def mark_management_verified_def split: option.split)

lemma generate_token_same: "same_stores w (snd (generate_token L now rq name mins cid w))"
  by (auto simp: generate_token_def same_stores_def split: option.split sum.split dest: create_token_draws)

lemma rotate_view_same: "same_stores w (snd (rotate_keys_view L now w))"
  by (simp add: rotate_keys_view_def Let_def same_stores_def)

lemma clear_audit_same: "same_stores w (snd (clear_audit w))"
  by (simp add: clear_audit_def same_stores_def)

lemma view_same:
  "same_stores w (snd (view rq w)) \<Longrightarrow> same_stores w (snd (ui_view view rq w))"
  "same_stores w (snd (view rq w)) \<Longrightarrow> same_stores w (snd (api_view view rq w))"
  using ui_view_cases [of view rq w] api_view_cases [of view rq w] by auto

fun touches_stores :: "server_op \<Rightarrow> bool" where
  "touches_stores (SToken now rq) = True"
| "touches_stores (SAuthorize now rq) = True"
| "touches_stores (SRevoke now rq) = True"
| "touches_stores (SEndSession now rq) = True"
| "touches_stores (SDeviceAuthorization now rq) = True"
| "touches_stores (SDevice now rq) = True"
| "touches_stores _ = False"

lemma other_steps_same: "\<not> touches_stores x \<Longrightarrow> same_stores w (snd (server_step L x w))"
  by (cases x) (simp_all add: userinfo_same introspect_same view_same ui_login_same ui_logout_same
      unlock_same rotate_view_same clear_audit_same generate_token_same oidc_config_def jwks_def)

lemma revoked_by [simp]: "\<exists>j a. same_stores (w\<lparr>w_revoked := revoke now j a (w_revoked w)\<rparr>)
    (w\<lparr>w_revoked := revoke now jti arg (w_revoked w)\<rparr>)"
  by (intro exI) (rule same_stores_refl)

lemma revoke_endpoint_effect:
  "same_stores w (snd (revoke_endpoint L now rq w)) \<or>
   (\<exists>jti arg. same_stores (w\<lparr>w_revoked := revoke now jti arg (w_revoked w)\<rparr>) (snd (revoke_endpoint L now rq w)))"
  by (simp add: revoke_endpoint_def Let_def split: sum.split option.split)

lemma end_session_effect:
  "same_stores w (snd (end_session L now rq w)) \<or>
   (\<exists>jti arg. same_stores (w\<lparr>w_revoked := revoke now jti arg (w_revoked w)\<rparr>) (snd (end_session L now rq w)))"
  unfolding end_session_def Let_def by simp

lemma device_request_same: "same_state w (snd (device_request now rq w))"
  by (simp add: device_request_def Let_def split: option.split)

lemma device_verify_effect:
  "same_stores w (snd (device_verify L now rq w)) \<or>
   (\<exists>uc act un pw. same_stores (w\<lparr>w_devices := snd (verify now uc act un pw
      (interactive_authenticate L (w_config w)) (w_devices w))\<rparr>) (snd (device_verify L now rq w)))"
proof -
  have "same_stores (w\<lparr>w_devices := snd (verify now uc act un pw
      (interactive_authenticate L (w_config w)) (w_devices w))\<rparr>) (snd (device_decide L now rq uc act un pw w))"
    for uc act un pw
    by (auto simp: device_decide_def case_prod_beta Let_def split: verify_outcome.split option.split)
  note decide = this
  have "snd (device_verify L now rq w) = w
      \<or> (\<exists>uc act un pw. snd (device_verify L now rq w) = snd (device_decide L now rq uc act un pw w))"
    unfolding device_verify_def case_prod_beta Let_def by (simp only: if_distrib [of snd] snd_conv) metis
  then show ?thesis
  proof (elim disjE exE)
    fix uc act un pw
    assume same: "snd (device_verify L now rq w) = snd (device_decide L now rq uc act un pw w)"
    show ?thesis unfolding same by (intro disjI2 exI) (rule decide)
  qed simp
qed

lemma device_authorization_effect:
  "same_stores w (snd (device_authorization L now rq w)) \<or>
   (\<exists>uc cid sc res. same_stores (w\<lparr>w_devices := snd (device_create now (lib_urlsafe L (w_draws w)) uc cid sc
        device_code_expires_in device_poll_interval res (w_devices w)), w_draws := Suc (w_draws w)\<rparr>)
      (snd (device_authorization L now rq w)))"
proof (cases "device_request now rq w" rule: step_cases)
  case (stop r w1)
  then show ?thesis using same_state_fields [OF device_request_same [of w now rq]]
    by (simp add: device_authorization_def same_stores_def)
next
  case (go x w1)
  then have "same_state w w1" using device_request_same [of w now rq] by simp
  then show ?thesis using go same_state_fields [of w w1]
    by (cases x) (auto simp: device_authorization_def case_prod_beta Let_def same_stores_def
        split: sum.split store_full.split)
qed

subsection \<open>The token endpoint spends at most one thing\<close>

lemma token_client_same: "same_state w (snd (token_client now rq gt w))"
  unfolding token_client_def Let_def
  by (auto intro!: same_state_seq simp: enforce_token_endpoint_auth_def token_auth_failed_def
      split: option.split)

lemma token_params_same: "same_state w (snd (token_params L now rq ctx w))"
  by (simp add: token_params_def Let_def split: option.split json.split)

definition spends_one :: "time \<Rightarrow> request \<Rightarrow> world \<Rightarrow> world \<Rightarrow> bool" where
  "spends_one now rq w w' \<longleftrightarrow> same_state w w'
     \<or> (\<exists>p c. same_state (snd (claim_refresh now p c w)) w')
     \<or> (\<exists>ctx. same_state (consumed now rq ctx w) w')
     \<or> (\<exists>ctx. same_state (polled now rq ctx w) w')"

lemma handler_effect: "grant_handler L gt = Some h \<Longrightarrow> spends_one now rq w (snd (h now rq ctx w))"
  unfolding spends_one_def
  using grant_refresh_token_effect [of w L now rq ctx] grant_password_same [of w L now rq ctx]
    grant_authorization_code_effect [of w now rq ctx] grant_client_credentials_same [of w now rq ctx]
    grant_device_code_effect [of w now rq ctx]
  by (auto simp: grant_handler_def split: if_splits)

lemma spends_one_state: "spends_one now rq w w1 \<Longrightarrow> same_state w1 w' \<Longrightarrow> spends_one now rq w w'"
  unfolding spends_one_def by (blast intro: same_state_trans)

lemma token_grant_effect: "spends_one now rq w (snd (token_grant L now rq w))"
  unfolding token_grant_def Let_def
proof (rule seq_snd_cases, goal_cases)
  case (1 r w1)
  then show ?case using token_client_same [of w now rq] by (simp add: spends_one_def) (metis snd_conv)
next
  case (2 cid w1)
  then have w1: "w1 = w" by (auto dest: token_client_InrD)
  show ?case unfolding w1
  proof (rule seq_snd_cases, goal_cases)
    case (1 r w2)
    then show ?case using token_params_same [of w L now rq] by (simp add: spends_one_def) (metis snd_conv)
  next
    case (2 y w2)
    then have w2: "w2 = w" by (cases y) (auto dest: token_params_Inr)
    show ?case
    proof (cases "grant_handler L (param_or (rq_form rq) ''grant_type'' ''client_credentials'')")
      case None
      then show ?thesis unfolding w2 by (cases y) (simp add: spends_one_def)
    next
      case (Some h)
      let ?ctx = "\<lparr>gc_client_id = cid, gc_grant_type = param_or (rq_form rq) ''grant_type'' ''client_credentials''\<rparr>"
      have "spends_one now rq w (snd (seq (h now rq ?ctx w) (\<lambda>o' w3. (Inr (?ctx, fst y, snd y, o'), w3))))"
        by (rule seq_snd) (simp_all add: handler_effect [OF Some])
      then show ?thesis unfolding w2 using Some by (cases y) simp
    qed
  qed
qed

lemma issue_tokens_keeps:
  "w_codes (snd (issue_tokens L now rq ctx mins extra o' w)) = w_codes w"
  "w_devices (snd (issue_tokens L now rq ctx mins extra o' w)) = w_devices w"
  "w_revoked (snd (issue_tokens L now rq ctx mins extra o' w)) = w_revoked w"
  by (simp_all add: issue_tokens_def split: sum.split prod.split)

lemma token_step_effect:
  obtains w1 where "spends_one now rq w w1"
    "w_codes (snd (token_endpoint L now rq w)) = w_codes w1"
    "w_devices (snd (token_endpoint L now rq w)) = w_devices w1"
    "w_revoked (snd (token_endpoint L now rq w)) = w_revoked w1"
    "w_config (snd (token_endpoint L now rq w)) = w_config w"
    "w_draws w \<le> w_draws (snd (token_endpoint L now rq w))"
proof -
  obtain w1 where w1: "token_grant L now rq w = (fst (token_grant L now rq w), w1)"
    "w_codes (snd (token_endpoint L now rq w)) = w_codes w1"
    "w_devices (snd (token_endpoint L now rq w)) = w_devices w1"
    "w_revoked (snd (token_endpoint L now rq w)) = w_revoked w1"
    "w_config (snd (token_endpoint L now rq w)) = w_config w1"
    "w_draws w1 \<le> w_draws (snd (token_endpoint L now rq w))"
    by (rule token_endpoint_effect [of L now rq w "fst (token_endpoint L now rq w)"
          "snd (token_endpoint L now rq w)"]) auto
  have s: "spends_one now rq w w1" using token_grant_effect [of now rq w L] w1(1) by (metis snd_conv)
  moreover from s have "w_config w1 = w_config w" "w_draws w1 = w_draws w"
    by (auto simp: spends_one_def claim_refresh_fields consumed_def polled_def dest!: same_state_fields)
  ultimately show thesis using w1 that by simp
qed

subsection \<open>Authorization codes\<close>

lemma ac_code_of_params [simp]: "ac_code (code_of_params L now p u c) = c"
  by (simp add: code_of_params_def new_code_def)

text \<open>What a request does to the code store is one operation of the store, or nothing.\<close>

lemma step_codes:
  obtains (same) "w_codes (snd (server_step L x w)) = w_codes w"
      "w_draws w \<le> w_draws (snd (server_step L x w))"
  | (consume) now rq ctx where "x = SToken now rq"
      "w_codes (snd (server_step L x w)) = w_codes (consumed now rq ctx w)"
      "w_draws w \<le> w_draws (snd (server_step L x w))"
  | (issue) now rq a where "x = SAuthorize now rq" "ac_code a = lib_urlsafe L (w_draws w)"
      "w_codes (snd (server_step L x w)) = snd (create_code now a (w_codes w))"
      "w_draws (snd (server_step L x w)) = Suc (w_draws w)"
proof (cases x)
  case (SToken now rq)
  obtain w1 where "spends_one now rq w w1"
    "w_codes (snd (server_step L x w)) = w_codes w1"
    "w_draws w \<le> w_draws (snd (server_step L x w))"
    using token_step_effect [of now rq w L thesis] that SToken by auto
  then show thesis using SToken same consume
    by (auto simp: spends_one_def claim_refresh_fields polled_def dest!: same_state_fields)
next
  case (SAuthorize now rq)
  from authorize_effect [of w L now rq] show thesis
  proof
    assume "same_but_session w (snd (authorize L now rq w))"
    then show thesis using same SAuthorize by (auto simp: same_but_session_def)
  next
    assume "code_issued L now rq w (snd (authorize L now rq w))"
    then obtain p u where
      "w_codes (snd (authorize L now rq w)) =
         snd (create_code now (code_of_params L now p u (lib_urlsafe L (w_draws w))) (w_codes w))"
      "w_draws (snd (authorize L now rq w)) = Suc (w_draws w)"
      by (auto simp: code_issued_def)
    then show thesis using issue [of now rq "code_of_params L now p u (lib_urlsafe L (w_draws w))"] SAuthorize
      by (simp add: ac_code_of_params)
  qed
next
  case (SRevoke now rq)
  then show thesis using revoke_endpoint_effect [of w L now rq] same by (auto simp: same_stores_def)
next
  case (SEndSession now rq)
  then show thesis using end_session_effect [of w L now rq] same by (auto simp: same_stores_def)
next
  case (SDeviceAuthorization now rq)
  then show thesis using device_authorization_effect [of w L now rq] same by (auto simp: same_stores_def)
next
  case (SDevice now rq)
  then show thesis using device_verify_effect [of w L now rq] same by (auto simp: same_stores_def)
qed (use other_steps_same [of x w L] same in \<open>auto simp: same_stores_def\<close>)

lemma step_draws: "w_draws w \<le> w_draws (snd (server_step L x w))"
  by (rule step_codes [of L x w]) auto

text \<open>Every code in the store was drawn from the generator.\<close>

definition drawn :: "lib \<Rightarrow> world \<Rightarrow> str \<Rightarrow> bool" where
  "drawn L w c \<longleftrightarrow> (\<exists>m < w_draws w. lib_urlsafe L m = c)"

definition codes_wf :: "lib \<Rightarrow> world \<Rightarrow> bool" where
  "codes_wf L w \<longleftrightarrow> dict_wf (w_codes w) \<and> (\<forall>c. dhas (w_codes w) c \<longrightarrow> drawn L w c)"

lemma drawn_mono: "drawn L w c \<Longrightarrow> w_draws w \<le> w_draws w' \<Longrightarrow> drawn L w' c"
  unfolding drawn_def by (elim exE conjE, intro exI conjI, rule less_le_trans)

text \<open>An exchange of \<open>code\<close> that ends in tokens.\<close>

fun exchanges :: "str \<Rightarrow> server_op \<Rightarrow> reply \<Rightarrow> bool" where
  "exchanges code (SToken now rq) r \<longleftrightarrow> \<not> refused r
     \<and> param (rq_form rq) ''grant_type'' = Some ''authorization_code''
     \<and> param_or (rq_form rq) ''code'' [] = code"
| "exchanges code _ r \<longleftrightarrow> False"

lemma exchanges_iff: "exchanges code x r \<longleftrightarrow> (\<exists>now rq. x = SToken now rq \<and> \<not> refused r
     \<and> param (rq_form rq) ''grant_type'' = Some ''authorization_code''
     \<and> param_or (rq_form rq) ''code'' [] = code)"
  by (cases x) auto

lemma exchange_consumes:
  assumes "exchanges code x (fst (server_step L x w))"
  obtains now rq ctx a where "x = SToken now rq" "param_or (rq_form rq) ''code'' [] = code"
    "fst (consume_code now code (gc_client_id ctx) (param_or (rq_form rq) ''redirect_uri'' [])
       (param (rq_form rq) ''code_verifier'') (w_codes w)) = Inr (Some a)"
    "w_codes (snd (server_step L x w)) = w_codes (consumed now rq ctx w)"
    "acts_as (w_config w) rq ''authorization_code'' (gc_client_id ctx)"
proof -
  obtain now rq where x: "x = SToken now rq" and ok: "\<not> refused (fst (token_endpoint L now rq w))"
    and gt: "param (rq_form rq) ''grant_type'' = Some ''authorization_code''"
    and code: "param_or (rq_form rq) ''code'' [] = code"
    using assms by (auto simp: exchanges_iff)
  obtain ctx mins extra o' w1 where tg: "token_grant L now rq w = (Inr (ctx, mins, extra, o'), w1)"
    and it: "issue_tokens L now rq ctx mins extra o' w1 = (fst (token_endpoint L now rq w), snd (token_endpoint L now rq w))"
    by (rule token_endpoint_ok [OF surjective_pairing ok])
  from tg obtain h where h: "grant_handler L (gc_grant_type ctx) = Some h" "h now rq ctx w = (Inr o', w1)"
    "gc_grant_type ctx = param_or (rq_form rq) ''grant_type'' ''client_credentials''"
    "acts_as (w_config w) rq (gc_grant_type ctx) (gc_client_id ctx)"
    by (rule token_grant_Inr)
  have g: "gc_grant_type ctx = ''authorization_code''" using h(3) gt by (simp add: param_or_def param_def)
  have "grant_authorization_code now rq ctx w = (Inr o', w1)" using h(1,2) by (simp add: g grant_handler_def)
  then obtain a u w2 where r: "redeem_code now rq ctx w = (Inr (a, u), w2)" and same: "w1 = w2"
    unfolding grant_authorization_code_def by (auto simp: seq_Inr elim!: finish_grant_Inr)
  have "w_codes (snd (token_endpoint L now rq w)) = w_codes w1"
    using arg_cong [OF it, of snd] issue_tokens_keeps(1) [of L now rq ctx mins extra o' w1] by simp
  then show thesis using x code r same h(4) g
    by (intro that [of now rq ctx a]) (auto dest: redeem_code_Inr)
qed

lemma server_codes_one_time:
  assumes inj: "inj (lib_urlsafe L)"
  shows "one_time (server_step L) (codes_wf L) (\<lambda>code x. True) exchanges
     (\<lambda>code w. code_spent code (w_codes w) \<and> drawn L w code)"
proof
  fix w x code assume wf: "codes_wf L w"
  show "codes_wf L (snd (server_step L x w))"
  proof (rule step_codes [of L x w])
    fix now rq a assume "ac_code a = lib_urlsafe L (w_draws w)"
      "w_codes (snd (server_step L x w)) = snd (create_code now a (w_codes w))"
      "w_draws (snd (server_step L x w)) = Suc (w_draws w)"
    with wf show ?thesis
      by (auto simp: codes_wf_def create_code_def dhas_def dget_cleanup cleanup_wf drawn_def less_Suc_eq
          split: option.splits)
  qed (use wf in \<open>auto simp: codes_wf_def consumed_def consume_code_wf dest!: dhas_consume intro: drawn_mono\<close>)
  show "code_spent code (w_codes (snd (server_step L x w))) \<and> drawn L (snd (server_step L x w)) code"
    if "code_spent code (w_codes w) \<and> drawn L w code"
  proof (rule step_codes [of L x w])
    fix now rq a assume new: "ac_code a = lib_urlsafe L (w_draws w)"
      "w_codes (snd (server_step L x w)) = snd (create_code now a (w_codes w))"
      "w_draws (snd (server_step L x w)) = Suc (w_draws w)"
    with that inj have "ac_code a \<noteq> code" by (auto simp: drawn_def dest: injD)
    with that new wf show ?thesis
      by (auto simp: codes_wf_def intro: create_spent_stays drawn_mono)
  qed (use that in \<open>auto simp: consumed_def consume_spent_stays intro: drawn_mono\<close>)
  show "\<not> exchanges code x (fst (server_step L x w))" if "code_spent code (w_codes w) \<and> drawn L w code"
    using that spent_code_refused by (auto elim!: exchange_consumes)
  show "code_spent code (w_codes (snd (server_step L x w))) \<and> drawn L (snd (server_step L x w)) code"
    if won: "exchanges code x (fst (server_step L x w))"
    using won
  proof (rule exchange_consumes)
    fix now rq ctx a assume c: "x = SToken now rq" "param_or (rq_form rq) ''code'' [] = code"
      "fst (consume_code now code (gc_client_id ctx) (param_or (rq_form rq) ''redirect_uri'' [])
         (param (rq_form rq) ''code_verifier'') (w_codes w)) = Inr (Some a)"
      "w_codes (snd (server_step L x w)) = w_codes (consumed now rq ctx w)"
    then have "dhas (w_codes w) code" by (auto simp: consume_code_success dhas_def)
    with wf have "drawn L w code" by (simp add: codes_wf_def)
    then have "drawn L (snd (server_step L x w)) code" by (rule drawn_mono [OF _ step_draws])
    moreover have "code_spent code (w_codes (snd (server_step L x w)))"
      using c(2,4) consume_spends [OF c(3)] by (simp add: consumed_def)
    ultimately show ?thesis by simp
  qed
qed

subsection \<open>Device codes\<close>

lemma step_devices:
  obtains (same) "w_devices (snd (server_step L x w)) = w_devices w"
      "w_draws w \<le> w_draws (snd (server_step L x w))"
  | (token) now rq ctx where "x = SToken now rq"
      "w_devices (snd (server_step L x w)) = w_devices (polled now rq ctx w)"
      "w_draws w \<le> w_draws (snd (server_step L x w))"
  | (decide) now rq uc act un pw where "x = SDevice now rq"
      "w_devices (snd (server_step L x w)) =
         snd (verify now uc act un pw (interactive_authenticate L (w_config w)) (w_devices w))"
      "w_draws w \<le> w_draws (snd (server_step L x w))"
  | (issue) now rq uc cid sc res where "x = SDeviceAuthorization now rq"
      "w_devices (snd (server_step L x w)) = snd (device_create now (lib_urlsafe L (w_draws w)) uc cid sc
         device_code_expires_in device_poll_interval res (w_devices w))"
      "Suc (w_draws w) \<le> w_draws (snd (server_step L x w))"
proof (cases x)
  case (SToken now rq)
  obtain w1 where "spends_one now rq w w1"
    "w_devices (snd (server_step L x w)) = w_devices w1"
    "w_draws w \<le> w_draws (snd (server_step L x w))"
    using token_step_effect [of now rq w L thesis] that SToken by auto
  then show thesis using SToken same token
    by (auto simp: spends_one_def claim_refresh_fields consumed_def dest!: same_state_fields)
next
  case (SAuthorize now rq)
  then show thesis using authorize_effect [of w L now rq] same
    by (auto simp: same_but_session_def code_issued_def)
next
  case (SRevoke now rq)
  then show thesis using revoke_endpoint_effect [of w L now rq] same by (auto simp: same_stores_def)
next
  case (SEndSession now rq)
  then show thesis using end_session_effect [of w L now rq] same by (auto simp: same_stores_def)
next
  case (SDeviceAuthorization now rq)
  from device_authorization_effect [of w L now rq] show thesis
    using SDeviceAuthorization same issue by (elim disjE exE) (auto simp: same_stores_def)
next
  case (SDevice now rq)
  from device_verify_effect [of w L now rq] show thesis
    using SDevice same decide by (elim disjE exE) (auto simp: same_stores_def)
qed (use other_steps_same [of x w L] same in \<open>auto simp: same_stores_def\<close>)

definition devices_wf :: "lib \<Rightarrow> world \<Rightarrow> bool" where
  "devices_wf L w \<longleftrightarrow> device_wf (w_devices w) \<and> (\<forall>c. entry (w_devices w) c \<noteq> None \<longrightarrow> drawn L w c)"

fun collects :: "str \<Rightarrow> server_op \<Rightarrow> reply \<Rightarrow> bool" where
  \<comment> \<open>a poll of device code \<open>c\<close> that ends in tokens\<close>
  "collects c (SToken now rq) r \<longleftrightarrow> \<not> refused r
     \<and> param (rq_form rq) ''grant_type'' = Some device_grant_type
     \<and> param_or (rq_form rq) ''device_code'' [] = c"
| "collects c _ r \<longleftrightarrow> False"

lemma collects_iff: "collects c x r \<longleftrightarrow> (\<exists>now rq. x = SToken now rq \<and> \<not> refused r
     \<and> param (rq_form rq) ''grant_type'' = Some device_grant_type
     \<and> param_or (rq_form rq) ''device_code'' [] = c)"
  by (cases x) auto

lemma grant_device_code_Inr:
  assumes "grant_device_code now rq ctx w = (Inr o', w')"
  obtains u g where "w' = polled now rq ctx w"
    "fst (poll now (param_or (rq_form rq) ''device_code'' []) (gc_client_id ctx) (get_user (w_config w))
       (w_devices w)) = (PollAuthorized, Some u, Some g)"
    "go_user o' = u" "scope_tokens (go_scope o') \<subseteq> set (py_split (dg_scope g))"
proof -
  obtain res u g st where p: "poll now (param_or (rq_form rq) ''device_code'' []) (gc_client_id ctx)
      (get_user (w_config w)) (w_devices w) = ((res, u, g), st)"
    by (metis prod.exhaust)
  from assms show thesis unfolding grant_device_code_def Let_def p prod.case
    by (auto simp: outcome_def polled_def p split: if_splits option.splits poll_outcome.splits
        elim!: finish_grant_Inr dest!: grant_scope_validate_only intro!: that)
qed

lemma collect_polls:
  assumes "collects c x (fst (server_step L x w))"
  obtains now rq ctx u g where "x = SToken now rq" "param_or (rq_form rq) ''device_code'' [] = c"
    "fst (poll now c (gc_client_id ctx) (get_user (w_config w)) (w_devices w)) = (PollAuthorized, Some u, Some g)"
    "w_devices (snd (server_step L x w)) = w_devices (polled now rq ctx w)"
    "acts_as (w_config w) rq device_grant_type (gc_client_id ctx)"
proof -
  obtain now rq where x: "x = SToken now rq" and ok: "\<not> refused (fst (token_endpoint L now rq w))"
    and gt: "param (rq_form rq) ''grant_type'' = Some device_grant_type"
    and c: "param_or (rq_form rq) ''device_code'' [] = c"
    using assms by (auto simp: collects_iff)
  obtain ctx mins extra o' w1 where tg: "token_grant L now rq w = (Inr (ctx, mins, extra, o'), w1)"
    and it: "issue_tokens L now rq ctx mins extra o' w1 = (fst (token_endpoint L now rq w), snd (token_endpoint L now rq w))"
    by (rule token_endpoint_ok [OF surjective_pairing ok])
  from tg obtain h where h: "grant_handler L (gc_grant_type ctx) = Some h" "h now rq ctx w = (Inr o', w1)"
    "gc_grant_type ctx = param_or (rq_form rq) ''grant_type'' ''client_credentials''"
    "acts_as (w_config w) rq (gc_grant_type ctx) (gc_client_id ctx)"
    by (rule token_grant_Inr)
  have g: "gc_grant_type ctx = device_grant_type" using h(3) gt by (simp add: param_or_def param_def)
  have "grant_device_code now rq ctx w = (Inr o', w1)"
    using h(1,2) by (simp add: g grant_handler_def device_grant_type_def)
  then obtain u gr where r: "w1 = polled now rq ctx w"
    "fst (poll now c (gc_client_id ctx) (get_user (w_config w)) (w_devices w)) = (PollAuthorized, Some u, Some gr)"
    using c by (auto elim: grant_device_code_Inr)
  have "w_devices (snd (token_endpoint L now rq w)) = w_devices w1"
    using arg_cong [OF it, of snd] issue_tokens_keeps(2) [of L now rq ctx mins extra o' w1] by simp
  then show thesis using x c r h(4) g by (intro that [of now rq ctx]) auto
qed

lemma server_devices_one_time:
  assumes inj: "inj (lib_urlsafe L)"
  shows "one_time (server_step L) (devices_wf L) (\<lambda>c x. True) collects
     (\<lambda>c w. entry (w_devices w) c = None \<and> drawn L w c)"
proof
  fix w x c assume wf: "devices_wf L w"
  then have dwf: "device_wf (w_devices w)" by (simp add: devices_wf_def)
  have stays: "entry (w_devices (snd (server_step L x w))) c' = None
      \<or> (c' = lib_urlsafe L (w_draws w) \<and> drawn L (snd (server_step L x w)) c')"
    if "entry (w_devices w) c' = None" for c'
  proof (rule step_devices [of L x w])
    fix now uc cid sc res
    assume new: "w_devices (snd (server_step L x w)) = snd (device_create now (lib_urlsafe L (w_draws w)) uc cid sc
         device_code_expires_in device_poll_interval res (w_devices w))"
      "Suc (w_draws w) \<le> w_draws (snd (server_step L x w))"
    show ?thesis
    proof (cases "c' = lib_urlsafe L (w_draws w)")
      case True
      with new(2) show ?thesis by (auto simp: drawn_def intro: Suc_le_lessD)
    next
      case False
      with new(1) that show ?thesis
        using entry_create [OF dwf, of "lib_urlsafe L (w_draws w)" c'] entry_prune [OF dwf] by simp
    qed
  next
    fix now uc act un pw
    assume "w_devices (snd (server_step L x w)) =
         snd (verify now uc act un pw (interactive_authenticate L (w_config w)) (w_devices w))"
    then show ?thesis using that entry_verify [of now uc act un pw _ "w_devices w" c'] by auto
  qed (use that in \<open>auto simp: polled_def entry_poll\<close>)
  show "devices_wf L (snd (server_step L x w))"
  proof -
    have "device_wf (w_devices (snd (server_step L x w)))"
      by (rule step_devices [of L x w]) (use dwf in \<open>auto simp: polled_def create_wf poll_wf verify_wf\<close>)
    moreover have "drawn L (snd (server_step L x w)) c'"
      if "entry (w_devices (snd (server_step L x w))) c' \<noteq> None" for c'
    proof (cases "entry (w_devices w) c' = None")
      case False
      then show ?thesis using wf by (intro drawn_mono [OF _ step_draws]) (simp add: devices_wf_def)
    next
      case True
      then show ?thesis using stays [OF True] that by blast
    qed
    ultimately show ?thesis by (simp add: devices_wf_def)
  qed
  show "entry (w_devices (snd (server_step L x w))) c = None \<and> drawn L (snd (server_step L x w)) c"
    if "entry (w_devices w) c = None \<and> drawn L w c"
  proof
    from that inj have "c \<noteq> lib_urlsafe L (w_draws w)" by (auto simp: drawn_def dest: injD)
    with that stays show "entry (w_devices (snd (server_step L x w))) c = None" by blast
    from that show "drawn L (snd (server_step L x w)) c" by (blast intro: drawn_mono step_draws)
  qed
  show "\<not> collects c x (fst (server_step L x w))" if "entry (w_devices w) c = None \<and> drawn L w c"
    using that by (auto elim!: collect_polls simp: poll_authorized)
  show "entry (w_devices (snd (server_step L x w))) c = None \<and> drawn L (snd (server_step L x w)) c"
    if won: "collects c x (fst (server_step L x w))"
    using won
  proof (rule collect_polls)
    fix now rq ctx u g
    assume p: "param_or (rq_form rq) ''device_code'' [] = c"
      "fst (poll now c (gc_client_id ctx) (get_user (w_config w)) (w_devices w)) = (PollAuthorized, Some u, Some g)"
      "w_devices (snd (server_step L x w)) = w_devices (polled now rq ctx w)"
    then have "entry (w_devices w) c \<noteq> None" by (auto simp: poll_authorized)
    then have "drawn L (snd (server_step L x w)) c"
      using wf by (intro drawn_mono [OF _ step_draws]) (simp add: devices_wf_def)
    moreover have "entry (w_devices (snd (server_step L x w))) c = None"
      using p(1,3) p(2) [unfolded poll_authorized] arg_cong [OF p(2), of fst]
      by (auto simp: polled_def entry_poll grant_expired_def)
    ultimately show ?thesis by simp
  qed
qed

subsection \<open>Refresh tokens\<close>

fun op_time :: "server_op \<Rightarrow> time option" where
  "op_time (SToken now rq) = Some now"
| "op_time (SRevoke now rq) = Some now"
| "op_time (SEndSession now rq) = Some now"
| "op_time _ = None"

lemma step_config: "w_config (snd (server_step L x w)) = w_config w"
proof (cases x)
  case (SToken now rq)
  then show ?thesis using token_step_effect [of now rq w L] by auto
next
  case (SAuthorize now rq)
  then show ?thesis using authorize_effect [of w L now rq]
    by (auto simp: same_but_session_def code_issued_def)
next
  case (SRevoke now rq)
  then show ?thesis using revoke_endpoint_effect [of w L now rq] by (auto simp: same_stores_def)
next
  case (SEndSession now rq)
  then show ?thesis using end_session_effect [of w L now rq] by (auto simp: same_stores_def)
next
  case (SDeviceAuthorization now rq)
  from device_authorization_effect [of w L now rq] show ?thesis
    using SDeviceAuthorization by (elim disjE exE) (auto simp: same_stores_def)
next
  case (SDevice now rq)
  from device_verify_effect [of w L now rq] show ?thesis
    using SDevice by (elim disjE exE) (auto simp: same_stores_def)
qed (use other_steps_same [of x w L] in \<open>auto simp: same_stores_def\<close>)

lemma step_revoked:
  obtains (same) "w_revoked (snd (server_step L x w)) = w_revoked w"
  | (claim) now jti fam rot arg where "op_time x = Some now"
      "w_revoked (snd (server_step L x w)) = snd (check_and_claim_refresh now jti fam rot arg (w_revoked w))"
  | (revoked) now jti arg where "op_time x = Some now"
      "w_revoked (snd (server_step L x w)) = revoke now jti arg (w_revoked w)"
proof (cases x)
  case (SToken now rq)
  obtain w1 where "spends_one now rq w w1" "w_revoked (snd (server_step L x w)) = w_revoked w1"
    using token_step_effect [of now rq w L thesis] that SToken by auto
  then show thesis using SToken same claim [of now]
    by (auto simp: spends_one_def claim_refresh_fields consumed_def polled_def dest!: same_state_fields)
next
  case (SAuthorize now rq)
  then show thesis using authorize_effect [of w L now rq] same
    by (auto simp: same_but_session_def code_issued_def)
next
  case (SRevoke now rq)
  then show thesis using revoke_endpoint_effect [of w L now rq] same revoked [of now]
    by (auto simp: same_stores_def)
next
  case (SEndSession now rq)
  then show thesis using end_session_effect [of w L now rq] same revoked [of now]
    by (auto simp: same_stores_def)
next
  case (SDeviceAuthorization now rq)
  from device_authorization_effect [of w L now rq] show thesis
    using SDeviceAuthorization same by (elim disjE exE) (auto simp: same_stores_def)
next
  case (SDevice now rq)
  from device_verify_effect [of w L now rq] show thesis
    using SDevice same by (elim disjE exE) (auto simp: same_stores_def)
qed (use other_steps_same [of x w L] same in \<open>auto simp: same_stores_def\<close>)

text \<open>
  What is relied on of the JWT library: a token verifies to the one payload it carries, and only
  before the \<open>exp\<close> (seconds) of that payload.
\<close>

definition carries :: "lib \<Rightarrow> str \<Rightarrow> claims \<Rightarrow> bool" where
  "carries L t p \<longleftrightarrow> (\<forall>now pub aud p'. lib_jwt_decode L now pub aud t = Inr p' \<longrightarrow> p' = p)"

text \<open>A refresh token with id \<open>j\<close>, bound to \<open>cid\<close>, that expires at second \<open>E\<close>.\<close>

definition refresh_token_of :: "claims \<Rightarrow> str \<Rightarrow> str \<Rightarrow> int \<Rightarrow> bool" where
  "refresh_token_of p j cid E \<longleftrightarrow> claim_str p ''jti'' = Some j \<and> j \<noteq> []
     \<and> claim_str p ''client_id'' = Some cid \<and> dget p ''exp'' = Some (JInt E)"

fun refreshes :: "str \<Rightarrow> server_op \<Rightarrow> reply \<Rightarrow> bool" where
  \<comment> \<open>a presentation of refresh token \<open>t\<close> that ends in tokens\<close>
  "refreshes t (SToken now rq) r \<longleftrightarrow> \<not> refused r
     \<and> param (rq_form rq) ''grant_type'' = Some ''refresh_token''
     \<and> param_or (rq_form rq) ''refresh_token'' [] = t"
| "refreshes t _ r \<longleftrightarrow> False"

lemma refreshes_iff: "refreshes t x r \<longleftrightarrow> (\<exists>now rq. x = SToken now rq \<and> \<not> refused r
     \<and> param (rq_form rq) ''grant_type'' = Some ''refresh_token''
     \<and> param_or (rq_form rq) ''refresh_token'' [] = t)"
  by (cases x) auto

lemma refresh_claims:
  assumes "refreshes t x (fst (server_step L x w))" "carries L t p"
  obtains now rq and ctx :: grant_context where "x = SToken now rq"
    "claim_refresh now p (get_client (w_config w) (gc_client_id ctx)) w =
       (False, snd (claim_refresh now p (get_client (w_config w) (gc_client_id ctx)) w))"
    "w_revoked (snd (server_step L x w)) =
       w_revoked (snd (claim_refresh now p (get_client (w_config w) (gc_client_id ctx)) w))"
    "dget p ''client_id'' = Some (JStr (gc_client_id ctx))"
    "acts_as (w_config w) rq ''refresh_token'' (gc_client_id ctx)"
proof -
  obtain now rq where x: "x = SToken now rq" and ok: "\<not> refused (fst (token_endpoint L now rq w))"
    and gt: "param (rq_form rq) ''grant_type'' = Some ''refresh_token''"
    and t: "param_or (rq_form rq) ''refresh_token'' [] = t"
    using assms by (auto simp: refreshes_iff)
  obtain ctx mins extra o' w1 where tg: "token_grant L now rq w = (Inr (ctx, mins, extra, o'), w1)"
    and it: "issue_tokens L now rq ctx mins extra o' w1 = (fst (token_endpoint L now rq w), snd (token_endpoint L now rq w))"
    by (rule token_endpoint_ok [OF surjective_pairing ok])
  from tg obtain h where h: "grant_handler L (gc_grant_type ctx) = Some h" "h now rq ctx w = (Inr o', w1)"
    "gc_grant_type ctx = param_or (rq_form rq) ''grant_type'' ''client_credentials''"
    "acts_as (w_config w) rq (gc_grant_type ctx) (gc_client_id ctx)"
    by (rule token_grant_Inr)
  have g: "gc_grant_type ctx = ''refresh_token''" using h(3) gt by (simp add: param_or_def param_def)
  have "grant_refresh_token L now rq ctx w = (Inr o', w1)" using h(1,2) by (simp add: g grant_handler_def)
  then obtain payload user where p: "refresh_payload_of L now rq ctx w = (Inr (payload, user), w)"
    and c: "claim_refresh now payload (get_client (w_config w) (gc_client_id ctx)) w = (False, w1)"
    by (rule grant_refresh_token_Inr) auto
  have "payload = p"
    using refresh_payload_of_Inr(2) [OF p] assms(2) t
    by (auto simp: verify_jwt_def carries_def split: sum.splits jwt_error.splits)
  moreover have "w_revoked (snd (token_endpoint L now rq w)) = w_revoked w1"
    using arg_cong [OF it, of snd] issue_tokens_keeps(3) [of L now rq ctx mins extra o' w1] by simp
  ultimately show thesis using x c refresh_payload_of_Inr(4) [OF p] h(4) g
    by (intro that [of now rq ctx]) auto
qed

lemma claim_keeps_spent:
  assumes "rv_wf st" "now < E" "token_spent (j, E) st"
  shows "token_spent (j, E) (snd (check_and_claim_refresh now jti fam rot arg st))"
  using assms sweep_keeps_token [of st now E j] claim_spent_token [of st now E j fam rot arg]
  by (cases jti) (auto simp: claim_token_entry)

lemma revoke_keeps_spent:
  assumes "rv_wf st" "now < E" "token_spent (j, E) st"
  shows "token_spent (j, E) (revoke now jti arg st)"
  using assms sweep_keeps_token [of st now E j] by (auto simp: revoke_token_entry le_max_iff_disj)

lemma server_refresh_one_time:
  assumes t: "carries L t p" "refresh_token_of p j cid E"
  shows "one_time (server_step L)
     (\<lambda>w. rv_wf (w_revoked w) \<and> rotates_for (w_settings w) (get_client (w_config w) cid))
     (\<lambda>_ x. \<forall>now. op_time x = Some now \<longrightarrow> now < secs E) (\<lambda>_. refreshes t)
     (\<lambda>_ w. token_spent (j, secs E) (w_revoked w))"
proof
  fix w x k
  assume wf: "rv_wf (w_revoked w) \<and> rotates_for (w_settings w) (get_client (w_config w) cid)"
  show "rv_wf (w_revoked (snd (server_step L x w)))
     \<and> rotates_for (w_settings (snd (server_step L x w))) (get_client (w_config (snd (server_step L x w))) cid)"
    by (rule step_revoked [of L x w]) (use wf in \<open>auto simp: step_config claim_wf revoke_wf\<close>)
  assume time: "\<forall>now. op_time x = Some now \<longrightarrow> now < secs E"
  show "token_spent (j, secs E) (w_revoked (snd (server_step L x w)))"
    if "token_spent (j, secs E) (w_revoked w)"
    by (rule step_revoked [of L x w])
       (use wf time that in \<open>auto simp del: token_spent.simps intro: claim_keeps_spent revoke_keeps_spent\<close>)
  show "\<not> refreshes t x (fst (server_step L x w))" if s: "token_spent (j, secs E) (w_revoked w)"
  proof
    assume "refreshes t x (fst (server_step L x w))"
    then show False using t(1)
    proof (rule refresh_claims)
      fix now rq ctx client
      assume "x = SToken now rq"
        "claim_refresh now p (get_client (w_config w) (gc_client_id ctx)) w =
           (False, snd (claim_refresh now p (get_client (w_config w) (gc_client_id ctx)) w))"
      then show False using s wf time t(2) claim_spent_token [of "w_revoked w" now "secs E" j]
        by (auto simp: refresh_token_of_def claim_refresh_def case_prod_beta Let_def)
    qed
  qed
  show "token_spent (j, secs E) (w_revoked (snd (server_step L x w)))"
    if won: "refreshes t x (fst (server_step L x w))"
    using won t(1)
  proof (rule refresh_claims)
    fix now rq ctx
    assume a: "x = SToken now rq" "dget p ''client_id'' = Some (JStr (gc_client_id ctx))"
      "claim_refresh now p (get_client (w_config w) (gc_client_id ctx)) w =
         (False, snd (claim_refresh now p (get_client (w_config w) (gc_client_id ctx)) w))"
      "w_revoked (snd (server_step L x w)) =
         w_revoked (snd (claim_refresh now p (get_client (w_config w) (gc_client_id ctx)) w))"
    have cid: "gc_client_id ctx = cid" using a(2) t(2) by (simp add: refresh_token_of_def claim_str_def)
    have "At (secs E) \<le> effective_expiry now (ExpVal (JInt E))"
      by (rule effective_expiry_honours) simp
    then show ?thesis using a wf t(2) unfolding cid a(4)
      by (simp add: claim_refresh_fields claim_token_entry claim_refresh_def case_prod_beta Let_def
          refresh_token_of_def payload_exp_def)
  qed
qed

subsection \<open>Revoked tokens\<close>

lemma token_spent_step:
  assumes "rv_wf (w_revoked w)" "token_spent (j, E) (w_revoked w)"
    and "\<forall>now. op_time x = Some now \<longrightarrow> now < E"
  shows "token_spent (j, E) (w_revoked (snd (server_step L x w)))"
  by (rule step_revoked [of L x w])
     (use assms in \<open>auto simp del: token_spent.simps intro: claim_keeps_spent revoke_keeps_spent\<close>)

lemma step_rv_wf: "rv_wf (w_revoked w) \<Longrightarrow> rv_wf (w_revoked (snd (server_step L x w)))"
  by (rule step_revoked [of L x w]) (auto simp: claim_wf revoke_wf)

lemma token_spent_run:
  assumes "rv_wf (w_revoked w)" "token_spent (j, E) (w_revoked w)"
    and "\<forall>x \<in> set xs. \<forall>now. op_time x = Some now \<longrightarrow> now < E"
  shows "token_spent (j, E) (w_revoked (run (server_step L) xs w))"
  using assms
proof (induction xs arbitrary: w)
  case (Cons x xs)
  then have "token_spent (j, E) (w_revoked (snd (server_step L x w)))" by (intro token_spent_step) auto
  with Cons step_rv_wf show ?case by simp
qed simp

lemma spent_is_revoked: "token_spent (j, E) st \<Longrightarrow> is_revoked (Some j) st"
  by (auto simp: is_revoked_def token_entry_def dhas_def)

definition revokes :: "lib \<Rightarrow> time \<Rightarrow> request \<Rightarrow> world \<Rightarrow> claims \<Rightarrow> bool" where
  \<comment> \<open>a request to \<open>/revoke\<close> that the endpoint acts on, for a token with these claims\<close>
  "revokes L now rq w p \<longleftrightarrow> revoke_auth_error (w_config w) (request_client_identity rq) = None
     \<and> opt_true (param (rq_form rq) ''token'')
     \<and> verify_jwt L now (w_crypto w) (the (param (rq_form rq) ''token'')) None = Inr p
     \<and> opt_true (claim_str p ''jti'')
     \<and> (names_public_opt (w_config w) (ci_client_id (request_client_identity rq)) \<longrightarrow>
          jget p ''client_id'' = map_option JStr (ci_client_id (request_client_identity rq)))"

lemma revokes_spends:
  assumes "revokes L now rq w p" "claim_str p ''jti'' = Some j" "dget p ''exp'' = Some (JInt E)"
  shows "token_spent (j, secs E) (w_revoked (snd (revoke_endpoint L now rq w)))"
proof -
  have w: "w_revoked (snd (revoke_endpoint L now rq w)) = revoke now j (payload_exp p) (w_revoked w)"
    using assms by (auto simp: revokes_def revoke_endpoint_def Let_def)
  have "At (secs E) \<le> effective_expiry now (ExpVal (JInt E))" by (rule effective_expiry_honours) simp
  then show ?thesis using assms(3) unfolding w
    by (simp add: revoke_token_entry payload_exp_def le_max_iff_disj)
qed

lemma revoked_userinfo:
  assumes "is_revoked (claim_str p ''jti'') (w_revoked w)" "carries L t p" "extract_bearer_token rq = Some t"
  shows "refused (fst (userinfo L now rq w))"
  using assms by (auto simp: userinfo_def Let_def verify_jwt_def carries_def split: sum.split jwt_error.split)

lemma revoked_introspect:
  assumes "is_revoked (claim_str p ''jti'') (w_revoked w)" "carries L t p" "param (rq_form rq) ''token'' = Some t"
  shows "fst (introspect L now rq w) \<in>
    {json_reply 401 [(''error'', JStr ''invalid_client'')], json_reply 200 [(''active'', JBool False)]}"
  using assms by (auto simp: introspect_def Let_def verify_jwt_def carries_def split: option.split sum.split jwt_error.split)

subsection \<open>The state of the server\<close>

lemma step_within_cap: "within_cap (w_devices w) \<Longrightarrow> within_cap (w_devices (snd (server_step L x w)))"
  by (rule step_devices [of L x w])
     (auto simp: polled_def create_within_cap poll_within_cap verify_within_cap)

definition server_ok :: "lib \<Rightarrow> world \<Rightarrow> bool" where
  \<comment> \<open>every code in the stores was drawn, the stores are dictionaries, the device store is within its cap\<close>
  "server_ok L w \<longleftrightarrow> codes_wf L w \<and> devices_wf L w \<and> within_cap (w_devices w) \<and> rv_wf (w_revoked w)"

lemma step_server_ok:
  assumes "inj (lib_urlsafe L)" "server_ok L w"
  shows "server_ok L (snd (server_step L x w))"
  using assms one_time.axioms(1) [OF server_codes_one_time [OF assms(1)]]
    one_time.axioms(1) [OF server_devices_one_time [OF assms(1)]]
  by (simp add: server_ok_def step_within_cap step_rv_wf blocking.wf_step)

end
