(* ===== verification/Sample_Server.thy ===== *)
theory Sample_Server
  imports Server_Runs
begin

text \<open>
  A concrete server on which the properties are exercised: a configuration with a confidential
  and a public client and one user, stand-ins for the third-party functions, an empty world and
  the requests the witnesses send.
\<close>

definition sample_user :: user where
  "sample_user = \<lparr>u_username = ''alice'', u_password = Some ''pw'', u_description = [],
     u_email = ''alice@example.com'', u_identity_class = None, u_entitlements = [], u_roles = [''user''],
     u_groups = [], u_tenant = ''default'', u_source_acl = [], u_attributes = []\<rparr>"

definition sample_client :: oauth_client where
  "sample_client = \<lparr>cl_client_id = ''web'', cl_client_secret = Some ''s3cret'',
     cl_auth_method = ClientSecretBasic, cl_description = [], cl_background_color = None, cl_header_color = None,
     cl_footer_color = None, cl_show_client_id = True, cl_show_description = False,
     cl_additional_audiences = [],
     cl_redirect_uris = [''http://127.0.0.1/cb''], cl_allowed_scopes = [''profile'', ''email''],
     cl_allowed_resources = [''https://api.example.com''],
     cl_layout = ''vertical''\<rparr>"

definition sample_app :: oauth_client where
  "sample_app = \<lparr>cl_client_id = ''app'', cl_client_secret = None, cl_auth_method = AuthNone,
     cl_description = [], cl_background_color = None, cl_header_color = None,
     cl_footer_color = None, cl_show_client_id = True, cl_show_description = False,
     cl_additional_audiences = [''other'', ''default''],
     cl_redirect_uris = [''http://127.0.0.1/cb''], cl_allowed_scopes = [], cl_allowed_resources = [],
     cl_layout = ''vertical''\<rparr>"

definition sample_settings :: settings where
  "sample_settings = \<lparr>s_host = ''127.0.0.1'', s_port = 8000, s_debug = False,
     s_issuer = ''http://idp'', s_issuer_from_request = False, s_issuer_allowlist = [],
     s_device_verification_base_url = None, s_issuer_from_proxy_headers = False,
     s_audience = ''default'', s_token_expiry_minutes = 60, s_refresh_token_rotation = True,
     s_clients = [sample_client, sample_app],
     s_scopes_supported = default_scopes_supported, s_scope_enforcement = True, s_logos_dir = None,
     s_saml_entity_id = None, s_saml_sso_url = None, s_default_acs_url = ''http://sp/acs'',
     s_saml_sign_responses = True, s_saml_export_roles = False, s_saml_export_groups = False,
     s_saml_roles_attr_name = ''roles'', s_saml_groups_attr_name = ''groups'',
     s_saml_c14n_algorithm = ''exc_c14n'', s_saml_want_authn_requests_signed = False,
     s_saml_sp_certificates = [], s_strict_saml_binding = False, s_jwt_algorithm = ''RS256'',
     s_keys_dir = ''./keys'', s_authority_prefixes = [], s_allowed_identity_classes = [],
     s_secret_key = ''key'', s_require_ui_login = False, s_enforce_password_check = False,
     s_management_secret = Some ''hush'', s_log_level = ''INFO'', s_log_token_requests = True,
     s_log_saml_requests = True, s_verbose_logging = False, s_login_mode = ''password'',
     s_auto_login = False, s_two_step = False, s_security_profile = ''stricter-dev'',
     s_cors_allowed_origins = [''*''], s_rate_limit_enabled = False,
     s_rate_limit_token_endpoint = ''10/minute'', s_password_hashing = False, s_require_pkce = False,
     s_external_private_key = None, s_external_public_key = None, s_external_key_id = None,
     s_max_previous_keys = 2\<rparr>"

definition sample_config :: config where
  "sample_config = \<lparr>c_users = [(''alice'', sample_user)], c_default_user = ''alice'',
     c_settings = sample_settings\<rparr>"

definition sample_payload :: claims where
  \<comment> \<open>a refresh token of the public client, valid until second 1000\<close>
  "sample_payload = [(''token_type'', JStr ''refresh''), (''token_use'', JStr ''refresh''),
     (''client_id'', JStr ''app''), (''sub'', JStr ''alice''), (''jti'', JStr ''j1''),
     (''rt_family'', JStr ''f1''), (''scope'', JStr ''profile email''), (''exp'', JInt 1000),
     (''resource'', jstrs [''https://api.example.com''])]"

definition sample_access :: claims where
  \<comment> \<open>an access token of the same client\<close>
  "sample_access = [(''jti'', JStr ''j2''), (''sub'', JStr ''alice''), (''client_id'', JStr ''app''),
     (''token_use'', JStr ''access''), (''scope'', JStr ''profile''), (''exp'', JInt 1000)]"

definition sample_lib :: lib where
  \<comment> \<open>tokens are the names \<open>rt\<close> and \<open>at\<close>, generators count in unary\<close>
  "sample_lib = \<lparr>lib_checkpw = (\<lambda>pw h. None), lib_jwt_encode = (\<lambda>priv kid p. ''jwt''),
     lib_jwt_decode = (\<lambda>now pub aud t.
       if secs 1000 \<le> now then Inl JwtExpired
       else if t = ''rt'' then Inr sample_payload
       else if t = ''at'' then Inr sample_access
       else Inl (JwtInvalid ''bad'')),
     lib_jwt_peek = (\<lambda>t. None), lib_json_loads = (\<lambda>s. None),
     lib_new_key = (\<lambda>n. (''priv'', ''pub'' @ replicate n CHR ''k'')),
     lib_urlsafe = (\<lambda>n. replicate n CHR ''c''), lib_uuid = (\<lambda>n. replicate n CHR ''u''),
     lib_user_code = (\<lambda>n. replicate n CHR ''D'')\<rparr>"

definition sample_crypto :: crypto where
  "sample_crypto = \<lparr>cr_priv_pem = ''priv'', cr_pub_pem = ''pub'', cr_kid = ''kid'',
     cr_previous_keys = [], cr_max_previous_keys = 2,
     cr_files = \<lparr>kf_active = Some (''priv'', ''pub'', ''kid''), kf_previous = [], kf_metadata = None\<rparr>\<rparr>"

definition sample_world :: world where
  "sample_world = \<lparr>w_config = sample_config, w_codes = [], w_devices = empty_device_store,
     w_revoked = empty_revocation_store, w_audit = new_audit_log 3, w_crypto = sample_crypto,
     w_session = [], w_draws = 1\<rparr>"

definition sample_request :: "str \<Rightarrow> (str \<times> str) list \<Rightarrow> (str \<times> str) list \<Rightarrow> request" where
  "sample_request method args form = \<lparr>rq_method = method, rq_args = args, rq_form = form,
     rq_authorization = [], rq_auth = None, rq_remote_addr = None, rq_user_agent = None,
     rq_host_url = ''http://idp/'', rq_management_secret = None, rq_endpoint = []\<rparr>"

definition basic_request :: "(str \<times> str) list \<Rightarrow> request" where
  \<comment> \<open>a form post authenticated as the confidential client\<close>
  "basic_request form = (sample_request ''POST'' [] form)\<lparr>
     rq_authorization := ''Basic x'', rq_auth := Some (Some ''web'', Some ''s3cret'')\<rparr>"

definition bearer_request :: request where
  "bearer_request = (sample_request ''GET'' [] [])\<lparr>rq_authorization := ''Bearer at''\<rparr>"

text \<open>The browser of the user asks for a code, and logs in.\<close>

definition sample_authorize :: request where
  "sample_authorize = sample_request ''POST''
     [(''response_type'', ''code''), (''client_id'', ''web''), (''redirect_uri'', ''http://127.0.0.1/cb''),
      (''scope'', ''profile'')]
     [(''username'', ''alice''), (''password'', ''pw'')]"

definition sample_exchange :: request where
  "sample_exchange = basic_request [(''grant_type'', ''authorization_code''), (''code'', ''c''),
     (''redirect_uri'', ''http://127.0.0.1/cb'')]"

definition sample_refresh :: request where
  "sample_refresh = sample_request ''POST'' []
     [(''grant_type'', ''refresh_token''), (''client_id'', ''app''), (''refresh_token'', ''rt'')]"

lemma sample_urlsafe_inj: "inj (lib_urlsafe sample_lib)"
  by (auto simp: sample_lib_def inj_def dest: arg_cong [where f = length])

lemma sample_codes_wf: "codes_wf L sample_world"
  by (simp add: codes_wf_def sample_world_def dict_wf_def dhas_def)

lemma sample_devices_wf: "devices_wf L sample_world"
  by (simp add: devices_wf_def sample_world_def empty_device_store_def dict_wf_def entry_def)

lemma sample_carries: "carries sample_lib ''rt'' sample_payload" "carries sample_lib ''at'' sample_access"
  by (auto simp: carries_def sample_lib_def)

text \<open>Minting for the public client.\<close>

definition sample_minting :: token_args where
  "sample_minting = \<lparr>ta_user = sample_user, ta_exp_minutes = None, ta_extra_claims = [], ta_nonce = None,
     ta_scope = Some ''openid profile'', ta_client_id = Some ''app'', ta_auth_time = Some (JInt 3),
     ta_refresh_family = None, ta_id_token_claims = Some (jstrs [''email'']), ta_userinfo_claims = None,
     ta_issuer = None, ta_issue_refresh_token = None, ta_resource = None,
     ta_refresh_resource = Some [''https://api.example.com'']\<rparr>"

definition sample_verifier :: "claims \<Rightarrow> lib" where
  \<comment> \<open>every token carries this payload\<close>
  "sample_verifier p = sample_lib\<lparr>lib_jwt_decode := \<lambda>now pub aud t. Inr p\<rparr>"

text \<open>Runs of requests: a code exchanged twice, a refresh token presented twice, a device polled twice.\<close>

definition sample_exchange_run :: "server_op list" where
  "sample_exchange_run = [SAuthorize 5 sample_authorize, SToken 6 sample_exchange, SToken 7 sample_exchange]"

definition sample_refresh_run :: "server_op list" where
  "sample_refresh_run = [SToken 6 sample_refresh, SToken 7 sample_refresh]"

definition sample_device_poll :: request where
  "sample_device_poll = basic_request [(''grant_type'', device_grant_type), (''device_code'', ''c'')]"

definition sample_device_run :: "server_op list" where
  "sample_device_run =
     [SDeviceAuthorization 5 (basic_request [(''scope'', ''profile'')]),
      SDevice 6 (sample_request ''POST'' []
        [(''user_code'', ''DD''), (''username'', ''alice''), (''password'', ''pw'')]),
      SToken 7 sample_device_poll, SToken 8 sample_device_poll]"

definition sample_coded :: world where
  \<comment> \<open>the server after the user has logged in\<close>
  "sample_coded = snd (server_step sample_lib (SAuthorize 5 sample_authorize) sample_world)"

lemma sample_refresh_token: "refresh_token_of sample_payload ''j1'' ''app'' 1000"
  by code_simp

lemma sample_rv_wf: "rv_wf (w_revoked sample_world)"
  by code_simp

lemma sample_rotates: "rotates_for (w_settings sample_world) (get_client (w_config sample_world) ''app'')"
  by code_simp

lemma sample_refresh_times: "\<forall>x \<in> set sample_refresh_run. \<forall>now. op_time x = Some now \<longrightarrow> now < secs 1000"
  by (simp add: sample_refresh_run_def secs_def)

lemma sample_refresh_served: "\<not> refused (fst (token_endpoint sample_lib 6 sample_refresh sample_world))"
  by code_simp

lemma sample_refresh_granted: "\<not> isl (fst (grant_refresh_token sample_lib 6 sample_refresh
    \<lparr>gc_client_id = ''app'', gc_grant_type = ''refresh_token''\<rparr> sample_world))"
  by code_simp

lemma sample_server_ok: "server_ok L sample_world"
  by (simp add: server_ok_def sample_codes_wf sample_devices_wf sample_rv_wf)
     (simp add: within_cap_def sample_world_def empty_device_store_def)

text \<open>The requests and states the remaining properties are exercised on.\<close>

definition sample_app_context :: grant_context where
  "sample_app_context = \<lparr>gc_client_id = ''app'', gc_grant_type = ''refresh_token''\<rparr>"

definition sample_web_context :: grant_context where
  "sample_web_context = \<lparr>gc_client_id = ''web'', gc_grant_type = ''authorization_code''\<rparr>"

definition sample_wrong_target :: request where
  \<comment> \<open>a refresh that asks for a resource of another grant\<close>
  "sample_wrong_target = sample_request ''POST'' []
     [(''grant_type'', ''refresh_token''), (''client_id'', ''app''), (''refresh_token'', ''rt''),
      (''resource'', ''https://other'')]"

definition sample_code :: authorization_code where
  "sample_code = new_code 5 ''c'' ''web'' ''http://127.0.0.1/cb'' ''alice'' ''profile''
     (Some ''x'') (Some ''S256'') None None None None"

definition sample_challenged :: world where
  "sample_challenged = sample_world\<lparr>w_codes := [(''c'', sample_code)]\<rparr>"

definition sample_accented :: request where
  "sample_accented = basic_request [(''code'', ''c''), (''redirect_uri'', ''http://127.0.0.1/cb''),
     (''code_verifier'', [CHR 0xE9])]"

definition sample_service_minting :: token_args where
  "sample_service_minting = sample_minting\<lparr>ta_scope := None\<rparr>"

definition sample_revocation :: request where
  \<comment> \<open>the confidential client names the access token\<close>
  "sample_revocation = basic_request [(''token'', ''at'')]"

definition sample_oauth21 :: world where
  "sample_oauth21 = sample_world\<lparr>w_config := sample_config\<lparr>c_settings :=
     sample_settings\<lparr>s_security_profile := ''oauth21''\<rparr>\<rparr>\<rparr>"

definition sample_unlock :: request where
  "sample_unlock = sample_request ''POST'' [] [(''management_secret'', ''hush'')]"

lemma sample_minted: "\<not> isl (create_token sample_lib 5 sample_config sample_crypto 0 sample_service_minting)"
  by code_simp

lemma sample_revokes: "revokes sample_lib 5 sample_revocation sample_world sample_access"
  by code_simp

lemma sample_revocation_acts:
  "w_revoked (snd (revoke_endpoint sample_lib 5 sample_revocation sample_world)) \<noteq> w_revoked sample_world"
  by code_simp

lemma sample_bearer: "extract_bearer_token bearer_request = Some ''at''"
  by code_simp

lemma sample_userinfo_served: "\<not> refused (fst (userinfo sample_lib 6 bearer_request sample_world))"
  by code_simp

lemma sample_introspected: "fst (introspect sample_lib 6 sample_revocation sample_world) =
    json_reply 200 (introspection_response sample_access (Some ''web''))"
  by code_simp

lemma sample_introspected_active:
  "dget (introspection_response sample_access (Some ''web'')) ''active'' = Some (JBool True)"
  by code_simp

lemma sample_authorize_sends: "\<exists>url. sends_to (fst (authorize sample_lib 5 sample_authorize sample_world)) url"
proof -
  have "case fst (authorize sample_lib 5 sample_authorize sample_world) of
      Inl e \<Rightarrow> False | Inr x \<Rightarrow> dhas (rs_headers x) ''Location''"
    by code_simp
  then show ?thesis by (auto simp: sends_to_def dhas_def split: sum.splits)
qed

lemma sample_ring_stored: "ring_stored sample_crypto"
  by code_simp

lemma sample_fresh_kid: "lib_uuid sample_lib 1 \<notin> set (map fst (jwks_keys sample_crypto))"
  by code_simp

lemma sample_oauth21_profile: "s_security_profile (w_settings sample_oauth21) = ''oauth21''"
  by code_simp

lemma sample_locked: "\<not> unlocked_in_session sample_world"
  by code_simp

end
