(* ===== verification/Sample_Config.thy ===== *)
theory Sample_Config
  imports Settings_Reload Sample_Server
begin

text \<open>
  A concrete \<open>settings.yaml\<close> and \<open>users.yaml\<close> on which the properties of the configuration are
  exercised, with a stand-in for pydantic's reading of numbers and booleans.
\<close>

lemma pred_option_code [code]: "pred_option P None = True" "pred_option P (Some x) = P x"
  by simp_all

definition sample_int :: "json \<Rightarrow> int option" where
  "sample_int v = (case v of JInt i \<Rightarrow> Some i | JStr s \<Rightarrow> py_int s | _ \<Rightarrow> None)"

definition sample_bool :: "json \<Rightarrow> bool option" where
  "sample_bool v = (case v of
     JBool b \<Rightarrow> Some b
   | JInt i \<Rightarrow> if i = 0 then Some False else if i = 1 then Some True else None
   | JStr s \<Rightarrow> if py_strip s \<noteq> s then None else if py_lower s \<in> set [''true'', ''1'', ''yes'', ''on'', ''t'', ''y''] then Some True
       else if py_lower s \<in> set [''false'', ''0'', ''no'', ''off'', ''f'', ''n''] then Some False else None
   | _ \<Rightarrow> None)"

definition sample_pydantic :: pydantic where
  "sample_pydantic = \<lparr>pd_int = sample_int, pd_bool = sample_bool,
     pd_float = (\<lambda>v. case v of JInt i \<Rightarrow> Some (i, 0) | JDec m e \<Rightarrow> Some (m, e) | _ \<Rightarrow> None), pd_rate = (\<lambda>s. s \<noteq> [])\<rparr>"

definition sample_env :: env where
  "sample_env = (\<lambda>k. if k = ''PORT'' then Some ''9000'' else None)"

definition sample_yaml :: doc where
  \<comment> \<open>a placeholder for the port, a client, a key nobody knows\<close>
  "sample_yaml =
     [(''server'', JObj [(''host'', JStr ''0.0.0.0''), (''port'', JStr ''${PORT:8000}''), (''debug'', JBool True)]),
      (''oauth'', JObj [(''issuer'', JStr ''http://idp''),
         (''clients'', JList [JObj [(''client_id'', JStr ''web''), (''client_secret'', JStr ''${WEB_SECRET:s3cret}''),
            (''redirect_uris'', JList [JStr ''http://127.0.0.1/cb''])]])]),
      (''logging'', JObj [(''level'', JStr ''debug''), (''colour'', JStr ''red'')]),
      (''login'', JNull)]"

lemma sample_pydantic_reads: "pydantic_ints sample_pydantic \<and> pydantic_bools sample_pydantic"
  by (auto simp: pydantic_ints_def pydantic_bools_def sample_pydantic_def sample_int_def sample_bool_def int_word_def
      bool_word_def writer_true_def split: json.splits if_splits)

definition sample_saved :: doc where
  "sample_saved = the (apply_settings_document sample_env sample_yaml sample_settings fallback_defaults)"

lemma sample_saves:
  "apply_settings_document sample_env sample_yaml sample_settings fallback_defaults = Some sample_saved"
  unfolding sample_saved_def by code_simp

lemma sample_settings_savable: "savable_settings sample_pydantic sample_settings"
  by code_simp

lemma sample_saved_from: "saved_from sample_pydantic sample_env sample_yaml sample_settings sample_saved"
proof -
  have "json_wf (JObj sample_yaml)" "settings_errors sample_pydantic (expand_fields sample_env sample_yaml) = []"
    "bools_clear (expand_fields sample_env sample_yaml)"
    by code_simp+
  then show ?thesis
    using sample_saves sample_settings_savable sample_pydantic_reads by (simp add: saved_from_def del: json_wf.simps)
qed

lemma sample_yaml_loads: "\<exists>s0. load_settings sample_pydantic sample_env False sample_yaml = Inr s0"
proof -
  have "(case load_settings sample_pydantic sample_env False sample_yaml of Inl _ \<Rightarrow> False | Inr _ \<Rightarrow> True)"
    by code_simp
  then show ?thesis by (auto split: sum.splits)
qed

end
