(* ===== verification/Config_Properties.thy ===== *)
theory Config_Properties
  imports Sample_Config
begin

text \<open>
  What the configuration files promise: a save and a load agree, a save leaves alone what it does
  not own, unknown keys never change what is loaded, and loaded settings are valid.
\<close>

subsection \<open>Saving and loading the settings\<close>

text \<open>
  C15. Valid settings without placeholders that are saved over a loadable \<open>settings.yaml\<close> are the
  settings the server has after its next start: every setting the save writes is read back as it was
  (the clients in full), and every other setting is the one the file had before the save. The
  hypotheses on pydantic are its documented readings of numbers and booleans.
\<close>

theorem saved_settings_load_back:
  assumes "saved_from V env d s d'" "load_settings V env False d = Inr s0"
  shows "\<exists>s1. load_settings V env False d' = Inr s1 \<and> settings_alike s1 (with_unsaved s0 s) \<and> s_clients s1 = s_clients s"
proof -
  obtain s1 where s1: "load_settings V env False d' = Inr s1" "settings_alike s1 (with_unsaved s0 s)"
    using saved_settings_reload [OF assms] by blast
  from s1(2) have "s_clients (blank_free s1) = s_clients (blank_free ((with_unsaved s0 s)\<lparr>s_authority_prefixes := s_authority_prefixes s1\<rparr>))"
    by (simp only: settings_alike_def)
  then have "s_clients s1 = s_clients s" by (simp add: blank_free_def with_unsaved_def)
  with s1 show ?thesis by blast
qed

theorem saved_settings_load_back_witness:
  "\<exists>s0 s1. load_settings sample_pydantic sample_env False sample_saved = Inr s1
    \<and> settings_alike s1 (with_unsaved s0 sample_settings) \<and> s_clients s1 = s_clients sample_settings"
  using sample_yaml_loads saved_settings_load_back [OF sample_saved_from] by blast

text \<open>
  Saving the same settings a second time changes nothing, byte for byte of the loaded document:
  placeholders and formatting that survived the first save survive every later one.
\<close>

theorem saving_again_changes_nothing:
  assumes "apply_settings_document env d s fallback_defaults = Some d'" "plain_settings s" "json_wf (JObj d)"
  shows "apply_settings_document env d' s fallback_defaults = Some d'"
  by (rule document_settled_kept [OF saved_document_settled [OF assms]])

theorem saving_again_changes_nothing_witness:
  "apply_settings_document sample_env sample_saved sample_settings fallback_defaults = Some sample_saved"
proof (rule saving_again_changes_nothing [OF sample_saves])
  show "plain_settings sample_settings" by code_simp
  show "json_wf (JObj sample_yaml)" by code_simp
qed

definition kept_or :: "env \<Rightarrow> json option \<Rightarrow> json \<Rightarrow> json \<Rightarrow> json option \<Rightarrow> json option" where
  \<comment> \<open>the raw text where it (or, when it is missing, the default) still means the value, else what is written\<close>
  "kept_or env raw dflt value new = (if is_unchanged env (raw_or dflt raw) value then raw else new)"

fun written_row :: "env \<Rightarrow> doc_mode \<Rightarrow> json \<Rightarrow> json option \<Rightarrow> json option" where
  "written_row env Plain v raw = kept_or env raw JNull v (Some v)"
| "written_row env (OmitWhenFalsy absent) v raw =
     (if json_true v then kept_or env raw JNull v (Some v) else kept_or env raw JNull absent None)"
| "written_row env OmitWhenNone v raw = (if v = JNull then None else kept_or env raw JNull v (Some v))"

definition written_optional :: "env \<Rightarrow> json \<Rightarrow> json \<Rightarrow> json option \<Rightarrow> json option" where
  "written_optional env v dflt raw = kept_or env raw dflt v (if json_eq v dflt then None else Some v)"

definition client_as_written :: "env \<Rightarrow> json \<Rightarrow> oauth_client \<Rightarrow> doc \<Rightarrow> bool" where
  \<comment> \<open>an entry as a save leaves it, given the raw list of clients\<close>
  "client_as_written env raws c e \<longleftrightarrow>
     (case find (\<lambda>r. client_id_matches env (JObj r) (cl_client_id c)) (raw_client_entries raws) of
        None \<Rightarrow> e = client_to_yaml c
      | Some r \<Rightarrow>
          (\<forall>(k, v, keep) \<in> set (client_fields c). dget e k = kept_or env (dget r k) JNull v (if keep then Some v else None))
          \<and> (\<forall>k. k \<notin> fst ` set (client_fields c) \<longrightarrow> dget e k = dget r k))"

lemma merged_client_written: "client_as_written env raws c (entry_of env raws c)"
proof (cases "find (\<lambda>r. client_id_matches env (JObj r) (cl_client_id c)) (raw_client_entries raws)")
  case None
  then show ?thesis by (simp add: client_as_written_def entry_of_def)
next
  case (Some r)
  have "dval r k = raw_or JNull (dget r k)" for k by (simp add: dval_def raw_or_def)
  then show ?thesis using Some
    by (auto simp: client_as_written_def entry_of_def kept_or_def merge_client_entry_get merge_client_entry_other)
qed

lemma row_value_written: "row_value env s row raw = written_row env (os_mode row) (os_attr row s) raw"
  by (cases "os_mode row") (simp_all add: row_value_def Let_def kept_or_def raw_or_def)

text \<open>
  C16. A save touches only what it owns, and keeps the raw text of every value that still means what is
  saved. Whatever else stands in \<open>settings.yaml\<close>, known to the program or not, is found there
  afterwards. Each owned key, those written only when they are not empty or not null included, the
  security profile and the three login settings hold their raw text where that (or, for the last four,
  the default of a missing key) means the saved value, and otherwise the value, or nothing where the
  value is one that is left out. The list of clients is kept when the merged one equals it; each entry
  of the merged list keeps, field by field, the raw text of what is unchanged, and the keys it does not
  know.
\<close>

theorem a_save_touches_only_what_it_owns:
  assumes "apply_settings_document env d s defaults = Some d'"
  shows "(unowned p \<longrightarrow> read_key d' p = read_key d p)
    \<and> (\<forall>row \<in> set owned_settings.
        read_key d' (place row) = written_row env (os_mode row) (os_attr row s) (read_key d (place row)))
    \<and> read_key d' ([], ''security_profile'') = written_optional env (JStr (s_security_profile s))
        (dval defaults ''security_profile'') (read_key d ([], ''security_profile''))
    \<and> read_key d' (''login'', ''mode'') = written_optional env (JStr (s_login_mode s))
        (dval defaults ''login.mode'') (read_key d (''login'', ''mode''))
    \<and> read_key d' (''login'', ''auto_login'') = written_optional env (JBool (s_auto_login s))
        (dval defaults ''login.auto_login'') (read_key d (''login'', ''auto_login''))
    \<and> read_key d' (''login'', ''two_step'') = written_optional env (JBool (s_two_step s))
        (dval defaults ''login.two_step'') (read_key d (''login'', ''two_step''))
    \<and> (\<exists>entries. list_all2 (client_as_written env (raw_or (JList []) (read_key d (''oauth'', ''clients'')))) (s_clients s) entries
        \<and> read_key d' (''oauth'', ''clients'') =
            (if json_eq (JList (map JObj entries)) (raw_or (JList []) (read_key d (''oauth'', ''clients'')))
             then read_key d (''oauth'', ''clients'')
             else if entries = [] then None else Some (JList (map JObj entries))))"
proof -
  have optional: "optional_value env v dflt raw = written_optional env v dflt raw" for v dflt raw
    by (simp add: optional_value_def written_optional_def kept_or_def)
  let ?raws = "raw_or (JList []) (read_key d (''oauth'', ''clients''))"
  have "list_all2 (client_as_written env ?raws) (s_clients s) (map (entry_of env ?raws) (s_clients s))"
    by (simp add: list_all2_conv_all_nth merged_client_written)
  moreover have "read_key d' (''oauth'', ''clients'') =
      (if json_eq (JList (map JObj (map (entry_of env ?raws) (s_clients s)))) ?raws then read_key d (''oauth'', ''clients'')
       else if map (entry_of env ?raws) (s_clients s) = [] then None
       else Some (JList (map JObj (map (entry_of env ?raws) (s_clients s)))))"
    unfolding saved_clients_key [OF assms] clients_value_def Let_def merge_oauth_clients_entries
    by (simp del: json_eq.simps)
  ultimately show ?thesis
    using apply_settings_unowned [OF assms] apply_settings_own [OF assms] saved_special_keys [OF assms]
    unfolding optional row_value_written by blast
qed

theorem a_save_touches_only_what_it_owns_witness:
  "read_key sample_saved (''logging'', ''colour'') = Some (JStr ''red'')
    \<and> read_key sample_saved (''server'', ''host'') = Some (JStr ''127.0.0.1'')"
proof -
  have "unowned (''logging'', ''colour'')" "read_key sample_yaml (''logging'', ''colour'') = Some (JStr ''red'')" by code_simp+
  then have "read_key sample_saved (''logging'', ''colour'') = Some (JStr ''red'')"
    using a_save_touches_only_what_it_owns [OF sample_saves, of "(''logging'', ''colour'')"] by simp
  moreover have "read_key sample_saved (''server'', ''host'') = Some (JStr ''127.0.0.1'')" by code_simp
  ultimately show ?thesis ..
qed

subsection \<open>Saving and loading the users\<close>

lemma save_users_errors:
  assumes "\<forall>(n, u) \<in> set users. n = u_username u \<and> valid_user u"
    "list_all (\<lambda>(n, u). plain (JObj (user_to_yaml u))) users" "CHR ''$'' \<notin> set default_user"
    "field_errors (as_opt_int V) (expand_fields env d) ''config_version'' = []"
  shows "users_errors V (expand_fields env (apply_users_document d users default_user)) = []
    \<and> to_users (users_value (expand_fields env (apply_users_document d users default_user))) =
      Inr (map (\<lambda>(n, u). (n, user_reloaded u)) users, default_user)"
proof -
  let ?D = "expand_fields env (apply_users_document d users default_user)"
  let ?us = "map (\<lambda>(n, u). (n, JObj (user_to_yaml u))) users"
  have got: "dget ?D ''default_user'' = Some (JStr default_user)" "dget ?D ''users'' = Some (JObj ?us)"
    "dget ?D ''config_version'' = dget (expand_fields env d) ''config_version''"
    using plain_users_expand [OF assms(2), of env] expand_str_plain [OF assms(3), of env]
    by (simp_all add: apply_users_document_def dget_expand)
  have "users_errors V ?D = []"
    using assms(4) saved_users_entries(1) [OF assms(1)]
    by (simp add: users_errors_def field_errors_def got as_user_entry_def)
  moreover have "users_value ?D = \<lparr>ud_default_user = default_user, ud_users = entry_values as_user_entry ?us\<rparr>"
    using saved_users_entries(1) [OF assms(1)]
    by (simp add: users_value_def field_value_def got as_user_entry_def)
  ultimately show ?thesis
    using saved_users_entries(2) [OF assms(1)] by (simp add: to_users_def)
qed

text \<open>
  Users saved to \<open>users.yaml\<close> are the users the server has after its next start, under the names
  and in the order they had, together with the default user; what the file leaves out comes back as
  the loader's default (a user without roles gets the role \<open>USER\<close>).
\<close>

theorem saved_users_load_back:
  assumes "\<forall>(n, u) \<in> set users. n = u_username u \<and> valid_user u"
    "list_all (\<lambda>(n, u). plain (JObj (user_to_yaml u))) users" "CHR ''$'' \<notin> set default_user"
    "field_errors (as_opt_int V) (expand_fields env d) ''config_version'' = []"
  shows "load_users V env False (apply_users_document d users default_user) =
    Inr (map (\<lambda>(n, u). (n, user_reloaded u)) users, default_user)"
  using save_users_errors [OF assms] by (simp add: load_users_def load_users_cases)

theorem saved_users_load_back_witness:
  "load_users sample_pydantic sample_env False (apply_users_document [] [(''alice'', sample_user)] ''alice'') =
    Inr ([(''alice'', user_reloaded sample_user)], ''alice'')"
proof -
  have "valid_user sample_user" "list_all (\<lambda>(n, u). plain (JObj (user_to_yaml u))) [(''alice'', sample_user)]"
    "u_username sample_user = ''alice''" "CHR ''$'' \<notin> set ''alice''"
    "field_errors (as_opt_int sample_pydantic) (expand_fields sample_env []) ''config_version'' = []"
    by code_simp+
  then show ?thesis
    using saved_users_load_back [of "[(''alice'', sample_user)]" "''alice''" sample_pydantic sample_env "[]"] by simp
qed

subsection \<open>Unknown keys and validity\<close>

text \<open>
  C17. The retry loop of the loader is done with its second validation: dropping the unknown keys found
  in the first round leaves a document without unknown keys, with the same errors and the same settings,
  so that a budget of one round gives the same result as any larger one and the third validation is
  never needed. Outside strict mode a key nobody knows neither refuses nor changes anything; in strict
  mode it is what is refused, after every wrong value.
\<close>

theorem unknown_keys_change_nothing:
  "(\<exists>d'. fold drop_path (settings_unknown d) (JObj d) = JObj d' \<and> settings_unknown d' = []
      \<and> settings_errors V d' = settings_errors V d \<and> settings_value V d' = settings_value V d)
    \<and> load_document (Suc n) strict (settings_errors V) settings_unknown (settings_value V) d =
        load_settings_document V strict d
    \<and> load_settings_document V strict d =
     (case settings_errors V d of
        p # _ \<Rightarrow> Inl (InvalidValue p)
      | [] \<Rightarrow> if strict \<and> settings_unknown d \<noteq> [] then Inl (UnknownKey (hd (settings_unknown d)))
              else Inr (settings_value V d))"
  using drop_unknown clean_settings_unknown clean_settings_errors clean_settings_value load_rounds load_settings_cases
  by blast

lemma each_valid:
  "each to_client es = Inr cs \<Longrightarrow> list_all valid_client cs"
  by (induction es arbitrary: cs) (auto simp: andthen_Inr to_client_def Let_def split: if_splits)

lemma no_first_duplicate: "first_duplicate seen xs = None \<Longrightarrow> distinct xs \<and> set xs \<inter> set seen = {}"
proof (induction xs arbitrary: seen)
  case (Cons x xs)
  then have "x \<notin> set seen" "first_duplicate (x # seen) xs = None" by (simp_all split: if_splits)
  with Cons.IH [of "x # seen"] show ?case by auto
qed simp

lemma rstrip_append:
  "py_rstrip_char c (a @ b) = (if set b \<subseteq> {c} then py_rstrip_char c a else a @ py_rstrip_char c b)"
  by (auto simp: py_rstrip_char_def dropWhile_append)

lemma rstrip_again: "py_rstrip_char c (py_rstrip_char c s) = py_rstrip_char c s"
  by (simp add: py_rstrip_char_def)

lemma starts_with_split: "starts_with s p \<longleftrightarrow> (\<exists>t. s = p @ t)"
  by (metis append_eq_conv_conj starts_with_def)

lemma issuer_normal:
  assumes "validate_issuer raw = Some i"
  shows "validate_issuer i = Some i \<or> i \<in> {''http:'', ''https:''}"
proof -
  obtain p t where raw: "raw = p @ t" "p \<in> {''http://'', ''https://''}"
    using assms unfolding validate_issuer_def starts_with_split by (metis insert_iff option.distinct(1))
  have i: "i = py_rstrip_char CHR ''/'' raw" using assms by (simp add: validate_issuer_def split: if_splits)
  show ?thesis
  proof (cases "set t \<subseteq> {CHR ''/''}")
    case True
    then have "i = py_rstrip_char CHR ''/'' p" by (simp add: i raw(1) rstrip_append)
    moreover have "py_rstrip_char CHR ''/'' ''http://'' = ''http:''" "py_rstrip_char CHR ''/'' ''https://'' = ''https:''"
      by code_simp+
    ultimately show ?thesis using raw(2) by auto
  next
    case False
    then have "i = p @ py_rstrip_char CHR ''/'' t" by (simp add: i raw(1) rstrip_append)
    then have "starts_with i ''http://'' \<or> starts_with i ''https://''"
      using raw(2) by (auto simp: starts_with_split)
    then show ?thesis by (simp add: validate_issuer_def i rstrip_again)
  qed
qed

lemma log_level_normal:
  assumes "validate_log_level raw = Some l"
  shows "l \<in> set log_levels" "validate_log_level l = Some l"
proof -
  show l: "l \<in> set log_levels" using assms by (auto simp: validate_log_level_def split: if_splits)
  have "list_all (\<lambda>l. validate_log_level l = Some l) log_levels" by code_simp
  with l show "validate_log_level l = Some l" by (simp add: list_all_iff)
qed

text \<open>
  C18. Settings that load are valid, whatever stood in the file: every constraint of the model holds of
  the values that are in use (those its validators return), every client is valid, no two clients share
  an identifier, and the issuer is a URL in normal form. (An issuer of slashes only is cut to its bare
  scheme, which is the one value in use that the validator would refuse.)
\<close>

theorem loaded_settings_are_valid:
  assumes "load_settings V env strict d = Inr s"
  shows "(settings_problems V s = [] \<or> settings_problems V s = [''issuer''] \<and> s_issuer s \<in> {''http:'', ''https:''})
    \<and> list_all valid_client (s_clients s) \<and> distinct (map cl_client_id (s_clients s))
    \<and> s_log_level s \<in> set log_levels"
proof -
  obtain doc cs where cs: "each to_client (oa_clients (sd_oauth doc)) = Inr cs"
    "first_duplicate [] (map cl_client_id cs) = None" "make_settings V (settings_of env doc cs) = Inr s"
    using assms by (auto simp: load_settings_def andthen_Inr to_settings_def split: option.splits)
  let ?r = "settings_of env doc cs"
  have s: "settings_problems V ?r = []" "s = ?r\<lparr>s_issuer := the (validate_issuer (s_issuer ?r)),
      s_log_level := the (validate_log_level (s_log_level ?r))\<rparr>"
    using cs(3) by (simp_all add: make_settings_def split: if_splits)
  obtain i l where il: "validate_issuer (s_issuer ?r) = Some i" "validate_log_level (s_log_level ?r) = Some l"
    using s(1) by (auto simp: no_problems)
  have new: "s_issuer s = i" "s_log_level s = l" "s_clients s = cs" by (simp_all add: s(2) il, simp add: settings_of_def Let_def)
  have rest: "settings_problems V s = (if validate_issuer i = None then [''issuer''] else [])"
    using s(1) log_level_normal [OF il(2)] unfolding no_problems
    by (simp add: settings_problems_def s(2) il)
  show ?thesis
    using rest issuer_normal [OF il(1)] log_level_normal(1) [OF il(2)] each_valid [OF cs(1)] no_first_duplicate [OF cs(2)]
    by (auto simp: new)
qed

theorem loaded_settings_are_valid_witness:
  "\<exists>s. load_settings sample_pydantic sample_env False sample_yaml = Inr s
    \<and> list_all valid_client (s_clients s) \<and> s_log_level s \<in> set log_levels"
proof -
  obtain s where "load_settings sample_pydantic sample_env False sample_yaml = Inr s" using sample_yaml_loads by blast
  with loaded_settings_are_valid [OF this] show ?thesis by blast
qed

subsection \<open>Where a save and a load disagree\<close>

lemma roleless_user_gains_a_role:
  "to_user (user_value (user_to_yaml (sample_user\<lparr>u_roles := []\<rparr>))) ''alice'' = Inr (sample_user\<lparr>u_roles := [''USER'']\<rparr>)"
  by code_simp

lemma placeholder_password_is_expanded:
  "expand_env_vars sample_env (JObj (user_to_yaml (sample_user\<lparr>u_password := Some ''${PORT}''\<rparr>))) =
    JObj (user_to_yaml (sample_user\<lparr>u_password := Some ''9000''\<rparr>))"
  by code_simp

lemma saved_false_over_t_is_lost:
  "is_unchanged sample_env (JStr ''t'') (JBool False) \<and> pd_bool sample_pydantic (JStr ''t'') = Some True"
  by code_simp

lemma issuer_of_slashes_does_not_survive_a_save:
  "validate_issuer ''http://'' = Some ''http:'' \<and> validate_issuer ''http:'' = None
    \<and> is_unchanged sample_env (JStr ''http://'') (JStr ''http:'') = False"
  by code_simp

end
