(* ===== verification/Config_Writer.thy ===== *)
theory Config_Writer
  imports Serialization Sha256
begin

text \<open>
  \<open>config_writer.py\<close> and the file half of \<open>serialization.py\<close>: revisions of files, the advisory lock
  of a directory, the atomic replacement of a file, and the conflict-checked write of several files.
  The disk maps a path (directory and name) to bytes. The YAML library and the outcomes of the
  operating system are parameters of each call.
\<close>

type_synonym file_path = "str \<times> str"
type_synonym disk = "file_path \<Rightarrow> bytes option"

subsection \<open>Revisions\<close>

definition revision_of_bytes :: "bytes \<Rightarrow> str" where
  "revision_of_bytes raw = hexdigest (sha256 raw)"

definition read_bytes :: "disk \<Rightarrow> file_path \<Rightarrow> bytes" where
  "read_bytes fs f = (case fs f of None \<Rightarrow> [] | Some raw \<Rightarrow> raw)"

definition current_revision :: "disk \<Rightarrow> file_path \<Rightarrow> str" where
  "current_revision fs f = revision_of_bytes (read_bytes fs f)"

subsection \<open>The advisory lock\<close>

datatype lock_try = Locked | Held | Unsupported \<comment> \<open>an \<open>OSError\<close> that does not mean "held"\<close>

datatype lock_error = LockUnsupported | LockTimeout

definition lock_timeout :: nat where
  "lock_timeout = 10000" \<comment> \<open>milliseconds\<close>

definition lock_poll_interval :: nat where
  "lock_poll_interval = 50"

function wait_for_lock :: "(nat \<Rightarrow> lock_try) \<Rightarrow> (nat \<Rightarrow> nat) \<Rightarrow> nat \<Rightarrow> nat \<Rightarrow> lock_error + unit" where
  \<comment> \<open>the polling loop of \<open>_cross_process_lock\<close>: poll number \<open>i\<close>, \<open>t\<close> milliseconds after the first one;
      \<open>late i\<close> is how much longer than asked the sleep after it took\<close>
  "wait_for_lock tries late t i =
     (case tries i of
        Locked \<Rightarrow> Inr ()
      | Unsupported \<Rightarrow> Inl LockUnsupported
      | Held \<Rightarrow>
          if lock_timeout \<le> t then Inl LockTimeout
          else wait_for_lock tries late (t + lock_poll_interval + late i) (Suc i))"
  by pat_completeness auto
termination
  by (relation "measure (\<lambda>(tries, late, t, i). lock_timeout - t)") (auto simp: lock_timeout_def lock_poll_interval_def)

declare wait_for_lock.simps [simp del]

record lock_env =
  le_tries :: "str \<Rightarrow> nat \<Rightarrow> lock_try"
  le_late :: "str \<Rightarrow> nat \<Rightarrow> nat"

definition cross_process_lock :: "lock_env \<Rightarrow> str \<Rightarrow> lock_error + unit" where
  "cross_process_lock le directory = wait_for_lock (le_tries le directory) (le_late le directory) 0 0"

fun lock_all :: "lock_env \<Rightarrow> str list \<Rightarrow> lock_error option" where
  \<comment> \<open>\<open>enter_context\<close> for each directory; the locks taken are released in any case\<close>
  "lock_all le [] = None"
| "lock_all le (d # ds) = (case cross_process_lock le d of Inl e \<Rightarrow> Some e | Inr _ \<Rightarrow> lock_all le ds)"

subsection \<open>Atomic replacement\<close>

datatype replace_result = Replaced | Refused \<comment> \<open>\<open>PermissionError\<close>\<close> | Broken \<comment> \<open>another \<open>OSError\<close>\<close>

definition replace_retry_attempts :: nat where
  "replace_retry_attempts = 10"

fun replace_with_retry :: "(nat \<Rightarrow> replace_result) \<Rightarrow> nat \<Rightarrow> nat \<Rightarrow> bool" where
  \<comment> \<open>attempts left, number of this attempt\<close>
  "replace_with_retry r 0 attempt = False"
| "replace_with_retry r (Suc left) attempt =
     (case r attempt of
        Replaced \<Rightarrow> True
      | Broken \<Rightarrow> False
      | Refused \<Rightarrow> replace_with_retry r left (Suc attempt))"

record write_io =
  wi_backup :: bool \<comment> \<open>\<open>copy2\<close> to the backup succeeds\<close>
  wi_temp :: "str option" \<comment> \<open>the name \<open>mkstemp\<close> makes, in the same directory\<close>
  wi_dump :: bool \<comment> \<open>the dump into the temporary file succeeds\<close>
  wi_replace :: "nat \<Rightarrow> replace_result"

record yaml =
  yl_load :: "bytes \<Rightarrow> json option" \<comment> \<open>the round-trip loader; \<open>None\<close>: it raises\<close>
  yl_safe_load :: "bytes \<Rightarrow> json option" \<comment> \<open>the loader the server reads its configuration with\<close>
  yl_dump :: "doc \<Rightarrow> bytes"

datatype write_failed = BackupFailed | TempFailed | WriteFailed

definition stem :: "str \<Rightarrow> str" where
  \<comment> \<open>\<open>Path.stem\<close>: the name without its last suffix\<close>
  "stem name =
     (let r = rev name; ext = takeWhile (\<lambda>c. c \<noteq> CHR ''.'') r; rest = drop (Suc (length ext)) r in
      if rest = [] \<or> ext = [] then name else rev rest)"

definition backup_of :: "file_path \<Rightarrow> file_path" where
  "backup_of f = (fst f, stem (snd f) @ ''.yaml.bak'')"

definition atomic_write_yaml :: "yaml \<Rightarrow> write_io \<Rightarrow> file_path \<Rightarrow> doc \<Rightarrow> disk \<Rightarrow> (write_failed + unit) \<times> disk" where
  "atomic_write_yaml Y io f data fs =
     (if fs f \<noteq> None \<and> \<not> wi_backup io then (Inl BackupFailed, fs)
      else
        let fs1 = (if fs f \<noteq> None then fs(backup_of f := fs f) else fs) in
        case wi_temp io of
          None \<Rightarrow> (Inl TempFailed, fs1)
        | Some t \<Rightarrow>
            let fs2 = fs1((fst f, t) := Some (yl_dump Y data)) in
            if wi_dump io \<and> replace_with_retry (wi_replace io) replace_retry_attempts 0
            then (Inr (), (fs2(f := fs2 (fst f, t)))((fst f, t) := None))
            else
              let fs3 = fs2((fst f, t) := None) in
              (Inl WriteFailed,
               if fs3 f = None \<and> fs3 (backup_of f) \<noteq> None then fs3(f := fs3 (backup_of f)) else fs3))"

subsection \<open>Compare and replace\<close>

datatype 'e write_error =
    RepeatedPath
  | LockUnavailable lock_error
  | Conflict file_path
  | ParseFailed file_path
  | MutateFailed 'e
  | NotWritten file_path write_failed

record 'e write_item =
  it_file :: file_path
  it_expected :: "str option"
  it_mutate :: "doc \<Rightarrow> 'e + doc"

record write_env =
  we_lock :: lock_env
  we_yaml :: yaml
  we_io :: "file_path \<Rightarrow> write_io"

definition load_yaml_document :: "yaml \<Rightarrow> disk \<Rightarrow> file_path \<Rightarrow> doc option" where
  \<comment> \<open>\<open>None\<close>: the loader raises, or gives no mapping, on which every mutation raises\<close>
  "load_yaml_document Y fs f =
     (case fs f of
        None \<Rightarrow> Some []
      | Some raw \<Rightarrow>
          (case yl_load Y raw of
             None \<Rightarrow> None
           | Some v \<Rightarrow> if \<not> json_true v then Some [] else (case v of JObj d \<Rightarrow> Some d | _ \<Rightarrow> None)))"

fun check_revisions :: "disk \<Rightarrow> 'e write_item list \<Rightarrow> file_path option" where
  \<comment> \<open>phase 1: the first stale file\<close>
  "check_revisions fs [] = None"
| "check_revisions fs (x # xs) =
     (if it_expected x \<noteq> None \<and> it_expected x \<noteq> Some (current_revision fs (it_file x)) then Some (it_file x)
      else check_revisions fs xs)"

fun load_and_mutate :: "yaml \<Rightarrow> disk \<Rightarrow> 'e write_item list \<Rightarrow> 'e write_error + (file_path \<times> doc) list" where
  \<comment> \<open>phase 2\<close>
  "load_and_mutate Y fs [] = Inr []"
| "load_and_mutate Y fs (x # xs) =
     (case load_yaml_document Y fs (it_file x) of
        None \<Rightarrow> Inl (ParseFailed (it_file x))
      | Some d \<Rightarrow>
          (case it_mutate x d of
             Inl e \<Rightarrow> Inl (MutateFailed e)
           | Inr d' \<Rightarrow>
               (case load_and_mutate Y fs xs of
                  Inl e \<Rightarrow> Inl e
                | Inr ds \<Rightarrow> Inr ((it_file x, d') # ds))))"

fun write_documents :: "write_env \<Rightarrow> (file_path \<times> doc) list \<Rightarrow> disk \<Rightarrow> ('e write_error + str list) \<times> disk" where
  \<comment> \<open>phase 3\<close>
  "write_documents E [] fs = (Inr [], fs)"
| "write_documents E ((f, d) # ds) fs =
     (case atomic_write_yaml (we_yaml E) (we_io E f) f d fs of
        (Inl e, fs1) \<Rightarrow> (Inl (NotWritten f e), fs1)
      | (Inr _, fs1) \<Rightarrow>
          (let rev = current_revision fs1 f in
           case write_documents E ds fs1 of
             (Inl e, fs2) \<Rightarrow> (Inl e, fs2)
           | (Inr revs, fs2) \<Rightarrow> (Inr (rev # revs), fs2)))"

definition compare_and_replace_many ::
  "write_env \<Rightarrow> 'e write_item list \<Rightarrow> disk \<Rightarrow> ('e write_error + str list) \<times> disk" where
  "compare_and_replace_many E items fs =
     (if \<not> distinct (map it_file items) then (Inl RepeatedPath, fs)
      else
        case lock_all (we_lock E) (sorted_set (map (fst \<circ> it_file) items)) of
          Some e \<Rightarrow> (Inl (LockUnavailable e), fs)
        | None \<Rightarrow>
            (case check_revisions fs items of
               Some f \<Rightarrow> (Inl (Conflict f), fs)
             | None \<Rightarrow>
                 (case load_and_mutate (we_yaml E) fs items of
                    Inl e \<Rightarrow> (Inl e, fs)
                  | Inr ds \<Rightarrow> write_documents E ds fs)))"

definition compare_and_replace ::
  "write_env \<Rightarrow> file_path \<Rightarrow> str option \<Rightarrow> (doc \<Rightarrow> 'e + doc) \<Rightarrow> disk \<Rightarrow> ('e write_error + str) \<times> disk" where
  "compare_and_replace E f expected mutate fs =
     (case compare_and_replace_many E [\<lparr>it_file = f, it_expected = expected, it_mutate = mutate\<rparr>] fs of
        (Inl e, fs') \<Rightarrow> (Inl e, fs')
      | (Inr revs, fs') \<Rightarrow> (Inr (hd revs), fs'))"

subsection \<open>What one write does\<close>

lemma stem_parts:
  obtains "stem name = name" | ext where "name = stem name @ ''.'' @ ext" "CHR ''.'' \<notin> set ext"
proof -
  let ?r = "rev name"
  let ?ext = "takeWhile (\<lambda>c. c \<noteq> CHR ''.'') ?r" and ?tail = "dropWhile (\<lambda>c. c \<noteq> CHR ''.'') ?r"
  have r: "?r = ?ext @ ?tail" by simp
  have rest: "drop (Suc (length ?ext)) ?r = tl ?tail"
    unfolding dropWhile_eq_drop by (simp add: drop_Suc drop_tl)
  show thesis
  proof (cases "tl ?tail = [] \<or> ?ext = []")
    case True
    then have "stem name = name" unfolding stem_def Let_def rest by simp
    then show thesis by (rule that(1))
  next
    case False
    then have s: "stem name = rev (tl ?tail)" unfolding stem_def Let_def rest by simp
    have "?tail \<noteq> []" using False by (metis list.sel(2))
    then have "?tail = CHR ''.'' # tl ?tail" using hd_dropWhile [of "\<lambda>c. c \<noteq> CHR ''.''" ?r] by (cases ?tail) auto
    then have "?r = ?ext @ CHR ''.'' # tl ?tail" using r by metis
    then have "name = rev (?ext @ CHR ''.'' # tl ?tail)" by (metis rev_rev_ident)
    then have "name = stem name @ ''.'' @ rev ?ext" by (simp add: s)
    moreover have "CHR ''.'' \<notin> set (rev ?ext)" by (auto dest: set_takeWhileD)
    ultimately show thesis by (rule that(2))
  qed
qed

lemma backup_differs: "backup_of f \<noteq> f"
proof
  assume "backup_of f = f"
  then have b: "snd f = stem (snd f) @ ''.yaml.bak''" by (metis backup_of_def snd_conv)
  show False
  proof (rule stem_parts [of "snd f"])
    assume "stem (snd f) = snd f"
    with b show False by simp
  next
    fix ext assume "snd f = stem (snd f) @ ''.'' @ ext" "CHR ''.'' \<notin> set ext"
    then have "''.yaml.bak'' = ''.'' @ ext" "CHR ''.'' \<notin> set ext" using b by (metis append_same_eq same_append_eq)+
    then show False by auto
  qed
qed

definition temp_apart :: "(file_path \<Rightarrow> write_io) \<Rightarrow> file_path set \<Rightarrow> bool" where
  \<comment> \<open>\<open>mkstemp\<close> makes no file under a name that is in use\<close>
  "temp_apart io fs \<longleftrightarrow> (\<forall>f t. wi_temp (io f) = Some t \<longrightarrow> (fst f, t) \<notin> fs)"

lemma atomic_write_own:
  assumes "wi_temp io = None \<or> (\<exists>t. wi_temp io = Some t \<and> (fst f, t) \<notin> {f, backup_of f})"
    "atomic_write_yaml Y io f d fs = (r, fs')"
  shows "r = Inr () \<Longrightarrow> fs' f = Some (yl_dump Y d)"
    and "r = Inl e \<Longrightarrow> fs' f = (if fs f = None \<and> e = WriteFailed then fs (backup_of f) else fs f)"
  using assms backup_differs [of f]
  by (auto simp: atomic_write_yaml_def Let_def split: if_splits option.splits)

lemma atomic_write_other:
  assumes "atomic_write_yaml Y io f d fs = (r, fs')" "g \<noteq> f" "g \<noteq> backup_of f" "\<forall>t. wi_temp io = Some t \<longrightarrow> g \<noteq> (fst f, t)"
  shows "fs' g = fs g"
  using assms by (auto simp: atomic_write_yaml_def Let_def split: if_splits option.splits)

subsection \<open>What a batch does\<close>

definition side_places :: "write_env \<Rightarrow> file_path set \<Rightarrow> file_path set" where
  \<comment> \<open>backups and temporary files\<close>
  "side_places E F = backup_of ` F \<union> (\<Union>f \<in> F. case wi_temp (we_io E f) of None \<Rightarrow> {} | Some t \<Rightarrow> {(fst f, t)})"

definition batch_apart :: "write_env \<Rightarrow> file_path set \<Rightarrow> bool" where
  \<comment> \<open>no file of the batch is the backup of another, and \<open>mkstemp\<close> makes no file under a name in use\<close>
  "batch_apart E F \<longleftrightarrow> backup_of ` F \<inter> F = {} \<and> temp_apart (we_io E) (F \<union> backup_of ` F)"

lemma batch_apart_mono: "batch_apart E F \<Longrightarrow> G \<subseteq> F \<Longrightarrow> batch_apart E G"
  unfolding batch_apart_def temp_apart_def by blast

lemma batch_apart_temp:
  assumes "batch_apart E F" "f \<in> F"
  shows "wi_temp (we_io E f) = None \<or> (\<exists>t. wi_temp (we_io E f) = Some t \<and> (fst f, t) \<notin> {f, backup_of f})"
proof (cases "wi_temp (we_io E f)")
  case (Some t)
  then have "(fst f, t) \<notin> F \<union> backup_of ` F" using assms(1) unfolding batch_apart_def temp_apart_def by blast
  then have "(fst f, t) \<noteq> f" "(fst f, t) \<noteq> backup_of f" using assms(2) by (metis UnI1, metis UnI2 imageI)
  with Some show ?thesis by simp
qed simp

lemma batch_apart_side: "batch_apart E F \<Longrightarrow> f \<in> F \<Longrightarrow> f \<notin> side_places E F"
  by (auto simp: batch_apart_def temp_apart_def side_places_def split: option.splits)

lemma write_documents_other:
  "write_documents E ds fs = (r :: 'e write_error + str list, fs') \<Longrightarrow> g \<notin> fst ` set ds \<Longrightarrow> g \<notin> side_places E (fst ` set ds) \<Longrightarrow> fs' g = fs g"
proof (induction ds arbitrary: fs r)
  case (Cons p ds)
  obtain f d where p: "p = (f, d)" by (cases p)
  obtain r1 fs1 where w: "atomic_write_yaml (we_yaml E) (we_io E f) f d fs = (r1, fs1)" by fastforce
  have "fs1 g = fs g"
    using Cons.prems(2,3) by (intro atomic_write_other [OF w]) (auto simp: p side_places_def split: option.splits)
  moreover have "fs' g = fs1 g"
  proof (cases r1)
    case (Inl e)
    then show ?thesis using Cons.prems(1) w by (simp add: p)
  next
    case (Inr u)
    obtain r2 :: "'e write_error + str list" and fs2 where rest: "write_documents E ds fs1 = (r2, fs2)" by fastforce
    then have "fs2 = fs'" using Cons.prems(1) w Inr by (auto simp: p Let_def split: sum.splits)
    then show ?thesis
      using rest Cons.prems(2,3) by (intro Cons.IH [of fs1 r2]) (auto simp: p side_places_def)
  qed
  ultimately show ?case by simp
qed simp

lemma write_documents_error: "write_documents E ds fs = (Inl x, fs') \<Longrightarrow> \<exists>f e. x = NotWritten f e"
  by (induction ds arbitrary: fs fs' x rule: list.induct) (auto simp: Let_def split: prod.splits sum.splits)

lemma write_documents_written:
  assumes "write_documents E ds fs = (Inr revs :: 'e write_error + str list, fs')" "distinct (map fst ds)" "batch_apart E (fst ` set ds)"
  shows "(\<forall>(f, d) \<in> set ds. fs' f = Some (yl_dump (we_yaml E) d)) \<and> revs = map (current_revision fs' \<circ> fst) ds"
  using assms
proof (induction ds arbitrary: fs revs)
  case (Cons p ds)
  obtain f d where p: "p = (f, d)" by (cases p)
  obtain r1 fs1 where w: "atomic_write_yaml (we_yaml E) (we_io E f) f d fs = (r1, fs1)" by fastforce
  then obtain revs' where rest: "r1 = Inr ()" "write_documents E ds fs1 = (Inr revs' :: 'e write_error + str list, fs')" "revs = current_revision fs1 f # revs'"
    using Cons.prems(1) by (auto simp: p Let_def split: prod.splits sum.splits)
  have temp: "wi_temp (we_io E f) = None \<or> (\<exists>t. wi_temp (we_io E f) = Some t \<and> (fst f, t) \<notin> {f, backup_of f})"
    by (rule batch_apart_temp [OF Cons.prems(3)]) (simp add: p)
  have own: "fs1 f = Some (yl_dump (we_yaml E) d)" by (rule atomic_write_own(1) [OF temp w rest(1)])
  have sub: "fst ` set ds \<subseteq> fst ` set (p # ds)" by auto
  have "f \<notin> side_places E (fst ` set (p # ds))"
    by (rule batch_apart_side [OF Cons.prems(3)]) (simp add: p)
  then have "f \<notin> side_places E (fst ` set ds)" by (auto simp: side_places_def)
  moreover have "f \<notin> fst ` set ds" using Cons.prems(2) by (simp add: p)
  ultimately have keep: "fs' f = fs1 f" using write_documents_other [OF rest(2)] by blast
  have IH: "(\<forall>(f, d) \<in> set ds. fs' f = Some (yl_dump (we_yaml E) d)) \<and> revs' = map (current_revision fs' \<circ> fst) ds"
    using Cons.prems(2) by (intro Cons.IH [OF rest(2) _ batch_apart_mono [OF Cons.prems(3) sub]]) simp
  with keep own rest(3) show ?case by (simp add: p current_revision_def read_bytes_def)
qed simp

lemma write_documents_whole:
  assumes "write_documents E ds fs = (r :: 'e write_error + str list, fs')" "distinct (map fst ds)" "batch_apart E (fst ` set ds)"
    "(f, d) \<in> set ds" "fs f \<noteq> None"
  shows "fs' f = fs f \<or> fs' f = Some (yl_dump (we_yaml E) d)"
  using assms
proof (induction ds arbitrary: fs r)
  case (Cons p ds)
  obtain g e where p: "p = (g, e)" by (cases p)
  obtain r1 fs1 where w: "atomic_write_yaml (we_yaml E) (we_io E g) g e fs = (r1, fs1)" by fastforce
  have temp: "wi_temp (we_io E g) = None \<or> (\<exists>t. wi_temp (we_io E g) = Some t \<and> (fst g, t) \<notin> {g, backup_of g})"
    by (rule batch_apart_temp [OF Cons.prems(3)]) (simp add: p)
  have sub: "fst ` set ds \<subseteq> fst ` set (p # ds)" by auto
  have side: "f \<notin> side_places E (fst ` set (p # ds))"
    using Cons.prems(3,4) by (intro batch_apart_side) force+
  have rest: "fs' = fs1 \<or> (\<exists>r2 :: 'e write_error + str list. write_documents E ds fs1 = (r2, fs'))"
    using Cons.prems(1) w by (auto simp: p Let_def split: sum.splits prod.splits)
  show ?case
  proof (cases "f = g")
    case True
    then have own: "f \<notin> fst ` set ds" using Cons.prems(2) by (simp add: p)
    then have "d = e" using Cons.prems(4) True by (force simp: p)
    have kept: "fs1 f = fs f \<or> fs1 f = Some (yl_dump (we_yaml E) e)"
    proof (cases r1)
      case (Inl x)
      from atomic_write_own(2) [OF temp w Inl] show ?thesis using True Cons.prems(5) by auto
    next
      case (Inr u)
      then have "r1 = Inr ()" by simp
      from atomic_write_own(1) [OF temp w this] show ?thesis using True by simp
    qed
    have "fs' f = fs1 f"
      using rest write_documents_other [of E ds fs1 _ fs' f] own side by (auto simp: side_places_def)
    with kept \<open>d = e\<close> show ?thesis by simp
  next
    case False
    then have mem: "(f, d) \<in> set ds" using Cons.prems(4) by (auto simp: p)
    have same: "fs1 f = fs f"
      using side False by (intro atomic_write_other [OF w]) (auto simp: p side_places_def split: option.splits)
    show ?thesis
    proof (cases "fs' = fs1")
      case True
      then show ?thesis using same by simp
    next
      case False
      then obtain r2 :: "'e write_error + str list" where "write_documents E ds fs1 = (r2, fs')" using rest by blast
      from Cons.IH [OF this _ batch_apart_mono [OF Cons.prems(3) sub] mem] show ?thesis
        using Cons.prems(2,5) same by simp
    qed
  qed
qed simp

lemma check_revisions_None:
  "check_revisions fs items = None \<longleftrightarrow> (\<forall>x \<in> set items. it_expected x \<in> {None, Some (current_revision fs (it_file x))})"
  by (induction items) auto

lemma load_and_mutate_Inr:
  "load_and_mutate Y fs items = Inr ds \<Longrightarrow> map fst ds = map it_file items
    \<and> (\<forall>x \<in> set items. \<exists>d d'. load_yaml_document Y fs (it_file x) = Some d \<and> it_mutate x d = Inr d' \<and> (it_file x, d') \<in> set ds)"
  by (induction items arbitrary: ds) (fastforce split: option.splits sum.splits)+

definition is_not_written :: "'e write_error \<Rightarrow> bool" where
  "is_not_written x \<longleftrightarrow> (\<exists>f e. x = NotWritten f e)"

lemma load_and_mutate_Inl: "load_and_mutate Y fs items = Inl x \<Longrightarrow> \<not> is_not_written x"
  by (induction items) (auto simp: is_not_written_def split: option.splits sum.splits)

lemma batch_cases:
  assumes "compare_and_replace_many E items fs = (r, fs')"
  obtains (refused) x where "r = Inl x" "\<not> is_not_written x" "fs' = fs"
  | (written) ds where "distinct (map it_file items)"
      "\<forall>x \<in> set items. it_expected x \<in> {None, Some (current_revision fs (it_file x))}"
      "load_and_mutate (we_yaml E) fs items = Inr ds" "write_documents E ds fs = (r, fs')"
proof (cases "distinct (map it_file items) \<and> lock_all (we_lock E) (sorted_set (map (fst \<circ> it_file) items)) = None
    \<and> check_revisions fs items = None")
  case True
  show thesis
  proof (cases "load_and_mutate (we_yaml E) fs items")
    case (Inl x)
    then show thesis using True assms refused [of x] load_and_mutate_Inl [OF Inl]
      by (simp add: compare_and_replace_many_def)
  next
    case (Inr ds)
    then show thesis using True assms written [of ds] check_revisions_None [of fs items]
      by (simp add: compare_and_replace_many_def)
  qed
next
  case False
  then show thesis
    using assms refused by (auto simp: compare_and_replace_many_def is_not_written_def split: if_splits option.splits)
qed

lemma loaded_files: "load_and_mutate Y fs items = Inr ds \<Longrightarrow> fst ` set ds = it_file ` set items"
  using load_and_mutate_Inr [of Y fs items ds] by (metis list.set_map)

lemma batch_other:
  assumes "compare_and_replace_many E items fs = (r, fs')"
    "g \<notin> it_file ` set items" "g \<notin> side_places E (it_file ` set items)"
  shows "fs' g = fs g"
  using assms(1)
proof (cases rule: batch_cases)
  case (written ds)
  then show ?thesis using write_documents_other [of E ds fs r fs' g] assms(2,3) loaded_files [of "we_yaml E" fs items ds] by simp
qed simp

lemma batch_written:
  assumes "compare_and_replace_many E items fs = (Inr revs :: 'e write_error + str list, fs')" "batch_apart E (it_file ` set items)" "x \<in> set items"
  shows "it_expected x \<in> {None, Some (current_revision fs (it_file x))}"
    and "\<exists>d d'. load_yaml_document (we_yaml E) fs (it_file x) = Some d \<and> it_mutate x d = Inr d'
      \<and> fs' (it_file x) = Some (yl_dump (we_yaml E) d')"
    and "revs = map (current_revision fs' \<circ> it_file) items"
proof -
  obtain ds where ds: "distinct (map it_file items)"
    "\<forall>x \<in> set items. it_expected x \<in> {None, Some (current_revision fs (it_file x))}"
    "load_and_mutate (we_yaml E) fs items = Inr ds" "write_documents E ds fs = (Inr revs :: 'e write_error + str list, fs')"
    using assms(1) by (cases rule: batch_cases) auto
  note laws = load_and_mutate_Inr [OF ds(3)]
  have "distinct (map fst ds)" "batch_apart E (fst ` set ds)"
    using laws ds(1) assms(2) loaded_files [OF ds(3)] by simp_all
  note written = write_documents_written [OF ds(4) this]
  show "it_expected x \<in> {None, Some (current_revision fs (it_file x))}" using ds(2) assms(3) by blast
  show "\<exists>d d'. load_yaml_document (we_yaml E) fs (it_file x) = Some d \<and> it_mutate x d = Inr d'
      \<and> fs' (it_file x) = Some (yl_dump (we_yaml E) d')"
    using laws written assms(3) by fastforce
  show "revs = map (current_revision fs' \<circ> it_file) items"
    using written laws by (metis map_map)
qed

subsection \<open>The wait for the lock\<close>

lemma wait_for_lock_polls:
  "t + 50 * (n + 1 - i) \<ge> 10050 \<Longrightarrow> i \<le> n \<Longrightarrow>
    \<exists>k. i \<le> k \<and> k \<le> n \<and> (\<forall>j. i \<le> j \<and> j < k \<longrightarrow> tries j = Held)
      \<and> wait_for_lock tries late t i =
        (case tries k of Locked \<Rightarrow> Inr () | Unsupported \<Rightarrow> Inl LockUnsupported | Held \<Rightarrow> Inl LockTimeout)"
proof (induction tries late t i rule: wait_for_lock.induct)
  case (1 tries late t i)
  show ?case
  proof (cases "tries i = Held \<and> t < lock_timeout")
    case False
    then show ?thesis
      using 1(3) by (intro exI [of _ i]) (auto simp: wait_for_lock.simps [of tries late t i] split: lock_try.split)
  next
    case True
    then have t: "t < 10000" by (simp add: lock_timeout_def)
    have "i < n" using 1(2) t 1(3) by (cases "i = n") auto
    then have "t + lock_poll_interval + late i + 50 * (n + 1 - Suc i) \<ge> 10050" "Suc i \<le> n"
      using 1(2) by (auto simp: lock_poll_interval_def)
    then obtain k where k: "Suc i \<le> k" "k \<le> n" "\<forall>j. Suc i \<le> j \<and> j < k \<longrightarrow> tries j = Held"
      "wait_for_lock tries late (t + lock_poll_interval + late i) (Suc i) =
        (case tries k of Locked \<Rightarrow> Inr () | Unsupported \<Rightarrow> Inl LockUnsupported | Held \<Rightarrow> Inl LockTimeout)"
      using 1(1) True by (metis not_le)
    have "\<forall>j. i \<le> j \<and> j < k \<longrightarrow> tries j = Held" using k(3) True by (metis Suc_leI le_neq_implies_less)
    then show ?thesis
      using k True by (intro exI [of _ k]) (simp add: wait_for_lock.simps [of tries late t i])
  qed
qed

end
