(* ===== verification/Hooks.thy ===== *)
theory Hooks
  imports Config_Loading
begin

text \<open>
  \<open>hooks.py\<close>: the registry of shell hooks and plugins, its policy per source, the replacement of a
  source's declarations with rollback, and the dispatcher. Running a command, installed entry points
  and plugin objects are parameters over a world \<open>'w\<close> that they may change (the disk, in particular).
  The logger is left out.
\<close>

definition hook_names :: "str list" where
  "hook_names = [''on_before_load'', ''on_config_saved'', ''on_audit_event'']"

definition source_bootstrap_env :: str where
  "source_bootstrap_env = ''bootstrap-env''"

definition source_bootstrap_file :: str where
  "source_bootstrap_file = ''bootstrap.yaml''"

definition source_settings :: str where
  "source_settings = ''settings.yaml''"

definition hook_api_version :: int where
  "hook_api_version = 1"

datatype shell_outcome = ShellOk | ShellExit int | ShellTimedOut | ShellCannotRun

record ('p, 'w) hook_lib =
  hl_shell :: "str \<Rightarrow> int \<times> nat \<Rightarrow> doc option \<Rightarrow> 'w \<Rightarrow> shell_outcome \<times> 'w" \<comment> \<open>command, timeout, standard input\<close>
  hl_call :: "'p \<Rightarrow> str \<Rightarrow> json list \<Rightarrow> 'w \<Rightarrow> bool \<times> 'w" \<comment> \<open>method of a plugin: does it raise\<close>
  hl_implements :: "'p \<Rightarrow> str \<Rightarrow> bool" \<comment> \<open>the attribute is callable\<close>
  hl_installed :: "str \<Rightarrow> bool" \<comment> \<open>an entry point of that name exists\<close>
  hl_make :: "str \<Rightarrow> 'w \<Rightarrow> 'p option \<times> 'w" \<comment> \<open>import and instantiate; \<open>None\<close>: it raises\<close>
  hl_api_version :: "'p \<Rightarrow> json" \<comment> \<open>the attribute, or null\<close>
  hl_configure :: "'p \<Rightarrow> doc \<Rightarrow> 'w \<Rightarrow> bool \<times> 'w" \<comment> \<open>does it raise\<close>

record shell_hook =
  sh_hook :: str
  sh_command :: str
  sh_source :: str
  sh_failures :: nat
  sh_once :: bool
  sh_ran :: bool

record 'p loaded_plugin =
  lp_name :: str
  lp_obj :: 'p
  lp_source :: str
  lp_config :: doc
  lp_failures :: "(str, nat) dict"

record policy =
  po_strict :: "bool option" \<comment> \<open>declared explicitly\<close>
  po_timeout_seconds :: "(int \<times> nat) option"

record 'p hook_registry =
  hr_config_dir :: "str option"
  hr_shell_hooks :: "shell_hook list"
  hr_plugins :: "'p loaded_plugin list"
  hr_policy :: "(str, policy) dict"
  hr_retired_shell :: "(str \<times> str \<times> str, nat) dict"
  hr_retired_plugins :: "(str \<times> str, (str, nat) dict) dict"
  hr_failed_plugins :: "(str, (str \<times> str) list) dict"

definition new_registry :: "str option \<Rightarrow> 'p hook_registry" where
  "new_registry config_dir = \<lparr>hr_config_dir = config_dir, hr_shell_hooks = [], hr_plugins = [], hr_policy = [],
     hr_retired_shell = [], hr_retired_plugins = [], hr_failed_plugins = []\<rparr>"

datatype hook_failure =
    ShellFailed str str shell_outcome \<comment> \<open>hook, source\<close>
  | PluginRaised str str \<comment> \<open>plugin, hook\<close>

datatype hook_error =
    HookError str "hook_failure list" \<comment> \<open>the hook\<close>
  | PluginsNotLoaded "str list" str \<comment> \<open>names, source\<close>

subsection \<open>Policy\<close>

definition policy_of :: "'p hook_registry \<Rightarrow> str \<Rightarrow> policy" where
  "policy_of r source =
     (case dget (hr_policy r) source of None \<Rightarrow> \<lparr>po_strict = None, po_timeout_seconds = None\<rparr> | Some p \<Rightarrow> p)"

definition registry_strict :: "'p hook_registry \<Rightarrow> bool" where
  "registry_strict r =
     (case po_strict (policy_of r source_settings) of
        Some b \<Rightarrow> b
      | None \<Rightarrow> (case po_strict (policy_of r source_bootstrap_file) of Some b \<Rightarrow> b | None \<Rightarrow> False))"

definition registry_timeout :: "'p hook_registry \<Rightarrow> int \<times> nat" where
  "registry_timeout r =
     (case po_timeout_seconds (policy_of r source_settings) of
        Some t \<Rightarrow> t
      | None \<Rightarrow> (case po_timeout_seconds (policy_of r source_bootstrap_file) of Some t \<Rightarrow> t | None \<Rightarrow> (100, 1)))"

definition set_policy :: "str \<Rightarrow> bool option \<Rightarrow> (int \<times> nat) option \<Rightarrow> 'p hook_registry \<Rightarrow> 'p hook_registry" where
  "set_policy source strict timeout r =
     (let p = policy_of r source in
      r\<lparr>hr_policy := dset source
          \<lparr>po_strict = (if strict = None then po_strict p else strict),
           po_timeout_seconds = (if timeout = None then po_timeout_seconds p else timeout)\<rparr> (hr_policy r)\<rparr>)"

subsection \<open>Registration\<close>

definition add_shell_hook :: "str \<Rightarrow> str \<Rightarrow> str \<Rightarrow> bool \<Rightarrow> 'p hook_registry \<Rightarrow> 'p hook_registry option" where
  "add_shell_hook hook command source once r =
     (if hook \<notin> set hook_names then None
      else Some (r\<lparr>hr_shell_hooks := hr_shell_hooks r @
             [\<lparr>sh_hook = hook, sh_command = command, sh_source = source,
               sh_failures = (case dget (hr_retired_shell r) (hook, command, source) of None \<Rightarrow> 0 | Some n \<Rightarrow> n),
               sh_once = once, sh_ran = False\<rparr>],
           hr_retired_shell := ddel (hook, command, source) (hr_retired_shell r)\<rparr>))"

definition register_plugin_object ::
  "('p, 'w) hook_lib \<Rightarrow> str \<Rightarrow> 'p \<Rightarrow> str \<Rightarrow> doc \<Rightarrow> 'p hook_registry \<times> 'w \<Rightarrow> str option \<times> 'p hook_registry \<times> 'w" where
  \<comment> \<open>the reason of a failure; the counters taken back are lost when \<open>configure\<close> raises\<close>
  "register_plugin_object L name obj source config s =
     (let (r, w) = s in
      if \<not> json_eq (hl_api_version L obj) (JInt hook_api_version) then (Some ''incompatible hook_api_version'', r, w)
      else
        let zero = map (\<lambda>h. (h, 0)) hook_names;
            kept = (case dget (hr_retired_plugins r) (name, source) of None \<Rightarrow> [] | Some f \<Rightarrow> f);
            plugin = \<lparr>lp_name = name, lp_obj = obj, lp_source = source, lp_config = config,
                      lp_failures = dupdate zero kept\<rparr>;
            r1 = r\<lparr>hr_retired_plugins := ddel (name, source) (hr_retired_plugins r)\<rparr>;
            (raised, w1) = hl_configure L obj config w in
        if raised then (Some ''initialization failed'', r1, w1)
        else (None, r1\<lparr>hr_plugins := hr_plugins r1 @ [plugin]\<rparr>, w1))"

definition add_plugin ::
  "('p, 'w) hook_lib \<Rightarrow> str \<Rightarrow> str \<Rightarrow> doc \<Rightarrow> 'p hook_registry \<times> 'w \<Rightarrow> str option \<times> 'p hook_registry \<times> 'w" where
  "add_plugin L name source config s =
     (let (r, w) = s in
      if list_ex (\<lambda>p. lp_name p = name) (hr_plugins r) then (Some ''already loaded'', r, w)
      else if \<not> hl_installed L name then (Some ''not installed'', r, w)
      else
        case hl_make L name w of
          (None, w1) \<Rightarrow> (Some ''initialization failed'', r, w1)
        | (Some obj, w1) \<Rightarrow> register_plugin_object L name obj source config (r, w1))"

fun load_each_plugin ::
  "('p, 'w) hook_lib \<Rightarrow> (str, doc) dict \<Rightarrow> str \<Rightarrow> 'p hook_registry \<times> 'w \<Rightarrow> str list \<times> 'p hook_registry \<times> 'w" where
  "load_each_plugin L [] source s = ([], s)"
| "load_each_plugin L ((name, config) # ps) source s =
     (case add_plugin L name source config s of
        (None, s1) \<Rightarrow> load_each_plugin L ps source s1
      | (Some reason, r, w) \<Rightarrow>
          (let listed = (case dget (hr_failed_plugins r) source of None \<Rightarrow> [] | Some xs \<Rightarrow> xs);
               r1 = r\<lparr>hr_failed_plugins := dset source (listed @ [(name, reason)]) (hr_failed_plugins r)\<rparr>;
               (failed, s2) = load_each_plugin L ps source (r1, w) in
           (name # failed, s2)))"

definition load_plugins ::
  "('p, 'w) hook_lib \<Rightarrow> (str, doc) dict \<Rightarrow> str \<Rightarrow> 'p hook_registry \<times> 'w \<Rightarrow> hook_error option \<times> 'p hook_registry \<times> 'w" where
  "load_plugins L plugins source s =
     (case load_each_plugin L plugins source s of
        (failed, r, w) \<Rightarrow>
          (if failed \<noteq> [] \<and> registry_strict r then Some (PluginsNotLoaded failed source) else None, r, w))"

definition section_command :: "hooks_section \<Rightarrow> str \<Rightarrow> str option" where
  \<comment> \<open>the command a section declares explicitly for a hook\<close>
  "section_command h hook =
     (if hook \<notin> set (hk_fields_set h) then None
      else if hook = ''on_before_load'' then hk_on_before_load h
      else if hook = ''on_config_saved'' then hk_on_config_saved h
      else if hook = ''on_audit_event'' then hk_on_audit_event h else None)"

definition add_declared :: "hooks_section \<Rightarrow> str \<Rightarrow> str \<Rightarrow> 'p hook_registry \<Rightarrow> 'p hook_registry" where
  "add_declared h source hook r =
     (case section_command h hook of
        None \<Rightarrow> r
      | Some c \<Rightarrow> if c = [] then r else (case add_shell_hook hook c source False r of None \<Rightarrow> r | Some r1 \<Rightarrow> r1))"

definition configure_from_sections ::
  "('p, 'w) hook_lib \<Rightarrow> hooks_section \<Rightarrow> (str, doc) dict \<Rightarrow> str \<Rightarrow> 'p hook_registry \<times> 'w
    \<Rightarrow> hook_error option \<times> 'p hook_registry \<times> 'w" where
  "configure_from_sections L h plugins source s =
     (let (r, w) = s;
          r1 = fold (add_declared h source) hook_names r;
          r2 = set_policy source
            (if ''strict'' \<in> set (hk_fields_set h) then Some (hk_strict h) else None)
            (if ''timeout_seconds'' \<in> set (hk_fields_set h) then Some (hk_timeout_seconds h) else None) r1
      in load_plugins L plugins source (r2, w))"

definition drop_source :: "str \<Rightarrow> 'p hook_registry \<Rightarrow> 'p hook_registry" where
  "drop_source source r = r\<lparr>
     hr_retired_shell := fold (\<lambda>h d. if sh_source h = source
         then dset (sh_hook h, sh_command h, sh_source h) (sh_failures h) d else d) (hr_shell_hooks r) (hr_retired_shell r),
     hr_retired_plugins := fold (\<lambda>p d. if lp_source p = source
         then dset (lp_name p, lp_source p) (lp_failures p) d else d) (hr_plugins r) (hr_retired_plugins r),
     hr_shell_hooks := filter (\<lambda>h. sh_source h \<noteq> source) (hr_shell_hooks r),
     hr_plugins := filter (\<lambda>p. lp_source p \<noteq> source) (hr_plugins r),
     hr_failed_plugins := ddel source (hr_failed_plugins r),
     hr_policy := ddel source (hr_policy r)\<rparr>"

definition registry_snapshot :: "'p hook_registry \<Rightarrow> 'p hook_registry" where
  \<comment> \<open>the copies \<open>snapshot\<close> makes; the registry is a value here\<close>
  "registry_snapshot r = r"

definition registry_restore :: "'p hook_registry \<Rightarrow> 'p hook_registry \<Rightarrow> 'p hook_registry" where
  \<comment> \<open>every piece of state the snapshot holds\<close>
  "registry_restore snap r = r\<lparr>hr_shell_hooks := hr_shell_hooks snap, hr_plugins := hr_plugins snap,
     hr_policy := hr_policy snap, hr_retired_shell := hr_retired_shell snap,
     hr_retired_plugins := hr_retired_plugins snap, hr_failed_plugins := hr_failed_plugins snap\<rparr>"

definition replace_source ::
  "('p, 'w) hook_lib \<Rightarrow> hooks_section \<Rightarrow> (str, doc) dict \<Rightarrow> str \<Rightarrow> 'p hook_registry \<times> 'w
    \<Rightarrow> hook_error option \<times> 'p hook_registry \<times> 'w" where
  "replace_source L h plugins source s =
     (let (r, w) = s; snap = registry_snapshot r in
      case configure_from_sections L h plugins source (drop_source source r, w) of
        (Some e, r1, w1) \<Rightarrow> (Some e, registry_restore snap r1, w1)
      | (None, r1, w1) \<Rightarrow> (None, r1, w1))"

subsection \<open>Dispatch\<close>

function py_replace :: "str \<Rightarrow> str \<Rightarrow> str \<Rightarrow> str" where
  \<comment> \<open>\<open>s.replace(old, new)\<close> for a non-empty \<open>old\<close>\<close>
  "py_replace old new [] = []"
| "py_replace old new (c # cs) =
     (if old \<noteq> [] \<and> starts_with (c # cs) old then new @ py_replace old new (drop (length old) (c # cs))
      else c # py_replace old new cs)"
  by pat_completeness auto
termination
  by (relation "measure (\<lambda>(a, b, s). length s)") (auto simp: length_greater_0_conv [symmetric] simp del: length_greater_0_conv)

definition fill_placeholders :: "(str \<times> str) list \<Rightarrow> str \<Rightarrow> str" where
  "fill_placeholders ps command = fold (\<lambda>(k, v) c. py_replace (''{'' @ k @ ''}'') v c) ps command"

definition implements :: "('p, 'w) hook_lib \<Rightarrow> str \<Rightarrow> 'p loaded_plugin \<Rightarrow> bool" where
  "implements L hook p = hl_implements L (lp_obj p) hook"

definition has_hook :: "('p, 'w) hook_lib \<Rightarrow> 'p hook_registry \<Rightarrow> str \<Rightarrow> bool" where
  "has_hook L r hook \<longleftrightarrow>
     list_ex (\<lambda>h. sh_hook h = hook) (hr_shell_hooks r) \<or> list_ex (implements L hook) (hr_plugins r)"

definition due :: "str \<Rightarrow> shell_hook \<Rightarrow> bool" where
  "due hook h \<longleftrightarrow> sh_hook h = hook \<and> \<not> (sh_once h \<and> sh_ran h)"

fun dispatch_shell ::
  "('p, 'w) hook_lib \<Rightarrow> int \<times> nat \<Rightarrow> str \<Rightarrow> (str \<times> str) list \<Rightarrow> doc option \<Rightarrow> shell_hook list \<Rightarrow> 'w
    \<Rightarrow> hook_failure list \<times> shell_hook list \<times> 'w" where
  "dispatch_shell L timeout hook ps stdin [] w = ([], [], w)"
| "dispatch_shell L timeout hook ps stdin (h # hs) w =
     (if \<not> due hook h then
        (case dispatch_shell L timeout hook ps stdin hs w of (es, hs', w') \<Rightarrow> (es, h # hs', w'))
      else
        case hl_shell L (fill_placeholders ps (sh_command h)) timeout stdin w of
          (out, w1) \<Rightarrow>
            (case dispatch_shell L timeout hook ps stdin hs w1 of
               (es, hs', w') \<Rightarrow>
                 (if out = ShellOk then (es, h\<lparr>sh_ran := True\<rparr> # hs', w')
                  else (ShellFailed (sh_hook h) (sh_source h) out # es,
                        h\<lparr>sh_ran := True, sh_failures := Suc (sh_failures h)\<rparr> # hs', w'))))"

fun dispatch_plugins ::
  "('p, 'w) hook_lib \<Rightarrow> str \<Rightarrow> json list \<Rightarrow> 'p loaded_plugin list \<Rightarrow> 'w
    \<Rightarrow> hook_failure list \<times> 'p loaded_plugin list \<times> 'w" where
  "dispatch_plugins L hook args [] w = ([], [], w)"
| "dispatch_plugins L hook args (p # ps) w =
     (if \<not> implements L hook p then
        (case dispatch_plugins L hook args ps w of (es, ps', w') \<Rightarrow> (es, p # ps', w'))
      else
        case hl_call L (lp_obj p) hook args w of
          (raised, w1) \<Rightarrow>
            (case dispatch_plugins L hook args ps w1 of
               (es, ps', w') \<Rightarrow>
                 (if \<not> raised then (es, p # ps', w')
                  else
                    let n = (case dget (lp_failures p) hook of None \<Rightarrow> 0 | Some n \<Rightarrow> n) in
                    (PluginRaised (lp_name p) hook # es, p\<lparr>lp_failures := dset hook (Suc n) (lp_failures p)\<rparr> # ps', w'))))"

definition dispatch ::
  "('p, 'w) hook_lib \<Rightarrow> str \<Rightarrow> (str \<times> str) list \<Rightarrow> json list \<Rightarrow> bool \<Rightarrow> doc option \<Rightarrow> 'p hook_registry \<times> 'w
    \<Rightarrow> hook_error option \<times> 'p hook_registry \<times> 'w" where
  "dispatch L hook placeholders args propagate stdin s =
     (let (r, w) = s in
      if \<not> has_hook L r hook then (None, r, w)
      else
        case dispatch_shell L (registry_timeout r) hook placeholders stdin (hr_shell_hooks r) w of
          (es1, hs, w1) \<Rightarrow>
            (case dispatch_plugins L hook args (hr_plugins r) w1 of
               (es2, ps, w2) \<Rightarrow>
                 (if es1 @ es2 \<noteq> [] \<and> propagate then Some (HookError hook (es1 @ es2)) else None,
                  r\<lparr>hr_shell_hooks := hs, hr_plugins := ps\<rparr>, w2)))"

definition run_before_load ::
  "('p, 'w) hook_lib \<Rightarrow> str \<Rightarrow> 'p hook_registry \<times> 'w \<Rightarrow> hook_error option \<times> 'p hook_registry \<times> 'w" where
  "run_before_load L config_dir s =
     dispatch L ''on_before_load'' [(''config_dir'', config_dir)] [JStr config_dir] (registry_strict (fst s)) None s"

definition config_dir_placeholder :: "'p hook_registry \<Rightarrow> str \<Rightarrow> str" where
  "config_dir_placeholder r fallback = (case hr_config_dir r of None \<Rightarrow> fallback | Some d \<Rightarrow> d)"

definition run_config_saved ::
  "('p, 'w) hook_lib \<Rightarrow> str \<times> str \<Rightarrow> str \<Rightarrow> 'p hook_registry \<times> 'w \<Rightarrow> hook_error option \<times> 'p hook_registry \<times> 'w" where
  "run_config_saved L path kind s =
     (let p = fst path @ ''/'' @ snd path in
      dispatch L ''on_config_saved''
        [(''config_dir'', config_dir_placeholder (fst s) (fst path)), (''path'', p), (''kind'', kind)]
        [JStr p, JStr kind] (registry_strict (fst s)) None s)"

definition run_audit_event ::
  "('p, 'w) hook_lib \<Rightarrow> bool \<Rightarrow> doc \<Rightarrow> 'p hook_registry \<times> 'w \<Rightarrow> 'p hook_registry \<times> 'w" where
  \<comment> \<open>\<open>loading\<close>: an \<open>on_before_load\<close> is running on this thread\<close>
  "run_audit_event L loading event s =
     (if \<not> has_hook L (fst s) ''on_audit_event'' \<or> loading then s
      else snd (dispatch L ''on_audit_event''
        [(''config_dir'', config_dir_placeholder (fst s) []),
         (''event_type'', (case dget event ''event_type'' of Some (JStr t) \<Rightarrow> t | _ \<Rightarrow> []))]
        [JObj event] False (Some event) s))"

subsection \<open>Introspection\<close>

definition describe_shell_hook :: "shell_hook \<Rightarrow> doc" where
  "describe_shell_hook h = [(''hook'', JStr (sh_hook h)), (''source'', JStr (sh_source h)),
     (''failures'', JInt (int (sh_failures h))), (''once'', JBool (sh_once h))]"

definition describe_plugin :: "('p, 'w) hook_lib \<Rightarrow> 'p loaded_plugin \<Rightarrow> doc" where
  "describe_plugin L p = [(''name'', JStr (lp_name p)), (''hook_api_version'', hl_api_version L (lp_obj p)),
     (''hooks'', jstrs (filter (hl_implements L (lp_obj p)) hook_names)), (''source'', JStr (lp_source p)),
     (''failures'', JObj (map (\<lambda>(h, n). (h, JInt (int n))) (lp_failures p)))]"

definition describe_registry :: "('p, 'w) hook_lib \<Rightarrow> 'p hook_registry \<Rightarrow> doc" where
  "describe_registry L r =
     [(''hook_api_version'', JInt hook_api_version), (''strict'', JBool (registry_strict r)),
      (''timeout_seconds'', JDec (fst (registry_timeout r)) (snd (registry_timeout r))),
      (''shell_hooks'', JList (map (JObj \<circ> describe_shell_hook) (hr_shell_hooks r))),
      (''plugins'', JList (map (JObj \<circ> describe_plugin L) (hr_plugins r))),
      (''plugins_failed'', JList (concat (map (\<lambda>(source, entries).
         map (\<lambda>(name, reason). JObj [(''name'', JStr name), (''source'', JStr source), (''reason'', JStr reason)]) entries)
         (hr_failed_plugins r))))]"

subsection \<open>The bootstrap surface\<close>

definition bare_mapping :: "json \<Rightarrow> json" where
  "bare_mapping v = (if v = JNull then JObj [] else v)"

definition bootstrap_errors :: "pydantic \<Rightarrow> doc \<Rightarrow> path list" where
  \<comment> \<open>\<open>BootstrapDocument\<close>\<close>
  "bootstrap_errors V d =
     field_errors (\<lambda>v. as_model (hooks_errors V) (hooks_value V) (bare_mapping v)) d ''hooks''
     @ field_errors validate_plugins_mapping d ''plugins''"

definition bootstrap_value :: "pydantic \<Rightarrow> doc \<Rightarrow> hooks_section \<times> (str, doc) dict" where
  "bootstrap_value V d =
     (field_value (\<lambda>v. as_model (hooks_errors V) (hooks_value V) (bare_mapping v)) (hooks_value V []) d ''hooks'',
      field_value validate_plugins_mapping [] d ''plugins'')"

definition bootstrap_unknown :: "doc \<Rightarrow> path list" where
  "bootstrap_unknown d = section_extras ''hooks'' hooks_keys d @ extras [''hooks'', ''plugins''] d"

definition load_bootstrap_document :: "pydantic \<Rightarrow> bool \<Rightarrow> doc \<Rightarrow> load_error + hooks_section \<times> (str, doc) dict" where
  "load_bootstrap_document V strict d = load_document 2 strict (bootstrap_errors V) bootstrap_unknown (bootstrap_value V) d"

definition env_prefix :: "str \<Rightarrow> str" where
  "env_prefix plugin_name =
     ''NANOIDP_PLUGIN_'' @ map (\<lambda>c. if c = CHR ''-'' then CHR ''_'' else c) (py_upper plugin_name) @ ''_''"

definition plugin_settings_from_env :: "str \<Rightarrow> (str, str) dict \<Rightarrow> doc" where
  "plugin_settings_from_env plugin_name environ =
     fold (\<lambda>(k, v) d. if starts_with k (env_prefix plugin_name) \<and> length (env_prefix plugin_name) < length k
         then dset (py_lower (drop (length (env_prefix plugin_name)) k)) (JStr v) d else d) environ []"

datatype bootstrap_error = BootstrapDocument load_error | BootstrapHook hook_error

definition bootstrap_registry ::
  "('p, 'w) hook_lib \<Rightarrow> pydantic \<Rightarrow> (str, str) dict \<Rightarrow> bool \<Rightarrow> str \<Rightarrow> json option \<Rightarrow> 'w
    \<Rightarrow> (bootstrap_error + 'p hook_registry) \<times> 'w" where
  \<comment> \<open>the parsed \<open>bootstrap.yaml\<close>, if there is one\<close>
  "bootstrap_registry L V environ strict_config config_dir file w =
     (let from_file =
        (case file of
           None \<Rightarrow> (Inr (new_registry (Some config_dir)), w)
         | Some raw \<Rightarrow>
             (case expand_env_vars (dget environ) (if json_true raw then raw else JObj []) of
                JObj d \<Rightarrow>
                  (case load_bootstrap_document V strict_config d of
                     Inl e \<Rightarrow> (Inl (BootstrapDocument e), w)
                   | Inr (hooks, plugins) \<Rightarrow>
                       (case configure_from_sections L hooks plugins source_bootstrap_file (new_registry (Some config_dir), w) of
                          (Some e, r, w1) \<Rightarrow> (Inl (BootstrapHook e), w1)
                        | (None, r, w1) \<Rightarrow>
                            (Inr (r\<lparr>hr_shell_hooks := map (\<lambda>h.
                               if sh_source h = source_bootstrap_file \<and> sh_hook h = ''on_before_load''
                               then h\<lparr>sh_once := True\<rparr> else h) (hr_shell_hooks r)\<rparr>), w1)))
              | _ \<Rightarrow> (Inl (BootstrapDocument (InvalidValue [])), w)))
      in case from_file of
           (Inl e, w1) \<Rightarrow> (Inl e, w1)
         | (Inr r, w1) \<Rightarrow>
             (let r1 = (case or_none (case dget environ ''NANOIDP_BOOTSTRAP_HOOK'' of None \<Rightarrow> [] | Some c \<Rightarrow> c) of
                  None \<Rightarrow> r
                | Some c \<Rightarrow> (case add_shell_hook ''on_before_load'' c source_bootstrap_env True r of None \<Rightarrow> r | Some r' \<Rightarrow> r')) in
              case or_none (case dget environ ''NANOIDP_BOOTSTRAP_PLUGIN'' of None \<Rightarrow> [] | Some n \<Rightarrow> n) of
                None \<Rightarrow> (Inr r1, w1)
              | Some n \<Rightarrow>
                  (case load_plugins L [(n, plugin_settings_from_env n environ)] source_bootstrap_env (r1, w1) of
                     (Some e, r2, w2) \<Rightarrow> (Inl (BootstrapHook e), w2)
                   | (None, r2, w2) \<Rightarrow> (Inr r2, w2))))"

subsection \<open>What registration keeps\<close>

lemma add_plugin_keeps:
  "add_plugin L name source config (r, w) = (e, r', w') \<Longrightarrow>
    hr_config_dir r' = hr_config_dir r \<and> hr_shell_hooks r' = hr_shell_hooks r
    \<and> filter (\<lambda>p. lp_source p \<noteq> source) (hr_plugins r') = filter (\<lambda>p. lp_source p \<noteq> source) (hr_plugins r)"
  by (auto simp: add_plugin_def register_plugin_object_def Let_def split: if_splits prod.splits option.splits)

lemma load_each_plugin_keeps:
  "load_each_plugin L ps source (r, w) = (failed, r', w') \<Longrightarrow>
    hr_config_dir r' = hr_config_dir r \<and> hr_shell_hooks r' = hr_shell_hooks r
    \<and> filter (\<lambda>p. lp_source p \<noteq> source) (hr_plugins r') = filter (\<lambda>p. lp_source p \<noteq> source) (hr_plugins r)"
proof (induction ps arbitrary: r w failed r' w')
  case (Cons x ps)
  obtain name config where x: "x = (name, config)" by (cases x)
  obtain e r1 w1 where one: "add_plugin L name source config (r, w) = (e, r1, w1)" by (metis prod_cases3)
  note keeps = add_plugin_keeps [OF one]
  show ?case
  proof (cases e)
    case None
    then show ?thesis using Cons one keeps by (simp add: x)
  next
    case (Some reason)
    let ?r = "r1\<lparr>hr_failed_plugins := dset source ((case dget (hr_failed_plugins r1) source of None \<Rightarrow> [] | Some xs \<Rightarrow> xs)
      @ [(name, reason)]) (hr_failed_plugins r1)\<rparr>"
    obtain failed' r2 w2 where rest: "load_each_plugin L ps source (?r, w1) = (failed', r2, w2)" by (metis prod_cases3)
    have "r' = r2" using Cons.prems one Some rest by (auto simp: x Let_def)
    with Cons.IH [OF rest] keeps show ?thesis by simp
  qed
qed simp

lemma add_declared_keeps:
  "hr_config_dir (add_declared h source hook r) = hr_config_dir r
    \<and> hr_plugins (add_declared h source hook r) = hr_plugins r
    \<and> filter (\<lambda>h. sh_source h \<noteq> source) (hr_shell_hooks (add_declared h source hook r)) =
      filter (\<lambda>h. sh_source h \<noteq> source) (hr_shell_hooks r)"
  by (auto simp: add_declared_def add_shell_hook_def split: option.split)

lemma configure_keeps:
  assumes "configure_from_sections L h plugins source (r, w) = (e, r', w')"
  shows "hr_config_dir r' = hr_config_dir r"
    and "filter (\<lambda>h. sh_source h \<noteq> source) (hr_shell_hooks r') = filter (\<lambda>h. sh_source h \<noteq> source) (hr_shell_hooks r)"
    and "filter (\<lambda>p. lp_source p \<noteq> source) (hr_plugins r') = filter (\<lambda>p. lp_source p \<noteq> source) (hr_plugins r)"
proof -
  let ?r1 = "fold (add_declared h source) hook_names r"
  have fold: "hr_config_dir (fold (add_declared h source) hs q) = hr_config_dir q
      \<and> hr_plugins (fold (add_declared h source) hs q) = hr_plugins q
      \<and> filter (\<lambda>h. sh_source h \<noteq> source) (hr_shell_hooks (fold (add_declared h source) hs q)) =
        filter (\<lambda>h. sh_source h \<noteq> source) (hr_shell_hooks q)" for hs q
    by (induction hs arbitrary: q) (auto simp: add_declared_keeps)
  obtain b t where "load_plugins L plugins source (set_policy source b t ?r1, w) = (e, r', w')"
    using assms by (simp add: configure_from_sections_def Let_def)
  then obtain failed where "load_each_plugin L plugins source (set_policy source b t ?r1, w) = (failed, r', w')"
    by (auto simp: load_plugins_def split: prod.splits)
  from load_each_plugin_keeps [OF this] fold [of hook_names r]
  show "hr_config_dir r' = hr_config_dir r"
    "filter (\<lambda>h. sh_source h \<noteq> source) (hr_shell_hooks r') = filter (\<lambda>h. sh_source h \<noteq> source) (hr_shell_hooks r)"
    "filter (\<lambda>p. lp_source p \<noteq> source) (hr_plugins r') = filter (\<lambda>p. lp_source p \<noteq> source) (hr_plugins r)"
    by (simp_all add: set_policy_def Let_def)
qed

lemma replace_source_failed:
  assumes "replace_source L h plugins source (r, w) = (Some e, r', w')"
  shows "r' = r"
proof -
  obtain r1 where r1: "configure_from_sections L h plugins source (drop_source source r, w) = (Some e, r1, w')"
    "r' = registry_restore r r1"
    using assms by (auto simp: replace_source_def registry_snapshot_def Let_def split: prod.splits option.splits)
  have "hr_config_dir r1 = hr_config_dir r" using configure_keeps(1) [OF r1(1)] by (simp add: drop_source_def)
  then show ?thesis unfolding r1(2) by (cases r) (simp add: registry_restore_def)
qed

lemma replace_source_keeps_others:
  assumes "replace_source L h plugins source (r, w) = (e, r', w')"
  shows "filter (\<lambda>h. sh_source h \<noteq> source) (hr_shell_hooks r') = filter (\<lambda>h. sh_source h \<noteq> source) (hr_shell_hooks r)
    \<and> filter (\<lambda>p. lp_source p \<noteq> source) (hr_plugins r') = filter (\<lambda>p. lp_source p \<noteq> source) (hr_plugins r)"
proof (cases e)
  case None
  then have "configure_from_sections L h plugins source (drop_source source r, w) = (None, r', w')"
    using assms by (auto simp: replace_source_def Let_def split: prod.splits option.splits)
  from configure_keeps(2,3) [OF this] show ?thesis by (simp add: drop_source_def)
next
  case (Some x)
  then have "r' = r" using assms by (intro replace_source_failed) simp
  then show ?thesis by simp
qed

subsection \<open>What a dispatch does\<close>

lemma dispatch_shell_hooks:
  "dispatch_shell L t hook ps stdin hs w = (es, hs', w') \<Longrightarrow>
    list_all2 (\<lambda>h h'. sh_hook h' = sh_hook h \<and> sh_command h' = sh_command h \<and> sh_source h' = sh_source h
      \<and> sh_once h' = sh_once h \<and> (sh_ran h' \<longleftrightarrow> sh_ran h \<or> due hook h)
      \<and> (sh_failures h' = sh_failures h \<or> due hook h \<and> sh_failures h' = Suc (sh_failures h))) hs hs'"
proof (induction hs arbitrary: w es hs')
  case (Cons h hs)
  show ?case
  proof (cases "due hook h")
    case False
    then show ?thesis using Cons by (auto split: prod.splits)
  next
    case True
    then show ?thesis using Cons by (auto split: prod.splits if_splits)
  qed
qed simp

subsection \<open>Runs of the registry\<close>

inductive registry_step :: "('p, 'w) hook_lib \<Rightarrow> 'p hook_registry \<times> 'w \<Rightarrow> 'p hook_registry \<times> 'w \<Rightarrow> bool" for L where
  before_load: "registry_step L s (snd (run_before_load L dir s))"
| config_saved: "registry_step L s (snd (run_config_saved L path kind s))"
| audit_event: "registry_step L s (run_audit_event L loading event s)"
| replaced: "registry_step L s (snd (replace_source L h plugins source_settings s))"
| dropped: "registry_step L (r, w) (drop_source source_settings r, w)"

definition bootstrap_ran :: "'p hook_registry \<Rightarrow> bool" where
  \<comment> \<open>every load hook from outside \<open>settings.yaml\<close> has run\<close>
  "bootstrap_ran r \<longleftrightarrow>
     (\<forall>h \<in> set (hr_shell_hooks r). sh_source h \<noteq> source_settings \<and> sh_hook h = ''on_before_load'' \<longrightarrow> sh_ran h)"

lemma bootstrap_ran_foreign:
  "bootstrap_ran r \<longleftrightarrow> (\<forall>h \<in> set (filter (\<lambda>h. sh_source h \<noteq> source_settings) (hr_shell_hooks r)).
     sh_hook h = ''on_before_load'' \<longrightarrow> sh_ran h)"
  by (auto simp: bootstrap_ran_def)

lemma dispatch_hooks:
  assumes "dispatch L hook ps args propagate stdin (r, w) = (e, r', w')"
  shows "list_all2 (\<lambda>h h'. sh_hook h' = sh_hook h \<and> sh_source h' = sh_source h \<and> sh_once h' = sh_once h
      \<and> (sh_ran h \<longrightarrow> sh_ran h')) (hr_shell_hooks r) (hr_shell_hooks r')"
    and "\<forall>h' \<in> set (hr_shell_hooks r'). sh_hook h' = hook \<longrightarrow> sh_ran h'"
proof -
  note all = list_all2_refl
  show "list_all2 (\<lambda>h h'. sh_hook h' = sh_hook h \<and> sh_source h' = sh_source h \<and> sh_once h' = sh_once h
      \<and> (sh_ran h \<longrightarrow> sh_ran h')) (hr_shell_hooks r) (hr_shell_hooks r')"
  proof (cases "has_hook L r hook")
    case False
    then show ?thesis using assms by (simp add: dispatch_def list_all2_refl)
  next
    case True
    then obtain es hs' w1 where "dispatch_shell L (registry_timeout r) hook ps stdin (hr_shell_hooks r) w = (es, hs', w1)"
      "hr_shell_hooks r' = hs'"
      using assms by (auto simp: dispatch_def split: prod.splits)
    with dispatch_shell_hooks [OF this(1)] show ?thesis by (auto elim: list_all2_mono)
  qed
  show "\<forall>h' \<in> set (hr_shell_hooks r'). sh_hook h' = hook \<longrightarrow> sh_ran h'"
  proof (cases "has_hook L r hook")
    case False
    then show ?thesis using assms by (auto simp: dispatch_def has_hook_def list_ex_iff)
  next
    case True
    then obtain es hs' w1 where d: "dispatch_shell L (registry_timeout r) hook ps stdin (hr_shell_hooks r) w = (es, hs', w1)"
      "hr_shell_hooks r' = hs'"
      using assms by (auto simp: dispatch_def split: prod.splits)
    have "\<forall>h' \<in> set hs'. sh_hook h' = hook \<longrightarrow> sh_ran h'"
      using dispatch_shell_hooks [OF d(1)] by (auto simp: list_all2_conv_all_nth in_set_conv_nth due_def)
    with d(2) show ?thesis by simp
  qed
qed

lemma dispatch_bootstrap_ran:
  assumes "dispatch L hook ps args propagate stdin (r, w) = (e, r', w')" "bootstrap_ran r"
  shows "bootstrap_ran r'"
  using dispatch_hooks(1) [OF assms(1)] assms(2)
  by (fastforce simp: bootstrap_ran_def list_all2_conv_all_nth in_set_conv_nth)

lemma dispatch_state_bootstrap_ran:
  "bootstrap_ran (fst s) \<Longrightarrow> bootstrap_ran (fst (snd (dispatch L hook ps args propagate stdin s)))"
proof -
  assume ran: "bootstrap_ran (fst s)"
  obtain r w where s: "s = (r, w)" by (cases s)
  obtain e r' w' where d: "dispatch L hook ps args propagate stdin (r, w) = (e, r', w')" by (metis prod_cases3)
  show ?thesis using dispatch_bootstrap_ran [OF d] ran by (simp add: s d)
qed

lemma step_bootstrap_ran:
  assumes "registry_step L s s'" "bootstrap_ran (fst s)"
  shows "bootstrap_ran (fst s')"
  using assms(1)
proof (cases rule: registry_step.cases)
  case (replaced h plugins)
  obtain r w where s: "s = (r, w)" by (cases s)
  obtain e r' w' where d: "replace_source L h plugins source_settings (r, w) = (e, r', w')" by (metis prod_cases3)
  show ?thesis
    using replace_source_keeps_others [OF d] assms(2) unfolding bootstrap_ran_foreign by (simp add: replaced s d)
next
  case (dropped r w)
  then show ?thesis using assms(2) by (simp add: bootstrap_ran_def drop_source_def)
qed (use assms(2) in \<open>simp_all add: run_before_load_def run_config_saved_def run_audit_event_def Let_def
  dispatch_state_bootstrap_ran\<close>)

lemma steps_bootstrap_ran:
  "(registry_step L)\<^sup>*\<^sup>* s s' \<Longrightarrow> bootstrap_ran (fst s) \<Longrightarrow> bootstrap_ran (fst s')"
  by (induction rule: rtranclp_induct) (auto intro: step_bootstrap_ran)

lemma first_load_ran:
  assumes "run_before_load L dir (r, w) = (e, r1, w1)"
  shows "bootstrap_ran r1"
  using dispatch_hooks(2) [OF assms [unfolded run_before_load_def]] by (simp add: bootstrap_ran_def)

lemma once_not_due: "bootstrap_ran r \<Longrightarrow> h \<in> set (hr_shell_hooks r) \<Longrightarrow> sh_source h \<noteq> source_settings \<Longrightarrow> sh_once h \<Longrightarrow>
    \<not> due ''on_before_load'' h"
  by (auto simp: bootstrap_ran_def due_def)

subsection \<open>Hooks that leave a part of the world alone\<close>

definition leaves :: "('p, 'w) hook_lib \<Rightarrow> ('w \<Rightarrow> 'v) \<Rightarrow> bool" where
  \<comment> \<open>no command and no plugin changes what \<open>v\<close> reads of the world\<close>
  "leaves L v \<longleftrightarrow>
     (\<forall>c t i w. v (snd (hl_shell L c t i w)) = v w) \<and> (\<forall>p h a w. v (snd (hl_call L p h a w)) = v w)
     \<and> (\<forall>n w. v (snd (hl_make L n w)) = v w) \<and> (\<forall>p d w. v (snd (hl_configure L p d w)) = v w)"

lemma leavesD:
  assumes "leaves L v"
  shows "hl_shell L c t i w = (out, w') \<Longrightarrow> v w' = v w" "hl_call L p h a w = (raised, w') \<Longrightarrow> v w' = v w"
    "hl_make L n w = (obj, w') \<Longrightarrow> v w' = v w" "hl_configure L p d w = (raised, w') \<Longrightarrow> v w' = v w"
  using assms unfolding leaves_def by (metis snd_conv)+

lemma dispatch_shell_leaves:
  assumes "leaves L v"
  shows "dispatch_shell L t hook ps stdin hs w = (es, hs', w') \<Longrightarrow> v w' = v w"
proof (induction hs arbitrary: w es hs' w')
  case (Cons h hs)
  show ?case
  proof (cases "due hook h")
    case False
    then show ?thesis using Cons by (auto split: prod.splits)
  next
    case True
    obtain out w1 where out: "hl_shell L (fill_placeholders ps (sh_command h)) t stdin w = (out, w1)" by fastforce
    obtain es1 hs1 w2 where rest: "dispatch_shell L t hook ps stdin hs w1 = (es1, hs1, w2)" by (metis prod_cases3)
    have "w' = w2" using Cons.prems True out rest by (auto split: if_splits)
    then show ?thesis using Cons.IH [OF rest] leavesD(1) [OF assms out] by simp
  qed
qed simp

lemma dispatch_plugins_leaves:
  assumes "leaves L v"
  shows "dispatch_plugins L hook args ps w = (es, ps', w') \<Longrightarrow> v w' = v w"
proof (induction ps arbitrary: w es ps' w')
  case (Cons p ps)
  show ?case
  proof (cases "implements L hook p")
    case False
    then show ?thesis using Cons by (auto split: prod.splits)
  next
    case True
    obtain raised w1 where out: "hl_call L (lp_obj p) hook args w = (raised, w1)" by fastforce
    obtain es1 ps1 w2 where rest: "dispatch_plugins L hook args ps w1 = (es1, ps1, w2)" by (metis prod_cases3)
    have "w' = w2" using Cons.prems True out rest by (auto simp: Let_def split: if_splits)
    then show ?thesis using Cons.IH [OF rest] leavesD(2) [OF assms out] by simp
  qed
qed simp

lemma dispatch_leaves:
  assumes "leaves L v" "dispatch L hook ps args propagate stdin (r, w) = (e, r', w')"
  shows "v w' = v w"
proof (cases "has_hook L r hook")
  case True
  obtain es1 hs w1 where shell: "dispatch_shell L (registry_timeout r) hook ps stdin (hr_shell_hooks r) w = (es1, hs, w1)"
    by (metis prod_cases3)
  obtain es2 pls w2 where plugins: "dispatch_plugins L hook args (hr_plugins r) w1 = (es2, pls, w2)" by (metis prod_cases3)
  have "w' = w2" using assms(2) True shell plugins by (simp add: dispatch_def)
  then show ?thesis
    using dispatch_shell_leaves [OF assms(1) shell] dispatch_plugins_leaves [OF assms(1) plugins] by simp
qed (use assms(2) in \<open>simp add: dispatch_def\<close>)

lemma register_plugin_leaves:
  assumes "leaves L v" "register_plugin_object L name obj source config (r, w) = (e, r', w')"
  shows "v w' = v w"
  using assms(2) leavesD(4) [OF assms(1)]
  by (fastforce simp: register_plugin_object_def Let_def split: if_splits prod.splits)

lemma add_plugin_leaves:
  assumes "leaves L v" "add_plugin L name source config (r, w) = (e, r', w')"
  shows "v w' = v w"
proof (cases "list_ex (\<lambda>p. lp_name p = name) (hr_plugins r) \<or> \<not> hl_installed L name")
  case False
  obtain made w1 where made: "hl_make L name w = (made, w1)" by fastforce
  show ?thesis
  proof (cases made)
    case None
    then show ?thesis using assms(2) False made leavesD(3) [OF assms(1) made] by (auto simp: add_plugin_def)
  next
    case (Some obj)
    then have "register_plugin_object L name obj source config (r, w1) = (e, r', w')"
      using assms(2) False made by (simp add: add_plugin_def)
    from register_plugin_leaves [OF assms(1) this] leavesD(3) [OF assms(1) made] show ?thesis by simp
  qed
qed (use assms(2) in \<open>auto simp: add_plugin_def split: if_splits\<close>)

lemma load_each_plugin_leaves:
  assumes "leaves L v"
  shows "load_each_plugin L ps source (r, w) = (failed, r', w') \<Longrightarrow> v w' = v w"
proof (induction ps arbitrary: r w failed r' w')
  case (Cons x ps)
  obtain name config where x: "x = (name, config)" by (cases x)
  obtain e r1 w1 where one: "add_plugin L name source config (r, w) = (e, r1, w1)" by (metis prod_cases3)
  obtain r2 failed' where "load_each_plugin L ps source (r2, w1) = (failed', r', w')"
    using Cons.prems one by (cases e) (auto simp: x Let_def split: prod.splits)
  from Cons.IH [OF this] add_plugin_leaves [OF assms one] show ?case by simp
qed simp

lemma replace_source_leaves:
  assumes "leaves L v" "replace_source L h plugins source (r, w) = (e, r', w')"
  shows "v w' = v w"
proof -
  obtain e1 r1 where "configure_from_sections L h plugins source (drop_source source r, w) = (e1, r1, w')"
    using assms(2) by (auto simp: replace_source_def Let_def split: prod.splits option.splits)
  then obtain r2 failed where "load_each_plugin L plugins source (r2, w) = (failed, r1, w')"
    by (auto simp: configure_from_sections_def load_plugins_def Let_def split: prod.splits)
  then show ?thesis by (rule load_each_plugin_leaves [OF assms(1)])
qed

subsection \<open>Sample hooks\<close>

definition sample_hook_lib :: "(str, str list) hook_lib" where
  \<comment> \<open>a world that is the log of what ran; a command that starts with \<open>f\<close> fails\<close>
  "sample_hook_lib = \<lparr>hl_shell = (\<lambda>c t i w. (if take 1 c = ''f'' then ShellExit 1 else ShellOk, w @ [c])),
     hl_call = (\<lambda>p h a w. (False, w @ [p])), hl_implements = (\<lambda>p h. h = ''on_config_saved''), hl_installed = (\<lambda>n. n = ''git''),
     hl_make = (\<lambda>n w. (Some n, w)), hl_api_version = (\<lambda>p. JInt 1), hl_configure = (\<lambda>p d w. (False, w))\<rparr>"

definition sample_registry :: "str hook_registry" where
  "sample_registry = (new_registry (Some ''cfg''))\<lparr>hr_shell_hooks :=
     [\<lparr>sh_hook = ''on_before_load'', sh_command = ''fetch'', sh_source = source_bootstrap_env, sh_failures = 0,
       sh_once = True, sh_ran = False\<rparr>]\<rparr>"

subsection \<open>Properties\<close>

text \<open>
  A load hook of the bootstrap surface runs once: whatever happens to the registry after the first
  load (reloads, saves, audit events, replaced or dropped declarations of \<open>settings.yaml\<close>, hooks that
  fail), it is never due again.
\<close>

theorem bootstrap_hooks_run_once:
  assumes "run_before_load L dir (r, w) = (e, r1, w1)" "(registry_step L)\<^sup>*\<^sup>* (r1, w1) (r2, w2)"
    "h \<in> set (hr_shell_hooks r2)" "sh_source h \<noteq> source_settings" "sh_once h"
  shows "\<not> due ''on_before_load'' h"
proof -
  have "bootstrap_ran r2" using steps_bootstrap_ran [OF assms(2)] first_load_ran [OF assms(1)] by simp
  then show ?thesis using assms(3-5) by (rule once_not_due)
qed

theorem bootstrap_hooks_run_once_witness:
  "\<exists>r1 w1 h. run_before_load sample_hook_lib ''cfg'' (sample_registry, []) = (None, r1, w1) \<and> w1 = [''fetch'']
    \<and> hr_shell_hooks r1 = [h] \<and> \<not> due ''on_before_load'' h"
proof -
  let ?h = "\<lparr>sh_hook = ''on_before_load'', sh_command = ''fetch'', sh_source = source_bootstrap_env, sh_failures = 1,
    sh_once = True, sh_ran = True\<rparr>"
  let ?r1 = "sample_registry\<lparr>hr_shell_hooks := [?h]\<rparr>"
  have run: "run_before_load sample_hook_lib ''cfg'' (sample_registry, []) = (None, ?r1, [''fetch''])" by code_simp
  have "sh_source ?h \<noteq> source_settings" by code_simp
  then have "\<not> due ''on_before_load'' ?h"
    by (intro bootstrap_hooks_run_once [OF run rtranclp.rtrancl_refl]) simp_all
  with run show ?thesis by auto
qed

text \<open>
  Replacing what \<open>settings.yaml\<close> declares is a transaction: when it fails, the registry is what it
  was, and whether or not it fails, the hooks and plugins of every other source stay as they were, in
  their order.
\<close>

theorem replacing_a_source_is_a_transaction:
  assumes "replace_source L h plugins source (r, w) = (e, r', w')"
  shows "(e \<noteq> None \<longrightarrow> r' = r)
    \<and> filter (\<lambda>h. sh_source h \<noteq> source) (hr_shell_hooks r') = filter (\<lambda>h. sh_source h \<noteq> source) (hr_shell_hooks r)
    \<and> filter (\<lambda>p. lp_source p \<noteq> source) (hr_plugins r') = filter (\<lambda>p. lp_source p \<noteq> source) (hr_plugins r)"
proof (cases e)
  case (Some x)
  then have "r' = r" using assms by (intro replace_source_failed) simp
  then show ?thesis by simp
qed (use replace_source_keeps_others [OF assms] in simp)

theorem replacing_a_source_is_a_transaction_witness:
  "\<exists>e. fst (replace_source sample_hook_lib (hooks_value \<lparr>pd_int = (\<lambda>_. None), pd_bool = (\<lambda>v. Some True),
      pd_float = (\<lambda>_. None), pd_rate = (\<lambda>_. True)\<rparr> [(''strict'', JBool True)]) [(''absent'', [])] source_settings
      (sample_registry, [])) = Some e
    \<and> fst (snd (replace_source sample_hook_lib (hooks_value \<lparr>pd_int = (\<lambda>_. None), pd_bool = (\<lambda>v. Some True),
      pd_float = (\<lambda>_. None), pd_rate = (\<lambda>_. True)\<rparr> [(''strict'', JBool True)]) [(''absent'', [])] source_settings
      (sample_registry, []))) = sample_registry" (is "\<exists>e. fst ?x = Some e \<and> fst (snd ?x) = _")
proof -
  have e: "fst ?x = Some (PluginsNotLoaded [''absent''] source_settings)" by code_simp
  obtain r' w' where x: "?x = (fst ?x, r', w')" by (metis prod.collapse)
  then have "fst (snd ?x) = r'" by (metis fst_conv snd_conv)
  moreover have "r' = sample_registry" using replacing_a_source_is_a_transaction [OF x] e by simp
  ultimately show ?thesis using e by simp
qed

end
