(* ===== verification/Config_Manager.thy ===== *)
theory Config_Manager
  imports Config_Writer Hooks Settings_Reload
begin

text \<open>
  \<open>config.py\<close>: the manager that holds the running configuration, loads the directory as one
  transaction, applies the security profile, and saves. The world that hooks may change is the disk.
  The operating system, the YAML library, pydantic and the hooks are one environment \<open>menv\<close>.
\<close>

record 'p menv =
  me_hooks :: "('p, disk) hook_lib"
  me_pydantic :: pydantic
  me_env :: env
  me_write :: write_env

definition me_yaml :: "'p menv \<Rightarrow> yaml" where
  "me_yaml M = we_yaml (me_write M)"

record declared =
  \<comment> \<open>the values of the file that the profile overrides, for the fields it overrides\<close>
  de_security_profile :: "str option"
  de_rate_limit_enabled :: "bool option"
  de_password_hashing :: "bool option"
  de_require_pkce :: "bool option"
  de_debug :: "bool option"

definition nothing_declared :: declared where
  "nothing_declared = \<lparr>de_security_profile = None, de_rate_limit_enabled = None, de_password_hashing = None,
     de_require_pkce = None, de_debug = None\<rparr>"

type_synonym plugin_map = "(str, doc) dict"

record 'p manager =
  cm_dir :: str
  cm_profile_override :: "str option"
  cm_strict_override :: "bool option"
  cm_strict :: bool
  cm_declared :: declared
  cm_config :: config
  cm_version :: int
  cm_hooks :: "'p hook_registry"
  cm_hooks_snapshot :: "(hooks_section \<times> plugin_map) option"
  cm_users_revision :: str
  cm_settings_revision :: str

definition settings_file :: "'p manager \<Rightarrow> file_path" where
  "settings_file m = (cm_dir m, ''settings.yaml'')"

definition users_file :: "'p manager \<Rightarrow> file_path" where
  "users_file m = (cm_dir m, ''users.yaml'')"

datatype stage_error = Unreadable file_path | BadDocument file_path load_error

datatype manager_error = FromHook hook_error | FromStage stage_error

subsection \<open>Profiles\<close>

definition apply_hardening :: "settings \<Rightarrow> declared \<Rightarrow> settings \<times> declared" where
  \<comment> \<open>the loop over \<open>_STRICTER_DEV_HARDENING\<close>\<close>
  "apply_hardening s de =
     (s\<lparr>s_rate_limit_enabled := True, s_password_hashing := True, s_require_pkce := True, s_debug := False\<rparr>,
      de\<lparr>de_rate_limit_enabled := Some (s_rate_limit_enabled s), de_password_hashing := Some (s_password_hashing s),
         de_require_pkce := Some (s_require_pkce s), de_debug := Some (s_debug s)\<rparr>)"

definition apply_profile :: "str option \<Rightarrow> settings \<Rightarrow> settings \<times> declared" where
  "apply_profile override s =
     (let (s1, de) =
        (case override of
           None \<Rightarrow> (s, nothing_declared)
         | Some p \<Rightarrow> (s\<lparr>s_security_profile := p\<rparr>, nothing_declared\<lparr>de_security_profile := Some (s_security_profile s)\<rparr>))
      in if s_security_profile s1 = ''stricter-dev'' then apply_hardening s1 de else (s1, de))"

definition declared_settings :: "declared \<Rightarrow> settings \<Rightarrow> settings" where
  \<comment> \<open>\<open>settings.model_copy(update=declared)\<close>\<close>
  "declared_settings de s =
     s\<lparr>s_security_profile := (case de_security_profile de of None \<Rightarrow> s_security_profile s | Some v \<Rightarrow> v),
       s_rate_limit_enabled := (case de_rate_limit_enabled de of None \<Rightarrow> s_rate_limit_enabled s | Some v \<Rightarrow> v),
       s_password_hashing := (case de_password_hashing de of None \<Rightarrow> s_password_hashing s | Some v \<Rightarrow> v),
       s_require_pkce := (case de_require_pkce de of None \<Rightarrow> s_require_pkce s | Some v \<Rightarrow> v),
       s_debug := (case de_debug de of None \<Rightarrow> s_debug s | Some v \<Rightarrow> v)\<rparr>"

definition persistable_settings :: "'p manager \<Rightarrow> settings" where
  "persistable_settings m =
     (if cm_declared m = nothing_declared then c_settings (cm_config m)
      else declared_settings (cm_declared m) (c_settings (cm_config m)))"

subsection \<open>Defaults of a directory without files\<close>

definition default_settings :: "pydantic \<Rightarrow> env \<Rightarrow> load_error + settings" where
  "default_settings V env =
     andthen (to_settings V env
       ((settings_value V [])\<lparr>sd_authority_prefixes := [(''roles'', ''ROLE_''), (''groups'', ''GROUP_''),
            (''identity_class'', ''IDENTITY_''), (''entitlements'', ''ENT_'')],
          sd_allowed_identity_classes := [''INTERNAL'', ''EXTERNAL'', ''PARTNER'', ''SERVICE'']\<rparr>))
       (\<lambda>s. Inr (s\<lparr>s_clients :=
          [\<lparr>cl_client_id = ''demo-client'', cl_client_secret = Some ''demo-secret'', cl_auth_method = ClientSecretBasic,
            cl_description = ''Default demo client'', cl_background_color = None, cl_header_color = None,
            cl_footer_color = None, cl_show_client_id = True, cl_show_description = False,
            cl_additional_audiences = [], cl_redirect_uris = [], cl_allowed_scopes = [], cl_allowed_resources = [],
            cl_layout = ''vertical''\<rparr>]\<rparr>))"

definition default_users :: "(str, user) dict" where
  "default_users = [(''admin'', \<lparr>u_username = ''admin'', u_password = Some ''admin'', u_description = [],
     u_email = ''admin@example.org'', u_identity_class = Some ''INTERNAL'', u_entitlements = [],
     u_roles = [''USER'', ''ADMIN''], u_groups = [], u_tenant = ''default'', u_source_acl = [], u_attributes = []\<rparr>)]"

subsection \<open>Staging\<close>

definition effective_strict :: "'p manager \<Rightarrow> str \<Rightarrow> bool" where
  "effective_strict m declared_mode =
     (case cm_strict_override m of Some b \<Rightarrow> b | None \<Rightarrow> declared_mode = ''strict'')"

definition peek_validation_mode :: "yaml \<Rightarrow> str \<Rightarrow> disk \<Rightarrow> str" where
  "peek_validation_mode Y dir fs =
     (case fs (dir, ''settings.yaml'') of
        None \<Rightarrow> ''warn''
      | Some raw \<Rightarrow>
          (case yl_safe_load Y raw of
             Some (JObj d) \<Rightarrow> declared_validation_mode d
           | _ \<Rightarrow> ''warn''))"

definition read_mapping :: "yaml \<Rightarrow> bytes \<Rightarrow> doc option" where
  \<comment> \<open>\<open>yaml.safe_load(raw) or {}\<close>; on a value that is no mapping the first \<open>get\<close> raises\<close>
  "read_mapping Y raw =
     (case yl_safe_load Y raw of
        None \<Rightarrow> None
      | Some v \<Rightarrow> if \<not> json_true v then Some [] else (case v of JObj d \<Rightarrow> Some d | _ \<Rightarrow> None))"

record staged =
  sg_settings_missing :: bool
  sg_strict :: bool
  sg_version :: int
  sg_settings :: settings
  sg_hooks :: hooks_section
  sg_plugins :: plugin_map
  sg_settings_revision :: str

definition stage_settings :: "'p menv \<Rightarrow> 'p manager \<Rightarrow> disk \<Rightarrow> stage_error + staged" where
  \<comment> \<open>the first half of \<open>_stage_directory\<close>; the settings before the profile\<close>
  "stage_settings M m fs =
     (let V = me_pydantic M; f = settings_file m in
      case fs f of
        None \<Rightarrow>
          (case default_settings V (me_env M) of
             Inl e \<Rightarrow> Inl (BadDocument f e)
           | Inr s \<Rightarrow> Inr \<lparr>sg_settings_missing = True, sg_strict = effective_strict m ''warn'',
               sg_version = implicit_config_version, sg_settings = s, sg_hooks = hooks_value V [], sg_plugins = [],
               sg_settings_revision = revision_of_bytes []\<rparr>)
      | Some raw \<Rightarrow>
          (case read_mapping (me_yaml M) raw of
             None \<Rightarrow> Inl (Unreadable f)
           | Some data \<Rightarrow>
               (let strict = effective_strict m (declared_validation_mode data) in
                case check_config_version data of
                  Inl e \<Rightarrow> Inl (BadDocument f (BadVersion e))
                | Inr version \<Rightarrow>
                    (case load_settings_document V strict (expand_fields (me_env M) data) of
                       Inl e \<Rightarrow> Inl (BadDocument f e)
                     | Inr doc \<Rightarrow>
                         (case to_settings V (me_env M) doc of
                            Inl e \<Rightarrow> Inl (BadDocument f e)
                          | Inr s \<Rightarrow> Inr \<lparr>sg_settings_missing = False, sg_strict = strict, sg_version = version,
                              sg_settings = s, sg_hooks = sd_hooks doc, sg_plugins = sd_plugins doc,
                              sg_settings_revision = revision_of_bytes raw\<rparr>)))))"

definition stage_users ::
  "'p menv \<Rightarrow> 'p manager \<Rightarrow> bool \<Rightarrow> int \<Rightarrow> disk \<Rightarrow> stage_error + ((str, user) dict \<times> str) \<times> str" where
  \<comment> \<open>the second half: users and default user, and the revision\<close>
  "stage_users M m strict version fs =
     (let f = users_file m in
      case fs f of
        None \<Rightarrow> Inr ((default_users, ''admin''), revision_of_bytes [])
      | Some raw \<Rightarrow>
          (case read_mapping (me_yaml M) raw of
             None \<Rightarrow> Inl (Unreadable f)
           | Some data \<Rightarrow>
               (case check_config_version data of
                  Inl e \<Rightarrow> Inl (BadDocument f (BadVersion e))
                | Inr users_version \<Rightarrow>
                    if users_version \<noteq> version then Inl (BadDocument f (VersionMismatch users_version version))
                    else
                      (case load_users (me_pydantic M) (me_env M) strict data of
                         Inl e \<Rightarrow> Inl (BadDocument f e)
                       | Inr us \<Rightarrow> Inr (us, revision_of_bytes raw)))))"

definition stage_directory ::
  "'p menv \<Rightarrow> 'p manager \<Rightarrow> disk \<Rightarrow> stage_error + (staged \<times> declared) \<times> ((str, user) dict \<times> str) \<times> str" where
  \<comment> \<open>with the profile applied to the candidate\<close>
  "stage_directory M m fs =
     (case stage_settings M m fs of
        Inl e \<Rightarrow> Inl e
      | Inr sg \<Rightarrow>
          (let (s, de) = apply_profile (cm_profile_override m) (sg_settings sg) in
           case stage_users M m (sg_strict sg) (sg_version sg) fs of
             Inl e \<Rightarrow> Inl e
           | Inr us \<Rightarrow> Inr ((sg\<lparr>sg_settings := s\<rparr>, de), us)))"

subsection \<open>Committing\<close>

definition same_declaration :: "hooks_section \<times> plugin_map \<Rightarrow> hooks_section \<times> plugin_map \<Rightarrow> bool" where
  \<comment> \<open>equality of snapshots: the numbers by value, the plugins in their order\<close>
  "same_declaration a b \<longleftrightarrow>
     fst a\<lparr>hk_timeout_seconds := (0, 0)\<rparr> = fst b\<lparr>hk_timeout_seconds := (0, 0)\<rparr>
     \<and> num_eq (hk_timeout_seconds (fst a)) (hk_timeout_seconds (fst b))
     \<and> list_all2 (\<lambda>(n, c) (n', c'). n = n' \<and> json_eq (JObj c) (JObj c')) (snd a) (snd b)"

definition configure_hooks_from ::
  "'p menv \<Rightarrow> hooks_section \<Rightarrow> plugin_map \<Rightarrow> 'p manager \<times> disk \<Rightarrow> hook_error option \<times> 'p manager \<times> disk" where
  "configure_hooks_from M hooks plugins s =
     (let (m, fs) = s in
      if (case cm_hooks_snapshot m of None \<Rightarrow> False | Some old \<Rightarrow> same_declaration (hooks, plugins) old) then (None, m, fs)
      else
        case replace_source (me_hooks M) hooks plugins source_settings (cm_hooks m, fs) of
          (Some e, r, fs1) \<Rightarrow> (Some e, m\<lparr>cm_hooks := r\<rparr>, fs1)
        | (None, r, fs1) \<Rightarrow> (None, m\<lparr>cm_hooks := r, cm_hooks_snapshot := Some (hooks, plugins)\<rparr>, fs1))"

definition commit_directory ::
  "'p menv \<Rightarrow> (staged \<times> declared) \<times> ((str, user) dict \<times> str) \<times> str \<Rightarrow> 'p manager \<times> disk
    \<Rightarrow> hook_error option \<times> 'p manager \<times> disk" where
  "commit_directory M candidate s =
     (case candidate of ((sg, de), (us, default_user), users_rev) \<Rightarrow>
       (let (err, m1, fs1) =
          (if sg_settings_missing sg then
             (None, (fst s)\<lparr>cm_hooks := drop_source source_settings (cm_hooks (fst s)), cm_hooks_snapshot := None\<rparr>, snd s)
           else configure_hooks_from M (sg_hooks sg) (sg_plugins sg) s)
        in case err of
             Some e \<Rightarrow> (Some e, m1, fs1)
           | None \<Rightarrow> (None, m1\<lparr>cm_config := \<lparr>c_users = us, c_default_user = default_user, c_settings = sg_settings sg\<rparr>,
               cm_declared := de, cm_strict := sg_strict sg, cm_version := sg_version sg,
               cm_users_revision := users_rev, cm_settings_revision := sg_settings_revision sg\<rparr>, fs1)))"

definition load_config ::
  "'p menv \<Rightarrow> bool \<Rightarrow> 'p manager \<times> disk \<Rightarrow> manager_error option \<times> 'p manager \<times> disk" where
  "load_config M before_load s =
     (let (e0, m0, fs0) =
        (if before_load then
           (case run_before_load (me_hooks M) (cm_dir (fst s)) (cm_hooks (fst s), snd s) of
              (e, r, fs) \<Rightarrow> (e, (fst s)\<lparr>cm_hooks := r\<rparr>, fs))
         else (None, s))
      in case e0 of
           Some e \<Rightarrow> (Some (FromHook e), m0, fs0)
         | None \<Rightarrow>
             (case stage_directory M m0 fs0 of
                Inl e \<Rightarrow> (Some (FromStage e), m0, fs0)
              | Inr candidate \<Rightarrow>
                  (case commit_directory M candidate (m0, fs0) of
                     (Some e, m1, fs1) \<Rightarrow> (Some (FromHook e), m1, fs1)
                   | (None, m1, fs1) \<Rightarrow> (None, m1, fs1))))"

definition reload :: "'p menv \<Rightarrow> 'p manager \<times> disk \<Rightarrow> manager_error option \<times> 'p manager \<times> disk" where
  "reload M s = load_config M True s"

definition reload_local :: "'p menv \<Rightarrow> 'p manager \<times> disk \<Rightarrow> manager_error option \<times> 'p manager \<times> disk" where
  "reload_local M s = load_config M False s"

subsection \<open>Start\<close>

datatype init_error = InvalidProfileOverride | BootstrapFailed bootstrap_error | LoadFailed manager_error

definition initial_settings :: "pydantic \<Rightarrow> settings" where
  \<comment> \<open>\<open>Settings()\<close>, which the first load replaces or refuses\<close>
  "initial_settings V = settings_of (\<lambda>_. None) (settings_value V []) []"

definition init_manager ::
  "'p menv \<Rightarrow> (str, str) dict \<Rightarrow> str \<Rightarrow> str option \<Rightarrow> bool option \<Rightarrow> json option \<Rightarrow> disk
    \<Rightarrow> (init_error + 'p manager) \<times> disk" where
  \<comment> \<open>\<open>ConfigManager.__init__\<close> for a directory; the parsed \<open>bootstrap.yaml\<close>, if there is one\<close>
  "init_manager M environ dir profile strict bootstrap fs =
     (if (case profile of None \<Rightarrow> False | Some p \<Rightarrow> p \<notin> set security_profiles) then (Inl InvalidProfileOverride, fs)
      else
        let mode = peek_validation_mode (me_yaml M) dir fs;
            strict0 = (case strict of Some b \<Rightarrow> b | None \<Rightarrow> mode = ''strict'') in
        case bootstrap_registry (me_hooks M) (me_pydantic M) environ strict0 dir bootstrap fs of
          (Inl e, fs1) \<Rightarrow> (Inl (BootstrapFailed e), fs1)
        | (Inr r, fs1) \<Rightarrow>
            (case load_config M True
               (\<lparr>cm_dir = dir, cm_profile_override = profile, cm_strict_override = strict, cm_strict = strict0,
                 cm_declared = nothing_declared,
                 cm_config = \<lparr>c_users = [], c_default_user = ''admin'',
                   c_settings = initial_settings (me_pydantic M)\<rparr>,
                 cm_version = implicit_config_version, cm_hooks = r, cm_hooks_snapshot = None,
                 cm_users_revision = [], cm_settings_revision = []\<rparr>, fs1) of
               (Some e, m, fs2) \<Rightarrow> (Inl (LoadFailed e), fs2)
             | (None, m, fs2) \<Rightarrow> (Inr m, fs2)))"

subsection \<open>Saving\<close>

definition document_defaults :: "pydantic \<Rightarrow> doc" where
  \<comment> \<open>the defaults of the loader under flat keys\<close>
  "document_defaults V =
     (let sd = settings_value V []; sv = sd_server sd; oa = sd_oauth sd; sa = sd_saml sd; jw = sd_jwt sd;
          se = sd_session sd; lg = sd_logging sd; li = sd_login sd in
      [(''server.host'', JStr (sv_host sv)), (''server.port'', JInt (sv_port sv)), (''server.debug'', JBool (sv_debug sv)),
       (''server.rate_limit_enabled'', JBool (sv_rate_limit_enabled sv)),
       (''server.rate_limit_token_endpoint'', JStr (sv_rate_limit_token_endpoint sv)),
       (''oauth.issuer'', JStr (oa_issuer oa)), (''oauth.issuer_from_request'', JBool (oa_issuer_from_request oa)),
       (''oauth.audience'', JStr (oa_audience oa)), (''oauth.token_expiry_minutes'', JInt (oa_token_expiry_minutes oa)),
       (''oauth.refresh_token_rotation'', JBool (oa_refresh_token_rotation oa)),
       (''oauth.require_pkce'', JBool (oa_require_pkce oa)), (''oauth.scope_enforcement'', JBool (oa_scope_enforcement oa)),
       (''saml.default_acs_url'', JStr (sa_default_acs_url sa)), (''saml.sign_responses'', JBool (sa_sign_responses sa)),
       (''saml.roles_attr_name'', jopt (sa_roles_attr_name sa)), (''saml.groups_attr_name'', jopt (sa_groups_attr_name sa)),
       (''saml.c14n_algorithm'', JStr (sa_c14n_algorithm sa)), (''jwt.algorithm'', JStr (jw_algorithm jw)),
       (''jwt.keys_dir'', JStr (jw_keys_dir jw)), (''session.secret_key'', JStr (se_secret_key se)),
       (''session.require_ui_login'', JBool (se_require_ui_login se)),
       (''logging.level'', JStr (lg_level lg)), (''logging.verbose_logging'', JBool (lg_verbose_logging lg)),
       (''login.mode'', JStr (li_mode li)), (''login.auto_login'', JBool (li_auto_login li)),
       (''login.two_step'', JBool (li_two_step li)), (''security_profile'', JStr (sd_security_profile sd)),
       (''config_validation'', JStr (sd_config_validation sd))])"

definition notify_saved ::
  "'p menv \<Rightarrow> file_path \<Rightarrow> str \<Rightarrow> 'p manager \<times> disk \<Rightarrow> hook_error option \<times> 'p manager \<times> disk" where
  "notify_saved M f kind s =
     (case run_config_saved (me_hooks M) f kind (cm_hooks (fst s), snd s) of
        (e, r, fs) \<Rightarrow> (e, (fst s)\<lparr>cm_hooks := r\<rparr>, fs))"

datatype mutation_error = WrongShape \<comment> \<open>a \<open>TypeError\<close> or \<open>AttributeError\<close>\<close> | AlreadyExists str | NotFound str

definition users_item :: "'p manager \<Rightarrow> str option \<Rightarrow> mutation_error write_item" where
  "users_item m expected = \<lparr>it_file = users_file m, it_expected = expected,
     it_mutate = (\<lambda>doc. Inr (apply_users_document doc (c_users (cm_config m)) (c_default_user (cm_config m))))\<rparr>"

definition settings_item :: "'p menv \<Rightarrow> 'p manager \<Rightarrow> str option \<Rightarrow> mutation_error write_item" where
  "settings_item M m expected = \<lparr>it_file = settings_file m, it_expected = expected,
     it_mutate = (\<lambda>doc.
       case apply_settings_document (me_env M) doc (persistable_settings m) (document_defaults (me_pydantic M)) of
         None \<Rightarrow> Inl WrongShape
       | Some d \<Rightarrow> Inr d)\<rparr>"

datatype save_error =
    NothingSaved "mutation_error write_error"
  | MirrorFailed hook_error
  | ReloadAfterSave manager_error

definition save ::
  "'p menv \<Rightarrow> str option \<Rightarrow> str option \<Rightarrow> 'p manager \<times> disk \<Rightarrow> save_error option \<times> 'p manager \<times> disk" where
  "save M expected_users expected_settings s =
     (let (m, fs) = s in
      case compare_and_replace_many (me_write M) [users_item m expected_users, settings_item M m expected_settings] fs of
        (Inl e, fs1) \<Rightarrow> (Some (NothingSaved e), m, fs1)
      | (Inr revs, fs1) \<Rightarrow>
          (let (h1, s1) = notify_saved M (users_file m) ''users'' (m, fs1);
               (h2, s2) = notify_saved M (settings_file m) ''settings'' s1;
               hook_error = (if h1 \<noteq> None then h1 else h2);
               (reload_error, s3) = reload_local M s2
           in case hook_error of
                Some e \<Rightarrow> (Some (MirrorFailed e), s3)
              | None \<Rightarrow>
                  (case reload_error of
                     Some e \<Rightarrow> (Some (ReloadAfterSave e), s3)
                   | None \<Rightarrow> (None, s3))))"

definition save_one ::
  "'p menv \<Rightarrow> mutation_error write_item \<Rightarrow> str \<Rightarrow> 'p manager \<times> disk \<Rightarrow> save_error option \<times> 'p manager \<times> disk" where
  \<comment> \<open>\<open>_save_users\<close> and \<open>_save_settings\<close>: write and notify\<close>
  "save_one M item kind s =
     (case compare_and_replace (me_write M) (it_file item) (it_expected item) (it_mutate item) (snd s) of
        (Inl e, fs1) \<Rightarrow> (Some (NothingSaved e), fst s, fs1)
      | (Inr revision, fs1) \<Rightarrow>
          (case notify_saved M (it_file item) kind (fst s, fs1) of
             (Some e, s1) \<Rightarrow> (Some (MirrorFailed e), s1)
           | (None, s1) \<Rightarrow> (None, s1)))"

subsection \<open>Profiles are never saved\<close>

lemma declared_settings_nothing: "declared_settings nothing_declared s = s"
  by (simp add: declared_settings_def nothing_declared_def)

lemma declared_apply_profile: "declared_settings (snd (apply_profile override s)) (fst (apply_profile override s)) = s"
  by (cases override)
     (simp_all add: apply_profile_def apply_hardening_def declared_settings_def nothing_declared_def Let_def)

lemma persistable_declared: "persistable_settings m = declared_settings (cm_declared m) (c_settings (cm_config m))"
  by (simp add: persistable_settings_def declared_settings_nothing)

subsection \<open>Loading is a transaction\<close>

lemma configure_hooks_result:
  assumes "configure_hooks_from M hooks plugins (m, fs) = (e, m', fs')"
  shows "e \<noteq> None \<Longrightarrow> m' = m"
    and "cm_dir m' = cm_dir m \<and> cm_profile_override m' = cm_profile_override m \<and> cm_strict_override m' = cm_strict_override m"
proof -
  show "e \<noteq> None \<Longrightarrow> m' = m"
  proof -
    assume "e \<noteq> None"
    then obtain x where x: "e = Some x" by blast
    then obtain r where r: "replace_source (me_hooks M) hooks plugins source_settings (cm_hooks m, fs) = (Some x, r, fs')"
      "m' = m\<lparr>cm_hooks := r\<rparr>"
      using assms by (auto simp: configure_hooks_from_def split: if_splits prod.splits option.splits)
    then show "m' = m" using replace_source_failed [OF r(1)] by simp
  qed
  show "cm_dir m' = cm_dir m \<and> cm_profile_override m' = cm_profile_override m \<and> cm_strict_override m' = cm_strict_override m"
    using assms by (auto simp: configure_hooks_from_def split: if_splits prod.splits option.splits)
qed

lemma commit_failed:
  assumes "commit_directory M candidate (m, fs) = (Some e, m', fs')"
  shows "m' = m"
proof -
  obtain sg de us du ur where c: "candidate = ((sg, de), (us, du), ur)" by (metis prod.exhaust)
  have "\<not> sg_settings_missing sg" using assms by (auto simp: commit_directory_def c)
  then have "configure_hooks_from M (sg_hooks sg) (sg_plugins sg) (m, fs) = (Some e, m', fs')"
    using assms by (auto simp: commit_directory_def c split: prod.splits option.splits)
  from configure_hooks_result(1) [OF this] show ?thesis by simp
qed

lemma commit_done:
  assumes "commit_directory M ((sg, de), (us, du), ur) (m, fs) = (None, m', fs')"
  shows "cm_config m' = \<lparr>c_users = us, c_default_user = du, c_settings = sg_settings sg\<rparr>"
    "cm_declared m' = de" "cm_strict m' = sg_strict sg" "cm_version m' = sg_version sg" "cm_users_revision m' = ur"
    "cm_settings_revision m' = sg_settings_revision sg" "cm_dir m' = cm_dir m"
    "cm_profile_override m' = cm_profile_override m" "cm_strict_override m' = cm_strict_override m"
proof -
  obtain m1 fs1 where m1: "m' = m1\<lparr>cm_config := \<lparr>c_users = us, c_default_user = du, c_settings = sg_settings sg\<rparr>,
      cm_declared := de, cm_strict := sg_strict sg, cm_version := sg_version sg,
      cm_users_revision := ur, cm_settings_revision := sg_settings_revision sg\<rparr>"
    "sg_settings_missing sg \<and> m1 = m\<lparr>cm_hooks := drop_source source_settings (cm_hooks m), cm_hooks_snapshot := None\<rparr>
      \<or> configure_hooks_from M (sg_hooks sg) (sg_plugins sg) (m, fs) = (None, m1, fs1)"
    using assms by (auto simp: commit_directory_def split: prod.splits option.splits if_splits)
  from m1(2) have keep: "cm_dir m1 = cm_dir m \<and> cm_profile_override m1 = cm_profile_override m \<and> cm_strict_override m1 = cm_strict_override m"
    using configure_hooks_result(2) [of M "sg_hooks sg" "sg_plugins sg" m fs None m1 fs1] by auto
  show "cm_config m' = \<lparr>c_users = us, c_default_user = du, c_settings = sg_settings sg\<rparr>"
    "cm_declared m' = de" "cm_strict m' = sg_strict sg" "cm_version m' = sg_version sg" "cm_users_revision m' = ur"
    "cm_settings_revision m' = sg_settings_revision sg" "cm_dir m' = cm_dir m"
    "cm_profile_override m' = cm_profile_override m" "cm_strict_override m' = cm_strict_override m"
    using m1(1) keep by simp_all
qed

lemma load_local_failed:
  assumes "load_config M False (m, fs) = (Some e, m', fs')"
  shows "m' = m"
  using assms commit_failed by (fastforce simp: load_config_def split: sum.splits prod.splits option.splits)

subsection \<open>The point where a load reads the directory\<close>

definition read_point :: "'p menv \<Rightarrow> bool \<Rightarrow> 'p manager \<times> disk \<Rightarrow> 'p manager \<times> disk" where
  \<comment> \<open>manager and disk after the load hooks, where they run, and before anything is read\<close>
  "read_point M before_load s =
     (if before_load then
        (case run_before_load (me_hooks M) (cm_dir (fst s)) (cm_hooks (fst s), snd s) of
           (e, r, fs) \<Rightarrow> ((fst s)\<lparr>cm_hooks := r\<rparr>, fs))
      else s)"

lemma read_point_local [simp]: "read_point M False s = s"
  by (simp add: read_point_def)

lemma read_point_manager: "(fst (read_point M before_load s))\<lparr>cm_hooks := cm_hooks (fst s)\<rparr> = fst s"
  by (simp add: read_point_def split: prod.split)

lemma load_config_read_point:
  assumes "load_config M before_load s = (err, s')"
  shows "load_config M False (read_point M before_load s) = (err, s')
    \<or> (\<exists>e. err = Some e \<and> s' = read_point M before_load s)"
  using assms by (auto simp: load_config_def read_point_def split: prod.splits option.splits)

lemma failed_load:
  assumes "load_config M before_load (m, fs) = (Some e, m', fs')"
  shows "m' = fst (read_point M before_load (m, fs))" and "m'\<lparr>cm_hooks := cm_hooks m\<rparr> = m"
proof -
  obtain m0 fs0 where point: "read_point M before_load (m, fs) = (m0, fs0)" by fastforce
  show "m' = fst (read_point M before_load (m, fs))"
    using load_config_read_point [OF assms] point load_local_failed by fastforce
  then show "m'\<lparr>cm_hooks := cm_hooks m\<rparr> = m" using read_point_manager [of "(m, fs)" M before_load] by simp
qed

lemma stage_directory_cong:
  assumes "cm_dir m' = cm_dir m" "cm_profile_override m' = cm_profile_override m" "cm_strict_override m' = cm_strict_override m"
    "fs' (settings_file m) = fs (settings_file m)" "fs' (users_file m) = fs (users_file m)"
  shows "stage_directory M m' fs' = stage_directory M m fs" and "stage_settings M m' fs' = stage_settings M m fs"
proof -
  have same: "settings_file m' = settings_file m" "users_file m' = users_file m" "effective_strict m' = effective_strict m"
    using assms(1,3) by (simp_all add: settings_file_def users_file_def effective_strict_def fun_eq_iff)
  have users: "stage_users M m' b i fs' = stage_users M m b i fs" for b i
    unfolding stage_users_def same Let_def assms(5) ..
  show settings: "stage_settings M m' fs' = stage_settings M m fs"
    unfolding stage_settings_def same Let_def assms(4) ..
  show "stage_directory M m' fs' = stage_directory M m fs"
    unfolding stage_directory_def settings users assms(2) ..
qed

subsection \<open>Hooks that leave the files\<close>

lemma notify_saved_result:
  assumes "notify_saved M f kind (m, fs) = (e, m', fs')"
  shows "m'\<lparr>cm_hooks := cm_hooks m\<rparr> = m" "leaves (me_hooks M) v \<Longrightarrow> v fs' = v fs"
proof -
  obtain r where run: "run_config_saved (me_hooks M) f kind (cm_hooks m, fs) = (e, r, fs')" "m' = m\<lparr>cm_hooks := r\<rparr>"
    using assms by (auto simp: notify_saved_def split: prod.splits)
  show "m'\<lparr>cm_hooks := cm_hooks m\<rparr> = m" by (simp add: run(2))
  show "v fs' = v fs" if "leaves (me_hooks M) v"
    using dispatch_leaves [OF that] run(1) by (simp add: run_config_saved_def Let_def)
qed

lemma configure_hooks_leaves:
  assumes "leaves (me_hooks M) v" "configure_hooks_from M hooks plugins (m, fs) = (e, m', fs')"
  shows "v fs' = v fs"
  using assms(2) replace_source_leaves [OF assms(1)]
  by (auto simp: configure_hooks_from_def split: if_splits prod.splits option.splits)

lemma load_local_leaves:
  assumes "leaves (me_hooks M) v" "load_config M False (m, fs) = (e, m', fs')"
  shows "v fs' = v fs"
proof (cases "stage_directory M m fs")
  case (Inr c)
  obtain sg de us du ur where c: "c = ((sg, de), (us, du), ur)" by (metis prod.exhaust)
  show ?thesis
  proof (cases "sg_settings_missing sg")
    case True
    then show ?thesis using assms(2) Inr by (auto simp: load_config_def commit_directory_def c)
  next
    case False
    obtain e1 m1 fs1 where conf: "configure_hooks_from M (sg_hooks sg) (sg_plugins sg) (m, fs) = (e1, m1, fs1)"
      by (metis prod_cases3)
    have "fs' = fs1" using assms(2) Inr False conf
      by (auto simp: load_config_def commit_directory_def c split: option.splits)
    then show ?thesis using configure_hooks_leaves [OF assms(1) conf] by simp
  qed
qed (use assms(2) in \<open>simp add: load_config_def\<close>)

lemma load_leaves:
  assumes "leaves (me_hooks M) v" "load_config M before_load (m, fs) = (e, m', fs')"
  shows "v fs' = v fs"
proof -
  obtain m0 fs0 where point: "read_point M before_load (m, fs) = (m0, fs0)" by fastforce
  have "v fs0 = v fs"
    using dispatch_leaves [OF assms(1)] point by (auto simp: read_point_def run_before_load_def split: if_splits prod.splits)
  moreover have "v fs' = v fs0"
    using load_config_read_point [OF assms(2)] load_local_leaves [OF assms(1)] point by auto
  ultimately show ?thesis by simp
qed

subsection \<open>Documents on disk\<close>

definition reads_as :: "yaml \<Rightarrow> disk \<Rightarrow> file_path \<Rightarrow> doc \<Rightarrow> bool" where
  \<comment> \<open>the file holds a document, on which the two YAML loaders agree\<close>
  "reads_as Y fs f d \<longleftrightarrow> (\<exists>raw. fs f = Some raw \<and> read_mapping Y raw = Some d) \<and> load_yaml_document Y fs f = Some d"

definition dumps_back :: "yaml \<Rightarrow> doc \<Rightarrow> bool" where
  \<comment> \<open>what the YAML library dumps, it loads back\<close>
  "dumps_back Y d \<longleftrightarrow> yl_safe_load Y (yl_dump Y d) = Some (JObj d)"

lemma defaults_agree:
  "dval (document_defaults V) ''security_profile'' = dval fallback_defaults ''security_profile''"
  "dval (document_defaults V) ''login.mode'' = dval fallback_defaults ''login.mode''"
  "dval (document_defaults V) ''login.auto_login'' = dval fallback_defaults ''login.auto_login''"
  "dval (document_defaults V) ''login.two_step'' = dval fallback_defaults ''login.two_step''"
  by (simp_all add: document_defaults_def Let_def dval_def dget_Cons fallback_defaults_def settings_value_def login_value_def
      field_value_def)

lemma save_with_defaults: "apply_settings_document env d s (document_defaults V) = apply_settings_document env d s fallback_defaults"
  by (simp add: apply_settings_document_def apply_security_profile_def defaults_agree)

end
