(* ===== verification/Sample_Manager.thy ===== *)
theory Sample_Manager
  imports Config_Manager Config_Properties
begin

text \<open>
  A concrete configuration directory and manager: a YAML library that knows the four documents of the
  example, an operating system on which everything succeeds, no hooks.
\<close>

definition sample_users_yaml :: doc where
  "sample_users_yaml = [(''users'', JObj [(''alice'', JObj (user_to_yaml sample_user))])]"

definition sample_users_saved :: doc where
  "sample_users_saved = apply_users_document sample_users_yaml [(''alice'', sample_user)] ''alice''"

definition sample_load :: "bytes \<Rightarrow> json option" where
  "sample_load raw = (if raw = [1] then Some (JObj sample_yaml) else if raw = [2] then Some (JObj sample_users_yaml)
     else if raw = [3] then Some (JObj sample_saved) else if raw = [4] then Some (JObj sample_users_saved) else None)"

definition sample_dump :: "doc \<Rightarrow> bytes" where
  "sample_dump d = (if d = sample_saved then [3] else if d = sample_users_saved then [4] else [0])"

definition sample_write_env :: write_env where
  "sample_write_env = \<lparr>we_lock = \<lparr>le_tries = (\<lambda>d i. Locked), le_late = (\<lambda>d i. 0)\<rparr>,
     we_yaml = \<lparr>yl_load = sample_load, yl_safe_load = sample_load, yl_dump = sample_dump\<rparr>,
     we_io = (\<lambda>f. \<lparr>wi_backup = True, wi_temp = Some ''tmp'', wi_dump = True, wi_replace = (\<lambda>i. Replaced)\<rparr>)\<rparr>"

definition sample_no_hooks :: "(unit, disk) hook_lib" where
  "sample_no_hooks = \<lparr>hl_shell = (\<lambda>c t i w. (ShellOk, w)), hl_call = (\<lambda>p h a w. (False, w)), hl_implements = (\<lambda>p h. False),
     hl_installed = (\<lambda>n. False), hl_make = (\<lambda>n w. (None, w)), hl_api_version = (\<lambda>p. JInt 1), hl_configure = (\<lambda>p d w. (False, w))\<rparr>"

definition sample_menv :: "unit menv" where
  "sample_menv = \<lparr>me_hooks = sample_no_hooks, me_pydantic = sample_pydantic, me_env = sample_env, me_write = sample_write_env\<rparr>"

definition sample_manager :: "unit manager" where
  "sample_manager = \<lparr>cm_dir = ''cfg'', cm_profile_override = None, cm_strict_override = None, cm_strict = False,
     cm_declared = nothing_declared,
     cm_config = \<lparr>c_users = [(''alice'', sample_user)], c_default_user = ''alice'', c_settings = sample_settings\<rparr>,
     cm_version = 1, cm_hooks = new_registry (Some ''cfg''), cm_hooks_snapshot = None,
     cm_users_revision = revision_of_bytes [2], cm_settings_revision = revision_of_bytes [1]\<rparr>"

definition sample_disk :: disk where
  "sample_disk = (\<lambda>f. if f = (''cfg'', ''settings.yaml'') then Some [1] else if f = (''cfg'', ''users.yaml'') then Some [2] else None)"

lemma sample_files: "settings_file sample_manager = (''cfg'', ''settings.yaml'')" "users_file sample_manager = (''cfg'', ''users.yaml'')"
  by (simp_all add: settings_file_def users_file_def sample_manager_def)

lemma sample_menv_simps [simp]:
  "me_pydantic sample_menv = sample_pydantic" "me_env sample_menv = sample_env" "me_write sample_menv = sample_write_env"
  "me_yaml sample_menv = we_yaml sample_write_env" "we_yaml sample_write_env =
    \<lparr>yl_load = sample_load, yl_safe_load = sample_load, yl_dump = sample_dump\<rparr>"
  by (simp_all add: sample_menv_def me_yaml_def sample_write_env_def)

lemma sample_docs_differ: "sample_users_saved \<noteq> sample_saved"
proof -
  have "dhas sample_users_saved ''users''" "\<not> dhas sample_saved ''users''" by code_simp+
  then show ?thesis by auto
qed

lemma sample_lock_free: "lock_all (we_lock sample_write_env) ds = None"
  by (induction ds) (simp_all add: cross_process_lock_def wait_for_lock.simps sample_write_env_def)

lemma sample_backups:
  "backup_of (''cfg'', ''settings.yaml'') = (''cfg'', ''settings.yaml.bak'')"
  "backup_of (''cfg'', ''users.yaml'') = (''cfg'', ''users.yaml.bak'')"
  by code_simp+

lemma sample_batch_apart: "batch_apart sample_write_env {users_file sample_manager, settings_file sample_manager}"
  by (simp add: batch_apart_def temp_apart_def sample_files sample_backups sample_write_env_def)

lemma sample_persistable: "persistable_settings sample_manager = sample_settings"
  by (simp add: persistable_settings_def sample_manager_def)

lemma sample_reads:
  "reads_as (we_yaml sample_write_env) sample_disk (settings_file sample_manager) sample_yaml"
  "reads_as (we_yaml sample_write_env) sample_disk (users_file sample_manager) sample_users_yaml"
proof -
  have "sample_yaml \<noteq> []" "sample_users_yaml \<noteq> []" by (simp_all add: sample_yaml_def sample_users_yaml_def)
  then show "reads_as (we_yaml sample_write_env) sample_disk (settings_file sample_manager) sample_yaml"
    "reads_as (we_yaml sample_write_env) sample_disk (users_file sample_manager) sample_users_yaml"
    by (simp_all add: reads_as_def read_mapping_def load_yaml_document_def sample_files sample_disk_def sample_load_def)
qed

lemma sample_dumps_back: "dumps_back (we_yaml sample_write_env) sample_saved" "dumps_back (we_yaml sample_write_env) sample_users_saved"
  using sample_docs_differ by (simp_all add: dumps_back_def sample_dump_def sample_load_def)

lemma sample_replace: "replace_with_retry (\<lambda>i. Replaced) replace_retry_attempts 0"
  by (simp add: replace_retry_attempts_def numeral_eq_Suc)

lemma sample_atomic_write:
  "\<exists>fs1. atomic_write_yaml (we_yaml sample_write_env) (we_io sample_write_env f) f d fs = (Inr (), fs1)"
  by (simp add: sample_write_env_def atomic_write_yaml_def Let_def sample_replace)

lemma sample_documents_written: "\<exists>revs fs1. write_documents sample_write_env ds fs = (Inr revs :: 'e write_error + str list, fs1)"
proof (induction ds arbitrary: fs)
  case (Cons p ds)
  obtain f d where p: "p = (f, d)" by (cases p)
  obtain fs1 where w: "atomic_write_yaml (we_yaml sample_write_env) (we_io sample_write_env f) f d fs = (Inr (), fs1)"
    using sample_atomic_write by blast
  obtain revs :: "str list" and fs2 where
    "write_documents sample_write_env ds fs1 = (Inr revs :: 'e write_error + str list, fs2)"
    using Cons.IH by blast
  with w show ?case by (simp add: p Let_def)
qed simp

lemma sample_writes:
  assumes "load_yaml_document (we_yaml sample_write_env) fs (users_file m) = Some u"
    "load_yaml_document (we_yaml sample_write_env) fs (settings_file m) = Some d"
    "apply_settings_document sample_env d (persistable_settings m) (document_defaults sample_pydantic) = Some d'"
  shows "\<exists>revs fs1. compare_and_replace_many sample_write_env [users_item m None, settings_item sample_menv m None] fs = (Inr revs, fs1)"
proof -
  let ?items = "[users_item m None, settings_item sample_menv m None]"
  obtain u' where users: "it_file (users_item m None) = users_file m" "it_mutate (users_item m None) u = Inr u'"
    by (simp add: users_item_def)
  have settings: "it_file (settings_item sample_menv m None) = settings_file m"
    "it_mutate (settings_item sample_menv m None) d = Inr d'"
    by (simp_all add: settings_item_def assms(3))
  have loaded: "load_and_mutate (we_yaml sample_write_env) fs ?items = Inr [(users_file m, u'), (settings_file m, d')]"
    using users settings assms by simp
  have current: "check_revisions fs ?items = None" by (simp add: users_item_def settings_item_def)
  have files: "distinct (map it_file ?items)" using users(1) settings(1) by (simp add: users_file_def settings_file_def)
  have "compare_and_replace_many sample_write_env ?items fs =
      write_documents sample_write_env [(users_file m, u'), (settings_file m, d')] fs"
    unfolding compare_and_replace_many_def sample_lock_free current loaded using files by simp
  then show ?thesis by (simp only: sample_documents_written)
qed

lemma sample_save_writes:
  "\<exists>revs fs1. compare_and_replace_many sample_write_env
    [users_item sample_manager None, settings_item sample_menv sample_manager None] sample_disk = (Inr revs, fs1)"
proof (rule sample_writes)
  show "load_yaml_document (we_yaml sample_write_env) sample_disk (users_file sample_manager) = Some sample_users_yaml"
    "load_yaml_document (we_yaml sample_write_env) sample_disk (settings_file sample_manager) = Some sample_yaml"
    using sample_reads unfolding reads_as_def by simp_all
  show "apply_settings_document sample_env sample_yaml (persistable_settings sample_manager)
      (document_defaults sample_pydantic) = Some sample_saved"
    by (simp add: sample_persistable save_with_defaults sample_saves)
qed

lemma sample_default_saved:
  "\<exists>s. default_settings sample_pydantic sample_env = Inr s \<and> \<not> s_require_pkce s
    \<and> (\<exists>d'. apply_settings_document sample_env [] s (document_defaults sample_pydantic) = Some d')"
proof -
  have "(case default_settings sample_pydantic sample_env of Inl _ \<Rightarrow> False
    | Inr s \<Rightarrow> \<not> s_require_pkce s
        \<and> (case apply_settings_document sample_env [] s (document_defaults sample_pydantic) of None \<Rightarrow> False | Some _ \<Rightarrow> True))"
    by code_simp
  then show ?thesis by (auto split: sum.splits option.splits)
qed

definition sample_hardened :: "unit manager" where
  \<comment> \<open>started with a profile on the command line\<close>
  "sample_hardened = sample_manager\<lparr>cm_profile_override := Some ''stricter-dev''\<rparr>"

lemma sample_empty_load:
  "\<exists>m' s. load_config sample_menv False (sample_hardened, \<lambda>_. None) = (None, m', \<lambda>_. None)
    \<and> default_settings sample_pydantic sample_env = Inr s \<and> persistable_settings m' = s \<and> \<not> s_require_pkce s
    \<and> s_require_pkce (c_settings (cm_config m'))"
proof -
  obtain s where s: "default_settings sample_pydantic sample_env = Inr s" "\<not> s_require_pkce s"
    using sample_default_saved by blast
  obtain t de where profile: "apply_profile (cm_profile_override sample_hardened) s = (t, de)" by fastforce
  have "s_require_pkce (fst (apply_profile (cm_profile_override sample_hardened) s))"
    by (simp add: apply_profile_def apply_hardening_def sample_hardened_def)
  then have "s_require_pkce t" "declared_settings de t = s"
    using profile declared_apply_profile [of "cm_profile_override sample_hardened" s] by simp_all
  with s profile show ?thesis
    by (simp add: load_config_def stage_directory_def stage_settings_def stage_users_def commit_directory_def Let_def
        persistable_declared)
qed

lemma sample_no_load_hooks:
  "run_before_load sample_no_hooks (cm_dir sample_hardened) (cm_hooks sample_hardened, fs) = (None, cm_hooks sample_hardened, fs)"
  by (simp add: run_before_load_def dispatch_def has_hook_def sample_hardened_def sample_manager_def new_registry_def)

lemma sample_hooks [simp]: "me_hooks sample_menv = sample_no_hooks"
  by (simp add: sample_menv_def)

lemma sample_read_point: "read_point sample_menv True (sample_hardened, fs) = (sample_hardened, fs)"
  by (simp add: read_point_def sample_no_load_hooks)

lemma sample_hooked_load: "load_config sample_menv True (sample_hardened, fs) = load_config sample_menv False (sample_hardened, fs)"
  by (simp add: load_config_def sample_no_load_hooks)

lemma sample_hooks_leave: "leaves (me_hooks sample_menv) v"
  by (simp add: leaves_def sample_no_hooks_def)

lemma sample_versions:
  "check_config_version sample_yaml = Inr 1" "check_config_version sample_users_yaml = Inr 1"
  "\<not> effective_strict sample_manager (declared_validation_mode sample_yaml)"
proof -
  show "check_config_version sample_yaml = Inr 1" "check_config_version sample_users_yaml = Inr 1" by code_simp+
  have "declared_validation_mode sample_yaml \<noteq> ''strict''" by code_simp
  then show "\<not> effective_strict sample_manager (declared_validation_mode sample_yaml)"
    by (simp add: effective_strict_def sample_manager_def)
qed

lemma sample_users_load: "\<exists>us. load_users sample_pydantic sample_env False sample_users_yaml = Inr us"
proof -
  have "(case load_users sample_pydantic sample_env False sample_users_yaml of Inl _ \<Rightarrow> False | Inr _ \<Rightarrow> True)"
    by code_simp
  then show ?thesis by (auto split: sum.splits)
qed

lemma length_hexdigest: "length (hexdigest bs) = 2 * length bs"
  unfolding hexdigest_def by (induction bs) simp_all

lemma sample_stale: "Some ''?'' \<notin> {None, Some (current_revision fs f)}"
proof -
  have "even (length (current_revision fs f))" by (simp add: current_revision_def revision_of_bytes_def length_hexdigest)
  moreover have "odd (length ''?'')" by simp
  ultimately have "current_revision fs f \<noteq> ''?''" by metis
  then show ?thesis by simp
qed

end
