(* ===== verification/Manager_Properties.thy ===== *)
theory Manager_Properties
  imports Sample_Manager
begin

text \<open>
  What the manager promises: a load is a transaction, a profile is never saved, a save that is refused
  changes nothing, and a save that went through is what the next load gives.
\<close>

subsection \<open>Loads\<close>

lemma load_local:
  "load_config M False (m, fs) =
     (case stage_directory M m fs of
        Inl e \<Rightarrow> (Some (FromStage e), m, fs)
      | Inr candidate \<Rightarrow>
          (case commit_directory M candidate (m, fs) of
             (Some e, m1, fs1) \<Rightarrow> (Some (FromHook e), m1, fs1)
           | (None, m1, fs1) \<Rightarrow> (None, m1, fs1)))"
  by (simp add: load_config_def)

lemma load_with_hooks:
  "load_config M True (m, fs) =
     (case run_before_load (me_hooks M) (cm_dir m) (cm_hooks m, fs) of
        (Some e, r, fs0) \<Rightarrow> (Some (FromHook e), m\<lparr>cm_hooks := r\<rparr>, fs0)
      | (None, r, fs0) \<Rightarrow> load_config M False (m\<lparr>cm_hooks := r\<rparr>, fs0))"
  by (simp add: load_config_def split: prod.split option.split)

lemma load_local_done:
  assumes "load_config M False (m, fs) = (None, m', fs')"
  obtains sg de us du ur where "stage_directory M m fs = Inr ((sg, de), (us, du), ur)"
    "cm_config m' = \<lparr>c_users = us, c_default_user = du, c_settings = sg_settings sg\<rparr>"
    "cm_declared m' = de" "cm_strict m' = sg_strict sg" "cm_version m' = sg_version sg" "cm_users_revision m' = ur"
    "cm_settings_revision m' = sg_settings_revision sg"
proof -
  obtain c where c: "stage_directory M m fs = Inr c" "commit_directory M c (m, fs) = (None, m', fs')"
    using assms by (auto simp: load_local split: sum.splits prod.splits option.splits)
  obtain sg de us du ur where shape: "c = ((sg, de), (us, du), ur)" by (metis prod.exhaust)
  show thesis
    using that [of sg de us du ur] c(1) commit_done [OF c(2) [unfolded shape]] by (simp add: shape)
qed

text \<open>
  C23. A load, with or without its load hooks, is one transaction over the whole directory: when it
  fails, at any point, the running configuration, its declared values, its strictness, version and
  revisions are what they were (only the counters of the load hooks that ran may differ, and without
  them nothing at all); when it succeeds, no load hook was fatal, and all of them come from one reading
  of the directory, as the load hooks left it.
\<close>

theorem loading_is_a_transaction:
  assumes "load_config M before_load (m, fs) = (err, m', fs')"
  shows "(err \<noteq> None \<longrightarrow> m'\<lparr>cm_hooks := cm_hooks m\<rparr> = m \<and> (\<not> before_load \<longrightarrow> m' = m))
    \<and> (err = None \<longrightarrow> (before_load \<longrightarrow> fst (run_before_load (me_hooks M) (cm_dir m) (cm_hooks m, fs)) = None)
        \<and> (\<exists>m0 fs0 sg de us du ur. read_point M before_load (m, fs) = (m0, fs0)
          \<and> stage_directory M m0 fs0 = Inr ((sg, de), (us, du), ur)
          \<and> cm_config m' = \<lparr>c_users = us, c_default_user = du, c_settings = sg_settings sg\<rparr>
          \<and> cm_declared m' = de \<and> cm_strict m' = sg_strict sg \<and> cm_version m' = sg_version sg
          \<and> cm_users_revision m' = ur \<and> cm_settings_revision m' = sg_settings_revision sg))"
proof -
  obtain m0 fs0 where point: "read_point M before_load (m, fs) = (m0, fs0)" by fastforce
  show ?thesis
  proof (cases err)
    case (Some e)
    then have "load_config M before_load (m, fs) = (Some e, m', fs')" using assms by simp
    note failed_load [OF this]
    moreover have "m0 = m" if "\<not> before_load" using that point by simp
    ultimately show ?thesis using Some point by simp
  next
    case None
    then have load: "load_config M False (m0, fs0) = (None, m', fs')"
      using load_config_read_point [OF assms] point by simp
    have "before_load \<longrightarrow> fst (run_before_load (me_hooks M) (cm_dir m) (cm_hooks m, fs)) = None"
      using assms None by (auto simp: load_with_hooks split: prod.splits option.splits)
    moreover note load_local_done [OF load]
    ultimately show ?thesis using point None by fastforce
  qed
qed

lemma loading_is_a_transaction_witness:
  "\<exists>m' fs' m0 fs0 sg de us du ur. load_config sample_menv True (sample_hardened, \<lambda>_. None) = (None, m', fs')
    \<and> read_point sample_menv True (sample_hardened, \<lambda>_. None) = (m0, fs0)
    \<and> stage_directory sample_menv m0 fs0 = Inr ((sg, de), (us, du), ur) \<and> cm_declared m' = de
    \<and> c_users (cm_config m') = us"
proof -
  obtain m' fs' where load: "load_config sample_menv True (sample_hardened, \<lambda>_. None) = (None, m', fs')"
    using sample_hooked_load sample_empty_load by fastforce
  from loading_is_a_transaction [OF load] load show ?thesis by fastforce
qed

definition in_force :: "'p menv \<Rightarrow> 'p manager \<times> disk \<Rightarrow> bool" where
  \<comment> \<open>the running configuration is what a load of the files now on disk gives\<close>
  "in_force M ms =
     (case stage_directory M (fst ms) (snd ms) of
        Inl e \<Rightarrow> False
      | Inr ((sg, de), (us, du), ur) \<Rightarrow>
          cm_config (fst ms) = \<lparr>c_users = us, c_default_user = du, c_settings = sg_settings sg\<rparr>
          \<and> cm_declared (fst ms) = de \<and> cm_strict (fst ms) = sg_strict sg \<and> cm_version (fst ms) = sg_version sg
          \<and> cm_users_revision (fst ms) = ur \<and> cm_settings_revision (fst ms) = sg_settings_revision sg)"

lemma local_load_in_force:
  assumes "load_config M False (m, fs) = (None, m', fs')"
    "leaves (me_hooks M) (\<lambda>w. w (users_file m))" "leaves (me_hooks M) (\<lambda>w. w (settings_file m))"
  shows "in_force M (m', fs')"
proof -
  obtain c where c: "stage_directory M m fs = Inr c" "commit_directory M c (m, fs) = (None, m', fs')"
    using assms(1) by (auto simp: load_local split: sum.splits prod.splits option.splits)
  obtain sg de us du ur where shape: "c = ((sg, de), (us, du), ur)" by (metis prod.exhaust)
  note committed = commit_done [OF c(2) [unfolded shape]]
  have "stage_directory M m' fs' = stage_directory M m fs"
    using committed(7-9) load_local_leaves [OF assms(2,1)] load_local_leaves [OF assms(3,1)] by (intro stage_directory_cong)
  with c(1) committed show ?thesis by (simp add: in_force_def shape)
qed

subsection \<open>Profiles\<close>

lemma stage_directory_settings:
  assumes "stage_directory M m fs = Inr ((sg, de), us, ur)"
  obtains sg0 where "stage_settings M m fs = Inr sg0" "sg = sg0\<lparr>sg_settings := fst (apply_profile (cm_profile_override m) (sg_settings sg0))\<rparr>"
    "de = snd (apply_profile (cm_profile_override m) (sg_settings sg0))"
    "stage_users M m (sg_strict sg0) (sg_version sg0) fs = Inr (us, ur)"
  using assms by (auto simp: stage_directory_def split: sum.splits prod.splits)

subsection \<open>Saves\<close>

lemma save_written:
  assumes "save M eu es (m, fs) = (r, m', fs')" "\<forall>x. r \<noteq> Some (NothingSaved x)"
  obtains revs fs1 where "compare_and_replace_many (me_write M) [users_item m eu, settings_item M m es] fs = (Inr revs, fs1)"
proof -
  obtain q fs1 where q: "compare_and_replace_many (me_write M) [users_item m eu, settings_item M m es] fs = (q, fs1)"
    by fastforce
  show thesis
  proof (cases q)
    case (Inl x)
    then show thesis using assms q by (auto simp: save_def)
  next
    case (Inr revs)
    then show thesis using q that by blast
  qed
qed

lemma save_carried_out:
  assumes "save M eu es (m, fs) = (r, m', fs')"
    "compare_and_replace_many (me_write M) [users_item m eu, settings_item M m es] fs = (Inr revs, fs1)"
  shows "\<forall>x. r \<noteq> Some (NothingSaved x)"
  using assms by (auto simp: save_def Let_def split: prod.splits option.splits)

lemma save_refused:
  assumes "save M eu es (m, fs) = (Some (NothingSaved x), m', fs')"
  shows "m' = m \<and> compare_and_replace_many (me_write M) [users_item m eu, settings_item M m es] fs = (Inl x, fs')"
  using assms by (auto simp: save_def Let_def split: sum.splits prod.splits option.splits if_splits)

lemma refused_save_keeps:
  assumes "save M eu es (m, fs) = (Some (NothingSaved x), m', fs')" and "\<not> is_not_written x"
  shows "m' = m \<and> fs' = fs"
proof -
  have c: "m' = m" "compare_and_replace_many (me_write M) [users_item m eu, settings_item M m es] fs = (Inl x, fs')"
    using save_refused assms(1) by blast+
  from c(2) have "fs' = fs" by (cases rule: batch_cases) (use assms(2) write_documents_error is_not_written_def in blast)+
  with c(1) show ?thesis by simp
qed

lemma stale_save:
  assumes "save M eu es (m, fs) = (r, m', fs')"
    and stale: "eu \<notin> {None, Some (current_revision fs (users_file m))} \<or> es \<notin> {None, Some (current_revision fs (settings_file m))}"
  shows "\<exists>x. r = Some (NothingSaved x) \<and> m' = m \<and> fs' = fs"
proof -
  have no: "check_revisions fs [users_item m eu, settings_item M m es] \<noteq> None"
    using stale unfolding check_revisions_None by (auto simp: users_item_def settings_item_def)
  obtain q fs1 where q: "compare_and_replace_many (me_write M) [users_item m eu, settings_item M m es] fs = (q, fs1)"
    by fastforce
  then obtain x where x: "q = Inl x" "\<not> is_not_written x"
  proof (cases rule: batch_cases)
    case (written ds)
    then have "check_revisions fs [users_item m eu, settings_item M m es] = None" by (simp only: check_revisions_None)
    with no show thesis by simp
  qed
  then have "r = Some (NothingSaved x)" using assms(1) q by (simp add: save_def)
  with refused_save_keeps assms(1) x(2) show ?thesis by blast
qed

text \<open>
  C24. A save is refused as a whole: unless the disk itself fails in the middle of writing, a save that
  is not carried out (a lock that is not free, a stale revision, a file that is no YAML mapping, a
  document of the wrong shape) leaves both files and the running configuration as they were; and a
  save is refused whenever either file is not the one the caller read.
\<close>

theorem a_refused_save_changes_nothing:
  assumes "save M eu es (m, fs) = (r, m', fs')"
  shows "(\<forall>x. r = Some (NothingSaved x) \<and> \<not> is_not_written x \<longrightarrow> m' = m \<and> fs' = fs)
    \<and> (eu \<notin> {None, Some (current_revision fs (users_file m))} \<or> es \<notin> {None, Some (current_revision fs (settings_file m))}
       \<longrightarrow> (\<exists>x. r = Some (NothingSaved x) \<and> m' = m \<and> fs' = fs))"
  using refused_save_keeps stale_save [OF assms] assms by blast

lemma a_refused_save_changes_nothing_witness:
  "\<exists>x. save sample_menv None (Some ''?'') (sample_manager, sample_disk) = (Some (NothingSaved x), sample_manager, sample_disk)"
proof -
  obtain r m' fs' where save: "save sample_menv None (Some ''?'') (sample_manager, sample_disk) = (r, m', fs')"
    by (metis prod_cases3)
  from a_refused_save_changes_nothing [OF save] sample_stale save show ?thesis by blast
qed

subsection \<open>What is written after a load\<close>

lemma save_leaves:
  assumes "leaves (me_hooks M) v" "save M eu es (m, fs) = (r, m', fs')"
    "compare_and_replace_many (me_write M) [users_item m eu, settings_item M m es] fs = (q, fs1)"
  shows "v fs' = v fs1"
proof (cases q)
  case (Inl x)
  then show ?thesis using assms(2,3) by (simp add: save_def)
next
  case (Inr revs)
  obtain h1 m1 f1 where n1: "notify_saved M (users_file m) ''users'' (m, fs1) = (h1, m1, f1)" by (metis prod_cases3)
  obtain h2 m2 f2 where n2: "notify_saved M (settings_file m) ''settings'' (m1, f1) = (h2, m2, f2)" by (metis prod_cases3)
  obtain e m3 f3 where l: "load_config M False (m2, f2) = (e, m3, f3)" by (metis prod_cases3)
  have "fs' = f3" using assms(2,3) Inr n1 n2 l
    by (auto simp: save_def reload_local_def Let_def split: option.splits)
  then show ?thesis
    using notify_saved_result(2) [OF n1 assms(1)] notify_saved_result(2) [OF n2 assms(1)] load_local_leaves [OF assms(1) l] by simp
qed

lemma load_keeps_files:
  assumes "load_config M b (m, fs) = (None, m', fs')"
  shows "settings_file m' = settings_file m" "users_file m' = users_file m"
proof -
  obtain m0 fs0 where point: "read_point M b (m, fs) = (m0, fs0)" by fastforce
  have dir: "cm_dir m0 = cm_dir m" using arg_cong [OF read_point_manager [of "(m, fs)" M b], of cm_dir] point by simp
  have "load_config M False (m0, fs0) = (None, m', fs')" using load_config_read_point [OF assms] point by simp
  then obtain c where "commit_directory M c (m0, fs0) = (None, m', fs')"
    by (auto simp: load_local split: sum.splits prod.splits option.splits)
  then have "cm_dir m' = cm_dir m0" using commit_done(7) by (metis prod.exhaust)
  with dir show "settings_file m' = settings_file m" "users_file m' = users_file m"
    by (simp_all add: settings_file_def users_file_def)
qed

lemma persistable_after_load:
  assumes "load_config M b (m, fs) = (None, m', fs')" "read_point M b (m, fs) = (m0, fs0)"
  shows "\<exists>sg. stage_settings M m0 fs0 = Inr sg \<and> persistable_settings m' = sg_settings sg"
proof -
  have load: "load_config M False (m0, fs0) = (None, m', fs')" using load_config_read_point [OF assms(1)] assms(2) by simp
  obtain sg de us du ur where d: "stage_directory M m0 fs0 = Inr ((sg, de), (us, du), ur)"
    "cm_config m' = \<lparr>c_users = us, c_default_user = du, c_settings = sg_settings sg\<rparr>" "cm_declared m' = de"
    using load by (rule load_local_done)
  obtain sg0 where sg0: "stage_settings M m0 fs0 = Inr sg0"
    "sg = sg0\<lparr>sg_settings := fst (apply_profile (cm_profile_override m0) (sg_settings sg0))\<rparr>"
    "de = snd (apply_profile (cm_profile_override m0) (sg_settings sg0))"
    by (rule stage_directory_settings [OF d(1)])
  have "persistable_settings m' = sg_settings sg0"
    unfolding persistable_declared d(2,3) sg0(2,3) using declared_apply_profile by simp
  with sg0(1) show ?thesis by blast
qed

text \<open>
  C26. A save after a load (at the start, a reload, with or without load hooks) puts into
  \<open>settings.yaml\<close> what that file declared when it was loaded: the document written is the one on disk
  with the settings read from the file before any profile, so neither a profile given on the command
  line nor anything a profile hardens at run time reaches the file. The hypothesis on the hooks is that
  a mirror does not rewrite \<open>settings.yaml\<close> itself.
\<close>

theorem profiles_are_never_saved:
  assumes "load_config M before_load (m, fs) = (None, m', fs')" "read_point M before_load (m, fs) = (m0, fs0)"
    "save M eu es (m', fs1) = (r, m'', fs2)" "\<forall>x. r \<noteq> Some (NothingSaved x)"
    "batch_apart (me_write M) {users_file m, settings_file m}" "leaves (me_hooks M) (\<lambda>w. w (settings_file m))"
  shows "\<exists>sg d d'. stage_settings M m0 fs0 = Inr sg
    \<and> load_yaml_document (me_yaml M) fs1 (settings_file m) = Some d
    \<and> apply_settings_document (me_env M) d (sg_settings sg) (document_defaults (me_pydantic M)) = Some d'
    \<and> fs2 (settings_file m) = Some (yl_dump (me_yaml M) d')"
proof -
  obtain sg where sg: "stage_settings M m0 fs0 = Inr sg" "persistable_settings m' = sg_settings sg"
    using persistable_after_load [OF assms(1,2)] by blast
  note files = load_keeps_files [OF assms(1)]
  let ?items = "[users_item m' eu, settings_item M m' es]"
  obtain revs fs3 where written: "compare_and_replace_many (me_write M) ?items fs1 = (Inr revs, fs3)"
    by (rule save_written [OF assms(3,4)])
  have apart: "batch_apart (me_write M) (it_file ` set ?items)"
    using assms(5) by (simp add: users_item_def settings_item_def files)
  obtain d d' where d: "load_yaml_document (me_yaml M) fs1 (settings_file m) = Some d"
    "it_mutate (settings_item M m' es) d = Inr d'" "fs3 (settings_file m) = Some (yl_dump (me_yaml M) d')"
    using batch_written(2) [OF written apart, of "settings_item M m' es"] by (auto simp: settings_item_def files me_yaml_def)
  have "apply_settings_document (me_env M) d (sg_settings sg) (document_defaults (me_pydantic M)) = Some d'"
    using d(2) by (simp add: settings_item_def sg(2) split: option.splits)
  moreover have "fs2 (settings_file m) = fs3 (settings_file m)" by (rule save_leaves [OF assms(6,3) written])
  ultimately show ?thesis using sg(1) d(1,3) by auto
qed

lemma profiles_are_never_saved_witness:
  "\<exists>m' m'' r fs2 sg d'. load_config sample_menv True (sample_hardened, \<lambda>_. None) = (None, m', \<lambda>_. None)
    \<and> s_require_pkce (c_settings (cm_config m')) \<and> save sample_menv None None (m', \<lambda>_. None) = (r, m'', fs2)
    \<and> stage_settings sample_menv sample_hardened (\<lambda>_. None) = Inr sg \<and> \<not> s_require_pkce (sg_settings sg)
    \<and> apply_settings_document sample_env [] (sg_settings sg) (document_defaults sample_pydantic) = Some d'
    \<and> fs2 (''cfg'', ''settings.yaml'') = Some (sample_dump d')"
proof -
  let ?none = "(\<lambda>_. None) :: disk"
  obtain m' s where load: "load_config sample_menv True (sample_hardened, ?none) = (None, m', ?none)"
    "default_settings sample_pydantic sample_env = Inr s" "persistable_settings m' = s" "\<not> s_require_pkce s"
    "s_require_pkce (c_settings (cm_config m'))"
    using sample_empty_load sample_hooked_load by metis
  have point: "read_point sample_menv True (sample_hardened, ?none) = (sample_hardened, ?none)"
    by (rule sample_read_point)
  note files = load_keeps_files [OF load(1)]
  have here: "settings_file sample_hardened = (''cfg'', ''settings.yaml'')" "users_file sample_hardened = (''cfg'', ''users.yaml'')"
    using sample_files by (simp_all add: sample_hardened_def settings_file_def users_file_def)
  have docs: "load_yaml_document (we_yaml sample_write_env) ?none f = Some []" for f
    by (simp add: load_yaml_document_def)
  obtain d' where "apply_settings_document sample_env [] s (document_defaults sample_pydantic) = Some d'"
    using sample_default_saved load(2) by auto
  then obtain revs fs1 where written: "compare_and_replace_many sample_write_env
      [users_item m' None, settings_item sample_menv m' None] ?none = (Inr revs, fs1)"
    using sample_writes [of ?none m' "[]" "[]" d'] docs load(3) files by (simp add: here) blast
  obtain r m'' fs2 where saved: "save sample_menv None None (m', ?none) = (r, m'', fs2)" by (metis prod_cases3)
  have carried: "\<forall>x. r \<noteq> Some (NothingSaved x)" using save_carried_out [OF saved] written by simp
  have "batch_apart (me_write sample_menv) {users_file sample_hardened, settings_file sample_hardened}"
    using sample_batch_apart by (simp add: here sample_files)
  from profiles_are_never_saved [OF load(1) point saved carried this sample_hooks_leave] load saved docs show ?thesis
    by (fastforce simp: here stage_settings_def Let_def)
qed

subsection \<open>A save and the next load\<close>

lemma dumped_mapping: "dumps_back Y d \<Longrightarrow> read_mapping Y (yl_dump Y d) = Some d"
  by (cases d) (auto simp: dumps_back_def read_mapping_def)

lemma stage_settings_read:
  assumes "fs (settings_file m) = Some raw" "read_mapping (me_yaml M) raw = Some d"
    "\<not> effective_strict m (declared_validation_mode d)"
  shows "stage_settings M m fs = Inr sg \<longleftrightarrow>
    (\<exists>v s. check_config_version d = Inr v \<and> load_settings (me_pydantic M) (me_env M) False d = Inr s
      \<and> sg = \<lparr>sg_settings_missing = False, sg_strict = False, sg_version = v, sg_settings = s,
        sg_hooks = sd_hooks (loaded (me_pydantic M) (me_env M) d), sg_plugins = sd_plugins (loaded (me_pydantic M) (me_env M) d),
        sg_settings_revision = revision_of_bytes raw\<rparr>)"
  using assms
  by (auto simp: stage_settings_def load_settings_def andthen_def load_settings_cases Let_def split: sum.splits list.splits)

lemma stage_users_read:
  assumes "fs (users_file m) = Some raw" "read_mapping (me_yaml M) raw = Some d"
  shows "stage_users M m strict v fs = Inr (us, ur) \<longleftrightarrow>
    check_config_version d = Inr v \<and> load_users (me_pydantic M) (me_env M) strict d = Inr us \<and> ur = revision_of_bytes raw"
  using assms by (auto simp: stage_users_def Let_def split: sum.splits)

lemma saved_settings_document_keeps:
  assumes "apply_settings_document env d s defaults = Some d'"
  shows "check_config_version d' = check_config_version d" "declared_validation_mode d' = declared_validation_mode d"
proof -
  have "dget d' k = dget d k" if "k \<in> set [''config_version'', ''config_validation'']" for k
    using apply_settings_unowned [OF assms, of "([], k)"] top_unowned that by (auto simp: read_top list_all_iff)
  then show "check_config_version d' = check_config_version d" "declared_validation_mode d' = declared_validation_mode d"
    by (simp_all add: check_config_version_def declared_validation_mode_def)
qed

lemma saved_settings_staged:
  assumes "stage_settings M m fs = Inr sg" "\<not> sg_strict sg" "reads_as (me_yaml M) fs (settings_file m) d"
    "saved_from (me_pydantic M) (me_env M) d s d'" "dumps_back (me_yaml M) d'"
    "fs1 (settings_file m) = Some (yl_dump (me_yaml M) d')"
  shows "\<exists>sg1. stage_settings M m fs1 = Inr sg1 \<and> \<not> sg_strict sg1 \<and> sg_version sg1 = sg_version sg
    \<and> settings_alike (sg_settings sg1) (with_unsaved (sg_settings sg) s)"
proof -
  obtain raw where raw: "fs (settings_file m) = Some raw" "read_mapping (me_yaml M) raw = Some d"
    using assms(3) by (auto simp: reads_as_def)
  have lax: "\<not> effective_strict m (declared_validation_mode d)"
    using assms(1,2) raw by (auto simp: stage_settings_def Let_def split: sum.splits)
  obtain v s0 where old: "check_config_version d = Inr v" "load_settings (me_pydantic M) (me_env M) False d = Inr s0"
    "sg_version sg = v" "sg_settings sg = s0"
    using assms(1) unfolding stage_settings_read [of fs m raw M d, OF raw lax] by auto
  obtain s1 where s1: "load_settings (me_pydantic M) (me_env M) False d' = Inr s1" "settings_alike s1 (with_unsaved s0 s)"
    using saved_settings_reload [OF assms(4) old(2)] by blast
  note keeps = saved_settings_document_keeps [OF saved_fromD(1) [OF assms(4)]]
  have lax': "\<not> effective_strict m (declared_validation_mode d')" using lax by (simp add: keeps)
  show ?thesis
    unfolding stage_settings_read [of fs1 m _ M d', OF assms(6) dumped_mapping [OF assms(5)] lax']
    using old s1 by (simp add: keeps)
qed

lemma saved_users_staged:
  assumes "stage_users M m strict v fs = Inr (us, ur)" "\<not> strict" "reads_as (me_yaml M) fs (users_file m) u"
    "\<forall>(n, x) \<in> set users. n = u_username x \<and> valid_user x"
    "list_all (\<lambda>(n, x). plain (JObj (user_to_yaml x))) users" "CHR ''$'' \<notin> set du"
    "dumps_back (me_yaml M) (apply_users_document u users du)"
    "fs1 (users_file m) = Some (yl_dump (me_yaml M) (apply_users_document u users du))"
  shows "\<exists>ur1. stage_users M m strict v fs1 = Inr ((map (\<lambda>(n, x). (n, user_reloaded x)) users, du), ur1)"
proof -
  obtain raw where raw: "fs (users_file m) = Some raw" "read_mapping (me_yaml M) raw = Some u"
    using assms(3) by (auto simp: reads_as_def)
  have old: "check_config_version u = Inr v" "load_users (me_pydantic M) (me_env M) strict u = Inr us"
    using assms(1) unfolding stage_users_read [of fs m raw M u, OF raw] by simp_all
  have "users_errors (me_pydantic M) (expand_fields (me_env M) u) = []"
    using old(2) assms(2) by (auto simp: load_users_def load_users_cases split: list.splits)
  then have "field_errors (as_opt_int (me_pydantic M)) (expand_fields (me_env M) u) ''config_version'' = []"
    by (simp add: users_errors_def)
  from save_users_errors [OF assms(4-6) this]
  have "load_users (me_pydantic M) (me_env M) strict (apply_users_document u users du) =
      Inr (map (\<lambda>(n, x). (n, user_reloaded x)) users, du)"
    using assms(2) by (simp add: load_users_def load_users_cases)
  moreover have "check_config_version (apply_users_document u users du) = Inr v"
    using old(1) by (simp add: check_config_version_def apply_users_document_def)
  ultimately show ?thesis
    unfolding stage_users_read [of fs1 m _ M, OF assms(8) dumped_mapping [OF assms(7)]] by simp
qed

text \<open>
  C22. A save and the next load agree, over both files: when the two documents are written and the
  directory could be loaded before, it can be loaded after, to the users that were saved, with the
  saved default user, and to the saved settings; the settings that no save writes are those of the
  directory before. The profile is taken out on both sides. The hypotheses on the YAML library say
  that it loads back what it dumped and that its two loaders agree on the files as they were.
\<close>

theorem a_save_is_what_the_next_load_gives:
  assumes "compare_and_replace_many (me_write M) [users_item m eu, settings_item M m es] fs = (Inr revs, fs1)"
    "batch_apart (me_write M) {users_file m, settings_file m}"
    "stage_directory M m fs = Inr ((sg, de), us, ur)" "\<not> sg_strict sg"
    "reads_as (me_yaml M) fs (settings_file m) d" "reads_as (me_yaml M) fs (users_file m) u"
    "saved_from (me_pydantic M) (me_env M) d (persistable_settings m) d'"
    "\<forall>(n, x) \<in> set (c_users (cm_config m)). n = u_username x \<and> valid_user x"
    "list_all (\<lambda>(n, x). plain (JObj (user_to_yaml x))) (c_users (cm_config m))"
    "CHR ''$'' \<notin> set (c_default_user (cm_config m))"
    "dumps_back (me_yaml M) d'"
    "dumps_back (me_yaml M) (apply_users_document u (c_users (cm_config m)) (c_default_user (cm_config m)))"
  shows "\<exists>sg1 de1 ur1. stage_directory M m fs1 = Inr ((sg1, de1),
      (map (\<lambda>(n, x). (n, user_reloaded x)) (c_users (cm_config m)), c_default_user (cm_config m)), ur1)
    \<and> settings_alike (declared_settings de1 (sg_settings sg1))
        (with_unsaved (declared_settings de (sg_settings sg)) (persistable_settings m))"
proof -
  let ?items = "[users_item m eu, settings_item M m es]"
  obtain sg0 where sg0: "stage_settings M m fs = Inr sg0"
    "sg = sg0\<lparr>sg_settings := fst (apply_profile (cm_profile_override m) (sg_settings sg0))\<rparr>"
    "de = snd (apply_profile (cm_profile_override m) (sg_settings sg0))"
    "stage_users M m (sg_strict sg0) (sg_version sg0) fs = Inr (us, ur)"
    by (rule stage_directory_settings [OF assms(3)])
  have lax: "\<not> sg_strict sg0" using assms(4) sg0(2) by simp
  have apart: "batch_apart (me_write M) (it_file ` set ?items)"
    using assms(2) by (simp add: users_item_def settings_item_def)
  have read: "load_yaml_document (we_yaml (me_write M)) fs (users_file m) = Some u"
    "load_yaml_document (we_yaml (me_write M)) fs (settings_file m) = Some d"
    using assms(5,6) by (simp_all add: reads_as_def me_yaml_def)
  have users: "fs1 (users_file m) = Some (yl_dump (me_yaml M)
      (apply_users_document u (c_users (cm_config m)) (c_default_user (cm_config m))))"
    using batch_written(2) [OF assms(1) apart, of "users_item m eu"] read
    by (simp add: users_item_def me_yaml_def)
  have "fs1 (settings_file m) = Some (yl_dump (me_yaml M) d')"
    using batch_written(2) [OF assms(1) apart, of "settings_item M m es"] read saved_fromD(1) [OF assms(7)]
    by (simp add: settings_item_def me_yaml_def save_with_defaults)
  from saved_settings_staged [of M m fs sg0 d "persistable_settings m" d' fs1, OF sg0(1) lax assms(5,7,11) this] obtain sg1 where sg1:
    "stage_settings M m fs1 = Inr sg1" "\<not> sg_strict sg1" "sg_version sg1 = sg_version sg0"
    "settings_alike (sg_settings sg1) (with_unsaved (sg_settings sg0) (persistable_settings m))" by blast
  from saved_users_staged [of M m _ _ fs us ur u _ _ fs1, OF sg0(4) lax assms(6,8-10,12) users] obtain ur1 where
    "stage_users M m (sg_strict sg0) (sg_version sg0) fs1 =
      Inr ((map (\<lambda>(n, x). (n, user_reloaded x)) (c_users (cm_config m)), c_default_user (cm_config m)), ur1)" by blast
  with sg1 lax have "stage_directory M m fs1 = Inr
      ((sg1\<lparr>sg_settings := fst (apply_profile (cm_profile_override m) (sg_settings sg1))\<rparr>,
        snd (apply_profile (cm_profile_override m) (sg_settings sg1))),
       (map (\<lambda>(n, x). (n, user_reloaded x)) (c_users (cm_config m)), c_default_user (cm_config m)), ur1)"
    by (simp add: stage_directory_def Let_def split: prod.split)
  moreover have "declared_settings de (sg_settings sg) = sg_settings sg0"
    using declared_apply_profile sg0(2,3) by simp
  ultimately show ?thesis using sg1(4) by (auto simp: declared_apply_profile)
qed

lemma sample_staged:
  "\<exists>sg de us ur. stage_directory sample_menv sample_manager sample_disk = Inr ((sg, de), us, ur) \<and> \<not> sg_strict sg"
proof -
  obtain s us where loads: "load_settings sample_pydantic sample_env False sample_yaml = Inr s"
    "load_users sample_pydantic sample_env False sample_users_yaml = Inr us"
    using sample_yaml_loads sample_users_load by blast
  obtain rs ru where raw: "sample_disk (settings_file sample_manager) = Some rs" "read_mapping (me_yaml sample_menv) rs = Some sample_yaml"
    "sample_disk (users_file sample_manager) = Some ru" "read_mapping (me_yaml sample_menv) ru = Some sample_users_yaml"
    using sample_reads by (auto simp: reads_as_def)
  obtain sg where sg: "stage_settings sample_menv sample_manager sample_disk = Inr sg" "\<not> sg_strict sg" "sg_version sg = 1"
    using stage_settings_read [of sample_disk sample_manager rs sample_menv sample_yaml, OF raw(1,2) sample_versions(3)]
      loads(1) sample_versions(1) by fastforce
  have "stage_users sample_menv sample_manager False 1 sample_disk = Inr (us, revision_of_bytes ru)"
    unfolding stage_users_read [of sample_disk sample_manager ru sample_menv sample_users_yaml, OF raw(3,4)]
    using loads(2) sample_versions(2) by simp
  with sg show ?thesis by (simp add: stage_directory_def split: prod.split)
qed

lemma a_save_is_what_the_next_load_gives_witness:
  "\<exists>revs fs1 sg1 de1 ur1. compare_and_replace_many sample_write_env
      [users_item sample_manager None, settings_item sample_menv sample_manager None] sample_disk = (Inr revs, fs1)
    \<and> stage_directory sample_menv sample_manager fs1 =
        Inr ((sg1, de1), ([(''alice'', user_reloaded sample_user)], ''alice''), ur1)
    \<and> s_host (declared_settings de1 (sg_settings sg1)) = ''127.0.0.1''"
proof -
  obtain revs fs1 where written: "compare_and_replace_many sample_write_env
      [users_item sample_manager None, settings_item sample_menv sample_manager None] sample_disk = (Inr revs, fs1)"
    using sample_save_writes by blast
  obtain sg de us ur where staged: "stage_directory sample_menv sample_manager sample_disk = Inr ((sg, de), us, ur)" "\<not> sg_strict sg"
    using sample_staged by blast
  have alice: "c_users (cm_config sample_manager) = [(''alice'', sample_user)]" "c_default_user (cm_config sample_manager) = ''alice''"
    by (simp_all add: sample_manager_def)
  have user: "u_username sample_user = ''alice''" "valid_user sample_user" "plain (JObj (user_to_yaml sample_user))"
    by code_simp+
  have "\<exists>sg1 de1 ur1. stage_directory sample_menv sample_manager fs1 = Inr ((sg1, de1),
      (map (\<lambda>(n, x). (n, user_reloaded x)) (c_users (cm_config sample_manager)), c_default_user (cm_config sample_manager)), ur1)
    \<and> settings_alike (declared_settings de1 (sg_settings sg1))
        (with_unsaved (declared_settings de (sg_settings sg)) (persistable_settings sample_manager))"
  proof (rule a_save_is_what_the_next_load_gives [of sample_menv sample_manager None None sample_disk revs fs1 sg de us ur
        sample_yaml sample_users_yaml sample_saved])
    show "compare_and_replace_many (me_write sample_menv)
      [users_item sample_manager None, settings_item sample_menv sample_manager None] sample_disk = (Inr revs, fs1)"
      using written by simp
  qed (use staged sample_batch_apart sample_reads sample_saved_from sample_dumps_back user in
      \<open>simp_all add: alice sample_persistable sample_users_saved_def [symmetric] me_yaml_def\<close>)
  moreover have "s_host a = ''127.0.0.1''" if "settings_alike a (with_unsaved b sample_settings)" for a b
  proof -
    have host: "s_host (blank_free c) = s_host c" for c by (simp add: blank_free_def)
    have "blank_free a = blank_free ((with_unsaved b sample_settings)\<lparr>s_authority_prefixes := s_authority_prefixes a\<rparr>)"
      using that by (simp add: settings_alike_def)
    from arg_cong [OF this, of s_host] show ?thesis
      unfolding host by (simp add: with_unsaved_def sample_settings_def)
  qed
  ultimately show ?thesis using written by (fastforce simp: alice sample_persistable)
qed

end
