(* ===== verification/Yaml_Writer.thy ===== *)
theory Yaml_Writer
  imports Config_Manager
begin

text \<open>
  \<open>services/yaml_writer.py\<close>: one write per request of the dashboard, as a mutation of the document that
  is on disk when the lock is held, followed by the contract after every write: the mirror is notified,
  the running configuration is read again from the local disk, and a failure of the mirror is reported.
\<close>

subsection \<open>One write\<close>

datatype writer_error =
    InvalidLoginMode str
  | NothingWritten "mutation_error write_error"
  | ReloadFailed manager_error
  | MirrorNotified hook_error

definition kind_of :: "file_path \<Rightarrow> str" where
  "kind_of f = (if snd f = ''users.yaml'' then ''users'' else ''settings'')"

definition atomic_write ::
  "'p menv \<Rightarrow> file_path \<Rightarrow> (doc \<Rightarrow> mutation_error + doc) \<Rightarrow> str option \<Rightarrow> 'p manager \<times> disk
    \<Rightarrow> (writer_error + str) \<times> 'p manager \<times> disk" where
  \<comment> \<open>\<open>_atomic_write\<close>: the new revision\<close>
  "atomic_write M f mutate expected s =
     (case compare_and_replace (me_write M) f expected mutate (snd s) of
        (Inl e, fs1) \<Rightarrow> (Inl (NothingWritten e), fst s, fs1)
      | (Inr new_revision, fs1) \<Rightarrow>
          (let (hook_error, s1) = notify_saved M f (kind_of f) (fst s, fs1);
               (reload_error, s2) = reload_local M s1
           in case reload_error of
                Some e \<Rightarrow> (Inl (ReloadFailed e), s2)
              | None \<Rightarrow>
                  (case hook_error of
                     Some e \<Rightarrow> (Inl (MirrorNotified e), s2)
                   | None \<Rightarrow> (Inr new_revision, s2))))"

subsection \<open>Values that Python indexes\<close>

fun infix_text :: "str \<Rightarrow> str \<Rightarrow> bool" where
  \<comment> \<open>\<open>k in s\<close> on two strings\<close>
  "infix_text k [] \<longleftrightarrow> k = []"
| "infix_text k (c # s) \<longleftrightarrow> starts_with (c # s) k \<or> infix_text k s"

fun key_in :: "str \<Rightarrow> json \<Rightarrow> bool option" where
  \<comment> \<open>\<open>k in value\<close>; \<open>None\<close>: a \<open>TypeError\<close>\<close>
  "key_in k (JObj d) = Some (dhas d k)"
| "key_in k (JList xs) = Some (JStr k \<in> set xs)"
| "key_in k (JStr s) = Some (infix_text k s)"
| "key_in k _ = None"

definition setdefault :: "str \<Rightarrow> json \<Rightarrow> doc \<Rightarrow> doc" where
  "setdefault k v data = (if dhas data k then data else dset k v data)"

subsection \<open>Users\<close>

definition users_skeleton :: "bool \<Rightarrow> doc \<Rightarrow> doc" where
  \<comment> \<open>only a \<open>users.yaml\<close> that does not exist gets a default user\<close>
  "users_skeleton file_exists data =
     setdefault ''users'' (JObj [])
       (if file_exists then data else dset ''default_user'' (JStr ''admin'') (dset ''users'' (JObj []) data))"

definition mutate_save_user :: "bool \<Rightarrow> user \<Rightarrow> bool \<Rightarrow> doc \<Rightarrow> mutation_error + doc" where
  "mutate_save_user file_exists u is_new data0 =
     (let data = users_skeleton file_exists data0; users = dval data ''users'' in
      if is_new \<and> key_in (u_username u) users = None then Inl WrongShape
      else if is_new \<and> key_in (u_username u) users = Some True then Inl (AlreadyExists (u_username u))
      else (case users of
              JObj d \<Rightarrow> Inr (dset ''users'' (JObj (dset (u_username u) (JObj (user_to_yaml u)) d)) data)
            | _ \<Rightarrow> Inl WrongShape))"

definition mutate_delete_user :: "bool \<Rightarrow> str \<Rightarrow> doc \<Rightarrow> mutation_error + doc" where
  "mutate_delete_user file_exists username data0 =
     (let data = users_skeleton file_exists data0; users = dval data ''users'' in
      case key_in username users of
        None \<Rightarrow> Inl WrongShape
      | Some False \<Rightarrow> Inl (NotFound username)
      | Some True \<Rightarrow>
          (case users of
             JObj d \<Rightarrow>
               (let remaining = ddel username d; data1 = dset ''users'' (JObj remaining) data in
                Inr (if dval data ''default_user'' = JStr username
                     then dset ''default_user'' (JStr (case remaining of [] \<Rightarrow> [] | (n, _) # _ \<Rightarrow> n)) data1
                     else data1))
           | _ \<Rightarrow> Inl WrongShape))"

definition mutate_set_default_user :: "str \<Rightarrow> doc \<Rightarrow> mutation_error + doc" where
  "mutate_set_default_user username data0 =
     (let data = setdefault ''users'' (JObj []) data0 in
      case key_in username (dval data ''users'') of
        None \<Rightarrow> Inl WrongShape
      | Some False \<Rightarrow> Inl (NotFound username)
      | Some True \<Rightarrow> Inr (dset ''default_user'' (JStr username) data))"

definition save_user ::
  "'p menv \<Rightarrow> user \<Rightarrow> bool \<Rightarrow> str option \<Rightarrow> 'p manager \<times> disk \<Rightarrow> (writer_error + str) \<times> 'p manager \<times> disk" where
  "save_user M u is_new expected s =
     (let f = users_file (fst s) in atomic_write M f (mutate_save_user (snd s f \<noteq> None) u is_new) expected s)"

definition delete_user ::
  "'p menv \<Rightarrow> str \<Rightarrow> str option \<Rightarrow> 'p manager \<times> disk \<Rightarrow> (writer_error + str) \<times> 'p manager \<times> disk" where
  "delete_user M username expected s =
     (let f = users_file (fst s) in atomic_write M f (mutate_delete_user (snd s f \<noteq> None) username) expected s)"

definition set_default_user ::
  "'p menv \<Rightarrow> str \<Rightarrow> str option \<Rightarrow> 'p manager \<times> disk \<Rightarrow> (writer_error + str) \<times> 'p manager \<times> disk" where
  "set_default_user M username expected s =
     atomic_write M (users_file (fst s)) (mutate_set_default_user username) expected s"

subsection \<open>Clients\<close>

fun first_index :: "('a \<Rightarrow> bool) \<Rightarrow> 'a list \<Rightarrow> nat option" where
  "first_index P [] = None"
| "first_index P (x # xs) = (if P x then Some 0 else map_option Suc (first_index P xs))"

definition mutate_save_client :: "env \<Rightarrow> oauth_client \<Rightarrow> bool \<Rightarrow> doc \<Rightarrow> mutation_error + doc" where
  "mutate_save_client env c is_new data =
     (case dval_or data ''oauth'' (JObj []) of
        JObj oauth \<Rightarrow>
          (case dval_or oauth ''clients'' (JList []) of
             JList clients \<Rightarrow>
               (case first_index (\<lambda>e. client_id_matches env e (cl_client_id c)) clients of
                  Some i \<Rightarrow>
                    if is_new then Inl (AlreadyExists (cl_client_id c))
                    else
                      (case clients ! i of
                         JObj r \<Rightarrow> Inr (dset ''oauth'' (JObj (dset ''clients''
                           (JList (clients[i := JObj (merge_client_entry env r c)])) oauth)) data)
                       | _ \<Rightarrow> Inl WrongShape)
                | None \<Rightarrow> Inr (dset ''oauth'' (JObj (dset ''clients''
                    (JList (clients @ [JObj (client_to_yaml c)])) oauth)) data))
           | _ \<Rightarrow> Inl WrongShape)
      | _ \<Rightarrow> Inl WrongShape)"

definition mutate_delete_client :: "env \<Rightarrow> str \<Rightarrow> doc \<Rightarrow> mutation_error + doc" where
  "mutate_delete_client env client_id data =
     (case dval_or data ''oauth'' (JObj []) of
        JObj oauth \<Rightarrow>
          (case dval_or oauth ''clients'' (JList []) of
             JList clients \<Rightarrow>
               (let new_clients = filter (\<lambda>e. \<not> client_id_matches env e client_id) clients in
                if length new_clients = length clients then Inl (NotFound client_id)
                else Inr (dset ''oauth'' (JObj (dset ''clients'' (JList new_clients) oauth)) data))
           | JObj _ \<Rightarrow> Inl (NotFound client_id) \<comment> \<open>its keys are no entries\<close>
           | JStr _ \<Rightarrow> Inl (NotFound client_id)
           | _ \<Rightarrow> Inl WrongShape)
      | _ \<Rightarrow> Inl WrongShape)"

definition save_client ::
  "'p menv \<Rightarrow> oauth_client \<Rightarrow> bool \<Rightarrow> str option \<Rightarrow> 'p manager \<times> disk \<Rightarrow> (writer_error + str) \<times> 'p manager \<times> disk" where
  "save_client M c is_new expected s =
     atomic_write M (settings_file (fst s)) (mutate_save_client (me_env M) c is_new) expected s"

definition delete_client ::
  "'p menv \<Rightarrow> str \<Rightarrow> str option \<Rightarrow> 'p manager \<times> disk \<Rightarrow> (writer_error + str) \<times> 'p manager \<times> disk" where
  "delete_client M client_id expected s =
     atomic_write M (settings_file (fst s)) (mutate_delete_client (me_env M) client_id) expected s"

subsection \<open>Settings\<close>

definition mode_empty :: "doc_mode \<Rightarrow> json" where
  \<comment> \<open>\<open>OwnedSetting.empty\<close>\<close>
  "mode_empty mode = (case mode of OmitWhenFalsy absent \<Rightarrow> absent | _ \<Rightarrow> JNull)"

definition put_provided :: "env \<Rightarrow> owned_setting \<Rightarrow> json \<Rightarrow> doc \<Rightarrow> doc" where
  "put_provided env row value sec =
     (let compare = (if os_mode row = Plain \<or> json_true value then value else mode_empty (os_mode row)) in
      if is_unchanged env (dval sec (os_key row)) compare then sec
      else if os_mode row \<noteq> Plain \<and> \<not> json_true value then ddel (os_key row) sec
      else dset (os_key row) value sec)"

fun put_all_provided :: "env \<Rightarrow> str \<Rightarrow> doc \<Rightarrow> doc \<Rightarrow> doc option" where
  \<comment> \<open>the loop over the fields of the form; \<open>None\<close>: a field that no row describes\<close>
  "put_all_provided env sec_name [] sec = Some sec"
| "put_all_provided env sec_name ((k, v) # provided) sec =
     (if v = JNull then put_all_provided env sec_name provided sec
      else
        case find (\<lambda>row. os_section row = sec_name \<and> os_key row = k) owned_settings of
          None \<Rightarrow> None
        | Some row \<Rightarrow> put_all_provided env sec_name provided (put_provided env row v sec))"

definition mutate_settings_section :: "env \<Rightarrow> str \<Rightarrow> doc \<Rightarrow> doc \<Rightarrow> mutation_error + doc" where
  "mutate_settings_section env sec_name provided data0 =
     (let data = setdefault sec_name (JObj []) data0 in
      if list_all (\<lambda>(k, v). v = JNull) provided then Inr data
      else
        case dval data sec_name of
          JObj sec \<Rightarrow>
            (case put_all_provided env sec_name provided sec of
               None \<Rightarrow> Inl WrongShape
             | Some sec' \<Rightarrow> Inr (dset sec_name (JObj sec') data))
        | _ \<Rightarrow> Inl WrongShape)"

definition mutate_top :: "env \<Rightarrow> str \<Rightarrow> json \<Rightarrow> doc \<Rightarrow> doc" where
  \<comment> \<open>\<open>authority_prefixes\<close> and \<open>allowed_identity_classes\<close>\<close>
  "mutate_top env k v data = (if is_unchanged env (dval data k) v then data else dset k v data)"

definition mutate_login_field :: "'p menv \<Rightarrow> str \<Rightarrow> json option \<Rightarrow> doc \<Rightarrow> mutation_error + doc" where
  \<comment> \<open>\<open>_mutate_login_mode\<close>, \<open>_mutate_auto_login\<close> and \<open>_mutate_two_step\<close>; nothing for an absent value\<close>
  "mutate_login_field M k v data =
     (case v of
        None \<Rightarrow> Inr data
      | Some x \<Rightarrow>
          (case merge_optional_nested_field (me_env M) data ''login'' k x
             (dval (document_defaults (me_pydantic M)) (''login.'' @ k)) of
             None \<Rightarrow> Inl WrongShape
           | Some d \<Rightarrow> Inr d))"

definition mutate_login :: "'p menv \<Rightarrow> str \<Rightarrow> bool option \<Rightarrow> bool option \<Rightarrow> doc \<Rightarrow> mutation_error + doc" where
  \<comment> \<open>an empty login mode is one that was not given\<close>
  "mutate_login M mode auto_login two_step data =
     andthen (mutate_login_field M ''mode'' (if mode = [] then None else Some (JStr mode)) data) (\<lambda>d1.
     andthen (mutate_login_field M ''auto_login'' (map_option JBool auto_login) d1) (\<lambda>d2.
     mutate_login_field M ''two_step'' (map_option JBool two_step) d2))"

definition update_section ::
  "'p menv \<Rightarrow> str \<Rightarrow> doc \<Rightarrow> str option \<Rightarrow> 'p manager \<times> disk \<Rightarrow> (writer_error + str) \<times> 'p manager \<times> disk" where
  \<comment> \<open>\<open>_apply_provided_settings\<close>, under \<open>update_oauth_settings\<close> and \<open>update_saml_settings\<close>\<close>
  "update_section M sec_name provided expected s =
     atomic_write M (settings_file (fst s)) (mutate_settings_section (me_env M) sec_name provided) expected s"

definition update_authority_prefixes ::
  "'p menv \<Rightarrow> (str, str) dict \<Rightarrow> str option \<Rightarrow> 'p manager \<times> disk \<Rightarrow> (writer_error + str) \<times> 'p manager \<times> disk" where
  "update_authority_prefixes M prefixes expected s =
     atomic_write M (settings_file (fst s))
       (\<lambda>data. Inr (mutate_top (me_env M) ''authority_prefixes'' (JObj (map (\<lambda>(k, v). (k, JStr v)) prefixes)) data)) expected s"

definition update_allowed_identity_classes ::
  "'p menv \<Rightarrow> str list \<Rightarrow> str option \<Rightarrow> 'p manager \<times> disk \<Rightarrow> (writer_error + str) \<times> 'p manager \<times> disk" where
  "update_allowed_identity_classes M classes expected s =
     atomic_write M (settings_file (fst s))
       (\<lambda>data. Inr (mutate_top (me_env M) ''allowed_identity_classes'' (jstrs classes) data)) expected s"

definition update_login_settings ::
  "'p menv \<Rightarrow> str \<Rightarrow> bool option \<Rightarrow> bool option \<Rightarrow> str option \<Rightarrow> 'p manager \<times> disk
    \<Rightarrow> (writer_error + str) \<times> 'p manager \<times> disk" where
  "update_login_settings M mode auto_login two_step expected s =
     (if mode \<noteq> [] \<and> validate_login_mode mode = None then (Inl (InvalidLoginMode mode), s)
      else atomic_write M (settings_file (fst s)) (mutate_login M mode auto_login two_step) expected s)"

definition mutate_settings_form ::
  "'p menv \<Rightarrow> doc \<Rightarrow> doc \<Rightarrow> str list \<Rightarrow> str \<Rightarrow> bool option \<Rightarrow> bool option \<Rightarrow> doc \<Rightarrow> mutation_error + doc" where
  "mutate_settings_form M oauth_fields saml_fields classes mode auto_login two_step data =
     andthen (mutate_settings_section (me_env M) ''oauth'' oauth_fields data) (\<lambda>d1.
     andthen (mutate_settings_section (me_env M) ''saml'' saml_fields d1) (\<lambda>d2.
     mutate_login M mode auto_login two_step
       (if classes = [] then d2 else mutate_top (me_env M) ''allowed_identity_classes'' (jstrs classes) d2)))"

definition update_settings_form ::
  "'p menv \<Rightarrow> doc \<Rightarrow> doc \<Rightarrow> str list \<Rightarrow> str \<Rightarrow> bool option \<Rightarrow> bool option \<Rightarrow> str option \<Rightarrow> 'p manager \<times> disk
    \<Rightarrow> (writer_error + str) \<times> 'p manager \<times> disk" where
  \<comment> \<open>the whole settings page as one write\<close>
  "update_settings_form M oauth_fields saml_fields classes mode auto_login two_step expected s =
     (if mode \<noteq> [] \<and> validate_login_mode mode = None then (Inl (InvalidLoginMode mode), s)
      else atomic_write M (settings_file (fst s))
        (mutate_settings_form M oauth_fields saml_fields classes mode auto_login two_step) expected s)"

end
