(* ===== verification/Writer_Properties.thy ===== *)
theory Writer_Properties
  imports Sample_Manager Yaml_Writer
begin

text \<open>
  What the writers of the configuration promise: a batch of files is refused whole or written whole, the
  wait for a lock ends, a request of the dashboard is one write, a form changes what it was given and
  nothing else, and a client that was saved is the client the next load gives.
\<close>

subsection \<open>The lock and the batch\<close>

lemma wait_for_lock_time:
  "wait_for_lock tries late t i = Inl LockTimeout \<Longrightarrow>
    \<exists>k \<ge> i. tries k = Held \<and> lock_timeout \<le> t + (\<Sum>j = i..<k. lock_poll_interval + late j)"
proof (induction tries late t i rule: wait_for_lock.induct)
  case (1 tries late t i)
  show ?case
  proof (cases "tries i = Held \<and> t < lock_timeout")
    case False
    then show ?thesis
      using 1(2) by (intro exI [of _ i]) (auto simp: wait_for_lock.simps [of tries late t i] split: lock_try.splits if_splits)
  next
    case True
    then have "wait_for_lock tries late (t + lock_poll_interval + late i) (Suc i) = Inl LockTimeout"
      using 1(2) by (simp add: wait_for_lock.simps [of tries late t i])
    then obtain k where k: "Suc i \<le> k" "tries k = Held"
      "lock_timeout \<le> t + lock_poll_interval + late i + (\<Sum>j = Suc i..<k. lock_poll_interval + late j)"
      using 1(1) True by (metis not_le)
    then have "lock_timeout \<le> t + (\<Sum>j = i..<k. lock_poll_interval + late j)"
      using sum.atLeast_Suc_lessThan [of i k "\<lambda>j. lock_poll_interval + late j"] by simp
    with k show ?thesis by (intro exI [of _ k]) simp
  qed
qed

text \<open>
  C35. The wait for the lock of a directory ends: after at most 201 polls it has the outcome of the last
  one, all polls before it found the lock held, and it gives up only when ten seconds have passed.
\<close>

theorem the_wait_for_the_lock_ends:
  "(\<exists>n \<le> 200. (\<forall>j < n. le_tries le d j = Held)
      \<and> cross_process_lock le d = (case le_tries le d n of
          Locked \<Rightarrow> Inr () | Unsupported \<Rightarrow> Inl LockUnsupported | Held \<Rightarrow> Inl LockTimeout))
    \<and> (cross_process_lock le d = Inl LockTimeout \<longrightarrow>
        (\<exists>n. le_tries le d n = Held \<and> 10000 \<le> (\<Sum>j < n. 50 + le_late le d j)))"
proof
  obtain n where "n \<le> 200" "\<forall>j. 0 \<le> j \<and> j < n \<longrightarrow> le_tries le d j = Held"
    "cross_process_lock le d = (case le_tries le d n of
       Locked \<Rightarrow> Inr () | Unsupported \<Rightarrow> Inl LockUnsupported | Held \<Rightarrow> Inl LockTimeout)"
    using wait_for_lock_polls [of 0 200 0 "le_tries le d" "le_late le d"] unfolding cross_process_lock_def by auto
  then show "\<exists>n \<le> 200. (\<forall>j < n. le_tries le d j = Held)
      \<and> cross_process_lock le d = (case le_tries le d n of
          Locked \<Rightarrow> Inr () | Unsupported \<Rightarrow> Inl LockUnsupported | Held \<Rightarrow> Inl LockTimeout)" by auto
next
  show "cross_process_lock le d = Inl LockTimeout \<longrightarrow>
      (\<exists>n. le_tries le d n = Held \<and> 10000 \<le> (\<Sum>j < n. 50 + le_late le d j))"
    using wait_for_lock_time [of "le_tries le d" "le_late le d" 0 0]
    by (auto simp: cross_process_lock_def lock_timeout_def lock_poll_interval_def lessThan_atLeast0)
qed

lemma the_wait_for_the_lock_ends_witness:
  "cross_process_lock \<lparr>le_tries = (\<lambda>d i. if i < 3 then Held else Locked), le_late = (\<lambda>d i. i)\<rparr> ''cfg'' = Inr ()"
proof -
  let ?le = "\<lparr>le_tries = (\<lambda>d i. if i < 3 then Held else Locked), le_late = (\<lambda>d i. i)\<rparr> :: lock_env"
  obtain n where n: "n \<le> 200" "\<forall>j < n. le_tries ?le ''cfg'' j = Held" "cross_process_lock ?le ''cfg'' =
      (case le_tries ?le ''cfg'' n of Locked \<Rightarrow> Inr () | Unsupported \<Rightarrow> Inl LockUnsupported | Held \<Rightarrow> Inl LockTimeout)"
    using the_wait_for_the_lock_ends [of ?le "''cfg''"] by blast
  show ?thesis
  proof (cases "n < 3")
    case True
    then have "cross_process_lock ?le ''cfg'' = Inl LockTimeout" using n(3) by simp
    then obtain k where k: "le_tries ?le ''cfg'' k = Held" "10000 \<le> (\<Sum>j < k. 50 + le_late ?le ''cfg'' j)"
      using the_wait_for_the_lock_ends [of ?le "''cfg''"] by blast
    then have "k < 3" by (simp split: if_splits)
    then have "k = 0 \<or> k = 1 \<or> k = 2" by linarith
    with k(2) show ?thesis by (auto simp: numeral_2_eq_2)
  qed (use n(3) in simp)
qed

text \<open>
  C25. A batch of files is refused whole or written whole: unless the disk fails in the middle of
  writing, either no file is touched, or every file was the one its writer had read and holds the whole
  new document, whose revision is returned. Besides the files, their backups and the temporary files,
  nothing changes in any case, and a file that existed is never torn: it holds its old bytes or the
  whole new document.
\<close>

theorem a_batch_is_refused_or_written_whole:
  assumes "compare_and_replace_many E items fs = (r :: 'e write_error + str list, fs')" "batch_apart E (it_file ` set items)"
  shows "(\<forall>x. r = Inl x \<and> \<not> is_not_written x \<longrightarrow> fs' = fs)
    \<and> (\<forall>revs. r = Inr revs \<longrightarrow> revs = map (current_revision fs' \<circ> it_file) items
        \<and> (\<forall>x \<in> set items. it_expected x \<in> {None, Some (current_revision fs (it_file x))}
            \<and> (\<exists>d d'. load_yaml_document (we_yaml E) fs (it_file x) = Some d \<and> it_mutate x d = Inr d'
                \<and> fs' (it_file x) = Some (yl_dump (we_yaml E) d'))))
    \<and> (\<forall>g. g \<notin> it_file ` set items \<and> g \<notin> side_places E (it_file ` set items) \<longrightarrow> fs' g = fs g)
    \<and> (\<forall>x \<in> set items. fs (it_file x) \<noteq> None \<longrightarrow> fs' (it_file x) = fs (it_file x)
        \<or> (\<exists>d d'. load_yaml_document (we_yaml E) fs (it_file x) = Some d \<and> it_mutate x d = Inr d'
            \<and> fs' (it_file x) = Some (yl_dump (we_yaml E) d')))"
proof -
  have revs: "revs = map (current_revision fs' \<circ> it_file) items" if r: "r = Inr revs" for revs
  proof (cases "items = []")
    case True
    then show ?thesis using assms(1) r
      by (auto simp: compare_and_replace_many_def sorted_set_def split: option.splits)
  next
    case False
    then show ?thesis using batch_written(3) [OF assms(1) [unfolded r] assms(2)] by (metis list.set_intros(1) neq_Nil_conv)
  qed
  have refused: "fs' = fs" if "r = Inl x" "\<not> is_not_written x" for x
    using assms(1) by (cases rule: batch_cases) (use that write_documents_error is_not_written_def in blast)+
  have whole: "fs' (it_file x) = fs (it_file x) \<or> (\<exists>d d'. load_yaml_document (we_yaml E) fs (it_file x) = Some d
      \<and> it_mutate x d = Inr d' \<and> fs' (it_file x) = Some (yl_dump (we_yaml E) d'))"
    if x: "x \<in> set items" "fs (it_file x) \<noteq> None" for x
    using assms(1)
  proof (cases rule: batch_cases)
    case (written ds)
    note laws = load_and_mutate_Inr [OF written(3)]
    obtain d d' where d: "load_yaml_document (we_yaml E) fs (it_file x) = Some d" "it_mutate x d = Inr d'" "(it_file x, d') \<in> set ds"
      using laws x(1) by blast
    have "distinct (map fst ds)" "batch_apart E (fst ` set ds)"
      using laws written(1) assms(2) loaded_files [OF written(3)] by simp_all
    from write_documents_whole [OF written(4) this d(3) x(2)] d show ?thesis by blast
  qed simp
  have fresh: "it_expected x \<in> {None, Some (current_revision fs (it_file x))}
      \<and> (\<exists>d d'. load_yaml_document (we_yaml E) fs (it_file x) = Some d \<and> it_mutate x d = Inr d'
          \<and> fs' (it_file x) = Some (yl_dump (we_yaml E) d'))" if "r = Inr revs" "x \<in> set items" for revs x
    using batch_written(1,2) [OF assms(1) [unfolded that(1)] assms(2) that(2)] by blast
  show ?thesis
  proof (intro conjI allI impI ballI, goal_cases)
    case (1 x)
    then show ?case using refused by blast
  next
    case (2 revs)
    then show ?case by (rule revs)
  next
    case (3 revs x)
    then show ?case using fresh by blast
  next
    case (4 revs x)
    then show ?case using fresh by blast
  next
    case (5 g)
    then show ?case using batch_other [OF assms(1)] by blast
  next
    case (6 x)
    then show ?case using whole by blast
  qed
qed

lemma a_batch_is_refused_or_written_whole_witness:
  "\<exists>revs fs1. compare_and_replace_many sample_write_env
      [users_item sample_manager None, settings_item sample_menv sample_manager None] sample_disk = (Inr revs, fs1)
    \<and> revs = [current_revision fs1 (''cfg'', ''users.yaml''), current_revision fs1 (''cfg'', ''settings.yaml'')]"
proof -
  let ?items = "[users_item sample_manager None, settings_item sample_menv sample_manager None]"
  obtain revs fs1 where written: "compare_and_replace_many sample_write_env ?items sample_disk = (Inr revs, fs1)"
    using sample_save_writes by blast
  have files: "map it_file ?items = [(''cfg'', ''users.yaml''), (''cfg'', ''settings.yaml'')]"
    by (simp add: users_item_def settings_item_def sample_files)
  have "it_file ` set ?items = {users_file sample_manager, settings_file sample_manager}"
    by (simp add: users_item_def settings_item_def)
  then have "batch_apart sample_write_env (it_file ` set ?items)" using sample_batch_apart by simp
  from a_batch_is_refused_or_written_whole [OF written this] have "revs = map (current_revision fs1) (map it_file ?items)"
    by simp
  with written files show ?thesis by simp
qed

subsection \<open>One write of the dashboard\<close>

lemma single_item: "it_file ` set [\<lparr>it_file = f, it_expected = x, it_mutate = mu\<rparr>] = {f}"
  by simp

lemma replace_result:
  assumes "compare_and_replace E f expected mu fs = (q :: 'e write_error + str, fs1)"
  shows "(\<forall>x. q = Inl x \<and> \<not> is_not_written x \<longrightarrow> fs1 = fs)
    \<and> (expected \<notin> {None, Some (current_revision fs f)} \<longrightarrow> (\<exists>x. q = Inl x \<and> \<not> is_not_written x))
    \<and> (\<forall>rv. q = Inr rv \<and> batch_apart E {f} \<longrightarrow> (\<exists>d d'. load_yaml_document (we_yaml E) fs f = Some d \<and> mu d = Inr d'
        \<and> fs1 f = Some (yl_dump (we_yaml E) d') \<and> rv = revision_of_bytes (yl_dump (we_yaml E) d')))"
proof -
  let ?items = "[\<lparr>it_file = f, it_expected = expected, it_mutate = mu\<rparr>]"
  obtain r where r: "compare_and_replace_many E ?items fs = (r :: 'e write_error + str list, fs1)"
    "q = (case r of Inl x \<Rightarrow> Inl x | Inr revs \<Rightarrow> Inr (hd revs))"
    using assms by (auto simp: compare_and_replace_def split: sum.splits prod.splits)
  have refused: "fs1 = fs" if "r = Inl x" "\<not> is_not_written x" for x
    using r(1) by (cases rule: batch_cases) (use that write_documents_error is_not_written_def in blast)+
  have stale: "\<exists>x. r = Inl x \<and> \<not> is_not_written x" if "expected \<notin> {None, Some (current_revision fs f)}"
    using r(1) by (cases rule: batch_cases) (use that in auto)
  have completed: "\<exists>d d'. load_yaml_document (we_yaml E) fs f = Some d \<and> mu d = Inr d'
      \<and> fs1 f = Some (yl_dump (we_yaml E) d') \<and> hd revs = revision_of_bytes (yl_dump (we_yaml E) d')"
    if "r = Inr revs" "batch_apart E {f}" for revs
  proof -
    have apart: "batch_apart E (it_file ` set ?items)" using that(2) by simp
    have mem: "\<lparr>it_file = f, it_expected = expected, it_mutate = mu\<rparr> \<in> set ?items" by simp
    note w = batch_written [OF r(1) [unfolded that(1)] apart mem]
    from w(2) obtain d d' where d: "load_yaml_document (we_yaml E) fs f = Some d" "mu d = Inr d'"
      "fs1 f = Some (yl_dump (we_yaml E) d')" by auto
    moreover have "hd revs = revision_of_bytes (yl_dump (we_yaml E) d')"
      using w(3) d(3) by (simp add: current_revision_def read_bytes_def)
    ultimately show ?thesis by blast
  qed
  show ?thesis
  proof (cases r)
    case (Inl x)
    show ?thesis unfolding r(2) Inl sum.case using refused [OF Inl] stale [unfolded Inl] by blast
  next
    case (Inr revs)
    show ?thesis unfolding r(2) Inr sum.case using completed [OF Inr] stale [unfolded Inr] by blast
  qed
qed

lemma atomic_write_result:
  assumes "atomic_write M f mu expected (m, fs) = (r, m', fs')"
  shows "(\<forall>x. r = Inl (NothingWritten x) \<longrightarrow> m' = m \<and> (\<not> is_not_written x \<longrightarrow> fs' = fs))
    \<and> (expected \<notin> {None, Some (current_revision fs f)} \<longrightarrow> (\<exists>x. r = Inl (NothingWritten x) \<and> \<not> is_not_written x))
    \<and> (\<forall>rv. r = Inr rv \<and> batch_apart (me_write M) {f} \<longrightarrow>
        (\<exists>d d'. load_yaml_document (me_yaml M) fs f = Some d \<and> mu d = Inr d'
          \<and> rv = revision_of_bytes (yl_dump (me_yaml M) d')))
    \<and> (\<forall>x. r \<noteq> Inl (InvalidLoginMode x))"
proof -
  obtain q fs1 where q: "compare_and_replace (me_write M) f expected mu fs = (q, fs1)" by fastforce
  note law = replace_result [OF q]
  show ?thesis
  proof (cases q)
    case (Inl x)
    then have "r = Inl (NothingWritten x)" "m' = m" "fs' = fs1" using assms q by (simp_all add: atomic_write_def)
    then show ?thesis using law Inl by simp
  next
    case (Inr rv)
    then have "r \<in> {Inr rv} \<union> Inl ` (range ReloadFailed \<union> range MirrorNotified)"
      using assms q by (auto simp: atomic_write_def Let_def split: prod.splits option.splits)
    then show ?thesis using law Inr by (auto simp: me_yaml_def)
  qed
qed

text \<open>
  The settings page is one write: unless the disk itself fails, a submission that is refused (a
  login mode that does not exist, a file that changed since the page was rendered, a document of the
  wrong shape, a lock that is not free) changes neither the file nor the running configuration; and the
  revision returned for one that went through is that of a single document, the file as it was with all
  the parts of the submission applied.
\<close>

theorem the_settings_page_is_one_write:
  assumes "update_settings_form M oauth_fields saml_fields classes mode auto_login two_step expected (m, fs) = (r, m', fs')"
  shows "(\<forall>x. r = Inl (InvalidLoginMode x) \<longrightarrow> m' = m \<and> fs' = fs)
    \<and> (\<forall>x. r = Inl (NothingWritten x) \<longrightarrow> m' = m \<and> (\<not> is_not_written x \<longrightarrow> fs' = fs))
    \<and> (mode \<notin> {[], ''password'', ''persona''} \<longrightarrow> r = Inl (InvalidLoginMode mode))
    \<and> (expected \<notin> {None, Some (current_revision fs (settings_file m))} \<longrightarrow> (\<forall>rv. r \<noteq> Inr rv) \<and> m' = m \<and> fs' = fs)
    \<and> (\<forall>rv. r = Inr rv \<and> batch_apart (me_write M) {settings_file m} \<longrightarrow>
        (\<exists>d d'. load_yaml_document (me_yaml M) fs (settings_file m) = Some d
          \<and> mutate_settings_form M oauth_fields saml_fields classes mode auto_login two_step d = Inr d'
          \<and> rv = revision_of_bytes (yl_dump (me_yaml M) d')))"
proof (cases "mode \<noteq> [] \<and> validate_login_mode mode = None")
  case True
  then have "r = Inl (InvalidLoginMode mode)" "m' = m" "fs' = fs" using assms by (simp_all add: update_settings_form_def)
  then show ?thesis by simp
next
  case False
  then have mode: "mode \<in> {[], ''password'', ''persona''}" by (auto simp: validate_login_mode_def split: if_splits)
  have "atomic_write M (settings_file m)
      (mutate_settings_form M oauth_fields saml_fields classes mode auto_login two_step) expected (m, fs) = (r, m', fs')"
    using assms False unfolding update_settings_form_def by (auto simp: fst_conv split: if_splits)
  from atomic_write_result [OF this] mode show ?thesis by blast
qed

lemma the_settings_page_is_one_write_witness:
  "\<exists>r. update_settings_form sample_menv [(''issuer'', JStr ''http://new'')] [] [] ''persona'' (Some True) None (Some ''?'')
    (sample_manager, sample_disk) = (r, sample_manager, sample_disk) \<and> (\<forall>rv. r \<noteq> Inr rv)"
proof -
  obtain r m' fs' where form: "update_settings_form sample_menv [(''issuer'', JStr ''http://new'')] [] [] ''persona''
      (Some True) None (Some ''?'') (sample_manager, sample_disk) = (r, m', fs')"
    by (metis prod_cases3)
  from the_settings_page_is_one_write [OF form] sample_stale form show ?thesis by blast
qed

subsection \<open>The fields of a form\<close>

definition provided_value :: "env \<Rightarrow> str \<times> str \<Rightarrow> json \<Rightarrow> json option \<Rightarrow> json option" where
  \<comment> \<open>what a form makes of the raw value at a place\<close>
  "provided_value env p v raw =
     (case find (\<lambda>row. place row = p) owned_settings of
        None \<Rightarrow> raw
      | Some row \<Rightarrow>
          (let plain_row = (os_mode row = Plain);
               compare = (if plain_row \<or> json_true v then v else mode_empty (os_mode row)) in
           if is_unchanged env (raw_or JNull raw) compare then raw
           else if \<not> plain_row \<and> \<not> json_true v then None
           else Some v))"

lemma place_at: "(\<lambda>row. os_section row = sec_name \<and> os_key row = k) = (\<lambda>row. place row = (sec_name, k))"
  by (auto simp: place_def fun_eq_iff)

lemma put_provided_get:
  "dget (put_provided env row v sec) k =
    (if k \<noteq> os_key row then dget sec k
     else if is_unchanged env (dval sec k) (if os_mode row = Plain \<or> json_true v then v else mode_empty (os_mode row)) then dget sec k
     else if os_mode row \<noteq> Plain \<and> \<not> json_true v then None else Some v)"
  by (auto simp: put_provided_def Let_def)

lemma put_all_provided_get:
  assumes "put_all_provided env sec_name provided sec = Some sec'" "distinct (map fst provided)"
  shows "dget sec' k = (if dval provided k = JNull then dget sec k
    else provided_value env (sec_name, k) (dval provided k) (dget sec k))"
  using assms
proof (induction provided arbitrary: sec)
  case (Cons p provided)
  obtain k0 v where p: "p = (k0, v)" by (cases p)
  have "dget provided k0 = None" using Cons.prems(2) by (simp add: p dget_def map_of_eq_None_iff)
  then have new: "dval provided k0 = JNull" by (simp add: dval_def)
  show ?case
  proof (cases "v = JNull")
    case True
    then have "put_all_provided env sec_name provided sec = Some sec'" using Cons.prems(1) by (simp add: p)
    from Cons.IH [OF this] Cons.prems(2) show ?thesis using True new by (auto simp: p dval_def dget_Cons)
  next
    case False
    obtain row where row: "find (\<lambda>row. place row = (sec_name, k0)) owned_settings = Some row"
      "put_all_provided env sec_name provided (put_provided env row v sec) = Some sec'"
      using Cons.prems(1) False by (auto simp: p place_at split: option.splits)
    then have key: "os_key row = k0" by (auto simp: find_Some_iff place_def)
    have IH: "dget sec' k = (if dval provided k = JNull then dget (put_provided env row v sec) k
        else provided_value env (sec_name, k) (dval provided k) (dget (put_provided env row v sec) k))"
      using Cons.IH [OF row(2)] Cons.prems(2) by (simp add: p)
    show ?thesis
    proof (cases "k = k0")
      case True
      then show ?thesis using IH new False row(1) key
        by (simp add: p put_provided_get provided_value_def dval_def dget_Cons Let_def raw_or_def)
    next
      case False
      then show ?thesis using IH key by (simp add: p put_provided_get dval_def dget_Cons)
    qed
  qed
qed (simp add: dval_def)

lemma provided_row:
  assumes "put_all_provided env sec_name provided sec = Some sec'" "(k, v) \<in> set provided" "v \<noteq> JNull"
  shows "\<exists>row. find (\<lambda>row. place row = (sec_name, k)) owned_settings = Some row"
  using assms
proof (induction provided arbitrary: sec)
  case (Cons p provided)
  show ?case
    using Cons.prems Cons.IH by (cases p) (auto simp: place_at split: if_splits option.splits)
qed simp

lemma section_setdefault:
  "sec_name \<noteq> [] \<Longrightarrow> read_key (setdefault sec_name (JObj []) data) p =
    (if p = ([], sec_name) \<and> dget data sec_name = None then Some (JObj []) else read_key data p)"
  by (cases p) (auto simp: setdefault_def read_key_def section_target_def dhas_def split: option.split json.split)

lemma section_read:
  assumes "mutate_settings_section env sec_name provided data = Inr data'" "distinct (map fst provided)" "sec_name \<noteq> []"
  shows "read_key data' (sec_name, k) = (if dval provided k = JNull then read_key data (sec_name, k)
      else provided_value env (sec_name, k) (dval provided k) (read_key data (sec_name, k)))"
    and "dval provided k \<noteq> JNull \<Longrightarrow> \<exists>row. find (\<lambda>row. place row = (sec_name, k)) owned_settings = Some row"
    and "p \<noteq> ([], sec_name) \<Longrightarrow> fst p \<noteq> sec_name \<Longrightarrow> read_key data' p = read_key data p"
proof -
  let ?d = "setdefault sec_name (JObj []) data"
  have "(read_key data' (sec_name, k) = (if dval provided k = JNull then read_key data (sec_name, k)
      else provided_value env (sec_name, k) (dval provided k) (read_key data (sec_name, k))))
    \<and> (dval provided k \<noteq> JNull \<longrightarrow> (\<exists>row. find (\<lambda>row. place row = (sec_name, k)) owned_settings = Some row))
    \<and> (p \<noteq> ([], sec_name) \<and> fst p \<noteq> sec_name \<longrightarrow> read_key data' p = read_key data p)"
  proof (cases "list_all (\<lambda>(k, v). v = JNull) provided")
    case True
    then have "data' = ?d" using assms(1) by (simp add: mutate_settings_section_def)
    moreover have "dval provided k = JNull"
    proof (cases "dget provided k")
      case (Some v)
      then show ?thesis using True dget_in_set [OF Some] by (auto simp: dval_def list_all_iff)
    qed (simp add: dval_def)
    ultimately show ?thesis using section_setdefault [OF assms(3)] assms(3) by auto
  next
    case False
    then obtain sec sec' where sec: "dval ?d sec_name = JObj sec" "put_all_provided env sec_name provided sec = Some sec'"
      "data' = dset sec_name (JObj sec') ?d"
      using assms(1) by (auto simp: mutate_settings_section_def Let_def split: json.splits option.splits)
    have "read_key ?d (sec_name, k) = dget sec k"
      using sec(1) assms(3) by (auto simp: read_key_def section_target_def dval_def split: option.splits)
    then have old: "read_key data (sec_name, k) = dget sec k" using section_setdefault [OF assms(3)] assms(3) by simp
    have new: "read_key data' (sec_name, k) = dget sec' k" using assms(3) by (simp add: sec(3) read_key_def section_target_def)
    have other: "read_key data' p = read_key data p" if "p \<noteq> ([], sec_name)" "fst p \<noteq> sec_name"
    proof -
      have "read_key data' p = read_key ?d p"
        using that by (cases p) (auto simp: sec(3) read_key_def section_target_def split: option.split json.split)
      then show ?thesis using section_setdefault [OF assms(3), of data p] that by simp
    qed
    have "\<exists>row. find (\<lambda>row. place row = (sec_name, k)) owned_settings = Some row" if "dval provided k \<noteq> JNull"
      using provided_row [OF sec(2) dget_in_set] that by (force simp: dval_def split: option.splits)
    with put_all_provided_get [OF sec(2) assms(2), of k] show ?thesis unfolding old new using other by blast
  qed
  then show "read_key data' (sec_name, k) = (if dval provided k = JNull then read_key data (sec_name, k)
      else provided_value env (sec_name, k) (dval provided k) (read_key data (sec_name, k)))"
    "dval provided k \<noteq> JNull \<Longrightarrow> \<exists>row. find (\<lambda>row. place row = (sec_name, k)) owned_settings = Some row"
    "p \<noteq> ([], sec_name) \<Longrightarrow> fst p \<noteq> sec_name \<Longrightarrow> read_key data' p = read_key data p" by blast+
qed

text \<open>
  A form changes what it was given and nothing else. A field that was not on the form keeps its raw
  text; a value that was given is what the file holds afterwards, or the raw text in the file already
  reads as it (so a placeholder survives a submission that does not change it); a blank value clears a
  field whose absence has a meaning; and nothing outside the section is touched.
\<close>

theorem a_form_changes_what_it_was_given:
  assumes "mutate_settings_section env sec_name provided data = Inr data'" "distinct (map fst provided)" "sec_name \<noteq> []"
  shows "(\<forall>k. dval provided k = JNull \<longrightarrow> read_key data' (sec_name, k) = read_key data (sec_name, k))
    \<and> (\<forall>k. dval provided k \<noteq> JNull \<longrightarrow> (\<exists>row \<in> set owned_settings. place row = (sec_name, k) \<and>
        (if json_true (dval provided k) \<or> os_mode row = Plain
         then read_key data' (sec_name, k) = Some (dval provided k)
           \<or> read_key data' (sec_name, k) = read_key data (sec_name, k)
             \<and> is_unchanged env (raw_or JNull (read_key data (sec_name, k))) (dval provided k)
         else read_key data' (sec_name, k) = None
           \<or> read_key data' (sec_name, k) = read_key data (sec_name, k)
             \<and> is_unchanged env (raw_or JNull (read_key data (sec_name, k))) (mode_empty (os_mode row)))))
    \<and> (\<forall>p. p \<noteq> ([], sec_name) \<and> fst p \<noteq> sec_name \<longrightarrow> read_key data' p = read_key data p)"
proof (intro conjI allI impI, goal_cases)
  case (1 k)
  then show ?case using section_read(1) [OF assms, of k] by simp
next
  case (2 k)
  obtain row where row: "find (\<lambda>row. place row = (sec_name, k)) owned_settings = Some row"
    using section_read(2) [OF assms 2] by blast
  then have "row \<in> set owned_settings" "place row = (sec_name, k)" by (auto simp: find_Some_iff)
  moreover have "read_key data' (sec_name, k) = provided_value env (sec_name, k) (dval provided k) (read_key data (sec_name, k))"
    using section_read(1) [OF assms, of k] 2 by simp
  ultimately show ?case
    by (intro bexI [of _ row]) (simp_all add: provided_value_def row Let_def)
next
  case (3 p)
  then show ?case using section_read(3) [OF assms, of p] by simp
qed

lemma a_form_changes_what_it_was_given_witness:
  "\<exists>d. mutate_settings_section sample_env ''server'' [(''host'', JStr ''10.0.0.1''), (''port'', JInt 9000)] sample_yaml = Inr d
    \<and> read_key d (''server'', ''debug'') = Some (JBool True) \<and> read_key d (''login'', ''mode'') = read_key sample_yaml (''login'', ''mode'')"
proof -
  have "(case mutate_settings_section sample_env ''server'' [(''host'', JStr ''10.0.0.1''), (''port'', JInt 9000)] sample_yaml of
      Inl _ \<Rightarrow> False | Inr _ \<Rightarrow> True)" by code_simp
  then obtain d where d: "mutate_settings_section sample_env ''server''
      [(''host'', JStr ''10.0.0.1''), (''port'', JInt 9000)] sample_yaml = Inr d" by (auto split: sum.splits)
  have "dval [(''host'', JStr ''10.0.0.1''), (''port'', JInt 9000)] ''debug'' = JNull"
    "read_key sample_yaml (''server'', ''debug'') = Some (JBool True)" by code_simp+
  with a_form_changes_what_it_was_given [OF d] d show ?thesis by simp
qed

subsection \<open>A client that was saved\<close>

definition client_list :: "doc \<Rightarrow> json list option" where
  \<comment> \<open>the raw entries of the clients\<close>
  "client_list data =
     (case dval_or data ''oauth'' (JObj []) of
        JObj oauth \<Rightarrow> (case dval_or oauth ''clients'' (JList []) of JList xs \<Rightarrow> Some xs | _ \<Rightarrow> None)
      | _ \<Rightarrow> None)"

lemma first_index_Some:
  "first_index P xs = Some i \<Longrightarrow> i < length xs \<and> P (xs ! i) \<and> (\<forall>x \<in> set (take i xs). \<not> P x)"
proof (induction xs arbitrary: i)
  case (Cons x xs)
  then show ?case by (cases i) (auto split: if_splits)
qed simp

lemma first_index_None: "first_index P xs = None \<longleftrightarrow> (\<forall>x \<in> set xs. \<not> P x)"
  by (induction xs) auto

lemma matching_is_object: "client_id_matches env x i \<Longrightarrow> \<exists>r. x = JObj r"
  by (cases x) (simp_all add: client_id_matches_def)

lemma raw_entries_Nil: "raw_client_entries (JList []) = []"
  by simp

lemma raw_entries_Cons: "raw_client_entries (JList (x # xs)) =
    (case x of JObj d \<Rightarrow> d # raw_client_entries (JList xs) | _ \<Rightarrow> raw_client_entries (JList xs))"
  by (cases x) simp_all

lemma found_entry:
  "first_index (\<lambda>e. client_id_matches env e i) xs = Some n \<Longrightarrow> xs ! n = JObj r \<Longrightarrow>
    find (\<lambda>r. client_id_matches env (JObj r) i) (raw_client_entries (JList xs)) = Some r"
proof (induction xs arbitrary: n)
  case (Cons x xs)
  show ?case
  proof (cases "client_id_matches env x i")
    case True
    then have "x = JObj r" using Cons.prems by simp
    then show ?thesis using True by (simp add: raw_entries_Cons del: raw_client_entries.simps)
  next
    case False
    then obtain k where k: "first_index (\<lambda>e. client_id_matches env e i) xs = Some k" "xs ! k = JObj r"
      using Cons.prems by auto
    then show ?thesis
      using Cons.IH False by (cases x) (simp_all add: raw_entries_Cons del: raw_client_entries.simps)
  qed
qed simp

lemma no_entry:
  "first_index (\<lambda>e. client_id_matches env e i) xs = None \<Longrightarrow>
    find (\<lambda>r. client_id_matches env (JObj r) i) (raw_client_entries (JList xs)) = None"
  by (induction xs) (auto simp: raw_entries_Nil raw_entries_Cons simp del: raw_client_entries.simps split: json.split if_splits)

lemma entry_loads:
  assumes "savable_client c" "entries_ok V env raw" "pydantic_bools V"
  shows "client_errors V (expand_fields env (entry_of env raw c)) = []"
    "to_client (client_value V (expand_fields env (entry_of env raw c))) = Inr c"
  using new_entries_load [of "[c]" V env raw] assms by simp_all

lemma save_client_result:
  assumes "mutate_save_client env c is_new data = Inr data'"
  obtains oauth xs ys where "dval_or data ''oauth'' (JObj []) = JObj oauth" "dval_or oauth ''clients'' (JList []) = JList xs"
    "data' = dset ''oauth'' (JObj (dset ''clients'' (JList ys) oauth)) data"
    "first_index (\<lambda>e. client_id_matches env e (cl_client_id c)) xs = None \<and> ys = xs @ [JObj (entry_of env (JList xs) c)]
     \<or> (\<exists>n. first_index (\<lambda>e. client_id_matches env e (cl_client_id c)) xs = Some n \<and> \<not> is_new
          \<and> ys = xs[n := JObj (entry_of env (JList xs) c)])"
proof -
  obtain oauth xs where o: "dval_or data ''oauth'' (JObj []) = JObj oauth" "dval_or oauth ''clients'' (JList []) = JList xs"
    using assms by (auto simp: mutate_save_client_def split: json.splits)
  show thesis
  proof (cases "first_index (\<lambda>e. client_id_matches env e (cl_client_id c)) xs")
    case None
    then have "entry_of env (JList xs) c = client_to_yaml c" using no_entry [OF None] by (simp add: entry_of_def)
    then show thesis
      using that [OF o, of "xs @ [JObj (client_to_yaml c)]"] None assms by (simp add: mutate_save_client_def o)
  next
    case (Some n)
    then obtain r where r: "xs ! n = JObj r" using first_index_Some matching_is_object by blast
    then have "entry_of env (JList xs) c = merge_client_entry env r c" using found_entry [OF Some] by (simp add: entry_of_found)
    then show thesis
      using that [OF o, of "xs[n := JObj (merge_client_entry env r c)]"] Some assms r
      by (simp add: mutate_save_client_def o split: if_splits)
  qed
qed

text \<open>
  C27. A client that the dashboard saves is the client the next load gives: the entry written for it
  loads, expanded, to that very client, whether it is appended or merged into an entry whose text may be
  a placeholder; it stands where the first entry of that identifier stood, or at the end; every other
  entry and every other key of the file is as it was; and a new client never replaces one.
\<close>

theorem a_saved_client_loads_back:
  assumes "mutate_save_client env c is_new data = Inr data'" "savable_client c" "pydantic_bools V"
    "\<forall>xs. client_list data = Some xs \<longrightarrow> entries_ok V env (JList xs)"
  shows "(\<exists>before entry after. client_list data' = Some (before @ JObj entry # after)
      \<and> (\<forall>x \<in> set before. \<not> client_id_matches env x (cl_client_id c))
      \<and> (client_list data = Some before \<and> after = []
         \<or> (\<exists>old. client_list data = Some (before @ old # after) \<and> client_id_matches env old (cl_client_id c) \<and> \<not> is_new))
      \<and> client_errors V (expand_fields env entry) = []
      \<and> to_client (client_value V (expand_fields env entry)) = Inr c)
    \<and> (\<forall>p. apart p (''oauth'', ''clients'') \<longrightarrow> read_key data' p = read_key data p)"
proof -
  obtain oauth xs ys where o: "dval_or data ''oauth'' (JObj []) = JObj oauth" "dval_or oauth ''clients'' (JList []) = JList xs"
    "data' = dset ''oauth'' (JObj (dset ''clients'' (JList ys) oauth)) data"
    "first_index (\<lambda>e. client_id_matches env e (cl_client_id c)) xs = None \<and> ys = xs @ [JObj (entry_of env (JList xs) c)]
     \<or> (\<exists>n. first_index (\<lambda>e. client_id_matches env e (cl_client_id c)) xs = Some n \<and> \<not> is_new
          \<and> ys = xs[n := JObj (entry_of env (JList xs) c)])"
    by (rule save_client_result [OF assms(1)])
  have old: "client_list data = Some xs" by (simp add: client_list_def o)
  have new: "client_list data' = Some ys" by (simp add: client_list_def o(3) dval_or_def)
  note loads = entry_loads [OF assms(2) assms(4) [rule_format, OF old] assms(3)]
  have target: "section_target ''oauth'' data = Some oauth"
    using o(1) by (auto simp: section_target_def dval_or_def split: option.splits)
  have put: "data' = put_target ''oauth'' (dset ''clients'' (JList ys) oauth) data" by (simp add: o(3) put_target_def)
  have "read_key data' p = read_key data p" if "apart p (''oauth'', ''clients'')" for p
    unfolding put by (rule read_put_other [OF target _ that]) simp
  moreover have "\<exists>before after. ys = before @ JObj (entry_of env (JList xs) c) # after
      \<and> (\<forall>x \<in> set before. \<not> client_id_matches env x (cl_client_id c))
      \<and> (xs = before \<and> after = []
         \<or> (\<exists>old. xs = before @ old # after \<and> client_id_matches env old (cl_client_id c) \<and> \<not> is_new))"
    using o(4)
  proof (elim disjE exE conjE)
    assume "first_index (\<lambda>e. client_id_matches env e (cl_client_id c)) xs = None" "ys = xs @ [JObj (entry_of env (JList xs) c)]"
    then show ?thesis by (intro exI [of _ xs] exI [of _ "[]"]) (simp add: first_index_None)
  next
    fix n assume n: "first_index (\<lambda>e. client_id_matches env e (cl_client_id c)) xs = Some n" "\<not> is_new"
      "ys = xs[n := JObj (entry_of env (JList xs) c)]"
    note pos = first_index_Some [OF n(1)]
    show ?thesis
      using pos n(2) id_take_nth_drop [of n xs]
      by (intro exI [of _ "take n xs"] exI [of _ "drop (Suc n) xs"]) (auto simp: n(3) upd_conv_take_nth_drop)
  qed
  ultimately show ?thesis unfolding old new using loads by fastforce
qed

lemma a_saved_client_loads_back_witness:
  "\<exists>d before entry after. mutate_save_client sample_env sample_client False sample_yaml = Inr d
    \<and> client_list d = Some (before @ JObj entry # after)
    \<and> to_client (client_value sample_pydantic (expand_fields sample_env entry)) = Inr sample_client"
proof -
  have "(case mutate_save_client sample_env sample_client False sample_yaml of Inl _ \<Rightarrow> False | Inr _ \<Rightarrow> True)" by code_simp
  then obtain d where d: "mutate_save_client sample_env sample_client False sample_yaml = Inr d" by (auto split: sum.splits)
  have c: "savable_client sample_client" by code_simp
  have "(case client_list sample_yaml of None \<Rightarrow> True | Some xs \<Rightarrow> entries_ok sample_pydantic sample_env (JList xs))" by code_simp
  then have entries: "\<forall>xs. client_list sample_yaml = Some xs \<longrightarrow> entries_ok sample_pydantic sample_env (JList xs)" by auto
  have "pydantic_bools sample_pydantic" using sample_pydantic_reads by simp
  from a_saved_client_loads_back [OF d c this entries] d show ?thesis by blast
qed

subsection \<open>The default user\<close>

definition default_user_known :: "doc \<Rightarrow> bool" where
  \<comment> \<open>the users are a mapping and the default user, if one is named, is among them\<close>
  "default_user_known data \<longleftrightarrow> (case dval data ''users'' of
     JObj d \<Rightarrow> (case dget data ''default_user'' of None \<Rightarrow> True | Some (JStr n) \<Rightarrow> n = [] \<or> dhas d n | _ \<Rightarrow> False)
   | _ \<Rightarrow> False)"

lemma users_present: "default_user_known data \<Longrightarrow> users_skeleton True data = data \<and> setdefault ''users'' (JObj []) data = data"
  by (auto simp: users_skeleton_def setdefault_def default_user_known_def dval_def dhas_def split: option.splits)

lemma dhas_dict: "dhas (dset k v d) n \<longleftrightarrow> n = k \<or> dhas d n" "dhas (ddel k d) n \<longleftrightarrow> n \<noteq> k \<and> dhas d n"
  by (simp_all add: dhas_def)

lemma first_key: "d \<noteq> [] \<Longrightarrow> dhas d (fst (hd d))"
  by (cases d) (auto simp: dhas_def dget_Cons)

lemma default_user_cases:
  assumes "default_user_known data"
  obtains d where "dval data ''users'' = JObj d" "dget data ''default_user'' = None"
  | d n where "dval data ''users'' = JObj d" "dget data ''default_user'' = Some (JStr n)" "n = [] \<or> dhas d n"
  using assms that by (auto simp: default_user_known_def split: json.splits option.splits)

text \<open>
  A user that is deleted is never left as the default user, and no other operation on a
  \<open>users.yaml\<close> that exists makes the default user one who does not.
\<close>

lemma the_default_user_stays_known:
  assumes "default_user_known data"
  shows "mutate_save_user True u b data = Inr data' \<Longrightarrow> default_user_known data'"
    and "mutate_delete_user True n data = Inr data' \<Longrightarrow> default_user_known data'"
    and "mutate_set_default_user n data = Inr data' \<Longrightarrow> default_user_known data'"
proof -
  note skel = users_present [OF assms]
  show "mutate_save_user True u b data = Inr data' \<Longrightarrow> default_user_known data'"
    using assms
    by (rule default_user_cases)
       (auto simp: mutate_save_user_def skel Let_def default_user_known_def dval_def dhas_dict split: if_splits)
  show "mutate_delete_user True n data = Inr data' \<Longrightarrow> default_user_known data'"
    using assms
    by (rule default_user_cases)
       (auto simp: mutate_delete_user_def skel Let_def default_user_known_def dval_def dhas_dict dhas_def dget_Cons
          split: if_splits option.splits bool.splits list.splits)
  show "mutate_set_default_user n data = Inr data' \<Longrightarrow> default_user_known data'"
    using assms
    by (rule default_user_cases)
       (auto simp: mutate_set_default_user_def skel Let_def default_user_known_def dval_def split: option.splits bool.splits)
qed

lemma the_first_user_leaves_an_unknown_default:
  "u_username u \<noteq> ''admin'' \<Longrightarrow> \<exists>data. mutate_save_user False u b [] = Inr data \<and> \<not> default_user_known data
    \<and> dget data ''default_user'' = Some (JStr ''admin'')"
  by (simp add: mutate_save_user_def users_skeleton_def setdefault_def default_user_known_def dval_def dhas_def Let_def)

end
