(* ===== verification/Ui_Forms.thy ===== *)
theory Ui_Forms
  imports Yaml_Writer Api Urls
begin

text \<open>
  The management pages of \<open>routes/ui.py\<close>: users, clients, settings, claims and the audit log, over the
  configuration writer. The state is the world of the server with the manager and the disk; the
  configuration the server reads is the one of the manager. Of a page the context that the code
  computes is kept; the templates are left out. The texts of exceptions and the URLs of endpoints are
  parameters.
\<close>

datatype failure =
    InvalidModel \<comment> \<open>a \<open>ValidationError\<close> of pydantic\<close>
  | BadNumber str
  | WriterFailed writer_error

record 'p dash_env =
  dx_lib :: lib
  dx_menv :: "'p menv"
  dx_text :: "failure \<Rightarrow> str" \<comment> \<open>\<open>str(e)\<close>\<close>
  dx_url :: "str \<Rightarrow> str option \<Rightarrow> str" \<comment> \<open>\<open>url_for\<close> of an endpoint with its path variable\<close>

record 'p dash =
  dh_world :: world
  dh_manager :: "'p manager"
  dh_disk :: disk

definition dash_config :: "'p dash \<Rightarrow> config" where
  "dash_config s = cm_config (dh_manager s)"

definition with_manager :: "'p manager \<times> disk \<Rightarrow> 'p dash \<Rightarrow> 'p dash" where
  \<comment> \<open>\<open>get_config()\<close> gives every blueprint the one manager: what the endpoints read is its configuration\<close>
  "with_manager ms s = s\<lparr>dh_world := (dh_world s)\<lparr>w_config := cm_config (fst ms)\<rparr>,
     dh_manager := fst ms, dh_disk := snd ms\<rparr>"

definition flash_redirect :: "'p dash_env \<Rightarrow> str \<Rightarrow> str option \<Rightarrow> str \<Rightarrow> str \<Rightarrow> 'p dash \<Rightarrow> reply \<times> 'p dash" where
  "flash_redirect X endpoint arg category message s =
     (redirect_reply (dx_url X endpoint arg), s\<lparr>dh_world := flash message category (dh_world s)\<rparr>)"

definition expected_revision_from_form :: "request \<Rightarrow> str option" where
  "expected_revision_from_form rq =
     (case param (rq_form rq) ''expected_revision'' of None \<Rightarrow> None | Some v \<Rightarrow> or_none v)"

subsection \<open>Failures\<close>

fun is_value_error :: "failure \<Rightarrow> bool" where
  \<comment> \<open>is the exception a \<open>ValueError\<close>\<close>
  "is_value_error InvalidModel = True"
| "is_value_error (BadNumber s) = True"
| "is_value_error (WriterFailed (InvalidLoginMode m)) = True"
| "is_value_error (WriterFailed (NothingWritten RepeatedPath)) = True"
| "is_value_error (WriterFailed (NothingWritten (MutateFailed (AlreadyExists n)))) = True"
| "is_value_error (WriterFailed (NothingWritten (MutateFailed (NotFound n)))) = True"
| "is_value_error (WriterFailed (ReloadFailed (FromStage (BadDocument f e)))) = True"
| "is_value_error _ = False"

fun is_conflict :: "failure \<Rightarrow> bool" where
  "is_conflict (WriterFailed (NothingWritten (Conflict f))) = True"
| "is_conflict _ = False"

fun is_hook_error :: "failure \<Rightarrow> bool" where
  "is_hook_error (WriterFailed (MirrorNotified e)) = True"
| "is_hook_error (WriterFailed (ReloadFailed (FromHook e))) = True"
| "is_hook_error _ = False"

definition conflict_message :: "'p dash_env \<Rightarrow> failure \<Rightarrow> str" where
  "conflict_message X e = dx_text X e @ '' - please reload the page and try again''"

definition form_refused :: "'p dash_env \<Rightarrow> bool \<Rightarrow> str \<Rightarrow> str \<Rightarrow> str option \<Rightarrow> failure \<Rightarrow> 'p dash \<Rightarrow> reply \<times> 'p dash" where
  \<comment> \<open>the \<open>except\<close> clauses of a form; \<open>plain_text\<close>: a \<open>ValueError\<close> is shown without the prefix\<close>
  "form_refused X plain_text prefix endpoint arg e s =
     flash_redirect X endpoint arg ''error''
       (if plain_text \<and> is_value_error e then dx_text X e
        else if is_conflict e then conflict_message X e
        else prefix @ '': '' @ dx_text X e) s"

definition submit ::
  "('p manager \<times> disk \<Rightarrow> (writer_error + str) \<times> 'p manager \<times> disk) \<Rightarrow> 'p dash \<Rightarrow> failure option \<times> 'p dash" where
  "submit write s =
     (case write (dh_manager s, dh_disk s) of
        (Inl e, ms) \<Rightarrow> (Some (WriterFailed e), with_manager ms s)
      | (Inr _, ms) \<Rightarrow> (None, with_manager ms s))"

subsection \<open>Reading a form\<close>

definition stripped :: "str list \<Rightarrow> str list" where
  "stripped xs = filter (\<lambda>x. x \<noteq> []) (map py_strip xs)"

definition parse_textarea_list :: "str \<Rightarrow> str list" where
  "parse_textarea_list v = stripped (splitlines [] v)"

definition form_items :: "request \<Rightarrow> str \<Rightarrow> char \<Rightarrow> str list" where
  "form_items rq name sep = stripped (split_on sep (param_or (rq_form rq) name []))"

fun nth_or :: "'a list \<Rightarrow> nat \<Rightarrow> 'a \<Rightarrow> 'a" where
  "nth_or [] n d = d"
| "nth_or (x # xs) 0 d = x"
| "nth_or (x # xs) (Suc n) d = nth_or xs n d"

definition attribute_value :: "lib \<Rightarrow> str \<Rightarrow> str \<Rightarrow> json" where
  "attribute_value L encoding value =
     (if encoding = ''string'' then JStr value
      else if encoding = ''json'' \<or> hd value \<in> set ''[{'' then
        (case lib_json_loads L value of Some v \<Rightarrow> v | None \<Rightarrow> JStr value)
      else JStr value)"

fun attribute_rows :: "lib \<Rightarrow> nat \<Rightarrow> (str \<times> str) list \<Rightarrow> str list \<Rightarrow> doc \<Rightarrow> doc" where
  "attribute_rows L i [] encodings attributes = attributes"
| "attribute_rows L i ((k, v) # rows) encodings attributes =
     (let key = py_strip k; value = py_strip v in
      attribute_rows L (Suc i) rows encodings
        (if key = [] \<or> value = [] then attributes
         else dset key (attribute_value L (nth_or encodings i ''auto'') value) attributes))"

definition parse_attribute_rows :: "lib \<Rightarrow> request \<Rightarrow> doc" where
  "parse_attribute_rows L rq =
     attribute_rows L 0 (zip (getlist (rq_form rq) ''attr_key[]'') (getlist (rq_form rq) ''attr_value[]''))
       (getlist (rq_form rq) ''attr_encoding[]'') []"

definition form_bool :: "request \<Rightarrow> str \<Rightarrow> json" where
  \<comment> \<open>null: the field was not on the form\<close>
  "form_bool rq name =
     (case param (rq_form rq) name of
        Some v \<Rightarrow> JBool (v = ''true'')
      | None \<Rightarrow> if param (rq_form rq) (name @ ''__on_form'') \<noteq> None then JBool False else JNull)"

definition form_text :: "request \<Rightarrow> str \<Rightarrow> json" where
  "form_text rq name = (case param (rq_form rq) name of None \<Rightarrow> JNull | Some v \<Rightarrow> JStr (py_strip v))"

definition form_textarea_list :: "request \<Rightarrow> str \<Rightarrow> json" where
  "form_textarea_list rq name =
     (case param (rq_form rq) name of None \<Rightarrow> JNull | Some v \<Rightarrow> jstrs (parse_textarea_list v))"

subsection \<open>Users\<close>

definition quoted :: "str \<Rightarrow> str" where
  "quoted t = [CHR 0x27] @ t @ [CHR 0x27]"

definition form_page :: "str \<Rightarrow> doc \<Rightarrow> file_path \<Rightarrow> 'p dash \<Rightarrow> reply \<times> 'p dash" where
  \<comment> \<open>a form with the revision of the file it edits\<close>
  "form_page template shown f s =
     (page_reply template (shown @ [(''revision'', JStr (current_revision (dh_disk s) f))]), s)"

definition user_from_form :: "lib \<Rightarrow> request \<Rightarrow> str \<Rightarrow> str option \<Rightarrow> failure + user" where
  \<comment> \<open>\<open>User(...)\<close> with the fields of the form\<close>
  "user_from_form L rq username password =
     (let u = \<lparr>u_username = username, u_password = password,
                u_description = py_strip (param_or (rq_form rq) ''description'' []),
                u_email = param_or (rq_form rq) ''email'' [],
                u_identity_class = (case param (rq_form rq) ''identity_class'' of None \<Rightarrow> None | Some v \<Rightarrow> or_none v),
                u_entitlements = form_items rq ''entitlements'' CHR 0x0A,
                u_roles = form_items rq ''roles'' CHR '','', u_groups = form_items rq ''groups'' CHR '','',
                u_tenant = param_or (rq_form rq) ''tenant'' ''default'',
                u_source_acl = form_items rq ''source_acl'' CHR 0x0A, u_attributes = parse_attribute_rows L rq\<rparr>
      in if user_problems username password (u_description u) (Some (u_email u)) = [] then Inr u else Inl InvalidModel)"

definition user_create :: "'p dash_env \<Rightarrow> request \<Rightarrow> 'p dash \<Rightarrow> reply \<times> 'p dash" where
  "user_create X rq s =
     (let username = py_strip (param_or (rq_form rq) ''username'' []);
          raw_password = param_or (rq_form rq) ''password'' [];
          password = (if py_strip raw_password = [] then None else Some raw_password)
      in if rq_method rq = ''GET'' then
           form_page ''users_form.html''
             [(''allowed_identity_classes'', jstrs (s_allowed_identity_classes (c_settings (dash_config s)))),
              (''persona_mode'', JBool (persona_mode_enabled (c_settings (dash_config s))))]
             (users_file (dh_manager s)) s
         else if username = [] then flash_redirect X ''ui.user_create'' None ''error'' ''Username is required'' s
         else if password = None \<and> \<not> persona_mode_enabled (c_settings (dash_config s)) then
           flash_redirect X ''ui.user_create'' None ''error'' ''Password is required for new users'' s
         else
           case user_from_form (dx_lib X) rq username password of
             Inl e \<Rightarrow> form_refused X True ''Failed to create user'' ''ui.user_create'' None e s
           | Inr u \<Rightarrow>
               (case submit (save_user (dx_menv X) u True (expected_revision_from_form rq)) s of
                  (Some e, s1) \<Rightarrow> form_refused X True ''Failed to create user'' ''ui.user_create'' None e s1
                | (None, s1) \<Rightarrow> flash_redirect X ''ui.user_detail'' (Some username) ''success''
                    (''User '' @ quoted username @ '' created successfully'') s1))"

definition user_missing :: "'p dash_env \<Rightarrow> str \<Rightarrow> 'p dash \<Rightarrow> reply \<times> 'p dash" where
  "user_missing X username s =
     flash_redirect X ''ui.users'' None ''error'' (''User '' @ quoted username @ '' not found'') s"

definition user_detail :: "'p dash_env \<Rightarrow> str \<Rightarrow> 'p dash \<Rightarrow> reply \<times> 'p dash" where
  "user_detail X username s =
     (case get_user (dash_config s) username of
        None \<Rightarrow> user_missing X username s
      | Some u \<Rightarrow> (page_reply ''user_detail.html''
          [(''user'', user_summary username u), (''authorities'', jstrs (build_authorities (c_settings (dash_config s)) u))], s))"

definition user_edit :: "'p dash_env \<Rightarrow> request \<Rightarrow> str \<Rightarrow> 'p dash \<Rightarrow> reply \<times> 'p dash" where
  "user_edit X rq username s =
     (case get_user (dash_config s) username of
        None \<Rightarrow> user_missing X username s
      | Some old \<Rightarrow>
          if rq_method rq = ''GET'' then
            form_page ''users_form.html''
              [(''user'', user_summary username old),
               (''allowed_identity_classes'', jstrs (s_allowed_identity_classes (c_settings (dash_config s)))),
               (''persona_mode'', JBool (persona_mode_enabled (c_settings (dash_config s))))]
              (users_file (dh_manager s)) s
          else
            let given = param_or (rq_form rq) ''password'' [];
                password = (if given = [] then u_password old else Some given)
            in case user_from_form (dx_lib X) rq username password of
                 Inl e \<Rightarrow> form_refused X False ''Failed to update user'' ''ui.user_edit'' (Some username) e s
               | Inr u \<Rightarrow>
                   (case submit (save_user (dx_menv X) u False (expected_revision_from_form rq)) s of
                      (Some e, s1) \<Rightarrow> form_refused X False ''Failed to update user'' ''ui.user_edit'' (Some username) e s1
                    | (None, s1) \<Rightarrow> flash_redirect X ''ui.user_detail'' (Some username) ''success''
                        (''User '' @ quoted username @ '' updated successfully'') s1))"

definition user_delete :: "'p dash_env \<Rightarrow> request \<Rightarrow> str \<Rightarrow> 'p dash \<Rightarrow> reply \<times> 'p dash" where
  "user_delete X rq username s =
     (case submit (delete_user (dx_menv X) username (expected_revision_from_form rq)) s of
        (Some e, s1) \<Rightarrow> form_refused X True ''Failed to delete user'' ''ui.users'' None e s1
      | (None, s1) \<Rightarrow> flash_redirect X ''ui.users'' None ''success''
          (''User '' @ quoted username @ '' deleted successfully'') s1)"

subsection \<open>Clients\<close>

definition client_from_form :: "request \<Rightarrow> str \<Rightarrow> str option \<Rightarrow> str \<Rightarrow> str \<Rightarrow> failure + oauth_client" where
  \<comment> \<open>\<open>OAuthClient(...)\<close> with the fields of the form; auth method and layout as they were given\<close>
  "client_from_form rq client_id client_secret auth_method layout =
     (let color = (\<lambda>name. case param (rq_form rq) name of None \<Rightarrow> None | Some v \<Rightarrow> or_none v);
          checked = (\<lambda>name. param_or (rq_form rq) name [] \<noteq> []);
          lines = (\<lambda>name. parse_textarea_list (param_or (rq_form rq) name []));
          c = \<lparr>cl_client_id = client_id, cl_client_secret = client_secret, cl_auth_method = auth_method_of auth_method,
                cl_description = param_or (rq_form rq) ''description'' [],
                cl_background_color = color ''background_color'', cl_header_color = color ''header_color'',
                cl_footer_color = color ''footer_color'', cl_show_client_id = checked ''show_client_id'',
                cl_show_description = checked ''show_description'',
                cl_additional_audiences = lines ''additional_audiences'', cl_redirect_uris = lines ''redirect_uris'',
                cl_allowed_scopes = lines ''allowed_scopes'', cl_allowed_resources = lines ''allowed_resources'',
                cl_layout = layout\<rparr>
      in if auth_method \<in> set [''client_secret_basic'', ''client_secret_post'', ''none''] \<and> valid_client c then Inr c
         else Inl InvalidModel)"

definition client_create :: "'p dash_env \<Rightarrow> request \<Rightarrow> 'p dash \<Rightarrow> reply \<times> 'p dash" where
  "client_create X rq s =
     (let client_id = py_strip (param_or (rq_form rq) ''client_id'' []);
          auth_method = param_or (rq_form rq) ''token_endpoint_auth_method'' ''client_secret_basic'';
          given = py_strip (param_or (rq_form rq) ''client_secret'' []);
          client_secret = (if auth_method = ''none'' then None else Some given)
      in if rq_method rq = ''GET'' then
           form_page ''clients_form.html''
             [(''generated_secret'', JStr (lib_urlsafe (dx_lib X) (w_draws (dh_world s))))]
             (settings_file (dh_manager s)) (s\<lparr>dh_world := (dh_world s)\<lparr>w_draws := Suc (w_draws (dh_world s))\<rparr>\<rparr>)
         else if client_id = [] then flash_redirect X ''ui.client_create'' None ''error'' ''Client ID is required'' s
         else if client_secret = Some [] then
           flash_redirect X ''ui.client_create'' None ''error''
             (''Client Secret is required unless the auth method is '' @ quoted ''none'') s
         else
           case client_from_form rq client_id client_secret auth_method (param_or (rq_form rq) ''layout'' ''vertical'') of
             Inl e \<Rightarrow> form_refused X True ''Failed to create client'' ''ui.client_create'' None e s
           | Inr c \<Rightarrow>
               (case submit (save_client (dx_menv X) c True (expected_revision_from_form rq)) s of
                  (Some e, s1) \<Rightarrow> form_refused X True ''Failed to create client'' ''ui.client_create'' None e s1
                | (None, s1) \<Rightarrow> flash_redirect X ''ui.clients'' None ''success''
                    (''OAuth client '' @ quoted client_id @ '' created successfully'') s1))"

definition client_missing :: "'p dash_env \<Rightarrow> str \<Rightarrow> 'p dash \<Rightarrow> reply \<times> 'p dash" where
  "client_missing X client_id s =
     flash_redirect X ''ui.clients'' None ''error'' (''Client '' @ quoted client_id @ '' not found'') s"

definition client_edit :: "'p dash_env \<Rightarrow> request \<Rightarrow> str \<Rightarrow> 'p dash \<Rightarrow> reply \<times> 'p dash" where
  "client_edit X rq client_id s =
     (case get_client (dash_config s) client_id of
        None \<Rightarrow> client_missing X client_id s
      | Some old \<Rightarrow>
          if rq_method rq = ''GET'' then
            form_page ''clients_form.html'' [(''client_id'', JStr client_id)] (settings_file (dh_manager s)) s
          else
            let auth_method = param_or (rq_form rq) ''token_endpoint_auth_method'' (auth_method_str (cl_auth_method old));
                given = py_strip (param_or (rq_form rq) ''client_secret'' []);
                client_secret = (if given \<noteq> [] then Some given
                  else if auth_method = ''none'' then None else cl_client_secret old)
            in case client_from_form rq client_id client_secret auth_method (param_or (rq_form rq) ''layout'' (cl_layout old)) of
                 Inl e \<Rightarrow> form_refused X False ''Failed to update client'' ''ui.client_edit'' (Some client_id) e s
               | Inr c \<Rightarrow>
                   (case submit (save_client (dx_menv X) c False (expected_revision_from_form rq)) s of
                      (Some e, s1) \<Rightarrow> form_refused X False ''Failed to update client'' ''ui.client_edit'' (Some client_id) e s1
                    | (None, s1) \<Rightarrow> flash_redirect X ''ui.clients'' None ''success''
                        (''OAuth client '' @ quoted client_id @ '' updated successfully'') s1))"

definition client_delete :: "'p dash_env \<Rightarrow> request \<Rightarrow> str \<Rightarrow> 'p dash \<Rightarrow> reply \<times> 'p dash" where
  "client_delete X rq client_id s =
     (case submit (delete_client (dx_menv X) client_id (expected_revision_from_form rq)) s of
        (Some e, s1) \<Rightarrow> form_refused X True ''Failed to delete client'' ''ui.clients'' None e s1
      | (None, s1) \<Rightarrow> flash_redirect X ''ui.clients'' None ''success''
          (''OAuth client '' @ quoted client_id @ '' deleted successfully'') s1)"

definition client_regenerate_secret :: "'p dash_env \<Rightarrow> request \<Rightarrow> str \<Rightarrow> 'p dash \<Rightarrow> reply \<times> 'p dash" where
  "client_regenerate_secret X rq client_id s =
     (case get_client (dash_config s) client_id of
        None \<Rightarrow> client_missing X client_id s
      | Some c \<Rightarrow>
          if is_public c then
            flash_redirect X ''ui.clients'' None ''error''
              (''Client '' @ quoted client_id @ '' is public (token_endpoint_auth_method '' @ quoted ''none''
                 @ '') and has no secret'') s
          else
            let new_secret = lib_urlsafe (dx_lib X) (w_draws (dh_world s));
                s0 = s\<lparr>dh_world := (dh_world s)\<lparr>w_draws := Suc (w_draws (dh_world s))\<rparr>\<rparr>
            in case submit (save_client (dx_menv X) (c\<lparr>cl_client_secret := Some new_secret\<rparr>) False
                       (expected_revision_from_form rq)) s0 of
                 (Some e, s1) \<Rightarrow> form_refused X False ''Failed to regenerate secret'' ''ui.clients'' None e s1
               | (None, s1) \<Rightarrow> flash_redirect X ''ui.clients'' None ''success''
                   (''New secret for '' @ quoted client_id @ '': '' @ new_secret) s1)"

subsection \<open>Settings and claims\<close>

definition form_oauth_fields :: "request \<Rightarrow> int option \<Rightarrow> doc" where
  "form_oauth_fields rq expiry =
     [(''issuer'', form_text rq ''issuer''), (''issuer_from_request'', form_bool rq ''issuer_from_request''),
      (''issuer_allowlist'', form_textarea_list rq ''issuer_allowlist''),
      (''device_verification_base_url'', form_text rq ''device_verification_base_url''),
      (''issuer_from_proxy_headers'', form_bool rq ''issuer_from_proxy_headers''), (''audience'', form_text rq ''audience''),
      (''token_expiry_minutes'', (case expiry of None \<Rightarrow> JNull | Some i \<Rightarrow> JInt i)),
      (''require_pkce'', form_bool rq ''require_pkce''), (''refresh_token_rotation'', form_bool rq ''refresh_token_rotation''),
      (''logos_dir'', form_text rq ''logos_dir'')]"

definition form_saml_fields :: "request \<Rightarrow> doc" where
  "form_saml_fields rq =
     [(''entity_id'', form_text rq ''saml_entity_id''), (''sso_url'', form_text rq ''saml_sso_url''),
      (''default_acs_url'', form_text rq ''default_acs_url''), (''sign_responses'', form_bool rq ''saml_sign_responses''),
      (''strict_binding'', form_bool rq ''strict_saml_binding''),
      (''want_authn_requests_signed'', form_bool rq ''saml_want_authn_requests_signed''),
      (''sp_certificates'', form_textarea_list rq ''saml_sp_certificates''),
      (''c14n_algorithm'', form_text rq ''saml_c14n_algorithm''), (''export_roles'', form_bool rq ''saml_export_roles''),
      (''export_groups'', form_bool rq ''saml_export_groups''), (''roles_attr_name'', form_text rq ''saml_roles_attr_name''),
      (''groups_attr_name'', form_text rq ''saml_groups_attr_name'')]"

definition opt_bool :: "json \<Rightarrow> bool option" where
  "opt_bool v = (case v of JBool b \<Rightarrow> Some b | _ \<Rightarrow> None)"

definition settings_refused :: "'p dash_env \<Rightarrow> failure \<Rightarrow> 'p dash \<Rightarrow> reply \<times> 'p dash" where
  "settings_refused X e s =
     (if is_hook_error e then
        flash_redirect X ''ui.settings'' None ''error'' (''Settings saved locally; mirror hook failed: '' @ dx_text X e) s
      else form_refused X False ''Failed to update settings'' ''ui.settings'' None e s)"

definition settings_page :: "'p dash_env \<Rightarrow> request \<Rightarrow> 'p dash \<Rightarrow> reply \<times> 'p dash" where
  "settings_page X rq s =
     (if rq_method rq = ''GET'' then form_page ''settings.html'' [] (settings_file (dh_manager s)) s
      else
        let expiry_raw = param_or (rq_form rq) ''token_expiry_minutes'' [] in
        if expiry_raw \<noteq> [] \<and> py_int expiry_raw = None then settings_refused X (BadNumber expiry_raw) s
        else
          case submit (update_settings_form (dx_menv X)
                 (form_oauth_fields rq (if expiry_raw = [] then None else py_int expiry_raw)) (form_saml_fields rq)
                 (form_items rq ''allowed_identity_classes'' CHR 0x0A)
                 (case form_text rq ''login_mode'' of JStr m \<Rightarrow> m | _ \<Rightarrow> [])
                 (opt_bool (form_bool rq ''auto_login'')) (opt_bool (form_bool rq ''two_step''))
                 (expected_revision_from_form rq)) s of
            (Some e, s1) \<Rightarrow> settings_refused X e s1
          | (None, s1) \<Rightarrow> flash_redirect X ''ui.settings'' None ''success'' ''Settings updated successfully'' s1)"

definition form_prefixes :: "request \<Rightarrow> (str, str) dict" where
  "form_prefixes rq =
     (let core = fold (\<lambda>k d. let v = py_strip (param_or (rq_form rq) (''prefix_'' @ k) []) in if v = [] then d else dset k v d)
                   [''roles'', ''groups'', ''identity_class'', ''entitlements''] []
      in fold (\<lambda>(k, v) d. if py_strip k = [] \<or> py_strip v = [] then d else dset (py_strip k) (py_strip v) d)
           (zip (getlist (rq_form rq) ''custom_prefix_key[]'') (getlist (rq_form rq) ''custom_prefix_value[]'')) core)"

definition claims_page :: "'p dash_env \<Rightarrow> request \<Rightarrow> 'p dash \<Rightarrow> reply \<times> 'p dash" where
  "claims_page X rq s =
     (if rq_method rq = ''GET'' then form_page ''claims.html'' [] (settings_file (dh_manager s)) s
      else
        case submit (update_authority_prefixes (dx_menv X) (form_prefixes rq) (expected_revision_from_form rq)) s of
          (Some e, s1) \<Rightarrow> form_refused X False ''Failed to update prefixes'' ''ui.claims'' None e s1
        | (None, s1) \<Rightarrow> flash_redirect X ''ui.claims'' None ''success'' ''Authority prefixes updated successfully'' s1)"

definition claims_preview :: "str \<Rightarrow> 'p dash \<Rightarrow> reply \<times> 'p dash" where
  "claims_preview username s =
     (case get_user (dash_config s) username of
        None \<Rightarrow> (json_reply 404 [(''error'', JStr ''User not found'')], s)
      | Some u \<Rightarrow> (json_reply 200
          [(''username'', JStr (u_username u)),
           (''authorities'', jstrs (build_authorities (c_settings (dash_config s)) u)),
           (''claims'', JObj
             [(''identity_class'', jopt (u_identity_class u)), (''entitlements'', jstrs (u_entitlements u)),
              (''roles'', jstrs (u_roles u)), (''groups'', jstrs (u_groups u)), (''tenant'', JStr (u_tenant u)),
              (''source_acl'', jstrs (u_source_acl u)), (''attributes'', JObj (u_attributes u))])], s))"

subsection \<open>Audit\<close>

definition ui_audit_clear :: "'p dash_env \<Rightarrow> 'p dash \<Rightarrow> reply \<times> 'p dash" where
  "ui_audit_clear X s =
     flash_redirect X ''ui.audit'' None ''success'' ''Audit log cleared''
       (s\<lparr>dh_world := (dh_world s)\<lparr>w_audit := audit_clear (w_audit (dh_world s))\<rparr>\<rparr>)"

subsection \<open>The forms that write the configuration\<close>

datatype dash_form =
    UserCreate | UserEdit str | UserDelete str | ClientCreate | ClientEdit str | ClientDelete str
  | RegenerateSecret str | SettingsForm | ClaimsForm

fun dash_view :: "'p dash_env \<Rightarrow> request \<Rightarrow> dash_form \<Rightarrow> 'p dash \<Rightarrow> reply \<times> 'p dash" where
  "dash_view X rq UserCreate s = user_create X rq s"
| "dash_view X rq (UserEdit n) s = user_edit X rq n s"
| "dash_view X rq (UserDelete n) s = user_delete X rq n s"
| "dash_view X rq ClientCreate s = client_create X rq s"
| "dash_view X rq (ClientEdit i) s = client_edit X rq i s"
| "dash_view X rq (ClientDelete i) s = client_delete X rq i s"
| "dash_view X rq (RegenerateSecret i) s = client_regenerate_secret X rq i s"
| "dash_view X rq SettingsForm s = settings_page X rq s"
| "dash_view X rq ClaimsForm s = claims_page X rq s"

fun form_file :: "dash_form \<Rightarrow> 'p manager \<Rightarrow> file_path" where
  "form_file UserCreate m = users_file m"
| "form_file (UserEdit n) m = users_file m"
| "form_file (UserDelete n) m = users_file m"
| "form_file _ m = settings_file m"

end
