(* ===== verification/Ui_Form_Properties.thy ===== *)
theory Ui_Form_Properties
  imports Manager_Properties Writer_Properties Ui_Forms
begin

text \<open>
  What the management pages promise: a page that is out of date never overwrites what somebody else
  wrote, and what an accepted form has written is what the server then runs on.
\<close>

subsection \<open>Outcomes of a form\<close>

definition last_flash :: "world \<Rightarrow> json option" where
  "last_flash w =
     (case dget (w_session w) ''_flashes'' of
        Some (JList xs) \<Rightarrow> if xs = [] then None else Some (last xs)
      | _ \<Rightarrow> None)"

definition told_error :: "'p dash \<Rightarrow> bool" where
  "told_error s \<longleftrightarrow> (\<exists>m. last_flash (dh_world s) = Some (JList [JStr ''error'', JStr m]))"

lemma flash_redirect_keeps [simp]:
  "dh_manager (snd (flash_redirect X endpoint arg category message s)) = dh_manager s"
  "dh_disk (snd (flash_redirect X endpoint arg category message s)) = dh_disk s"
  "w_config (dh_world (snd (flash_redirect X endpoint arg category message s))) = w_config (dh_world s)"
  by (simp_all add: flash_redirect_def flash_def)

lemma flash_redirect_told [simp]: "told_error (snd (flash_redirect X endpoint arg ''error'' message s))"
  by (simp add: told_error_def last_flash_def flash_redirect_def flash_def)

lemma with_manager_keeps [simp]:
  "dh_manager (with_manager ms s) = fst ms" "dh_disk (with_manager ms s) = snd ms"
  "w_config (dh_world (with_manager ms s)) = cm_config (fst ms)"
  by (simp_all add: with_manager_def)

definition unwritten :: "'p dash \<Rightarrow> 'p dash \<Rightarrow> bool" where
  \<comment> \<open>the manager and the files are as before, and the browser is told of an error\<close>
  "unwritten s s' \<longleftrightarrow> dh_manager s' = dh_manager s \<and> dh_disk s' = dh_disk s \<and> told_error s'"

lemma flash_unwritten [simp]:
  "dh_manager s1 = dh_manager s \<Longrightarrow> dh_disk s1 = dh_disk s \<Longrightarrow>
    unwritten s (snd (flash_redirect X endpoint arg ''error'' message s1))"
  by (simp add: unwritten_def)

lemma form_refused_unwritten [simp]:
  "dh_manager s1 = dh_manager s \<Longrightarrow> dh_disk s1 = dh_disk s \<Longrightarrow> unwritten s (snd (form_refused X b prefix endpoint arg e s1))"
  by (simp add: form_refused_def)

lemma settings_refused_unwritten [simp]:
  "dh_manager s1 = dh_manager s \<Longrightarrow> dh_disk s1 = dh_disk s \<Longrightarrow> unwritten s (snd (settings_refused X e s1))"
  by (simp add: settings_refused_def)

subsection \<open>A write with a stale revision\<close>

lemma stale_atomic_write:
  assumes "expected \<notin> {None, Some (current_revision fs f)}"
  shows "\<exists>x. atomic_write M f mu expected (m, fs) = (Inl x, m, fs)"
proof -
  obtain r m' fs' where w: "atomic_write M f mu expected (m, fs) = (r, m', fs')" by (metis prod_cases3)
  from atomic_write_result [OF w] assms w show ?thesis by blast
qed

definition stale_for :: "request \<Rightarrow> dash_form \<Rightarrow> 'p dash \<Rightarrow> bool" where
  "stale_for rq q s \<longleftrightarrow>
     expected_revision_from_form rq \<notin> {None, Some (current_revision (dh_disk s) (form_file q (dh_manager s)))}"

definition blocked :: "('p manager \<times> disk \<Rightarrow> (writer_error + str) \<times> 'p manager \<times> disk) \<Rightarrow> 'p dash \<Rightarrow> bool" where
  "blocked write s \<longleftrightarrow> (\<exists>x. write (dh_manager s, dh_disk s) = (Inl x, dh_manager s, dh_disk s))"

lemma unwritten_submit:
  assumes "blocked write s0" "dh_manager s0 = dh_manager s" "dh_disk s0 = dh_disk s"
    "\<And>e s1. dh_manager s1 = dh_manager s \<Longrightarrow> dh_disk s1 = dh_disk s \<Longrightarrow> unwritten s (snd (f e s1))"
  shows "unwritten s (snd (case submit write s0 of (Some e, s1) \<Rightarrow> f e s1 | (None, s1) \<Rightarrow> g s1))"
  using assms by (auto simp: blocked_def submit_def)

lemma blocked_users:
  assumes "expected \<notin> {None, Some (current_revision (dh_disk s) (users_file (dh_manager s)))}"
  shows "blocked (save_user M u b expected) s" "blocked (delete_user M n expected) s"
  unfolding blocked_def save_user_def delete_user_def Let_def fst_conv snd_conv
  by (rule stale_atomic_write [OF assms])+

lemma blocked_settings:
  assumes "expected \<notin> {None, Some (current_revision (dh_disk s) (settings_file (dh_manager s)))}"
  shows "blocked (save_client M c b expected) s" "blocked (delete_client M i expected) s"
    "blocked (update_settings_form M oa sa cs mode al ts expected) s" "blocked (update_authority_prefixes M ps expected) s"
proof -
  show "blocked (save_client M c b expected) s" "blocked (delete_client M i expected) s"
    "blocked (update_authority_prefixes M ps expected) s"
    unfolding blocked_def save_client_def delete_client_def update_authority_prefixes_def fst_conv
    by (rule stale_atomic_write [OF assms])+
  show "blocked (update_settings_form M oa sa cs mode al ts expected) s"
  proof (cases "mode \<noteq> [] \<and> validate_login_mode mode = None")
    case False
    then have "update_settings_form M oa sa cs mode al ts expected (dh_manager s, dh_disk s) =
        atomic_write M (settings_file (dh_manager s)) (mutate_settings_form M oa sa cs mode al ts) expected
          (dh_manager s, dh_disk s)"
      by (auto simp: update_settings_form_def)
    then show ?thesis unfolding blocked_def using stale_atomic_write [OF assms] by simp
  qed (simp add: blocked_def update_settings_form_def)
qed

lemma stale_view:
  assumes "stale_for rq q s" "rq_method rq \<noteq> ''GET''"
  shows "unwritten s (snd (dash_view X rq q s))"
proof (cases q)
  case UserCreate
  note b = blocked_users(1) [OF assms(1) [unfolded stale_for_def UserCreate form_file.simps]]
  show ?thesis using assms(2) by (auto simp: UserCreate user_create_def Let_def intro!: unwritten_submit b split: sum.split)
next
  case (UserEdit n)
  note b = blocked_users(1) [OF assms(1) [unfolded stale_for_def UserEdit form_file.simps]]
  show ?thesis using assms(2)
    by (auto simp: UserEdit user_edit_def user_missing_def Let_def intro!: unwritten_submit b split: sum.split option.split)
next
  case (UserDelete n)
  note b = blocked_users(2) [OF assms(1) [unfolded stale_for_def UserDelete form_file.simps]]
  show ?thesis by (auto simp: UserDelete user_delete_def intro!: unwritten_submit b)
next
  case ClientCreate
  note b = blocked_settings(1) [OF assms(1) [unfolded stale_for_def ClientCreate form_file.simps]]
  show ?thesis using assms(2) by (auto simp: ClientCreate client_create_def Let_def intro!: unwritten_submit b split: sum.split)
next
  case (ClientEdit i)
  note b = blocked_settings(1) [OF assms(1) [unfolded stale_for_def ClientEdit form_file.simps]]
  show ?thesis using assms(2)
    by (auto simp: ClientEdit client_edit_def client_missing_def Let_def intro!: unwritten_submit b split: sum.split option.split)
next
  case (ClientDelete i)
  note b = blocked_settings(2) [OF assms(1) [unfolded stale_for_def ClientDelete form_file.simps]]
  show ?thesis by (auto simp: ClientDelete client_delete_def intro!: unwritten_submit b)
next
  case (RegenerateSecret i)
  note b = blocked_settings(1) [of _ "s\<lparr>dh_world := (dh_world s)\<lparr>w_draws := Suc (w_draws (dh_world s))\<rparr>\<rparr>", simplified,
      OF assms(1) [unfolded stale_for_def RegenerateSecret form_file.simps, simplified]]
  show ?thesis
    by (auto simp: RegenerateSecret client_regenerate_secret_def client_missing_def Let_def intro!: unwritten_submit b
        split: option.split)
next
  case SettingsForm
  note b = blocked_settings(3) [OF assms(1) [unfolded stale_for_def SettingsForm form_file.simps]]
  show ?thesis using assms(2) by (auto simp: SettingsForm settings_page_def Let_def intro!: unwritten_submit b)
next
  case ClaimsForm
  note b = blocked_settings(4) [OF assms(1) [unfolded stale_for_def ClaimsForm form_file.simps]]
  show ?thesis using assms(2) by (auto simp: ClaimsForm claims_page_def intro!: unwritten_submit b)
qed

text \<open>
  C28. A page that is out of date overwrites nothing: when a form of the dashboard is submitted with the
  revision its page was rendered with, and the file has changed since, then whatever else the form
  holds, neither the files nor the running configuration change, and the browser is told of an error.
\<close>

theorem a_stale_page_overwrites_nothing:
  assumes "dash_view X rq q s = (r, s')" "rq_method rq \<noteq> ''GET''"
    "expected_revision_from_form rq = Some v" "v \<noteq> current_revision (dh_disk s) (form_file q (dh_manager s))"
  shows "dh_manager s' = dh_manager s \<and> dh_disk s' = dh_disk s \<and> told_error s'"
  using stale_view [of rq q s X] assms by (simp add: stale_for_def unwritten_def)

definition sample_dash_env :: "unit dash_env" where
  "sample_dash_env = \<lparr>dx_lib = sample_lib, dx_menv = sample_menv, dx_text = (\<lambda>_. ''error''), dx_url = (\<lambda>e a. e)\<rparr>"

definition sample_dash :: "unit dash" where
  "sample_dash = \<lparr>dh_world = sample_world\<lparr>w_config := cm_config sample_manager\<rparr>, dh_manager = sample_manager, dh_disk = sample_disk\<rparr>"

definition sample_stale_post :: request where
  "sample_stale_post = sample_request ''POST'' [] [(''expected_revision'', ''?'')]"

lemma a_stale_page_overwrites_nothing_witness:
  "\<exists>r s'. dash_view sample_dash_env sample_stale_post (UserDelete ''alice'') sample_dash = (r, s')
    \<and> dh_manager s' = sample_manager \<and> dh_disk s' = sample_disk \<and> told_error s'"
proof -
  obtain r s' where view: "dash_view sample_dash_env sample_stale_post (UserDelete ''alice'') sample_dash = (r, s')" by fastforce
  have "rq_method sample_stale_post \<noteq> ''GET''" "expected_revision_from_form sample_stale_post = Some ''?''"
    by (simp_all add: sample_stale_post_def sample_request_def expected_revision_from_form_def param_def or_none_def)
  moreover have "''?'' \<noteq> current_revision (dh_disk sample_dash) (form_file (UserDelete ''alice'') (dh_manager sample_dash))"
    using sample_stale by auto
  ultimately have "dh_manager s' = dh_manager sample_dash \<and> dh_disk s' = dh_disk sample_dash \<and> told_error s'"
    by (rule a_stale_page_overwrites_nothing [OF view])
  with view show ?thesis by (simp add: sample_dash_def)
qed

subsection \<open>An accepted form\<close>

definition told_success :: "'p dash \<Rightarrow> bool" where
  "told_success s \<longleftrightarrow> (\<exists>m. last_flash (dh_world s) = Some (JList [JStr ''success'', JStr m]))"

definition up_to_date :: "'p menv \<Rightarrow> 'p dash \<Rightarrow> bool" where
  \<comment> \<open>manager and endpoints have the configuration that the files on disk declare\<close>
  "up_to_date M s \<longleftrightarrow> in_force M (dh_manager s, dh_disk s) \<and> w_config (dh_world s) = cm_config (dh_manager s)"

definition accepted :: "'p menv \<Rightarrow> 'p dash \<Rightarrow> bool" where
  "accepted M s \<longleftrightarrow> (told_success s \<longrightarrow> up_to_date M s)"

lemma accepted_flash [simp]:
  "accepted M (snd (flash_redirect X endpoint arg ''error'' message s))"
  "up_to_date M s \<Longrightarrow> accepted M (snd (flash_redirect X endpoint arg ''success'' message s))"
  by (simp_all add: accepted_def told_success_def last_flash_def flash_redirect_def flash_def up_to_date_def)

lemma accepted_refusals [simp]:
  "accepted M (snd (form_refused X b prefix endpoint arg e s))" "accepted M (snd (settings_refused X e s))"
  "accepted M (snd (user_missing X n s))" "accepted M (snd (client_missing X n s))"
  by (simp_all add: form_refused_def settings_refused_def user_missing_def client_missing_def)

definition writes_through :: "'p menv \<Rightarrow> ('p manager \<times> disk \<Rightarrow> (writer_error + str) \<times> 'p manager \<times> disk) \<Rightarrow> 'p dash \<Rightarrow> bool" where
  \<comment> \<open>what the write has put on disk is in force when it succeeds\<close>
  "writes_through M write s \<longleftrightarrow>
     (\<forall>revision ms. write (dh_manager s, dh_disk s) = (Inr revision, ms) \<longrightarrow> in_force M ms)"

lemma accepted_submit:
  assumes "writes_through M write s0" "\<And>e s1. accepted M (snd (f e s1))"
    "\<And>s1. up_to_date M s1 \<Longrightarrow> accepted M (snd (g s1))"
  shows "accepted M (snd (case submit write s0 of (Some e, s1) \<Rightarrow> f e s1 | (None, s1) \<Rightarrow> g s1))"
proof -
  obtain q m fs where q: "write (dh_manager s0, dh_disk s0) = (q, m, fs)" by (metis prod_cases3)
  have "up_to_date M (with_manager (m, fs) s0)" if "in_force M (m, fs)" using that by (simp add: up_to_date_def)
  then show ?thesis using assms q by (cases q) (auto simp: submit_def writes_through_def)
qed

lemma atomic_write_in_force:
  assumes "atomic_write M f mu expected (m, fs) = (Inr revision, m', fs')"
    "leaves (me_hooks M) (\<lambda>w. w (users_file m))" "leaves (me_hooks M) (\<lambda>w. w (settings_file m))"
  shows "in_force M (m', fs')"
proof -
  obtain q fs1 where q: "compare_and_replace (me_write M) f expected mu fs = (q, fs1)" by fastforce
  obtain h m1 fs2 where n: "notify_saved M f (kind_of f) (m, fs1) = (h, m1, fs2)" by (metis prod_cases3)
  have "load_config M False (m1, fs2) = (None, m', fs')"
    using assms(1) q n by (auto simp: atomic_write_def reload_local_def Let_def split: sum.splits prod.splits option.splits)
  moreover have "cm_dir m1 = cm_dir m" using arg_cong [OF notify_saved_result(1) [OF n], of cm_dir] by simp
  then have "users_file m1 = users_file m" "settings_file m1 = settings_file m" by (simp_all add: users_file_def settings_file_def)
  ultimately show ?thesis using assms(2,3) local_load_in_force by metis
qed

lemma writers_write_through:
  assumes "leaves (me_hooks M) (\<lambda>w. w (users_file (dh_manager s)))" "leaves (me_hooks M) (\<lambda>w. w (settings_file (dh_manager s)))"
  shows "writes_through M (save_user M u b expected) s" "writes_through M (delete_user M n expected) s"
    "writes_through M (save_client M c b expected) s" "writes_through M (delete_client M i expected) s"
    "writes_through M (update_settings_form M oa sa cs mode al ts expected) s"
    "writes_through M (update_authority_prefixes M ps expected) s"
  unfolding writes_through_def save_user_def delete_user_def save_client_def delete_client_def update_settings_form_def
    update_authority_prefixes_def Let_def fst_conv snd_conv
  using atomic_write_in_force [OF _ assms] by (auto split: if_splits)

lemma view_accepted:
  assumes "leaves (me_hooks (dx_menv X)) (\<lambda>w. w (users_file (dh_manager s)))"
    "leaves (me_hooks (dx_menv X)) (\<lambda>w. w (settings_file (dh_manager s)))" "rq_method rq \<noteq> ''GET''"
  shows "accepted (dx_menv X) (snd (dash_view X rq q s))"
proof -
  note through = writers_write_through [OF assms(1,2)]
  have drawn: "writes_through M f (s\<lparr>dh_world := w\<rparr>) = writes_through M f s" for M f w
    by (simp add: writes_through_def)
  show ?thesis
    using assms(3)
    by (cases q)
       (auto simp: user_create_def user_edit_def user_delete_def client_create_def client_edit_def client_delete_def
          client_regenerate_secret_def settings_page_def claims_page_def Let_def through drawn
          intro!: accepted_submit split: sum.split option.split)
qed

text \<open>
  C29. An accepted form is in force: when a form of the dashboard ends in a success message, the users,
  default user and settings that the endpoints read afterwards, and the declared values, strictness,
  version and revisions of the manager, are what loading the files now on disk gives, profile included.
  A write that is not followed by a reload, or by one from anything but the files just written, does not
  meet this. The hypotheses say that no hook rewrites the two files itself.
\<close>

theorem an_accepted_form_is_in_force:
  assumes "dash_view X rq q s = (r, s')" "rq_method rq \<noteq> ''GET''" "told_success s'"
    "leaves (me_hooks (dx_menv X)) (\<lambda>w. w (users_file (dh_manager s)))"
    "leaves (me_hooks (dx_menv X)) (\<lambda>w. w (settings_file (dh_manager s)))"
  shows "\<exists>sg de us du ur. stage_directory (dx_menv X) (dh_manager s') (dh_disk s') = Inr ((sg, de), (us, du), ur)
    \<and> w_config (dh_world s') = \<lparr>c_users = us, c_default_user = du, c_settings = sg_settings sg\<rparr>
    \<and> cm_config (dh_manager s') = w_config (dh_world s') \<and> cm_declared (dh_manager s') = de
    \<and> cm_strict (dh_manager s') = sg_strict sg \<and> cm_version (dh_manager s') = sg_version sg
    \<and> cm_users_revision (dh_manager s') = ur \<and> cm_settings_revision (dh_manager s') = sg_settings_revision sg"
proof -
  have "up_to_date (dx_menv X) s'"
    using view_accepted [OF assms(4,5,2), of q] assms(1,3) by (simp add: accepted_def)
  then show ?thesis by (auto simp: up_to_date_def in_force_def split: sum.splits prod.splits)
qed

definition sample_claims_doc :: doc where
  "sample_claims_doc = [(''authority_prefixes'', JObj [(''roles'', JStr ''R_'')])]"

definition sample_claims_menv :: "unit menv" where
  \<comment> \<open>a YAML library that knows this one document\<close>
  "sample_claims_menv = sample_menv\<lparr>me_write := sample_write_env\<lparr>we_yaml :=
     \<lparr>yl_load = (\<lambda>_. Some (JObj sample_claims_doc)), yl_safe_load = (\<lambda>_. Some (JObj sample_claims_doc)), yl_dump = (\<lambda>_. [9])\<rparr>\<rparr>\<rparr>"

definition sample_claims_post :: request where
  "sample_claims_post = sample_request ''POST'' [] [(''prefix_roles'', ''R_'')]"

definition empty_dash :: "unit dash" where
  "empty_dash = sample_dash\<lparr>dh_disk := \<lambda>_. None\<rparr>"

lemma sample_claims_menv_simps:
  "me_hooks sample_claims_menv = sample_no_hooks" "me_pydantic sample_claims_menv = sample_pydantic"
  "me_env sample_claims_menv = sample_env"
  "me_yaml sample_claims_menv =
    \<lparr>yl_load = (\<lambda>_. Some (JObj sample_claims_doc)), yl_safe_load = (\<lambda>_. Some (JObj sample_claims_doc)), yl_dump = (\<lambda>_. [9])\<rparr>"
  "we_yaml (me_write sample_claims_menv) = me_yaml sample_claims_menv"
  "we_lock (me_write sample_claims_menv) = we_lock sample_write_env"
  "we_io (me_write sample_claims_menv) = we_io sample_write_env"
  by (simp_all add: sample_claims_menv_def sample_menv_def me_yaml_def)

lemma sample_claims_written:
  "\<exists>revision fs1. compare_and_replace (me_write sample_claims_menv) (''cfg'', ''settings.yaml'') None
      (\<lambda>data. Inr (mutate_top sample_env ''authority_prefixes'' (JObj [(''roles'', JStr ''R_'')]) data) :: mutation_error + doc)
      (\<lambda>_. None) = (Inr revision, fs1)
    \<and> fs1 (''cfg'', ''settings.yaml'') = Some [9] \<and> fs1 (''cfg'', ''users.yaml'') = None"
proof -
  let ?mu = "\<lambda>data. Inr (mutate_top sample_env ''authority_prefixes'' (JObj [(''roles'', JStr ''R_'')]) data) :: mutation_error + doc"
  let ?items = "[\<lparr>it_file = (''cfg'', ''settings.yaml''), it_expected = None, it_mutate = ?mu\<rparr>]"
  have loaded: "load_and_mutate (me_yaml sample_claims_menv) (\<lambda>_. None) ?items =
      Inr [((''cfg'', ''settings.yaml''), mutate_top sample_env ''authority_prefixes'' (JObj [(''roles'', JStr ''R_'')]) [])]"
    by (simp add: load_yaml_document_def)
  show ?thesis
    unfolding compare_and_replace_def compare_and_replace_many_def sample_claims_menv_simps(5,6) sample_lock_free loaded
    by (simp add: sample_claims_menv_simps atomic_write_yaml_def Let_def sample_write_env_def sample_replace)
qed

lemma sample_no_hooks_saved: "run_config_saved sample_no_hooks f kind (new_registry (Some ''cfg''), fs) = (None, new_registry (Some ''cfg''), fs)"
  by (simp add: run_config_saved_def Let_def dispatch_def has_hook_def new_registry_def)

lemma sample_claims_loads:
  "\<exists>st. load_settings sample_pydantic sample_env False sample_claims_doc = Inr st \<and> s_authority_prefixes st = [(''roles'', ''R_'')]"
  "sd_plugins (loaded sample_pydantic sample_env sample_claims_doc) = []" "check_config_version sample_claims_doc = Inr 1"
  "declared_validation_mode sample_claims_doc \<noteq> ''strict''"
proof -
  have "(case load_settings sample_pydantic sample_env False sample_claims_doc of Inl _ \<Rightarrow> False
    | Inr st \<Rightarrow> s_authority_prefixes st = [(''roles'', ''R_'')])" by code_simp
  then show "\<exists>st. load_settings sample_pydantic sample_env False sample_claims_doc = Inr st
    \<and> s_authority_prefixes st = [(''roles'', ''R_'')]" by (auto split: sum.splits)
  show "sd_plugins (loaded sample_pydantic sample_env sample_claims_doc) = []" "check_config_version sample_claims_doc = Inr 1"
    "declared_validation_mode sample_claims_doc \<noteq> ''strict''" by code_simp+
qed

lemma sample_claims_reload:
  assumes "fs1 (''cfg'', ''settings.yaml'') = Some [9]" "fs1 (''cfg'', ''users.yaml'') = None"
  shows "\<exists>m fs2. load_config sample_claims_menv False (sample_manager, fs1) = (None, m, fs2)
    \<and> s_authority_prefixes (c_settings (cm_config m)) = [(''roles'', ''R_'')]"
proof -
  obtain st where st: "load_settings sample_pydantic sample_env False sample_claims_doc = Inr st"
    "s_authority_prefixes st = [(''roles'', ''R_'')]" using sample_claims_loads(1) by blast
  have raw: "fs1 (settings_file sample_manager) = Some [9]" using assms(1) by (simp add: sample_files)
  have mapping: "read_mapping (me_yaml sample_claims_menv) [9] = Some sample_claims_doc"
    by (simp add: sample_claims_menv_simps read_mapping_def sample_claims_doc_def)
  have lax: "\<not> effective_strict sample_manager (declared_validation_mode sample_claims_doc)"
    using sample_claims_loads(4) by (simp add: effective_strict_def sample_manager_def)
  obtain sg where sg: "stage_settings sample_claims_menv sample_manager fs1 = Inr sg" "sg_settings sg = st" "sg_plugins sg = []"
    "\<not> sg_settings_missing sg" "sg_version sg = 1"
    using stage_settings_read [of fs1 sample_manager "[9]" sample_claims_menv sample_claims_doc, OF raw mapping lax] st(1) sample_claims_loads(2,3)
    by (fastforce simp: sample_claims_menv_simps)
  have users: "stage_users sample_claims_menv sample_manager b i fs1 = Inr ((default_users, ''admin''), revision_of_bytes [])" for b i
    using assms(2) by (simp add: stage_users_def sample_files)
  have "cm_profile_override sample_manager = None" "cm_hooks_snapshot sample_manager = None" by (simp_all add: sample_manager_def)
  with sg users st(2) show ?thesis
    by (auto simp: load_config_def stage_directory_def commit_directory_def configure_hooks_from_def replace_source_def
        configure_from_sections_def load_plugins_def apply_profile_def apply_hardening_def Let_def
        split: prod.split option.split)
qed

lemma an_accepted_form_is_in_force_witness:
  "\<exists>r s' sg de us du ur. dash_view (sample_dash_env\<lparr>dx_menv := sample_claims_menv\<rparr>) sample_claims_post ClaimsForm empty_dash = (r, s')
    \<and> stage_directory sample_claims_menv (dh_manager s') (dh_disk s') = Inr ((sg, de), (us, du), ur)
    \<and> w_config (dh_world s') = \<lparr>c_users = us, c_default_user = du, c_settings = sg_settings sg\<rparr>
    \<and> s_authority_prefixes (sg_settings sg) = [(''roles'', ''R_'')]"
proof -
  let ?X = "sample_dash_env\<lparr>dx_menv := sample_claims_menv\<rparr>"
  obtain revision fs1 where written: "compare_and_replace (me_write sample_claims_menv) (''cfg'', ''settings.yaml'') None
      (\<lambda>data. Inr (mutate_top sample_env ''authority_prefixes'' (JObj [(''roles'', JStr ''R_'')]) data) :: mutation_error + doc)
      (\<lambda>_. None) = (Inr revision, fs1)"
    "fs1 (''cfg'', ''settings.yaml'') = Some [9]" "fs1 (''cfg'', ''users.yaml'') = None"
    using sample_claims_written by blast
  obtain m fs2 where load: "load_config sample_claims_menv False (sample_manager, fs1) = (None, m, fs2)"
    "s_authority_prefixes (c_settings (cm_config m)) = [(''roles'', ''R_'')]"
    using sample_claims_reload written(2,3) by blast
  have "cm_hooks sample_manager = new_registry (Some ''cfg'')" "sample_manager\<lparr>cm_hooks := new_registry (Some ''cfg'')\<rparr> = sample_manager"
    by (simp_all add: sample_manager_def)
  then have notified: "notify_saved sample_claims_menv f kind (sample_manager, fs1) = (None, sample_manager, fs1)" for f kind
    by (simp add: notify_saved_def sample_claims_menv_simps sample_no_hooks_saved)
  have form: "form_prefixes sample_claims_post = [(''roles'', ''R_'')]" "expected_revision_from_form sample_claims_post = None"
    "rq_method sample_claims_post \<noteq> ''GET''" by code_simp+
  have start: "dh_manager empty_dash = sample_manager" "dh_disk empty_dash = (\<lambda>_. None)"
    by (simp_all add: empty_dash_def sample_dash_def)
  have "update_authority_prefixes sample_claims_menv [(''roles'', ''R_'')] None (sample_manager, \<lambda>_. None) = (Inr revision, m, fs2)"
    using written(1) load(1) notified
    by (simp add: update_authority_prefixes_def atomic_write_def reload_local_def sample_files sample_claims_menv_simps)
  then obtain r s' where view: "dash_view ?X sample_claims_post ClaimsForm empty_dash = (r, s')" "told_success s'"
    "w_config (dh_world s') = cm_config m"
    using form by (auto simp: claims_page_def submit_def start flash_redirect_def flash_def told_success_def last_flash_def with_manager_def)
  have hooks: "leaves (me_hooks (dx_menv ?X)) v" for v :: "disk \<Rightarrow> bytes option"
    using sample_hooks_leave [of v] by (simp add: sample_claims_menv_simps)
  obtain sg de us du ur where "stage_directory sample_claims_menv (dh_manager s') (dh_disk s') = Inr ((sg, de), (us, du), ur)"
    "w_config (dh_world s') = \<lparr>c_users = us, c_default_user = du, c_settings = sg_settings sg\<rparr>"
    using an_accepted_form_is_in_force [OF view(1) form(3) view(2) hooks hooks] by auto
  then show ?thesis using view(1,3) load(2) by (intro exI conjI) simp_all
qed

subsection \<open>HEAD requests\<close>

fun has_page :: "dash_form \<Rightarrow> bool" where
  \<comment> \<open>the routes for GET and POST; for those Flask also answers HEAD\<close>
  "has_page (UserDelete n) = False"
| "has_page (ClientDelete i) = False"
| "has_page (RegenerateSecret i) = False"
| "has_page _ = True"

lemma head_is_post:
  assumes "rq_method rq = ''HEAD''"
  shows "dash_view X rq q s = dash_view X (rq\<lparr>rq_method := ''POST''\<rparr>) q s"
proof -
  let ?post = "rq\<lparr>rq_method := ''POST''\<rparr>"
  have same: "rq_form ?post = rq_form rq" by simp
  have reads: "form_items ?post nm sep = form_items rq nm sep" "form_text ?post nm = form_text rq nm"
    "form_bool ?post nm = form_bool rq nm" "form_textarea_list ?post nm = form_textarea_list rq nm"
    "parse_attribute_rows L ?post = parse_attribute_rows L rq" for nm sep L
    unfolding form_items_def form_text_def form_bool_def form_textarea_list_def parse_attribute_rows_def same by (rule refl)+
  have form: "user_from_form L ?post n pw = user_from_form L rq n pw"
    "client_from_form ?post i sec am lay = client_from_form rq i sec am lay"
    "expected_revision_from_form ?post = expected_revision_from_form rq"
    "form_oauth_fields ?post ex = form_oauth_fields rq ex" "form_saml_fields ?post = form_saml_fields rq"
    "form_prefixes ?post = form_prefixes rq" for L n pw i sec am lay ex
    unfolding user_from_form_def client_from_form_def expected_revision_from_form_def form_oauth_fields_def
        form_saml_fields_def form_prefixes_def reads same by (rule refl)+
  have posted: "rq_method ?post = ''POST''" "(''HEAD'' = ''GET'') = False" "(''POST'' = ''GET'') = False" by simp_all
  show ?thesis
  proof (cases q)
  qed (simp_all only: dash_view.simps user_create_def user_edit_def user_delete_def client_create_def client_edit_def
    client_delete_def client_regenerate_secret_def settings_page_def claims_page_def form reads same posted assms if_False)
qed

lemma empty_form_has_no_prefixes: "rq_form rq = [] \<Longrightarrow> form_prefixes rq = []"
  by (simp add: form_prefixes_def param_or_def getlist_def py_strip_def)

lemma no_prefixes_erase: "dval (mutate_top env k (JObj []) d) k = JObj []"
proof -
  have "e = []" if "expand_fields env e = []" for e using that by (cases e) auto
  then have "v = JObj []" if "is_unchanged env v (JObj [])" for v
    using that by (cases v) (auto simp: is_unchanged_def)
  then show ?thesis by (auto simp: mutate_top_def)
qed

text \<open>
  C30. A HEAD request writes, and the management guard does not see it: the guard takes HEAD for a read,
  Flask answers it on every route for GET, and the views compare the method with GET only, so a HEAD
  request does what the POST with the same form does. A HEAD of the claims page with no form erases the
  authority prefixes.
\<close>

theorem head_requests_write_past_the_guard:
  assumes "rq_method rq = ''HEAD''" "has_page q"
  shows "management_secret_required_for_ui rq w = None
    \<and> dash_view X rq q s = dash_view X (rq\<lparr>rq_method := ''POST''\<rparr>) q s
    \<and> (rq_form rq = [] \<longrightarrow> form_prefixes rq = []
        \<and> (\<forall>d. dval (mutate_top env ''authority_prefixes'' (JObj (map (\<lambda>(k, v). (k, JStr v)) (form_prefixes rq))) d)
              ''authority_prefixes'' = JObj []))"
proof (intro conjI impI allI)
  show "management_secret_required_for_ui rq w = None"
    using assms(1) by (simp add: management_secret_required_for_ui_def safe_methods_def)
  show "dash_view X rq q s = dash_view X (rq\<lparr>rq_method := ''POST''\<rparr>) q s" using assms(1) by (rule head_is_post)
  assume "rq_form rq = []"
  then show none: "form_prefixes rq = []" by (rule empty_form_has_no_prefixes)
  show "dval (mutate_top env ''authority_prefixes'' (JObj (map (\<lambda>(k, v). (k, JStr v)) (form_prefixes rq))) d)
      ''authority_prefixes'' = JObj []" for d
    by (simp add: none no_prefixes_erase)
qed

lemma head_requests_write_past_the_guard_witness:
  "management_secret_required_for_ui (sample_request ''HEAD'' [] []) sample_world = None
    \<and> dash_view sample_dash_env (sample_request ''HEAD'' [] []) ClaimsForm sample_dash =
      dash_view sample_dash_env (sample_request ''POST'' [] []) ClaimsForm sample_dash"
proof -
  have head: "rq_method (sample_request ''HEAD'' [] []) = ''HEAD''" "has_page ClaimsForm"
    "(sample_request ''HEAD'' [] [])\<lparr>rq_method := ''POST''\<rparr> = sample_request ''POST'' [] []"
    by (simp_all add: sample_request_def)
  show ?thesis
    using head_requests_write_past_the_guard [OF head(1,2), of sample_world sample_dash_env sample_dash]
    unfolding head(3) by blast
qed

end
