(* ===== verification/Config_Check.thy ===== *)
theory Config_Check
  imports Sample_Manager
begin

text \<open>
  \<open>config_validation.py\<close>: the report on a configuration directory that the command line and the
  MCP tool share, over the loaders of the server and without starting anything. A finding carries its
  cause where the code carries the text; whether the directory exists is an argument.
\<close>

datatype cause =
    NotADirectory
  | NotYaml
  | NotAMapping
  | WrongVersion version_error
  | VersionsDiffer "int option" int
  | LoaderRefused load_error
  | UnknownPath path
  | DefaultsUsed

record finding =
  fd_level :: str
  fd_cause :: cause
  fd_file :: "str option"

definition an_error :: "str \<Rightarrow> cause \<Rightarrow> finding" where
  "an_error name c = \<lparr>fd_level = ''error'', fd_cause = c, fd_file = Some name\<rparr>"

definition a_warning :: "str \<Rightarrow> cause \<Rightarrow> finding" where
  "a_warning name c = \<lparr>fd_level = ''warning'', fd_cause = c, fd_file = Some name\<rparr>"

subsection \<open>One file\<close>

definition read_yaml_file :: "yaml \<Rightarrow> bytes \<Rightarrow> cause + doc" where
  \<comment> \<open>\<open>_read_yaml\<close>\<close>
  "read_yaml_file Y raw =
     (case yl_safe_load Y raw of
        None \<Rightarrow> Inl NotYaml
      | Some v \<Rightarrow> if \<not> json_true v then Inr [] else (case v of JObj d \<Rightarrow> Inr d | _ \<Rightarrow> Inl NotAMapping))"

fun load_warnings :: "nat \<Rightarrow> (doc \<Rightarrow> path list) \<Rightarrow> (doc \<Rightarrow> path list) \<Rightarrow> doc \<Rightarrow> path list" where
  \<comment> \<open>what a lenient \<open>_load_document\<close> hands to \<open>on_unknown\<close>, with the attempts left\<close>
  "load_warnings n errors unknown d =
     (case errors d of
        _ # _ \<Rightarrow> []
      | [] \<Rightarrow>
          (case unknown d of
             [] \<Rightarrow> []
           | p # ps \<Rightarrow>
               (case n of
                  0 \<Rightarrow> []
                | Suc m \<Rightarrow> (p # ps) @
                    (case fold drop_path (p # ps) (JObj d) of
                       JObj d' \<Rightarrow> load_warnings m errors unknown d'
                     | _ \<Rightarrow> []))))"

declare load_warnings.simps [simp del]

definition check_file ::
  "yaml \<Rightarrow> env \<Rightarrow> str \<Rightarrow> (doc \<Rightarrow> load_error + 'a) \<Rightarrow> (doc \<Rightarrow> path list) \<Rightarrow> int option \<Rightarrow> bool \<Rightarrow> bytes
    \<Rightarrow> finding list \<times> 'a option \<times> int option" where
  \<comment> \<open>\<open>_validate_file\<close>: findings, document and version\<close>
  "check_file Y env name load warned expected check_version raw =
     (case read_yaml_file Y raw of
        Inl c \<Rightarrow> ([an_error name c], None, None)
      | Inr data \<Rightarrow>
          (case (if check_version then map_sum id Some (check_config_version data) else Inr None) of
             Inl e \<Rightarrow> ([an_error name (WrongVersion e)], None, None)
           | Inr version \<Rightarrow>
               (let mismatch =
                  (case expected of
                     Some v \<Rightarrow> if version \<noteq> Some v then [an_error name (VersionsDiffer version v)] else []
                   | None \<Rightarrow> []);
                  expanded = expand_fields env data;
                  unknown = map (\<lambda>p. a_warning name (UnknownPath p)) (warned expanded)
                in case load expanded of
                     Inl e \<Rightarrow> (mismatch @ an_error name (LoaderRefused e) # unknown, None, version)
                   | Inr x \<Rightarrow> (mismatch @ unknown, Some x, version))))"

subsection \<open>The directory\<close>

definition check_settings_file :: "yaml \<Rightarrow> pydantic \<Rightarrow> env \<Rightarrow> bytes option \<Rightarrow> finding list \<times> int option" where
  "check_settings_file Y V env file =
     (case file of
        None \<Rightarrow> ([a_warning ''settings.yaml'' DefaultsUsed], None)
      | Some raw \<Rightarrow>
          (case check_file Y env ''settings.yaml'' (load_settings_document V False)
              (load_warnings 2 (settings_errors V) settings_unknown) None True raw of
             (fs, document, version) \<Rightarrow>
               (fs @ (case document of None \<Rightarrow> []
                  | Some doc \<Rightarrow> (case to_settings V env doc of Inl e \<Rightarrow> [an_error ''settings.yaml'' (LoaderRefused e)] | Inr s \<Rightarrow> [])),
                version)))"

definition check_users_file :: "yaml \<Rightarrow> pydantic \<Rightarrow> env \<Rightarrow> int option \<Rightarrow> bytes option \<Rightarrow> finding list" where
  "check_users_file Y V env expected file =
     (case file of
        None \<Rightarrow> [a_warning ''users.yaml'' DefaultsUsed]
      | Some raw \<Rightarrow>
          (case check_file Y env ''users.yaml'' (load_users_document V False)
              (load_warnings 2 (users_errors V) (extras users_keys)) expected True raw of
             (fs, document, version) \<Rightarrow>
               fs @ (case document of None \<Rightarrow> []
                  | Some doc \<Rightarrow> (case to_users doc of Inl e \<Rightarrow> [an_error ''users.yaml'' (LoaderRefused e)] | Inr us \<Rightarrow> []))))"

definition check_bootstrap_file :: "yaml \<Rightarrow> pydantic \<Rightarrow> env \<Rightarrow> bytes option \<Rightarrow> finding list" where
  \<comment> \<open>its shape only\<close>
  "check_bootstrap_file Y V env file =
     (case file of
        None \<Rightarrow> []
      | Some raw \<Rightarrow> fst (check_file Y env ''bootstrap.yaml'' (load_bootstrap_document V False)
          (load_warnings 2 (bootstrap_errors V) bootstrap_unknown) None False raw))"

definition validate_config_dir :: "yaml \<Rightarrow> pydantic \<Rightarrow> env \<Rightarrow> bool \<Rightarrow> str \<Rightarrow> disk \<Rightarrow> finding list" where
  "validate_config_dir Y V env is_dir dir fs =
     (if \<not> is_dir then [\<lparr>fd_level = ''error'', fd_cause = NotADirectory, fd_file = None\<rparr>]
      else
        (case check_settings_file Y V env (fs (dir, ''settings.yaml'')) of
           (found, version) \<Rightarrow>
             found @ check_users_file Y V env version (fs (dir, ''users.yaml''))
             @ check_bootstrap_file Y V env (fs (dir, ''bootstrap.yaml''))))"

definition declared_mode :: "yaml \<Rightarrow> str \<Rightarrow> disk \<Rightarrow> str" where
  "declared_mode Y dir fs =
     (case fs (dir, ''settings.yaml'') of
        None \<Rightarrow> ''warn''
      | Some raw \<Rightarrow> (case read_yaml_file Y raw of Inl c \<Rightarrow> ''warn'' | Inr d \<Rightarrow> declared_validation_mode d))"

definition strict_report :: "yaml \<Rightarrow> str \<Rightarrow> bool \<Rightarrow> disk \<Rightarrow> bool" where
  \<comment> \<open>\<open>effective_strict\<close>\<close>
  "strict_report Y dir flag fs \<longleftrightarrow> flag \<or> declared_mode Y dir fs = ''strict''"

definition report_code :: "finding list \<Rightarrow> bool \<Rightarrow> int" where
  \<comment> \<open>the exit code that \<open>report\<close> decides\<close>
  "report_code findings strict =
     (if filter (\<lambda>f. fd_level f = ''error'') findings \<noteq> [] then 1
      else if filter (\<lambda>f. fd_level f = ''warning'') findings \<noteq> [] \<and> strict then 1 else 0)"

definition report_lines :: "(cause \<Rightarrow> str) \<Rightarrow> finding list \<Rightarrow> bool \<Rightarrow> str list" where
  \<comment> \<open>the lines of \<open>report\<close>, over the text of a cause\<close>
  "report_lines text findings strict =
     (let errors = filter (\<lambda>f. fd_level f = ''error'') findings;
          warnings = filter (\<lambda>f. fd_level f = ''warning'') findings
      in map (\<lambda>f. fd_level f @ '': '' @ text (fd_cause f)) findings
         @ [if findings = [] then ''ok: no findings''
            else show_nat (length errors) @ '' error(s), '' @ show_nat (length warnings) @ '' warning(s)''
              @ (if strict \<and> warnings \<noteq> [] then '' (strict: warnings fail)'' else [])])"

definition finding_dict :: "(cause \<Rightarrow> str) \<Rightarrow> finding \<Rightarrow> json" where
  "finding_dict text f = JObj [(''level'', JStr (fd_level f)), (''message'', JStr (text (fd_cause f))), (''file'', jopt (fd_file f))]"

definition validate_config_result ::
  "(cause \<Rightarrow> str) \<Rightarrow> yaml \<Rightarrow> pydantic \<Rightarrow> env \<Rightarrow> bool \<Rightarrow> str \<Rightarrow> bool \<Rightarrow> disk \<Rightarrow> doc" where
  "validate_config_result text Y V env is_dir dir strict fs =
     (let findings = validate_config_dir Y V env is_dir dir fs; strict_run = strict_report Y dir strict fs in
      [(''config_dir'', JStr dir), (''config_validation'', JStr (declared_mode Y dir fs)), (''strict'', JBool strict_run),
       (''valid'', JBool (report_code findings strict_run = 0)), (''findings'', JList (map (finding_dict text) findings))])"

subsection \<open>A clean report is a directory that loads\<close>

definition clean :: "bool \<Rightarrow> finding list \<Rightarrow> bool" where
  "clean strict fs \<longleftrightarrow> (\<forall>f \<in> set fs. fd_level f \<noteq> ''error'' \<and> (strict \<longrightarrow> fd_level f \<noteq> ''warning''))"

lemma clean_append [simp]: "clean strict (a @ b) \<longleftrightarrow> clean strict a \<and> clean strict b"
  by (auto simp: clean_def)

lemma clean_simps [simp]:
  "clean strict []" "\<not> clean strict (an_error n c # fs)"
  "clean strict (a_warning n c # fs) \<longleftrightarrow> \<not> strict \<and> clean strict fs"
  "clean strict (map (\<lambda>p. a_warning n (h p)) ps) \<longleftrightarrow> (strict \<longrightarrow> ps = [])"
  by (auto simp: clean_def an_error_def a_warning_def neq_Nil_conv)

lemma report_code_clean: "report_code fs strict = 0 \<longleftrightarrow> clean strict fs"
  by (auto simp: report_code_def clean_def filter_empty_conv)

lemma read_yaml_mapping: "read_yaml_file Y raw = Inr d \<longleftrightarrow> read_mapping Y raw = Some d"
  by (auto simp: read_yaml_file_def read_mapping_def split: option.splits json.splits)

lemma read_mapping_none: "read_mapping Y raw = None \<longleftrightarrow> (\<exists>c. read_yaml_file Y raw = Inl c)"
  by (auto simp: read_yaml_file_def read_mapping_def split: option.splits json.splits)

text \<open>A strict loader accepts what the lenient one accepts without a warning.\<close>

lemma strict_is_without_warnings:
  "load_document (Suc n) strict e u v d = Inr x \<longleftrightarrow>
     load_document (Suc n) False e u v d = Inr x \<and> (strict \<longrightarrow> load_warnings (Suc n) e u d = [])"
  by (cases strict; cases "e d"; cases "u d") (auto simp: load_warnings.simps)

lemma loaders_strict:
  "load_settings_document V strict d = Inr x \<longleftrightarrow> load_settings_document V False d = Inr x
     \<and> (strict \<longrightarrow> load_warnings 2 (settings_errors V) settings_unknown d = [])"
  "load_users_document V strict d = Inr y \<longleftrightarrow> load_users_document V False d = Inr y
     \<and> (strict \<longrightarrow> load_warnings 2 (users_errors V) (extras users_keys) d = [])"
  "load_bootstrap_document V strict d = Inr z \<longleftrightarrow> load_bootstrap_document V False d = Inr z
     \<and> (strict \<longrightarrow> load_warnings 2 (bootstrap_errors V) bootstrap_unknown d = [])"
  unfolding load_settings_document_def load_users_document_def load_bootstrap_document_def numeral_2_eq_2
  by (rule strict_is_without_warnings)+

lemma inl_or_inr: "(\<exists>x. r = Inr x) \<longleftrightarrow> \<not> (\<exists>e. r = Inl e)"
  by (cases r) simp_all

text \<open>What a report on one file says, in the terms of the loader.\<close>

lemma check_file_read:
  assumes "read_mapping Y raw = Some data" and "check_config_version data = Inr v" and "expected = None \<or> expected = Some v"
  shows "check_file Y env n l w expected True raw =
    (case l (expand_fields env data) of
       Inl e \<Rightarrow> (an_error n (LoaderRefused e) # map (\<lambda>p. a_warning n (UnknownPath p)) (w (expand_fields env data)), None, Some v)
     | Inr x \<Rightarrow> (map (\<lambda>p. a_warning n (UnknownPath p)) (w (expand_fields env data)), Some x, Some v))"
  using assms read_yaml_mapping [of Y raw data] by (auto simp: check_file_def split: sum.splits)

lemma check_file_version:
  assumes "read_mapping Y raw = Some data" and "check_config_version data = Inl e"
  shows "check_file Y env n l w expected True raw = ([an_error n (WrongVersion e)], None, None)"
  using assms read_yaml_mapping [of Y raw data] by (simp add: check_file_def)

lemma check_file_differs:
  assumes "read_mapping Y raw = Some data" and "check_config_version data = Inr v" and "v \<noteq> u"
  shows "\<exists>fs. fst (check_file Y env n l w (Some u) True raw) = an_error n (VersionsDiffer (Some v) u) # fs"
  using assms read_yaml_mapping [of Y raw data] by (simp add: check_file_def Let_def split: sum.splits)

lemma settings_staged:
  fixes M :: "'p menv" and m :: "'p manager"
  assumes on_disk: "fs (settings_file m) = Some raw"
    and mode: "cm_strict_override m = (if strict then Some True else None)"
  defines "S \<equiv> strict_report (me_yaml M) (cm_dir m) strict fs"
    and "found \<equiv> check_settings_file (me_yaml M) (me_pydantic M) (me_env M) (Some raw)"
  shows "clean S (fst found) \<longleftrightarrow> (\<exists>sg. stage_settings M m fs = Inr sg)"
    and "stage_settings M m fs = Inr sg \<Longrightarrow> snd found = Some (sg_version sg) \<and> sg_strict sg = S"
proof -
  let ?Y = "me_yaml M" and ?V = "me_pydantic M" and ?E = "me_env M"
  have "(clean S (fst found) \<longleftrightarrow> (\<exists>sg. stage_settings M m fs = Inr sg)) \<and>
    (\<forall>sg. stage_settings M m fs = Inr sg \<longrightarrow> snd found = Some (sg_version sg) \<and> sg_strict sg = S)"
  proof (cases "read_mapping ?Y raw")
    case None
    then obtain c where "read_yaml_file ?Y raw = Inl c" using read_mapping_none by blast
    then have "found = ([an_error ''settings.yaml'' c], None)"
      by (simp add: found_def check_settings_file_def check_file_def)
    moreover have "stage_settings M m fs = Inl (Unreadable (settings_file m))"
      using None on_disk by (simp add: stage_settings_def Let_def)
    ultimately show ?thesis by simp
  next
    case (Some data)
    then have "declared_mode ?Y (cm_dir m) fs = declared_validation_mode data"
      using on_disk read_yaml_mapping [of ?Y raw data] by (simp add: declared_mode_def settings_file_def)
    then have S: "effective_strict m (declared_validation_mode data) = S"
      using mode by (simp add: S_def strict_report_def effective_strict_def)
    show ?thesis
    proof (cases "check_config_version data")
      case (Inl e)
      then show ?thesis using Some on_disk Inl
        by (simp add: check_file_version [OF Some Inl] found_def check_settings_file_def stage_settings_def Let_def)
    next
      case (Inr v)
      let ?x = "expand_fields ?E data"
      note checked = check_file_read [OF Some Inr, of None ?E "''settings.yaml''" "load_settings_document ?V False"
          "load_warnings 2 (settings_errors ?V) settings_unknown"]
      show ?thesis
      proof (cases "load_settings_document ?V False ?x")
        case (Inl e)
        then have "\<And>y. load_settings_document ?V S ?x \<noteq> Inr y" using loaders_strict(1) by fastforce
        then obtain e' where "load_settings_document ?V S ?x = Inl e'" by (metis sum.exhaust)
        with Inl checked Some Inr on_disk S show ?thesis
          by (simp add: found_def check_settings_file_def stage_settings_def Let_def)
      next
        case doc: (Inr doc)
        show ?thesis
        proof (cases "S \<longrightarrow> load_warnings 2 (settings_errors ?V) settings_unknown ?x = []")
          case True
          then have "load_settings_document ?V S ?x = Inr doc" using doc loaders_strict(1) by blast
          then show ?thesis using True doc checked Some Inr on_disk S
            by (cases "to_settings ?V ?E doc") (auto simp: found_def check_settings_file_def stage_settings_def Let_def)
        next
          case False
          then have "load_settings_document ?V S ?x \<noteq> Inr y" for y using loaders_strict(1) [of ?V S ?x y] by blast
          then obtain e' where "load_settings_document ?V S ?x = Inl e'" by (metis sum.exhaust)
          moreover have "stage_settings M m fs = Inl (BadDocument (settings_file m) e')"
            using calculation Some Inr on_disk S by (simp add: stage_settings_def Let_def)
          moreover have "\<not> clean S (fst found)" using False doc checked
            by (simp add: found_def check_settings_file_def split: sum.split)
          ultimately show ?thesis by simp
        qed
      qed
    qed
  qed
  then show "clean S (fst found) \<longleftrightarrow> (\<exists>sg. stage_settings M m fs = Inr sg)"
    and "stage_settings M m fs = Inr sg \<Longrightarrow> snd found = Some (sg_version sg) \<and> sg_strict sg = S"
    by blast+
qed

lemma users_staged:
  assumes on_disk: "fs (users_file m) = Some raw"
  shows "clean S (check_users_file (me_yaml M) (me_pydantic M) (me_env M) (Some v) (Some raw))
    \<longleftrightarrow> (\<exists>us. stage_users M m S v fs = Inr us)"
proof (cases "read_mapping (me_yaml M) raw")
  case None
  then obtain c where "read_yaml_file (me_yaml M) raw = Inl c" using read_mapping_none by blast
  then have "check_users_file (me_yaml M) (me_pydantic M) (me_env M) (Some v) (Some raw) = [an_error ''users.yaml'' c]"
    by (simp add: check_users_file_def check_file_def)
  with None on_disk show ?thesis by (simp add: stage_users_def Let_def)
next
  case (Some data)
  let ?V = "me_pydantic M" and ?E = "me_env M"
  let ?x = "expand_fields ?E data" and ?w = "load_warnings 2 (users_errors ?V) (extras users_keys)"
  show ?thesis
  proof (cases "check_config_version data")
    case (Inl e)
    with Some on_disk show ?thesis
      by (simp add: check_file_version [OF Some Inl] check_users_file_def stage_users_def Let_def)
  next
    case version: (Inr u)
    show ?thesis
    proof (cases "u = v")
      case False
      obtain fs' where "fst (check_file (me_yaml M) ?E ''users.yaml'' (load_users_document ?V False) ?w (Some v) True raw) =
          an_error ''users.yaml'' (VersionsDiffer (Some u) v) # fs'"
        using check_file_differs [OF Some version False] by blast
      with Some version False on_disk show ?thesis
        by (auto simp: check_users_file_def stage_users_def Let_def split: prod.splits)
    next
      case True
      note checked = check_file_read [OF Some version, of "Some v" ?E "''users.yaml''" "load_users_document ?V False" ?w]
      show ?thesis
      proof (cases "\<exists>doc. load_users_document ?V S ?x = Inr doc")
        case loads: True
        then obtain doc where doc: "load_users_document ?V S ?x = Inr doc" by blast
        with loaders_strict(2) have lenient: "load_users_document ?V False ?x = Inr doc" "S \<longrightarrow> ?w ?x = []" by blast+
        show ?thesis using doc lenient checked True Some version on_disk
          by (cases "to_users doc") (auto simp: check_users_file_def stage_users_def load_users_def Let_def andthen_def)
      next
        case refused: False
        then obtain e where e: "load_users_document ?V S ?x = Inl e" by (metis sum.exhaust)
        have "\<not> clean S (check_users_file (me_yaml M) ?V ?E (Some v) (Some raw))"
        proof (cases "load_users_document ?V False ?x")
          case (Inl e')
          with checked True show ?thesis by (simp add: check_users_file_def)
        next
          case (Inr doc)
          with refused loaders_strict(2) have "S \<and> ?w ?x \<noteq> []" by blast
          with Inr checked True show ?thesis by (simp add: check_users_file_def)
        qed
        with e True Some version on_disk show ?thesis by (simp add: stage_users_def load_users_def Let_def andthen_def)
      qed
    qed
  qed
qed

definition bootstrap_loads :: "'p menv \<Rightarrow> str \<Rightarrow> bool \<Rightarrow> disk \<Rightarrow> bool" where
  \<comment> \<open>what the start asks of \<open>bootstrap.yaml\<close> before it registers anything\<close>
  "bootstrap_loads M dir strict fs \<longleftrightarrow>
     (case fs (dir, ''bootstrap.yaml'') of
        None \<Rightarrow> True
      | Some raw \<Rightarrow> (\<exists>d hp. read_mapping (me_yaml M) raw = Some d
          \<and> load_bootstrap_document (me_pydantic M) strict (expand_fields (me_env M) d) = Inr hp))"

lemma bootstrap_clean:
  "clean S (check_bootstrap_file (me_yaml M) (me_pydantic M) (me_env M) (fs (dir, ''bootstrap.yaml'')))
    \<longleftrightarrow> bootstrap_loads M dir S fs"
proof (cases "fs (dir, ''bootstrap.yaml'')")
  case None
  then show ?thesis by (simp add: check_bootstrap_file_def bootstrap_loads_def)
next
  case (Some raw)
  show ?thesis
  proof (cases "read_yaml_file (me_yaml M) raw")
    case (Inl c)
    with Some read_mapping_none [of "me_yaml M" raw] show ?thesis
      by (simp add: check_bootstrap_file_def bootstrap_loads_def check_file_def)
  next
    case (Inr d)
    let ?x = "expand_fields (me_env M) d"
    let ?w = "load_warnings 2 (bootstrap_errors (me_pydantic M)) bootstrap_unknown ?x"
    have "clean S (check_bootstrap_file (me_yaml M) (me_pydantic M) (me_env M) (Some raw)) \<longleftrightarrow>
        (\<exists>hp. load_bootstrap_document (me_pydantic M) False ?x = Inr hp \<and> (S \<longrightarrow> ?w = []))"
      by (simp add: check_bootstrap_file_def check_file_def Inr Let_def split: sum.split)
    also have "\<dots> \<longleftrightarrow> (\<exists>hp. load_bootstrap_document (me_pydantic M) S ?x = Inr hp)"
      using loaders_strict(3) [of "me_pydantic M" S ?x] by blast
    finally show ?thesis using Some Inr read_yaml_mapping [of "me_yaml M" raw] by (simp add: bootstrap_loads_def)
  qed
qed

lemma report_valid:
  "dget (validate_config_result text Y V env is_dir dir strict fs) ''valid'' =
     Some (JBool (clean (strict_report Y dir strict fs) (validate_config_dir Y V env is_dir dir fs)))"
  by (simp add: validate_config_result_def Let_def dget_Cons report_code_clean)

lemma directory_clean:
  fixes M :: "'p menv" and m :: "'p manager"
  assumes "fs (settings_file m) = Some sraw" and "fs (users_file m) = Some uraw"
    and "cm_strict_override m = (if strict then Some True else None)"
  defines "S \<equiv> strict_report (me_yaml M) (cm_dir m) strict fs"
  shows "clean S (validate_config_dir (me_yaml M) (me_pydantic M) (me_env M) True (cm_dir m) fs)
    \<longleftrightarrow> (\<exists>c. stage_directory M m fs = Inr c) \<and> bootstrap_loads M (cm_dir m) S fs"
proof -
  let ?found = "check_settings_file (me_yaml M) (me_pydantic M) (me_env M) (Some sraw)"
  note settings = settings_staged [where fs = fs and m = m and raw = sraw and strict = strict and M = M, OF assms(1,3), folded S_def]
  have parts: "clean S (validate_config_dir (me_yaml M) (me_pydantic M) (me_env M) True (cm_dir m) fs) \<longleftrightarrow>
      clean S (fst ?found)
      \<and> clean S (check_users_file (me_yaml M) (me_pydantic M) (me_env M) (snd ?found) (Some uraw))
      \<and> bootstrap_loads M (cm_dir m) S fs"
    using assms(1,2) bootstrap_clean [of S M fs "cm_dir m"]
    by (simp add: validate_config_dir_def settings_file_def users_file_def split: prod.split)
  show ?thesis
  proof (cases "stage_settings M m fs")
    case (Inl e)
    then show ?thesis using parts settings(1) by (simp add: stage_directory_def)
  next
    case (Inr sg)
    from settings(2) [OF Inr] settings(1) Inr users_staged [where fs = fs and m = m and raw = uraw and S = S and M = M and v = "sg_version sg", OF assms(2)] parts show ?thesis
      by (auto simp: stage_directory_def split: prod.splits sum.splits)
  qed
qed

subsection \<open>The report and the start\<close>

text \<open>
  C34. A report of \<open>validate-config\<close> on a directory with both files is valid exactly when a server
  started on that directory stages its configuration, with the same strictness, and can load its
  \<open>bootstrap.yaml\<close>: every rule by which the start refuses is found by the report, and nothing else is
  an error of the report.
\<close>

theorem a_valid_report_is_a_directory_that_loads:
  fixes M :: "'p menv" and m :: "'p manager"
  assumes "fs (settings_file m) \<noteq> None" and "fs (users_file m) \<noteq> None"
    and "cm_strict_override m = (if strict then Some True else None)"
  shows "dget (validate_config_result text (me_yaml M) (me_pydantic M) (me_env M) True (cm_dir m) strict fs) ''valid'' =
      Some (JBool ((\<exists>c. stage_directory M m fs = Inr c)
        \<and> bootstrap_loads M (cm_dir m) (strict_report (me_yaml M) (cm_dir m) strict fs) fs))"
proof -
  obtain sraw uraw where "fs (settings_file m) = Some sraw" "fs (users_file m) = Some uraw" using assms(1,2) by blast
  from directory_clean [where fs = fs and m = m and M = M and strict = strict, OF this assms(3)] show ?thesis by (simp only: report_valid)
qed

lemma a_valid_report_is_a_directory_that_loads_witness:
  "dget (validate_config_result (\<lambda>_. []) (me_yaml sample_menv) sample_pydantic sample_env True ''cfg'' False sample_disk) ''valid'' =
    Some (JBool (\<exists>c. stage_directory sample_menv sample_manager sample_disk = Inr c))"
proof -
  have "sample_disk (settings_file sample_manager) \<noteq> None" "sample_disk (users_file sample_manager) \<noteq> None"
    "cm_strict_override sample_manager = (if False then Some True else None)" "cm_dir sample_manager = ''cfg''"
    by (simp_all add: sample_files sample_disk_def) (simp_all add: sample_manager_def)
  moreover have "bootstrap_loads sample_menv ''cfg'' S sample_disk" for S
    by (simp add: bootstrap_loads_def sample_disk_def)
  ultimately show ?thesis
    using a_valid_report_is_a_directory_that_loads [of sample_disk sample_manager False "\<lambda>_. []" sample_menv] by simp
qed

text \<open>
  Where a file is missing the two part: a server starts on an empty directory, with its defaults, also
  under strict validation, and the strict report on that directory is not valid.
\<close>

lemma strict_report_wants_both_files:
  "fs (dir, ''users.yaml'') = None \<Longrightarrow>
    dget (validate_config_result text Y V env True dir True fs) ''valid'' = Some (JBool False)"
  by (simp add: report_valid validate_config_dir_def check_users_file_def strict_report_def split: prod.split)

lemma strict_start_without_files:
  "\<exists>c. stage_directory sample_menv (sample_manager\<lparr>cm_strict_override := Some True\<rparr>) (\<lambda>_. None) = Inr c"
proof -
  obtain s where "default_settings sample_pydantic sample_env = Inr s" using sample_default_saved by blast
  then show ?thesis by (simp add: stage_directory_def stage_settings_def stage_users_def Let_def split: prod.split)
qed

end
