(* ===== verification/Mcp_Tools.thy ===== *)
theory Mcp_Tools
  imports Ui_Forms Config_Check
begin

text \<open>
  What the tools of the MCP server declare and share (\<open>mcp_server/schemas.py\<close>, \<open>normalize.py\<close>,
  \<open>serializers.py\<close>): the JSON schema of each tool, as the table of its properties without their
  descriptions, the normalization of arguments before anything is assigned, and the view of users and
  clients that a reply carries. The validator of JSON schemas is a library: \<open>conforms\<close> says what it
  accepts.
\<close>

subsection \<open>Schemas\<close>

datatype shape =
    Text
  | TextMax nat
  | TextOf "str list"
  | Whole
  | Flag
  | Texts
  | Object

record tool_schema =
  ts_properties :: "(str \<times> shape) list"
  ts_required :: "str list"

fun of_shape :: "shape \<Rightarrow> json \<Rightarrow> bool" where
  "of_shape Text (JStr s) = True"
| "of_shape (TextMax n) (JStr s) = (length s \<le> n)"
| "of_shape (TextOf xs) (JStr s) = (s \<in> set xs)"
| "of_shape Whole (JInt i) = True"
| "of_shape Whole (JDec m e) = (m mod 10 ^ e = 0)" \<comment> \<open>a float without a fraction is an integer of JSON\<close>
| "of_shape Flag (JBool b) = True"
| "of_shape Texts (JList xs) = list_all json_is_str xs"
| "of_shape Object (JObj d) = True"
| "of_shape _ _ = False"

definition conforms :: "tool_schema \<Rightarrow> doc \<Rightarrow> bool" where
  "conforms sch d \<longleftrightarrow> list_all (dhas d) (ts_required sch)
     \<and> list_all (\<lambda>(k, sh). case dget d k of None \<Rightarrow> True | Some v \<Rightarrow> of_shape sh v) (ts_properties sch)"

definition user_common_properties :: "(str \<times> shape) list" where
  "user_common_properties =
     [(''description'', TextMax 200), (''email'', Text), (''roles'', Texts), (''groups'', Texts),
      (''tenant'', Text), (''identity_class'', Text), (''entitlements'', Texts), (''source_acl'', Texts),
      (''attributes'', Object)]"

definition schema_list_users :: tool_schema where
  "schema_list_users = \<lparr>ts_properties = [],
     ts_required = []\<rparr>"

definition schema_get_user :: tool_schema where
  "schema_get_user = \<lparr>ts_properties = [(''username'', Text)],
     ts_required = [''username'']\<rparr>"

definition schema_create_user :: tool_schema where
  "schema_create_user = \<lparr>ts_properties = [(''username'', Text), (''password'', Text)] @ user_common_properties,
     ts_required = [''username'', ''password'']\<rparr>"

definition schema_create_persona_user :: tool_schema where
  "schema_create_persona_user = \<lparr>ts_properties = [(''username'', Text)] @ user_common_properties,
     ts_required = [''username'']\<rparr>"

definition schema_delete_user :: tool_schema where
  "schema_delete_user = \<lparr>ts_properties = [(''username'', Text)],
     ts_required = [''username'']\<rparr>"

definition schema_update_user :: tool_schema where
  "schema_update_user = \<lparr>ts_properties = [(''username'', Text), (''password'', Text), (''description'', TextMax 200), (''email'', Text),
      (''roles'', Texts), (''groups'', Texts), (''tenant'', Text), (''identity_class'', Text),
      (''entitlements'', Texts), (''source_acl'', Texts), (''attributes'', Object)],
     ts_required = [''username'']\<rparr>"

definition schema_generate_token :: tool_schema where
  "schema_generate_token = \<lparr>ts_properties = [(''username'', Text), (''expires_in_minutes'', Whole), (''client_id'', Text),
      (''extra_claims'', Object), (''scope'', Text), (''id_token_claims'', Texts),
      (''userinfo_claims'', Texts), (''resource'', Texts)],
     ts_required = [''username'']\<rparr>"

definition schema_decode_token :: tool_schema where
  "schema_decode_token = \<lparr>ts_properties = [(''token'', Text)],
     ts_required = [''token'']\<rparr>"

definition schema_verify_token :: tool_schema where
  "schema_verify_token = \<lparr>ts_properties = [(''token'', Text), (''audience'', Text)],
     ts_required = [''token'']\<rparr>"

definition schema_list_clients :: tool_schema where
  "schema_list_clients = \<lparr>ts_properties = [],
     ts_required = []\<rparr>"

definition schema_get_client :: tool_schema where
  "schema_get_client = \<lparr>ts_properties = [(''client_id'', Text)],
     ts_required = [''client_id'']\<rparr>"

definition schema_create_client :: tool_schema where
  "schema_create_client = \<lparr>ts_properties = [(''client_id'', Text), (''client_secret'', Text),
      (''token_endpoint_auth_method'', TextOf [''client_secret_basic'', ''client_secret_post'', ''none'']),
      (''description'', Text), (''background_color'', Text), (''header_color'', Text),
      (''footer_color'', Text), (''show_client_id'', Flag), (''show_description'', Flag),
      (''layout'', TextOf [''vertical'', ''horizontal'']), (''additional_audiences'', Texts),
      (''redirect_uris'', Texts), (''allowed_scopes'', Texts), (''allowed_resources'', Texts)],
     ts_required = [''client_id'']\<rparr>"

definition schema_update_client :: tool_schema where
  "schema_update_client = \<lparr>ts_properties = [(''client_id'', Text), (''client_secret'', Text),
      (''token_endpoint_auth_method'', TextOf [''client_secret_basic'', ''client_secret_post'', ''none'']),
      (''description'', Text), (''background_color'', Text), (''header_color'', Text),
      (''footer_color'', Text), (''show_client_id'', Flag), (''show_description'', Flag),
      (''layout'', TextOf [''vertical'', ''horizontal'']), (''additional_audiences'', Texts),
      (''redirect_uris'', Texts), (''allowed_scopes'', Texts), (''allowed_resources'', Texts)],
     ts_required = [''client_id'']\<rparr>"

definition schema_delete_client :: tool_schema where
  "schema_delete_client = \<lparr>ts_properties = [(''client_id'', Text)],
     ts_required = [''client_id'']\<rparr>"

definition schema_get_settings :: tool_schema where
  "schema_get_settings = \<lparr>ts_properties = [],
     ts_required = []\<rparr>"

definition schema_reload_config :: tool_schema where
  "schema_reload_config = \<lparr>ts_properties = [],
     ts_required = []\<rparr>"

definition schema_validate_config :: tool_schema where
  "schema_validate_config = \<lparr>ts_properties = [(''strict'', Flag)],
     ts_required = []\<rparr>"

definition schema_update_settings :: tool_schema where
  "schema_update_settings = \<lparr>ts_properties = [(''issuer'', Text), (''issuer_from_request'', Flag), (''issuer_allowlist'', Texts),
      (''device_verification_base_url'', Text), (''issuer_from_proxy_headers'', Flag),
      (''audience'', Text), (''token_expiry_minutes'', Whole), (''saml_entity_id'', Text),
      (''saml_sso_url'', Text), (''saml_sign_responses'', Flag), (''saml_export_roles'', Flag),
      (''saml_export_groups'', Flag), (''saml_roles_attr_name'', Text),
      (''saml_groups_attr_name'', Text),
      (''saml_c14n_algorithm'', TextOf [''c14n'', ''c14n11'', ''exc_c14n'']),
      (''saml_want_authn_requests_signed'', Flag), (''saml_sp_certificates'', Texts),
      (''strict_saml_binding'', Flag), (''verbose_logging'', Flag), (''refresh_token_rotation'', Flag),
      (''require_pkce'', Flag), (''login_mode'', TextOf [''password'', ''persona'']),
      (''auto_login'', Flag), (''two_step'', Flag)],
     ts_required = []\<rparr>"

definition schema_save_config :: tool_schema where
  "schema_save_config = \<lparr>ts_properties = [(''expected_users_revision'', Text), (''expected_settings_revision'', Text)],
     ts_required = []\<rparr>"

definition schema_get_oidc_discovery :: tool_schema where
  "schema_get_oidc_discovery = \<lparr>ts_properties = [],
     ts_required = []\<rparr>"

definition schema_get_jwks :: tool_schema where
  "schema_get_jwks = \<lparr>ts_properties = [],
     ts_required = []\<rparr>"

definition schema_get_audit_log :: tool_schema where
  "schema_get_audit_log = \<lparr>ts_properties = [(''limit'', Whole), (''event_type'', Text), (''username'', Text)],
     ts_required = []\<rparr>"

definition schema_get_audit_stats :: tool_schema where
  "schema_get_audit_stats = \<lparr>ts_properties = [],
     ts_required = []\<rparr>"

definition schema_clear_audit_log :: tool_schema where
  "schema_clear_audit_log = \<lparr>ts_properties = [],
     ts_required = []\<rparr>"

definition schema_get_keys_info :: tool_schema where
  "schema_get_keys_info = \<lparr>ts_properties = [],
     ts_required = []\<rparr>"

definition schema_rotate_keys :: tool_schema where
  "schema_rotate_keys = \<lparr>ts_properties = [],
     ts_required = []\<rparr>"

definition tool_schemas :: "(str, tool_schema) dict" where
  "tool_schemas =
     [(''list_users'', schema_list_users),
      (''get_user'', schema_get_user),
      (''create_user'', schema_create_user),
      (''create_persona_user'', schema_create_persona_user),
      (''delete_user'', schema_delete_user),
      (''update_user'', schema_update_user),
      (''generate_token'', schema_generate_token),
      (''decode_token'', schema_decode_token),
      (''verify_token'', schema_verify_token),
      (''list_clients'', schema_list_clients),
      (''get_client'', schema_get_client),
      (''create_client'', schema_create_client),
      (''update_client'', schema_update_client),
      (''delete_client'', schema_delete_client),
      (''get_settings'', schema_get_settings),
      (''reload_config'', schema_reload_config),
      (''validate_config'', schema_validate_config),
      (''update_settings'', schema_update_settings),
      (''save_config'', schema_save_config),
      (''get_oidc_discovery'', schema_get_oidc_discovery),
      (''get_jwks'', schema_get_jwks),
      (''get_audit_log'', schema_get_audit_log),
      (''get_audit_stats'', schema_get_audit_stats),
      (''clear_audit_log'', schema_clear_audit_log),
      (''get_keys_info'', schema_get_keys_info),
      (''rotate_keys'', schema_rotate_keys)]"

subsection \<open>Exceptions of a tool\<close>

datatype tool_exn =
    MissingArgument str \<comment> \<open>a \<open>KeyError\<close>\<close>
  | WrongType str \<comment> \<open>an argument that its schema excludes\<close>
  | BadArgument str \<comment> \<open>a \<open>ValueError\<close> with its text\<close>
  | ModelRefused \<comment> \<open>a \<open>ValidationError\<close> of pydantic\<close>
  | TokenRaised exn
  | ReloadRaised manager_error

definition need_text :: "doc \<Rightarrow> str \<Rightarrow> tool_exn + str" where
  \<comment> \<open>\<open>arguments[k]\<close>\<close>
  "need_text d k =
     (case dget d k of None \<Rightarrow> Inl (MissingArgument k) | Some (JStr s) \<Rightarrow> Inr s | Some _ \<Rightarrow> Inl (WrongType k))"

definition get_text :: "doc \<Rightarrow> str \<Rightarrow> tool_exn + str option" where
  \<comment> \<open>\<open>arguments.get(k)\<close>\<close>
  "get_text d k =
     (case dget d k of None \<Rightarrow> Inr None | Some JNull \<Rightarrow> Inr None | Some (JStr s) \<Rightarrow> Inr (Some s) | Some _ \<Rightarrow> Inl (WrongType k))"

subsection \<open>Normalization\<close>

definition token_endpoint_auth_methods :: "str list" where
  "token_endpoint_auth_methods = [''client_secret_basic'', ''client_secret_post'', ''none'']"

definition layouts :: "str list" where
  "layouts = [''vertical'', ''horizontal'']"

definition one_of :: "str \<Rightarrow> str list \<Rightarrow> json \<Rightarrow> tool_exn + str" where
  \<comment> \<open>the body that the two normalizers below share\<close>
  "one_of name values v =
     (case v of
        JStr s \<Rightarrow> if s \<in> set values then Inr s else Inl (BadArgument (name @ '' must be one of '' @ join '', '' values))
      | _ \<Rightarrow> Inl (BadArgument (name @ '' must be one of '' @ join '', '' values)))"

definition normalize_auth_method :: "json \<Rightarrow> tool_exn + str" where
  "normalize_auth_method v = one_of ''token_endpoint_auth_method'' token_endpoint_auth_methods v"

definition normalize_layout :: "json \<Rightarrow> tool_exn + str" where
  "normalize_layout v = one_of ''layout'' layouts v"

definition normalize_str_list :: "json \<Rightarrow> str \<Rightarrow> tool_exn + str list" where
  "normalize_str_list v name =
     (case v of
        JNull \<Rightarrow> Inr []
      | JList xs \<Rightarrow>
          if list_all json_is_str xs then Inr (filter (\<lambda>s. s \<noteq> []) (map json_str xs))
          else Inl (BadArgument (name @ '' must be a list of strings''))
      | _ \<Rightarrow> Inl (BadArgument (name @ '' must be a list of strings'')))"

definition re_hex_color :: "str \<Rightarrow> bool" where
  \<comment> \<open>\<open>re.match\<close> of the pattern: its \<open>$\<close> also matches before a final newline\<close>
  "re_hex_color s \<longleftrightarrow> is_hex_color s \<or> (s \<noteq> [] \<and> last s = CHR 0x0A \<and> is_hex_color (butlast s))"

definition normalize_hex_color :: "json \<Rightarrow> str \<Rightarrow> tool_exn + str option" where
  "normalize_hex_color v name =
     (if \<not> json_true v then Inr None
      else
        case v of
          JStr s \<Rightarrow> if re_hex_color s then Inr (Some s)
            else Inl (BadArgument (name @ '' must be a hex color like '' @ quoted ''#1a1a2e''))
        | _ \<Rightarrow> Inl (BadArgument (name @ '' must be a hex color like '' @ quoted ''#1a1a2e'')))"

definition update_settings_fields :: "str list" where
  "update_settings_fields =
     [''issuer'', ''issuer_from_request'', ''issuer_allowlist'', ''device_verification_base_url'',
      ''issuer_from_proxy_headers'', ''audience'', ''token_expiry_minutes'', ''saml_entity_id'', ''saml_sso_url'',
      ''saml_sign_responses'', ''saml_export_roles'', ''saml_export_groups'', ''saml_roles_attr_name'',
      ''saml_groups_attr_name'', ''saml_c14n_algorithm'', ''strict_saml_binding'', ''saml_want_authn_requests_signed'',
      ''saml_sp_certificates'', ''verbose_logging'', ''refresh_token_rotation'', ''require_pkce'', ''login_mode'',
      ''auto_login'', ''two_step'']"

subsection \<open>Views\<close>

definition user_to_dict :: "user \<Rightarrow> json" where
  \<comment> \<open>without the password\<close>
  "user_to_dict u = JObj
     [(''username'', JStr (u_username u)), (''description'', JStr (u_description u)), (''email'', JStr (u_email u)),
      (''roles'', jstrs (u_roles u)), (''groups'', jstrs (u_groups u)), (''tenant'', JStr (u_tenant u)),
      (''identity_class'', jopt (u_identity_class u)), (''entitlements'', jstrs (u_entitlements u)),
      (''source_acl'', jstrs (u_source_acl u)), (''attributes'', JObj (u_attributes u))]"

definition client_to_dict :: "oauth_client \<Rightarrow> json" where
  \<comment> \<open>without the secret\<close>
  "client_to_dict c = JObj
     [(''client_id'', JStr (cl_client_id c)), (''token_endpoint_auth_method'', JStr (auth_method_str (cl_auth_method c))),
      (''description'', JStr (cl_description c)), (''background_color'', jopt (cl_background_color c)),
      (''header_color'', jopt (cl_header_color c)), (''footer_color'', jopt (cl_footer_color c)),
      (''show_client_id'', JBool (cl_show_client_id c)), (''show_description'', JBool (cl_show_description c)),
      (''layout'', JStr (cl_layout c)), (''additional_audiences'', jstrs (cl_additional_audiences c)),
      (''redirect_uris'', jstrs (cl_redirect_uris c)), (''allowed_scopes'', jstrs (cl_allowed_scopes c)),
      (''allowed_resources'', jstrs (cl_allowed_resources c))]"

end
