(* ===== verification/Mcp_Server.thy ===== *)
theory Mcp_Server
  imports Mcp_Tools
begin

text \<open>
  The MCP server (\<open>mcp_server/\<close>): one handler per tool, their table, and the dispatch with its
  guards, its validation and its audit entry. The state is the one of the dashboard: the services of the
  process, its configuration manager, the disk. A handler returns a reply or an exception, and the state
  in both cases, since the exception may come after an assignment. Of the arguments, those of a type that
  their schema excludes raise an exception of the model.
\<close>

record 'p mcp_env =
  mx_lib :: lib
  mx_menv :: "'p menv"
  mx_readonly :: bool
  mx_is_dir :: bool \<comment> \<open>the configuration directory exists\<close>
  mx_invalid :: "tool_schema \<Rightarrow> doc \<Rightarrow> str option" \<comment> \<open>the library of JSON schemas: why the arguments are not valid\<close>
  mx_text :: "tool_exn \<Rightarrow> str" \<comment> \<open>\<open>str(e)\<close>\<close>
  mx_save_text :: "save_error \<Rightarrow> str"
  mx_hook_text :: "hook_error \<Rightarrow> str"
  mx_cause_text :: "cause \<Rightarrow> str"

type_synonym 'p tool_result = "(tool_exn + doc) \<times> 'p dash"
type_synonym 'p handler = "'p mcp_env \<Rightarrow> time \<Rightarrow> doc \<Rightarrow> 'p dash \<Rightarrow> 'p tool_result"

definition edit_config :: "(config \<Rightarrow> config) \<Rightarrow> 'p dash \<Rightarrow> 'p dash" where
  \<comment> \<open>an assignment below \<open>config\<close>, in memory\<close>
  "edit_config f s = with_manager ((dh_manager s)\<lparr>cm_config := f (dash_config s)\<rparr>, dh_disk s) s"

definition edit_settings :: "(settings \<Rightarrow> settings) \<Rightarrow> 'p dash \<Rightarrow> 'p dash" where
  "edit_settings f s = edit_config (\<lambda>c. c\<lparr>c_settings := f (c_settings c)\<rparr>) s"

definition edit_world :: "(world \<Rightarrow> world) \<Rightarrow> 'p dash \<Rightarrow> 'p dash" where
  "edit_world f s = s\<lparr>dh_world := f (dh_world s)\<rparr>"

definition domain_error :: "str \<Rightarrow> doc" where
  "domain_error message = [(''success'', JBool False), (''error'', JStr message)]"

definition dash_settings :: "'p dash \<Rightarrow> settings" where
  "dash_settings s = c_settings (dash_config s)"

definition users_rev :: "'p dash \<Rightarrow> json" where
  "users_rev s = JStr (cm_users_revision (dh_manager s))"

definition settings_rev :: "'p dash \<Rightarrow> json" where
  "settings_rev s = JStr (cm_settings_revision (dh_manager s))"

subsection \<open>Users\<close>

definition user_argument_errors :: "doc \<Rightarrow> path list" where
  \<comment> \<open>the types of the fields of \<open>User\<close> that the tools take from their arguments\<close>
  "user_argument_errors d =
     field_errors as_str d ''description'' @ field_errors as_str d ''email'' @ field_errors (as_list as_str) d ''roles''
     @ field_errors (as_list as_str) d ''groups'' @ field_errors as_str d ''tenant''
     @ field_errors as_opt_str d ''identity_class'' @ field_errors (as_list as_str) d ''entitlements''
     @ field_errors (as_list as_str) d ''source_acl'' @ field_errors (as_dict as_any) d ''attributes''"

definition build_user_from_arguments :: "str \<Rightarrow> str option \<Rightarrow> doc \<Rightarrow> tool_exn + user" where
  "build_user_from_arguments username password d =
     (let u = \<lparr>u_username = username, u_password = password,
                u_description = field_value as_str [] d ''description'', u_email = field_value as_str [] d ''email'',
                u_identity_class = field_value as_opt_str None d ''identity_class'',
                u_entitlements = field_value (as_list as_str) [] d ''entitlements'',
                u_roles = field_value (as_list as_str) [''USER''] d ''roles'',
                u_groups = field_value (as_list as_str) [] d ''groups'',
                u_tenant = field_value as_str ''default'' d ''tenant'',
                u_source_acl = field_value (as_list as_str) [] d ''source_acl'',
                u_attributes = field_value (as_dict as_any) [] d ''attributes''\<rparr>
      in if user_argument_errors d = [] \<and> valid_user u then Inr u else Inl ModelRefused)"

definition put_user :: "str \<Rightarrow> user \<Rightarrow> 'p dash \<Rightarrow> 'p dash" where
  "put_user username u s = edit_config (\<lambda>c. c\<lparr>c_users := dset username u (c_users c)\<rparr>) s"

definition tool_list_users :: "'p handler" where
  "tool_list_users E now d s =
     (let users = c_users (dash_config s) in
      (Inr [(''count'', JInt (int (length users))), (''default_user'', JStr (c_default_user (dash_config s))),
            (''users_revision'', users_rev s), (''users'', JList (map (\<lambda>(n, u). user_to_dict u) users))], s))"

definition tool_get_user :: "'p handler" where
  "tool_get_user E now d s =
     (case need_text d ''username'' of
        Inl e \<Rightarrow> (Inl e, s)
      | Inr username \<Rightarrow>
          (Inr (case get_user (dash_config s) username of
                  Some u \<Rightarrow> [(''found'', JBool True), (''user'', user_to_dict u), (''users_revision'', users_rev s)]
                | None \<Rightarrow> [(''found'', JBool False), (''username'', JStr username), (''users_revision'', users_rev s)]), s))"

definition add_user :: "str \<Rightarrow> str option \<Rightarrow> doc \<Rightarrow> 'p dash \<Rightarrow> 'p tool_result" where
  \<comment> \<open>the body that the two tools below share\<close>
  "add_user username password d s =
     (case build_user_from_arguments username password d of
        Inl e \<Rightarrow> (Inl e, s)
      | Inr u \<Rightarrow> (Inr [(''success'', JBool True), (''user'', user_to_dict u)], put_user username u s))"

definition user_exists :: "str \<Rightarrow> doc" where
  "user_exists username = domain_error (''User '' @ quoted username @ '' already exists'')"

definition tool_create_user :: "'p handler" where
  "tool_create_user E now d s =
     (case need_text d ''username'' of
        Inl e \<Rightarrow> (Inl e, s)
      | Inr username \<Rightarrow>
          if dhas (c_users (dash_config s)) username then (Inr (user_exists username), s)
          else
            (case need_text d ''password'' of
               Inl e \<Rightarrow> (Inl e, s)
             | Inr password \<Rightarrow> add_user username (Some password) d s))"

definition tool_create_persona_user :: "'p handler" where
  "tool_create_persona_user E now d s =
     (case need_text d ''username'' of
        Inl e \<Rightarrow> (Inl e, s)
      | Inr username \<Rightarrow>
          if dhas (c_users (dash_config s)) username then (Inr (user_exists username), s)
          else add_user username None d s)"

definition no_such_user :: "str \<Rightarrow> doc" where
  "no_such_user username = domain_error (''User '' @ quoted username @ '' not found'')"

definition tool_delete_user :: "'p handler" where
  "tool_delete_user E now d s =
     (case need_text d ''username'' of
        Inl e \<Rightarrow> (Inl e, s)
      | Inr username \<Rightarrow>
          if \<not> dhas (c_users (dash_config s)) username then (Inr (no_such_user username), s)
          else (Inr [(''success'', JBool True), (''deleted'', JStr username)],
                edit_config (\<lambda>c. c\<lparr>c_users := ddel username (c_users c)\<rparr>) s))"

definition assign_user :: "'v conv \<Rightarrow> doc \<Rightarrow> str \<Rightarrow> ('v \<Rightarrow> user \<Rightarrow> user) \<Rightarrow> user \<Rightarrow> tool_exn + user" where
  \<comment> \<open>\<open>if k in arguments: candidate.k = arguments[k]\<close>, which validates\<close>
  "assign_user conv d k put u =
     (case dget d k of
        None \<Rightarrow> Inr u
      | Some v \<Rightarrow> (case conv v of Inl ps \<Rightarrow> Inl ModelRefused | Inr x \<Rightarrow> if valid_user (put x u) then Inr (put x u) else Inl ModelRefused))"

definition updated_user :: "doc \<Rightarrow> user \<Rightarrow> tool_exn + user" where
  \<comment> \<open>the scratch copy with every requested field assigned\<close>
  "updated_user d u0 =
     andthen (assign_user as_opt_str d ''password'' (\<lambda>x u. u\<lparr>u_password := x\<rparr>) u0) (\<lambda>u1.
     andthen (assign_user as_str d ''description'' (\<lambda>x u. u\<lparr>u_description := x\<rparr>) u1) (\<lambda>u2.
     andthen (assign_user as_str d ''email'' (\<lambda>x u. u\<lparr>u_email := x\<rparr>) u2) (\<lambda>u3.
     andthen (assign_user (as_list as_str) d ''roles'' (\<lambda>x u. u\<lparr>u_roles := x\<rparr>) u3) (\<lambda>u4.
     andthen (assign_user (as_list as_str) d ''groups'' (\<lambda>x u. u\<lparr>u_groups := x\<rparr>) u4) (\<lambda>u5.
     andthen (assign_user as_str d ''tenant'' (\<lambda>x u. u\<lparr>u_tenant := x\<rparr>) u5) (\<lambda>u6.
     andthen (assign_user as_opt_str d ''identity_class'' (\<lambda>x u. u\<lparr>u_identity_class := x\<rparr>) u6) (\<lambda>u7.
     andthen (assign_user (as_list as_str) d ''entitlements'' (\<lambda>x u. u\<lparr>u_entitlements := x\<rparr>) u7) (\<lambda>u8.
     andthen (assign_user (as_list as_str) d ''source_acl'' (\<lambda>x u. u\<lparr>u_source_acl := x\<rparr>) u8) (\<lambda>u9.
     assign_user (as_dict as_any) d ''attributes'' (\<lambda>x u. u\<lparr>u_attributes := x\<rparr>) u9)))))))))"

definition tool_update_user :: "'p handler" where
  "tool_update_user E now d s =
     (case need_text d ''username'' of
        Inl e \<Rightarrow> (Inl e, s)
      | Inr username \<Rightarrow>
          (case dget (c_users (dash_config s)) username of
             None \<Rightarrow> (Inr (no_such_user username), s)
           | Some live \<Rightarrow>
               (case updated_user d live of
                  Inl e \<Rightarrow> (Inl e, s)
                | Inr u \<Rightarrow> (Inr [(''success'', JBool True), (''user'', user_to_dict u)], put_user username u s))))"

subsection \<open>Clients\<close>

definition no_such_client :: "str \<Rightarrow> doc" where
  "no_such_client client_id = domain_error (''Client '' @ quoted client_id @ '' not found'')"

definition secret_required :: doc where
  "secret_required = domain_error (''client_secret is required unless token_endpoint_auth_method is '' @ quoted ''none'')"

definition tool_list_clients :: "'p handler" where
  "tool_list_clients E now d s =
     (let clients = s_clients (dash_settings s) in
      (Inr [(''count'', JInt (int (length clients))), (''settings_revision'', settings_rev s),
            (''clients'', JList (map client_to_dict clients))], s))"

definition tool_get_client :: "'p handler" where
  "tool_get_client E now d s =
     (case need_text d ''client_id'' of
        Inl e \<Rightarrow> (Inl e, s)
      | Inr client_id \<Rightarrow>
          (Inr (case get_client (dash_config s) client_id of
                  Some c \<Rightarrow> [(''found'', JBool True), (''client'', client_to_dict c), (''settings_revision'', settings_rev s)]
                | None \<Rightarrow> [(''found'', JBool False), (''client_id'', JStr client_id), (''settings_revision'', settings_rev s)]), s))"

definition argument :: "doc \<Rightarrow> str \<Rightarrow> json \<Rightarrow> json" where
  \<comment> \<open>\<open>arguments.get(k, default)\<close>\<close>
  "argument d k dflt = (case dget d k of None \<Rightarrow> dflt | Some v \<Rightarrow> v)"

definition client_argument_errors :: "pydantic \<Rightarrow> doc \<Rightarrow> json \<Rightarrow> path list" where
  \<comment> \<open>the types of the fields of \<open>OAuthClient\<close> that no normalizer has checked\<close>
  "client_argument_errors V d secret =
     (case as_opt_str secret of Inl ps \<Rightarrow> ps | Inr x \<Rightarrow> [])
     @ field_errors as_str d ''description'' @ field_errors (of_opt (pd_bool V)) d ''show_client_id''
     @ field_errors (of_opt (pd_bool V)) d ''show_description''"

definition new_client :: "pydantic \<Rightarrow> str \<Rightarrow> str \<Rightarrow> json \<Rightarrow> doc \<Rightarrow> tool_exn + oauth_client" where
  \<comment> \<open>the arguments of the constructor in their order, then its validation\<close>
  "new_client V client_id auth_method secret d =
     andthen (normalize_hex_color (argument d ''background_color'' JNull) ''background_color'') (\<lambda>background.
     andthen (normalize_hex_color (argument d ''header_color'' JNull) ''header_color'') (\<lambda>header.
     andthen (normalize_hex_color (argument d ''footer_color'' JNull) ''footer_color'') (\<lambda>footer.
     andthen (normalize_layout (argument d ''layout'' (JStr ''vertical''))) (\<lambda>layout.
     andthen (normalize_str_list (argument d ''additional_audiences'' JNull) ''additional_audiences'') (\<lambda>audiences.
     andthen (normalize_str_list (argument d ''redirect_uris'' JNull) ''redirect_uris'') (\<lambda>uris.
     andthen (normalize_str_list (argument d ''allowed_scopes'' JNull) ''allowed_scopes'') (\<lambda>scopes.
     andthen (normalize_str_list (argument d ''allowed_resources'' JNull) ''allowed_resources'') (\<lambda>resources.
       let c = \<lparr>cl_client_id = client_id,
                cl_client_secret = (case as_opt_str secret of Inl ps \<Rightarrow> None | Inr x \<Rightarrow> x),
                cl_auth_method = auth_method_of auth_method, cl_description = field_value as_str [] d ''description'',
                cl_background_color = background, cl_header_color = header, cl_footer_color = footer,
                cl_show_client_id = field_value (of_opt (pd_bool V)) True d ''show_client_id'',
                cl_show_description = field_value (of_opt (pd_bool V)) False d ''show_description'',
                cl_additional_audiences = audiences, cl_redirect_uris = uris, cl_allowed_scopes = scopes,
                cl_allowed_resources = resources, cl_layout = layout\<rparr>
       in if client_argument_errors V d secret = [] \<and> valid_client c then Inr c else Inl ModelRefused))))))))"

definition tool_create_client :: "'p handler" where
  "tool_create_client E now d s =
     (case need_text d ''client_id'' of
        Inl e \<Rightarrow> (Inl e, s)
      | Inr client_id \<Rightarrow>
          if get_client (dash_config s) client_id \<noteq> None then
            (Inr (domain_error (''Client '' @ quoted client_id @ '' already exists'')), s)
          else
            (case normalize_auth_method (argument d ''token_endpoint_auth_method'' (JStr ''client_secret_basic'')) of
               Inl e \<Rightarrow> (Inl e, s)
             | Inr auth_method \<Rightarrow>
                 let secret = argument d ''client_secret'' JNull in
                 if auth_method \<noteq> ''none'' \<and> \<not> json_true secret then (Inr secret_required, s)
                 else
                   (case new_client (me_pydantic (mx_menv E)) client_id auth_method
                       (if auth_method = ''none'' then JNull else secret) d of
                      Inl e \<Rightarrow> (Inl e, s)
                    | Inr c \<Rightarrow> (Inr [(''success'', JBool True), (''client'', client_to_dict c)],
                        edit_settings (\<lambda>st. st\<lparr>s_clients := s_clients st @ [c]\<rparr>) s))))"

definition if_given :: "doc \<Rightarrow> str \<Rightarrow> (json \<Rightarrow> tool_exn + 'a) \<Rightarrow> tool_exn + 'a option" where
  \<comment> \<open>\<open>f(arguments[k]) if k in arguments else None\<close>\<close>
  "if_given d k f =
     (case dget d k of None \<Rightarrow> Inr None | Some v \<Rightarrow> (case f v of Inl e \<Rightarrow> Inl e | Inr x \<Rightarrow> Inr (Some x)))"

record client_update =
  \<comment> \<open>the normalized arguments; \<open>None\<close>: not given\<close>
  cu_audiences :: "str list option"
  cu_redirect_uris :: "str list option"
  cu_scopes :: "str list option"
  cu_resources :: "str list option"
  cu_layout :: "str option"
  cu_background :: "str option option"
  cu_header :: "str option option"
  cu_footer :: "str option option"
  cu_auth_method :: "str option"

definition normalized_update :: "doc \<Rightarrow> tool_exn + client_update" where
  \<comment> \<open>everything that is checked before the first assignment\<close>
  "normalized_update d =
     andthen (if_given d ''additional_audiences'' (\<lambda>v. normalize_str_list v ''additional_audiences'')) (\<lambda>audiences.
     andthen (if_given d ''redirect_uris'' (\<lambda>v. normalize_str_list v ''redirect_uris'')) (\<lambda>uris.
     andthen (if_given d ''allowed_scopes'' (\<lambda>v. normalize_str_list v ''allowed_scopes'')) (\<lambda>scopes.
     andthen (if_given d ''allowed_resources'' (\<lambda>v. normalize_str_list v ''allowed_resources'')) (\<lambda>resources.
     andthen (if_given d ''layout'' normalize_layout) (\<lambda>layout.
     andthen (if_given d ''background_color'' (\<lambda>v. normalize_hex_color v ''background_color'')) (\<lambda>background.
     andthen (if_given d ''header_color'' (\<lambda>v. normalize_hex_color v ''header_color'')) (\<lambda>header.
     andthen (if_given d ''footer_color'' (\<lambda>v. normalize_hex_color v ''footer_color'')) (\<lambda>footer.
     andthen (if_given d ''token_endpoint_auth_method'' normalize_auth_method) (\<lambda>auth_method.
       Inr \<lparr>cu_audiences = audiences, cu_redirect_uris = uris, cu_scopes = scopes, cu_resources = resources,
            cu_layout = layout, cu_background = background, cu_header = header, cu_footer = footer,
            cu_auth_method = auth_method\<rparr>)))))))))"

type_synonym assignment = "oauth_client \<Rightarrow> oauth_client option"
  \<comment> \<open>\<open>client.field = value\<close>; \<open>None\<close>: a \<open>ValidationError\<close>, and the field is as it was\<close>

definition assign :: "'v conv \<Rightarrow> json \<Rightarrow> ('v \<Rightarrow> oauth_client \<Rightarrow> oauth_client) \<Rightarrow> assignment" where
  "assign conv v put c =
     (case conv v of Inl ps \<Rightarrow> None | Inr x \<Rightarrow> if valid_client (put x c) then Some (put x c) else None)"

definition set_field :: "('v \<Rightarrow> oauth_client \<Rightarrow> oauth_client) \<Rightarrow> 'v \<Rightarrow> assignment" where
  \<comment> \<open>of a value that has its type\<close>
  "set_field put x c = (if valid_client (put x c) then Some (put x c) else None)"

fun assign_all :: "assignment list \<Rightarrow> oauth_client \<Rightarrow> bool \<times> oauth_client" where
  \<comment> \<open>in place: what was assigned before a failure stays\<close>
  "assign_all [] c = (True, c)"
| "assign_all (a # as) c = (case a c of None \<Rightarrow> (False, c) | Some c' \<Rightarrow> assign_all as c')"

definition when_given :: "doc \<Rightarrow> str \<Rightarrow> (json \<Rightarrow> assignment) \<Rightarrow> assignment list" where
  "when_given d k f = (case dget d k of None \<Rightarrow> [] | Some v \<Rightarrow> [f v])"

definition when_some :: "'v option \<Rightarrow> ('v \<Rightarrow> oauth_client \<Rightarrow> oauth_client) \<Rightarrow> assignment list" where
  "when_some x put = (case x of None \<Rightarrow> [] | Some v \<Rightarrow> [set_field put v])"

definition set_method :: "str \<Rightarrow> oauth_client \<Rightarrow> oauth_client" where
  "set_method m c = c\<lparr>cl_auth_method := auth_method_of m\<rparr>"

definition json_or_none :: "json \<Rightarrow> json" where
  \<comment> \<open>\<open>v or None\<close>\<close>
  "json_or_none v = (if json_true v then v else JNull)"

definition secret_assignments :: "doc \<Rightarrow> client_update \<Rightarrow> str \<Rightarrow> assignment list" where
  \<comment> \<open>method and secret, in the order in which every step is valid\<close>
  "secret_assignments d u effective_method =
     (if effective_method = ''none'' then
        when_some (cu_auth_method u) set_method @ [set_field (\<lambda>x c. c\<lparr>cl_client_secret := x\<rparr>) None]
      else
        when_given d ''client_secret'' (\<lambda>v. assign as_opt_str (json_or_none v) (\<lambda>x c. c\<lparr>cl_client_secret := x\<rparr>))
        @ when_some (cu_auth_method u) set_method)"

definition client_assignments :: "pydantic \<Rightarrow> doc \<Rightarrow> client_update \<Rightarrow> str \<Rightarrow> assignment list" where
  "client_assignments V d u effective_method =
     secret_assignments d u effective_method
     @ when_given d ''description'' (\<lambda>v. assign as_str v (\<lambda>x c. c\<lparr>cl_description := x\<rparr>))
     @ when_some (cu_background u) (\<lambda>x c. c\<lparr>cl_background_color := x\<rparr>)
     @ when_some (cu_header u) (\<lambda>x c. c\<lparr>cl_header_color := x\<rparr>)
     @ when_some (cu_footer u) (\<lambda>x c. c\<lparr>cl_footer_color := x\<rparr>)
     @ when_given d ''show_client_id'' (\<lambda>v. assign (of_opt (pd_bool V)) v (\<lambda>x c. c\<lparr>cl_show_client_id := x\<rparr>))
     @ when_given d ''show_description'' (\<lambda>v. assign (of_opt (pd_bool V)) v (\<lambda>x c. c\<lparr>cl_show_description := x\<rparr>))
     @ when_some (cu_layout u) (\<lambda>x c. c\<lparr>cl_layout := x\<rparr>)
     @ when_some (cu_audiences u) (\<lambda>x c. c\<lparr>cl_additional_audiences := x\<rparr>)
     @ when_some (cu_redirect_uris u) (\<lambda>x c. c\<lparr>cl_redirect_uris := x\<rparr>)
     @ when_some (cu_scopes u) (\<lambda>x c. c\<lparr>cl_allowed_scopes := x\<rparr>)
     @ when_some (cu_resources u) (\<lambda>x c. c\<lparr>cl_allowed_resources := x\<rparr>)"

definition put_client :: "str \<Rightarrow> oauth_client \<Rightarrow> 'p dash \<Rightarrow> 'p dash" where
  \<comment> \<open>the object that \<open>get_client\<close> finds, mutated\<close>
  "put_client client_id c s =
     edit_settings (\<lambda>st. st\<lparr>s_clients :=
       (case first_index (\<lambda>x. cl_client_id x = client_id) (s_clients st) of
          None \<Rightarrow> s_clients st | Some i \<Rightarrow> (s_clients st)[i := c])\<rparr>) s"

definition effective_client_secret :: "doc \<Rightarrow> oauth_client \<Rightarrow> json" where
  "effective_client_secret d c =
     (case dget d ''client_secret'' of Some v \<Rightarrow> json_or_none v | None \<Rightarrow> jopt (cl_client_secret c))"

definition tool_update_client :: "'p handler" where
  "tool_update_client E now d s =
     (case need_text d ''client_id'' of
        Inl e \<Rightarrow> (Inl e, s)
      | Inr client_id \<Rightarrow>
          (case get_client (dash_config s) client_id of
             None \<Rightarrow> (Inr (no_such_client client_id), s)
           | Some c \<Rightarrow>
               (case normalized_update d of
                  Inl e \<Rightarrow> (Inl e, s)
                | Inr u \<Rightarrow>
                    let effective_method = (case cu_auth_method u of Some m \<Rightarrow> m | None \<Rightarrow> auth_method_str (cl_auth_method c)) in
                    if effective_method \<noteq> ''none'' \<and> \<not> json_true (effective_client_secret d c) then (Inr secret_required, s)
                    else
                      (case assign_all (client_assignments (me_pydantic (mx_menv E)) d u effective_method) c of
                         (False, c') \<Rightarrow> (Inl ModelRefused, put_client client_id c' s)
                       | (True, c') \<Rightarrow> (Inr [(''success'', JBool True), (''client'', client_to_dict c')],
                           put_client client_id c' s)))))"

definition tool_delete_client :: "'p handler" where
  "tool_delete_client E now d s =
     (case need_text d ''client_id'' of
        Inl e \<Rightarrow> (Inl e, s)
      | Inr client_id \<Rightarrow>
          if get_client (dash_config s) client_id = None then (Inr (no_such_client client_id), s)
          else (Inr [(''success'', JBool True), (''deleted'', JStr client_id)],
                edit_settings (\<lambda>st. st\<lparr>s_clients := filter (\<lambda>c. cl_client_id c \<noteq> client_id) (s_clients st)\<rparr>) s))"

subsection \<open>Settings\<close>

definition tool_get_settings :: "'p handler" where
  "tool_get_settings E now d s =
     (let m = dh_manager s; st = dash_settings s in
      (Inr
        [(''config_version'', JInt (cm_version m)),
         (''config_validation'', JStr (if cm_strict m then ''strict'' else ''warn'')),
         (''settings_revision'', settings_rev s),
         (''issuer'', JStr (s_issuer st)), (''issuer_from_request'', JBool (s_issuer_from_request st)),
         (''issuer_allowlist'', jstrs (s_issuer_allowlist st)),
         (''device_verification_base_url'', jopt (s_device_verification_base_url st)),
         (''issuer_from_proxy_headers'', JBool (s_issuer_from_proxy_headers st)),
         (''audience'', JStr (s_audience st)), (''token_expiry_minutes'', JInt (s_token_expiry_minutes st)),
         (''scopes_supported'', jstrs (s_scopes_supported st)),
         (''scope_enforcement'', JBool (scope_enforcement_active st)),
         (''security_profile'', JStr (s_security_profile st)), (''profile_override'', jopt (cm_profile_override m)),
         (''effective'', JObj
           [(''require_pkce'', JBool (s_require_pkce st)), (''password_hashing'', JBool (s_password_hashing st)),
            (''rate_limit_enabled'', JBool (s_rate_limit_enabled st)), (''debug'', JBool (s_debug st))]),
         (''login_mode'', JStr (s_login_mode st)), (''auto_login'', JBool (s_auto_login st)),
         (''two_step'', JBool (s_two_step st)),
         (''rate_limit_enabled'', JBool (s_rate_limit_enabled st)),
         (''rate_limit_token_endpoint'', JStr (s_rate_limit_token_endpoint st)),
         (''refresh_token_rotation'', JBool (s_refresh_token_rotation st)),
         (''require_pkce'', JBool (s_require_pkce st)), (''jwt_algorithm'', JStr (s_jwt_algorithm st)),
         (''saml'', JObj
           [(''entity_id'', JStr (resolve_saml_entity_id st (s_issuer st))),
            (''entity_id_derived'', JBool (s_saml_entity_id st = None)),
            (''sso_url'', JStr (resolve_saml_sso_url st (s_issuer st))),
            (''sso_url_derived'', JBool (s_saml_sso_url st = None)),
            (''sign_responses'', JBool (s_saml_sign_responses st)),
            (''c14n_algorithm'', JStr (s_saml_c14n_algorithm st)), (''strict_binding'', JBool (s_strict_saml_binding st)),
            (''want_authn_requests_signed'', JBool (s_saml_want_authn_requests_signed st)),
            (''sp_certificates'', jstrs (s_saml_sp_certificates st)),
            (''export_roles'', JBool (s_saml_export_roles st)), (''export_groups'', JBool (s_saml_export_groups st)),
            (''roles_attr_name'', JStr (s_saml_roles_attr_name st)),
            (''groups_attr_name'', JStr (s_saml_groups_attr_name st))]),
         (''logging'', JObj [(''verbose_logging'', JBool (s_verbose_logging st))]),
         (''authority_prefixes'', JObj (map (\<lambda>(k, v). (k, JStr v)) (s_authority_prefixes st))),
         (''allowed_identity_classes'', jstrs (s_allowed_identity_classes st)),
         (''hooks'', JObj (describe_registry (me_hooks (mx_menv E)) (cm_hooks m)))], s))"

definition text_value :: "str \<Rightarrow> json \<Rightarrow> tool_exn + str" where
  "text_value k v = (case v of JStr t \<Rightarrow> Inr t | _ \<Rightarrow> Inl (WrongType k))"

definition bool_value :: "str \<Rightarrow> json \<Rightarrow> tool_exn + bool" where
  "bool_value k v = (case v of JBool b \<Rightarrow> Inr b | _ \<Rightarrow> Inl (WrongType k))"

definition whole_value :: "str \<Rightarrow> json \<Rightarrow> tool_exn + int" where
  \<comment> \<open>a float without a fraction as the integer it equals\<close>
  "whole_value k v =
     (case v of JInt i \<Rightarrow> Inr i
      | JDec m e \<Rightarrow> if m mod 10 ^ e = 0 then Inr (m div 10 ^ e) else Inl (WrongType k)
      | _ \<Rightarrow> Inl (WrongType k))"

definition set_value :: "('v \<Rightarrow> settings \<Rightarrow> settings) \<Rightarrow> tool_exn + 'v \<Rightarrow> tool_exn + (settings \<Rightarrow> settings)" where
  \<comment> \<open>\<open>setattr\<close>, which validates nothing: \<open>Settings\<close> has no \<open>validate_assignment\<close>\<close>
  "set_value put v = andthen v (\<lambda>x. Inr (put x))"

definition setting_writers :: "(str, json \<Rightarrow> tool_exn + (settings \<Rightarrow> settings)) dict" where
  \<comment> \<open>per field, its normalizer and the attribute it sets\<close>
  "setting_writers =
     [(''issuer'', \<lambda>v. set_value (\<lambda>x s. s\<lparr>s_issuer := x\<rparr>) (text_value ''issuer'' v)),
      (''issuer_from_request'', \<lambda>v. set_value (\<lambda>x s. s\<lparr>s_issuer_from_request := x\<rparr>) (bool_value ''issuer_from_request'' v)),
      (''issuer_allowlist'', \<lambda>v. set_value (\<lambda>x s. s\<lparr>s_issuer_allowlist := x\<rparr>) (normalize_str_list v ''issuer_allowlist'')),
      (''device_verification_base_url'', \<lambda>v. set_value (\<lambda>x s. s\<lparr>s_device_verification_base_url := or_none x\<rparr>)
         (text_value ''device_verification_base_url'' v)),
      (''issuer_from_proxy_headers'', \<lambda>v. set_value (\<lambda>x s. s\<lparr>s_issuer_from_proxy_headers := x\<rparr>)
         (bool_value ''issuer_from_proxy_headers'' v)),
      (''audience'', \<lambda>v. set_value (\<lambda>x s. s\<lparr>s_audience := x\<rparr>) (text_value ''audience'' v)),
      (''token_expiry_minutes'', \<lambda>v. set_value (\<lambda>x s. s\<lparr>s_token_expiry_minutes := x\<rparr>) (whole_value ''token_expiry_minutes'' v)),
      (''saml_entity_id'', \<lambda>v. set_value (\<lambda>x s. s\<lparr>s_saml_entity_id := or_none x\<rparr>) (text_value ''saml_entity_id'' v)),
      (''saml_sso_url'', \<lambda>v. set_value (\<lambda>x s. s\<lparr>s_saml_sso_url := or_none x\<rparr>) (text_value ''saml_sso_url'' v)),
      (''saml_sign_responses'', \<lambda>v. set_value (\<lambda>x s. s\<lparr>s_saml_sign_responses := x\<rparr>) (bool_value ''saml_sign_responses'' v)),
      (''saml_export_roles'', \<lambda>v. set_value (\<lambda>x s. s\<lparr>s_saml_export_roles := x\<rparr>) (bool_value ''saml_export_roles'' v)),
      (''saml_export_groups'', \<lambda>v. set_value (\<lambda>x s. s\<lparr>s_saml_export_groups := x\<rparr>) (bool_value ''saml_export_groups'' v)),
      (''saml_roles_attr_name'', \<lambda>v. set_value (\<lambda>x s. s\<lparr>s_saml_roles_attr_name := normalize_saml_attr_name ''roles'' (Some x)\<rparr>)
         (text_value ''saml_roles_attr_name'' v)),
      (''saml_groups_attr_name'', \<lambda>v. set_value (\<lambda>x s. s\<lparr>s_saml_groups_attr_name := normalize_saml_attr_name ''groups'' (Some x)\<rparr>)
         (text_value ''saml_groups_attr_name'' v)),
      (''saml_c14n_algorithm'', \<lambda>v. set_value (\<lambda>x s. s\<lparr>s_saml_c14n_algorithm := x\<rparr>) (text_value ''saml_c14n_algorithm'' v)),
      (''strict_saml_binding'', \<lambda>v. set_value (\<lambda>x s. s\<lparr>s_strict_saml_binding := x\<rparr>) (bool_value ''strict_saml_binding'' v)),
      (''saml_want_authn_requests_signed'', \<lambda>v. set_value (\<lambda>x s. s\<lparr>s_saml_want_authn_requests_signed := x\<rparr>)
         (bool_value ''saml_want_authn_requests_signed'' v)),
      (''saml_sp_certificates'', \<lambda>v. set_value (\<lambda>x s. s\<lparr>s_saml_sp_certificates := x\<rparr>) (normalize_str_list v ''saml_sp_certificates'')),
      (''verbose_logging'', \<lambda>v. set_value (\<lambda>x s. s\<lparr>s_verbose_logging := x\<rparr>) (bool_value ''verbose_logging'' v)),
      (''refresh_token_rotation'', \<lambda>v. set_value (\<lambda>x s. s\<lparr>s_refresh_token_rotation := x\<rparr>) (bool_value ''refresh_token_rotation'' v)),
      (''require_pkce'', \<lambda>v. set_value (\<lambda>x s. s\<lparr>s_require_pkce := x\<rparr>) (bool_value ''require_pkce'' v)),
      (''login_mode'', \<lambda>v. set_value (\<lambda>x s. s\<lparr>s_login_mode := x\<rparr>) (text_value ''login_mode'' v)),
      (''auto_login'', \<lambda>v. set_value (\<lambda>x s. s\<lparr>s_auto_login := x\<rparr>) (bool_value ''auto_login'' v)),
      (''two_step'', \<lambda>v. set_value (\<lambda>x s. s\<lparr>s_two_step := x\<rparr>) (bool_value ''two_step'' v))]"

fun put_settings :: "str list \<Rightarrow> doc \<Rightarrow> settings \<Rightarrow> str list \<Rightarrow> (tool_exn + str list) \<times> settings" where
  \<comment> \<open>the loop over the fields, in place, with the fields updated so far in reverse\<close>
  "put_settings [] d st updated = (Inr (rev updated), st)"
| "put_settings (k # ks) d st updated =
     (case dget d k of
        None \<Rightarrow> put_settings ks d st updated
      | Some v \<Rightarrow>
          (case dget setting_writers k of
             None \<Rightarrow> (Inl (WrongType k), st)
           | Some w \<Rightarrow>
               (case w v of
                  Inl e \<Rightarrow> (Inl e, st)
                | Inr put \<Rightarrow> put_settings ks d (put st) (k # updated))))"

definition current_settings :: "settings \<Rightarrow> json" where
  "current_settings st = JObj
     [(''issuer'', JStr (s_issuer st)), (''issuer_from_request'', JBool (s_issuer_from_request st)),
      (''issuer_allowlist'', jstrs (s_issuer_allowlist st)),
      (''device_verification_base_url'', jopt (s_device_verification_base_url st)),
      (''issuer_from_proxy_headers'', JBool (s_issuer_from_proxy_headers st)), (''audience'', JStr (s_audience st)),
      (''token_expiry_minutes'', JInt (s_token_expiry_minutes st)),
      (''refresh_token_rotation'', JBool (s_refresh_token_rotation st)), (''require_pkce'', JBool (s_require_pkce st)),
      (''login_mode'', JStr (s_login_mode st)), (''auto_login'', JBool (s_auto_login st)), (''two_step'', JBool (s_two_step st)),
      (''saml_sign_responses'', JBool (s_saml_sign_responses st)), (''saml_c14n_algorithm'', JStr (s_saml_c14n_algorithm st)),
      (''strict_saml_binding'', JBool (s_strict_saml_binding st)),
      (''saml_want_authn_requests_signed'', JBool (s_saml_want_authn_requests_signed st)),
      (''saml_sp_certificates'', jstrs (s_saml_sp_certificates st)),
      (''saml_export_roles'', JBool (s_saml_export_roles st)), (''saml_export_groups'', JBool (s_saml_export_groups st)),
      (''saml_roles_attr_name'', JStr (s_saml_roles_attr_name st)),
      (''saml_groups_attr_name'', JStr (s_saml_groups_attr_name st)),
      (''verbose_logging'', JBool (s_verbose_logging st))]"

definition tool_update_settings :: "'p handler" where
  "tool_update_settings E now d s =
     (case put_settings update_settings_fields d (dash_settings s) [] of
        (Inl e, st) \<Rightarrow> (Inl e, edit_settings (\<lambda>_. st) s)
      | (Inr updated, st) \<Rightarrow>
          (Inr [(''success'', JBool True), (''updated_fields'', jstrs updated), (''current_settings'', current_settings st)],
           edit_settings (\<lambda>_. st) s))"

subsection \<open>The life of the configuration\<close>

fun hook_kind :: "hook_error \<Rightarrow> str" where
  "hook_kind (HookError hook failures) = hook"
| "hook_kind (PluginsNotLoaded names source) = ''plugin_load''"

definition tool_reload_config :: "'p handler" where
  "tool_reload_config E now d s =
     (case reload (mx_menv E) (dh_manager s, dh_disk s) of
        (Some (FromHook e), ms) \<Rightarrow>
          (Inr [(''success'', JBool False), (''error'', JStr (''Reload failed: '' @ mx_hook_text E e)), (''kind'', JStr (hook_kind e))],
           with_manager ms s)
      | (Some e, ms) \<Rightarrow> (Inl (ReloadRaised e), with_manager ms s)
      | (None, ms) \<Rightarrow>
          (Inr [(''success'', JBool True), (''message'', JStr ''Configuration reloaded''),
                (''users_revision'', JStr (cm_users_revision (fst ms))), (''settings_revision'', JStr (cm_settings_revision (fst ms)))],
           with_manager ms s))"

definition tool_validate_config :: "'p handler" where
  "tool_validate_config E now d s =
     (let M = mx_menv E; m = dh_manager s;
          strict = (case argument d ''strict'' JNull of JNull \<Rightarrow> cm_strict m | v \<Rightarrow> json_true v)
      in (Inr (validate_config_result (mx_cause_text E) (me_yaml M) (me_pydantic M) (me_env M) (mx_is_dir E) (cm_dir m)
            strict (dh_disk s)), s))"

fun save_failure :: "'p mcp_env \<Rightarrow> save_error \<Rightarrow> doc" where
  \<comment> \<open>the \<open>except\<close> clauses of \<open>save_config\<close>\<close>
  "save_failure E (NothingSaved (Conflict f)) =
     domain_error (mx_save_text E (NothingSaved (Conflict f))) @ [(''kind'', JStr ''conflict'')]"
| "save_failure E (NothingSaved (LockUnavailable e)) =
     domain_error (mx_save_text E (NothingSaved (LockUnavailable e)))
     @ [(''kind'', JStr (case e of LockUnsupported \<Rightarrow> ''lock_unsupported'' | LockTimeout \<Rightarrow> ''lock_timeout''))]"
| "save_failure E (MirrorFailed e) =
     domain_error (''Save succeeded, mirror failed: '' @ mx_hook_text E e) @ [(''kind'', JStr (hook_kind e))]"
| "save_failure E (ReloadAfterSave e) =
     domain_error (mx_save_text E (ReloadAfterSave e)) @ [(''kind'', JStr ''reload_after_save'')]"
| "save_failure E e = domain_error (''Failed to save config: '' @ mx_save_text E e)"

definition save_revisions :: "'p manager \<Rightarrow> str option \<Rightarrow> str option \<Rightarrow> str option \<times> str option" where
  \<comment> \<open>either revision supplied: the other defaults to the one of the runtime\<close>
  "save_revisions m users settings =
     (if users = None \<and> settings = None then (None, None)
      else (Some (case users of None \<Rightarrow> cm_users_revision m | Some r \<Rightarrow> r),
            Some (case settings of None \<Rightarrow> cm_settings_revision m | Some r \<Rightarrow> r)))"

definition tool_save_config :: "'p handler" where
  "tool_save_config E now d s =
     (case (get_text d ''expected_users_revision'', get_text d ''expected_settings_revision'') of
        (Inr users, Inr settings) \<Rightarrow>
          (case save_revisions (dh_manager s) users settings of
             (expected_users, expected_settings) \<Rightarrow>
               (case save (mx_menv E) expected_users expected_settings (dh_manager s, dh_disk s) of
                  (Some e, ms) \<Rightarrow> (Inr (save_failure E e), with_manager ms s)
                | (None, ms) \<Rightarrow>
                    (Inr [(''success'', JBool True), (''message'', JStr ''Configuration saved to YAML files''),
                          (''users_revision'', JStr (cm_users_revision (fst ms))),
                          (''settings_revision'', JStr (cm_settings_revision (fst ms)))], with_manager ms s)))
      | (Inl e, _) \<Rightarrow> (Inl e, s)
      | (_, Inl e) \<Rightarrow> (Inl e, s))"

subsection \<open>Tokens\<close>

definition opt_whole :: "doc \<Rightarrow> str \<Rightarrow> tool_exn + int option" where
  "opt_whole d k = (case dget d k of None \<Rightarrow> Inr None | Some v \<Rightarrow> map_sum id Some (whole_value k v))"

definition opt_object :: "doc \<Rightarrow> str \<Rightarrow> tool_exn + doc" where
  \<comment> \<open>absent as the empty object\<close>
  "opt_object d k =
     (case argument d k JNull of JNull \<Rightarrow> Inr [] | JObj e \<Rightarrow> Inr e | _ \<Rightarrow> Inl (WrongType k))"

definition strs_or_none :: "str list \<Rightarrow> json option" where
  "strs_or_none xs = map_option jstrs (or_none xs)"

definition minting_args :: "settings \<Rightarrow> user \<Rightarrow> str option \<Rightarrow> doc \<Rightarrow> tool_exn + token_args" where
  \<comment> \<open>the arguments of \<open>create_token\<close>\<close>
  "minting_args st u client_id d =
     andthen (opt_whole d ''expires_in_minutes'') (\<lambda>minutes.
     andthen (opt_object d ''extra_claims'') (\<lambda>extra.
     andthen (get_text d ''scope'') (\<lambda>scope.
     andthen (normalize_str_list (argument d ''id_token_claims'' JNull) ''id_token_claims'') (\<lambda>id_claims.
     andthen (normalize_str_list (argument d ''userinfo_claims'' JNull) ''userinfo_claims'') (\<lambda>ui_claims.
     andthen (normalize_str_list (argument d ''resource'' JNull) ''resource'') (\<lambda>resource.
       Inr ((plain_token_args u)\<lparr>ta_exp_minutes := Some (case minutes of None \<Rightarrow> s_token_expiry_minutes st | Some n \<Rightarrow> n),
         ta_extra_claims := extra, ta_scope := scope, ta_client_id := client_id,
         ta_id_token_claims := strs_or_none id_claims, ta_userinfo_claims := strs_or_none ui_claims,
         ta_resource := or_none resource\<rparr>)))))))"

definition minted_reply :: "claims \<Rightarrow> doc" where
  "minted_reply response =
     (''success'', JBool True)
     # filter (\<lambda>(k, v). k \<in> set [''access_token'', ''token_type'', ''expires_in'']) response
     @ (case dget response ''refresh_token'' of None \<Rightarrow> [] | Some v \<Rightarrow> [(''refresh_token'', v)])
     @ (case dget response ''id_token'' of None \<Rightarrow> [] | Some v \<Rightarrow> [(''id_token'', v)])"

definition tool_generate_token :: "'p handler" where
  "tool_generate_token E now d s =
     (case (need_text d ''username'', get_text d ''client_id'') of
        (Inl e, _) \<Rightarrow> (Inl e, s)
      | (Inr username, client) \<Rightarrow>
          (case get_user (dash_config s) username of
             None \<Rightarrow> (Inr (no_such_user username), s)
           | Some u \<Rightarrow>
               (case client of
                  Inl e \<Rightarrow> (Inl e, s)
                | Inr client_id \<Rightarrow>
                    if client_id \<noteq> None \<and> get_client (dash_config s) (the client_id) = None then
                      (Inr (no_such_client (the client_id)), s)
                    else
                      (case minting_args (dash_settings s) u client_id d of
                         Inl e \<Rightarrow> (Inl e, s)
                       | Inr ta \<Rightarrow>
                           (case create_token (mx_lib E) now (dash_config s) (w_crypto (dh_world s)) (w_draws (dh_world s)) ta of
                              Inl e \<Rightarrow> (Inl (TokenRaised e), s)
                            | Inr (response, n) \<Rightarrow>
                                (Inr (minted_reply response), edit_world (\<lambda>w. w\<lparr>w_draws := n\<rparr>) s))))))"

definition tool_decode_token :: "'p handler" where
  \<comment> \<open>the text of the exception is that of a bad argument\<close>
  "tool_decode_token E now d s =
     (case need_text d ''token'' of
        Inl e \<Rightarrow> (Inl e, s)
      | Inr token \<Rightarrow>
          (Inr (case lib_jwt_peek (mx_lib E) token of
                  Some p \<Rightarrow> [(''success'', JBool True), (''claims'', JObj p)]
                | None \<Rightarrow> domain_error (''Failed to decode token: '' @ mx_text E (BadArgument token))), s))"

definition tool_verify_token :: "'p handler" where
  "tool_verify_token E now d s =
     (case (need_text d ''token'', get_text d ''audience'') of
        (Inr token, Inr audience) \<Rightarrow>
          (Inr (case verify_jwt (mx_lib E) now (w_crypto (dh_world s)) token (map_option (\<lambda>a. [a]) audience) of
                  Inr p \<Rightarrow> [(''valid'', JBool True), (''claims'', JObj p)]
                | Inl reason \<Rightarrow> [(''valid'', JBool False), (''reason'', JStr reason)]), s)
      | (Inl e, _) \<Rightarrow> (Inl e, s)
      | (_, Inl e) \<Rightarrow> (Inl e, s))"

subsection \<open>Discovery, audit log and keys\<close>

definition tool_get_oidc_discovery :: "'p handler" where
  "tool_get_oidc_discovery E now d s = (Inr (build_discovery_document (dash_settings s) None), s)"

definition tool_get_jwks :: "'p handler" where
  \<comment> \<open>each key as its id and its public half\<close>
  "tool_get_jwks E now d s =
     (Inr [(''keys'', JList (map (\<lambda>(kid, pem). JObj [(''kid'', JStr kid), (''pem'', JStr pem)])
        (jwks_keys (w_crypto (dh_world s)))))], s)"

definition tool_get_audit_log :: "'p handler" where
  "tool_get_audit_log E now d s =
     (case (argument d ''limit'' (JInt 100), get_text d ''event_type'', get_text d ''username'') of
        (JInt limit, Inr event_type, Inr username) \<Rightarrow>
          (let es = get_entries limit event_type username None (w_audit (dh_world s)) in
           (Inr [(''entries'', JList (map entry_json es)), (''count'', JInt (int (length es)))], s))
      | (JInt limit, Inl e, _) \<Rightarrow> (Inl e, s)
      | (JInt limit, _, Inl e) \<Rightarrow> (Inl e, s)
      | _ \<Rightarrow> (Inl (WrongType ''limit''), s))"

definition tool_get_audit_stats :: "'p handler" where
  "tool_get_audit_stats E now d s = (Inr (map (\<lambda>(k, n). (k, JInt n)) (al_stats (w_audit (dh_world s)))), s)"

definition tool_clear_audit_log :: "'p handler" where
  "tool_clear_audit_log E now d s =
     (Inr [(''success'', JBool True), (''message'', JStr ''Audit log cleared'')],
      edit_world (\<lambda>w. w\<lparr>w_audit := audit_clear (w_audit w)\<rparr>) s)"

definition tool_get_keys_info :: "'p handler" where
  "tool_get_keys_info E now d s =
     (let cr = w_crypto (dh_world s) in
      (Inr [(''active_kid'', JStr (cr_kid cr)), (''previous_keys_count'', JInt (int (length (cr_previous_keys cr)))),
            (''previous_kids'', jstrs (map ki_kid (cr_previous_keys cr))),
            (''max_previous_keys'', JInt (int (cr_max_previous_keys cr)))], s))"

definition mcp_entry :: "time \<Rightarrow> str \<Rightarrow> str option \<Rightarrow> str \<Rightarrow> str \<Rightarrow> str \<Rightarrow> doc \<Rightarrow> audit_entry" where
  "mcp_entry now event username endpoint verb outcome_text details =
     \<lparr>ae_timestamp = now, ae_event_type = event, ae_username = username, ae_client_id = None,
      ae_ip_address = ''unknown'', ae_user_agent = ''unknown'', ae_endpoint = endpoint, ae_method = verb,
      ae_status = outcome_text, ae_details = details\<rparr>"

definition tool_rotate_keys :: "'p handler" where
  "tool_rotate_keys E now d s =
     (let w = dh_world s; old_kid = cr_kid (w_crypto w);
          cr = rotate_keys (mx_lib E) now (w_draws w) (w_crypto w);
          event = mcp_entry now ''key_rotation'' (Some ''mcp'') ''mcp:rotate_keys'' ''MCP'' ''success''
            [(''old_kid'', JStr old_kid), (''new_kid'', JStr (cr_kid cr))]
      in (Inr [(''success'', JBool True), (''old_kid'', JStr old_kid), (''new_kid'', JStr (cr_kid cr)),
               (''previous_keys_count'', JInt (int (length (cr_previous_keys cr)))), (''rotated_at'', JInt now)],
          edit_world (\<lambda>w. w\<lparr>w_crypto := cr, w_draws := Suc (w_draws w), w_audit := log_entry event (w_audit w)\<rparr>) s))"

subsection \<open>Dispatch\<close>

definition mutating_tools :: "str list" where
  "mutating_tools =
     [''create_user'', ''create_persona_user'', ''update_user'', ''delete_user'', ''create_client'', ''update_client'',
      ''delete_client'', ''generate_token'', ''update_settings'', ''save_config'', ''clear_audit_log'', ''rotate_keys'']"

definition tool_handlers :: "(str, 'p handler) dict" where
  "tool_handlers =
     [(''list_users'', tool_list_users), (''get_user'', tool_get_user), (''create_user'', tool_create_user),
      (''create_persona_user'', tool_create_persona_user), (''delete_user'', tool_delete_user),
      (''update_user'', tool_update_user), (''generate_token'', tool_generate_token),
      (''decode_token'', tool_decode_token), (''verify_token'', tool_verify_token),
      (''list_clients'', tool_list_clients), (''get_client'', tool_get_client), (''create_client'', tool_create_client),
      (''update_client'', tool_update_client), (''delete_client'', tool_delete_client),
      (''get_settings'', tool_get_settings), (''reload_config'', tool_reload_config),
      (''validate_config'', tool_validate_config), (''update_settings'', tool_update_settings),
      (''save_config'', tool_save_config), (''get_oidc_discovery'', tool_get_oidc_discovery),
      (''get_jwks'', tool_get_jwks), (''get_audit_log'', tool_get_audit_log), (''get_audit_stats'', tool_get_audit_stats),
      (''clear_audit_log'', tool_clear_audit_log), (''get_keys_info'', tool_get_keys_info),
      (''rotate_keys'', tool_rotate_keys)]"

definition check_readonly_mode :: "'p mcp_env \<Rightarrow> str \<Rightarrow> str option" where
  \<comment> \<open>why the tool is refused\<close>
  "check_readonly_mode E name =
     (if mx_readonly E \<and> name \<in> set mutating_tools then
        Some (''Tool '' @ quoted name
          @ '' is disabled in readonly mode. Start without --readonly to enable mutating operations.'')
      else None)"

definition check_admin_secret :: "settings \<Rightarrow> str \<Rightarrow> doc \<Rightarrow> str option \<times> doc" where
  \<comment> \<open>why the tool is refused, and the arguments without the secret\<close>
  "check_admin_secret st name d =
     (let secret = s_management_secret st; provided = argument d ''admin_secret'' JNull in
      if \<not> opt_true secret \<or> name \<notin> set mutating_tools then (None, d)
      else
        (if \<not> json_true provided then
           Some (''A management secret is configured. Provide '' @ quoted ''admin_secret'' @ '' parameter for '' @ name @ ''.'')
         else if verify_secret (case provided of JStr t \<Rightarrow> Some t | _ \<Rightarrow> None) secret then None
         else Some ''Invalid admin_secret'',
         ddel ''admin_secret'' d))"

record tool_reply =
  tr_payload :: doc
  tr_is_error :: bool

definition log_mcp_tool :: "time \<Rightarrow> str \<Rightarrow> bool \<Rightarrow> doc \<Rightarrow> 'p dash \<Rightarrow> 'p dash" where
  "log_mcp_tool now name success details s =
     edit_world (\<lambda>w. w\<lparr>w_audit := log_entry
       (mcp_entry now ''mcp_tool'' None ''mcp'' name (if success then ''success'' else ''error'') details) (w_audit w)\<rparr>) s"

definition reject_call :: "time \<Rightarrow> str \<Rightarrow> str \<Rightarrow> str \<Rightarrow> 'p dash \<Rightarrow> tool_reply \<times> 'p dash" where
  "reject_call now name code message s =
     (\<lparr>tr_payload = [(''error'', JStr message), (''code'', JStr code), (''tool'', JStr name)], tr_is_error = True\<rparr>,
      log_mcp_tool now name False [(''error'', JStr code), (''tool'', JStr name)] s)"

definition tool_failed :: "doc \<Rightarrow> bool" where
  "tool_failed result \<longleftrightarrow> dget result ''success'' = Some (JBool False) \<or> dhas result ''error''"

definition execute_tool :: "'p mcp_env \<Rightarrow> time \<Rightarrow> str \<Rightarrow> doc \<Rightarrow> 'p dash \<Rightarrow> 'p tool_result" where
  "execute_tool E now name d s =
     (case dget tool_handlers name of
        None \<Rightarrow> (Inl (BadArgument (''Unknown tool: '' @ name)), s)
      | Some h \<Rightarrow> h E now d s)"

definition finish_call :: "'p mcp_env \<Rightarrow> time \<Rightarrow> str \<Rightarrow> 'p tool_result \<Rightarrow> tool_reply \<times> 'p dash" where
  \<comment> \<open>what follows the handler: the reply, or the \<open>except\<close> clause\<close>
  "finish_call E now name r =
     (case r of
        (Inr result, s) \<Rightarrow>
          (let details = (''tool'', JStr name) # (if tool_failed result then
             [(''error'', (let v = argument result ''error'' JNull in if json_true v then v else JStr ''tool reported failure''))]
             else [])
           in (\<lparr>tr_payload = result, tr_is_error = tool_failed result\<rparr>,
               log_mcp_tool now name (\<not> tool_failed result) details s))
      | (Inl e, s) \<Rightarrow>
          (\<lparr>tr_payload = [(''error'', JStr (mx_text E e)), (''code'', JStr ''MCP_INTERNAL_ERROR''), (''tool'', JStr name)],
             tr_is_error = True\<rparr>,
           log_mcp_tool now name False [(''error'', JStr (mx_text E e)), (''tool'', JStr name)] s))"

definition call_tool :: "'p mcp_env \<Rightarrow> time \<Rightarrow> str \<Rightarrow> doc \<Rightarrow> 'p dash \<Rightarrow> tool_reply \<times> 'p dash" where
  "call_tool E now name args s =
     (case check_readonly_mode E name of
        Some message \<Rightarrow> reject_call now name ''MCP_READONLY_MODE'' message s
      | None \<Rightarrow>
          (case check_admin_secret (dash_settings s) name args of
             (Some message, _) \<Rightarrow> reject_call now name ''MCP_ADMIN_SECRET_REQUIRED'' message s
           | (None, d) \<Rightarrow>
               (case dget tool_schemas name of
                  None \<Rightarrow> reject_call now name ''MCP_UNKNOWN_TOOL'' (''Unknown tool: '' @ name) s
                | Some sch \<Rightarrow>
                    (case mx_invalid E sch d of
                       Some message \<Rightarrow> reject_call now name ''MCP_INVALID_ARGUMENTS'' (''Input validation error: '' @ message) s
                     | None \<Rightarrow> finish_call E now name (execute_tool E now name d s)))))"

end
