(* ===== verification/Mcp_Properties.thy ===== *)
theory Mcp_Properties
  imports Mcp_Server Manager_Properties Ui_Form_Properties
begin

text \<open>
  What the guards, the dispatch and the handlers of the MCP server give: who may change something, that
  every call is on record, and what a failed call leaves behind.
\<close>

subsection \<open>What each tool touches\<close>

lemma with_manager_simps [simp]:
  "dh_manager (with_manager ms s) = fst ms" "dh_disk (with_manager ms s) = snd ms"
  "dh_world (with_manager ms s) = (dh_world s)\<lparr>w_config := cm_config (fst ms)\<rparr>"
  by (simp_all add: with_manager_def)

lemma edit_world_simps [simp]:
  "dh_manager (edit_world f s) = dh_manager s" "dh_disk (edit_world f s) = dh_disk s" "dh_world (edit_world f s) = f (dh_world s)"
  by (simp_all add: edit_world_def)

lemma edit_config_simps [simp]:
  "dh_disk (edit_config f s) = dh_disk s"
  "dh_manager (edit_config f s) = (dh_manager s)\<lparr>cm_config := f (dash_config s)\<rparr>"
  "dh_world (edit_config f s) = (dh_world s)\<lparr>w_config := f (dash_config s)\<rparr>"
  by (simp_all add: edit_config_def)

lemma edit_settings_simps [simp]:
  "dh_disk (edit_settings g s) = dh_disk s"
  "w_audit (dh_world (edit_settings g s)) = w_audit (dh_world s)"
  by (simp_all add: edit_settings_def)

lemma put_user_audit [simp]: "w_audit (dh_world (put_user n u s)) = w_audit (dh_world s)"
  by (simp add: put_user_def)

lemma put_client_audit [simp]: "w_audit (dh_world (put_client i c s)) = w_audit (dh_world s)"
  by (simp add: put_client_def)

lemma log_tool_simps [simp]:
  "dh_manager (log_mcp_tool now n b d s) = dh_manager s" "dh_disk (log_mcp_tool now n b d s) = dh_disk s"
  "w_config (dh_world (log_mcp_tool now n b d s)) = w_config (dh_world s)"
  by (simp_all add: log_mcp_tool_def)

lemmas reader_defs =
  tool_list_users_def tool_get_user_def tool_decode_token_def tool_verify_token_def tool_list_clients_def
  tool_get_client_def tool_get_settings_def tool_validate_config_def tool_get_oidc_discovery_def tool_get_jwks_def
  tool_get_audit_log_def tool_get_audit_stats_def tool_get_keys_info_def

lemma readers_keep [simp]:
  "snd (tool_list_users E now d s) = s" "snd (tool_get_user E now d s) = s" "snd (tool_decode_token E now d s) = s"
  "snd (tool_verify_token E now d s) = s" "snd (tool_list_clients E now d s) = s" "snd (tool_get_client E now d s) = s"
  "snd (tool_get_settings E now d s) = s" "snd (tool_validate_config E now d s) = s"
  "snd (tool_get_oidc_discovery E now d s) = s" "snd (tool_get_jwks E now d s) = s" "snd (tool_get_audit_log E now d s) = s"
  "snd (tool_get_audit_stats E now d s) = s" "snd (tool_get_keys_info E now d s) = s"
  by (simp_all add: reader_defs Let_def split: sum.split option.split json.split)

lemma known_tool:
  assumes "dget tool_handlers name = Some h"
  obtains
    "h \<in> {tool_list_users, tool_get_user, tool_decode_token, tool_verify_token, tool_list_clients, tool_get_client,
      tool_get_settings, tool_validate_config, tool_get_oidc_discovery, tool_get_jwks, tool_get_audit_log,
      tool_get_audit_stats, tool_get_keys_info}" "name \<notin> set mutating_tools"
  | "h \<in> {tool_create_user, tool_create_persona_user, tool_update_user, tool_delete_user, tool_create_client,
      tool_delete_client, tool_generate_token}" "name \<in> set mutating_tools"
  | "h = tool_update_client" "name = ''update_client''"
  | "h = tool_update_settings" "name = ''update_settings''"
  | "h = tool_save_config" "name = ''save_config''"
  | "h = tool_clear_audit_log" "name = ''clear_audit_log''"
  | "h = tool_rotate_keys" "name = ''rotate_keys''"
  | "h = tool_reload_config" "name = ''reload_config''"
  using assms that by (auto simp: tool_handlers_def mutating_tools_def dget_Cons dget_Nil split: if_splits)

lemma writers_audit [simp]:
  "w_audit (dh_world (snd (tool_create_user E now d s))) = w_audit (dh_world s)"
  "w_audit (dh_world (snd (tool_create_persona_user E now d s))) = w_audit (dh_world s)"
  "w_audit (dh_world (snd (tool_update_user E now d s))) = w_audit (dh_world s)"
  "w_audit (dh_world (snd (tool_delete_user E now d s))) = w_audit (dh_world s)"
  "w_audit (dh_world (snd (tool_create_client E now d s))) = w_audit (dh_world s)"
  "w_audit (dh_world (snd (tool_update_client E now d s))) = w_audit (dh_world s)"
  "w_audit (dh_world (snd (tool_delete_client E now d s))) = w_audit (dh_world s)"
  "w_audit (dh_world (snd (tool_generate_token E now d s))) = w_audit (dh_world s)"
  "w_audit (dh_world (snd (tool_update_settings E now d s))) = w_audit (dh_world s)"
  "w_audit (dh_world (snd (tool_save_config E now d s))) = w_audit (dh_world s)"
  "w_audit (dh_world (snd (tool_reload_config E now d s))) = w_audit (dh_world s)"
  by (simp_all add: tool_create_user_def tool_create_persona_user_def add_user_def tool_update_user_def
      tool_delete_user_def tool_create_client_def tool_update_client_def tool_delete_client_def tool_generate_token_def
      tool_update_settings_def tool_save_config_def tool_reload_config_def Let_def
      split: sum.split option.split prod.split bool.split manager_error.split)

lemma execute_audit:
  "w_audit (dh_world (snd (execute_tool E now name d s))) = w_audit (dh_world s)
    \<or> name = ''clear_audit_log'' \<or> name = ''rotate_keys''"
proof (cases "dget tool_handlers name :: 'a handler option")
  case None
  then show ?thesis by (simp add: execute_tool_def)
next
  case (Some h)
  from Some show ?thesis by (cases rule: known_tool) (insert Some, auto simp: execute_tool_def)
qed

lemma execute_reader:
  assumes "name \<notin> set mutating_tools" "name \<noteq> ''reload_config''"
  shows "snd (execute_tool E now name d s) = s"
proof (cases "dget tool_handlers name :: 'a handler option")
  case None
  then show ?thesis by (simp add: execute_tool_def)
next
  case (Some h)
  from Some show ?thesis
    by (cases rule: known_tool) (use assms Some in \<open>auto simp: execute_tool_def mutating_tools_def\<close>)
qed

subsection \<open>The guards\<close>

definition recorded :: "str \<Rightarrow> bool \<Rightarrow> audit_entry \<Rightarrow> bool" where
  "recorded name failed e \<longleftrightarrow> ae_event_type e = ''mcp_tool'' \<and> ae_endpoint e = ''mcp'' \<and> ae_method e = name
     \<and> ae_status e = (if failed then ''error'' else ''success'')"

lemma log_recorded:
  "\<exists>e. recorded name (\<not> b) e
    \<and> log_mcp_tool now name b d s = s\<lparr>dh_world := (dh_world s)\<lparr>w_audit := log_entry e (w_audit (dh_world s))\<rparr>\<rparr>"
  by (rule exI [of _ "mcp_entry now ''mcp_tool'' None ''mcp'' name (if b then ''success'' else ''error'') d"])
     (simp add: recorded_def mcp_entry_def log_mcp_tool_def edit_world_def)

lemma reject_recorded:
  "\<exists>e. recorded name True e \<and> tr_is_error (fst (reject_call now name code message s))
    \<and> snd (reject_call now name code message s) = s\<lparr>dh_world := (dh_world s)\<lparr>w_audit := log_entry e (w_audit (dh_world s))\<rparr>\<rparr>"
  using log_recorded [of name False now "[(''error'', JStr code), (''tool'', JStr name)]" s] by (auto simp: reject_call_def)

lemma finish_recorded:
  "\<exists>e. recorded name (tr_is_error (fst (finish_call E now name (r, s)))) e
    \<and> snd (finish_call E now name (r, s)) = s\<lparr>dh_world := (dh_world s)\<lparr>w_audit := log_entry e (w_audit (dh_world s))\<rparr>\<rparr>"
proof (cases r)
  case (Inl x)
  then show ?thesis using log_recorded [of name False] by (simp add: finish_call_def)
next
  case (Inr result)
  then show ?thesis
    by (simp add: finish_call_def Let_def log_recorded [of name True, simplified] log_recorded [of name False, simplified])
qed

lemma call_cases:
  obtains code message where "call_tool E now name args s = reject_call now name code message s"
  | d sch where "check_readonly_mode E name = None" "check_admin_secret (dash_settings s) name args = (None, d)"
    "dget tool_schemas name = Some sch" "mx_invalid E sch d = None"
    "call_tool E now name args s = finish_call E now name (execute_tool E now name d s)"
  by (cases "check_readonly_mode E name"; cases "check_admin_secret (dash_settings s) name args";
      cases "fst (check_admin_secret (dash_settings s) name args)"; cases "dget tool_schemas name";
      cases "mx_invalid E (the (dget tool_schemas name)) (snd (check_admin_secret (dash_settings s) name args))")
     (auto simp: call_tool_def)

lemma secret_missing:
  assumes "opt_true (s_management_secret st)" "name \<in> set mutating_tools"
    and "dget args ''admin_secret'' \<noteq> Some (JStr (the (s_management_secret st)))"
  shows "fst (check_admin_secret st name args) \<noteq> None"
  using assms by (auto simp: check_admin_secret_def Let_def verify_secret_iff argument_def opt_true_def split: option.splits json.splits)

text \<open>
  C31. In read-only mode, or when a management secret is set and the arguments do not carry it, no call
  of a tool changes anything but the audit log, which gains one entry: not the configuration in memory,
  not the files, not the keys and not the random state. A mutating tool is moreover answered with an
  error, in the reply and in the entry. The one exception is \<open>reload_config\<close>, which no guard covers.
\<close>

theorem a_guarded_server_changes_nothing:
  assumes call: "call_tool E now name args s = (r, s')"
    and "mx_readonly E \<or> (opt_true (s_management_secret (dash_settings s))
      \<and> dget args ''admin_secret'' \<noteq> Some (JStr (the (s_management_secret (dash_settings s)))))"
    and "name \<noteq> ''reload_config''"
  shows "\<exists>e. recorded name (tr_is_error r) e \<and> (name \<in> set mutating_tools \<longrightarrow> tr_is_error r)
    \<and> s' = s\<lparr>dh_world := (dh_world s)\<lparr>w_audit := log_entry e (w_audit (dh_world s))\<rparr>\<rparr>"
proof (cases rule: call_cases [of E now name args s])
  case (1 code message)
  with call have "reject_call now name code message s = (r, s')" by simp
  then show ?thesis using reject_recorded [of name now code message s] by auto
next
  case (2 d sch)
  have reader: "name \<notin> set mutating_tools"
    using 2(1,2) assms(2) secret_missing by (fastforce simp: check_readonly_mode_def split: if_splits)
  then obtain r0 where "execute_tool E now name d s = (r0, s)"
    using execute_reader [OF reader assms(3)] by (metis prod.collapse)
  with 2(5) call have "finish_call E now name (r0, s) = (r, s')" by simp
  with finish_recorded [of name E now r0 s] reader show ?thesis by auto
qed

definition sample_mcp :: "bool \<Rightarrow> unit mcp_env" where
  "sample_mcp readonly = \<lparr>mx_lib = sample_lib, mx_menv = sample_menv, mx_readonly = readonly, mx_is_dir = True,
     mx_invalid = (\<lambda>sch d. if conforms sch d then None else Some ''not valid''), mx_text = (\<lambda>_. ''error''),
     mx_save_text = (\<lambda>_. ''error''), mx_hook_text = (\<lambda>_. ''error''), mx_cause_text = (\<lambda>_. ''error'')\<rparr>"

lemma a_guarded_server_changes_nothing_witness:
  "dh_manager (snd (call_tool (sample_mcp True) 0 ''delete_user'' [(''username'', JStr ''alice'')] sample_dash)) = sample_manager"
proof -
  obtain r s' where call: "call_tool (sample_mcp True) 0 ''delete_user'' [(''username'', JStr ''alice'')] sample_dash = (r, s')"
    by fastforce
  have "mx_readonly (sample_mcp True)" by (simp add: sample_mcp_def)
  with a_guarded_server_changes_nothing [OF call] have "dh_manager s' = dh_manager sample_dash" by fastforce
  with call show ?thesis by (simp add: sample_dash_def)
qed

text \<open>
  Every call is on record: the last thing a call does is to append one entry with the name of the
  tool to the audit log, whose status is an error exactly when the reply is flagged as one. Before it,
  only \<open>clear_audit_log\<close> and \<open>rotate_keys\<close> touch the log.
\<close>

theorem every_call_is_recorded:
  "\<exists>al e. w_audit (dh_world (snd (call_tool E now name args s))) = log_entry e al
    \<and> recorded name (tr_is_error (fst (call_tool E now name args s))) e
    \<and> (al = w_audit (dh_world s) \<or> name = ''clear_audit_log'' \<or> name = ''rotate_keys'')"
proof (cases rule: call_cases [of E now name args s])
  case (1 code message)
  then show ?thesis using reject_recorded [of name now code message s] by fastforce
next
  case (2 d sch)
  obtain r0 s0 where run: "execute_tool E now name d s = (r0, s0)" by fastforce
  with execute_audit [of E now name d s] have "w_audit (dh_world s0) = w_audit (dh_world s) \<or> name = ''clear_audit_log'' \<or> name = ''rotate_keys''"
    by simp
  moreover obtain e where "recorded name (tr_is_error (fst (finish_call E now name (r0, s0)))) e"
    "snd (finish_call E now name (r0, s0)) = s0\<lparr>dh_world := (dh_world s0)\<lparr>w_audit := log_entry e (w_audit (dh_world s0))\<rparr>\<rparr>"
    using finish_recorded by blast
  ultimately show ?thesis unfolding 2(5) run by auto
qed

end
