(* ===== verification/Mcp_Updates.thy ===== *)
theory Mcp_Updates
  imports Mcp_Properties
begin

text \<open>
  What a failed call of an MCP tool leaves behind: for arguments that their schema allows, every tool that
  edits the configuration in memory either succeeds or changes nothing, with one exception in
  \<open>update_client\<close>; and the conflict check of \<open>save_config\<close>.
\<close>

subsection \<open>Arguments that conform\<close>

lemma of_shape_iffs [simp]:
  "of_shape Text v \<longleftrightarrow> (\<exists>t. v = JStr t)"
  "of_shape (TextMax n) v \<longleftrightarrow> (\<exists>t. v = JStr t \<and> length t \<le> n)"
  "of_shape (TextOf xs) v \<longleftrightarrow> (\<exists>t. v = JStr t \<and> t \<in> set xs)"
  "of_shape Flag v \<longleftrightarrow> (\<exists>b. v = JBool b)"
  "of_shape Texts v \<longleftrightarrow> (\<exists>xs. v = JList xs \<and> list_all json_is_str xs)"
  "of_shape Object v \<longleftrightarrow> (\<exists>d. v = JObj d)"
  "of_shape Whole v \<longleftrightarrow> (\<exists>i. v = JInt i) \<or> (\<exists>m e. v = JDec m e \<and> m mod 10 ^ e = 0)"
  by (cases v; simp)+

lemma conforms_shape:
  "conforms sch d \<Longrightarrow> (k, sh) \<in> set (ts_properties sch) \<Longrightarrow> dget d k = Some v \<Longrightarrow> of_shape sh v"
  by (fastforce simp: conforms_def list_all_iff)

lemma conforms_required: "conforms sch d \<Longrightarrow> k \<in> set (ts_required sch) \<Longrightarrow> dget d k \<noteq> None"
  by (auto simp: conforms_def list_all_iff dhas_def)

subsection \<open>Settings\<close>

lemma put_settings_total:
  assumes "\<forall>k \<in> set ks. \<forall>v. dget d k = Some v \<longrightarrow> (\<exists>w put. dget setting_writers k = Some w \<and> w v = Inr put)"
  shows "\<exists>updated' st'. put_settings ks d st updated = (Inr updated', st')"
  using assms by (induction ks arbitrary: st updated) (fastforce split: option.split)+

definition writable :: "str \<Rightarrow> shape \<Rightarrow> bool" where
  \<comment> \<open>the writer of the field takes every value of the shape\<close>
  "writable k sh \<longleftrightarrow> (\<forall>v. of_shape sh v \<longrightarrow> (\<exists>w put. dget setting_writers k = Some w \<and> w v = Inr put))"

lemma settings_writable: "list_all (\<lambda>(k, sh). writable k sh) (ts_properties schema_update_settings)"
  unfolding schema_update_settings_def
  by (simp add: writable_def setting_writers_def dget_Cons set_value_def text_value_def bool_value_def whole_value_def
      normalize_str_list_def split: json.split)

lemma settings_fields: "\<forall>k \<in> set update_settings_fields. \<exists>sh. (k, sh) \<in> set (ts_properties schema_update_settings)"
  by (simp add: update_settings_fields_def schema_update_settings_def)

lemma update_settings_total:
  assumes "conforms schema_update_settings d"
  shows "\<exists>updated' st'. put_settings update_settings_fields d st updated = (Inr updated', st')"
proof (rule put_settings_total, intro ballI allI impI)
  fix k v
  assume "k \<in> set update_settings_fields" and v: "dget d k = Some v"
  then obtain sh where sh: "(k, sh) \<in> set (ts_properties schema_update_settings)" using settings_fields by blast
  from conforms_shape [OF assms this v] have "of_shape sh v" .
  moreover have "writable k sh" using settings_writable sh by (auto simp: list_all_iff)
  ultimately show "\<exists>w put. dget setting_writers k = Some w \<and> w v = Inr put" by (simp add: writable_def)
qed

subsection \<open>Assignments to a client\<close>

lemma assign_all_append:
  "assign_all (xs @ ys) c = (case assign_all xs c of (ok, c') \<Rightarrow> if ok then assign_all ys c' else (False, c'))"
  by (induction xs arbitrary: c) (simp_all split: option.split)

definition safe :: "assignment \<Rightarrow> bool" where
  \<comment> \<open>never fails on a valid client\<close>
  "safe a \<longleftrightarrow> (\<forall>c. valid_client c \<longrightarrow> (\<exists>c'. a c = Some c' \<and> valid_client c'))"

lemma assign_all_safe:
  "list_all safe as \<Longrightarrow> valid_client c \<Longrightarrow> \<exists>c'. assign_all as c = (True, c') \<and> valid_client c'"
  by (induction as arbitrary: c) (fastforce simp: safe_def)+

lemma when_given_safe: "(\<And>v. dget d k = Some v \<Longrightarrow> safe (f v)) \<Longrightarrow> list_all safe (when_given d k f)"
  by (simp add: when_given_def split: option.split)

lemma when_some_safe: "(\<And>v. x = Some v \<Longrightarrow> safe (set_field put v)) \<Longrightarrow> list_all safe (when_some x put)"
  by (simp add: when_some_def split: option.split)

lemma set_field_safe: "(\<And>c. valid_client c \<Longrightarrow> valid_client (put v c)) \<Longrightarrow> safe (set_field put v)"
  by (simp add: safe_def set_field_def)

lemma assign_safe: "conv v = Inr x \<Longrightarrow> (\<And>c. valid_client c \<Longrightarrow> valid_client (put x c)) \<Longrightarrow> safe (assign conv v put)"
  by (simp add: safe_def assign_def)

lemma normalized_parts:
  assumes "normalized_update d = Inr u"
  shows "if_given d ''layout'' normalize_layout = Inr (cu_layout u)"
    "if_given d ''background_color'' (\<lambda>v. normalize_hex_color v ''background_color'') = Inr (cu_background u)"
    "if_given d ''header_color'' (\<lambda>v. normalize_hex_color v ''header_color'') = Inr (cu_header u)"
    "if_given d ''footer_color'' (\<lambda>v. normalize_hex_color v ''footer_color'') = Inr (cu_footer u)"
    "if_given d ''token_endpoint_auth_method'' normalize_auth_method = Inr (cu_auth_method u)"
  using assms by (auto simp: normalized_update_def andthen_Inr)

lemma if_given_some: "if_given d k f = Inr (Some x) \<Longrightarrow> \<exists>v. dget d k = Some v \<and> f v = Inr x"
  by (auto simp: if_given_def split: option.splits sum.splits)

definition no_newline :: "doc \<Rightarrow> str \<Rightarrow> bool" where
  "no_newline d k \<longleftrightarrow> (\<forall>t. dget d k = Some (JStr t) \<longrightarrow> t = [] \<or> last t \<noteq> CHR 0x0A)"

lemma colour_exact:
  assumes "if_given d k (\<lambda>v. normalize_hex_color v k) = Inr (Some x)" and "no_newline d k"
  shows "pred_option is_hex_color x"
proof -
  obtain v where v: "dget d k = Some v" "normalize_hex_color v k = Inr x" using if_given_some [OF assms(1)] by blast
  with assms(2) show ?thesis
    by (auto simp: normalize_hex_color_def re_hex_color_def no_newline_def split: if_splits json.splits)
qed

lemma one_of_in: "one_of name values v = Inr x \<Longrightarrow> x \<in> set values"
  by (auto simp: one_of_def split: json.splits if_splits)

definition secret_enough :: "doc \<Rightarrow> oauth_client \<Rightarrow> str \<Rightarrow> bool" where
  \<comment> \<open>the check before the first assignment\<close>
  "secret_enough d c m \<longleftrightarrow> m = ''none'' \<or> json_true (effective_client_secret d c)"

lemma secret_assignments_safe:
  assumes c: "valid_client c" and enough: "secret_enough d c m"
    and m: "m = (case cu_auth_method u of Some m' \<Rightarrow> m' | None \<Rightarrow> auth_method_str (cl_auth_method c))"
    and secret: "\<And>v. dget d ''client_secret'' = Some v \<Longrightarrow> \<exists>t. v = JStr t"
  shows "\<exists>c'. assign_all (secret_assignments d u m) c = (True, c') \<and> valid_client c'"
proof (cases "m = ''none''")
  case True
  then have "cu_auth_method u = None \<Longrightarrow> cl_auth_method c = AuthNone"
    using m by (cases "cl_auth_method c") simp_all
  with True m c show ?thesis
    by (cases "cu_auth_method u")
      (simp_all add: secret_assignments_def when_some_def set_field_def set_method_def valid_client_def client_has_needed_secret_def)
next
  case False
  show ?thesis
  proof (cases "dget d ''client_secret''")
    case None
    then have "opt_true (cl_client_secret c)" using enough False
      by (cases "cl_client_secret c") (simp_all add: secret_enough_def effective_client_secret_def jopt_def)
    with None False c show ?thesis
      by (cases "cu_auth_method u")
        (simp_all add: secret_assignments_def when_some_def when_given_def set_field_def set_method_def valid_client_def
          client_has_needed_secret_def)
  next
    case (Some v)
    with secret obtain t where t: "v = JStr t" by blast
    then have "t \<noteq> []" using enough False Some
      by (auto simp: secret_enough_def effective_client_secret_def json_or_none_def split: if_splits)
    with Some t False c show ?thesis
      by (cases "cu_auth_method u")
        (simp_all add: secret_assignments_def when_some_def when_given_def set_field_def set_method_def valid_client_def
          client_has_needed_secret_def assign_def json_or_none_def opt_true_def)
  qed
qed

definition bools_are_bools :: "pydantic \<Rightarrow> bool" where
  "bools_are_bools V \<longleftrightarrow> (\<forall>b. pd_bool V (JBool b) = Some b)"

lemma update_client_shapes:
  assumes "conforms schema_update_client d"
  shows "dget d ''description'' = Some v \<Longrightarrow> \<exists>t. v = JStr t" "dget d ''client_secret'' = Some v \<Longrightarrow> \<exists>t. v = JStr t"
    "dget d ''show_client_id'' = Some v \<Longrightarrow> \<exists>b. v = JBool b" "dget d ''show_description'' = Some v \<Longrightarrow> \<exists>b. v = JBool b"
  using conforms_shape [OF assms, of "''description''" Text v] conforms_shape [OF assms, of "''client_secret''" Text v]
    conforms_shape [OF assms, of "''show_client_id''" Flag v] conforms_shape [OF assms, of "''show_description''" Flag v]
  by (simp_all add: schema_update_client_def)

lemma client_assignments_total:
  assumes d: "conforms schema_update_client d" and V: "bools_are_bools V" and u: "normalized_update d = Inr u"
    and colours: "no_newline d ''background_color''" "no_newline d ''header_color''" "no_newline d ''footer_color''"
    and c: "valid_client c" and enough: "secret_enough d c m"
    and m: "m = (case cu_auth_method u of Some m' \<Rightarrow> m' | None \<Rightarrow> auth_method_str (cl_auth_method c))"
  shows "\<exists>c'. assign_all (client_assignments V d u m) c = (True, c')"
proof -
  note shape = update_client_shapes [OF d] and parts = normalized_parts [OF u]
  note field_simps = valid_client_def client_has_needed_secret_def
  have description: "list_all safe (when_given d ''description'' (\<lambda>v. assign as_str v (\<lambda>x c. c\<lparr>cl_description := x\<rparr>)))"
    by (rule when_given_safe, drule shape(1)) (auto intro!: assign_safe simp: field_simps)
  have bools: "of_opt (pd_bool V) (JBool b) = Inr b" for b using V by (simp add: of_opt_def bools_are_bools_def)
  have flag_id: "list_all safe (when_given d ''show_client_id'' (\<lambda>v. assign (of_opt (pd_bool V)) v (\<lambda>x c. c\<lparr>cl_show_client_id := x\<rparr>)))"
    by (rule when_given_safe, drule shape(3)) (auto intro!: assign_safe bools simp: field_simps)
  have flag_description: "list_all safe (when_given d ''show_description'' (\<lambda>v. assign (of_opt (pd_bool V)) v (\<lambda>x c. c\<lparr>cl_show_description := x\<rparr>)))"
    by (rule when_given_safe, drule shape(4)) (auto intro!: assign_safe bools simp: field_simps)
  have background: "list_all safe (when_some (cu_background u) (\<lambda>x c. c\<lparr>cl_background_color := x\<rparr>))"
    using colour_exact parts(2) colours(1) by (intro when_some_safe set_field_safe) (auto simp: field_simps)
  have header: "list_all safe (when_some (cu_header u) (\<lambda>x c. c\<lparr>cl_header_color := x\<rparr>))"
    using colour_exact parts(3) colours(2) by (intro when_some_safe set_field_safe) (auto simp: field_simps)
  have footer: "list_all safe (when_some (cu_footer u) (\<lambda>x c. c\<lparr>cl_footer_color := x\<rparr>))"
    using colour_exact parts(4) colours(3) by (intro when_some_safe set_field_safe) (auto simp: field_simps)
  have layout: "list_all safe (when_some (cu_layout u) (\<lambda>x c. c\<lparr>cl_layout := x\<rparr>))"
    using if_given_some [of d "''layout''" normalize_layout] one_of_in parts(1)
    by (intro when_some_safe set_field_safe) (fastforce simp: field_simps normalize_layout_def layouts_def)
  have lists: "list_all safe (when_some (cu_audiences u) (\<lambda>x c. c\<lparr>cl_additional_audiences := x\<rparr>))"
    "list_all safe (when_some (cu_redirect_uris u) (\<lambda>x c. c\<lparr>cl_redirect_uris := x\<rparr>))"
    "list_all safe (when_some (cu_scopes u) (\<lambda>x c. c\<lparr>cl_allowed_scopes := x\<rparr>))"
    "list_all safe (when_some (cu_resources u) (\<lambda>x c. c\<lparr>cl_allowed_resources := x\<rparr>))"
    by (intro when_some_safe set_field_safe; simp add: field_simps)+
  obtain c1 where first: "assign_all (secret_assignments d u m) c = (True, c1)" "valid_client c1"
    using secret_assignments_safe [OF c enough m shape(2)] by blast
  have "list_all safe (drop (length (secret_assignments d u m)) (client_assignments V d u m))"
    unfolding client_assignments_def using description flag_id flag_description background header footer layout lists by simp
  then obtain c2 where "assign_all (drop (length (secret_assignments d u m)) (client_assignments V d u m)) c1 = (True, c2)"
    using assign_all_safe first(2) by blast
  with first(1) show ?thesis unfolding client_assignments_def by (simp add: assign_all_append)
qed

subsection \<open>Failed calls\<close>

definition failed_result :: "tool_exn + doc \<Rightarrow> bool" where
  "failed_result r = (case r of Inl e \<Rightarrow> True | Inr result \<Rightarrow> tool_failed result)"

definition same_config :: "'p dash \<Rightarrow> 'p dash \<Rightarrow> bool" where
  "same_config s s' \<longleftrightarrow> dh_manager s' = dh_manager s \<and> dh_disk s' = dh_disk s \<and> w_config (dh_world s') = w_config (dh_world s)"

lemma same_config_refl [simp]: "same_config s s"
  by (simp add: same_config_def)

lemma not_failed [simp]: "\<not> tool_failed ((''success'', JBool True) # r)" if "\<not> dhas r ''error''" for r
  using that by (simp add: tool_failed_def dhas_def dget_Cons)

lemma dhas_pair [simp]: "dhas ((k', v) # d) k \<longleftrightarrow> k = k' \<or> dhas d k" "\<not> dhas [] k"
  by (simp_all add: dhas_def dget_Cons)

lemma failing_edits:
  "failed_result (fst (tool_create_user E now d s)) \<Longrightarrow> snd (tool_create_user E now d s) = s"
  "failed_result (fst (tool_create_persona_user E now d s)) \<Longrightarrow> snd (tool_create_persona_user E now d s) = s"
  "failed_result (fst (tool_update_user E now d s)) \<Longrightarrow> snd (tool_update_user E now d s) = s"
  "failed_result (fst (tool_delete_user E now d s)) \<Longrightarrow> snd (tool_delete_user E now d s) = s"
  "failed_result (fst (tool_create_client E now d s)) \<Longrightarrow> snd (tool_create_client E now d s) = s"
  "failed_result (fst (tool_delete_client E now d s)) \<Longrightarrow> snd (tool_delete_client E now d s) = s"
  by (auto simp: failed_result_def tool_create_user_def tool_create_persona_user_def add_user_def tool_update_user_def
      tool_delete_user_def tool_create_client_def tool_delete_client_def Let_def split: sum.splits option.splits if_splits)

lemma harmless_tools:
  "same_config s (snd (tool_generate_token E now d s))" "same_config s (snd (tool_clear_audit_log E now d s))"
  "same_config s (snd (tool_rotate_keys E now d s))"
  by (simp_all add: same_config_def tool_generate_token_def tool_clear_audit_log_def tool_rotate_keys_def Let_def
      split: sum.split option.split prod.split)

lemma failing_settings:
  assumes "conforms schema_update_settings d"
  shows "\<not> failed_result (fst (tool_update_settings E now d s))"
proof -
  obtain up st where "put_settings update_settings_fields d (dash_settings s) [] = (Inr up, st)"
    using update_settings_total [OF assms] by blast
  then show ?thesis by (simp add: tool_update_settings_def failed_result_def)
qed

lemma failing_client_update:
  assumes d: "conforms schema_update_client d" and V: "bools_are_bools (me_pydantic (mx_menv E))"
    and clients: "list_all valid_client (s_clients (dash_settings s))"
    and colours: "no_newline d ''background_color''" "no_newline d ''header_color''" "no_newline d ''footer_color''"
    and failed: "failed_result (fst (tool_update_client E now d s))"
  shows "snd (tool_update_client E now d s) = s"
proof (cases "need_text d ''client_id''")
  case (Inl e)
  then show ?thesis by (simp add: tool_update_client_def)
next
  case id: (Inr i)
  show ?thesis
  proof (cases "get_client (dash_config s) i")
    case None
    with id show ?thesis by (simp add: tool_update_client_def)
  next
    case (Some c)
    then have valid: "valid_client c" using clients get_client_in by (fastforce simp: list_all_iff dash_settings_def)
    show ?thesis
    proof (cases "normalized_update d")
      case (Inl e)
      with id Some show ?thesis by (simp add: tool_update_client_def)
    next
      case u: (Inr u)
      let ?m = "case cu_auth_method u of Some m' \<Rightarrow> m' | None \<Rightarrow> auth_method_str (cl_auth_method c)"
      show ?thesis
      proof (cases "secret_enough d c ?m")
        case False
        with id Some u show ?thesis by (simp add: tool_update_client_def secret_enough_def Let_def)
      next
        case True
        obtain c' where "assign_all (client_assignments (me_pydantic (mx_menv E)) d u ?m) c = (True, c')"
          using client_assignments_total [OF d V u colours valid True refl] by blast
        with id Some u True failed show ?thesis
          by (simp add: tool_update_client_def secret_enough_def Let_def failed_result_def split: if_splits)
      qed
    qed
  qed
qed

lemma tool_schema_of:
  "dget tool_schemas ''update_settings'' = Some schema_update_settings"
  "dget tool_schemas ''update_client'' = Some schema_update_client"
  "dget tool_schemas ''delete_user'' = Some schema_delete_user"
  by (simp_all add: tool_schemas_def dget_Cons)

lemma edits_by_name:
  "dget tool_handlers ''update_settings'' = Some tool_update_settings" "dget tool_handlers ''update_client'' = Some tool_update_client"
  "dget tool_handlers ''delete_user'' = Some tool_delete_user"
  by (simp_all add: tool_handlers_def dget_Cons)

lemma admin_secret_dropped:
  "check_admin_secret st name args = (None, d) \<Longrightarrow> k \<noteq> ''admin_secret'' \<Longrightarrow> dget d k = dget args k"
  by (auto simp: check_admin_secret_def Let_def split: if_splits)

lemma failing_execution:
  assumes failed: "failed_result (fst (execute_tool E now name d s))"
    and others: "name \<noteq> ''save_config''" "name \<noteq> ''reload_config''"
    and d: "\<And>sch. dget tool_schemas name = Some sch \<Longrightarrow> conforms sch d" and V: "bools_are_bools (me_pydantic (mx_menv E))"
    and clients: "list_all valid_client (s_clients (dash_settings s))"
    and colours: "name = ''update_client'' \<Longrightarrow>
      no_newline d ''background_color'' \<and> no_newline d ''header_color'' \<and> no_newline d ''footer_color''"
  shows "same_config s (snd (execute_tool E now name d s))"
proof (cases "dget tool_handlers name :: 'a handler option")
  case None
  then show ?thesis by (simp add: execute_tool_def)
next
  case (Some h)
  then have run: "execute_tool E now name d s = h E now d s" by (simp add: execute_tool_def)
  from Some show ?thesis
  proof (cases rule: known_tool)
    case 1
    then show ?thesis unfolding run by auto
  next
    case 2
    have "snd (h E now d s) = s" if "h \<noteq> tool_generate_token"
      using 2 that failed failing_edits [of E now d s] unfolding run by auto
    then show ?thesis unfolding run using harmless_tools(1) by (cases "h = tool_generate_token") simp_all
  next
    case 3
    with d tool_schema_of have "conforms schema_update_client d" by blast
    with failing_client_update [OF this V clients] colours failed 3 run show ?thesis by simp
  next
    case 4
    with d tool_schema_of have "conforms schema_update_settings d" by blast
    with failing_settings [of d E now s] failed 4 run show ?thesis by simp
  next
    case 5
    with others show ?thesis by simp
  next
    case 6
    then show ?thesis unfolding run using harmless_tools by simp
  next
    case 7
    then show ?thesis unfolding run using harmless_tools by simp
  next
    case 8
    with others show ?thesis by simp
  qed
qed

lemma finish_failed: "tr_is_error (fst (finish_call E now name (r, s))) \<longleftrightarrow> failed_result r"
  by (cases r) (simp_all add: finish_call_def failed_result_def Let_def)

lemma log_same_config: "s' = s0\<lparr>dh_world := (dh_world s0)\<lparr>w_audit := al\<rparr>\<rparr> \<Longrightarrow> same_config s s0 \<Longrightarrow> same_config s s'"
  by (simp add: same_config_def)

lemma failed_call_elsewhere:
  assumes call: "call_tool E now name args s = (r, s')" and failed: "tr_is_error r"
    and others: "name \<noteq> ''save_config''" "name \<noteq> ''reload_config''"
    and schemas: "\<forall>sch d. mx_invalid E sch d = None \<longrightarrow> conforms sch d"
    and V: "bools_are_bools (me_pydantic (mx_menv E))"
    and clients: "list_all valid_client (s_clients (dash_settings s))"
    and colours: "name = ''update_client'' \<Longrightarrow>
      no_newline args ''background_color'' \<and> no_newline args ''header_color'' \<and> no_newline args ''footer_color''"
  shows "same_config s s'"
proof (cases rule: call_cases [of E now name args s])
  case (1 code message)
  with call have "reject_call now name code message s = (r, s')" by simp
  then show ?thesis using reject_recorded [of name now code message s] by (auto simp: same_config_def)
next
  case (2 d sch)
  obtain q s0 where run: "execute_tool E now name d s = (q, s0)" by fastforce
  with 2(5) call have finish: "finish_call E now name (q, s0) = (r, s')" by simp
  then have "failed_result q" using failed finish_failed [of E now name q s0] by simp
  moreover have "conforms sch' d" if "dget tool_schemas name = Some sch'" for sch' using 2(3,4) schemas that by simp
  moreover have "no_newline d ''background_color'' \<and> no_newline d ''header_color'' \<and> no_newline d ''footer_color''"
    if "name = ''update_client''" using colours [OF that] admin_secret_dropped [OF 2(2)] by (simp add: no_newline_def)
  ultimately have "same_config s s0" using failing_execution [of E now name d s] others V clients run by simp
  moreover obtain e where "s' = s0\<lparr>dh_world := (dh_world s0)\<lparr>w_audit := log_entry e (w_audit (dh_world s0))\<rparr>\<rparr>"
    using finish_recorded [of name E now q s0] finish by auto
  ultimately show ?thesis using log_same_config by blast
qed

lemma call_runs:
  assumes "call_tool E now name args s = (r, s')" "dget tool_handlers name = Some h"
  obtains "same_config s s'"
  | d q s0 where "h E now d s = (q, s0)" "finish_call E now name (q, s0) = (r, s')"
      "dh_manager s' = dh_manager s0" "dh_disk s' = dh_disk s0" "w_config (dh_world s') = w_config (dh_world s0)"
proof (cases rule: call_cases [of E now name args s])
  case (1 code message)
  with assms(1) have "reject_call now name code message s = (r, s')" by simp
  then have "same_config s s'" using reject_recorded [of name now code message s] by (auto simp: same_config_def)
  then show thesis by (rule that(1))
next
  case (2 d sch)
  obtain q s0 where run: "h E now d s = (q, s0)" by fastforce
  then have "finish_call E now name (q, s0) = (r, s')" using 2(5) assms by (simp add: execute_tool_def)
  with finish_recorded [of name E now q s0] show thesis by (intro that(2) [OF run]) auto
qed

lemma failed_reload_call:
  assumes call: "call_tool E now ''reload_config'' args s = (r, s')" and failed: "tr_is_error r"
    and world: "w_config (dh_world s) = cm_config (dh_manager s)"
  shows "(dh_manager s')\<lparr>cm_hooks := cm_hooks (dh_manager s)\<rparr> = dh_manager s \<and> w_config (dh_world s') = w_config (dh_world s)
    \<and> (\<forall>f. leaves (me_hooks (mx_menv E)) (\<lambda>w. w f) \<longrightarrow> dh_disk s' f = dh_disk s f)"
proof -
  have "dget tool_handlers ''reload_config'' = Some tool_reload_config" by (simp add: tool_handlers_def dget_Cons)
  with call show ?thesis
  proof (cases rule: call_runs)
    case 1
    then show ?thesis by (simp add: same_config_def)
  next
    case (2 d q s0)
    obtain e m fs where load: "load_config (mx_menv E) True (dh_manager s, dh_disk s) = (e, m, fs)" by (metis prod_cases3)
    have "failed_result q" using failed finish_failed [of E now "''reload_config''" q s0] 2(2) by simp
    then have "e \<noteq> None" using 2(1) load
      by (cases e) (auto simp: tool_reload_config_def reload_def failed_result_def tool_failed_def dget_Cons argument_def)
    then obtain x where x: "e = Some x" by blast
    then have s0: "dh_manager s0 = m" "dh_disk s0 = fs" "w_config (dh_world s0) = cm_config m"
      using 2(1) load by (cases x; auto simp: tool_reload_config_def reload_def with_manager_def)+
    have kept: "m\<lparr>cm_hooks := cm_hooks (dh_manager s)\<rparr> = dh_manager s" using failed_load(2) load x by blast
    from arg_cong [OF kept, of cm_config] have "cm_config m = cm_config (dh_manager s)" by simp
    then show ?thesis using 2(3-5) s0 kept world load_leaves [OF _ load] by auto
  qed
qed

lemma failed_save_call:
  assumes call: "call_tool E now ''save_config'' args s = (r, s')" and failed: "tr_is_error r"
    and world: "w_config (dh_world s) = cm_config (dh_manager s)"
  shows "same_config s s' \<or> (\<exists>x. is_not_written x \<and> tr_payload r = save_failure E (NothingSaved x))
    \<or> (\<exists>e. tr_payload r = save_failure E (MirrorFailed e)) \<or> (\<exists>e. tr_payload r = save_failure E (ReloadAfterSave e))"
proof -
  have "dget tool_handlers ''save_config'' = Some tool_save_config" by (simp add: tool_handlers_def dget_Cons)
  with call show ?thesis
  proof (cases rule: call_runs)
    case (2 d q s0)
    have bad: "failed_result q" using failed finish_failed [of E now "''save_config''" q s0] 2(2) by simp
    show ?thesis
    proof (cases "\<exists>u g. get_text d ''expected_users_revision'' = Inr u \<and> get_text d ''expected_settings_revision'' = Inr g")
      case False
      then have "s0 = s" using 2(1) by (auto simp: tool_save_config_def split: sum.splits)
      then show ?thesis using 2(3-5) by (simp add: same_config_def)
    next
      case True
      then obtain eu es e m fs where run: "save (mx_menv E) eu es (dh_manager s, dh_disk s) = (e, m, fs)"
        "e = None \<and> \<not> failed_result q \<or> (\<exists>x. e = Some x \<and> q = Inr (save_failure E x) \<and> s0 = with_manager (m, fs) s)"
        using 2(1) by (auto simp: tool_save_config_def failed_result_def split: prod.splits option.splits)
      then obtain x where x: "e = Some x" "q = Inr (save_failure E x)" "s0 = with_manager (m, fs) s" using bad by blast
      have payload: "tr_payload r = save_failure E x" using 2(2) x(2) by (auto simp: finish_call_def Let_def)
      show ?thesis
      proof (cases x)
        case (NothingSaved y)
        show ?thesis
        proof (cases "is_not_written y")
          case False
          then have "m = dh_manager s \<and> fs = dh_disk s"
            using refused_save_keeps run(1) x(1) NothingSaved by blast
          then have "same_config s s'" using 2(3-5) x(3) world by (simp add: same_config_def with_manager_def)
          then show ?thesis ..
        qed (use payload NothingSaved in blast)
      qed (use payload in blast)+
    qed
  qed simp
qed

text \<open>
  C32. A failed call changes no configuration. A call that is answered with an error, for whatever reason
  (a guard, the arguments, the domain, an exception in the middle of a handler), leaves the configuration
  in memory, the manager and the files as they were, with three exceptions that the statement names. A
  \<open>reload_config\<close> may have counted the runs of its load hooks, and the files change only as far as those
  hooks change them. A \<open>save_config\<close> may have written, and then its reply says so: the disk failed in the
  middle, a mirror failed after the save, or the load after it. Of \<open>update_client\<close> it is stated when no
  colour ends in a newline. The validator accepts what the schemas allow, the clients of the configuration
  are valid, and the endpoints read the configuration of the manager.
\<close>

theorem a_failed_call_changes_no_configuration:
  assumes call: "call_tool E now name args s = (r, s')" and failed: "tr_is_error r"
    and schemas: "\<forall>sch d. mx_invalid E sch d = None \<longrightarrow> conforms sch d"
    and V: "bools_are_bools (me_pydantic (mx_menv E))"
    and clients: "list_all valid_client (s_clients (dash_settings s))"
    and world: "w_config (dh_world s) = cm_config (dh_manager s)"
    and colours: "name = ''update_client'' \<Longrightarrow>
      no_newline args ''background_color'' \<and> no_newline args ''header_color'' \<and> no_newline args ''footer_color''"
  shows "w_config (dh_world s') = w_config (dh_world s) \<and> dh_manager s' = dh_manager s \<and> dh_disk s' = dh_disk s
    \<or> name = ''reload_config'' \<and> w_config (dh_world s') = w_config (dh_world s)
        \<and> (dh_manager s')\<lparr>cm_hooks := cm_hooks (dh_manager s)\<rparr> = dh_manager s
        \<and> (\<forall>f. leaves (me_hooks (mx_menv E)) (\<lambda>w. w f) \<longrightarrow> dh_disk s' f = dh_disk s f)
    \<or> name = ''save_config'' \<and> ((\<exists>x. is_not_written x \<and> tr_payload r = save_failure E (NothingSaved x))
        \<or> (\<exists>e. tr_payload r = save_failure E (MirrorFailed e)) \<or> (\<exists>e. tr_payload r = save_failure E (ReloadAfterSave e)))"
proof -
  consider (reload) "name = ''reload_config''" | (saving) "name = ''save_config''"
    | (elsewhere) "name \<noteq> ''save_config''" "name \<noteq> ''reload_config''" by blast
  then show ?thesis
  proof cases
    case reload
    then show ?thesis using failed_reload_call [OF call [unfolded reload] failed world] by blast
  next
    case saving
    then show ?thesis using failed_save_call [OF call [unfolded saving] failed world] by (auto simp: same_config_def)
  next
    case elsewhere
    then show ?thesis using failed_call_elsewhere [OF call failed elsewhere schemas V clients colours] by (simp add: same_config_def)
  qed
qed

definition sample_open :: "unit dash" where
  \<comment> \<open>without a management secret\<close>
  "sample_open = edit_settings (\<lambda>st. st\<lparr>s_management_secret := None\<rparr>) sample_dash"

lemma sample_open_config:
  "dash_config sample_open = (sample_config\<lparr>c_settings := sample_settings\<lparr>s_management_secret := None\<rparr>\<rparr>)"
  "dash_settings sample_open = sample_settings\<lparr>s_management_secret := None\<rparr>"
  by (simp_all add: sample_open_def edit_settings_def edit_config_def dash_settings_def dash_config_def sample_dash_def
      sample_manager_def sample_config_def)

lemma sample_clients_valid: "valid_client sample_client" "valid_client sample_app"
  by (simp_all add: valid_client_def client_has_needed_secret_def sample_client_def sample_app_def opt_true_def)

lemma sample_mcp_simps [simp]:
  "mx_readonly (sample_mcp b) = b" "mx_menv (sample_mcp b) = sample_menv"
  "mx_invalid (sample_mcp b) sch d = (if conforms sch d then None else Some ''not valid'')"
  by (simp_all add: sample_mcp_def)

lemma a_failed_call_changes_no_configuration_witness:
  "tr_is_error (fst (call_tool (sample_mcp False) 0 ''delete_user'' [(''username'', JStr ''nobody'')] sample_open))
    \<and> dh_manager (snd (call_tool (sample_mcp False) 0 ''delete_user'' [(''username'', JStr ''nobody'')] sample_open))
      = dh_manager sample_open"
proof -
  let ?args = "[(''username'', JStr ''nobody'')]"
  obtain r s' where call: "call_tool (sample_mcp False) 0 ''delete_user'' ?args sample_open = (r, s')" by fastforce
  have "tool_delete_user (sample_mcp False) 0 ?args sample_open = (Inr (no_such_user ''nobody''), sample_open)"
    by (simp add: tool_delete_user_def need_text_def dget_Cons sample_open_config sample_config_def)
  moreover have "conforms schema_delete_user ?args"
    by (simp add: conforms_def schema_delete_user_def dget_Cons)
  moreover have "failed_result (Inr (no_such_user ''nobody''))"
    by (simp add: failed_result_def tool_failed_def no_such_user_def domain_error_def)
  ultimately have error: "tr_is_error (fst (call_tool (sample_mcp False) 0 ''delete_user'' ?args sample_open))"
    by (simp add: call_tool_def check_readonly_mode_def check_admin_secret_def sample_open_config execute_tool_def
        edits_by_name tool_schema_of finish_failed)
  then have "tr_is_error r" using call by simp
  moreover have "\<forall>sch d. mx_invalid (sample_mcp False) sch d = None \<longrightarrow> conforms sch d" by simp
  moreover have "bools_are_bools (me_pydantic (mx_menv (sample_mcp False)))"
    by (simp add: bools_are_bools_def sample_pydantic_def sample_bool_def)
  moreover have "list_all valid_client (s_clients (dash_settings sample_open))"
    by (simp add: sample_open_config sample_settings_def sample_clients_valid)
  moreover have "w_config (dh_world sample_open) = cm_config (dh_manager sample_open)"
    by (simp add: sample_open_def sample_dash_def edit_settings_def edit_config_def)
  ultimately have "dh_manager s' = dh_manager sample_open"
    using a_failed_call_changes_no_configuration [OF call] by simp
  with call error show ?thesis by simp
qed

subsection \<open>A refused update that was half applied\<close>

lemma first_index_found:
  "find P xs = Some x \<Longrightarrow> \<exists>i. first_index P xs = Some i \<and> i < length xs \<and> xs ! i = x \<and> (\<forall>y. P y \<longrightarrow> find P (xs[i := y]) = Some y)"
proof (induction xs)
  case (Cons z zs)
  show ?case
  proof (cases "P z")
    case True
    with Cons.prems show ?thesis by simp
  next
    case False
    with Cons.prems Cons.IH obtain i where "first_index P zs = Some i" "i < length zs" "zs ! i = x"
      "\<forall>y. P y \<longrightarrow> find P (zs[i := y]) = Some y" by auto
    with False show ?thesis by simp
  qed
qed simp

lemma put_client_found:
  assumes "get_client (dash_config s) i = Some c" and "cl_client_id c' = i"
  shows "get_client (dash_config (put_client i c' s)) i = Some c'"
  using first_index_found [of "\<lambda>x. cl_client_id x = i" "s_clients (c_settings (dash_config s))" c] assms
  by (auto simp: put_client_def edit_settings_def get_client_def dash_config_def)

definition colour_update :: "str \<Rightarrow> str \<Rightarrow> str \<Rightarrow> doc" where
  \<comment> \<open>a new description, and a colour with a newline at its end\<close>
  "colour_update i description colour =
     [(''client_id'', JStr i), (''description'', JStr description), (''background_color'', JStr (colour @ [CHR 0x0A]))]"

lemma colour_update_normalized:
  assumes "is_hex_color colour"
  shows "normalized_update (colour_update i description colour) =
    Inr \<lparr>cu_audiences = None, cu_redirect_uris = None, cu_scopes = None, cu_resources = None, cu_layout = None,
      cu_background = Some (Some (colour @ [CHR 0x0A])), cu_header = None, cu_footer = None, cu_auth_method = None\<rparr>"
  using assms by (simp add: normalized_update_def colour_update_def if_given_def dget_Cons normalize_hex_color_def re_hex_color_def)

lemma colour_update_assigned:
  assumes c: "valid_client c" and colour: "is_hex_color colour"
  shows "\<exists>c'. assign_all (client_assignments V (colour_update i description colour)
      (\<lparr>cu_audiences = None, cu_redirect_uris = None, cu_scopes = None, cu_resources = None, cu_layout = None,
        cu_background = Some (Some (colour @ [CHR 0x0A])), cu_header = None, cu_footer = None, cu_auth_method = None\<rparr>)
      (auth_method_str (cl_auth_method c))) c = (False, c')
    \<and> cl_client_id c' = cl_client_id c \<and> cl_description c' = description \<and> cl_background_color c' = cl_background_color c"
proof -
  have "\<not> is_hex_color (colour @ [CHR 0x0A])" using colour by (simp add: is_hex_color_def)
  with c show ?thesis
    by (cases "cl_auth_method c")
      (simp_all add: client_assignments_def secret_assignments_def colour_update_def when_given_def when_some_def dget_Cons
        set_field_def assign_def valid_client_def client_has_needed_secret_def)
qed

text \<open>
  C40. An update of a client that is refused can have been applied in part. Where a colour is a valid one
  followed by a newline, the normalization accepts it and the model refuses it, after the fields before it
  were assigned: the call is an error and the client has the new description.
\<close>

theorem a_refused_update_can_change_a_client:
  assumes "\<not> mx_readonly E" and "\<not> opt_true (s_management_secret (dash_settings s))"
    and valid: "mx_invalid E schema_update_client (colour_update i description colour) = None"
    and c: "get_client (dash_config s) i = Some c" "valid_client c" and colour: "is_hex_color colour"
  shows "tr_is_error (fst (call_tool E now ''update_client'' (colour_update i description colour) s))
    \<and> (\<exists>c'. get_client (dash_config (snd (call_tool E now ''update_client'' (colour_update i description colour) s))) i = Some c'
        \<and> cl_description c' = description \<and> cl_background_color c' = cl_background_color c)"
proof -
  let ?d = "colour_update i description colour"
  note u = colour_update_normalized [OF colour, of i description]
  obtain c' where assigned: "assign_all (client_assignments (me_pydantic (mx_menv E)) ?d
      (\<lparr>cu_audiences = None, cu_redirect_uris = None, cu_scopes = None, cu_resources = None, cu_layout = None,
        cu_background = Some (Some (colour @ [CHR 0x0A])), cu_header = None, cu_footer = None, cu_auth_method = None\<rparr>)
      (auth_method_str (cl_auth_method c))) c = (False, c')"
    and c': "cl_client_id c' = cl_client_id c" "cl_description c' = description" "cl_background_color c' = cl_background_color c"
    using colour_update_assigned [OF c(2) colour] by blast
  have args: "need_text ?d ''client_id'' = Inr i" "effective_client_secret ?d c = jopt (cl_client_secret c)"
    by (simp_all add: need_text_def colour_update_def effective_client_secret_def dget_Cons)
  have "auth_method_str (cl_auth_method c) = ''none'' \<or> json_true (jopt (cl_client_secret c))"
    using c(2) by (cases "cl_auth_method c"; cases "cl_client_secret c")
      (simp_all add: valid_client_def client_has_needed_secret_def jopt_def)
  then have tool: "tool_update_client E now ?d s = (Inl ModelRefused, put_client i c' s)"
    using assigned u args c(1) by (auto simp: tool_update_client_def Let_def)
  have "call_tool E now ''update_client'' ?d s = finish_call E now ''update_client'' (Inl ModelRefused, put_client i c' s)"
    using assms(1,2) valid tool
    by (simp add: call_tool_def check_readonly_mode_def check_admin_secret_def tool_schema_of execute_tool_def edits_by_name(2))
  moreover have "cl_client_id c' = i" using c' get_client_id [OF c(1)] by simp
  ultimately show ?thesis using put_client_found [OF c(1)] c'
    by (simp add: finish_call_def log_mcp_tool_def dash_config_def)
qed

lemma a_refused_update_can_change_a_client_witness:
  "\<exists>c'. get_client (dash_config (snd (call_tool (sample_mcp False) 0 ''update_client''
      (colour_update ''app'' ''new'' ''#1a1a2e'') sample_open))) ''app'' = Some c' \<and> cl_description c' = ''new''"
proof -
  have "\<not> mx_readonly (sample_mcp False)" by simp
  moreover have "\<not> opt_true (s_management_secret (dash_settings sample_open))" by (simp add: sample_open_config)
  moreover have "conforms schema_update_client (colour_update ''app'' ''new'' ''#1a1a2e'')"
    by (simp add: conforms_def schema_update_client_def colour_update_def dget_Cons)
  then have "mx_invalid (sample_mcp False) schema_update_client (colour_update ''app'' ''new'' ''#1a1a2e'') = None" by simp
  moreover have "get_client (dash_config sample_open) ''app'' = Some sample_app"
    by (simp add: sample_open_config get_client_def sample_settings_def sample_client_def sample_app_def)
  moreover have "is_hex_color ''#1a1a2e''" by (simp add: is_hex_color_def is_hex_digit_def is_digit_def)
  ultimately show ?thesis using a_refused_update_can_change_a_client sample_clients_valid(2) by blast
qed

subsection \<open>The conflict check of a save\<close>

lemma save_failure_failed: "tool_failed (save_failure E e)"
  by (cases "(E, e)" rule: save_failure.cases) (simp_all add: tool_failed_def domain_error_def)

lemma stale_runtime_save:
  assumes "save_revisions m u g = (eu, es)" and "u \<noteq> None \<or> g \<noteq> None"
    and "current_revision fs (users_file m) \<noteq> (case u of None \<Rightarrow> cm_users_revision m | Some x \<Rightarrow> x)
      \<or> current_revision fs (settings_file m) \<noteq> (case g of None \<Rightarrow> cm_settings_revision m | Some x \<Rightarrow> x)"
  shows "\<exists>x. save M eu es (m, fs) = (Some (NothingSaved x), m, fs)"
proof -
  obtain q m' fs' where run: "save M eu es (m, fs) = (q, m', fs')" by (metis prod_cases3)
  have "eu \<notin> {None, Some (current_revision fs (users_file m))} \<or> es \<notin> {None, Some (current_revision fs (settings_file m))}"
    using assms by (auto simp: save_revisions_def split: if_splits)
  from stale_save [OF run this] run show ?thesis by blast
qed

text \<open>
  C33. A save on a precondition is checked on both files. When a caller of \<open>save_config\<close> supplies a
  revision of one file, and either that file is no longer the one of the revision, or the other is no
  longer the one this process loaded, nothing is saved: the tool fails, and files and manager are as they
  were. No stale snapshot of the file that was not named overwrites another writer.
\<close>

theorem a_guarded_save_overwrites_no_other_writer:
  assumes call: "tool_save_config E now d s = (r, s')"
    and args: "get_text d ''expected_users_revision'' = Inr u" "get_text d ''expected_settings_revision'' = Inr g"
    and "u \<noteq> None \<or> g \<noteq> None"
    and "current_revision (dh_disk s) (users_file (dh_manager s))
          \<noteq> (case u of None \<Rightarrow> cm_users_revision (dh_manager s) | Some x \<Rightarrow> x)
      \<or> current_revision (dh_disk s) (settings_file (dh_manager s))
          \<noteq> (case g of None \<Rightarrow> cm_settings_revision (dh_manager s) | Some x \<Rightarrow> x)"
  shows "failed_result r \<and> dh_manager s' = dh_manager s \<and> dh_disk s' = dh_disk s"
proof -
  obtain eu es where revs: "save_revisions (dh_manager s) u g = (eu, es)" by fastforce
  from stale_runtime_save [OF this assms(4,5)] obtain x
    where "save (mx_menv E) eu es (dh_manager s, dh_disk s) = (Some (NothingSaved x), dh_manager s, dh_disk s)" by blast
  with call args revs show ?thesis using save_failure_failed by (auto simp: tool_save_config_def failed_result_def)
qed

lemma a_guarded_save_overwrites_no_other_writer_witness:
  "failed_result (fst (tool_save_config (sample_mcp False) 0 [(''expected_users_revision'', JStr ''?'')] sample_dash))"
proof -
  obtain r s' where call: "tool_save_config (sample_mcp False) 0 [(''expected_users_revision'', JStr ''?'')] sample_dash = (r, s')"
    by fastforce
  have "get_text [(''expected_users_revision'', JStr ''?'')] ''expected_users_revision'' = Inr (Some ''?'')"
    "get_text [(''expected_users_revision'', JStr ''?'')] ''expected_settings_revision'' = Inr None"
    by (simp_all add: get_text_def dget_Cons)
  moreover have "current_revision (dh_disk sample_dash) (users_file (dh_manager sample_dash)) \<noteq> ''?''"
    using sample_stale [of "dh_disk sample_dash" "users_file (dh_manager sample_dash)"] by auto
  ultimately have "failed_result r" using a_guarded_save_overwrites_no_other_writer [OF call] by simp
  with call show ?thesis by simp
qed

subsection \<open>What no validator sees\<close>

text \<open>
  \<open>update_settings\<close> assigns without the validators of \<open>Settings\<close>: it accepts a token expiry of zero,
  a value with which the model cannot be constructed, so that no load accepts the saved file.
\<close>

lemma unvalidated_settings:
  "\<not> failed_result (fst (tool_update_settings E now [(''token_expiry_minutes'', JInt 0)] s))"
  "settings_problems V (dash_settings (snd (tool_update_settings E now [(''token_expiry_minutes'', JInt 0)] s))) \<noteq> []"
proof -
  have "conforms schema_update_settings [(''token_expiry_minutes'', JInt 0)]"
    by (simp add: conforms_def schema_update_settings_def dget_Cons)
  then show "\<not> failed_result (fst (tool_update_settings E now [(''token_expiry_minutes'', JInt 0)] s))"
    by (rule failing_settings)
  have "put_settings update_settings_fields [(''token_expiry_minutes'', JInt 0)] st [] =
      (Inr [''token_expiry_minutes''], st\<lparr>s_token_expiry_minutes := 0\<rparr>)" for st
    by (simp add: update_settings_fields_def setting_writers_def dget_Cons set_value_def whole_value_def)
  then show "settings_problems V (dash_settings (snd (tool_update_settings E now [(''token_expiry_minutes'', JInt 0)] s))) \<noteq> []"
    by (simp add: tool_update_settings_def edit_settings_def edit_config_def dash_settings_def dash_config_def settings_problems_def)
qed

end
