(* ===== verification/Encodings.thy ===== *)
theory Encodings
  imports Sha256 Urls
begin

text \<open>
  The encodings of the standard library that the SAML routes use: \<open>base64\<close> (the state machine of
  \<open>binascii.a2b_base64\<close>, CPython 3.13), \<open>urllib.parse.unquote\<close>, \<open>html.escape\<close> and the
  \<open>strftime\<close> format of a SAML instant, with the round trips and the safety lemma the SAML
  theories rest on.
\<close>

subsection \<open>Base 64\<close>

definition b64_std_char :: "int \<Rightarrow> char" where
  "b64_std_char n = (if n = 62 then CHR ''+'' else if n = 63 then CHR ''/'' else b64_char n)"

fun b64encode :: "bytes \<Rightarrow> str" where
  "b64encode [] = []"
| "b64encode [a] = [b64_std_char (a div 4), b64_std_char (a mod 4 * 16), CHR ''='', CHR ''='']"
| "b64encode [a, b] =
     [b64_std_char (a div 4), b64_std_char (a mod 4 * 16 + b div 16), b64_std_char (b mod 16 * 4), CHR ''='']"
| "b64encode (a # b # c # bs) =
     b64_std_char (a div 4) # b64_std_char (a mod 4 * 16 + b div 16)
       # b64_std_char (b mod 16 * 4 + c div 64) # b64_std_char (c mod 64) # b64encode bs"

definition b64_value :: "char \<Rightarrow> int option" where
  "b64_value c =
     (let n = of_char c :: int in
      if 65 \<le> n \<and> n \<le> 90 then Some (n - 65) else if 97 \<le> n \<and> n \<le> 122 then Some (n - 71)
      else if 48 \<le> n \<and> n \<le> 57 then Some (n + 4) else if c = CHR ''+'' then Some 62
      else if c = CHR ''/'' then Some 63 else None)"

fun a2b_base64 :: "bool \<Rightarrow> nat \<Rightarrow> int \<Rightarrow> nat \<Rightarrow> bool \<Rightarrow> bytes \<Rightarrow> str \<Rightarrow> str + bytes" where
  \<comment> \<open>strict mode, position in the quad, bits left over, padding seen in the quad, padding seen,
      the bytes so far in reverse, the input; \<open>Inl\<close> is the message of \<open>binascii.Error\<close>\<close>
  "a2b_base64 strict quad left pads padded out [] =
     (if quad = 0 then Inr (rev out)
      else if quad = 1 then
        Inl (''Invalid base64-encoded string: number of data characters (''
             @ show_nat (length out div 3 * 4 + 1) @ '') cannot be 1 more than a multiple of 4'')
      else Inl ''Incorrect padding'')"
| "a2b_base64 strict quad left pads padded out (c # cs) =
     (if c = CHR ''='' then
        if strict \<and> quad = 0 then Inl ''Excess padding not allowed''
        else if 2 \<le> quad \<and> 4 \<le> quad + Suc pads then
          (if strict \<and> cs \<noteq> [] then Inl ''Excess data after padding'' else Inr (rev out))
        else a2b_base64 strict quad left (if 2 \<le> quad then Suc pads else pads) True out cs
      else case b64_value c of
          None \<Rightarrow> if strict then Inl ''Only base64 data is allowed''
                  else a2b_base64 strict quad left pads padded out cs
        | Some v \<Rightarrow>
            if strict \<and> padded then Inl ''Discontinuous padding not allowed''
            else if quad = 0 then a2b_base64 strict 1 v 0 padded out cs
            else if quad = 1 then a2b_base64 strict 2 (v mod 16) 0 padded ((left * 4 + v div 16) # out) cs
            else if quad = 2 then a2b_base64 strict 3 (v mod 4) 0 padded ((left * 16 + v div 4) # out) cs
            else a2b_base64 strict 0 0 0 padded ((left * 64 + v) # out) cs)"

definition b64decode :: "bool \<Rightarrow> str \<Rightarrow> str + bytes" where
  \<comment> \<open>\<open>b64decode(s, validate=...)\<close>; every error is a \<open>ValueError\<close>\<close>
  "b64decode validate s =
     (if encode_ascii s = None then Inl ''string argument should contain only ASCII characters''
      else if validate \<and> take 1 s = ''='' then Inl ''Leading padding not allowed''
      else a2b_base64 validate 0 0 0 False [] s)"

text \<open>Every byte string comes back from its text, in both modes.\<close>

definition byte :: "int \<Rightarrow> bool" where
  "byte b \<longleftrightarrow> 0 \<le> b \<and> b < 256"

definition sextet :: "int \<Rightarrow> bool" where
  "sextet n \<longleftrightarrow> 0 \<le> n \<and> n < 64"

lemma b64_alphabet: "\<forall>n \<in> set [0..63]. b64_value (b64_std_char n) = Some n \<and> b64_std_char n \<noteq> CHR ''=''
    \<and> (of_char (b64_std_char n) :: int) < 128"
  by code_simp

lemma b64_char_of:
  assumes "sextet n"
  shows "b64_value (b64_std_char n) = Some n" "b64_std_char n \<noteq> CHR ''=''"
    and "(of_char (b64_std_char n) :: int) < 128"
proof -
  have "n \<in> set [0..63]" using assms by (simp add: sextet_def)
  then show "b64_value (b64_std_char n) = Some n" "b64_std_char n \<noteq> CHR ''=''"
    and "(of_char (b64_std_char n) :: int) < 128"
    using b64_alphabet by blast+
qed

lemma byte_parts:
  assumes "byte b"
  shows "0 \<le> b div 4" "b div 4 < 64" "0 \<le> b div 16" "b div 16 < 16" "0 \<le> b div 64" "b div 64 < 4"
  using assms unfolding byte_def by presburger+

lemma mod_parts:
  fixes a :: int
  shows "0 \<le> a mod 4" "a mod 4 < 4" "0 \<le> a mod 16" "a mod 16 < 16" "0 \<le> a mod 64" "a mod 64 < 64"
  by simp_all

lemma sextet_join:
  "0 \<le> x \<Longrightarrow> x < 4 \<Longrightarrow> 0 \<le> y \<Longrightarrow> y < 16 \<Longrightarrow> sextet (x * 16 + y)"
  "0 \<le> x \<Longrightarrow> x < 16 \<Longrightarrow> 0 \<le> y \<Longrightarrow> y < 4 \<Longrightarrow> sextet (x * 4 + y)"
  "0 \<le> x \<Longrightarrow> x < 4 \<Longrightarrow> sextet (x * 16)" "0 \<le> x \<Longrightarrow> x < 16 \<Longrightarrow> sextet (x * 4)"
  unfolding sextet_def by linarith+

lemma sextets:
  assumes "byte a" "byte b"
  shows "sextet (a div 4)" "sextet (a mod 4 * 16)" "sextet (a mod 4 * 16 + b div 16)"
    and "sextet (a mod 16 * 4)" "sextet (a mod 16 * 4 + b div 64)" "sextet (a mod 64)"
  using byte_parts(1,2) [OF assms(1)] mod_parts(5,6) [of a]
    sextet_join(1) [OF mod_parts(1,2) [of a] byte_parts(3,4) [OF assms(2)]]
    sextet_join(2) [OF mod_parts(3,4) [of a] byte_parts(5,6) [OF assms(2)]]
    sextet_join(3) [OF mod_parts(1,2) [of a]] sextet_join(4) [OF mod_parts(3,4) [of a]]
  by (simp_all only: sextet_def simp_thms)

lemma joined:
  fixes x y n :: int
  assumes "0 \<le> y" "y < n"
  shows "(x * n + y) div n = x" "(x * n + y) mod n = y"
  using assms by (simp_all add: div_add1_eq)

lemma octets:
  assumes "byte a" "byte b"
  shows "a div 4 * 4 + a mod 4 * 16 div 16 = a"
    and "a div 4 * 4 + (a mod 4 * 16 + b div 16) div 16 = a"
    and "(a mod 4 * 16 + b div 16) mod 16 * 16 + b mod 16 * 4 div 4 = b"
    and "(c mod 4 * 16 + a div 16) mod 16 * 16 + (a mod 16 * 4 + b div 64) div 4 = a"
    and "(a mod 16 * 4 + b div 64) mod 4 * 64 + b mod 64 = b"
  by (simp_all only: joined [OF byte_parts(3,4) [OF assms(2)]] joined [OF byte_parts(3,4) [OF assms(1)]]
      joined [OF byte_parts(5,6) [OF assms(2)]] nonzero_mult_div_cancel_right zero_neq_numeral
      not_False_eq_True numeral_neq_zero div_mult_mod_eq)

lemma a2b_quad:
  assumes "sextet s" "sextet t" "sextet u" "sextet v"
  shows "a2b_base64 strict 0 0 0 False out
      (b64_std_char s # b64_std_char t # b64_std_char u # b64_std_char v # cs) =
    a2b_base64 strict 0 0 0 False
      ((u mod 4 * 64 + v) # (t mod 16 * 16 + u div 4) # (s * 4 + t div 16) # out) cs"
  using assms by (simp add: b64_char_of)

lemma a2b_tail:
  assumes "sextet s" "sextet t"
  shows "a2b_base64 strict 0 0 0 False out [b64_std_char s, b64_std_char t, CHR ''='', CHR ''=''] =
      Inr (rev ((s * 4 + t div 16) # out))"
    and "sextet u \<Longrightarrow> a2b_base64 strict 0 0 0 False out
        [b64_std_char s, b64_std_char t, b64_std_char u, CHR ''=''] =
      Inr (rev ((t mod 16 * 16 + u div 4) # (s * 4 + t div 16) # out))"
  using assms by (simp_all add: b64_char_of)

lemma a2b_base64_encode:
  "list_all byte bs \<Longrightarrow> a2b_base64 strict 0 0 0 False out (b64encode bs) = Inr (rev out @ bs)"
proof (induction bs arbitrary: out rule: b64encode.induct)
  case (2 a)
  then have a: "byte a" by simp
  show ?case
    by (simp only: b64encode.simps a2b_tail(1) [OF sextets(1,2) [OF a a]] octets(1) [OF a a]) simp
next
  case (3 a b)
  then have ab: "byte a" "byte b" by simp_all
  show ?case
    by (simp only: b64encode.simps octets(2,3) [OF ab]
        a2b_tail(2) [OF sextets(1,3) [OF ab] sextets(4) [OF ab(2,1)]]) simp
next
  case (4 a b c bs)
  then have abc: "byte a" "byte b" "byte c" by simp_all
  show ?case
    by (simp only: b64encode.simps octets(2) [OF abc(1,2)] octets(4,5) [OF abc(2,3)]
        a2b_quad [OF sextets(1,3) [OF abc(1,2)] sextets(5) [OF abc(2,3)] sextets(6) [OF abc(3,1)]])
      (use 4 in simp)
qed simp

lemma ascii_b64encode: "list_all byte bs \<Longrightarrow> list_all (\<lambda>c. (of_char c :: int) < 128) (b64encode bs)"
proof (induction bs rule: b64encode.induct)
  case (2 a)
  then have a: "byte a" by simp
  show ?case using sextets(1,2) [OF a a] by (simp add: b64_char_of del: mult_mod_left)
next
  case (3 a b)
  then have ab: "byte a" "byte b" by simp_all
  show ?case using sextets(1,3) [OF ab] sextets(4) [OF ab(2,1)] by (simp add: b64_char_of)
next
  case (4 a b c bs)
  then have abc: "byte a" "byte b" "byte c" by simp_all
  show ?case
    using 4 sextets(1,3) [OF abc(1,2)] sextets(5) [OF abc(2,3)] sextets(6) [OF abc(3,1)]
    by (simp add: b64_char_of)
qed simp

lemma b64_head: "list_all byte bs \<Longrightarrow> take 1 (b64encode bs) \<noteq> ''=''"
proof (cases bs)
  case (Cons a as)
  assume "list_all byte bs"
  with Cons have a: "byte a" by simp
  have "b64_std_char (a div 4) \<noteq> CHR ''=''" by (rule b64_char_of(2) [OF sextets(1) [OF a a]])
  with Cons show ?thesis by (cases bs rule: b64encode.cases) auto
qed simp

lemma b64_round_trip: "list_all byte bs \<Longrightarrow> b64decode validate (b64encode bs) = Inr bs"
  using b64_head [of bs]
  by (simp add: b64decode_def encode_ascii_def ascii_b64encode a2b_base64_encode)

subsection \<open>Percent decoding\<close>

definition hex_val :: "char \<Rightarrow> int option" where
  "hex_val c =
     (let n = of_char c :: int in
      if 48 \<le> n \<and> n \<le> 57 then Some (n - 48) else if 65 \<le> n \<and> n \<le> 70 then Some (n - 55)
      else if 97 \<le> n \<and> n \<le> 102 then Some (n - 87) else None)"

fun utf8_text :: "bytes \<Rightarrow> str" where
  \<comment> \<open>\<open>bytes.decode("utf-8", "replace")\<close>; what lies beyond code point 255 reads as question marks\<close>
  "utf8_text [] = []"
| "utf8_text [a] = (if a < 128 then [char_of a] else ''?'')"
| "utf8_text (a # b # bs) =
     (if a < 128 then char_of a # utf8_text (b # bs)
      else if 194 \<le> a \<and> a \<le> 195 \<and> 128 \<le> b \<and> b < 192
        then char_of ((a - 192) * 64 + (b - 128)) # utf8_text bs
      else CHR ''?'' # utf8_text (b # bs))"

fun unquote_run :: "bytes \<Rightarrow> str \<Rightarrow> str" where
  \<comment> \<open>the ASCII run read so far, in reverse, as bytes; a run ends at a character beyond ASCII\<close>
  "unquote_run run [] = utf8_text (rev run)"
| "unquote_run run (c # cs) =
     (if c = CHR ''%'' then
        (case cs of a # b # rest \<Rightarrow>
           (case (hex_val a, hex_val b) of
              (Some x, Some y) \<Rightarrow> unquote_run ((x * 16 + y) # run) rest
            | _ \<Rightarrow> unquote_run (37 # run) cs)
         | _ \<Rightarrow> unquote_run (37 # run) cs)
      else if (of_char c :: int) < 128 then unquote_run (of_char c # run) cs
      else utf8_text (rev run) @ c # unquote_run [] cs)"

definition unquote :: "str \<Rightarrow> str" where
  "unquote s = (if CHR ''%'' \<in> set s then unquote_run [] s else s)"

definition unquote_plus :: "str \<Rightarrow> str" where
  "unquote_plus s = unquote (map (\<lambda>c. if c = CHR ''+'' then CHR '' '' else c) s)"

lemma unquote_plain: "CHR ''%'' \<notin> set s \<Longrightarrow> unquote s = s"
  by (simp add: unquote_def)

lemma unquote_plus_plain:
  assumes "CHR ''%'' \<notin> set s" "CHR ''+'' \<notin> set s"
  shows "unquote_plus s = s"
proof -
  have "map (\<lambda>c. if c = CHR ''+'' then CHR '' '' else c) s = s"
    using assms(2) by (intro map_idI) auto
  with assms(1) show ?thesis by (simp add: unquote_plus_def unquote_plain)
qed

subsection \<open>HTML\<close>

definition html_escape_char :: "char \<Rightarrow> str" where
  "html_escape_char c =
     (if c = CHR ''&'' then ''&amp;'' else if c = CHR ''<'' then ''&lt;'' else if c = CHR ''>'' then ''&gt;''
      else if c = CHR 0x22 then ''&quot;'' else if c = CHR 0x27 then ''&#x27;'' else [c])"

definition html_escape :: "str \<Rightarrow> str" where
  \<comment> \<open>\<open>html.escape(s, quote=True)\<close>\<close>
  "html_escape s = concat (map html_escape_char s)"

text \<open>An escaped value cannot leave the attribute it is written into.\<close>

lemma html_escape_inert: "set (html_escape s) \<inter> set [CHR ''<'', CHR ''>'', CHR 0x22, CHR 0x27] = {}"
  by (auto simp: html_escape_def html_escape_char_def split: if_splits)

subsection \<open>Instants\<close>

definition pad2 :: "int \<Rightarrow> str" where
  "pad2 n = (if n < 10 then ''0'' @ show_int n else show_int n)"

definition civil_of_days :: "int \<Rightarrow> int \<times> int \<times> int" where
  \<comment> \<open>year, month and day of the day that many days after 1970-01-01\<close>
  "civil_of_days z =
     (let era = (z + 719468) div 146097;
          doe = (z + 719468) mod 146097;
          yoe = (doe - doe div 1460 + doe div 36524 - doe div 146096) div 365;
          doy = doe - (365 * yoe + yoe div 4 - yoe div 100);
          mp = (5 * doy + 2) div 153;
          m = (if mp < 10 then mp + 3 else mp - 9)
      in (yoe + era * 400 + (if m \<le> 2 then 1 else 0), m, doy - (153 * mp + 2) div 5 + 1))"

definition saml_instant :: "time \<Rightarrow> str" where
  \<comment> \<open>\<open>dt.strftime("%Y-%m-%dT%H:%M:%SZ")\<close>\<close>
  "saml_instant t =
     (let n = to_secs t; (y, m, d) = civil_of_days (n div 86400); r = n mod 86400
      in show_int y @ ''-'' @ pad2 m @ ''-'' @ pad2 d @ ''T'' @ pad2 (r div 3600) @ '':''
         @ pad2 (r mod 3600 div 60) @ '':'' @ pad2 (r mod 60) @ ''Z'')"

lemma saml_instant_leap_day: "saml_instant (secs 1709210096) = ''2024-02-29T12:34:56Z''"
  by code_simp

lemma saml_instant_new_year: "saml_instant (secs 1735689599) = ''2024-12-31T23:59:59Z''
    \<and> saml_instant (secs 1735689600) = ''2025-01-01T00:00:00Z''"
  by code_simp

end
