(* ===== verification/Saml_Attributes.thy ===== *)
theory Saml_Attributes
  imports Encodings Token
begin

text \<open>
  \<open>services/saml_attributes.py\<close>: the attributes that the two SAML surfaces assert for a user, and
  their emission. An XML document is a tree of elements; a tag carries its namespace in braces as
  lxml writes it, and namespace prefixes are left to the serializer.
\<close>

subsection \<open>Elements\<close>

datatype element = Element (el_tag: str) (el_attribs: "(str, str) dict") (el_text: "str option")
  (el_children: "element list")

fun el_iter :: "element \<Rightarrow> element list" where
  \<comment> \<open>the element and everything below it, in document order\<close>
  "el_iter (Element g a x es) = Element g a x es # concat (map el_iter es)"

definition el_find :: "str \<Rightarrow> element \<Rightarrow> element option" where
  \<comment> \<open>\<open>root.find(".//" + tag)\<close>: the first such element below \<open>root\<close>\<close>
  "el_find g e = find (\<lambda>x. el_tag x = g) (concat (map el_iter (el_children e)))"

fun el_strings :: "element \<Rightarrow> str list" where
  "el_strings (Element g a x es) =
     map snd a @ (case x of None \<Rightarrow> [] | Some s \<Rightarrow> [s]) @ concat (map el_strings es)"

definition saml2 :: "str \<Rightarrow> str" where
  "saml2 name = ''{urn:oasis:names:tc:SAML:2.0:assertion}'' @ name"

definition saml2p :: "str \<Rightarrow> str" where
  "saml2p name = ''{urn:oasis:names:tc:SAML:2.0:protocol}'' @ name"

lemma saml_tags_differ [simp]:
  "saml2 a = saml2 b \<longleftrightarrow> a = b" "saml2p a = saml2p b \<longleftrightarrow> a = b" "saml2 a \<noteq> saml2p b" "saml2p a \<noteq> saml2 b"
  by (simp_all add: saml2_def saml2p_def)

subsection \<open>Resolution\<close>

definition add_export_attr :: "(str, json) dict \<Rightarrow> str \<Rightarrow> str list \<Rightarrow> (str, json) dict" where
  "add_export_attr attrs name values =
     (case dget attrs name of
        Some (JList existing) \<Rightarrow>
          dset name (JList (existing @ map JStr (filter (\<lambda>v. JStr v \<notin> set existing) values))) attrs
      | _ \<Rightarrow> dset name (jstrs values) attrs)"

definition is_absent :: "json \<Rightarrow> bool" where
  "is_absent v \<longleftrightarrow> v \<in> set [JNull, JStr [], JList [], JObj []]"

definition add_custom :: "str \<times> json \<Rightarrow> (str, json) dict \<Rightarrow> (str, json) dict" where
  \<comment> \<open>one turn of the loop over the attributes of the user\<close>
  "add_custom kv attrs = (if is_absent (snd kv) then attrs else dset (fst kv) (snd kv) attrs)"

definition resolve_saml_attributes :: "settings \<Rightarrow> user \<Rightarrow> bool \<Rightarrow> (str, json) dict" where
  "resolve_saml_attributes s u include_source_acl =
     (let a = [];
          a = (if u_email u \<noteq> [] then dset ''email'' (JStr (u_email u)) a else a);
          a = (if opt_true (u_identity_class u)
               then dset ''identity_class'' (JStr (the (u_identity_class u))) a else a);
          a = (if u_entitlements u \<noteq> [] then dset ''entitlements'' (jstrs (u_entitlements u)) a else a);
          a = (if include_source_acl \<and> u_source_acl u \<noteq> []
               then dset ''source_acl'' (jstrs (u_source_acl u)) a else a);
          a = (if s_saml_export_roles s \<and> u_roles u \<noteq> []
               then add_export_attr a (s_saml_roles_attr_name s) (u_roles u) else a);
          a = (if s_saml_export_groups s \<and> u_groups u \<noteq> []
               then add_export_attr a (s_saml_groups_attr_name s) (u_groups u) else a)
      in fold add_custom (u_attributes u) a)"

subsection \<open>Emission\<close>

definition attribute_values :: "json \<Rightarrow> json list" where
  "attribute_values v = (case v of JList xs \<Rightarrow> xs | _ \<Rightarrow> [v])"

definition attribute_element :: "str \<times> json \<Rightarrow> element" where
  "attribute_element kv = Element (saml2 ''Attribute'') [(''Name'', fst kv)] None
     (map (\<lambda>v. Element (saml2 ''AttributeValue'') [] (Some (json_fmt v)) []) (attribute_values (snd kv)))"

definition append_attribute_statement :: "(str, json) dict \<Rightarrow> element list" where
  \<comment> \<open>what is appended below the assertion\<close>
  "append_attribute_statement attributes =
     (if attributes = [] then []
      else [Element (saml2 ''AttributeStatement'') [] None
              (map attribute_element (filter (\<lambda>kv. snd kv \<noteq> JNull) attributes))])"

subsection \<open>What is asserted\<close>

text \<open>
  Reading a statement back, as a service provider does: the values of each attribute, in order.
\<close>

definition read_attribute :: "element \<Rightarrow> str \<times> str list" where
  "read_attribute e = (the (dget (el_attribs e) ''Name''), map (\<lambda>v. the (el_text v)) (el_children e))"

definition read_statement :: "element list \<Rightarrow> (str \<times> str list) list" where
  "read_statement es = concat (map (\<lambda>e. map read_attribute (el_children e))
     (filter (\<lambda>e. el_tag e = saml2 ''AttributeStatement'') es))"

lemma read_attribute_element:
  "read_attribute (attribute_element kv) = (fst kv, map json_fmt (attribute_values (snd kv)))"
  by (simp add: read_attribute_def attribute_element_def dget_Cons comp_def)

lemma read_append:
  "JNull \<notin> snd ` set attributes \<Longrightarrow> read_statement (append_attribute_statement attributes) =
     map (\<lambda>(n, v). (n, map json_fmt (attribute_values v))) attributes"
proof -
  assume "JNull \<notin> snd ` set attributes"
  then have "filter (\<lambda>kv. snd kv \<noteq> JNull) attributes = attributes" by (intro filter_True) (auto simp: image_iff)
  then show ?thesis
    by (simp add: append_attribute_statement_def read_statement_def read_attribute_element comp_def split_def)
qed

subsection \<open>Absent facts stay absent\<close>

definition stated :: "(str, json) dict \<Rightarrow> bool" where
  "stated a \<longleftrightarrow> dict_wf a \<and> (\<forall>k v. dget a k = Some v \<longrightarrow> \<not> is_absent v)"

lemma stated_Nil [simp]: "stated []"
  by (simp add: stated_def)

lemma stated_dset: "stated a \<Longrightarrow> \<not> is_absent v \<Longrightarrow> stated (dset k v a)"
  by (auto simp: stated_def)

lemma stated_put: "stated a \<Longrightarrow> (b \<Longrightarrow> \<not> is_absent v) \<Longrightarrow> stated (if b then dset k v a else a)"
  by (auto intro: stated_dset)

lemma stated_export: "stated a \<Longrightarrow> stated (if b \<and> vs \<noteq> [] then add_export_attr a k vs else a)"
proof -
  assume a: "stated a"
  have "stated (add_export_attr a k vs)" if vs: "vs \<noteq> []"
  proof (cases "\<exists>xs. dget a k = Some (JList xs)")
    case True
    then obtain xs where xs: "dget a k = Some (JList xs)" by blast
    with a have "xs \<noteq> []" by (auto simp: stated_def is_absent_def)
    with a xs show ?thesis by (simp add: add_export_attr_def stated_dset is_absent_def)
  next
    case False
    then have "add_export_attr a k vs = dset k (jstrs vs) a"
      by (auto simp: add_export_attr_def split: option.split json.split)
    with a vs show ?thesis by (simp add: stated_dset is_absent_def jstrs_def)
  qed
  with a show ?thesis by simp
qed

lemma stated_custom: "stated a \<Longrightarrow> stated (fold add_custom kvs a)"
  by (induction kvs arbitrary: a) (auto simp: add_custom_def intro: stated_dset)

lemma resolved_stated: "stated (resolve_saml_attributes s u acl)"
  unfolding resolve_saml_attributes_def Let_def
  by (intro stated_custom stated_export stated_put stated_Nil) (auto simp: is_absent_def jstrs_def opt_true_def)

lemma dget_custom:
  "dict_wf kvs \<Longrightarrow> dget (fold add_custom kvs a) k =
     (case dget kvs k of None \<Rightarrow> dget a k | Some v \<Rightarrow> if is_absent v then dget a k else Some v)"
proof (induction kvs arbitrary: a)
  case (Cons kv kvs)
  obtain k' v where kv: "kv = (k', v)" by (cases kv)
  with Cons.prems have "dict_wf kvs" "dget kvs k' = None" by (auto simp: dict_wf_def dget_def map_of_eq_None_iff)
  with Cons.IH [of "add_custom kv a"] show ?case
    by (auto simp: kv add_custom_def dget_Cons split: option.splits)
qed simp

end
