(* ===== verification/Saml_Verification.thy ===== *)
theory Saml_Verification
  imports Saml_Attributes
begin

text \<open>
  \<open>services/saml_verification.py\<close> and the third-party functions of the SAML routes (record
  \<open>saml_env\<close>): lxml, zlib, X.509 and RSA, XML signatures, and the files the code reads. The
  verification of a Redirect-binding signature works on the raw query string.
\<close>

subsection \<open>Third-party functions\<close>

datatype sp_key = RsaKey bytes | OtherKey \<comment> \<open>the public key of a certificate\<close>

datatype c14n = Canonical_1_0 | Canonical_1_1 | Exclusive_1_0

datatype xml_form = Declared | DeclaredPretty | Unadorned | Pretty
  \<comment> \<open>the arguments of \<open>etree.tostring\<close>: a declaration or not, pretty-printed or not\<close>

record saml_env =
  sx_lib :: lib
  sx_file :: "str \<Rightarrow> bytes option" \<comment> \<open>\<open>open(path, "rb")\<close>; \<open>None\<close> is an \<open>OSError\<close>\<close>
  sx_idp_cert :: "bytes option" \<comment> \<open>\<open>keys_dir/idp-cert.pem\<close>\<close>
  sx_cert_pem :: str \<comment> \<open>the certificate the key service has loaded\<close>
  sx_inflate :: "bytes \<Rightarrow> bytes option" \<comment> \<open>raw DEFLATE; \<open>None\<close> is a \<open>zlib.error\<close>\<close>
  sx_parse :: "bytes \<Rightarrow> element option" \<comment> \<open>lxml without entities, network and DTD\<close>
  sx_tostring :: "xml_form \<Rightarrow> element \<Rightarrow> str"
  sx_text_ok :: "str \<Rightarrow> bool" \<comment> \<open>lxml takes the string as text or attribute\<close>
  sx_text_error :: str \<comment> \<open>the message of the \<open>ValueError\<close> it raises otherwise\<close>
  sx_load_cert :: "bytes \<Rightarrow> str + sp_key" \<comment> \<open>\<open>Inl\<close>: the message of the exception\<close>
  sx_rsa_verify :: "bytes \<Rightarrow> str \<Rightarrow> bytes \<Rightarrow> bytes \<Rightarrow> str option"
    \<comment> \<open>key, hash, signature, data; \<open>None\<close> when the signature is that of the data\<close>
  sx_xml_verify :: "bytes \<Rightarrow> str \<Rightarrow> str option" \<comment> \<open>document, certificate; \<open>None\<close> when it verifies\<close>
  sx_signxml :: bool \<comment> \<open>\<open>SIGNXML_AVAILABLE\<close>\<close>
  sx_sign :: "c14n \<Rightarrow> str \<Rightarrow> str \<Rightarrow> str option \<Rightarrow> element \<Rightarrow> exn + element"
    \<comment> \<open>key, certificate, reference, element\<close>

subsection \<open>Certificates\<close>

definition load_sp_certificates :: "saml_env \<Rightarrow> str list \<Rightarrow> bytes list" where
  \<comment> \<open>unreadable paths are skipped\<close>
  "load_sp_certificates X paths =
     concat (map (\<lambda>p. case sx_file X p of None \<Rightarrow> [] | Some pem \<Rightarrow> [pem]) paths)"

fun some_certificate :: "(bytes \<Rightarrow> str option) \<Rightarrow> str \<Rightarrow> bytes list \<Rightarrow> str option" where
  \<comment> \<open>the loop over the certificates, with the last error; \<open>None\<close> once one verifies\<close>
  "some_certificate check err [] = Some err"
| "some_certificate check err (pem # pems) =
     (case check pem of None \<Rightarrow> None | Some e \<Rightarrow> some_certificate check e pems)"

lemma some_certificate_iff: "some_certificate check err pems = None \<longleftrightarrow> (\<exists>pem \<in> set pems. check pem = None)"
  by (induction pems arbitrary: err) (auto split: option.split)

text \<open>
  The contract both bindings share: a request verifies when it carries a signature and some
  registered certificate validates it.
\<close>

locale certificate_check =
  fixes verify :: "'r \<Rightarrow> bytes list \<Rightarrow> str option"
    and carries :: "'r \<Rightarrow> bool" \<comment> \<open>there is a signature to check\<close>
    and validates :: "'r \<Rightarrow> bytes \<Rightarrow> bool" \<comment> \<open>one certificate\<close>
  assumes any_certificate: "verify r certs = None \<longleftrightarrow> carries r \<and> (\<exists>pem \<in> set certs. validates r pem)"
begin

lemma unregistered: "verify r [] \<noteq> None"
  by (simp add: any_certificate)

lemma registering_more: "verify r certs = None \<Longrightarrow> set certs \<subseteq> set certs' \<Longrightarrow> verify r certs' = None"
  by (auto simp: any_certificate)

lemma validated: "verify r certs = None \<Longrightarrow> \<exists>pem \<in> set certs. validates r pem"
  by (simp add: any_certificate)

end

subsection \<open>The Redirect binding\<close>

definition redirect_sig_algs :: "(str, str) dict" where
  "redirect_sig_algs =
     [(''http://www.w3.org/2001/04/xmldsig-more#rsa-sha256'', ''SHA256''),
      (''http://www.w3.org/2001/04/xmldsig-more#rsa-sha512'', ''SHA512''),
      (''http://www.w3.org/2000/09/xmldsig#rsa-sha1'', ''SHA1'')]"

definition raw_query_params :: "str \<Rightarrow> (str \<times> str) list" where
  "raw_query_params raw_query =
     map (\<lambda>chunk. (cut_before CHR ''='' chunk, cut_after CHR ''='' chunk))
       (filter (\<lambda>chunk. chunk \<noteq> []) (split_on CHR ''&'' raw_query))"

definition signed_names :: "str list" where
  "signed_names = [''SAMLRequest'', ''RelayState'', ''SigAlg'']"

definition signed_octets :: "str \<Rightarrow> bytes" where
  "signed_octets raw_query = encode_utf8 (join ''&'' (map (\<lambda>(name, v). name @ ''='' @ v)
     (filter (\<lambda>(name, v). name \<in> set signed_names) (raw_query_params raw_query))))"

definition redirect_check :: "saml_env \<Rightarrow> str \<Rightarrow> bytes \<Rightarrow> bytes \<Rightarrow> bytes \<Rightarrow> str option" where
  \<comment> \<open>one certificate\<close>
  "redirect_check X hash sig octets pem =
     (case sx_load_cert X pem of
        Inl e \<Rightarrow> Some e
      | Inr OtherKey \<Rightarrow> Some ''SP certificate does not carry an RSA key''
      | Inr (RsaKey key) \<Rightarrow> sx_rsa_verify X key hash sig octets)"

definition no_certificates :: str where
  "no_certificates = ''want_authn_requests_signed is enabled but no saml.sp_certificates are registered''"

definition verify_redirect_signature :: "saml_env \<Rightarrow> str \<Rightarrow> bytes list \<Rightarrow> str option" where
  \<comment> \<open>the message of the \<open>SAMLSignatureError\<close>, \<open>None\<close> when the request verifies\<close>
  "verify_redirect_signature X raw_query cert_pems =
     (let params = dupdate [] (raw_query_params raw_query) in
      case (dget params ''Signature'', dget params ''SigAlg'') of
        (Some signature_raw, Some sig_alg_raw) \<Rightarrow>
          (let sig_alg = unquote sig_alg_raw in
           case dget redirect_sig_algs sig_alg of
             None \<Rightarrow> Some (''Unsupported SigAlg: '' @ sig_alg)
           | Some hash \<Rightarrow>
               (case b64decode True (unquote signature_raw) of
                  Inl e \<Rightarrow> Some (''Malformed Signature parameter: '' @ e)
                | Inr sig \<Rightarrow>
                    if cert_pems = [] then Some no_certificates
                    else map_option (\<lambda>e. ''Redirect-binding signature did not verify against any registered ''
                           @ ''SP certificate: '' @ e)
                         (some_certificate (redirect_check X hash sig (signed_octets raw_query)) ''None''
                            cert_pems)))
      | _ \<Rightarrow> Some (''AuthnRequest is not signed (Signature/SigAlg query parameters ''
                  @ ''required by want_authn_requests_signed)''))"

definition redirect_signature :: "str \<Rightarrow> (str \<times> bytes) option" where
  \<comment> \<open>hash and signature of a query string that names a known algorithm\<close>
  "redirect_signature raw_query =
     (let params = dupdate [] (raw_query_params raw_query) in
      case (dget params ''Signature'', dget params ''SigAlg'') of
        (Some s, Some a) \<Rightarrow>
          (case (dget redirect_sig_algs (unquote a), b64decode True (unquote s)) of
             (Some hash, Inr sig) \<Rightarrow> Some (hash, sig) | _ \<Rightarrow> None)
      | _ \<Rightarrow> None)"

text \<open>
  A query string that is vouched for: its own signature, by its own algorithm, is one that a registered
  key made over its signed part.
\<close>

definition query_signed :: "saml_env \<Rightarrow> bytes list \<Rightarrow> str \<Rightarrow> bool" where
  "query_signed X cert_pems raw \<longleftrightarrow>
     (\<exists>pem \<in> set cert_pems. \<exists>key hash sig. sx_load_cert X pem = Inr (RsaKey key)
        \<and> redirect_signature raw = Some (hash, sig) \<and> sx_rsa_verify X key hash sig (signed_octets raw) = None)"

lemma redirect_check_None:
  "redirect_check X hash sig octets pem = None \<longleftrightarrow>
     (\<exists>key. sx_load_cert X pem = Inr (RsaKey key) \<and> sx_rsa_verify X key hash sig octets = None)"
  by (auto simp: redirect_check_def split: sum.split sp_key.split)

definition redirect_validates :: "saml_env \<Rightarrow> str \<Rightarrow> bytes \<Rightarrow> bool" where
  "redirect_validates X raw_query pem \<longleftrightarrow> (case redirect_signature raw_query of None \<Rightarrow> False
     | Some (hash, sig) \<Rightarrow> redirect_check X hash sig (signed_octets raw_query) pem = None)"

interpretation redirect_binding: certificate_check "verify_redirect_signature X"
    "\<lambda>raw. redirect_signature raw \<noteq> None" "redirect_validates X" for X
  by unfold_locales
    (auto simp: verify_redirect_signature_def redirect_signature_def redirect_validates_def Let_def
      some_certificate_iff split: option.splits sum.splits)

lemma verified_query_signed:
  "verify_redirect_signature X raw cert_pems = None \<Longrightarrow> query_signed X cert_pems raw"
  by (drule redirect_binding.validated)
    (auto simp: redirect_validates_def query_signed_def redirect_check_None split: option.splits)

text \<open>The verification reads the parameters of four names, as they are spelled on the wire.\<close>

lemma verification_reads_four_names:
  assumes "raw_query_params raw' = (name, v) # raw_query_params raw" "name \<notin> set (''Signature'' # signed_names)"
  shows "verify_redirect_signature X raw' certs = verify_redirect_signature X raw certs"
proof -
  have k: "dget (dupdate [] (raw_query_params raw')) k = dget (dupdate [] (raw_query_params raw)) k"
    if "k \<in> set (''Signature'' # signed_names)" for k
    using assms that by (auto simp: dget_dupdate dget_Cons map_add_def split: option.splits)
  have octets: "signed_octets raw' = signed_octets raw"
    using assms by (auto simp: signed_octets_def signed_names_def)
  have "''Signature'' \<in> set (''Signature'' # signed_names)" "''SigAlg'' \<in> set (''Signature'' # signed_names)"
    by (simp_all add: signed_names_def)
  then show ?thesis unfolding verify_redirect_signature_def Let_def octets by (simp only: k)
qed

subsection \<open>The POST binding\<close>

fun first_non_ascii :: "nat \<Rightarrow> bytes \<Rightarrow> (nat \<times> int) option" where
  "first_non_ascii n [] = None"
| "first_non_ascii n (b # bs) = (if 128 \<le> b then Some (n, b) else first_non_ascii (Suc n) bs)"

definition decode_ascii :: "bytes \<Rightarrow> str + str" where
  \<comment> \<open>\<open>bs.decode("ascii")\<close>; \<open>Inl\<close> is the message of the \<open>UnicodeDecodeError\<close>\<close>
  "decode_ascii bs = (case first_non_ascii 0 bs of
     None \<Rightarrow> Inr (map char_of bs)
   | Some (n, b) \<Rightarrow> Inl ([CHR 0x27] @ ''ascii'' @ [CHR 0x27] @ '' codec can'' @ [CHR 0x27] @ ''t decode byte 0x''
       @ hexdigest [b] @ '' in position '' @ show_nat n @ '': ordinal not in range(128)''))"

fun occurs :: "bytes \<Rightarrow> bytes \<Rightarrow> bool" where
  \<comment> \<open>\<open>pattern in text\<close>\<close>
  "occurs p [] = (p = [])"
| "occurs p (b # bs) = (take (length p) (b # bs) = p \<or> occurs p bs)"

definition post_check :: "saml_env \<Rightarrow> bytes \<Rightarrow> bytes \<Rightarrow> str option" where
  "post_check X xml_bytes pem =
     (case decode_ascii pem of Inl e \<Rightarrow> Some e | Inr text \<Rightarrow> sx_xml_verify X xml_bytes text)"

definition verify_post_signature :: "saml_env \<Rightarrow> bytes \<Rightarrow> bytes list \<Rightarrow> str option" where
  "verify_post_signature X xml_bytes cert_pems =
     (if \<not> occurs (encode_utf8 ''Signature'') xml_bytes then
        Some ''AuthnRequest carries no XML signature (required by want_authn_requests_signed)''
      else if cert_pems = [] then Some no_certificates
      else map_option (\<lambda>e. ''POST-binding XML signature did not verify against any registered ''
             @ ''SP certificate: '' @ e)
           (some_certificate (post_check X xml_bytes) ''None'' cert_pems))"

definition document_signed :: "saml_env \<Rightarrow> bytes list \<Rightarrow> bytes \<Rightarrow> bool" where
  "document_signed X cert_pems xml_bytes \<longleftrightarrow>
     (\<exists>pem \<in> set cert_pems. \<exists>text. decode_ascii pem = Inr text \<and> sx_xml_verify X xml_bytes text = None)"

lemma post_check_None: "post_check X xml pem = None \<longleftrightarrow>
    (\<exists>text. decode_ascii pem = Inr text \<and> sx_xml_verify X xml text = None)"
  by (auto simp: post_check_def split: sum.split)

interpretation post_binding: certificate_check "verify_post_signature X"
    "occurs (encode_utf8 ''Signature'')" "\<lambda>xml pem. post_check X xml pem = None" for X
  by unfold_locales (auto simp: verify_post_signature_def some_certificate_iff)

lemma verified_document_signed:
  "verify_post_signature X xml cert_pems = None \<Longrightarrow> document_signed X cert_pems xml"
  by (drule post_binding.validated) (auto simp: document_signed_def post_check_None)

end
