(* ===== verification/Saml.thy ===== *)
theory Saml
  imports Saml_Verification Authorize Ui_Auth
begin

text \<open>
  \<open>routes/saml.py\<close>: single sign-on under both bindings, the metadata, and the attribute query. The
  raw query string and the body of a request, which only these routes read, are arguments next to
  the request. Building a document draws identifiers; a string that XML cannot carry makes lxml
  raise \<open>ValueError\<close>, wherever in the document it stands, so the whole tree is built and checked.
\<close>

subsection \<open>Parsing a request\<close>

definition get_c14n_algorithm :: "str \<Rightarrow> c14n" where
  "get_c14n_algorithm v = (if v = ''c14n'' then Canonical_1_0 else if v = ''c14n11'' then Canonical_1_1
     else Exclusive_1_0)"

definition decode_saml_request_bytes :: "saml_env \<Rightarrow> str \<Rightarrow> str + bytes" where
  "decode_saml_request_bytes X b64 =
     (case b64decode False b64 of
        Inl e \<Rightarrow> Inl e
      | Inr decoded \<Rightarrow> Inr (case sx_inflate X decoded of Some xml \<Rightarrow> xml | None \<Rightarrow> decoded))"

record authn_request =
  ar_id :: "str option"
  ar_acs_url :: "str option"
  ar_issuer :: "str option"

definition authn_request_of :: "element \<Rightarrow> authn_request" where
  "authn_request_of root =
     \<lparr>ar_id = dget (el_attribs root) ''ID'',
      ar_acs_url = dget (el_attribs root) ''AssertionConsumerServiceURL'',
      ar_issuer = (case el_find (saml2 ''Issuer'') root of
          None \<Rightarrow> None
        | Some e \<Rightarrow> if opt_true (el_text e) then Some (py_strip (the (el_text e))) else None)\<rparr>"

definition saml_request_xml :: "saml_env \<Rightarrow> bytes \<Rightarrow> str \<Rightarrow> bool \<Rightarrow> bytes option" where
  \<comment> \<open>the binding: strict by the verb, lenient by trying to inflate\<close>
  "saml_request_xml X decoded http_verb strict =
     (if strict then (if http_verb = ''GET'' then sx_inflate X decoded else Some decoded)
      else (case sx_inflate X decoded of Some xml \<Rightarrow> Some xml | None \<Rightarrow> Some decoded))"

definition parse_saml_request :: "saml_env \<Rightarrow> str \<Rightarrow> str \<Rightarrow> bool \<Rightarrow> authn_request option" where
  "parse_saml_request X b64 http_verb strict =
     (case b64decode False b64 of
        Inl e \<Rightarrow> None
      | Inr decoded \<Rightarrow>
          (case saml_request_xml X decoded http_verb strict of
             None \<Rightarrow> None
           | Some xml \<Rightarrow> map_option authn_request_of (sx_parse X xml)))"

subsection \<open>Documents\<close>

definition uuid_hex :: "lib \<Rightarrow> nat \<Rightarrow> str" where
  "uuid_hex L n = filter (\<lambda>c. c \<noteq> CHR ''-'') (lib_uuid L n)"

definition saml_id :: "saml_env \<Rightarrow> nat \<Rightarrow> str" where
  "saml_id X n = CHR ''_'' # uuid_hex (sx_lib X) n"

definition el_text_only :: "str \<Rightarrow> str \<Rightarrow> element" where
  "el_text_only g s = Element g [] (Some s) []"

definition element_ok :: "saml_env \<Rightarrow> element \<Rightarrow> bool" where
  "element_ok X e \<longleftrightarrow> list_all (sx_text_ok X) (el_strings e)"

definition nameid_unspecified :: str where
  "nameid_unspecified = ''urn:oasis:names:tc:SAML:1.1:nameid-format:unspecified''"

definition in_response :: "str option \<Rightarrow> (str, str) dict" where
  \<comment> \<open>set only when the request has an identifier\<close>
  "in_response i = (if opt_true i then [(''InResponseTo'', the i)] else [])"

definition status_element :: "str \<Rightarrow> element list \<Rightarrow> element" where
  "status_element code sub = Element (saml2p ''Status'') [] None
     [Element (saml2p ''StatusCode'') [(''Value'', ''urn:oasis:names:tc:SAML:2.0:status:'' @ code)] None sub]"

definition sso_assertion :: "saml_env \<Rightarrow> time \<Rightarrow> nat \<Rightarrow> str \<Rightarrow> str \<Rightarrow> str \<Rightarrow> str \<Rightarrow> (str, json) dict
    \<Rightarrow> str option \<Rightarrow> str \<Rightarrow> element" where
  "sso_assertion X now n acs_url issuer audience name_id attributes in_response_to authn_context =
     Element (saml2 ''Assertion'')
       [(''ID'', saml_id X (Suc n)), (''Version'', ''2.0''), (''IssueInstant'', saml_instant now)] None
       ([el_text_only (saml2 ''Issuer'') issuer,
         Element (saml2 ''Subject'') [] None
           [Element (saml2 ''NameID'') [(''Format'', nameid_unspecified)] (Some name_id) [],
            Element (saml2 ''SubjectConfirmation'') [(''Method'', ''urn:oasis:names:tc:SAML:2.0:cm:bearer'')] None
              [Element (saml2 ''SubjectConfirmationData'')
                 ([(''NotOnOrAfter'', saml_instant (now + secs 300)), (''Recipient'', acs_url)]
                  @ in_response in_response_to) None []]],
         Element (saml2 ''Conditions'')
           [(''NotBefore'', saml_instant now), (''NotOnOrAfter'', saml_instant (now + secs 300))] None
           [Element (saml2 ''AudienceRestriction'') [] None [el_text_only (saml2 ''Audience'') audience]],
         Element (saml2 ''AuthnStatement'')
           [(''AuthnInstant'', saml_instant now), (''SessionIndex'', saml_id X (Suc (Suc n)))] None
           [Element (saml2 ''AuthnContext'') [] None
             [el_text_only (saml2 ''AuthnContextClassRef'') authn_context]]]
        @ append_attribute_statement attributes)"

definition sso_response :: "saml_env \<Rightarrow> time \<Rightarrow> nat \<Rightarrow> str \<Rightarrow> str \<Rightarrow> str option \<Rightarrow> element \<Rightarrow> element" where
  "sso_response X now n acs_url issuer in_response_to assertion =
     Element (saml2p ''Response'')
       ([(''ID'', saml_id X n), (''Version'', ''2.0''), (''IssueInstant'', saml_instant now),
         (''Destination'', acs_url)] @ in_response in_response_to) None
       [el_text_only (saml2 ''Issuer'') issuer, status_element ''Success'' [], assertion]"

definition replace_last_child :: "element \<Rightarrow> element \<Rightarrow> element" where
  \<comment> \<open>\<open>resp.remove(assertion); resp.append(signed)\<close>\<close>
  "replace_last_child e c = Element (el_tag e) (el_attribs e) (el_text e) (butlast (el_children e) @ [c])"

definition sign_assertion :: "saml_env \<Rightarrow> world \<Rightarrow> element \<Rightarrow> exn + element" where
  "sign_assertion X w assertion =
     (case sx_idp_cert X of
        None \<Rightarrow> Inl RaiseOs
      | Some pem \<Rightarrow>
          (case decode_ascii pem of
             Inl e \<Rightarrow> Inl RaiseValue
           | Inr cert \<Rightarrow> sx_sign X (get_c14n_algorithm (s_saml_c14n_algorithm (w_settings w)))
               (cr_priv_pem (w_crypto w)) cert (dget (el_attribs assertion) ''ID'') assertion))"

definition build_saml_response :: "saml_env \<Rightarrow> time \<Rightarrow> str \<Rightarrow> str \<Rightarrow> str \<Rightarrow> str \<Rightarrow> (str, json) dict
    \<Rightarrow> str option \<Rightarrow> bool \<Rightarrow> str \<Rightarrow> world \<Rightarrow> (exn + str) \<times> world" where
  "build_saml_response X now acs_url issuer audience name_id attributes in_response_to sign authn_context w =
     (let n = w_draws w;
          w' = w\<lparr>w_draws := n + 3\<rparr>;
          assertion = sso_assertion X now n acs_url issuer audience name_id attributes in_response_to
                        authn_context;
          resp = sso_response X now n acs_url issuer in_response_to assertion
      in (if \<not> element_ok X resp then Inl RaiseValue
          else if \<not> sign \<or> \<not> sx_signxml X then Inr (sx_tostring X Declared resp)
          else (case sign_assertion X w assertion of
             Inl e \<Rightarrow> Inl e
           | Inr sealed \<Rightarrow> Inr (sx_tostring X Declared (replace_last_child resp sealed))), w'))"

subsection \<open>Metadata\<close>

definition text_reply :: "int \<Rightarrow> str \<Rightarrow> claims \<Rightarrow> reply" where
  \<comment> \<open>a body of the media type, with what it is made of\<close>
  "text_reply status mime d = Inr \<lparr>rs_status = status, rs_headers = [(''Content-Type'', mime)],
     rs_body = Page mime d\<rparr>"

definition get_certificate_base64 :: "str \<Rightarrow> str" where
  "get_certificate_base64 cert_pem =
     concat (filter (\<lambda>line. find_sub ''-----'' line = None) (splitlines [] cert_pem))"

definition sso_service :: "str \<Rightarrow> str \<Rightarrow> element" where
  "sso_service binding location = Element ''{urn:oasis:names:tc:SAML:2.0:metadata}SingleSignOnService''
     [(''Binding'', ''urn:oasis:names:tc:SAML:2.0:bindings:'' @ binding), (''Location'', location)] None []"

definition metadata_document :: "saml_env \<Rightarrow> request \<Rightarrow> settings \<Rightarrow> element" where
  "metadata_document X rq s =
     Element ''{urn:oasis:names:tc:SAML:2.0:metadata}EntityDescriptor''
       [(''entityID'', effective_saml_entity_id rq s)] None
       [Element ''{urn:oasis:names:tc:SAML:2.0:metadata}IDPSSODescriptor''
          ((''protocolSupportEnumeration'', ''urn:oasis:names:tc:SAML:2.0:protocol'')
           # (if s_saml_want_authn_requests_signed s then [(''WantAuthnRequestsSigned'', ''true'')] else [])) None
          [Element ''{urn:oasis:names:tc:SAML:2.0:metadata}KeyDescriptor'' [(''use'', ''signing'')] None
             [Element ''{http://www.w3.org/2000/09/xmldsig#}KeyInfo'' [] None
               [Element ''{http://www.w3.org/2000/09/xmldsig#}X509Data'' [] None
                 [el_text_only ''{http://www.w3.org/2000/09/xmldsig#}X509Certificate''
                    (get_certificate_base64 (sx_cert_pem X))]]],
           sso_service ''HTTP-POST'' (effective_saml_sso_url rq s),
           sso_service ''HTTP-Redirect'' (effective_saml_sso_url rq s)]]"

definition saml_metadata :: "saml_env \<Rightarrow> request \<Rightarrow> world \<Rightarrow> reply \<times> world" where
  "saml_metadata X rq w =
     (let ent = metadata_document X rq (w_settings w) in
      (if element_ok X ent
       then text_reply 200 ''application/samlmetadata+xml'' [(''xml'', JStr (sx_tostring X DeclaredPretty ent))]
       else Inl RaiseValue, w))"

definition saml_cert :: "saml_env \<Rightarrow> world \<Rightarrow> reply \<times> world" where
  "saml_cert X w = (text_reply 200 ''application/x-pem-file'' [(''pem'', JStr (sx_cert_pem X))], w)"

subsection \<open>The signature of a request\<close>

definition abort_reply :: "int \<Rightarrow> str \<Rightarrow> reply" where
  "abort_reply status description =
     Inr \<lparr>rs_status = status, rs_headers = [], rs_body = Page ''abort'' [(''description'', JStr description)]\<rparr>"

definition verified_redirect :: "str \<Rightarrow> str \<Rightarrow> json" where
  \<comment> \<open>the entry of the session that binds a verified request\<close>
  "verified_redirect saml_request relay_state =
     JObj [(''SAMLRequest'', JStr saml_request), (''RelayState'', JStr relay_state)]"

definition continues_verified :: "str \<Rightarrow> str \<Rightarrow> world \<Rightarrow> bool" where
  "continues_verified saml_request relay_state w \<longleftrightarrow>
     (case dget (w_session w) ''saml_verified_redirect'' of
        Some (JObj d) \<Rightarrow> dget d ''SAMLRequest'' = Some (JStr saml_request)
          \<and> dget d ''RelayState'' = Some (JStr relay_state)
      | _ \<Rightarrow> False)"

definition form_verb :: "request \<Rightarrow> str option" where
  "form_verb rq = param (rq_form rq) ''saml_original_verb''"

definition reject_signature :: "time \<Rightarrow> request \<Rightarrow> str \<Rightarrow> world \<Rightarrow> reply option \<times> world" where
  "reject_signature now rq e w =
     (Some (abort_reply 400 (''AuthnRequest signature rejected: '' @ e)),
      audit_event now rq ''saml_request'' ''failed'' ''/saml/sso'' None None
        [(''reason'', JStr (''AuthnRequest signature rejected: '' @ e))] w)"

definition verify_authn_request_signature :: "saml_env \<Rightarrow> time \<Rightarrow> request \<Rightarrow> str \<Rightarrow> str \<Rightarrow> str \<Rightarrow> world
    \<Rightarrow> reply option \<times> world" where
  "verify_authn_request_signature X now rq raw_query saml_request relay_state w =
     (let certs = load_sp_certificates X (s_saml_sp_certificates (w_settings w)) in
      if \<not> s_saml_want_authn_requests_signed (w_settings w) then (None, w)
      else if rq_method rq = ''GET'' then
        (case verify_redirect_signature X raw_query certs of
           Some e \<Rightarrow> reject_signature now rq e w
         | None \<Rightarrow> (None, w\<lparr>w_session := dset ''saml_verified_redirect''
                       (verified_redirect saml_request relay_state) (w_session w)\<rparr>))
      else if py_upper (case form_verb rq of None \<Rightarrow> [] | Some v \<Rightarrow> v) = ''GET'' then
        (if continues_verified saml_request relay_state w then (None, w)
         else reject_signature now rq (''Redirect-binding login continuation does not match a ''
                @ ''signature-verified request in this session'') w)
      else (case decode_saml_request_bytes X saml_request of
          Inl e \<Rightarrow> (Some (Inl RaiseValue), w) \<comment> \<open>\<open>binascii.Error\<close> is not caught\<close>
        | Inr xml \<Rightarrow>
            (case verify_post_signature X xml certs of
               Some e \<Rightarrow> reject_signature now rq e w
             | None \<Rightarrow> (None, w))))"

subsection \<open>Single sign-on\<close>

definition valid_form_verb :: "request \<Rightarrow> bool" where
  "valid_form_verb rq \<longleftrightarrow> (case form_verb rq of None \<Rightarrow> True
     | Some v \<Rightarrow> v = [] \<or> py_upper v \<in> set [''GET'', ''POST''])"

definition original_verb :: "request \<Rightarrow> str" where
  "original_verb rq = py_upper (if opt_true (form_verb rq) then the (form_verb rq) else rq_method rq)"

definition render_saml_login :: "request \<Rightarrow> world \<Rightarrow> str \<Rightarrow> str \<Rightarrow> str option \<Rightarrow> str \<Rightarrow> reply" where
  "render_saml_login rq w saml_request relay_state err login_username =
     (if \<not> valid_form_verb rq then abort_reply 400 ''invalid saml_original_verb''
      else page_reply ''login.html''
        [(''error'', jopt err), (''saml_request'', JStr saml_request), (''relay_state'', JStr relay_state),
         (''original_verb'', JStr (original_verb rq)), (''users'', picker_json (w_config w)),
         (''persona_mode'', JBool (persona_mode_enabled (w_settings w))),
         (''two_step_login'', JBool (two_step_login_active (w_settings w))),
         (''login_username'', JStr login_username)])"

definition session_user :: "world \<Rightarrow> str option" where
  \<comment> \<open>\<open>session.get("user")\<close>, when it is true\<close>
  "session_user w = (case dget (w_session w) ''user'' of
     None \<Rightarrow> None | Some v \<Rightarrow> if json_true v then Some (json_str v) else None)"

definition sso_authenticate_inline :: "saml_env \<Rightarrow> time \<Rightarrow> request \<Rightarrow> str \<Rightarrow> str \<Rightarrow> world \<Rightarrow> str step" where
  "sso_authenticate_inline X now rq saml_request relay_state w =
     (case session_user w of
        Some username \<Rightarrow> (Inr username, w)
      | None \<Rightarrow>
          (let persona_mode = persona_mode_enabled (w_settings w);
               two_step = two_step_login_active (w_settings w);
               form_username = py_strip (param_or (rq_form rq) ''username'' []);
               form_password = param_or (rq_form rq) ''password'' [];
               phase = two_step_phase two_step form_username form_password
                         (param (rq_form rq) ''password'' \<noteq> None) (param (rq_form rq) ''username'' \<noteq> None);
               render = render_saml_login rq w saml_request relay_state
           in if phase = UsernameRequired then (Inl (render (Some ''Username is required'') []), w)
              else if phase = PasswordRequired then
                (Inl (render (Some ''Password is required'') form_username), w)
              else if phase = UsernameStep then (Inl (render None form_username), w)
              else (case interactive_authenticate (sx_lib X) (w_config w) form_username form_password of
                 Some user \<Rightarrow>
                   (let w1 = w\<lparr>w_session := dset ''_permanent'' (JBool True)
                          (dset ''auth_method'' (JStr (if persona_mode then ''persona'' else ''password''))
                            (dset ''user'' (JStr form_username) (w_session w)))\<rparr>
                    in (Inr form_username, audit_event now rq ''login'' ''success'' ''/saml/sso''
                          (Some form_username) None [] w1))
               | None \<Rightarrow>
                   (if (persona_mode \<and> form_username \<noteq> [])
                       \<or> (\<not> persona_mode \<and> form_username \<noteq> [] \<and> form_password \<noteq> [])
                    then (Inl (render (Some ''Invalid credentials'') (if two_step then form_username else [])),
                          audit_event now rq ''login'' ''failed'' ''/saml/sso'' (Some form_username) None
                            [(''reason'', JStr ''Invalid credentials'')] w)
                    else (Inl (render None (if two_step then form_username else [])), w)))))"

definition sso_parse_request :: "saml_env \<Rightarrow> request \<Rightarrow> settings \<Rightarrow> str \<Rightarrow> reply + str \<times> str option" where
  "sso_parse_request X rq s saml_request =
     (if \<not> valid_form_verb rq then Inl (abort_reply 400 ''invalid saml_original_verb'')
      else
        let verb = (if original_verb rq = [] then ''POST'' else original_verb rq);
            info = parse_saml_request X saml_request verb (s_strict_saml_binding s);
            requested = (case info of None \<Rightarrow> None | Some r \<Rightarrow> ar_acs_url r)
        in Inr (if opt_true requested then the requested else s_default_acs_url s,
                case info of None \<Rightarrow> None | Some r \<Rightarrow> ar_id r))"

definition auto_submit_form :: "str \<Rightarrow> str \<Rightarrow> str \<Rightarrow> reply" where
  \<comment> \<open>the form that posts the response, with the three values written into it\<close>
  "auto_submit_form acs_url saml_b64 relay_state =
     page_reply ''auto-submit form''
       [(''action'', JStr (html_escape acs_url)), (''SAMLResponse'', JStr saml_b64),
        (''RelayState'', JStr (html_escape relay_state))]"

definition authn_context_of :: "world \<Rightarrow> str" where
  "authn_context_of w =
     (if dget (w_session w) ''auth_method'' = Some (JStr ''persona'')
      then ''urn:oasis:names:tc:SAML:2.0:ac:classes:unspecified''
      else ''urn:oasis:names:tc:SAML:2.0:ac:classes:PasswordProtectedTransport'')"

definition saml_name_id :: "user \<Rightarrow> str \<Rightarrow> str" where
  "saml_name_id u username = (if u_email u \<noteq> [] then u_email u else username @ ''@example.org'')"

definition sso_success_response :: "saml_env \<Rightarrow> time \<Rightarrow> request \<Rightarrow> user \<Rightarrow> str \<Rightarrow> str \<Rightarrow> str option \<Rightarrow> str
    \<Rightarrow> world \<Rightarrow> reply \<times> world" where
  "sso_success_response X now rq u username acs_url in_response_to relay_state w =
     (let s = w_settings w;
          attributes = filter (\<lambda>kv. snd kv \<noteq> JNull) (resolve_saml_attributes s u False)
      in case build_saml_response X now acs_url (effective_saml_entity_id rq s) (s_audience s)
             (saml_name_id u username) attributes in_response_to (s_saml_sign_responses s)
             (authn_context_of w) w of
           (Inl e, w1) \<Rightarrow> (Inl e, w1)
         | (Inr xml, w1) \<Rightarrow>
             (auto_submit_form acs_url (b64encode (encode_utf8 xml)) relay_state,
              audit_event now rq ''saml_request'' ''success'' ''/saml/sso'' (Some username) None
                [(''acs_url'', JStr acs_url)] w1))"

definition no_acs_url :: str where
  "no_acs_url = ''AuthnRequest has no AssertionConsumerServiceURL and saml.default_acs_url is not configured''"

definition sso_params :: "request \<Rightarrow> str option \<times> str" where
  \<comment> \<open>\<open>SAMLRequest\<close> and \<open>RelayState\<close>: the form before the query string\<close>
  "sso_params rq =
     (if opt_true (param (rq_form rq) ''SAMLRequest'') then param (rq_form rq) ''SAMLRequest''
      else param (rq_args rq) ''SAMLRequest'',
      if opt_true (param (rq_form rq) ''RelayState'') then the (param (rq_form rq) ''RelayState'')
      else param_or (rq_args rq) ''RelayState'' [])"

definition sso_authenticated :: "saml_env \<Rightarrow> time \<Rightarrow> request \<Rightarrow> str \<Rightarrow> str \<Rightarrow> str \<Rightarrow> world \<Rightarrow> reply \<times> world" where
  \<comment> \<open>what follows once the request has a user\<close>
  "sso_authenticated X now rq saml_request relay_state username w =
     (case get_user (w_config w) username of
        None \<Rightarrow>
          (abort_reply 401 (''user '' @ [CHR 0x27] @ username @ [CHR 0x27] @ '' not found''),
           audit_event now rq ''saml_request'' ''failed'' ''/saml/sso'' (Some username) None
             [(''reason'', JStr ''User not found'')] w)
      | Some u \<Rightarrow>
          (case sso_parse_request X rq (w_settings w) saml_request of
             Inl r \<Rightarrow> (r, w)
           | Inr (acs_url, in_response_to) \<Rightarrow>
               if acs_url = [] then
                 (abort_reply 400 no_acs_url,
                  audit_event now rq ''saml_request'' ''failed'' ''/saml/sso'' (Some username) None
                    [(''reason'', JStr no_acs_url)] w)
               else sso_success_response X now rq u username acs_url in_response_to relay_state w))"

definition sso :: "saml_env \<Rightarrow> time \<Rightarrow> request \<Rightarrow> str \<Rightarrow> world \<Rightarrow> reply \<times> world" where
  "sso X now rq raw_query w =
     (let (saml_request, relay_state) = sso_params rq in
      if \<not> opt_true saml_request then (abort_reply 400 ''missing SAMLRequest'', w)
      else (case verify_authn_request_signature X now rq raw_query (the saml_request) relay_state w of
          (Some rejected, w1) \<Rightarrow> (rejected, w1)
        | (None, w1) \<Rightarrow>
            (case sso_authenticate_inline X now rq (the saml_request) relay_state w1 of
               (Inl page, w2) \<Rightarrow> (page, w2)
             | (Inr username, w2) \<Rightarrow>
                 sso_authenticated X now rq (the saml_request) relay_state username w2)))"

subsection \<open>The attribute query\<close>

definition query_response :: "saml_env \<Rightarrow> time \<Rightarrow> nat \<Rightarrow> str \<Rightarrow> str \<Rightarrow> element \<Rightarrow> element list \<Rightarrow> element" where
  "query_response X now n request_id issuer_url status content =
     Element (saml2p ''Response'')
       [(''ID'', saml_id X n), (''Version'', ''2.0''), (''IssueInstant'', saml_instant now),
        (''InResponseTo'', request_id)] None
       ([el_text_only (saml2 ''Issuer'') issuer_url, status] @ content)"

definition attribute_query_error_document :: "saml_env \<Rightarrow> time \<Rightarrow> nat \<Rightarrow> str \<Rightarrow> str \<Rightarrow> element" where
  "attribute_query_error_document X now n request_id issuer_url =
     query_response X now n request_id issuer_url
       (status_element ''Requester'' [Element (saml2p ''StatusCode'')
          [(''Value'', ''urn:oasis:names:tc:SAML:2.0:status:UnknownPrincipal'')] None []]) []"

definition attribute_query_document :: "saml_env \<Rightarrow> time \<Rightarrow> nat \<Rightarrow> str \<Rightarrow> (str, json) dict \<Rightarrow> str \<Rightarrow> str
    \<Rightarrow> element" where
  "attribute_query_document X now n user_id attributes request_id issuer_url =
     query_response X now n request_id issuer_url (status_element ''Success'' [])
       [Element (saml2 ''Assertion'')
          [(''ID'', saml_id X (Suc n)), (''Version'', ''2.0''), (''IssueInstant'', saml_instant now)] None
          ([el_text_only (saml2 ''Issuer'') issuer_url,
            Element (saml2 ''Subject'') [] None
              [Element (saml2 ''NameID'') [(''Format'', nameid_unspecified)] (Some user_id) []],
            Element (saml2 ''Conditions'')
              [(''NotBefore'', saml_instant now), (''NotOnOrAfter'', saml_instant (now + secs 3600))] None []]
           @ append_attribute_statement attributes)]"

definition sign_attribute_query_response :: "saml_env \<Rightarrow> world \<Rightarrow> str \<Rightarrow> bool \<Rightarrow> str" where
  \<comment> \<open>any failure to sign gives the document as it is\<close>
  "sign_attribute_query_response X w response_xml sign =
     (if \<not> sign \<or> \<not> sx_signxml X then response_xml
      else (case (sx_parse X (encode_utf8 response_xml), sx_idp_cert X) of
          (Some root, Some pem) \<Rightarrow>
            (case decode_ascii pem of
               Inl e \<Rightarrow> response_xml
             | Inr cert \<Rightarrow>
                 (case sx_sign X (get_c14n_algorithm (s_saml_c14n_algorithm (w_settings w)))
                         (cr_priv_pem (w_crypto w)) cert None root of
                    Inl e \<Rightarrow> response_xml
                  | Inr sealed \<Rightarrow> sx_tostring X Pretty sealed))
        | _ \<Rightarrow> response_xml))"

definition soap_fault :: "str \<Rightarrow> bool \<Rightarrow> reply" where
  "soap_fault message client_fault =
     text_reply 500 ''text/xml''
       [(''faultcode'', JStr (if client_fault then ''soap:Client'' else ''soap:Server'')),
        (''faultstring'', JStr message)]"

definition soap_envelope :: "str \<Rightarrow> reply" where
  "soap_envelope xml = text_reply 200 ''text/xml'' [(''xml'', JStr xml)]"

definition read_attribute_query :: "saml_env \<Rightarrow> bytes \<Rightarrow> str + str option \<times> str" where
  \<comment> \<open>the name identifier and the identifier of the query, or the message of the SOAP fault\<close>
  "read_attribute_query X data =
     (case sx_parse X data of
        None \<Rightarrow> Inl ''Request body is not well-formed XML''
      | Some root \<Rightarrow>
          (case el_find (saml2p ''AttributeQuery'') root of
             None \<Rightarrow> Inl ''Invalid AttributeQuery: AttributeQuery element not found''
           | Some attr_query \<Rightarrow>
               (case el_find (saml2 ''Subject'') attr_query of
                  None \<Rightarrow> Inl ''Invalid AttributeQuery: Subject not found''
                | Some subject \<Rightarrow>
                    (case el_find (saml2 ''NameID'') subject of
                       None \<Rightarrow> Inl ''Invalid AttributeQuery: NameID not found''
                     | Some name_id \<Rightarrow> Inr (el_text name_id,
                         (case dget (el_attribs attr_query) ''ID'' of None \<Rightarrow> ''_unknown'' | Some i \<Rightarrow> i))))))"

definition query_failed :: "saml_env \<Rightarrow> time \<Rightarrow> request \<Rightarrow> world \<Rightarrow> reply \<times> world" where
  \<comment> \<open>the catch-all of the endpoint\<close>
  "query_failed X now rq w =
     (soap_fault ''AttributeQuery failed'' False,
      audit_event now rq ''saml_attribute_query'' ''failed'' ''/saml/attribute-query'' None None
        [(''error'', JStr (sx_text_error X))] w)"

definition attribute_query :: "saml_env \<Rightarrow> time \<Rightarrow> request \<Rightarrow> bytes \<Rightarrow> world \<Rightarrow> reply \<times> world" where
  "attribute_query X now rq data w =
     (case read_attribute_query X data of
        Inl message \<Rightarrow> (soap_fault message True, w)
      | Inr (user_id, request_id) \<Rightarrow>
          (let s = w_settings w; n = w_draws w; issuer_url = effective_saml_entity_id rq s
           in case (case user_id of None \<Rightarrow> None | Some i \<Rightarrow> get_user (w_config w) i) of
                None \<Rightarrow>
                  (let w1 = w\<lparr>w_draws := n + 1\<rparr>;
                       doc = attribute_query_error_document X now n request_id issuer_url
                   in if \<not> element_ok X doc then query_failed X now rq w1
                      else (soap_envelope (sign_attribute_query_response X w1 (sx_tostring X Unadorned doc)
                              (s_saml_sign_responses s)),
                            audit_event now rq ''saml_attribute_query'' ''failed'' ''/saml/attribute-query''
                              user_id None [(''reason'', JStr ''unknown principal'')] w1))
              | Some u \<Rightarrow>
                  (let w1 = w\<lparr>w_draws := n + 2\<rparr>;
                       attributes = resolve_saml_attributes s u True;
                       doc = attribute_query_document X now n (the user_id) attributes request_id issuer_url
                   in if \<not> element_ok X doc then query_failed X now rq w1
                      else (soap_envelope (sign_attribute_query_response X w1 (sx_tostring X Pretty doc)
                              (s_saml_sign_responses s)),
                            audit_event now rq ''saml_attribute_query'' ''success'' ''/saml/attribute-query''
                              user_id None [(''attributes_count'', JInt (int (length attributes)))] w1))))"

end
