(* ===== verification/Saml_Laws.thy ===== *)
theory Saml_Laws
  imports Saml Sample_Server
begin

text \<open>
  What the SAML routes keep and what they let pass: how single sign-on changes the session, when it
  answers with an assertion, and what the documents say when they are read back. The last part is a
  sample environment for the witnesses.
\<close>

subsection \<open>Replies\<close>

definition form_reply :: "reply \<Rightarrow> bool" where
  \<comment> \<open>the reply that carries a response to the service provider\<close>
  "form_reply r \<longleftrightarrow> (case r of Inl e \<Rightarrow> False | Inr x \<Rightarrow>
     (case rs_body x of Page t d \<Rightarrow> t = ''auto-submit form'' | _ \<Rightarrow> False))"

lemma form_reply_simps [simp]:
  "form_reply (auto_submit_form a b c)" "\<not> form_reply (abort_reply n d)" "\<not> form_reply (Inl e)"
  "\<not> form_reply (render_saml_login rq w r s err u)"
  by (simp_all add: form_reply_def auto_submit_form_def page_reply_def abort_reply_def render_saml_login_def)

subsection \<open>The gate\<close>

definition sp_certificates :: "saml_env \<Rightarrow> world \<Rightarrow> bytes list" where
  "sp_certificates X w = load_sp_certificates X (s_saml_sp_certificates (w_settings w))"

definition verified_entry :: "world \<Rightarrow> json option" where
  "verified_entry w = dget (w_session w) ''saml_verified_redirect''"

lemma audit_keeps [simp]:
  "w_config (audit_event now rq t st ep u c d w) = w_config w"
  "w_session (audit_event now rq t st ep u c d w) = w_session w"
  "w_crypto (audit_event now rq t st ep u c d w) = w_crypto w"
  "verified_entry (audit_event now rq t st ep u c d w) = verified_entry w"
  by (simp_all add: audit_event_def verified_entry_def)

lemma verify_signature_cases:
  obtains (rejected) r where "fst (verify_authn_request_signature X now rq raw sr rs w) = Some r"
      "\<not> form_reply r" "w_config (snd (verify_authn_request_signature X now rq raw sr rs w)) = w_config w"
      "w_session (snd (verify_authn_request_signature X now rq raw sr rs w)) = w_session w"
  | (off) "verify_authn_request_signature X now rq raw sr rs w = (None, w)"
      "\<not> s_saml_want_authn_requests_signed (w_settings w)"
  | (redirect) "verify_authn_request_signature X now rq raw sr rs w = (None, w\<lparr>w_session :=
        dset ''saml_verified_redirect'' (verified_redirect sr rs) (w_session w)\<rparr>)"
      "s_saml_want_authn_requests_signed (w_settings w)" "rq_method rq = ''GET''"
      "query_signed X (sp_certificates X w) raw"
  | (continued) "verify_authn_request_signature X now rq raw sr rs w = (None, w)"
      "s_saml_want_authn_requests_signed (w_settings w)" "continues_verified sr rs w"
  | (post) xml where "verify_authn_request_signature X now rq raw sr rs w = (None, w)"
      "s_saml_want_authn_requests_signed (w_settings w)"
      "decode_saml_request_bytes X sr = Inr xml" "document_signed X (sp_certificates X w) xml"
proof -
  note d = verify_authn_request_signature_def Let_def
  have refused: ?thesis
    if "\<exists>e. verify_authn_request_signature X now rq raw sr rs w = reject_signature now rq e w"
    using that rejected by (auto simp: reject_signature_def)
  consider "\<not> s_saml_want_authn_requests_signed (w_settings w)"
    | "s_saml_want_authn_requests_signed (w_settings w)" "rq_method rq = ''GET''"
    | "s_saml_want_authn_requests_signed (w_settings w)" "rq_method rq \<noteq> ''GET''"
      "py_upper (case form_verb rq of None \<Rightarrow> [] | Some v \<Rightarrow> v) = ''GET''"
    | "s_saml_want_authn_requests_signed (w_settings w)" "rq_method rq \<noteq> ''GET''"
      "py_upper (case form_verb rq of None \<Rightarrow> [] | Some v \<Rightarrow> v) \<noteq> ''GET''"
    by blast
  then show ?thesis
  proof cases
    case 1
    then show ?thesis by (intro off) (simp_all add: d)
  next
    case 2
    show ?thesis
    proof (cases "verify_redirect_signature X raw (sp_certificates X w)")
      case None
      with 2 show ?thesis
        by (intro redirect verified_query_signed) (simp_all add: d sp_certificates_def)
    next
      case (Some e)
      with 2 show ?thesis by (intro refused) (auto simp: d sp_certificates_def)
    qed
  next
    case 3
    show ?thesis
    proof (cases "continues_verified sr rs w")
      case True
      with 3 show ?thesis by (intro continued) (simp_all add: d)
    next
      case False
      with 3 show ?thesis by (intro refused) (auto simp: d)
    qed
  next
    case 4
    show ?thesis
    proof (cases "decode_saml_request_bytes X sr")
      case (Inl e)
      with 4 show ?thesis by (intro rejected [of "Inl RaiseValue"]) (simp_all add: d)
    next
      case (Inr xml)
      show ?thesis
      proof (cases "verify_post_signature X xml (sp_certificates X w)")
        case None
        with 4 Inr show ?thesis
          by (intro post [of xml] verified_document_signed) (simp_all add: d sp_certificates_def)
      next
        case (Some e)
        with 4 Inr show ?thesis by (intro refused) (auto simp: d sp_certificates_def)
      qed
    qed
  qed
qed

subsection \<open>Authentication\<close>

definition typed_username :: "request \<Rightarrow> str" where
  "typed_username rq = py_strip (param_or (rq_form rq) ''username'' [])"

definition sso_logged_in :: "saml_env \<Rightarrow> request \<Rightarrow> world \<Rightarrow> str \<Rightarrow> bool" where
  \<comment> \<open>the session holds the user, or the form authenticates it\<close>
  "sso_logged_in X rq w name \<longleftrightarrow> session_user w = Some name
     \<or> (name = typed_username rq \<and> interactive_authenticate (sx_lib X) (w_config w) name
          (param_or (rq_form rq) ''password'' []) \<noteq> None)"

definition inline_ok :: "saml_env \<Rightarrow> request \<Rightarrow> world \<Rightarrow> str step \<Rightarrow> bool" where
  "inline_ok X rq w p \<longleftrightarrow> w_config (snd p) = w_config w \<and> w_crypto (snd p) = w_crypto w
     \<and> verified_entry (snd p) = verified_entry w
     \<and> (case fst p of Inl r \<Rightarrow> \<not> form_reply r | Inr name \<Rightarrow> sso_logged_in X rq w name)"

lemma inline_ok_if:
  "(b \<Longrightarrow> inline_ok X rq w p) \<Longrightarrow> (\<not> b \<Longrightarrow> inline_ok X rq w q) \<Longrightarrow> inline_ok X rq w (if b then p else q)"
  by simp

lemma inline_ok_option:
  "(x = None \<Longrightarrow> inline_ok X rq w p) \<Longrightarrow> (\<And>y. x = Some y \<Longrightarrow> inline_ok X rq w (f y))
    \<Longrightarrow> inline_ok X rq w (case x of None \<Rightarrow> p | Some y \<Rightarrow> f y)"
  by (cases x) simp_all

lemma inline_ok_page: "\<not> form_reply r \<Longrightarrow> inline_ok X rq w (Inl r, w)"
  "\<not> form_reply r \<Longrightarrow> inline_ok X rq w (Inl r, audit_event now rq t st ep u c d w)"
  by (simp_all add: inline_ok_def)

lemma authenticate_inline_ok: "inline_ok X rq w (sso_authenticate_inline X now rq sr rs w)"
  unfolding sso_authenticate_inline_def Let_def
  by (intro inline_ok_option inline_ok_if inline_ok_page form_reply_simps)
    (simp_all add: inline_ok_def sso_logged_in_def typed_username_def verified_entry_def)

lemma authenticate_inline_keeps:
  "w_config (snd (sso_authenticate_inline X now rq sr rs w)) = w_config w"
  "w_crypto (snd (sso_authenticate_inline X now rq sr rs w)) = w_crypto w"
  "verified_entry (snd (sso_authenticate_inline X now rq sr rs w)) = verified_entry w"
  using authenticate_inline_ok 
    [where X = X and rq = rq and w = w and now = now and sr = sr and rs = rs] by (simp_all add: inline_ok_def)

lemma authenticate_inline_page:
  "fst (sso_authenticate_inline X now rq sr rs w) = Inl r \<Longrightarrow> \<not> form_reply r"
  using authenticate_inline_ok 
    [where X = X and rq = rq and w = w and now = now and sr = sr and rs = rs] by (simp add: inline_ok_def)

lemma authenticate_inline_user:
  "fst (sso_authenticate_inline X now rq sr rs w) = Inr name \<Longrightarrow> sso_logged_in X rq w name"
  using authenticate_inline_ok 
    [where X = X and rq = rq and w = w and now = now and sr = sr and rs = rs] by (simp add: inline_ok_def)

subsection \<open>Documents\<close>

lemma build_keeps:
  "snd (build_saml_response X now acs iss aud nid att irt sign ctx w) = w\<lparr>w_draws := w_draws w + 3\<rparr>"
  by (simp add: build_saml_response_def Let_def)

lemma success_keeps:
  "w_config (snd (sso_success_response X now rq u name acs irt rs w)) = w_config w"
  "w_session (snd (sso_success_response X now rq u name acs irt rs w)) = w_session w"
proof -
  obtain x where b: "build_saml_response X now acs (effective_saml_entity_id rq (w_settings w))
      (s_audience (w_settings w)) (saml_name_id u name)
      (filter (\<lambda>kv. snd kv \<noteq> JNull) (resolve_saml_attributes (w_settings w) u False)) irt
      (s_saml_sign_responses (w_settings w)) (authn_context_of w) w = (x, w\<lparr>w_draws := w_draws w + 3\<rparr>)"
    using build_keeps by (metis prod.collapse)
  show "w_config (snd (sso_success_response X now rq u name acs irt rs w)) = w_config w"
    "w_session (snd (sso_success_response X now rq u name acs irt rs w)) = w_session w"
    by (simp_all add: sso_success_response_def Let_def b split: sum.split)
qed

lemma authenticated_keeps:
  "w_config (snd (sso_authenticated X now rq sr rs name w)) = w_config w"
  "w_session (snd (sso_authenticated X now rq sr rs name w)) = w_session w"
  by (simp_all add: sso_authenticated_def success_keeps split: option.split sum.split)

lemma authenticated_form:
  assumes "form_reply (fst (sso_authenticated X now rq sr rs name w))"
  obtains u acs irt where "get_user (w_config w) name = Some u"
    "sso_parse_request X rq (w_settings w) sr = Inr (acs, irt)" "acs \<noteq> []"
    "sso_authenticated X now rq sr rs name w = sso_success_response X now rq u name acs irt rs w"
  using assms
  by (auto simp: sso_authenticated_def sso_parse_request_def Let_def split: option.splits if_splits)

lemma sso_form:
  assumes "form_reply (fst (sso X now rq raw w))"
  obtains sr rs w1 name w2 where "sso_params rq = (Some sr, rs)" "sr \<noteq> []"
    "verify_authn_request_signature X now rq raw sr rs w = (None, w1)"
    "sso_authenticate_inline X now rq sr rs w1 = (Inr name, w2)"
    "sso X now rq raw w = sso_authenticated X now rq sr rs name w2"
proof -
  obtain sr rs where p: "sso_params rq = (Some sr, rs)" "sr \<noteq> []"
    using assms by (cases "sso_params rq") (auto simp: sso_def opt_true_def split: if_splits)
  obtain v w1 where v: "verify_authn_request_signature X now rq raw sr rs w = (v, w1)" by fastforce
  obtain a w2 where a: "sso_authenticate_inline X now rq sr rs w1 = (a, w2)" by fastforce
  have vN: "v = None"
  proof (cases v)
    case (Some r)
    with v have "\<not> form_reply r" by (cases rule: verify_signature_cases [of X now rq raw sr rs w]) auto
    with assms p v Some show ?thesis by (simp add: sso_def)
  qed
  obtain name where aR: "a = Inr name"
  proof (cases a)
    case (Inl r)
    with a have "\<not> form_reply r" using authenticate_inline_page [where X = X and now = now and rq = rq and sr = sr and rs = rs and w = w1] by simp
    with assms p v vN a Inl show ?thesis by (simp add: sso_def)
  qed
  from p v vN a aR show ?thesis by (intro that [of sr rs w1 name w2]) (simp_all add: sso_def)
qed

lemma verify_signature_keeps:
  "w_config (snd (verify_authn_request_signature X now rq raw sr rs w)) = w_config w"
  "fst (verify_authn_request_signature X now rq raw sr rs w) = None \<Longrightarrow>
     w_crypto (snd (verify_authn_request_signature X now rq raw sr rs w)) = w_crypto w"
  "fst (verify_authn_request_signature X now rq raw sr rs w) = None \<Longrightarrow>
     session_user (snd (verify_authn_request_signature X now rq raw sr rs w)) = session_user w"
  by (cases rule: verify_signature_cases [of X now rq raw sr rs w]; simp add: session_user_def)+

lemma sso_logged_in_cong:
  "session_user w' = session_user w \<Longrightarrow> w_config w' = w_config w \<Longrightarrow> sso_logged_in X rq w' name = sso_logged_in X rq w name"
  by (simp add: sso_logged_in_def)

text \<open>What single sign-on leaves behind: the configuration, and in the session an entry for a verified request.\<close>

definition approves :: "saml_env \<Rightarrow> bytes list \<Rightarrow> request \<Rightarrow> str \<Rightarrow> str \<Rightarrow> str \<Rightarrow> bool" where
  \<comment> \<open>a GET that carries the request, with a query string whose signature verifies\<close>
  "approves X certs rq raw sr rs \<longleftrightarrow> rq_method rq = ''GET'' \<and> sso_params rq = (Some sr, rs)
     \<and> query_signed X certs raw"

lemma sso_keeps:
  shows "w_config (snd (sso X now rq raw w)) = w_config w"
    and "verified_entry (snd (sso X now rq raw w)) = verified_entry w
      \<or> (\<exists>sr rs. verified_entry (snd (sso X now rq raw w)) = Some (verified_redirect sr rs)
           \<and> approves X (sp_certificates X w) rq raw sr rs)"
proof -
  obtain sr rs where p: "sso_params rq = (sr, rs)" by fastforce
  define x where "x = verify_authn_request_signature X now rq raw (the sr) rs w"
  define y where "y = sso_authenticate_inline X now rq (the sr) rs (snd x)"
  have y: "w_config (snd y) = w_config (snd x)" "verified_entry (snd y) = verified_entry (snd x)"
    by (simp_all add: y_def authenticate_inline_keeps)
  have auth: "verified_entry (snd (sso_authenticated X now rq sr' rs' name v)) = verified_entry v" for sr' rs' name v
    by (simp add: verified_entry_def authenticated_keeps)
  have step: "\<not> opt_true sr \<and> snd (sso X now rq raw w) = w \<or>
      opt_true sr \<and> w_config (snd (sso X now rq raw w)) = w_config (snd x)
        \<and> verified_entry (snd (sso X now rq raw w)) = verified_entry (snd x)"
    using y by (auto simp: sso_def p x_def y_def authenticated_keeps auth split: prod.splits option.splits sum.splits)
  have "w_config (snd x) = w_config w" by (simp add: x_def verify_signature_keeps)
  with step show "w_config (snd (sso X now rq raw w)) = w_config w" by auto
  have "verified_entry (snd x) = verified_entry w
      \<or> (verified_entry (snd x) = Some (verified_redirect (the sr) rs)
         \<and> approves X (sp_certificates X w) rq raw (the sr) rs)" if "opt_true sr"
    unfolding x_def
    by (cases rule: verify_signature_cases [of X now rq raw "the sr" rs w])
      (use p that in \<open>auto simp: verified_entry_def approves_def opt_true_def\<close>)
  with step show "verified_entry (snd (sso X now rq raw w)) = verified_entry w
      \<or> (\<exists>sr rs. verified_entry (snd (sso X now rq raw w)) = Some (verified_redirect sr rs)
           \<and> approves X (sp_certificates X w) rq raw sr rs)" by auto
qed

text \<open>An answer with an assertion, step by step.\<close>

lemma sso_answer:
  assumes "form_reply (fst (sso X now rq raw w))"
  obtains sr rs name u acs irt w2 where "sso_params rq = (Some sr, rs)"
    "s_saml_want_authn_requests_signed (w_settings w) \<longrightarrow> approves X (sp_certificates X w) rq raw sr rs
      \<or> continues_verified sr rs w
      \<or> (\<exists>xml. decode_saml_request_bytes X sr = Inr xml \<and> document_signed X (sp_certificates X w) xml)"
    "sso_logged_in X rq w name" "get_user (w_config w) name = Some u"
    "sso_parse_request X rq (w_settings w) sr = Inr (acs, irt)" "acs \<noteq> []"
    "w_config w2 = w_config w" "w_crypto w2 = w_crypto w"
    "sso X now rq raw w = sso_success_response X now rq u name acs irt rs w2"
proof -
  obtain sr rs w1 name w2 where a: "sso_params rq = (Some sr, rs)" "sr \<noteq> []"
    "verify_authn_request_signature X now rq raw sr rs w = (None, w1)"
    "sso_authenticate_inline X now rq sr rs w1 = (Inr name, w2)"
    "sso X now rq raw w = sso_authenticated X now rq sr rs name w2"
    by (rule sso_form [OF assms])
  have w1: "w_config w1 = w_config w" "w_crypto w1 = w_crypto w" "session_user w1 = session_user w"
    using verify_signature_keeps [of X now rq raw sr rs w] a(3) by simp_all
  have w2: "w_config w2 = w_config w1" "w_crypto w2 = w_crypto w1"
    using authenticate_inline_keeps [of X now rq sr rs w1] a(4) by simp_all
  have l: "sso_logged_in X rq w name"
    using authenticate_inline_user [of X now rq sr rs w1 name] a(4) sso_logged_in_cong [OF w1(3,1)] by simp
  have v: "approves X (sp_certificates X w) rq raw sr rs \<or> continues_verified sr rs w
      \<or> (\<exists>xml. decode_saml_request_bytes X sr = Inr xml \<and> document_signed X (sp_certificates X w) xml)"
    if "s_saml_want_authn_requests_signed (w_settings w)"
    by (cases rule: verify_signature_cases [of X now rq raw sr rs w])
      (use a that in \<open>auto simp: approves_def\<close>)
  obtain u acs irt where "get_user (w_config w2) name = Some u"
    "sso_parse_request X rq (w_settings w2) sr = Inr (acs, irt)" "acs \<noteq> []"
    "sso_authenticated X now rq sr rs name w2 = sso_success_response X now rq u name acs irt rs w2"
    by (rule authenticated_form [of X now rq sr rs name w2]) (use assms a(5) in simp)
  then show ?thesis using that [of sr rs name u acs irt w2] a v l w1 w2 by simp
qed

subsection \<open>Other operations of the same browser\<close>

definition keeps_entry :: "world \<Rightarrow> 'a \<times> world \<Rightarrow> bool" where
  "keeps_entry w p \<longleftrightarrow> w_config (snd p) = w_config w
     \<and> (verified_entry (snd p) = verified_entry w \<or> verified_entry (snd p) = None)"

lemma keeps_entry_if:
  "(b \<Longrightarrow> keeps_entry w p) \<Longrightarrow> (\<not> b \<Longrightarrow> keeps_entry w q) \<Longrightarrow> keeps_entry w (if b then p else q)"
  by simp

lemma keeps_entry_option:
  "(x = None \<Longrightarrow> keeps_entry w p) \<Longrightarrow> (\<And>y. x = Some y \<Longrightarrow> keeps_entry w (f y))
    \<Longrightarrow> keeps_entry w (case x of None \<Rightarrow> p | Some y \<Rightarrow> f y)"
  by (cases x) simp_all

lemma ui_login_keeps_entry: "keeps_entry w (ui_login L now rq w)"
  unfolding ui_login_def Let_def
  by (intro keeps_entry_option keeps_entry_if) (simp_all add: keeps_entry_def verified_entry_def)

lemma ui_logout_keeps_entry: "keeps_entry w (ui_logout now rq w)"
  by (simp add: ui_logout_def Let_def keeps_entry_def verified_entry_def split: option.split)

definition records_only :: "world \<Rightarrow> 'a \<times> world \<Rightarrow> bool" where
  \<comment> \<open>nothing but the audit log and the counter of identifiers changes\<close>
  "records_only w p \<longleftrightarrow> (snd p)\<lparr>w_audit := w_audit w, w_draws := w_draws w\<rparr> = w"

lemma records_only_leaf: "records_only w (r, w)"
  "records_only w (r, audit_event now rq t st ep u c d (w\<lparr>w_draws := n\<rparr>))"
  "records_only w (query_failed X now rq (w\<lparr>w_draws := n\<rparr>))"
  by (simp_all add: records_only_def audit_event_def query_failed_def)

lemma attribute_query_records_only: "records_only w (attribute_query X now rq data w)"
proof (cases "read_attribute_query X data")
  case (Inl m)
  then show ?thesis by (simp add: attribute_query_def records_only_leaf)
next
  case (Inr iq)
  obtain i q where iq: "iq = (i, q)" by fastforce
  show ?thesis
    by (cases "case i of None \<Rightarrow> None | Some j \<Rightarrow> get_user (w_config w) j")
      (simp_all add: attribute_query_def Inr iq Let_def records_only_leaf)
qed

lemma attribute_query_keeps_entry: "keeps_entry w (attribute_query X now rq data w)"
proof -
  obtain r v where q: "attribute_query X now rq data w = (r, v)" by fastforce
  with attribute_query_records_only [of w X now rq data]
  have v: "v\<lparr>w_audit := w_audit w, w_draws := w_draws w\<rparr> = w" by (simp add: records_only_def)
  from arg_cong [OF v, of w_config] arg_cong [OF v, of w_session] show ?thesis
    by (simp add: q keeps_entry_def verified_entry_def)
qed

subsection \<open>Reading the documents\<close>

definition text_of :: "str \<Rightarrow> element \<Rightarrow> str option" where
  "text_of name e = (case el_find (saml2 name) e of None \<Rightarrow> None | Some x \<Rightarrow> el_text x)"

definition attrib_of :: "str \<Rightarrow> str \<Rightarrow> element \<Rightarrow> str option" where
  "attrib_of name a e = (case el_find (saml2 name) e of None \<Rightarrow> None | Some x \<Rightarrow> dget (el_attribs x) a)"

definition asserted :: "element \<Rightarrow> (str \<times> str list) list" where
  \<comment> \<open>the attribute statement of the assertion, which is the last child of a response\<close>
  "asserted e = read_statement (el_children (last (el_children e)))"

definition resolved :: "settings \<Rightarrow> user \<Rightarrow> bool \<Rightarrow> (str \<times> str list) list" where
  "resolved s u acl = map (\<lambda>(n, v). (n, map json_fmt (attribute_values v))) (resolve_saml_attributes s u acl)"

lemmas document_readers = text_of_def attrib_of_def asserted_def el_find_def el_text_only_def status_element_def

lemma read_statement_Cons:
  "read_statement (Element g a x es # rest) =
     (if g = saml2 ''AttributeStatement'' then map read_attribute es else []) @ read_statement rest"
  by (simp add: read_statement_def)

lemma resolved_no_null: "JNull \<notin> snd ` set (resolve_saml_attributes s u acl)"
proof
  assume "JNull \<in> snd ` set (resolve_saml_attributes s u acl)"
  then obtain k where "(k, JNull) \<in> set (resolve_saml_attributes s u acl)" by auto
  with resolved_stated [of s u acl] show False by (auto simp: stated_def is_absent_def dest!: in_set_dget)
qed

lemma read_resolved:
  "read_statement (append_attribute_statement (resolve_saml_attributes s u acl)) = resolved s u acl"
  by (simp add: resolved_def read_append resolved_no_null)

lemma filter_resolved:
  "filter (\<lambda>kv. snd kv \<noteq> JNull) (resolve_saml_attributes s u acl) = resolve_saml_attributes s u acl"
  using resolved_no_null [of s u acl] by (intro filter_True) (auto simp: image_iff)

lemma byte_encode_utf8: "list_all byte (encode_utf8 s)"
proof (induction s)
  case (Cons c s)
  have "byte (of_char c)" "byte (192 + of_char c div 64)" "byte (128 + of_char c mod 64)"
    using of_char_int_bounds [of c] unfolding byte_def by linarith+
  with Cons show ?case by (simp add: encode_utf8_Cons)
qed (simp add: encode_utf8_def)

subsection \<open>The query string as the framework reads it\<close>

definition query_args :: "str \<Rightarrow> (str \<times> str) list" where
  \<comment> \<open>\<open>request.args\<close> of Werkzeug: names and values decoded, in order\<close>
  "query_args raw = map (\<lambda>(n, v). (unquote_plus n, unquote_plus v)) (raw_query_params raw)"

lemma split_on_append: "c \<notin> set a \<Longrightarrow> split_on c (a @ c # b) = a # split_on c b"
  by (induction a) auto

lemma raw_query_params_Cons:
  assumes "CHR ''='' \<notin> set n" "CHR ''&'' \<notin> set n" "CHR ''&'' \<notin> set v"
  shows "raw_query_params (n @ ''='' @ v @ ''&'' @ raw) = (n, v) # raw_query_params raw"
proof -
  have "split_on CHR ''&'' ((n @ ''='' @ v) @ CHR ''&'' # raw) = (n @ ''='' @ v) # split_on CHR ''&'' raw"
    using assms by (intro split_on_append) auto
  moreover have "takeWhile (\<lambda>x. x \<noteq> CHR ''='') (n @ ''='' @ v) = n"
    "dropWhile (\<lambda>x. x \<noteq> CHR ''='') (n @ ''='' @ v) = CHR ''='' # v"
    using assms(1) by (induction n) auto
  ultimately show ?thesis by (simp add: raw_query_params_def cut_before_def cut_after_def)
qed

text \<open>
  The values a signature covers, decoded. A name that is spelled out on the wire is read from there:
  the parameters of a query string with plain names are the signed ones.
\<close>

definition signed_value :: "str \<Rightarrow> str \<Rightarrow> str \<Rightarrow> bool" where
  "signed_value raw name v \<longleftrightarrow>
     (\<exists>r. (name, r) \<in> set (filter (\<lambda>(n, v). n \<in> set signed_names) (raw_query_params raw)) \<and> unquote_plus r = v)"

definition plain_names :: "str \<Rightarrow> bool" where
  "plain_names raw \<longleftrightarrow> list_all (\<lambda>(n, v). CHR ''%'' \<notin> set n \<and> CHR ''+'' \<notin> set n) (raw_query_params raw)"

lemma plain_value_is_signed:
  assumes "plain_names raw" "param (query_args raw) name = Some x" "name \<in> set signed_names"
  shows "signed_value raw name x"
proof -
  have "(name, x) \<in> set (query_args raw)" using assms(2) by (auto simp: param_def dest: map_of_SomeD)
  then obtain n v where nv: "(n, v) \<in> set (raw_query_params raw)" "unquote_plus n = name" "unquote_plus v = x"
    by (auto simp: query_args_def)
  moreover have "n = name" using assms(1) nv unquote_plus_plain [of n] by (auto simp: plain_names_def list_all_iff)
  ultimately show ?thesis using assms(3) by (auto simp: signed_value_def)
qed

text \<open>A GET as a browser sends it: no body, the arguments are those of the query string, the names are plain.\<close>

definition plain_get :: "request \<Rightarrow> str \<Rightarrow> bool" where
  "plain_get rq raw \<longleftrightarrow> rq_form rq = [] \<and> rq_args rq = query_args raw \<and> plain_names raw"

lemma plain_get_signed:
  assumes "plain_get rq raw" "sso_params rq = (Some sr, rs)"
  shows "signed_value raw ''SAMLRequest'' sr \<and> (rs = [] \<or> signed_value raw ''RelayState'' rs)"
proof -
  have "param (query_args raw) ''SAMLRequest'' = Some sr" "rs = param_or (query_args raw) ''RelayState'' []"
    using assms by (auto simp: plain_get_def sso_params_def param_def opt_true_def)
  then show ?thesis
    using assms(1) plain_value_is_signed
    by (cases "param (query_args raw) ''RelayState''")
       (auto simp: plain_get_def signed_names_def param_or_def param_def)
qed

subsection \<open>A sample\<close>

definition sample_authn :: element where
  "sample_authn = Element (saml2p ''AuthnRequest'')
     [(''ID'', ''r1''), (''AssertionConsumerServiceURL'', ''http://sp/acs'')] None
     [el_text_only (saml2 ''Issuer'') ''sp'']"

definition sample_octets :: bytes where
  "sample_octets = encode_utf8 (''SAMLRequest=PHIvPg%3D%3D&SigAlg=''
     @ ''http%3A%2F%2Fwww.w3.org%2F2001%2F04%2Fxmldsig-more%23rsa-sha256'')"

definition sample_raw :: str where
  "sample_raw = ''SAMLRequest=PHIvPg%3D%3D&SigAlg=''
     @ ''http%3A%2F%2Fwww.w3.org%2F2001%2F04%2Fxmldsig-more%23rsa-sha256&Signature=AQ%3D%3D''"

definition sample_saml :: saml_env where
  \<comment> \<open>one service provider, whose signature of the sample octets is the byte 1; nothing inflates\<close>
  "sample_saml = \<lparr>sx_lib = sample_lib, sx_file = (\<lambda>p. Some [112]), sx_idp_cert = None, sx_cert_pem = [],
     sx_inflate = (\<lambda>b. None),
     sx_parse = (\<lambda>b. if b = encode_utf8 ''<r/>'' then Some sample_authn else None),
     sx_tostring = (\<lambda>f e. ''<x/>''), sx_text_ok = (\<lambda>s. True), sx_text_error = [],
     sx_load_cert = (\<lambda>b. Inr (RsaKey [])),
     sx_rsa_verify = (\<lambda>k h sig octets. if sig = [1] \<and> octets = sample_octets then None else Some ''bad''),
     sx_xml_verify = (\<lambda>x c. Some ''bad''), sx_signxml = False, sx_sign = (\<lambda>a k c r e. Inr e)\<rparr>"

definition sample_signed :: world where
  \<comment> \<open>the sample server, with signed requests demanded\<close>
  "sample_signed = sample_world\<lparr>w_config := sample_config\<lparr>c_settings := sample_settings
     \<lparr>s_saml_want_authn_requests_signed := True, s_saml_sp_certificates := [''sp.pem'']\<rparr>\<rparr>\<rparr>"

definition sample_sso_get :: request where
  "sample_sso_get = sample_request ''GET'' [(''SAMLRequest'', ''PHIvPg==''),
     (''SigAlg'', ''http://www.w3.org/2001/04/xmldsig-more#rsa-sha256''), (''Signature'', ''AQ=='')] []"

definition sample_sso_post :: request where
  "sample_sso_post = sample_request ''POST'' []
     [(''SAMLRequest'', ''PHIvPg==''), (''saml_original_verb'', ''GET''), (''username'', ''alice''),
      (''password'', ''pw'')]"

definition sample_continued :: world where
  \<comment> \<open>the same after the signed GET\<close>
  "sample_continued = sample_signed
     \<lparr>w_session := [(''saml_verified_redirect'', verified_redirect ''PHIvPg=='' [])]\<rparr>"

lemma sample_wants: "s_saml_want_authn_requests_signed (w_settings sample_signed)"
  by code_simp

lemma sample_raw_verifies:
  "verify_redirect_signature sample_saml sample_raw (sp_certificates sample_saml sample_signed) = None"
  by code_simp

lemma sample_plain_get: "plain_get sample_sso_get sample_raw"
  by code_simp

lemma answered:
  assumes "\<And>s. sx_text_ok X s" "\<not> sx_signxml X"
  shows "form_reply (fst (sso_success_response X now rq u name acs irt rs w))"
proof -
  have "element_ok X e" for e using assms(1) by (simp add: element_ok_def list_all_iff)
  with assms(2) show ?thesis by (simp add: sso_success_response_def build_saml_response_def Let_def)
qed

lemma sample_get: "snd (sso sample_saml 0 sample_sso_get sample_raw sample_signed) = sample_continued"
proof -
  have "sso_params sample_sso_get = (Some ''PHIvPg=='', [])" by code_simp
  moreover have "verify_authn_request_signature sample_saml 0 sample_sso_get sample_raw ''PHIvPg=='' [] sample_signed =
      (None, sample_continued)"
    using sample_wants sample_raw_verifies
    by (simp add: verify_authn_request_signature_def Let_def sp_certificates_def sample_sso_get_def
        sample_request_def sample_continued_def) (simp add: sample_signed_def sample_world_def dset_def)
  moreover have "sso_authenticate_inline sample_saml 0 sample_sso_get ''PHIvPg=='' [] sample_continued =
      (Inl (render_saml_login sample_sso_get sample_continued ''PHIvPg=='' [] None []), sample_continued)"
    by code_simp
  ultimately show ?thesis by (simp add: sso_def)
qed

lemma sample_post: "form_reply (fst (sso sample_saml 1 sample_sso_post [] sample_continued))"
proof -
  obtain a w2 where a: "sso_authenticate_inline sample_saml 1 sample_sso_post ''PHIvPg=='' [] sample_continued = (a, w2)"
    by fastforce
  have "fst (sso_authenticate_inline sample_saml 1 sample_sso_post ''PHIvPg=='' [] sample_continued) = Inr ''alice''"
    by code_simp
  moreover have c: "w_config w2 = w_config sample_continued"
    using authenticate_inline_keeps(1) [of sample_saml 1 sample_sso_post "''PHIvPg==''" "[]" sample_continued] a
    by simp
  moreover have "get_user (w_config sample_continued) ''alice'' = Some sample_user" by code_simp
  moreover have "sso_parse_request sample_saml sample_sso_post (w_settings sample_continued) ''PHIvPg=='' =
      Inr (''http://sp/acs'', Some ''r1'')"
    by code_simp
  moreover have "sso_params sample_sso_post = (Some ''PHIvPg=='', [])" by code_simp
  moreover have "verify_authn_request_signature sample_saml 1 sample_sso_post [] ''PHIvPg=='' [] sample_continued =
      (None, sample_continued)"
    by code_simp
  moreover have "sx_text_ok sample_saml s" "\<not> sx_signxml sample_saml" for s by (simp_all add: sample_saml_def)
  ultimately show ?thesis by (simp add: sso_def sso_authenticated_def a answered)
qed

end
