(* ===== verification/Saml_Properties.thy ===== *)
theory Saml_Properties
  imports Saml_Laws
begin

text \<open>
  The properties of the SAML routes: which requests are answered with an assertion over a whole
  browser session, what the signature of a Redirect-binding request does not cover, what an
  assertion and the answer to an attribute query carry, and what strict binding does with a request
  that violates it.
\<close>

subsection \<open>A browser session\<close>

datatype saml_op = Sso time request str | Query time request bytes | Login time request | Logout time request

definition saml_step :: "saml_env \<Rightarrow> saml_op \<Rightarrow> world \<Rightarrow> world" where
  "saml_step X x w = (case x of
     Sso now rq raw \<Rightarrow> snd (sso X now rq raw w)
   | Query now rq data \<Rightarrow> snd (attribute_query X now rq data w)
   | Login now rq \<Rightarrow> snd (ui_login (sx_lib X) now rq w)
   | Logout now rq \<Rightarrow> snd (ui_logout now rq w))"

definition saml_run :: "saml_env \<Rightarrow> saml_op list \<Rightarrow> world \<Rightarrow> world" where
  "saml_run X xs w = fold (saml_step X) xs w"

definition approved :: "saml_env \<Rightarrow> bytes list \<Rightarrow> saml_op list \<Rightarrow> str \<Rightarrow> str \<Rightarrow> bool" where
  \<comment> \<open>some request of the session carried them in a URL whose signature verifies\<close>
  "approved X certs xs sr rs \<longleftrightarrow> (\<exists>now rq raw. Sso now rq raw \<in> set xs \<and> approves X certs rq raw sr rs)"

definition entry_approved :: "saml_env \<Rightarrow> bytes list \<Rightarrow> saml_op list \<Rightarrow> world \<Rightarrow> bool" where
  "entry_approved X certs xs w \<longleftrightarrow> verified_entry w = None
     \<or> (\<exists>sr rs. verified_entry w = Some (verified_redirect sr rs) \<and> approved X certs xs sr rs)"

lemma approved_append: "approved X certs xs sr rs \<Longrightarrow> approved X certs (xs @ ys) sr rs"
  by (auto simp: approved_def)

lemma verified_redirect_eq [simp]: "verified_redirect a b = verified_redirect c d \<longleftrightarrow> a = c \<and> b = d"
  by (auto simp: verified_redirect_def)

lemma step_keeps:
  assumes "s_saml_want_authn_requests_signed (w_settings w)" "entry_approved X (sp_certificates X w) xs w"
  shows "w_config (saml_step X x w) = w_config w
    \<and> entry_approved X (sp_certificates X w) (xs @ [x]) (saml_step X x w)"
proof (cases x)
  case (Sso now rq raw)
  have c: "w_config (saml_step X x w) = w_config w" by (simp add: Sso saml_step_def sso_keeps)
  consider "verified_entry (saml_step X x w) = verified_entry w"
    | sr rs where "verified_entry (saml_step X x w) = Some (verified_redirect sr rs)"
      "approves X (sp_certificates X w) rq raw sr rs"
    using sso_keeps(2) [of X now rq raw w] by (auto simp: Sso saml_step_def)
  then have "entry_approved X (sp_certificates X w) (xs @ [x]) (saml_step X x w)"
  proof cases
    case 1
    with assms(2) show ?thesis by (auto simp: entry_approved_def approved_append)
  next
    case 2
    then show ?thesis by (auto simp: entry_approved_def approved_def Sso)
  qed
  with c show ?thesis by simp
next
  case (Query now rq data)
  with assms(2) attribute_query_keeps_entry [of w X now rq data] show ?thesis
    by (auto simp: saml_step_def keeps_entry_def entry_approved_def approved_append)
next
  case (Login now rq)
  with assms(2) ui_login_keeps_entry [of w "sx_lib X" now rq] show ?thesis
    by (auto simp: saml_step_def keeps_entry_def entry_approved_def approved_append)
next
  case (Logout now rq)
  with assms(2) ui_logout_keeps_entry [of w now rq] show ?thesis
    by (auto simp: saml_step_def keeps_entry_def entry_approved_def approved_append)
qed

lemma sp_certificates_cong: "w_config w' = w_config w \<Longrightarrow> sp_certificates X w' = sp_certificates X w"
  by (simp add: sp_certificates_def)

lemma run_keeps:
  assumes "s_saml_want_authn_requests_signed (w_settings w)" "verified_entry w = None"
  shows "w_config (saml_run X xs w) = w_config w
    \<and> entry_approved X (sp_certificates X w) xs (saml_run X xs w)"
proof (induction xs rule: rev_induct)
  case Nil
  with assms show ?case by (simp add: saml_run_def entry_approved_def)
next
  case (snoc x xs)
  with assms(1) sp_certificates_cong [of "saml_run X xs w" w X] step_keeps [of "saml_run X xs w" X xs x]
  show ?case by (simp add: saml_run_def)
qed

lemma continues_entry:
  "continues_verified sr rs w \<Longrightarrow> verified_entry w = Some (verified_redirect sr' rs') \<Longrightarrow> sr' = sr \<and> rs' = rs"
  by (simp add: continues_verified_def verified_entry_def verified_redirect_def dget_Cons)

lemma no_entry_continues: "verified_entry w = None \<Longrightarrow> \<not> continues_verified sr rs w"
  by (simp add: continues_verified_def verified_entry_def)

definition vouched :: "saml_env \<Rightarrow> bytes list \<Rightarrow> str \<Rightarrow> str \<Rightarrow> str \<Rightarrow> bool" where
  \<comment> \<open>a query string that is signed, request and relay state included\<close>
  "vouched X certs raw sr rs \<longleftrightarrow> query_signed X certs raw \<and> signed_value raw ''SAMLRequest'' sr
     \<and> (rs = [] \<or> signed_value raw ''RelayState'' rs)"

text \<open>
  C19. With signed requests demanded, single sign-on answers with an assertion only to an existing
  user who is logged in, and only for a request that a registered certificate vouches for: its own
  XML is signed, or it was sent, in this browser session, by a GET whose query string carries a
  signature that a registered certificate made, by the algorithm named, over a part that contains this
  very request and relay state. This holds for every order of sign-ons, attribute queries, logins and
  logouts, when the GETs are those of a browser: without a body, parsed from the query string, the
  names of the parameters spelled plainly.
\<close>

theorem saml_assertions_need_a_signed_request:
  assumes "s_saml_want_authn_requests_signed (w_settings w)" "verified_entry w = None"
    and "\<forall>t r q. Sso t r q \<in> set (xs @ [Sso now rq raw]) \<longrightarrow> rq_method r = ''GET'' \<longrightarrow> plain_get r q"
    and "form_reply (fst (sso X now rq raw (saml_run X xs w)))"
  shows "\<exists>sr rs name. sso_params rq = (Some sr, rs)
    \<and> get_user (w_config w) name \<noteq> None \<and> sso_logged_in X rq (saml_run X xs w) name
    \<and> ((\<exists>xml. decode_saml_request_bytes X sr = Inr xml \<and> document_signed X (sp_certificates X w) xml)
       \<or> (\<exists>t r q. Sso t r q \<in> set (xs @ [Sso now rq raw]) \<and> vouched X (sp_certificates X w) q sr rs))"
proof -
  let ?v = "saml_run X xs w"
  have c: "w_config ?v = w_config w" and e: "entry_approved X (sp_certificates X w) xs ?v"
    using run_keeps [OF assms(1,2), of X xs] by simp_all
  obtain sr rs name u acs irt w2 where a: "sso_params rq = (Some sr, rs)"
    "s_saml_want_authn_requests_signed (w_settings ?v) \<longrightarrow> approves X (sp_certificates X ?v) rq raw sr rs
      \<or> continues_verified sr rs ?v
      \<or> (\<exists>xml. decode_saml_request_bytes X sr = Inr xml \<and> document_signed X (sp_certificates X ?v) xml)"
    "sso_logged_in X rq ?v name" "get_user (w_config ?v) name = Some u"
    "sso_parse_request X rq (w_settings ?v) sr = Inr (acs, irt)" "acs \<noteq> []"
    "w_config w2 = w_config ?v" "w_crypto w2 = w_crypto ?v"
    "sso X now rq raw ?v = sso_success_response X now rq u name acs irt rs w2"
    by (rule sso_answer [OF assms(4)])
  have "approved X (sp_certificates X w) xs sr rs" if "continues_verified sr rs ?v"
    using e that no_entry_continues continues_entry [OF that] by (auto simp: entry_approved_def)
  with a(2) assms(1) c have either: "(\<exists>xml. decode_saml_request_bytes X sr = Inr xml
        \<and> document_signed X (sp_certificates X w) xml)
      \<or> approved X (sp_certificates X w) (xs @ [Sso now rq raw]) sr rs"
    by (auto simp: sp_certificates_cong [OF c] approved_append) (auto simp: approved_def)
  have "\<exists>t r q. Sso t r q \<in> set (xs @ [Sso now rq raw]) \<and> vouched X (sp_certificates X w) q sr rs"
    if "approved X (sp_certificates X w) (xs @ [Sso now rq raw]) sr rs"
    using that assms(3) plain_get_signed unfolding approved_def approves_def vouched_def by blast
  with either a c show ?thesis by auto
qed

lemma saml_assertions_need_a_signed_request_witness:
  "\<exists>sr rs name. sso_params sample_sso_post = (Some sr, rs)
    \<and> get_user (w_config sample_signed) name \<noteq> None
    \<and> sso_logged_in sample_saml sample_sso_post
        (saml_run sample_saml [Sso 0 sample_sso_get sample_raw] sample_signed) name
    \<and> ((\<exists>xml. decode_saml_request_bytes sample_saml sr = Inr xml
          \<and> document_signed sample_saml (sp_certificates sample_saml sample_signed) xml)
       \<or> (\<exists>t r q. Sso t r q \<in> set ([Sso 0 sample_sso_get sample_raw] @ [Sso 1 sample_sso_post []])
           \<and> vouched sample_saml (sp_certificates sample_saml sample_signed) q sr rs))"
proof (rule saml_assertions_need_a_signed_request [OF sample_wants])
  show "verified_entry sample_signed = None" by code_simp
  have "rq_method sample_sso_post \<noteq> ''GET''" by code_simp
  then show "\<forall>t r q. Sso t r q \<in> set ([Sso 0 sample_sso_get sample_raw] @ [Sso 1 sample_sso_post []]) \<longrightarrow>
      rq_method r = ''GET'' \<longrightarrow> plain_get r q"
    using sample_plain_get by auto
  show "form_reply (fst (sso sample_saml 1 sample_sso_post []
      (saml_run sample_saml [Sso 0 sample_sso_get sample_raw] sample_signed)))"
    using sample_post by (simp add: saml_run_def saml_step_def sample_get)
qed

subsection \<open>What the signature of a query string covers\<close>

definition bind_request :: "str \<Rightarrow> str \<Rightarrow> world \<Rightarrow> world" where
  \<comment> \<open>the session entry of a request that was verified\<close>
  "bind_request sr rs w = w\<lparr>w_session := dset ''saml_verified_redirect'' (verified_redirect sr rs) (w_session w)\<rparr>"

text \<open>A body replaces the signed request in the same way.\<close>

lemma the_body_replaces_the_signed_request:
  assumes "s_saml_want_authn_requests_signed (w_settings w)" "rq_method rq = ''GET''"
    and "verify_redirect_signature X raw (sp_certificates X w) = None"
    and "rq_form rq = [(''SAMLRequest'', body)]" "body \<noteq> []"
  shows "fst (sso_params rq) = Some body
    \<and> verify_authn_request_signature X now rq raw body rs w = (None, bind_request body rs w)"
  using assms by (simp add: sso_params_def param_def opt_true_def verify_authn_request_signature_def Let_def
      sp_certificates_def bind_request_def)

text \<open>
  C38. The Redirect-binding check never compares the request it verifies with the request the route
  goes on with. A signed URL with a second request in front, its parameter name percent-encoded,
  still verifies, its signed part is the same as before, and single sign-on answers the second
  request: it binds it in the session as verified and posts an assertion to the consumer URL that the
  second request names.
\<close>

theorem the_redirect_signature_admits_another_request:
  assumes "s_saml_want_authn_requests_signed (w_settings w)" "rq_method rq = ''GET''" "rq_form rq = []"
    and "verify_redirect_signature X raw (sp_certificates X w) = None"
    and "set other \<inter> set ''&%+'' = {}" "other \<noteq> []"
    and "raw' = ''SAML%52equest='' @ other @ ''&'' @ raw" "rq_args rq = query_args raw'"
    and "session_user w = Some name" "get_user (w_config w) name = Some u"
    and "sso_parse_request X rq (w_settings w) other = Inr (acs, irt)" "acs \<noteq> []"
  shows "signed_octets raw' = signed_octets raw
    \<and> (\<exists>rs. sso X now rq raw' w = sso_success_response X now rq u name acs irt rs (bind_request other rs w))"
proof -
  define rs where "rs = param_or (rq_args rq) ''RelayState'' []"
  have p: "raw_query_params raw' = (''SAML%52equest'', other) # raw_query_params raw"
    using raw_query_params_Cons [of "''SAML%52equest''" other raw] assms(5,7) by simp
  have "unquote_plus ''SAML%52equest'' = ''SAMLRequest''" by code_simp
  moreover have "unquote_plus other = other" using assms(5) by (intro unquote_plus_plain) auto
  ultimately have "param (rq_args rq) ''SAMLRequest'' = Some other"
    unfolding assms(8) query_args_def p by (simp add: param_def)
  then have params: "sso_params rq = (Some other, rs)"
    using assms(3) by (simp add: sso_params_def rs_def param_def opt_true_def)
  have "verify_redirect_signature X raw' (sp_certificates X w) = None"
    using verification_reads_four_names [OF p] assms(4) by (simp add: signed_names_def)
  then have v: "verify_authn_request_signature X now rq raw' other rs w = (None, bind_request other rs w)"
    using assms(1,2) by (simp add: verify_authn_request_signature_def Let_def sp_certificates_def bind_request_def)
  have "session_user (bind_request other rs w) = Some name"
    using assms(9) by (simp add: session_user_def bind_request_def)
  then have "sso_authenticate_inline X now rq other rs (bind_request other rs w) = (Inr name, bind_request other rs w)"
    by (simp add: sso_authenticate_inline_def)
  moreover have "w_config (bind_request other rs w) = w_config w" by (simp add: bind_request_def)
  ultimately have "sso X now rq raw' w = sso_success_response X now rq u name acs irt rs (bind_request other rs w)"
    using assms(6,10-12) by (simp add: sso_def params v opt_true_def sso_authenticated_def)
  moreover have "signed_octets raw' = signed_octets raw" by (simp add: signed_octets_def p signed_names_def)
  ultimately show ?thesis by blast
qed

definition sample_signed_in :: world where
  \<comment> \<open>signed requests demanded, a user logged in\<close>
  "sample_signed_in = sample_signed\<lparr>w_session := [(''user'', JStr ''alice'')]\<rparr>"

lemma the_redirect_signature_admits_another_request_witness:
  "\<exists>rq rs. sso sample_saml 0 rq (''SAML%52equest='' @ ''ZXZpbA=='' @ ''&'' @ sample_raw) sample_signed_in =
     sso_success_response sample_saml 0 rq sample_user ''alice'' ''http://sp/acs'' None rs
       (bind_request ''ZXZpbA=='' rs sample_signed_in)"
proof -
  define raw' where "raw' = ''SAML%52equest='' @ ''ZXZpbA=='' @ ''&'' @ sample_raw"
  define rq where "rq = sample_request ''GET'' (query_args raw') []"
  have c: "w_config sample_signed_in = w_config sample_signed" by (simp add: sample_signed_in_def)
  then have v: "verify_redirect_signature sample_saml sample_raw (sp_certificates sample_saml sample_signed_in) = None"
    using sample_raw_verifies by (simp add: sp_certificates_cong [OF c])
  have "original_verb rq = ''GET''" "form_verb rq = None"
    by (simp_all add: rq_def original_verb_def form_verb_def param_def sample_request_def opt_true_def) code_simp
  moreover have "b64decode False ''ZXZpbA=='' = Inr (encode_utf8 ''evil'')" by code_simp
  moreover have "s_default_acs_url (w_settings sample_signed) = ''http://sp/acs''"
    "\<not> s_strict_saml_binding (w_settings sample_signed)" "encode_utf8 ''evil'' \<noteq> encode_utf8 ''<r/>''" by code_simp+
  ultimately have "sso_parse_request sample_saml rq (w_settings sample_signed) ''ZXZpbA=='' = Inr (''http://sp/acs'', None)"
    by (simp add: sso_parse_request_def valid_form_verb_def parse_saml_request_def saml_request_xml_def Let_def
        sample_saml_def)
  moreover have "get_user (w_config sample_signed) ''alice'' = Some sample_user" by code_simp
  moreover have "session_user sample_signed_in = Some ''alice''" by code_simp
  ultimately show ?thesis
    using the_redirect_signature_admits_another_request
      [of sample_signed_in rq sample_saml sample_raw "''ZXZpbA==''" raw' "''alice''" sample_user "''http://sp/acs''" None 0]
      sample_wants v
    by (intro exI [of _ rq]) (simp add: c rq_def raw'_def sample_request_def)
qed

subsection \<open>What an assertion says\<close>

definition sso_says :: "settings \<Rightarrow> request \<Rightarrow> time \<Rightarrow> user \<Rightarrow> str \<Rightarrow> str \<Rightarrow> str option \<Rightarrow> element \<Rightarrow> bool" where
  "sso_says s rq now u name acs irt resp \<longleftrightarrow>
     dget (el_attribs resp) ''Destination'' = Some acs
     \<and> text_of ''Issuer'' resp = Some (effective_saml_entity_id rq s)
     \<and> text_of ''NameID'' resp = Some (saml_name_id u name)
     \<and> text_of ''Audience'' resp = Some (s_audience s)
     \<and> attrib_of ''SubjectConfirmationData'' ''Recipient'' resp = Some acs
     \<and> attrib_of ''SubjectConfirmationData'' ''InResponseTo'' resp = (if opt_true irt then irt else None)
     \<and> attrib_of ''Conditions'' ''NotOnOrAfter'' resp = Some (saml_instant (now + secs 300))
     \<and> asserted resp = resolved s u False"

definition sealed_as :: "saml_env \<Rightarrow> world \<Rightarrow> element \<Rightarrow> element \<Rightarrow> bool" where
  \<comment> \<open>signed when the settings ask for it and the library is there\<close>
  "sealed_as X w resp out \<longleftrightarrow>
     (if s_saml_sign_responses (w_settings w) \<and> sx_signxml X
      then \<exists>a. sign_assertion X w (last (el_children resp)) = Inr a \<and> out = replace_last_child resp a
      else out = resp)"

lemma sso_response_says:
  "sso_says s rq now u name acs irt (sso_response X now n acs (effective_saml_entity_id rq s) irt
     (sso_assertion X now n acs (effective_saml_entity_id rq s) (s_audience s) (saml_name_id u name)
        (resolve_saml_attributes s u False) irt ctx))"
  by (simp add: sso_says_def sso_response_def sso_assertion_def document_readers dget_Cons in_response_def
      read_statement_Cons read_resolved opt_true_def)

lemma success_document:
  assumes "form_reply (fst (sso_success_response X now rq u name acs irt rs w))"
  shows "\<exists>resp out. sso_says (w_settings w) rq now u name acs irt resp \<and> sealed_as X w resp out
    \<and> fst (sso_success_response X now rq u name acs irt rs w) =
        auto_submit_form acs (b64encode (encode_utf8 (sx_tostring X Declared out))) rs"
proof -
  define resp where "resp = sso_response X now (w_draws w) acs (effective_saml_entity_id rq (w_settings w)) irt
     (sso_assertion X now (w_draws w) acs (effective_saml_entity_id rq (w_settings w))
        (s_audience (w_settings w)) (saml_name_id u name) (resolve_saml_attributes (w_settings w) u False) irt
        (authn_context_of w))"
  obtain out where out: "sealed_as X w resp out" and b: "fst (build_saml_response X now acs
      (effective_saml_entity_id rq (w_settings w)) (s_audience (w_settings w)) (saml_name_id u name)
      (resolve_saml_attributes (w_settings w) u False) irt (s_saml_sign_responses (w_settings w))
      (authn_context_of w) w) = Inr (sx_tostring X Declared out)"
  proof -
    have last: "last (el_children resp) = sso_assertion X now (w_draws w) acs
        (effective_saml_entity_id rq (w_settings w)) (s_audience (w_settings w)) (saml_name_id u name)
        (resolve_saml_attributes (w_settings w) u False) irt (authn_context_of w)"
      by (simp add: resp_def sso_response_def)
    show ?thesis
      using assms that
      by (auto simp: sso_success_response_def filter_resolved build_saml_response_def Let_def sealed_as_def last
          resp_def [symmetric] split: if_splits sum.splits)
  qed
  have "sso_says (w_settings w) rq now u name acs irt resp" unfolding resp_def by (rule sso_response_says)
  moreover have "fst (sso_success_response X now rq u name acs irt rs w) =
      auto_submit_form acs (b64encode (encode_utf8 (sx_tostring X Declared out))) rs"
    by (simp add: sso_success_response_def filter_resolved Let_def case_prod_beta b)
  ultimately show ?thesis using out by blast
qed

lemma sealed_cong:
  assumes "w_config w' = w_config w" "w_crypto w' = w_crypto w"
  shows "sealed_as X w' resp out = sealed_as X w resp out"
  unfolding sealed_as_def sign_assertion_def assms by (rule refl)

text \<open>
  C20. Whatever single sign-on posts to a service provider decodes to a document about a user who is
  logged in: it is addressed to the consumer URL of the request or the configured one, restricted to
  the configured audience, valid for five minutes, and its attribute statement read back gives the
  resolved attributes of that user, value for value, without the source ACL. It is signed exactly
  when the settings ask for it.
\<close>

theorem an_assertion_carries_what_the_user_has:
  assumes "form_reply (fst (sso X now rq raw w))"
  shows "\<exists>sr rs name u acs irt resp out. sso_params rq = (Some sr, rs)
    \<and> sso_logged_in X rq w name \<and> get_user (w_config w) name = Some u
    \<and> sso_parse_request X rq (w_settings w) sr = Inr (acs, irt)
    \<and> sso_says (w_settings w) rq now u name acs irt resp \<and> sealed_as X w resp out
    \<and> fst (sso X now rq raw w) =
        auto_submit_form acs (b64encode (encode_utf8 (sx_tostring X Declared out))) rs
    \<and> b64decode True (b64encode (encode_utf8 (sx_tostring X Declared out))) =
        Inr (encode_utf8 (sx_tostring X Declared out))"
proof -
  obtain sr rs name u acs irt w2 where a: "sso_params rq = (Some sr, rs)" "sso_logged_in X rq w name"
    "get_user (w_config w) name = Some u" "sso_parse_request X rq (w_settings w) sr = Inr (acs, irt)"
    "w_config w2 = w_config w" "w_crypto w2 = w_crypto w"
    "sso X now rq raw w = sso_success_response X now rq u name acs irt rs w2"
    using assms by (rule sso_answer)
  obtain resp out where "sso_says (w_settings w2) rq now u name acs irt resp" "sealed_as X w2 resp out"
    "fst (sso_success_response X now rq u name acs irt rs w2) =
        auto_submit_form acs (b64encode (encode_utf8 (sx_tostring X Declared out))) rs"
    using success_document assms unfolding a(7) by blast
  with a show ?thesis
    by (intro exI conjI b64_round_trip byte_encode_utf8) (simp_all add: sealed_cong [OF a(5,6)])
qed

lemma an_assertion_carries_what_the_user_has_witness:
  "\<exists>acs x. fst (sso sample_saml 1 sample_sso_post [] sample_continued) =
     auto_submit_form acs (b64encode (encode_utf8 x)) []"
proof -
  have "snd (sso_params sample_sso_post) = []" by code_simp
  then show ?thesis using an_assertion_carries_what_the_user_has [OF sample_post] by fastforce
qed

subsection \<open>Attribute queries\<close>

definition query_says :: "settings \<Rightarrow> request \<Rightarrow> config \<Rightarrow> str option \<Rightarrow> str \<Rightarrow> element \<Rightarrow> bool" where
  \<comment> \<open>an unknown principal gets a status and no assertion, a user gets what the resolver gives\<close>
  "query_says s rq c user_id request_id doc \<longleftrightarrow>
     dget (el_attribs doc) ''InResponseTo'' = Some request_id
     \<and> text_of ''Issuer'' doc = Some (effective_saml_entity_id rq s)
     \<and> (case (case user_id of None \<Rightarrow> None | Some i \<Rightarrow> get_user c i) of
          None \<Rightarrow> el_find (saml2 ''Assertion'') doc = None
            \<and> map (\<lambda>e. dget (el_attribs e) ''Value'')
                (filter (\<lambda>e. el_tag e = saml2p ''StatusCode'') (el_iter doc)) =
              map (\<lambda>code. Some (''urn:oasis:names:tc:SAML:2.0:status:'' @ code)) [''Requester'', ''UnknownPrincipal'']
        | Some u \<Rightarrow> text_of ''NameID'' doc = user_id \<and> asserted doc = resolved s u True)"

lemma error_document_says:
  assumes "(case user_id of None \<Rightarrow> None | Some i \<Rightarrow> get_user c i) = None"
  shows "query_says s rq c user_id request_id
    (attribute_query_error_document X now n request_id (effective_saml_entity_id rq s))"
  unfolding query_says_def assms option.case
  by (simp add: attribute_query_error_document_def query_response_def document_readers dget_Cons)

lemma query_document_says:
  assumes "(case user_id of None \<Rightarrow> None | Some i \<Rightarrow> get_user c i) = Some u"
  shows "query_says s rq c user_id request_id (attribute_query_document X now n (the user_id)
    (resolve_saml_attributes s u True) request_id (effective_saml_entity_id rq s))"
proof -
  obtain i where i: "user_id = Some i" using assms by (cases user_id) auto
  show ?thesis unfolding query_says_def assms option.case
    by (simp add: i attribute_query_document_def query_response_def document_readers dget_Cons
        read_statement_Cons read_resolved)
qed

lemma attribute_query_reply:
  "case read_attribute_query X data of
      Inl message \<Rightarrow> attribute_query X now rq data w = (soap_fault message True, w)
    | Inr (user_id, request_id) \<Rightarrow> (\<exists>form doc.
        query_says (w_settings w) rq (w_config w) user_id request_id doc
        \<and> fst (attribute_query X now rq data w) =
          (if element_ok X doc then soap_envelope (sign_attribute_query_response X w (sx_tostring X form doc)
             (s_saml_sign_responses (w_settings w)))
           else soap_fault ''AttributeQuery failed'' False))"
proof (cases "read_attribute_query X data")
  case (Inl message)
  then show ?thesis by (simp add: attribute_query_def)
next
  case (Inr iq)
  have sign: "sign_attribute_query_response X (w\<lparr>w_draws := k\<rparr>) = sign_attribute_query_response X w" for k
  proof (intro ext)
    fix x b
    have c: "w_config (w\<lparr>w_draws := k\<rparr>) = w_config w" "w_crypto (w\<lparr>w_draws := k\<rparr>) = w_crypto w" by simp_all
    show "sign_attribute_query_response X (w\<lparr>w_draws := k\<rparr>) x b = sign_attribute_query_response X w x b"
      unfolding sign_attribute_query_response_def c by (rule refl)
  qed
  obtain i q where iq: "iq = (i, q)" by fastforce
  show ?thesis
  proof (cases "case i of None \<Rightarrow> None | Some j \<Rightarrow> get_user (w_config w) j")
    case None
    let ?doc = "attribute_query_error_document X now (w_draws w) q (effective_saml_entity_id rq (w_settings w))"
    have "fst (attribute_query X now rq data w) =
        (if element_ok X ?doc then soap_envelope (sign_attribute_query_response X w
           (sx_tostring X Unadorned ?doc) (s_saml_sign_responses (w_settings w)))
         else soap_fault ''AttributeQuery failed'' False)"
      by (simp add: attribute_query_def Inr iq None Let_def sign query_failed_def)
    with error_document_says [OF None] show ?thesis unfolding Inr iq sum.case prod.case by blast
  next
    case (Some u)
    let ?doc = "attribute_query_document X now (w_draws w) (the i)
      (resolve_saml_attributes (w_settings w) u True) q (effective_saml_entity_id rq (w_settings w))"
    have "fst (attribute_query X now rq data w) =
        (if element_ok X ?doc then soap_envelope (sign_attribute_query_response X w
           (sx_tostring X Pretty ?doc) (s_saml_sign_responses (w_settings w)))
         else soap_fault ''AttributeQuery failed'' False)"
      by (simp add: attribute_query_def Inr iq Some Let_def sign query_failed_def)
    with query_document_says [OF Some] show ?thesis unfolding Inr iq sum.case prod.case by blast
  qed
qed

text \<open>
  C21. The attribute query, which anyone may send, changes nothing but the audit log and the counter
  of identifiers, and always answers in the shape a SOAP client can read: a fault of the client for a
  body that is no query, otherwise a response that names the query and either carries exactly the
  resolved attributes of the user asked for or says that the principal is unknown, with no
  assertion; the server's fault remains for text that XML cannot carry.
\<close>

theorem attribute_queries_invent_nothing:
  "records_only w (attribute_query X now rq data w)
    \<and> (case read_attribute_query X data of
      Inl message \<Rightarrow> attribute_query X now rq data w = (soap_fault message True, w)
    | Inr (user_id, request_id) \<Rightarrow> (\<exists>form doc.
        query_says (w_settings w) rq (w_config w) user_id request_id doc
        \<and> fst (attribute_query X now rq data w) =
          (if element_ok X doc then soap_envelope (sign_attribute_query_response X w (sx_tostring X form doc)
             (s_saml_sign_responses (w_settings w)))
           else soap_fault ''AttributeQuery failed'' False)))"
  by (intro conjI attribute_query_records_only attribute_query_reply)

subsection \<open>Strict binding\<close>

text \<open>
  C39. A GET whose request does not inflate violates the binding, and with strict binding on it is to
  be rejected; the code goes on as if the request had named neither a consumer URL nor an
  identifier, and answers at the configured default URL.
\<close>

theorem strict_binding_answers_what_it_should_refuse:
  assumes "s_strict_saml_binding (w_settings w)" "\<not> s_saml_want_authn_requests_signed (w_settings w)"
    and "rq_method rq = ''GET''" "rq_form rq = []"
    and "param (rq_args rq) ''SAMLRequest'' = Some sr" "b64decode False sr = Inr b" "sx_inflate X b = None"
    and "session_user w = Some name" "get_user (w_config w) name = Some u" "sr \<noteq> []"
    and "s_default_acs_url (w_settings w) \<noteq> []"
  shows "sso X now rq raw w = sso_success_response X now rq u name (s_default_acs_url (w_settings w)) None
    (param_or (rq_args rq) ''RelayState'' []) w"
proof -
  have "sso_params rq = (Some sr, param_or (rq_args rq) ''RelayState'' [])"
    using assms(4,5) by (simp add: sso_params_def param_def)
  moreover have "verify_authn_request_signature X now rq raw sr rs w = (None, w)" for rs
    using assms(2) by (simp add: verify_authn_request_signature_def Let_def)
  moreover have "sso_authenticate_inline X now rq sr rs w = (Inr name, w)" for rs
    using assms(8) by (simp add: sso_authenticate_inline_def)
  moreover have "original_verb rq = ''GET''"
    using assms(3,4) by (simp add: original_verb_def form_verb_def param_def) code_simp
  then have "sso_parse_request X rq (w_settings w) sr = Inr (s_default_acs_url (w_settings w), None)"
    using assms by (simp add: sso_parse_request_def valid_form_verb_def form_verb_def param_def
        parse_saml_request_def saml_request_xml_def Let_def)
  ultimately show ?thesis using assms(9,10,11) by (simp add: sso_def sso_authenticated_def)
qed

definition sample_strict :: world where
  "sample_strict = sample_world\<lparr>w_config := sample_config\<lparr>c_settings := sample_settings
     \<lparr>s_strict_saml_binding := True\<rparr>\<rparr>, w_session := [(''user'', JStr ''alice'')]\<rparr>"

lemma strict_binding_answers_what_it_should_refuse_witness:
  "sso sample_saml 0 sample_sso_get [] sample_strict =
     sso_success_response sample_saml 0 sample_sso_get sample_user ''alice'' ''http://sp/acs'' None [] sample_strict"
proof -
  have "s_strict_saml_binding (w_settings sample_strict)" by code_simp
  moreover have "\<not> s_saml_want_authn_requests_signed (w_settings sample_strict)" by code_simp
  moreover have "param (rq_args sample_sso_get) ''SAMLRequest'' = Some ''PHIvPg==''" by code_simp
  moreover have "b64decode False ''PHIvPg=='' = Inr (encode_utf8 ''<r/>'')" by code_simp
  moreover have "session_user sample_strict = Some ''alice''" by code_simp
  moreover have "get_user (w_config sample_strict) ''alice'' = Some sample_user" by code_simp
  moreover have "s_default_acs_url (w_settings sample_strict) = ''http://sp/acs''" by code_simp
  ultimately show ?thesis
    using strict_binding_answers_what_it_should_refuse [of sample_strict sample_sso_get "''PHIvPg==''"
        "encode_utf8 ''<r/>''" sample_saml "''alice''" sample_user 0 "[]"]
    by (simp add: sample_sso_get_def sample_request_def sample_saml_def param_or_def)
qed

end
