(* ===== verification/Spec2Isabelle.thy ===== *)
theory Spec2Isabelle
  imports Device_Flow Config_Properties Manager_Properties Writer_Properties Ui_Form_Properties
    Config_Check Mcp_Updates Saml_Properties
begin

text \<open>
  NanoIDP (\<open>src/src/nanoidp\<close>) is a small OAuth 2.0 / OpenID Connect identity provider for development
  and tests, a Flask application. This library models its protocol core in HOL and proves what makes
  it correct. The theories, bottom up, and the code each one models:

  \<^item> \<open>Nano_Prelude\<close>: Python values (strings, dictionaries, JSON), the string operations the program
    uses, and the generic lemmas. \<open>Urls\<close>: \<open>urllib.parse\<close> and \<open>ipaddress\<close> as far as they are used.
    \<open>Sha256\<close>: SHA-256 and HMAC on 32-bit words, and base64url.
  \<^item> \<open>Nano_Models\<close>: users, clients, settings and profiles (\<open>models.py\<close>), the lookups and credential
    checks of \<open>config.py\<close>, and the record \<open>lib\<close> of third-party functions.
  \<^item> \<open>Store_Contracts\<close>: the locales of the in-memory stores: \<open>expiring_store\<close>, \<open>blocking\<close> and its
    extension \<open>one_time\<close>. \<open>Auth_Code\<close>, \<open>Device_Code\<close>, \<open>Revocation\<close> (\<open>services/auth_code.py\<close>,
    \<open>device_code.py\<close>, \<open>revocation.py\<close>) model the stores and interpret the locales;
    \<open>Device_Flow\<close> is the abstract device flow, a transition system labelled with operations and
    answers, and the proof that the store implements it exactly.
  \<^item> \<open>Scope\<close>, \<open>Redirect_Uri\<close>, \<open>Resource_Indicator\<close>, \<open>Audit_Log\<close>, \<open>Crypto\<close>, \<open>Token\<close>, \<open>Discovery\<close>: the
    modules of those names under \<open>services/\<close>.
  \<^item> \<open>Server\<close>: request, reply and the state \<open>world\<close> (one field per service singleton, with the
    session of the browser and the number of draws from the generators), the helpers
    \<open>routes/_audit.py\<close>, \<open>_issuer.py\<close>, \<open>_oauth_error.py\<close>, and client authentication.
  \<^item> \<open>Grants\<close> with \<open>Grant_Laws\<close>: the handlers of \<open>routes/oauth_grants.py\<close> and the locale
    \<open>grant_contract\<close>, interpreted for each of the five grant types. \<open>Token_Endpoint\<close>: \<open>/token\<close>.
  \<^item> \<open>Authorize\<close> with \<open>Authorize_Laws\<close>: \<open>/authorize\<close>. \<open>Endpoints\<close>: the other endpoints of
    \<open>routes/oauth.py\<close>. \<open>Ui_Auth\<close>: the guards of \<open>routes/_auth.py\<close> (locale \<open>write_guard\<close>) and the login
    of \<open>routes/ui.py\<close>. \<open>Api\<close>: \<open>routes/api.py\<close>.
  \<^item> \<open>Encodings\<close>: base64, percent decoding, HTML escaping and SAML instants of the standard library.
    \<open>Saml_Attributes\<close> and \<open>Saml_Verification\<close> (\<open>services/saml_attributes.py\<close>, \<open>saml_verification.py\<close>),
    \<open>Saml\<close> (\<open>routes/saml.py\<close>): documents as trees of elements, the resolver and emission of attributes,
    request signatures under the locale \<open>certificate_check\<close>, single sign-on, metadata and attribute
    query; the record \<open>saml_env\<close> holds lxml, zlib, X.509, RSA, XML signatures and the files.
    \<open>Saml_Laws\<close> has what the routes keep and how documents read back, \<open>Saml_Properties\<close> the
    properties over whole browser sessions.
  \<^item> \<open>Server_Runs\<close>: every endpoint as one step of one transition system on \<open>world\<close>, with the
    interpretations of \<open>one_time\<close> that carry the stores' contracts to whole runs of requests.
    \<open>Sample_Server\<close>: a concrete server on which the properties are exercised.
  \<^item> \<open>Serialization\<close>: how the configuration is written into its YAML documents (\<open>serialization.py\<close>):
    placeholders, the check for an unchanged value, the merge of settings, clients and users.
    \<open>Serialization_Laws\<close>: which key of a document a save sets to what, and what it leaves alone.
    \<open>Save_Again\<close>: a saved document is settled, so that a second save keeps it.
  \<^item> \<open>Config_Documents\<close> and \<open>Config_Loading\<close>: the sections of the documents, their validation, and the
    domain models built from them (\<open>config_documents.py\<close>, the validators of \<open>models.py\<close>).
    \<open>Unknown_Keys\<close>: the loader's rounds against a closed form. \<open>Config_Round_Trip\<close>, \<open>Saved_Clients\<close>,
    \<open>Settings_Round_Trip\<close>, \<open>Settings_Reload\<close>: users, client entries, sections and the whole document
    after a save, loaded again. \<open>Sample_Config\<close>: concrete files. \<open>Config_Properties\<close>: the properties.
  \<^item> \<open>Config_Writer\<close>: the disk, revisions, the lock of a directory, the atomic replacement of a file and
    the conflict-checked batch (\<open>config_writer.py\<close>, the file half of \<open>serialization.py\<close>). \<open>Hooks\<close>: the
    registry of shell hooks and plugins, its dispatcher and the bootstrap surface (\<open>hooks.py\<close>).
    \<open>Config_Manager\<close>: the manager that loads, hardens, commits and saves a directory (\<open>config.py\<close>).
    \<open>Yaml_Writer\<close>: the writes of the dashboard (\<open>services/yaml_writer.py\<close>). \<open>Sample_Manager\<close>: a
    concrete directory. \<open>Manager_Properties\<close> and \<open>Writer_Properties\<close>: the properties of the four.
  \<^item> \<open>Ui_Forms\<close>: the management pages of \<open>routes/ui.py\<close> over the writer, on the world of the server
    together with the manager and the disk. \<open>Ui_Form_Properties\<close>: their properties.
  \<^item> \<open>Config_Check\<close>: the report on a directory that \<open>validate-config\<close> and the MCP server give without
    starting anything (\<open>config_validation.py\<close>), and its agreement with the start.
  \<^item> \<open>Mcp_Tools\<close>: the schemas of the MCP tools and the normalization of their arguments
    (\<open>mcp_server/schemas.py\<close>, \<open>normalize.py\<close>, \<open>serializers.py\<close>). \<open>Mcp_Server\<close>: every tool, the guards and
    the dispatch (\<open>mcp_server/__init__.py\<close>, \<open>handlers_*.py\<close>), on the state of the management pages.
    \<open>Mcp_Properties\<close> and \<open>Mcp_Updates\<close>: who may change something, what is on record, and what a failed
    call leaves behind.

  The manager of the configuration and the server are two machines: the configuration that the
  handlers read is the one a load commits, which the state \<open>dash\<close> of the management pages holds
  together, and an operation of the manager takes an environment (hooks, YAML library, pydantic, outcomes of the operating system) and a
  manager with a disk, and gives an error or none with the next manager and disk.

  A handler takes the library functions, one clock reading, the request and the world, and gives the
  reply and the next world. An exception that escapes the view is a reply \<open>Inl e\<close> (HTTP 500).

  The properties stand in this theory when they span components, else at the end of the theory of
  their component. They cover one-time use of codes, refresh tokens and device codes in any run,
  client authentication through the registered channel, the limits of a grant, refresh rotation and
  narrowing, revocation, the redirects and the codes of \<open>/authorize\<close>, the device flow as a refinement,
  the claims of the tokens, the key ring and what a rotation does to tokens in use, the management guard,
  the audit log, and the decision functions against their specifications. Of SAML: an assertion needs a
  request that is signed and carries what the user has, an attribute query invents nothing. Of the
  configuration: a save and a load agree, a second save changes nothing, a save touches only what it owns
  and keeps the text of what it does not change, unknown keys change nothing, loaded settings are valid;
  a save over both files is what the next load of the directory gives; loads and replacements of hooks
  are transactions; a refused write changes nothing, a batch is never half accepted; the file that a save
  writes after a load never holds what a profile did to the settings; a client or a form that was saved
  is what is read; the wait for a lock ends; a page that is out of date overwrites nothing, and a form
  that is accepted is in force. Of the other front ends: a report on a directory is valid exactly when
  the directory loads, a guarded MCP server changes nothing, a failed tool call changes no configuration
  but in the cases its theorem names, a save on a precondition overwrites no other writer.

  Theorems that record errors of the code: \<open>update_client\<close> is half applied for a colour that ends in a
  newline, a HEAD request writes past the management guard, a refresh refused with \<open>invalid_target\<close> has
  spent its token, a non-ASCII code verifier raises, the signature of a Redirect-binding request vouches
  for a second request, strict binding answers a GET that does not inflate, the end of
  \<open>Config_Properties\<close> has the cases in which a save and a load disagree, \<open>atomic_write_own\<close> the restored
  stale backup, and the end of \<open>Writer_Properties\<close> the default user of a fresh directory.

  Assumptions, as named hypotheses: \<open>inj (lib_urlsafe L)\<close> says that \<open>secrets.token_urlsafe\<close> never
  repeats a value, \<open>fresh_run\<close> that the codes of a device authorization are not in the store,
  \<open>carries L t p\<close> that a token decodes to the one payload it was signed with; of the rotation of keys,
  that a signature verifies with no key but its own; \<open>plain_get\<close> that a GET of the SAML routes is one a
  browser sends, its parameter names spelled plainly; \<open>leaves\<close> that hooks do not change a file;
  \<open>pydantic_ints V\<close> and \<open>pydantic_bools V\<close> say which numbers and words pydantic reads as integers and
  booleans; \<open>reads_as\<close> and \<open>dumps_back\<close> that the two YAML loaders agree on a file and that what was
  dumped loads back; \<open>bools_are_bools V\<close> that pydantic takes a boolean for itself; the hypothesis \<open>schemas\<close> of
  \<open>Mcp_Updates\<close> that the JSON schema library accepts only what the schema allows (\<open>conforms\<close>); \<open>batch_apart\<close> that temporary files have fresh names and no file of a batch is the
  backup of another. No fuel is used: all recursion is structural or has a measure.

  Abstractions: characters are the code points 0 to 255; a request reads the clock once; floats
  are decimals; ids and subjects of verified tokens are strings, as PyJWT enforces; a session is what the
  signed cookie carries.

  Not modelled: logging (no effect on the state modelled), the self-signed
  certificate, external keys and the file system calls of key storage, the re-encoding of redirect
  URLs by Werkzeug, client logos, the transport and command line of the MCP server, the search for a
  configuration directory, the JSON schema export, the wizard, and of the dashboard the templates, the
  pages of keys and tests, and the list and exports of the audit log.
\<close>

subsection \<open>One-time credentials\<close>

text \<open>
  C1. An authorization code is exchanged for tokens at most once in any run of requests to the server,
  in any order and from any client, when the generator of codes does not repeat itself.
\<close>

theorem code_exchanged_at_most_once:
  assumes "inj (lib_urlsafe L)" "codes_wf L w"
  shows "wins_in (server_step L) (exchanges code) xs w \<le> 1"
  by (rule one_time.at_most_one_win [OF server_codes_one_time]) (use assms in auto)

lemma sample_exchange_wins: "wins_in (server_step sample_lib) (exchanges ''c'') sample_exchange_run sample_world = 1"
  by code_simp

theorem code_exchanged_at_most_once_witness:
  "wins_in (server_step sample_lib) (exchanges ''c'') sample_exchange_run sample_world = 1
   \<and> wins_in (server_step sample_lib) (exchanges ''c'') sample_exchange_run sample_world \<le> 1"
  using sample_exchange_wins code_exchanged_at_most_once [OF sample_urlsafe_inj sample_codes_wf] by simp

text \<open>
  C2. A refresh token that rotates is redeemed at most once before it expires, in any run of requests,
  when a token verifies to the one payload it carries.
\<close>

theorem refresh_token_redeemed_at_most_once:
  assumes "carries L t p" "refresh_token_of p j cid E"
    and "rv_wf (w_revoked w)" "rotates_for (w_settings w) (get_client (w_config w) cid)"
    and "\<forall>x \<in> set xs. \<forall>now. op_time x = Some now \<longrightarrow> now < secs E"
  shows "wins_in (server_step L) (\<lambda>x r. refreshes t x r) xs w \<le> 1"
  by (rule one_time.at_most_one_win [OF server_refresh_one_time [OF assms(1,2)], of w xs]) (use assms in auto)

lemma sample_refresh_wins: "wins_in (server_step sample_lib) (\<lambda>x r. refreshes ''rt'' x r) sample_refresh_run sample_world = 1"
  by code_simp

theorem refresh_token_redeemed_at_most_once_witness:
  "wins_in (server_step sample_lib) (\<lambda>x r. refreshes ''rt'' x r) sample_refresh_run sample_world = 1
   \<and> wins_in (server_step sample_lib) (\<lambda>x r. refreshes ''rt'' x r) sample_refresh_run sample_world \<le> 1"
  using sample_refresh_wins
    refresh_token_redeemed_at_most_once [OF sample_carries(1) sample_refresh_token sample_rv_wf sample_rotates sample_refresh_times]
  by simp

text \<open>
  C5. A device code is turned into tokens at most once in any run of requests to the server, when the
  generator of codes does not repeat itself.
\<close>

theorem device_code_collected_at_most_once:
  assumes "inj (lib_urlsafe L)" "devices_wf L w"
  shows "wins_in (server_step L) (collects c) xs w \<le> 1"
  by (rule one_time.at_most_one_win [OF server_devices_one_time]) (use assms in auto)

lemma sample_device_wins: "wins_in (server_step sample_lib) (collects ''c'') sample_device_run sample_world = 1"
  by code_simp

theorem device_code_collected_at_most_once_witness:
  "wins_in (server_step sample_lib) (collects ''c'') sample_device_run sample_world = 1
   \<and> wins_in (server_step sample_lib) (collects ''c'') sample_device_run sample_world \<le> 1"
  using sample_device_wins device_code_collected_at_most_once [OF sample_urlsafe_inj sample_devices_wf] by simp

subsection \<open>The token endpoint\<close>

text \<open>
  C3. Tokens are issued only to a registered client that the request names unambiguously and, unless it
  is public, authenticates with its own secret through the channel of its registered
  \<open>token_endpoint_auth_method\<close> and no other: \<open>client_secret_post\<close> in the body without HTTP Basic, any other
  method over HTTP Basic without a secret in the body. The client credentials grant is never served to a
  public client, and only the registered grant types are served.
\<close>

theorem tokens_need_an_authenticated_client:
  assumes "token_endpoint L now rq w = (r, w')" "\<not> refused r"
  shows "\<exists>cid client h. acts_as (w_config w) rq (param_or (rq_form rq) ''grant_type'' ''client_credentials'') cid
     \<and> get_client (w_config w) cid = Some client
     \<and> (is_public client \<or> registered_channel (request_client_identity rq) client)
     \<and> grant_handler L (param_or (rq_form rq) ''grant_type'' ''client_credentials'') = Some h"
proof -
  have "\<not> refused (fst (token_endpoint L now rq w))" using assms by simp
  then obtain ctx mins extra o' w1 where "token_grant L now rq w = (Inr (ctx, mins, extra, o'), w1)"
    using token_endpoint_granted by blast
  then show ?thesis by (rule token_grant_Inr) (use acts_as_client acts_as_channel in metis)
qed

theorem tokens_need_an_authenticated_client_witness:
  "\<exists>cid client h. acts_as sample_config sample_refresh (param_or (rq_form sample_refresh) ''grant_type'' ''client_credentials'') cid
     \<and> get_client sample_config cid = Some client
     \<and> (is_public client \<or> registered_channel (request_client_identity sample_refresh) client)
     \<and> grant_handler sample_lib (param_or (rq_form sample_refresh) ''grant_type'' ''client_credentials'') = Some h"
  using tokens_need_an_authenticated_client [OF surjective_pairing sample_refresh_served]
  by (simp add: sample_world_def)

text \<open>
  C4. An exchange of an authorization code that ends in tokens is made by the client the code was issued
  to, with the redirect URI it was issued for, before it expires, on a code not used before, and with
  the PKCE verifier of its challenge.
\<close>

theorem code_exchange_requires:
  assumes "exchanges code x (fst (server_step L x w))"
  shows "\<exists>now rq cid a. x = SToken now rq \<and> acts_as (w_config w) rq ''authorization_code'' cid
     \<and> dget (w_codes w) code = Some a \<and> now \<le> ac_expires_at a \<and> \<not> ac_used a
     \<and> ac_client_id a = cid \<and> ac_redirect_uri a = param_or (rq_form rq) ''redirect_uri'' []
     \<and> pkce_check a (param (rq_form rq) ''code_verifier'') = Inr True"
  using assms by (rule exchange_consumes) (auto simp: consume_code_success)

lemma sample_code_exchanged:
  "exchanges ''c'' (SToken 6 sample_exchange) (fst (server_step sample_lib (SToken 6 sample_exchange) sample_coded))"
  by code_simp

theorem code_exchange_requires_witness:
  "\<exists>now rq cid a. SToken 6 sample_exchange = SToken now rq \<and> acts_as (w_config sample_coded) rq ''authorization_code'' cid
     \<and> dget (w_codes sample_coded) ''c'' = Some a \<and> ac_client_id a = cid"
  using code_exchange_requires [OF sample_code_exchanged] by blast

text \<open>
  C9. Whatever the grant, the tokens to be minted live between a minute and a day, their scope is, under
  enforcement, in the vocabulary and allowed to the client, and each resource they are bound to is
  valid, allowed to the client and named once.
\<close>

theorem grant_within_client_limits:
  assumes "token_grant L now rq w = (Inr (ctx, mins, extra, o'), w')"
  shows "1 \<le> mins \<and> mins \<le> 1440
     \<and> (\<exists>client. get_client (w_config w) (gc_client_id ctx) = Some client
          \<and> (if scope_enforcement_active (w_settings w)
             then scope_permitted client (s_scopes_supported (w_settings w)) (go_scope o') else True)
          \<and> distinct (opt_or_nil (go_resource o'))
          \<and> set (opt_or_nil (go_resource o')) \<subseteq> {v. resource_permitted client None v})"
  using assms
proof (rule token_grant_Inr)
  fix h assume h: "grant_handler L (gc_grant_type ctx) = Some h" "h now rq ctx w = (Inr o', w')"
    and acts: "acts_as (w_config w) rq (gc_grant_type ctx) (gc_client_id ctx)" and mins: "1 \<le> mins" "mins \<le> 1440"
  obtain client where client: "get_client (w_config w) (gc_client_id ctx) = Some client"
    using acts_as_client [OF acts] by blast
  show ?thesis
    using grant_contract.outcome_scope [OF handler_contract [OF h(1)] h(2)]
      grant_contract.outcome_resources [OF handler_contract [OF h(1)] h(2)] client mins
    by (auto simp: scope_allowed_def resources_allowed_def)
qed

theorem grant_within_client_limits_witness:
  "\<exists>ctx mins extra o'. fst (token_grant sample_lib 6 sample_refresh sample_world) = Inr (ctx, mins, extra, o')
     \<and> 1 \<le> mins \<and> mins \<le> 1440"
proof -
  obtain ctx mins extra o' w' where g: "token_grant sample_lib 6 sample_refresh sample_world = (Inr (ctx, mins, extra, o'), w')"
    using token_endpoint_granted [OF sample_refresh_served] by iprover
  show ?thesis using grant_within_client_limits [OF g] g by auto
qed

text \<open>
  C8. A refresh is served only to the client the token is bound to, for a user who still exists, and
  what it grants is part of what the token carries: no new scope token, no new resource.
\<close>

theorem refresh_is_bound_and_narrows:
  assumes "grant_refresh_token L now rq ctx w = (Inr o', w')"
  shows "\<exists>p. verify_jwt L now (w_crypto w) (param_or (rq_form rq) ''refresh_token'' []) (Some [s_audience (w_settings w)]) = Inr p
     \<and> dget p ''token_type'' = Some (JStr ''refresh'') \<and> dget p ''client_id'' = Some (JStr (gc_client_id ctx))
     \<and> claim_str p ''sub'' = Some (go_username o') \<and> get_user (w_config w) (go_username o') = Some (go_user o')
     \<and> scope_tokens (go_scope o') \<subseteq> scope_tokens (claim_str p ''scope'')
     \<and> set (opt_or_nil (go_resource o')) \<subseteq> set (opt_or_nil (claim_strs p ''resource''))"
  using assms
proof (rule grant_refresh_token_Inr)
  fix payload user name client original scope resource
  assume p: "refresh_payload_of L now rq ctx w = (Inr (payload, user), w)"
    and name: "claim_str payload ''sub'' = Some name" "get_user (w_config w) name = Some user"
    and sc: "refresh_scope now rq ctx name payload w = (Inr (scope, False), w)"
    and orig: "claim_strs payload ''resource'' = Some original"
    and res: "resolve_token_resource now rq ctx client (Some original) w' = (Inr resource, w')"
    and o': "o' = (outcome user name)\<lparr>go_scope := scope, go_auth_time := jget payload ''auth_time'',
       go_refresh_family := claim_str payload ''rt_family'',
       go_id_token_claims := jget payload ''req_id_token_claims'',
       go_userinfo_claims := jget payload ''req_userinfo_claims'',
       go_resource := resource, go_refresh_resource := or_none original\<rparr>"
  show ?thesis
    by (rule exI [of _ payload])
       (use refresh_payload_of_Inr(2-4) [OF p] refresh_scope_Inr(2) [OF sc] name orig
          resolve_token_resource_subset [OF res] o' in \<open>simp add: outcome_def\<close>)
qed

theorem refresh_is_bound_and_narrows_witness:
  "\<exists>o' p. fst (grant_refresh_token sample_lib 6 sample_refresh
       \<lparr>gc_client_id = ''app'', gc_grant_type = ''refresh_token''\<rparr> sample_world) = Inr o'
     \<and> scope_tokens (go_scope o') \<subseteq> scope_tokens (claim_str p ''scope'')"
proof -
  obtain o' w' where g: "grant_refresh_token sample_lib 6 sample_refresh
      \<lparr>gc_client_id = ''app'', gc_grant_type = ''refresh_token''\<rparr> sample_world = (Inr o', w')"
    using step_granted [OF sample_refresh_granted] by iprover
  show ?thesis using refresh_is_bound_and_narrows [OF g] g by auto
qed

text \<open>
  C10. A refresh token minted for a client and presented by it without further parameters gives back what
  it was minted with: user, scope, resources, requested claims, authentication time and family.
\<close>

theorem refresh_round_trip:
  assumes minted: "verify_jwt L now (w_crypto w) (param_or (rq_form rq) ''refresh_token'' [])
        (Some [s_audience (w_settings w)]) = Inr (refresh_payload s now0 jti fam ta)"
    and form: "param_or (rq_form rq) ''refresh_token'' [] \<noteq> []" "param (rq_form rq) ''scope'' = None"
      "getlist (rq_form rq) ''resource'' = []"
    and client: "ta_client_id ta = Some (gc_client_id ctx)" "gc_client_id ctx \<noteq> []"
    and user: "get_user (w_config w) (u_username (ta_user ta)) = Some user" "u_username (ta_user ta) \<noteq> []"
    and scope: "scope_allowed (w_config w) (gc_client_id ctx) (opt_list (ta_scope ta))"
    and resources: "\<forall>c. get_client (w_config w) (gc_client_id ctx) = Some c \<longrightarrow>
        (\<forall>v \<in> set (opt_or_nil (refresh_resources ta)). resource_permitted c None v)"
    and unspent: "\<not> fst (claim_refresh now (refresh_payload s now0 jti fam ta)
        (get_client (w_config w) (gc_client_id ctx)) w)"
    and "ta_auth_time ta \<noteq> Some JNull"
  shows "\<exists>o'. fst (grant_refresh_token L now rq ctx w) = Inr o'
    \<and> go_user o' = user \<and> go_scope o' = opt_list (ta_scope ta) \<and> go_refresh_family o' = Some fam
    \<and> set (opt_or_nil (go_resource o')) = set (opt_or_nil (refresh_resources ta))
    \<and> go_refresh_resource o' = opt_list (refresh_resources ta)
    \<and> sanitize_claim_names (go_id_token_claims o') = sanitize_claim_names (ta_id_token_claims ta)
    \<and> sanitize_claim_names (go_userinfo_claims o') = sanitize_claim_names (ta_userinfo_claims ta)
    \<and> go_auth_time o' = (if wants_id_token ta then Some (effective_auth_time now0 ta) else None)"
proof -
  let ?p = "refresh_payload s now0 jti fam ta" and ?c = "get_client (w_config w) (gc_client_id ctx)"
  have payload: "refresh_payload_of L now rq ctx w = (Inr (?p, user), w)"
    using minted form(1) client user
    by (simp add: refresh_payload_of_def Let_def refresh_payload_get jget_def claim_str_def opt_true_def jopt_def)
  obtain w1 where claim: "claim_refresh now ?p ?c w = (False, w1)"
    using unspent by (cases "claim_refresh now ?p ?c w") auto
  obtain res where res: "resolve_token_resource now rq ctx ?c (Some (opt_or_nil (refresh_resources ta))) w1 = (Inr res, w1)"
    "set (opt_or_nil res) = set (opt_or_nil (refresh_resources ta))"
  proof (cases "opt_or_nil (refresh_resources ta) = []")
    case True
    then show ?thesis using that [of None] form(3) by (simp add: resolve_token_resource_def Let_def opt_true_def)
  next
    case False
    show ?thesis
    proof (cases ?c)
      case None
      then show ?thesis using that [of "Some (opt_or_nil (refresh_resources ta))"] form(3) False
        by (simp add: resolve_token_resource_def Let_def opt_true_def)
    next
      case (Some c)
      then have ok: "resource_ok (resolve_resources (opt_or_nil (refresh_resources ta)) c None)"
        using resources by (simp add: resolve_resources_ok_iff)
      then show ?thesis
        using that [of "opt_list (Some (first_seen (opt_or_nil (refresh_resources ta))))"] Some form(3) False
        by (simp add: resolve_token_resource_def Let_def opt_true_def resolve_resources_granted [OF ok])
    qed
  qed
  have names: "jget ?p ''req_id_token_claims'' = map_option jstrs (sanitize_claim_names (ta_id_token_claims ta))"
    "jget ?p ''req_userinfo_claims'' = map_option jstrs (sanitize_claim_names (ta_userinfo_claims ta))"
    by (auto simp: jget_def refresh_payload_get jstrs_def split: option.split)
  have time: "jget ?p ''auth_time'' = (if wants_id_token ta then Some (effective_auth_time now0 ta) else None)"
    using assms(12)
    by (auto simp: jget_def refresh_payload_get effective_auth_time_def split: option.splits json.splits)
  have fam: "claim_str ?p ''rt_family'' = Some fam" by (simp add: claim_str_def refresh_payload_get)
  have "or_none (opt_or_nil (refresh_resources ta)) = opt_list (refresh_resources ta)"
    by (cases "refresh_resources ta") (auto simp: or_none_def)
  then show ?thesis
    by (simp add: grant_refresh_token_def payload seq_def minted_scope [OF form(2) scope] spend_refresh_def claim
        minted_resources res outcome_def names time fam sanitize_idem)
qed

lemma sample_minting_values:
  "refresh_resources sample_minting = Some [''https://api.example.com'']"
  "ta_scope sample_minting = Some ''openid profile''" "wants_id_token sample_minting"
  "effective_auth_time 4 sample_minting = JInt 3"
  by code_simp+

theorem refresh_round_trip_witness:
  "\<exists>p o'. fst (grant_refresh_token (sample_verifier p) 9 sample_refresh sample_app_context sample_world) = Inr o'
     \<and> go_scope o' = Some ''openid profile'' \<and> go_refresh_family o' = Some ''fam''
     \<and> go_refresh_resource o' = Some [''https://api.example.com''] \<and> go_auth_time o' = Some (JInt 3)"
proof -
  let ?p = "refresh_payload sample_settings 4 ''j'' ''fam'' sample_minting"
  have app: "get_client (w_config sample_world) (gc_client_id sample_app_context) = Some sample_app" by code_simp
  have "scope_permitted sample_app (s_scopes_supported (w_settings sample_world)) (opt_list (ta_scope sample_minting))"
    by code_simp
  then have scope: "scope_allowed (w_config sample_world) (gc_client_id sample_app_context) (opt_list (ta_scope sample_minting))"
    unfolding scope_allowed_def app by simp
  have "\<forall>v \<in> set (opt_or_nil (refresh_resources sample_minting)). resource_permitted sample_app None v" by code_simp
  then have resources: "\<forall>c. get_client (w_config sample_world) (gc_client_id sample_app_context) = Some c \<longrightarrow>
      (\<forall>v \<in> set (opt_or_nil (refresh_resources sample_minting)). resource_permitted c None v)"
    by (simp only: app option.inject simp_thms)
  have "\<exists>o'. fst (grant_refresh_token (sample_verifier ?p) 9 sample_refresh sample_app_context sample_world) = Inr o'
    \<and> go_user o' = sample_user \<and> go_scope o' = opt_list (ta_scope sample_minting) \<and> go_refresh_family o' = Some ''fam''
    \<and> set (opt_or_nil (go_resource o')) = set (opt_or_nil (refresh_resources sample_minting))
    \<and> go_refresh_resource o' = opt_list (refresh_resources sample_minting)
    \<and> sanitize_claim_names (go_id_token_claims o') = sanitize_claim_names (ta_id_token_claims sample_minting)
    \<and> sanitize_claim_names (go_userinfo_claims o') = sanitize_claim_names (ta_userinfo_claims sample_minting)
    \<and> go_auth_time o' = (if wants_id_token sample_minting then Some (effective_auth_time 4 sample_minting) else None)"
    by (rule refresh_round_trip [where s = sample_settings and jti = "''j''", OF _ _ _ _ _ _ _ _ scope resources]) code_simp+
  then obtain o' where "fst (grant_refresh_token (sample_verifier ?p) 9 sample_refresh sample_app_context sample_world) = Inr o'"
    "go_scope o' = opt_list (ta_scope sample_minting)" "go_refresh_family o' = Some ''fam''"
    "go_refresh_resource o' = opt_list (refresh_resources sample_minting)"
    "go_auth_time o' = (if wants_id_token sample_minting then Some (effective_auth_time 4 sample_minting) else None)"
    by (elim exE conjE)
  then show ?thesis by (intro exI conjI) (assumption, simp_all add: sample_minting_values opt_list_def opt_true_def)
qed

text \<open>
  A refresh that asks for a resource outside the original grant is refused with \<open>invalid_target\<close>,
  but the rotating token is spent all the same: the claim comes before the resource check.
\<close>

theorem invalid_target_spends_the_refresh_token:
  assumes "refresh_payload_of L now rq ctx w = (Inr (p, user), w)"
    and "refresh_scope now rq ctx (the (claim_str p ''sub'')) p w = (Inr (scope, b), w)"
    and "claim_str p ''jti'' = Some j" "j \<noteq> []" "claim_strs p ''resource'' = Some original"
    and "get_client (w_config w) (gc_client_id ctx) = Some client" "rotates_for (w_settings w) (Some client)"
    and "\<not> fst (claim_refresh now p (Some client) w)"
    and "v \<in> set (getlist (rq_form rq) ''resource'')" "\<not> resource_permitted client (Some original) v"
  shows "(\<exists>r. fst (grant_refresh_token L now rq ctx w) = Inl r \<and> refused r)
    \<and> is_revoked (Some j) (w_revoked (snd (grant_refresh_token L now rq ctx w)))"
proof -
  obtain w1 where claim: "claim_refresh now p (Some client) w = (False, w1)"
    using assms(8) by (cases "claim_refresh now p (Some client) w") auto
  have c1: "w_config w1 = w_config w" using claim_refresh_config [OF claim] .
  have "token_entry (w_revoked w1) j \<noteq> None"
    using claim assms(3,4,7)
    by (auto simp: claim_refresh_def case_prod_beta Let_def claim_token_entry opt_true_def)
  then have spent: "is_revoked (Some j) (w_revoked w1)"
    by (simp add: is_revoked_def token_entry_def dhas_def)
  have bad: "\<not> resource_ok (resolve_resources (getlist (rq_form rq) ''resource'') client (Some original))"
    using assms(9,10) by (auto simp: resolve_resources_ok_iff)
  have "getlist (rq_form rq) ''resource'' \<noteq> []" using assms(9) by auto
  then show ?thesis using bad spent
    by (simp add: grant_refresh_token_def assms(1,2,5,6) seq_def spend_refresh_def claim
        resolve_token_resource_def Let_def refuse_def)
qed

theorem invalid_target_spends_the_refresh_token_witness:
  "(\<exists>r. fst (grant_refresh_token sample_lib 6 sample_wrong_target sample_app_context sample_world) = Inl r \<and> refused r)
    \<and> is_revoked (Some ''j1'') (w_revoked (snd (grant_refresh_token sample_lib 6 sample_wrong_target sample_app_context sample_world)))"
  by (rule invalid_target_spends_the_refresh_token [of _ _ _ _ _ sample_payload sample_user "Some ''profile email''" False _
        "[''https://api.example.com'']" sample_app "''https://other''"]) code_simp+

text \<open>
  A code verifier with a character outside ASCII is not refused: the exception of the S256 branch
  escapes from the handler, and the code stays in the store.
\<close>

theorem non_ascii_verifier_escapes:
  assumes "dget (w_codes w) code = Some a" "now \<le> ac_expires_at a" "\<not> ac_used a"
    and "ac_client_id a = gc_client_id ctx" "code \<noteq> []" "ac_redirect_uri a \<noteq> []"
    and "opt_true (ac_code_challenge a)" "ac_code_challenge_method a = Some ''S256''"
    and "param_or (rq_form rq) ''code'' [] = code" "param_or (rq_form rq) ''redirect_uri'' [] = ac_redirect_uri a"
    and "param (rq_form rq) ''code_verifier'' = Some v" "encode_ascii v = None"
  shows "grant_authorization_code now rq ctx w = (Inl (Inl RaiseUnicode), w)"
proof -
  have "opt_true (Some v)" using assms(12) by (cases v) (auto simp: opt_true_def encode_ascii_def)
  then have "consume_code now code (gc_client_id ctx) (ac_redirect_uri a) (Some v) (w_codes w) =
      (Inl UnicodeEncodeError, w_codes w)"
    using assms by (simp add: consume_code_def code_expired_def pkce_check_def verify_pkce_def)
  then show ?thesis using assms(5,6,9,10,11)
    by (simp add: grant_authorization_code_def redeem_code_def seq_def)
qed

theorem non_ascii_verifier_escapes_witness:
  "grant_authorization_code 6 sample_accented sample_web_context sample_challenged =
     (Inl (Inl RaiseUnicode), sample_challenged)"
  by (rule non_ascii_verifier_escapes [of _ "''c''" sample_code _ _ _ "[CHR 0xE9]"]) code_simp+

text \<open>
  What the token response holds is what the grant calls for: an ID token for the \<open>openid\<close> scope, a
  refresh token when one is to be issued, the lifetime in seconds; the generator moves on.
\<close>

theorem minted_tokens_match_the_request:
  assumes "create_token L now c cr n ta = Inr (r, n')"
  shows "dget r ''access_token'' = Some (JStr (access_token_at L now c cr n ta))
    \<and> ((\<exists>t. dget r ''id_token'' = Some t) \<longleftrightarrow> wants_id_token ta)
    \<and> ((\<exists>t. dget r ''refresh_token'' = Some t) \<longleftrightarrow> issues_refresh ta)
    \<and> dget r ''expires_in'' = Some (JInt (exp_minutes_of (c_settings c) ta * 60))
    \<and> n < n'"
proof -
  obtain i n2 f where m: "mint_id_token L now c cr (Suc n) ta (access_token_at L now c cr n ta) = Inr (i, n2)"
    "mint_refresh_token L now c cr n2 ta = (f, n')"
    "r = token_response (c_settings c) ta (access_token_at L now c cr n ta) f i"
    using assms by (auto simp: create_token_Inr)
  have "Suc n \<le> n2" "n2 \<le> n'"
    using m(1,2) by (auto simp: mint_id_token_Inr mint_refresh_token_def split: if_splits)
  then show ?thesis
    using create_token_refresh(1) [OF assms] create_token_id(1) [OF assms] by (simp add: m(3) token_response_get)
qed

theorem minted_tokens_match_the_request_witness:
  "\<exists>r n'. create_token sample_lib 5 sample_config sample_crypto 0 sample_service_minting = Inr (r, n')
     \<and> (\<exists>t. dget r ''refresh_token'' = Some t) \<and> 0 < n'"
proof -
  obtain r n' where c: "create_token sample_lib 5 sample_config sample_crypto 0 sample_service_minting = Inr (r, n')"
    using sample_minted by (cases "create_token sample_lib 5 sample_config sample_crypto 0 sample_service_minting") auto
  have "issues_refresh sample_service_minting" by code_simp
  then show ?thesis using minted_tokens_match_the_request [OF c] c by blast
qed

subsection \<open>Revocation, introspection and userinfo\<close>

text \<open>
  C11. Once the revocation endpoint has acted on a token, the token stays dead until it expires whatever
  requests follow: userinfo refuses it and introspection reports it inactive.
\<close>

theorem revoked_token_is_dead:
  assumes "carries L t p" "claim_str p ''jti'' = Some j" "dget p ''exp'' = Some (JInt E)"
    and "rv_wf (w_revoked w)" "revokes L now rq w p"
    and "\<forall>x \<in> set xs. \<forall>now. op_time x = Some now \<longrightarrow> now < secs E"
    and "w' = run (server_step L) (SRevoke now rq # xs) w"
  shows "(extract_bearer_token rq1 = Some t \<longrightarrow> refused (fst (userinfo L now1 rq1 w')))
    \<and> (param (rq_form rq1) ''token'' = Some t \<longrightarrow> fst (introspect L now1 rq1 w') \<in>
       {json_reply 401 [(''error'', JStr ''invalid_client'')], json_reply 200 [(''active'', JBool False)]})"
proof -
  have "token_spent (j, secs E) (w_revoked (snd (server_step L (SRevoke now rq) w)))"
    using revokes_spends [OF assms(5,2,3)] by simp
  then have "token_spent (j, secs E) (w_revoked w')"
    unfolding assms(7) run.simps by (intro token_spent_run step_rv_wf) (use assms in auto)
  then have "is_revoked (claim_str p ''jti'') (w_revoked w')" using assms(2) spent_is_revoked by simp
  then show ?thesis using assms(1) revoked_userinfo revoked_introspect by blast
qed

theorem revoked_token_is_dead_witness:
  "refused (fst (userinfo sample_lib 8 bearer_request (run (server_step sample_lib)
      [SRevoke 5 sample_revocation, SToken 6 sample_refresh] sample_world)))"
proof -
  let ?w = "run (server_step sample_lib) (SRevoke 5 sample_revocation # [SToken 6 sample_refresh]) sample_world"
  have "(extract_bearer_token bearer_request = Some ''at'' \<longrightarrow> refused (fst (userinfo sample_lib 8 bearer_request ?w)))
    \<and> (param (rq_form bearer_request) ''token'' = Some ''at'' \<longrightarrow> fst (introspect sample_lib 8 bearer_request ?w) \<in>
       {json_reply 401 [(''error'', JStr ''invalid_client'')], json_reply 200 [(''active'', JBool False)]})"
    by (rule revoked_token_is_dead [OF sample_carries(2) _ _ sample_rv_wf sample_revokes _ refl, of "''j2''" 1000])
       (simp_all add: sample_access_def claim_str_def dget_Cons secs_def)
  then show ?thesis using sample_bearer by blast
qed

text \<open>
  Userinfo answers only an access token that verifies for the audience of the server and is not
  revoked; a refresh token or an ID token is refused.
\<close>

theorem userinfo_answers_access_tokens_only:
  assumes "fst (userinfo L now rq w) = r" "\<not> refused r"
  shows "\<exists>t p. extract_bearer_token rq = Some t
     \<and> verify_jwt L now (w_crypto w) t (Some [s_audience (w_settings w)]) = Inr p
     \<and> dget p ''token_use'' \<notin> {Some (JStr ''id''), Some (JStr ''refresh'')}
     \<and> \<not> is_revoked (claim_str p ''jti'') (w_revoked w)"
  using assms
  by (cases "extract_bearer_token rq")
     (auto simp: userinfo_def Let_def split: if_splits sum.splits)

theorem userinfo_answers_access_tokens_only_witness:
  "\<exists>t p. extract_bearer_token bearer_request = Some t
     \<and> verify_jwt sample_lib 6 (w_crypto sample_world) t (Some [s_audience (w_settings sample_world)]) = Inr p"
  using userinfo_answers_access_tokens_only [OF refl sample_userinfo_served] by blast

text \<open>
  Introspection calls a token active only to an authenticated confidential client, and only a token
  that verifies, is not revoked and is no ID token.
\<close>

theorem introspection_needs_a_confidential_client:
  assumes "fst (introspect L now rq w) = json_reply 200 d" "dget d ''active'' = Some (JBool True)"
  shows "\<exists>client p. proves_client (w_config w) (request_client_identity rq) client
     \<and> verify_jwt L now (w_crypto w) (param_or (rq_form rq) ''token'' []) None = Inr p
     \<and> dget p ''token_use'' \<noteq> Some (JStr ''id'') \<and> \<not> is_revoked (claim_str p ''jti'') (w_revoked w)"
proof -
  have auth: "introspect_auth_error (w_config w) (request_client_identity rq) = None"
    using assms by (auto simp: introspect_def Let_def json_reply_def dget_Cons split: option.splits)
  then obtain client where c: "proves_client (w_config w) (request_client_identity rq) client"
    using enforce_ok_proves by (auto simp: introspect_auth_error_def split: if_splits)
  have "opt_true (param (rq_form rq) ''token'')"
  proof (rule ccontr)
    assume "\<not> opt_true (param (rq_form rq) ''token'')"
    then show False using assms auth by (auto simp: introspect_def json_reply_def dget_Cons)
  qed
  then have t: "param_or (rq_form rq) ''token'' [] = the (param (rq_form rq) ''token'')"
    by (auto simp: param_or_def param_def opt_true_def split: option.splits)
  show ?thesis
    by (rule exI [of _ client]) (use assms auth c t in \<open>auto simp: introspect_def Let_def json_reply_def dget_Cons
        split: sum.splits if_splits\<close>)
qed

theorem introspection_needs_a_confidential_client_witness:
  "\<exists>client. proves_client sample_config (request_client_identity sample_revocation) client"
  using introspection_needs_a_confidential_client [OF sample_introspected sample_introspected_active]
  by (auto simp: sample_world_def)

text \<open>
  A token is revoked only by an authenticated confidential client, or by the public client the token
  was issued to.
\<close>

theorem revocation_needs_ownership:
  assumes "w_revoked (snd (revoke_endpoint L now rq w)) \<noteq> w_revoked w"
  shows "revoke_auth_error (w_config w) (request_client_identity rq) = None
    \<and> (\<exists>p. verify_jwt L now (w_crypto w) (param_or (rq_form rq) ''token'' []) None = Inr p
      \<and> (if names_public_opt (w_config w) (ci_client_id (request_client_identity rq))
         then jget p ''client_id'' = map_option JStr (ci_client_id (request_client_identity rq))
         else \<exists>client. proves_client (w_config w) (request_client_identity rq) client))"
proof -
  let ?i = "request_client_identity rq"
  have auth: "revoke_auth_error (w_config w) ?i = None"
    using assms by (auto simp: revoke_endpoint_def Let_def split: option.splits)
  have "opt_true (param (rq_form rq) ''token'')"
  proof (rule ccontr)
    assume "\<not> opt_true (param (rq_form rq) ''token'')"
    then show False using assms auth by (simp add: revoke_endpoint_def)
  qed
  then have t: "param_or (rq_form rq) ''token'' [] = the (param (rq_form rq) ''token'')"
    by (auto simp: param_or_def param_def opt_true_def split: option.splits)
  have conf: "\<exists>client. proves_client (w_config w) ?i client" if "\<not> names_public_opt (w_config w) (ci_client_id ?i)"
    using auth that enforce_ok_proves by (auto simp: revoke_auth_error_def split: if_splits)
  show ?thesis using assms auth t conf
    by (auto simp: revoke_endpoint_def Let_def split: sum.splits if_splits)
qed

theorem revocation_needs_ownership_witness:
  "revoke_auth_error (w_config sample_world) (request_client_identity sample_revocation) = None
    \<and> (\<exists>p. verify_jwt sample_lib 5 (w_crypto sample_world) (param_or (rq_form sample_revocation) ''token'' []) None = Inr p)"
  using revocation_needs_ownership [OF sample_revocation_acts] by blast

subsection \<open>The authorization endpoint\<close>

text \<open>
  C6. The authorization endpoint sends the browser only to the redirect URI of the request, extended by
  response parameters, and that URI is acceptable in itself and, where the client named in the request
  has registered redirect URIs, one of them; a client that registered none is sent anywhere only
  outside the \<open>oauth21\<close> profile.
\<close>

theorem authorize_never_leaves_the_client:
  assumes "sends_to (fst (authorize L now rq w)) url"
  shows "\<exists>client uri q. get_client (w_config w) (ap_client_id (resolve_params rq w)) = Some client
     \<and> uri = ap_redirect_uri (resolve_params rq w) \<and> url = append_authorization_params uri q
     \<and> redirect_uri_rejection_reason uri = None
     \<and> (if cl_redirect_uris client = [] then s_security_profile (w_settings w) \<noteq> ''oauth21''
        else redirect_uri_is_registered uri (cl_redirect_uris client))"
  using authorize_sends [OF assms] by (auto simp: lands_on_client_def redirect_allowed_def)

theorem authorize_never_leaves_the_client_witness:
  "\<exists>client q. sends_to (fst (authorize sample_lib 5 sample_authorize sample_world))
       (append_authorization_params (ap_redirect_uri (resolve_params sample_authorize sample_world)) q)
     \<and> get_client sample_config (ap_client_id (resolve_params sample_authorize sample_world)) = Some client"
proof -
  obtain url where url: "sends_to (fst (authorize sample_lib 5 sample_authorize sample_world)) url"
    using sample_authorize_sends by blast
  show ?thesis using authorize_never_leaves_the_client [OF url] url by (auto simp: sample_world_def)
qed



text \<open>
  The form that is posted after the authorization request was read carries no query string, yet the
  request it is resolved to is the one that was read: it is kept in the session.
\<close>

theorem session_carries_the_request:
  assumes "rq_args rq' = []"
  shows "resolve_params rq' (snd (read_authorize_params rq w)) =
     (resolve_params rq w)\<lparr>ap_login_hint := []\<rparr>"
  using assms unfolding read_authorize_params_def Let_def prod.case snd_conv
  by (subst (1) resolve_params_def) (simp add: session_str_store param_or_def getlist_def Let_def)

theorem session_carries_the_request_witness:
  "resolve_params (sample_request ''POST'' [] []) (snd (read_authorize_params sample_authorize sample_world)) =
     (resolve_params sample_authorize sample_world)\<lparr>ap_login_hint := []\<rparr>"
  by (rule session_carries_the_request) code_simp

subsection \<open>The state of the server\<close>

text \<open>
  C14. Every request keeps the state well-formed: the codes in the stores were drawn from the generator,
  the stores are dictionaries, and the device store stays within its capacity.
\<close>

theorem server_state_stays_well_formed:
  assumes "inj (lib_urlsafe L)" "server_ok L w"
  shows "server_ok L (run (server_step L) xs w)"
  using assms(2) by (induction xs arbitrary: w) (simp_all add: step_server_ok [OF assms(1)])

theorem server_state_stays_well_formed_witness:
  "server_ok sample_lib (run (server_step sample_lib) sample_exchange_run sample_world)"
  by (rule server_state_stays_well_formed [OF sample_urlsafe_inj sample_server_ok])

subsection \<open>Keys\<close>

text \<open>
  Key rotation keeps the ring of public keys, its bound and its files: the retired key comes first,
  the oldest are dropped, and loading the files gives the same keys back.
\<close>

theorem rotation_keeps_the_ring:
  assumes "ring_stored c" "lib_uuid L n \<notin> set (map fst (jwks_keys c))"
  shows "ring_stored (rotate_keys L now n c) \<and> ring_bounded (rotate_keys L now n c)
    \<and> cr_previous_keys (rotate_keys L now n c) = take (cr_max_previous_keys c) (ring_after now c)
    \<and> load_crypto L k (cr_max_previous_keys c) (cr_files (rotate_keys L now n c)) = rotate_keys L now n c"
proof -
  have s: "ring_stored (rotate_keys L now n c)" by (rule rotate_stored [OF assms])
  have "cr_max_previous_keys (rotate_keys L now n c) = cr_max_previous_keys c"
    by (simp add: rotate_keys_eq Let_def)
  then show ?thesis using s rotate_bounded rotate_previous reload_stored [OF s, of L k] by simp
qed

theorem rotation_keeps_the_ring_witness:
  "ring_stored (rotate_keys sample_lib 7 1 sample_crypto)
    \<and> load_crypto sample_lib 0 (cr_max_previous_keys sample_crypto) (cr_files (rotate_keys sample_lib 7 1 sample_crypto)) =
       rotate_keys sample_lib 7 1 sample_crypto"
  using rotation_keeps_the_ring [OF sample_ring_stored sample_fresh_kid] by blast

text \<open>
  C37. From the first rotation on, a token the server signed and accepted before is refused, although the
  key that signed it is still among the published ones for as many rotations as there are previous
  keys: verification tries the active key only. The hypothesis on the signatures is that one made with
  the key of one draw does not verify with the key of another.
\<close>

theorem rotated_out_tokens_are_refused:
  assumes "\<forall>i j kid p t aud q. lib_jwt_decode L t (snd (lib_new_key L j)) aud
        (lib_jwt_encode L (fst (lib_new_key L i)) kid p) = Inr q \<longrightarrow> i = j"
    and "lib_new_key L m = (cr_priv_pem c, cr_pub_pem c)" "verify_jwt L now0 c (sign_jwt L c p) aud = Inr q"
    and "rs \<noteq> []" "m \<notin> snd ` set rs" "length rs \<le> cr_max_previous_keys c"
  shows "(\<exists>e. verify_jwt L now (rotations L rs c) (sign_jwt L c p) aud = Inl e)
    \<and> (cr_kid c, cr_pub_pem c) \<in> set (jwks_keys (rotations L rs c))"
proof -
  obtain t n before where rs: "rs = before @ [(t, n)]" using assms(4) by (metis rev_exhaust surj_pair)
  have "lib_jwt_decode L now (snd (lib_new_key L n)) aud (lib_jwt_encode L (fst (lib_new_key L m)) (cr_kid c) p) \<noteq> Inr x" for x
    using assms(1,5) by (force simp: rs)
  then have "\<exists>e. verify_jwt L now (rotations L rs c) (sign_jwt L c p) aud = Inl e"
    using assms(2) by (simp add: verify_jwt_def sign_jwt_def rs rotations_snoc rotate_active split: sum.split jwt_error.split)
  moreover have "(cr_kid c, cr_pub_pem c) \<in> set (jwks_keys (rotations L rs c))"
    by (rule rotations_publish [OF assms(6)])
  ultimately show ?thesis ..
qed

definition sample_signer :: lib where
  \<comment> \<open>a library whose tokens name the key that signed them\<close>
  "sample_signer = sample_lib\<lparr>lib_new_key := (\<lambda>n. (replicate n CHR ''k'', replicate n CHR ''k'')),
     lib_jwt_encode := (\<lambda>priv kid p. priv),
     lib_jwt_decode := (\<lambda>now pub aud t. if t = pub then Inr [] else Inl (JwtInvalid ''bad''))\<rparr>"

definition sample_signing_key :: crypto where
  "sample_signing_key = sample_crypto\<lparr>cr_priv_pem := ''kk'', cr_pub_pem := ''kk''\<rparr>"

theorem rotated_out_tokens_are_refused_witness:
  "verify_jwt sample_signer 5 sample_signing_key (sign_jwt sample_signer sample_signing_key []) None = Inr []
    \<and> (\<exists>e. verify_jwt sample_signer 9 (rotations sample_signer [(7, 3)] sample_signing_key)
        (sign_jwt sample_signer sample_signing_key []) None = Inl e)"
proof
  show v: "verify_jwt sample_signer 5 sample_signing_key (sign_jwt sample_signer sample_signing_key []) None = Inr []"
    by code_simp
  have keys: "\<forall>i j kid p t aud q. lib_jwt_decode sample_signer t (snd (lib_new_key sample_signer j)) aud
      (lib_jwt_encode sample_signer (fst (lib_new_key sample_signer i)) kid p) = Inr q \<longrightarrow> i = j"
    by (simp add: sample_signer_def)
  have "lib_new_key sample_signer 2 = (cr_priv_pem sample_signing_key, cr_pub_pem sample_signing_key)" by code_simp
  then show "\<exists>e. verify_jwt sample_signer 9 (rotations sample_signer [(7, 3)] sample_signing_key)
      (sign_jwt sample_signer sample_signing_key []) None = Inl e"
    using rotated_out_tokens_are_refused [OF keys _ v, of 2 "[(7, 3)]" 9]
    by (simp add: sample_signing_key_def sample_crypto_def)
qed

subsection \<open>Management\<close>

text \<open>
  With a management secret configured, a mutating API request without it changes nothing and is
  refused.
\<close>

theorem guarded_mutation_needs_the_secret:
  assumes "opt_true (s_management_secret (w_settings w))" "rq_method rq \<notin> set safe_methods"
    and "\<not> unlocked_in_session w" "rq_management_secret rq \<noteq> s_management_secret (w_settings w)"
  shows "snd (guarded management_secret_required_for_api view rq w) = w
    \<and> refused (fst (guarded management_secret_required_for_api view rq w))"
proof
  have no: "\<not> verify_management_secret (rq_management_secret rq) w"
    using assms(4) by (simp add: verify_management_secret_def verify_secret_iff)
  show "snd (guarded management_secret_required_for_api view rq w) = w"
    by (rule api_guard.mutation_blocked [OF assms(1-3) no])
  show "refused (fst (guarded management_secret_required_for_api view rq w))"
    using assms no by (simp add: guarded_def management_secret_required_for_api_def)
qed

theorem guarded_mutation_needs_the_secret_witness:
  "refused (fst (guarded management_secret_required_for_api (\<lambda>rq. clear_audit) sample_unlock sample_world))"
  using guarded_mutation_needs_the_secret [of sample_world sample_unlock "\<lambda>rq. clear_audit"] sample_locked
  by (simp add: sample_world_def sample_config_def sample_settings_def sample_unlock_def sample_request_def
      safe_methods_def opt_true_def)

end
